(* ===== verification/Prelude.thy ===== *)
theory Prelude imports Main "HOL-Library.Word" "HOL-Library.Multiset" begin

text \<open>
  The vocabulary shared by every component: identifiers, instants, the errors the
  code raises, the sequencing of steps that may raise, and the few facts on lists,
  sums and options that the component proofs use again and again.

  Conventions.  A Python \<open>int\<close> is an \<open>int\<close>; a \<open>uuid.UUID\<close> is its 128-bit
  value; a timezone-aware \<open>datetime\<close> is its instant in UTC, in microseconds; a
  Python exception is the left side of a sum and a returned value the right side.
  An \<open>AppError\<close> carries its code and its HTTP status; the human-readable message
  and the details dictionary are formatting and are not modelled.  A table of the
  database is the list of its rows in insertion order: \<open>db.add\<close> appends a row,
  \<open>select(...).where(c)\<close> is \<open>filter c\<close>, and the unique indexes and check
  constraints of the migrations are predicates that a commit has to satisfy.
\<close>

named_theorems result_simps \<open>unfolding the sequencing of steps that may raise\<close>
named_theorems key_simps \<open>the shape of identifiers and idempotency keys\<close>

type_synonym uuid = "128 word"
type_synonym instant = int

datatype app_error =
    AppError string nat
  | ValueError
  | TypeError
  | UnitError
  | DecimalError
  | IntegrityError string
  | MultipleResultsFound
  | PyError string

type_synonym 'a result = "app_error + 'a"

subsection \<open>Sequencing\<close>

definition and_then :: "'a result \<Rightarrow> ('a \<Rightarrow> 'b result) \<Rightarrow> 'b result" where
  "and_then m f = (case m of Inl e \<Rightarrow> Inl e | Inr x \<Rightarrow> f x)"

definition raise_if :: "bool \<Rightarrow> app_error \<Rightarrow> unit result" where
  "raise_if b e = (if b then Inl e else Inr ())"

definition or_raise :: "'a option \<Rightarrow> app_error \<Rightarrow> 'a result" where
  "or_raise x e = (case x of None \<Rightarrow> Inl e | Some v \<Rightarrow> Inr v)"

fun map_result :: "('a \<Rightarrow> 'b result) \<Rightarrow> 'a list \<Rightarrow> 'b list result" where
  "map_result f [] = Inr []"
| "map_result f (x # xs) =
     and_then (f x) (\<lambda>y. and_then (map_result f xs) (\<lambda>ys. Inr (y # ys)))"

lemma and_then_Inl [simp, result_simps]: "and_then (Inl e) f = Inl e"
  by (simp add: and_then_def)

lemma and_then_Inr [simp, result_simps]: "and_then (Inr x) f = f x"
  by (simp add: and_then_def)

lemma and_then_eq_Inr [result_simps]:
  "and_then m f = Inr y \<longleftrightarrow> (\<exists>x. m = Inr x \<and> f x = Inr y)"
  by (cases m) auto

lemma and_then_eq_Inl [result_simps]:
  "and_then m f = Inl e \<longleftrightarrow> m = Inl e \<or> (\<exists>x. m = Inr x \<and> f x = Inl e)"
  by (cases m) auto

lemma raise_if_eq_Inr [simp, result_simps]: "raise_if b e = Inr u \<longleftrightarrow> \<not> b"
  by (cases u) (simp add: raise_if_def)

lemma raise_if_eq_Inl [simp, result_simps]: "raise_if b e = Inl e' \<longleftrightarrow> b \<and> e' = e"
  by (auto simp: raise_if_def)

lemma raise_if_False [simp]: "raise_if False e = Inr ()"
  by (simp add: raise_if_def)

lemma raise_if_True [simp]: "raise_if True e = Inl e"
  by (simp add: raise_if_def)

lemma or_raise_simps [simp, result_simps]:
  "or_raise None e = Inl e" "or_raise (Some v) e = Inr v"
  by (simp_all add: or_raise_def)

lemma or_raise_eq_Inr [result_simps]: "or_raise x e = Inr v \<longleftrightarrow> x = Some v"
  by (cases x) auto

lemma or_raise_eq_Inl [result_simps]: "or_raise x e = Inl e' \<longleftrightarrow> x = None \<and> e' = e"
  by (cases x) auto

lemma map_result_eq_Inr:
  "map_result f xs = Inr ys \<longleftrightarrow> list_all2 (\<lambda>x y. f x = Inr y) xs ys"
proof (induction xs arbitrary: ys)
  case Nil
  then show ?case by auto
next
  case (Cons x xs)
  then show ?case by (cases ys) (auto simp: and_then_eq_Inr)
qed

lemma map_result_length: "map_result f xs = Inr ys \<Longrightarrow> length ys = length xs"
  by (auto simp: map_result_eq_Inr list_all2_lengthD)

lemma map_result_set:
  "map_result f xs = Inr ys \<Longrightarrow> y \<in> set ys \<Longrightarrow> \<exists>x \<in> set xs. f x = Inr y"
  by (fastforce simp: map_result_eq_Inr list_all2_conv_all_nth in_set_conv_nth)

lemma map_result_all:
  "map_result f xs = Inr ys \<Longrightarrow> x \<in> set xs \<Longrightarrow> \<exists>y \<in> set ys. f x = Inr y"
  by (fastforce simp: map_result_eq_Inr list_all2_conv_all_nth in_set_conv_nth)

lemma map_result_pure: "(\<And>x. x \<in> set xs \<Longrightarrow> f x = Inr (g x)) \<Longrightarrow> map_result f xs = Inr (map g xs)"
  by (induction xs) auto

subsection \<open>Rows of a table\<close>

text \<open>
  \<open>scalar_one_or_none\<close> of a query that selects the rows \<open>xs\<close>: None for no row, the
  row for one, an exception for more.
\<close>

definition scalar_one_or_none :: "'a list \<Rightarrow> 'a option result" where
  "scalar_one_or_none xs =
     (case xs of [] \<Rightarrow> Inr None | [x] \<Rightarrow> Inr (Some x) | _ \<Rightarrow> Inl MultipleResultsFound)"

lemma scalar_one_or_none_None [result_simps]:
  "scalar_one_or_none xs = Inr None \<longleftrightarrow> xs = []"
  by (auto simp: scalar_one_or_none_def split: list.splits)

lemma scalar_one_or_none_Some [result_simps]:
  "scalar_one_or_none xs = Inr (Some x) \<longleftrightarrow> xs = [x]"
  by (auto simp: scalar_one_or_none_def split: list.splits)

lemma scalar_one_or_none_simps [simp]:
  "scalar_one_or_none [] = Inr None" "scalar_one_or_none [x] = Inr (Some x)"
  by (simp_all add: scalar_one_or_none_def)

lemma scalar_one_or_none_filter:
  "scalar_one_or_none (filter P xs) = Inr (Some x) \<Longrightarrow> P x \<and> x \<in> set xs"
proof -
  assume "scalar_one_or_none (filter P xs) = Inr (Some x)"
  then have "filter P xs = [x]" by (simp add: scalar_one_or_none_Some)
  then have "x \<in> set (filter P xs)" by simp
  then show ?thesis by simp
qed

text \<open>
  A partial unique index: the rows whose key is not null carry pairwise different keys.
\<close>

definition unique_index :: "('r \<Rightarrow> 'k option) \<Rightarrow> 'r list \<Rightarrow> bool" where
  "unique_index key rows = distinct (List.map_filter key rows)"

lemma map_filter_append [simp]:
  "List.map_filter f (xs @ ys) = List.map_filter f xs @ List.map_filter f ys"
  by (simp add: List.map_filter_def)

lemma map_filter_Cons [simp]:
  "List.map_filter f (x # xs) =
     (case f x of None \<Rightarrow> List.map_filter f xs | Some k \<Rightarrow> k # List.map_filter f xs)"
  by (simp add: List.map_filter_def split: option.splits)

lemma map_filter_Nil [simp]: "List.map_filter f [] = []"
  by (simp add: List.map_filter_def)

lemma set_map_filter_iff: "k \<in> set (List.map_filter f xs) \<longleftrightarrow> (\<exists>x \<in> set xs. f x = Some k)"
  by (induction xs) (auto split: option.splits)

lemma unique_index_Nil [simp]: "unique_index key []"
  by (simp add: unique_index_def)

lemma unique_index_snoc:
  "unique_index key (rows @ [r]) \<longleftrightarrow>
     unique_index key rows \<and> (\<forall>k. key r = Some k \<longrightarrow> (\<forall>r' \<in> set rows. key r' \<noteq> Some k))"
  by (cases "key r") (auto simp: unique_index_def set_map_filter_iff)

lemma unique_index_one: "unique_index k [x]"
  using unique_index_snoc [of k "[]" x] by (simp add: unique_index_def)

lemma unique_index_append:
  "unique_index key (rows @ new) \<longleftrightarrow>
     unique_index key rows \<and> unique_index key new \<and>
     (\<forall>r \<in> set rows. \<forall>r' \<in> set new. key r = None \<or> key r \<noteq> key r')"
proof -
  have pt: "(\<forall>k. key r = Some k \<longrightarrow> key r' \<noteq> Some k) \<longleftrightarrow> key r = None \<or> key r \<noteq> key r'" for r r'
    by (cases "key r") auto
  have "set (List.map_filter key rows) \<inter> set (List.map_filter key new) = {} \<longleftrightarrow>
     (\<forall>r \<in> set rows. \<forall>r' \<in> set new. \<forall>k. key r = Some k \<longrightarrow> key r' \<noteq> Some k)"
    unfolding disjoint_iff set_map_filter_iff by blast
  also have "\<dots> \<longleftrightarrow> (\<forall>r \<in> set rows. \<forall>r' \<in> set new. key r = None \<or> key r \<noteq> key r')"
    by (simp only: pt)
  finally show ?thesis by (simp add: unique_index_def conj_assoc)
qed

lemma unique_index_eq:
  "unique_index key rows \<Longrightarrow> r \<in> set rows \<Longrightarrow> r' \<in> set rows \<Longrightarrow>
   key r = Some k \<Longrightarrow> key r' = Some k \<Longrightarrow> r = r'"
  by (induction rows) (auto simp: unique_index_def set_map_filter_iff split: option.splits)

lemma unique_index_filter_le_1:
  assumes "unique_index key rows" and "\<And>r. P r \<Longrightarrow> key r = Some k"
  shows "filter P rows = [] \<or> (\<exists>r. filter P rows = [r])"
  using assms(1)
proof (induction rows)
  case Nil
  then show ?case by simp
next
  case (Cons r rows)
  from Cons.prems have u: "unique_index key rows"
    by (auto simp: unique_index_def split: option.splits)
  show ?case
  proof (cases "P r")
    case True
    then have "key r = Some k" by (rule assms(2))
    with Cons.prems have "\<And>r'. r' \<in> set rows \<Longrightarrow> key r' \<noteq> Some k"
      by (auto simp: unique_index_def set_map_filter_iff)
    then have "filter P rows = []" using assms(2) by (auto simp: filter_empty_conv)
    with True show ?thesis by simp
  next
    case False
    with Cons.IH [OF u] show ?thesis by simp
  qed
qed

lemma find_SomeD: "find P xs = Some x \<Longrightarrow> x \<in> set xs \<and> P x"
  by (auto simp: find_Some_iff)

text \<open>Replacing every row that satisfies a condition, as an \<open>UPDATE ... WHERE\<close> does.\<close>

definition update_where :: "('r \<Rightarrow> bool) \<Rightarrow> ('r \<Rightarrow> 'r) \<Rightarrow> 'r list \<Rightarrow> 'r list" where
  "update_where P f rows = map (\<lambda>r. if P r then f r else r) rows"

lemma update_where_length [simp]: "length (update_where P f rows) = length rows"
  by (simp add: update_where_def)

lemma set_update_where:
  "set (update_where P f rows) = (\<lambda>r. if P r then f r else r) ` set rows"
  by (simp add: update_where_def)

lemma map_update_where:
  "(\<And>r. P r \<Longrightarrow> g (f r) = g r) \<Longrightarrow> map g (update_where P f rows) = map g rows"
  by (induction rows) (auto simp: update_where_def)

lemma filter_update_where:
  assumes "\<And>r. P r \<Longrightarrow> Q (f r) = Q r"
  shows "filter Q (update_where P f rows) = update_where P f (filter Q rows)"
  using assms by (induction rows) (auto simp: update_where_def)

lemma unique_index_update_where:
  assumes "\<And>r. P r \<Longrightarrow> key (f r) = key r"
  shows "unique_index key (update_where P f rows) = unique_index key rows"
proof -
  have "List.map_filter key (update_where P f rows) = List.map_filter key rows"
    using assms by (induction rows) (auto simp: update_where_def split: option.splits)
  then show ?thesis by (simp add: unique_index_def)
qed

text \<open>Rows that keep their key or lose it keep a unique index.\<close>

lemma unique_index_update_shrink:
  assumes "unique_index key rows" and "\<And>r. r \<in> set rows \<Longrightarrow> P r \<Longrightarrow> key (f r) = None \<or> key (f r) = key r"
  shows "unique_index key (update_where P f rows)"
proof -
  have k: "set (List.map_filter key (update_where P f rows)) \<subseteq> set (List.map_filter key rows) \<and>
     (distinct (List.map_filter key rows) \<longrightarrow> distinct (List.map_filter key (update_where P f rows)))"
    using assms(2)
  proof (induction rows)
    case Nil
    then show ?case by (simp add: update_where_def)
  next
    case (Cons r rows)
    let ?k = "List.map_filter key rows" and ?u = "List.map_filter key (update_where P f rows)"
    have IH: "set ?u \<subseteq> set ?k" "distinct ?k \<longrightarrow> distinct ?u" using Cons by auto
    have "key (if P r then f r else r) = None \<or> key (if P r then f r else r) = key r" using Cons.prems [of r] by auto
    with IH show ?case by (cases "key r") (auto simp: update_where_def split: option.splits)
  qed
  with assms(1) show ?thesis by (simp add: unique_index_def)
qed

lemma sum_list_update_where:
  "(\<And>r. P r \<Longrightarrow> g (f r) = g r) \<Longrightarrow>
   sum_list (map g (update_where P f rows)) = sum_list (map g rows)"
  by (simp add: map_update_where)

subsection \<open>Sums\<close>

lemma sum_list_filter_split:
  fixes f :: "'a \<Rightarrow> int"
  shows "sum_list (map f xs) = sum_list (map f (filter P xs)) + sum_list (map f (filter (\<lambda>x. \<not> P x) xs))"
  by (induction xs) auto

lemma sum_list_nonneg_int: "(\<And>x. x \<in> set xs \<Longrightarrow> 0 \<le> f x) \<Longrightarrow> (0::int) \<le> sum_list (map f xs)"
  by (induction xs) (auto intro: add_nonneg_nonneg)

lemma sum_list_map_filter_if:
  fixes f :: "'a \<Rightarrow> int"
  shows "sum_list (map f (filter P xs)) = sum_list (map (\<lambda>x. if P x then f x else 0) xs)"
  by (induction xs) auto

end
