(* ===== verification/PyDecimal.thy ===== *)
theory PyDecimal imports Prelude begin

text \<open>
  The part of Python's \<open>decimal\<close> module the code computes with, under the default
  context (28 significant digits, ROUND_HALF_EVEN): exact construction from an integer,
  multiplication, division, addition, and \<open>quantize(Decimal("1"), ROUND_HALF_UP)\<close>
  followed by \<open>int()\<close>.  A finite decimal is a coefficient and an exponent of ten;
  \<open>dec_div\<close> rounds the exact quotient correctly to 28 digits, as the module does,
  and brings an exact quotient as close to the ideal exponent as it can.

  The main result is \<open>dec_ratio_half_up\<close>: dividing and then quantizing rounds twice,
  once half-even at 28 digits and once half-up at the units, and yet the result is the
  exact half-up quotient whenever the numerator has at most 27 digits.
\<close>

datatype dec = Dec int int

definition prec :: nat where "prec = 28"

fun ndig :: "nat \<Rightarrow> nat" where
  "ndig n = (if n < 10 then 1 else Suc (ndig (n div 10)))"

declare ndig.simps [simp del]

text \<open>Half-even and half-up rounding of the quotient of a non-negative by a positive integer.\<close>

definition half_even :: "int \<Rightarrow> int \<Rightarrow> int" where
  "half_even n d =
     (let q = n div d; r = n mod d
      in if 2 * r < d then q else if d < 2 * r then q + 1 else if even q then q else q + 1)"

definition half_up :: "int \<Rightarrow> int \<Rightarrow> int" where
  "half_up n d = (2 * n + d) div (2 * d)"

definition half_up_signed :: "int \<Rightarrow> int \<Rightarrow> int" where
  "half_up_signed n d = (if n < 0 then - half_up (- n) d else half_up n d)"

definition dec_of_int :: "int \<Rightarrow> dec" where
  "dec_of_int n = Dec n 0"

text \<open>Rounding a coefficient that is too long for the context.\<close>

definition dec_fix :: "dec \<Rightarrow> dec" where
  "dec_fix x = (case x of Dec c e \<Rightarrow>
     (if \<bar>c\<bar> < 10 ^ prec then Dec c e
      else let k = ndig (nat \<bar>c\<bar>) - prec
           in Dec (sgn c * half_even \<bar>c\<bar> (10 ^ k)) (e + int k)))"

definition dec_mul :: "dec \<Rightarrow> dec \<Rightarrow> dec" where
  "dec_mul x y = (case (x, y) of (Dec a e, Dec b f) \<Rightarrow> dec_fix (Dec (a * b) (e + f)))"

definition dec_add :: "dec \<Rightarrow> dec \<Rightarrow> dec" where
  "dec_add x y = (case (x, y) of (Dec a e, Dec b f) \<Rightarrow>
     (let g = min e f in dec_fix (Dec (a * 10 ^ nat (e - g) + b * 10 ^ nat (f - g)) g)))"

text \<open>The scaled numerator and denominator of a quotient at exponent \<open>k\<close>.\<close>

definition scale_ratio :: "int \<Rightarrow> int \<Rightarrow> int \<Rightarrow> int \<times> int" where
  "scale_ratio n d k = (if 0 \<le> k then (n, d * 10 ^ nat k) else (n * 10 ^ nat (- k), d))"

definition div_exp :: "int \<Rightarrow> int \<Rightarrow> int" where
  "div_exp n d =
     (let k = int (ndig (nat n)) - int (ndig (nat d)) - int prec;
          (n', d') = scale_ratio n d k
      in if d' * 10 ^ prec \<le> n' then k + 1 else k)"

text \<open>Dropping at most \<open>j\<close> trailing zeros of a coefficient.\<close>

fun reduce_to :: "nat \<Rightarrow> int \<Rightarrow> int \<Rightarrow> dec" where
  "reduce_to 0 c e = Dec c e"
| "reduce_to (Suc j) c e = (if c mod 10 = 0 then reduce_to j (c div 10) (e + 1) else Dec c e)"

definition dec_div :: "dec \<Rightarrow> dec \<Rightarrow> dec result" where
  "dec_div x y = (case (x, y) of (Dec a e, Dec b f) \<Rightarrow>
     (if b = 0 then Inl DecimalError
      else let n = \<bar>a\<bar>; d = \<bar>b\<bar>; k = div_exp n d; (n', d') = scale_ratio n d k
           in Inr (let c = sgn a * sgn b * half_even n' d'
                   in if n' mod d' = 0 then reduce_to (nat (- k)) c (e - f + k)
                      else Dec c (e - f + k))))"

text \<open>\<open>int(x.quantize(Decimal("1"), rounding=ROUND_HALF_UP))\<close>: more than 28 digits raise.\<close>

definition dec_quantize_int :: "dec \<Rightarrow> int result" where
  "dec_quantize_int x = (case x of Dec c e \<Rightarrow>
     (let r = (if 0 \<le> e then c * 10 ^ nat e else half_up_signed c (10 ^ nat (- e)))
      in if 10 ^ prec \<le> \<bar>r\<bar> then Inl DecimalError else Inr r))"

subsection \<open>Rounding\<close>

lemma half_even_bounds:
  assumes "0 < d"
  shows "2 * n - d \<le> 2 * d * half_even n d" and "2 * d * half_even n d \<le> 2 * n + d"
proof -
  let ?q = "n div d" and ?r = "n mod d"
  have n: "n = d * ?q + ?r" by simp
  have r: "0 \<le> ?r" "?r < d" using assms by simp_all
  have "2 * n = 2 * (d * ?q + ?r)" by simp
  then have dq: "2 * d * ?q = 2 * n - 2 * ?r" by (simp only: algebra_simps)
  have dq1: "2 * d * (?q + 1) = 2 * n - 2 * ?r + 2 * d" using dq by (simp add: algebra_simps)
  show "2 * n - d \<le> 2 * d * half_even n d"
    using dq dq1 r by (auto simp: half_even_def Let_def)
  show "2 * d * half_even n d \<le> 2 * n + d"
    using dq dq1 r by (auto simp: half_even_def Let_def)
qed

lemma half_up_bounds:
  assumes "0 < d"
  shows "2 * d * half_up n d \<le> 2 * n + d" and "2 * n + d < 2 * d * half_up n d + 2 * d"
proof -
  have "2 * n + d = 2 * d * half_up n d + (2 * n + d) mod (2 * d)"
    by (simp add: half_up_def)
  moreover have "0 \<le> (2 * n + d) mod (2 * d)" "(2 * n + d) mod (2 * d) < 2 * d"
    using assms by simp_all
  ultimately show "2 * d * half_up n d \<le> 2 * n + d" "2 * n + d < 2 * d * half_up n d + 2 * d"
    by linarith+
qed

lemma half_up_unique:
  assumes "0 < d" and "2 * d * h \<le> 2 * n + d" and "2 * n + d < 2 * d * h + 2 * d"
  shows "half_up n d = h"
proof -
  have "(2 * n + d) div (2 * d) = h"
  proof (rule int_div_pos_eq [where r = "2 * n + d - 2 * d * h"])
    show "2 * n + d = 2 * d * h + (2 * n + d - 2 * d * h)" by simp
  qed (use assms in simp_all)
  then show ?thesis by (simp add: half_up_def)
qed

subsection \<open>Digits\<close>

lemma ndig_pos [simp]: "0 < ndig n"
  by (subst ndig.simps) simp

lemma ndig_upper: "n < 10 ^ ndig n"
proof (induction n rule: ndig.induct)
  case (1 n)
  show ?case
  proof (cases "n < 10")
    case True
    then show ?thesis by (simp add: ndig.simps [of n])
  next
    case False
    with 1 have "n div 10 < 10 ^ ndig (n div 10)" by simp
    then have "n < 10 * 10 ^ ndig (n div 10)" by linarith
    with False show ?thesis by (simp add: ndig.simps [of n])
  qed
qed

lemma ndig_le: "n < 10 ^ k \<Longrightarrow> 0 < k \<Longrightarrow> ndig n \<le> k"
proof (induction n arbitrary: k rule: ndig.induct)
  case (1 n)
  show ?case
  proof (cases "n < 10")
    case True
    with "1.prems" show ?thesis by (simp add: ndig.simps [of n])
  next
    case False
    with "1.prems" have "k \<noteq> 1" by auto
    with "1.prems" obtain j where k: "k = Suc j" and j: "0 < j" by (cases k) auto
    from "1.prems" k have "n div 10 < 10 ^ j" by (simp add: div_less_iff_less_mult mult.commute)
    from "1.IH" [OF False this j] have "ndig (n div 10) \<le> j" .
    with False k show ?thesis by (simp add: ndig.simps [of n])
  qed
qed

lemma int_ndig_upper: "0 \<le> d \<Longrightarrow> d < 10 ^ ndig (nat d)"
proof -
  assume "0 \<le> d"
  have "int (nat d) < int (10 ^ ndig (nat d))"
    using ndig_upper [of "nat d"] by (simp only: of_nat_less_iff)
  with \<open>0 \<le> d\<close> show ?thesis by simp
qed

lemma div_exp_neg:
  assumes n: "0 \<le> n" "n < 10 ^ 27" and d: "0 < d"
  obtains m where "div_exp n d = - int m" and "0 < m" and "d < 10 ^ m"
proof -
  let ?a = "ndig (nat n)" and ?b = "ndig (nat d)"
  have "int (nat n) < int (10 ^ 27)" using n by simp
  then have "nat n < 10 ^ 27" by (simp only: of_nat_less_iff)
  then have a: "?a \<le> 27" by (rule ndig_le) simp
  have b: "d < 10 ^ ?b" using d by (intro int_ndig_upper) simp
  have m1: "d < 10 ^ j" if "?b \<le> j" for j
  proof -
    have "(10::int) ^ ?b \<le> 10 ^ j" using that by (intro power_increasing) simp_all
    with b show ?thesis by linarith
  qed
  have "div_exp n d = - int (?b + 28 - ?a) \<or> div_exp n d = - int (?b + 27 - ?a)"
    using a by (simp add: div_exp_def prec_def Let_def split: prod.splits)
  then show thesis
    using that [of "?b + 28 - ?a"] that [of "?b + 27 - ?a"] m1 a ndig_pos [of "nat d"] by auto
qed

subsection \<open>Rounding twice is rounding once\<close>

lemma half_even_nonneg: "0 \<le> n \<Longrightarrow> 0 < d \<Longrightarrow> 0 \<le> half_even n d"
  by (auto simp: half_even_def Let_def pos_imp_zdiv_nonneg_iff)

lemma half_up_of_half_even:
  assumes n: "0 \<le> n" and d: "0 < d" and dm: "d < 10 ^ m" and m: "0 < m"
  shows "half_up (half_even (n * 10 ^ m) d) (10 ^ m) = half_up n d"
proof -
  define T :: int where "T = 10 ^ m"
  define c where "c = half_even (n * T) d"
  define h where "h = half_up n d"
  have T: "0 < T" by (simp add: T_def)
  have evT: "even T" using m by (simp add: T_def)
  have c1: "2 * (n * T) - d \<le> 2 * d * c" and c2: "2 * d * c \<le> 2 * (n * T) + d"
    unfolding c_def by (rule half_even_bounds [OF d])+
  have h1: "2 * d * h \<le> 2 * n + d" and h2: "2 * n + d < 2 * d * h + 2 * d"
    unfolding h_def by (rule half_up_bounds [OF d])+
  have "2 * T * h \<le> 2 * c + T"
  proof (rule ccontr)
    assume "\<not> ?thesis"
    then have "2 * c + T + 1 \<le> 2 * T * h" by simp
    moreover from evT obtain T' where "T = 2 * T'" by (elim evenE)
    then have "even (2 * c + T)" "even (2 * T * h)" by simp_all
    then have "2 * c + T + 1 \<noteq> 2 * T * h" by (metis even_plus_one_iff)
    ultimately have "2 * c + T + 2 \<le> 2 * T * h" by linarith
    then have "d * (2 * c + T + 2) \<le> d * (2 * T * h)" using d by (simp add: mult_left_mono)
    then have i: "2 * d * c + d * T + 2 * d \<le> 2 * d * h * T" by (simp add: algebra_simps)
    have "2 * d * h * T \<le> (2 * n + d) * T" using h1 T by (simp add: mult_right_mono)
    then have "2 * d * h * T \<le> 2 * (n * T) + d * T" by (simp add: algebra_simps)
    with i c1 d show False by linarith
  qed
  moreover have "2 * c + T < 2 * T * h + 2 * T"
  proof (rule ccontr)
    assume "\<not> ?thesis"
    then have "2 * T * h + T \<le> 2 * c" by simp
    then have "d * (2 * T * h + T) \<le> d * (2 * c)" using d by (simp add: mult_left_mono)
    then have i: "2 * d * h * T + d * T \<le> 2 * d * c" by (simp add: algebra_simps)
    have "(2 * n + d + 1) * T \<le> (2 * d * h + 2 * d) * T" using h2 T by (simp add: mult_right_mono)
    then have "2 * (n * T) + T \<le> 2 * d * h * T + d * T" by (simp add: algebra_simps)
    with i c2 dm show False unfolding T_def by linarith
  qed
  ultimately have "half_up c T = h" using T by (intro half_up_unique)
  then show ?thesis by (simp only: c_def T_def h_def)
qed

lemma half_up_nonneg: "0 \<le> n \<Longrightarrow> 0 < d \<Longrightarrow> 0 \<le> half_up n d"
  by (simp add: half_up_def pos_imp_zdiv_nonneg_iff)

lemma half_up_le: "0 \<le> n \<Longrightarrow> 0 < d \<Longrightarrow> half_up n d \<le> n + 1"
proof -
  assume n: "0 \<le> n" and d: "0 < d"
  have "d * half_up n d \<le> d * (n + 1)"
  proof -
    have "2 * d * half_up n d \<le> 2 * n + d" by (rule half_up_bounds(1) [OF d])
    moreover have "n \<le> d * n" using n d by (simp add: mult_le_cancel_right1)
    ultimately show ?thesis using d by (simp add: algebra_simps)
  qed
  with d show ?thesis by (simp add: mult_le_cancel_left)
qed

lemma half_up_signed_simps:
  "0 \<le> n \<Longrightarrow> half_up_signed n d = half_up n d"
  "n < 0 \<Longrightarrow> half_up_signed n d = - half_up (- n) d"
  by (simp_all add: half_up_signed_def)

lemma half_up_signed_minus: "0 < d \<Longrightarrow> half_up_signed (- n) d = - half_up_signed n d"
  by (cases "n = 0") (auto simp: half_up_signed_def half_up_def)

lemma half_up_signed_sgn:
  assumes "0 \<le> n" "0 < d" and s: "s = 1 \<or> s = -1 \<or> (s = 0 \<and> n = 0)"
  shows "half_up_signed (s * n) d = s * half_up n d"
proof -
  have "half_up 0 d = 0" using assms(2) by (simp add: half_up_def)
  with s show ?thesis
    using assms half_up_signed_minus [OF assms(2), of n] by (auto simp: half_up_signed_simps)
qed

lemma half_up_scale: "0 < k \<Longrightarrow> half_up (n * k) (d * k) = half_up n d"
proof -
  assume k: "0 < k"
  have "half_up (n * k) (d * k) = ((2 * n + d) * k) div ((2 * d) * k)"
    by (simp add: half_up_def algebra_simps)
  also have "\<dots> = half_up n d" using k by (simp add: half_up_def del: distrib_right_numeral)
  finally show ?thesis .
qed

lemma half_up_signed_scale: "0 < k \<Longrightarrow> half_up_signed (n * k) (d * k) = half_up_signed n d"
  using half_up_scale [of k n d] half_up_scale [of k "- n" d]
  by (simp add: half_up_signed_def mult_less_0_iff)

lemma dec_quantize_neg:
  "dec_quantize_int (Dec c (- int i)) =
     (let r = half_up_signed c (10 ^ i) in if 10 ^ prec \<le> \<bar>r\<bar> then Inl DecimalError else Inr r)"
proof (cases i)
  case 0
  have "half_up_signed c 1 = c" by (auto simp: half_up_signed_def half_up_def)
  with 0 show ?thesis by (simp add: dec_quantize_int_def)
next
  case (Suc k)
  then have "nat (- (- int i)) = i" "\<not> 0 \<le> - int i" by simp_all
  then show ?thesis by (simp only: dec_quantize_int_def dec.case if_False)
qed

lemma reduce_to_quantize:
  "j \<le> i \<Longrightarrow> dec_quantize_int (reduce_to j c (- int i)) = dec_quantize_int (Dec c (- int i))"
proof (induction j arbitrary: c i)
  case 0
  then show ?case by simp
next
  case (Suc j)
  then obtain k where i: "i = Suc k" by (cases i) auto
  show ?case
  proof (cases "c mod 10 = 0")
    case True
    then obtain q where q: "c = q * 10" by (metis mod_0_imp_dvd dvd_div_mult_self)
    have "half_up_signed c (10 ^ i) = half_up_signed q (10 ^ k)"
      using half_up_signed_scale [of 10 q "10 ^ k"] by (simp add: q i mult.commute)
    then have "dec_quantize_int (Dec q (- int k)) = dec_quantize_int (Dec c (- int i))"
      by (simp only: dec_quantize_neg)
    moreover have "dec_quantize_int (reduce_to j q (- int k)) = dec_quantize_int (Dec q (- int k))"
      using Suc.prems i by (intro Suc.IH) simp
    ultimately show ?thesis using i by (simp add: q)
  qed simp
qed

lemma reduce_to_shape:
  "reduce_to j c e = Dec c' e' \<Longrightarrow>
   \<exists>i \<le> j. e' = e + int i \<and> c = c' * 10 ^ i \<and> (i = j \<or> c' mod 10 \<noteq> 0)"
proof (induction j arbitrary: c e)
  case 0
  then show ?case by simp
next
  case (Suc j)
  show ?case
  proof (cases "c mod 10 = 0")
    case True
    with Suc obtain i where i: "i \<le> j" "e' = e + 1 + int i" "c div 10 = c' * 10 ^ i"
      "i = j \<or> c' mod 10 \<noteq> 0" by auto
    then have "c = c' * 10 ^ Suc i" using True by auto
    with i show ?thesis by (intro exI [of _ "Suc i"]) auto
  next
    case False
    with Suc.prems show ?thesis by (intro exI [of _ 0]) auto
  qed
qed

text \<open>A quotient by a power of ten is exact and keeps no more digits than the numerator.\<close>

lemma dec_div_power_ten:
  assumes a: "\<bar>a\<bar> < 10 ^ 25"
  obtains c i where "dec_div (Dec a e) (Dec (10 ^ p) f) = Inr (Dec c (e - f - int i))"
    and "i \<le> p" and "a * 10 ^ i = c * 10 ^ p"
proof -
  let ?n = "\<bar>a\<bar>"
  have "ndig (nat (10 ^ p)) = Suc p"
  proof -
    have "ndig (10 ^ p) = Suc p"
    proof (induction p)
      case (Suc p)
      then show ?case by (simp add: ndig.simps [of "10 * 10 ^ p"])
    qed (simp add: ndig.simps)
    then show ?thesis by (simp add: nat_power_eq)
  qed
  moreover have "ndig (nat ?n) \<le> 25"
  proof (rule ndig_le)
    have "int (nat ?n) < int (10 ^ 25)" using a by simp
    then show "nat ?n < 10 ^ 25" by (simp only: of_nat_less_iff)
  qed simp
  ultimately obtain m where k: "div_exp ?n (10 ^ p) = - int m" and m: "p \<le> m" "0 < m"
  proof -
    assume o: "ndig (nat (10 ^ p)) = Suc p" "ndig (nat ?n) \<le> 25"
      and t: "\<And>m. div_exp ?n (10 ^ p) = - int m \<Longrightarrow> p \<le> m \<Longrightarrow> 0 < m \<Longrightarrow> thesis"
    have "div_exp ?n (10 ^ p) = - int (p + 29 - ndig (nat ?n)) \<or>
          div_exp ?n (10 ^ p) = - int (p + 28 - ndig (nat ?n))"
      using o by (simp add: div_exp_def prec_def Let_def split: prod.splits)
    then show thesis
      using t [of "p + 29 - ndig (nat ?n)"] t [of "p + 28 - ndig (nat ?n)"] o(2) by auto
  qed
  have he: "half_even (x * 10 ^ m) (10 ^ p) = x * 10 ^ (m - p)" for x :: int
  proof -
    have "x * 10 ^ m = x * 10 ^ (m - p) * 10 ^ p"
      using m by (simp add: power_add [symmetric] mult.assoc del: mult_cancel_left)
    then show ?thesis by (simp only: half_even_def) simp
  qed
  have dv: "(?n * 10 ^ m) mod 10 ^ p = 0"
    using m by (simp add: le_imp_power_dvd)
  have sg: "sgn a * (?n * 10 ^ (m - p)) = a * 10 ^ (m - p)"
    by (simp only: mult.assoc [symmetric] sgn_mult_abs)
  have r: "dec_div (Dec a e) (Dec (10 ^ p) f) = Inr (reduce_to m (a * 10 ^ (m - p)) (e - f - int m))"
    using dv m(2) by (simp add: dec_div_def k scale_ratio_def he Let_def sg)
  obtain c e' where s: "reduce_to m (a * 10 ^ (m - p)) (e - f - int m) = Dec c e'"
    by (cases "reduce_to m (a * 10 ^ (m - p)) (e - f - int m)")
  from reduce_to_shape [OF s] obtain j where j: "j \<le> m" "e' = e - f - int m + int j"
    "a * 10 ^ (m - p) = c * 10 ^ j" "j = m \<or> c mod 10 \<noteq> 0" by auto
  have jp: "m - p \<le> j"
  proof (rule ccontr)
    assume "\<not> ?thesis"
    then obtain d where d: "m - p = j + Suc d" by (metis less_imp_Suc_add not_le add_Suc_right)
    then have "c * 10 ^ j = (a * 10 ^ Suc d) * 10 ^ j" using j(3) by (simp add: power_add)
    then have "c = a * 10 ^ Suc d" by simp
    then have "c mod 10 = 0" by simp
    with j(4) d m show False by auto
  qed
  have "a * 10 ^ (m - j) = c * 10 ^ p"
  proof -
    have "a * 10 ^ (m - j) * 10 ^ (m - p) = c * 10 ^ j * 10 ^ (m - j)"
      using j(3) by (simp add: mult.assoc mult.commute)
    also have "\<dots> = c * 10 ^ m" using j(1) by (simp add: power_add [symmetric])
    also have "\<dots> = c * 10 ^ p * 10 ^ (m - p)" using m by (simp add: power_add [symmetric])
    finally show ?thesis by simp
  qed
  then show thesis
    using that [of c "m - j"] r s j(1,2) jp m by (simp add: of_nat_diff)
qed

lemma dec_ratio_half_up:
  assumes a: "\<bar>a\<bar> < 10 ^ 27" and b: "0 < b"
  shows "and_then (dec_div (Dec a 0) (Dec b 0)) dec_quantize_int = Inr (half_up_signed a b)"
proof -
  from a b obtain m where k: "div_exp \<bar>a\<bar> b = - int m" and m: "0 < m" and bm: "b < 10 ^ m"
    using div_exp_neg [of "\<bar>a\<bar>" b] by auto
  define c where "c = half_even (\<bar>a\<bar> * 10 ^ m) b"
  have div: "dec_div (Dec a 0) (Dec b 0) = Inr (if \<bar>a\<bar> * 10 ^ m mod b = 0
      then reduce_to m (sgn a * c) (- int m) else Dec (sgn a * c) (- int m))"
    using b k m by (simp add: dec_div_def scale_ratio_def c_def)
  have c0: "0 \<le> c" using b by (simp add: c_def half_even_nonneg)
  have cz: "a = 0 \<Longrightarrow> c = 0" using b by (simp add: c_def half_even_def)
  have "half_up_signed (sgn a * c) (10 ^ m) = sgn a * half_up c (10 ^ m)"
    using c0 cz by (intro half_up_signed_sgn) (auto simp: sgn_if)
  also have "half_up c (10 ^ m) = half_up \<bar>a\<bar> b"
    unfolding c_def using b bm m by (intro half_up_of_half_even) simp_all
  also have "sgn a * half_up \<bar>a\<bar> b = half_up_signed (sgn a * \<bar>a\<bar>) b"
    using b by (intro half_up_signed_sgn [symmetric]) (auto simp: sgn_if)
  finally have r: "half_up_signed (sgn a * c) (10 ^ m) = half_up_signed a b"
    by (simp add: sgn_mult_abs)
  have "half_up \<bar>a\<bar> b \<le> \<bar>a\<bar> + 1" "0 \<le> half_up \<bar>a\<bar> b"
    using b by (simp_all add: half_up_le half_up_nonneg)
  then have "\<bar>half_up_signed a b\<bar> \<le> \<bar>a\<bar> + 1"
    by (auto simp: half_up_signed_def abs_if split: if_splits)
  with a have "\<not> 10 ^ prec \<le> \<bar>half_up_signed a b\<bar>" by (simp add: prec_def)
  with m r have "dec_quantize_int (Dec (sgn a * c) (- int m)) = Inr (half_up_signed a b)"
    by (simp add: dec_quantize_int_def)
  with div show ?thesis by (simp add: reduce_to_quantize)
qed

lemma dec_mul_int:
  "\<bar>a * b\<bar> < 10 ^ prec \<Longrightarrow> dec_mul (Dec a 0) (Dec b 0) = Dec (a * b) 0"
  by (simp add: dec_mul_def dec_fix_def)

lemma dec_add_int: "\<bar>a + b\<bar> < 10 ^ prec \<Longrightarrow> dec_add (Dec a 0) (Dec b 0) = Dec (a + b) 0"
  by (simp add: dec_add_def dec_fix_def)

lemma dec_quantize_int_of_int: "\<bar>n\<bar> < 10 ^ prec \<Longrightarrow> dec_quantize_int (Dec n 0) = Inr n"
  by (simp add: dec_quantize_int_def)

text \<open>
  The computation \<open>int((a * b / c).quantize(1, ROUND_HALF_UP))\<close> that the pricing, the
  recipes and the stock valuation share.
\<close>

definition dec_mul_div_int :: "int \<Rightarrow> int \<Rightarrow> int \<Rightarrow> int result" where
  "dec_mul_div_int a b c =
     and_then (dec_div (dec_mul (dec_of_int a) (dec_of_int b)) (dec_of_int c)) dec_quantize_int"

lemma dec_mul_div_int_exact:
  assumes "\<bar>a * b\<bar> < 10 ^ 27" and "0 < c"
  shows "dec_mul_div_int a b c = Inr (half_up_signed (a * b) c)"
proof -
  have "\<bar>a * b\<bar> < 10 ^ prec" using assms(1) by (simp add: prec_def)
  then show ?thesis
    using dec_ratio_half_up [OF assms] by (simp add: dec_mul_div_int_def dec_of_int_def dec_mul_int)
qed

lemma dec_mul_div_int_zero: "dec_mul_div_int a b 0 = Inl DecimalError"
  by (simp add: dec_mul_div_int_def dec_of_int_def dec_mul_def dec_fix_def dec_div_def Let_def
      split: dec.splits)

subsection \<open>The interface of a rounding division\<close>

text \<open>
  What the callers rely on: a quotient rounded to the nearest integer.  The laws are the
  two bounds; everything the money and stock arithmetic needs follows from them.
\<close>

locale nearest_division =
  fixes rdiv :: "int \<Rightarrow> int \<Rightarrow> int"
  assumes lower: "0 < d \<Longrightarrow> 2 * d * rdiv n d \<le> 2 * n + d"
    and upper: "0 < d \<Longrightarrow> 2 * n + d < 2 * d * rdiv n d + 2 * d"
begin

lemma exact: "0 < d \<Longrightarrow> rdiv (d * q) d = q"
proof -
  assume d: "0 < d"
  have "2 * d * rdiv (d * q) d \<le> 2 * (d * q) + d" by (rule lower [OF d])
  then have "d * (2 * rdiv (d * q) d) \<le> d * (2 * q + 1)" by (simp add: algebra_simps)
  then have u: "2 * rdiv (d * q) d \<le> 2 * q + 1" using d by (simp only: mult_le_cancel_left_pos)
  have "2 * (d * q) + d < 2 * d * rdiv (d * q) d + 2 * d" by (rule upper [OF d])
  then have "d * (2 * q + 1) < d * (2 * rdiv (d * q) d + 2)" by (simp add: algebra_simps)
  then have "2 * q + 1 < 2 * rdiv (d * q) d + 2" using d by (simp only: mult_less_cancel_left_pos)
  with u show ?thesis by linarith
qed

lemma mono: "0 < d \<Longrightarrow> n \<le> n' \<Longrightarrow> rdiv n d \<le> rdiv n' d"
proof -
  assume d: "0 < d" and nn: "n \<le> n'"
  have "2 * d * rdiv n d \<le> 2 * n + d" by (rule lower [OF d])
  also have "\<dots> \<le> 2 * n' + d" using nn by simp
  also have "\<dots> < 2 * d * rdiv n' d + 2 * d" by (rule upper [OF d])
  finally have "2 * d * rdiv n d < 2 * d * (rdiv n' d + 1)" by (simp add: algebra_simps)
  with d show ?thesis by (simp add: mult_less_cancel_left)
qed

lemma nonneg: "0 < d \<Longrightarrow> 0 \<le> n \<Longrightarrow> 0 \<le> rdiv n d"
  using mono [of d 0 n] exact [of d 0] by simp

lemma le_self: "0 < d \<Longrightarrow> n \<le> d * q \<Longrightarrow> rdiv n d \<le> q"
  using mono [of d n "d * q"] exact [of d q] by simp

lemma error_half: "0 < d \<Longrightarrow> \<bar>2 * (d * rdiv n d - n)\<bar> \<le> d"
  using lower [of d n] upper [of d n] by (simp add: algebra_simps)

lemma unique: "0 < d \<Longrightarrow> 2 * d * q \<le> 2 * n + d \<Longrightarrow> 2 * n + d < 2 * d * q + 2 * d \<Longrightarrow> rdiv n d = q"
proof -
  assume d: "0 < d" and q: "2 * d * q \<le> 2 * n + d" "2 * n + d < 2 * d * q + 2 * d"
  have "2 * d * rdiv n d < 2 * d * (q + 1)" "2 * d * q < 2 * d * (rdiv n d + 1)"
    using lower [OF d, of n] upper [OF d, of n] q by (simp_all add: algebra_simps)
  with d show ?thesis by (simp add: mult_less_cancel_left)
qed

end

interpretation hu: nearest_division half_up
  by unfold_locales (rule half_up_bounds; assumption)+

end
