(* ===== verification/PyString.thy ===== *)
theory PyString imports Prelude "HOL-Library.Sublist" begin

text \<open>
  The string operations the code uses, over strings of code points below 256 (a
  \<open>char\<close> is one code point): case folding, stripping, containment, splitting at a
  separator, decimal and hexadecimal rendering, and the textual form of a UUID.
  Outside this range (the sharp s, the micro sign and y with diaeresis, whose upper
  case is not a single code point below 256) \<open>upper\<close> leaves the character alone.
\<close>

abbreviation ord_of :: "char \<Rightarrow> nat" where "ord_of c \<equiv> of_char c"

definition is_space :: "char \<Rightarrow> bool" where
  "is_space c = (let n = ord_of c in (9 \<le> n \<and> n \<le> 13) \<or> (28 \<le> n \<and> n \<le> 32) \<or> n = 133 \<or> n = 160)"

text \<open>\<open>str.isdigit\<close> is true of the ASCII digits and of the superscripts two, three and one.\<close>

definition is_ascii_digit :: "char \<Rightarrow> bool" where
  "is_ascii_digit c = (48 \<le> ord_of c \<and> ord_of c \<le> 57)"

definition is_digit_char :: "char \<Rightarrow> bool" where
  "is_digit_char c = (is_ascii_digit c \<or> ord_of c \<in> {178, 179, 185})"

definition isdigit :: "string \<Rightarrow> bool" where
  "isdigit s = (s \<noteq> [] \<and> list_all is_digit_char s)"

definition lower_char :: "char \<Rightarrow> char" where
  "lower_char c = (let n = ord_of c
     in if (65 \<le> n \<and> n \<le> 90) \<or> (192 \<le> n \<and> n \<le> 222 \<and> n \<noteq> 215) then char_of (n + 32) else c)"

definition upper_char :: "char \<Rightarrow> char" where
  "upper_char c = (let n = ord_of c
     in if (97 \<le> n \<and> n \<le> 122) \<or> (224 \<le> n \<and> n \<le> 254 \<and> n \<noteq> 247) then char_of (n - 32) else c)"

definition lower :: "string \<Rightarrow> string" where "lower s = map lower_char s"
definition upper :: "string \<Rightarrow> string" where "upper s = map upper_char s"

definition strip :: "string \<Rightarrow> string" where
  "strip s = rev (dropWhile is_space (rev (dropWhile is_space s)))"

definition starts_with :: "string \<Rightarrow> string \<Rightarrow> bool" where
  "starts_with p s = (take (length p) s = p)"

definition ends_with :: "string \<Rightarrow> string \<Rightarrow> bool" where
  "ends_with p s = (drop (length s - length p) s = p)"

text \<open>\<open>p in s\<close>.\<close>

fun contains :: "string \<Rightarrow> string \<Rightarrow> bool" where
  "contains p [] = (p = [])"
| "contains p (c # s) = (starts_with p (c # s) \<or> contains p s)"

text \<open>\<open>s.split(sep)\<close> for a one-character separator, and \<open>s.split()\<close> at runs of spaces.\<close>

fun split_on :: "char \<Rightarrow> string \<Rightarrow> string list" where
  "split_on sep [] = [[]]"
| "split_on sep (c # s) =
     (if c = sep then [] # split_on sep s
      else case split_on sep s of [] \<Rightarrow> [[c]] | w # ws \<Rightarrow> (c # w) # ws)"

fun words_aux :: "string \<Rightarrow> string \<Rightarrow> string list" where
  "words_aux acc [] = (if acc = [] then [] else [rev acc])"
| "words_aux acc (c # s) =
     (if is_space c then (if acc = [] then words_aux [] s else rev acc # words_aux [] s)
      else words_aux (c # acc) s)"

definition split_words :: "string \<Rightarrow> string list" where
  "split_words s = words_aux [] s"

fun join :: "string \<Rightarrow> string list \<Rightarrow> string" where
  "join sep [] = []"
| "join sep [w] = w"
| "join sep (w # v # ws) = w @ sep @ join sep (v # ws)"

subsection \<open>Numbers as text\<close>

definition digit_char :: "nat \<Rightarrow> char" where
  "digit_char n = (if n < 10 then char_of (48 + n) else char_of (87 + n))"

text \<open>Exactly \<open>k\<close> digits in base \<open>b\<close>, most significant first.\<close>

fun fixed_digits :: "nat \<Rightarrow> nat \<Rightarrow> nat \<Rightarrow> string" where
  "fixed_digits b 0 n = []"
| "fixed_digits b (Suc k) n = fixed_digits b k (n div b) @ [digit_char (n mod b)]"

text \<open>\<open>str(n)\<close> of a non-negative integer.\<close>

fun nat_str :: "nat \<Rightarrow> string" where
  "nat_str n = (if n < 10 then [digit_char n] else nat_str (n div 10) @ [digit_char (n mod 10)])"

declare nat_str.simps [simp del]

text \<open>\<open>str(u)\<close>: 32 hexadecimal digits, hyphenated 8-4-4-4-12.\<close>

definition uuid_str :: "uuid \<Rightarrow> string" where
  "uuid_str u = (let h = fixed_digits 16 32 (unat u)
     in take 8 h @ ''-'' @ take 4 (drop 8 h) @ ''-'' @ take 4 (drop 12 h) @ ''-'' @
        take 4 (drop 16 h) @ ''-'' @ drop 20 h)"

lemma digit_char_inj: "m < 16 \<Longrightarrow> n < 16 \<Longrightarrow> digit_char m = digit_char n \<Longrightarrow> m = n"
proof -
  assume m: "m < 16" and n: "n < 16" and e: "digit_char m = digit_char n"
  have o: "ord_of (digit_char k) = (if k < 10 then 48 + k else 87 + k)" if "k < 16" for k
    using that by (simp add: digit_char_def)
  from e have "ord_of (digit_char m) = ord_of (digit_char n)" by simp
  with m n show ?thesis by (auto simp: o split: if_splits)
qed

lemma fixed_digits_length [simp]: "length (fixed_digits b k n) = k"
  by (induction k arbitrary: n) auto

lemma fixed_digits_inj:
  assumes "0 < b" "b \<le> 16"
  shows "fixed_digits b k m = fixed_digits b k n \<Longrightarrow> m < b ^ k \<Longrightarrow> n < b ^ k \<Longrightarrow> m = n"
proof (induction k arbitrary: m n)
  case 0
  then show ?case by simp
next
  case (Suc k)
  then have e: "fixed_digits b k (m div b) = fixed_digits b k (n div b)"
    and d: "digit_char (m mod b) = digit_char (n mod b)" by auto
  have "m div b < b ^ k" "n div b < b ^ k"
    using Suc.prems assms by (simp_all add: div_less_iff_less_mult mult.commute)
  with e have "m div b = n div b" by (rule Suc.IH)
  moreover have "m mod b < b" "n mod b < b" using assms by simp_all
  then have "m mod b < 16" "n mod b < 16" using assms by linarith+
  then have "m mod b = n mod b" using d by (rule digit_char_inj)
  ultimately show ?case by (metis div_mult_mod_eq)
qed

lemma digit_char_hyphen: "n < 16 \<Longrightarrow> digit_char n \<noteq> CHR ''-''"
proof
  assume "n < 16" and "digit_char n = CHR ''-''"
  then have "ord_of (digit_char n) = 45" by simp
  with \<open>n < 16\<close> show False by (simp add: digit_char_def split: if_splits)
qed

lemma fixed_digits_hyphen: "CHR ''-'' \<notin> set (fixed_digits 16 k n)"
proof (induction k arbitrary: n)
  case 0
  then show ?case by simp
next
  case (Suc k)
  have "CHR ''-'' \<noteq> digit_char (n mod 16)" by (rule digit_char_hyphen [THEN not_sym]) simp
  with Suc show ?case by simp
qed

lemma uuid_str_length [simp]: "length (uuid_str u) = 36"
  by (simp add: uuid_str_def Let_def)

lemma hyphenate_filter:
  assumes h: "CHR ''-'' \<notin> set h"
  shows "filter (\<lambda>c. c \<noteq> CHR ''-'') (take 8 h @ ''-'' @ take 4 (drop 8 h) @ ''-'' @
    take 4 (drop 12 h) @ ''-'' @ take 4 (drop 16 h) @ ''-'' @ drop 20 h) = h"
proof -
  have id: "filter (\<lambda>c. c \<noteq> CHR ''-'') xs = xs" if "set xs \<subseteq> set h" for xs
    using that h by (intro filter_True) auto
  have ids: "filter (\<lambda>c. c \<noteq> CHR ''-'') (take m (drop n h)) = take m (drop n h)"
    "filter (\<lambda>c. c \<noteq> CHR ''-'') (take m h) = take m h"
    "filter (\<lambda>c. c \<noteq> CHR ''-'') (drop n h) = drop n h" for m n
    by (rule id, meson order_trans set_drop_subset set_take_subset)+
  have p: "take 4 (drop n h) @ drop (n + 4) h = drop n h" for n
    by (metis append_take_drop_id drop_drop add.commute)
  have p8: "take 4 (drop 8 h) @ drop 12 h = drop 8 h"
    and p12: "take 4 (drop 12 h) @ drop 16 h = drop 12 h"
    and p16: "take 4 (drop 16 h) @ drop 20 h = drop 16 h"
    using p [of 8] p [of 12] p [of 16] by simp_all
  show ?thesis
    by (simp only: filter_append ids filter.simps if_False if_True simp_thms append_Nil p16 p12 p8 append_take_drop_id)
qed

lemma uuid_str_hex: "filter (\<lambda>c. c \<noteq> CHR ''-'') (uuid_str u) = fixed_digits 16 32 (unat u)"
  unfolding uuid_str_def Let_def by (rule hyphenate_filter [OF fixed_digits_hyphen])

lemma unat_uuid_bound: "unat (w :: uuid) < 16 ^ 32"
proof -
  have "unat w < 2 ^ 128" using unsigned_less [of w] by simp
  also have "(2::nat) ^ 128 = 16 ^ 32" by simp
  finally show ?thesis .
qed

lemma uuid_str_inj [key_simps]: "uuid_str u = uuid_str v \<longleftrightarrow> u = v"
proof
  assume "uuid_str u = uuid_str v"
  then have "fixed_digits 16 32 (unat u) = fixed_digits 16 32 (unat v)" by (metis uuid_str_hex)
  then have "unat u = unat v" using unat_uuid_bound unat_uuid_bound
    by (rule fixed_digits_inj [rotated 2]) simp_all
  then show "u = v" by (rule unsigned_word_eqI)
qed simp

lemma uuid_str_append_inj [key_simps]: "uuid_str u @ s = uuid_str v @ t \<longleftrightarrow> u = v \<and> s = t"
  by (simp add: append_eq_append_conv uuid_str_inj)

subsection \<open>Case folding and containment\<close>

lemma lower_length [simp]: "length (lower s) = length s" by (simp add: lower_def)

lemma starts_with_refl [simp]: "starts_with p (p @ s)" by (simp add: starts_with_def)

lemma starts_with_iff: "starts_with p s \<longleftrightarrow> (\<exists>t. s = p @ t)"
  by (auto simp: starts_with_def) (metis append_take_drop_id)

lemma contains_iff: "contains p s \<longleftrightarrow> (\<exists>a b. s = a @ p @ b)"
proof (induction s)
  case Nil
  then show ?case by auto
next
  case (Cons c s)
  show ?case
  proof
    assume "contains p (c # s)"
    then consider "starts_with p (c # s)" | "contains p s" by auto
    then show "\<exists>a b. c # s = a @ p @ b"
    proof cases
      case 1
      then obtain t where "c # s = [] @ p @ t" by (auto simp: starts_with_iff)
      then show ?thesis by blast
    next
      case 2
      with Cons obtain a b where "s = a @ p @ b" by auto
      then have "c # s = (c # a) @ p @ b" by simp
      then show ?thesis by blast
    qed
  next
    assume "\<exists>a b. c # s = a @ p @ b"
    then obtain a b where e: "c # s = a @ p @ b" by blast
    show "contains p (c # s)"
    proof (cases a)
      case Nil
      with e have "starts_with p (c # s)" by (auto simp: starts_with_iff)
      then show ?thesis by simp
    next
      case (Cons d a')
      with e have "s = a' @ p @ b" by simp
      with Cons.IH show ?thesis by auto
    qed
  qed
qed

lemma contains_refl [simp]: "contains s s"
  by (metis contains_iff append_Nil append_Nil2)

end
