(* ===== verification/PyDecimalText.thy ===== *)
theory PyDecimalText imports PyDecimal PyString begin

text \<open>
  \<open>Decimal(text)\<close>: the numeric strings the decimal module accepts, over ASCII digits.
  White space around and underscores inside are ignored; infinities and NaNs are
  values of the module but not finite decimals.
\<close>

datatype decimal_text = FiniteText dec | InfinityText | NanText | SignallingNanText | BadText

definition digit_value :: "char \<Rightarrow> int" where
  "digit_value c = int (ord_of c) - 48"

definition digits_value :: "string \<Rightarrow> int" where
  "digits_value s = foldl (\<lambda>n c. 10 * n + digit_value c) 0 s"

definition split_sign :: "string \<Rightarrow> bool \<times> string" where
  "split_sign s = (case s of [] \<Rightarrow> (False, [])
     | c # r \<Rightarrow> if c = CHR ''-'' then (True, r) else if c = CHR ''+'' then (False, r) else (False, s))"

definition all_digits :: "string \<Rightarrow> bool" where
  "all_digits s = list_all is_ascii_digit s"

definition exponent_of :: "string \<Rightarrow> int option" where
  "exponent_of s = (case s of [] \<Rightarrow> Some 0
     | c # r \<Rightarrow> if lower_char c \<noteq> CHR ''e'' then None
        else let (neg, d) = split_sign r
             in if d = [] \<or> \<not> all_digits d then None
                else Some (if neg then - digits_value d else digits_value d))"

definition decimal_of_string :: "string \<Rightarrow> decimal_text" where
  "decimal_of_string text =
     (let t = filter (\<lambda>c. c \<noteq> CHR ''_'') (strip text);
          (neg, r) = split_sign t;
          low = lower r
      in if low = ''inf'' \<or> low = ''infinity'' then InfinityText
         else if take 3 low = ''nan'' \<and> all_digits (drop 3 low) then NanText
         else if take 4 low = ''snan'' \<and> all_digits (drop 4 low) then SignallingNanText
         else let ip = takeWhile is_ascii_digit r;
                  rest = dropWhile is_ascii_digit r;
                  frac = (rest \<noteq> [] \<and> hd rest = CHR ''.'');
                  fp = (if frac then takeWhile is_ascii_digit (tl rest) else []);
                  tail = (if frac then dropWhile is_ascii_digit (tl rest) else rest)
              in if ip = [] \<and> fp = [] then BadText
                 else case exponent_of tail of
                        None \<Rightarrow> BadText
                      | Some e \<Rightarrow> FiniteText (Dec (if neg then - digits_value (ip @ fp) else digits_value (ip @ fp))
                                                (e - int (length fp))))"

lemma decimal_of_string_examples:
  "decimal_of_string '' 2.50 '' = FiniteText (Dec 250 (- 2))"
  "decimal_of_string ''-1e3'' = FiniteText (Dec (- 1) 3)"
  "decimal_of_string ''two'' = BadText"
  by code_simp+

end
