(* ===== verification/PyFloat.thy ===== *)
theory PyFloat imports PyDecimalText Complex_Main begin

text \<open>
  Python's \<open>float\<close>, as far as the spreadsheets are read with it: \<open>float(text)\<close>, a product and
  \<open>round\<close>.  A finite double is \<open>m * 2 ^ e\<close> with at most 53 bits in \<open>m\<close>; every operation rounds the
  exact result to the nearest double, ties to even.
\<close>

datatype pyfloat = Finite int int | Infinite bool | NotANumber

fun bits :: "nat \<Rightarrow> nat" where
  "bits n = (if n < 2 then 1 else Suc (bits (n div 2)))"

declare bits.simps [simp del]

definition scale_two :: "int \<Rightarrow> int \<Rightarrow> int \<Rightarrow> int \<times> int" where
  "scale_two n d k = (if 0 \<le> k then (n, d * 2 ^ nat k) else (n * 2 ^ nat (- k), d))"

text \<open>The exponent that leaves 53 bits of \<open>n / d\<close>, not below that of the subnormal numbers.\<close>

definition float_exp :: "int \<Rightarrow> int \<Rightarrow> int" where
  "float_exp n d =
     (let k = int (bits (nat n)) - int (bits (nat d)) - 53; (n', d') = scale_two n d k
      in max (if d' * 2 ^ 53 \<le> n' then k + 1 else k) (- 1074))"

definition float_of_ratio :: "bool \<Rightarrow> int \<Rightarrow> int \<Rightarrow> pyfloat" where
  "float_of_ratio neg n d =
     (if n = 0 then Finite 0 0
      else let k = float_exp n d; (n', d') = scale_two n d k; m = half_even n' d'
           in if 971 < k \<or> (k = 971 \<and> 2 ^ 53 \<le> m) then Infinite neg else Finite (if neg then - m else m) k)"

definition float_of_dec :: "dec \<Rightarrow> pyfloat" where
  "float_of_dec d = (case d of Dec c e \<Rightarrow>
     if 0 \<le> e then float_of_ratio (c < 0) (\<bar>c\<bar> * 10 ^ nat e) 1 else float_of_ratio (c < 0) \<bar>c\<bar> (10 ^ nat (- e)))"

text \<open>\<open>float(text)\<close>: like a decimal, but underscores only between digits and no payload on a nan.\<close>

fun underscores_ok :: "char option \<Rightarrow> string \<Rightarrow> bool" where
  "underscores_ok prior [] = True"
| "underscores_ok prior (c # s) =
     ((c = CHR ''_'' \<longrightarrow> (\<exists>b \<in> set_option prior. is_ascii_digit b) \<and> s \<noteq> [] \<and> is_ascii_digit (hd s)) \<and> underscores_ok (Some c) s)"

definition float_of_string :: "string \<Rightarrow> pyfloat result" where
  "float_of_string t =
     (if \<not> underscores_ok None (strip t) then Inl ValueError
      else case decimal_of_string t of
        FiniteText d \<Rightarrow> Inr (float_of_dec d)
      | InfinityText \<Rightarrow> Inr (Infinite (fst (split_sign (strip t))))
      | NanText \<Rightarrow> if lower (snd (split_sign (strip t))) = ''nan'' then Inr NotANumber else Inl ValueError
      | _ \<Rightarrow> Inl ValueError)"

definition float_times :: "pyfloat \<Rightarrow> int \<Rightarrow> pyfloat" where
  "float_times x n = (case x of
     Finite m e \<Rightarrow> if 0 \<le> e then float_of_ratio (m * n < 0) (\<bar>m * n\<bar> * 2 ^ nat e) 1 else float_of_ratio (m * n < 0) \<bar>m * n\<bar> (2 ^ nat (- e))
   | Infinite neg \<Rightarrow> if n = 0 then NotANumber else Infinite (neg \<noteq> (n < 0))
   | NotANumber \<Rightarrow> NotANumber)"

definition float_round :: "pyfloat \<Rightarrow> int result" where
  "float_round x = (case x of
     Finite m e \<Rightarrow> Inr (if 0 \<le> e then m * 2 ^ nat e else sgn m * half_even \<bar>m\<bar> (2 ^ nat (- e)))
   | Infinite _ \<Rightarrow> Inl (PyError ''OverflowError'')
   | NotANumber \<Rightarrow> Inl ValueError)"

text \<open>\<open>int(round(float(text) * 100))\<close>.\<close>

definition float_cents :: "string \<Rightarrow> int result" where
  "float_cents t = and_then (float_of_string t) (\<lambda>x. float_round (float_times x 100))"

subsection \<open>How far a double is from the exact result\<close>

definition float_value :: "pyfloat \<Rightarrow> real" where
  "float_value x = (case x of Finite m e \<Rightarrow> real_of_int m * 2 powi e | _ \<Rightarrow> 0)"

lemma half_even_error:
  assumes "0 < d"
  shows "\<bar>2 * (half_even n d * d - n)\<bar> \<le> d"
proof -
  define q r where "q = n div d" and "r = n mod d"
  have n: "n = q * d + r" "0 \<le> r" "r < d" using assms by (simp_all add: q_def r_def)
  have "(half_even n d = q \<and> 2 * r \<le> d) \<or> (half_even n d = q + 1 \<and> d \<le> 2 * r)"
    by (auto simp: half_even_def Let_def q_def[symmetric] r_def[symmetric])
  then show ?thesis
  proof
    assume "half_even n d = q \<and> 2 * r \<le> d"
    then have "half_even n d * d - n = - r" using n by simp
    then show ?thesis using n \<open>half_even n d = q \<and> 2 * r \<le> d\<close> by simp
  next
    assume h: "half_even n d = q + 1 \<and> d \<le> 2 * r"
    then have "half_even n d * d - n = d - r" using n by (simp add: algebra_simps)
    then show ?thesis using n h by simp
  qed
qed

lemma half_even_nearest:
  assumes "0 < d" "\<bar>2 * (n - v * d)\<bar> < d"
  shows "half_even n d = v"
proof -
  have "\<bar>2 * (half_even n d * d - n)\<bar> \<le> d" using assms(1) by (rule half_even_error)
  then have "\<bar>2 * ((half_even n d - v) * d)\<bar> < 2 * d" using assms(2) by (auto simp: algebra_simps abs_le_iff abs_less_iff)
  then have "\<bar>half_even n d - v\<bar> * d < 1 * d" using assms(1) by (simp add: abs_mult)
  then have "\<bar>half_even n d - v\<bar> < 1" using assms(1) by (simp only: mult_less_cancel_right)
  then show ?thesis by simp
qed

lemma bits_bounds: "0 < n \<Longrightarrow> 2 ^ (bits n - 1) \<le> n \<and> n < 2 ^ bits n \<and> 0 < bits n"
proof (induction n rule: bits.induct)
  case (1 n)
  show ?case
  proof (cases "n < 2")
    case False
    then have h: "2 ^ (bits (n div 2) - 1) \<le> n div 2" "n div 2 < 2 ^ bits (n div 2)" "0 < bits (n div 2)" using 1 by auto
    then have "2 * 2 ^ (bits (n div 2) - 1) \<le> n" "n < 2 * 2 ^ bits (n div 2)" by auto
    moreover have "bits n = Suc (bits (n div 2))" using False by (subst bits.simps) simp
    moreover have "2 * 2 ^ (bits (n div 2) - 1) = (2 :: nat) ^ bits (n div 2)" using h(3) by (cases "bits (n div 2)") auto
    ultimately show ?thesis by auto
  qed (use 1 in \<open>simp add: bits.simps\<close>)
qed

lemma scale_two_value:
  assumes "0 < d" "scale_two n d k = (n', d')"
  shows "0 < d'" "real_of_int n' / real_of_int d' = real_of_int n / real_of_int d * 2 powi (- k)"
  using assms by (auto simp: scale_two_def power_int_def divide_simps split: if_splits)

lemma real_bits: "0 < n \<Longrightarrow> 2 powi (int (bits (nat n)) - 1) \<le> real_of_int n \<and> real_of_int n < 2 powi int (bits (nat n))"
proof -
  assume n: "0 < n"
  then have b: "2 ^ (bits (nat n) - 1) \<le> nat n" "nat n < 2 ^ bits (nat n)" "0 < bits (nat n)" using bits_bounds[of "nat n"] by auto
  have "real (2 ^ (bits (nat n) - 1)) \<le> real (nat n)" using b(1) by (rule of_nat_mono)
  moreover have "real (nat n) < real (2 ^ bits (nat n))" using b(2) by (simp only: of_nat_less_iff)
  moreover have "int (bits (nat n)) - 1 = int (bits (nat n) - 1)" using b(3) by simp
  ultimately show ?thesis using n by (simp only: power_int_of_nat of_nat_power of_nat_numeral) simp
qed

lemma two_powi_less: "(2 :: real) powi a < 2 powi b \<Longrightarrow> a < b"
  by (rule ccontr) (use power_int_increasing[of b a "2 :: real"] in simp)

lemma float_exp_normal:
  assumes "0 < n" "0 < d" "2 powi (- 50) \<le> real_of_int n / real_of_int d" "real_of_int n / real_of_int d < 2 powi 50"
  shows "2 powi (float_exp n d + 52) \<le> real_of_int n / real_of_int d" "float_exp n d < 0"
proof -
  define q where "q = real_of_int n / real_of_int d"
  define k0 where "k0 = int (bits (nat n)) - int (bits (nat d)) - 53"
  obtain n' d' where nd: "scale_two n d k0 = (n', d')" by (cases "scale_two n d k0")
  note v = scale_two_value[OF assms(2) nd, folded q_def]
  have lo: "2 powi (k0 + 52) \<le> q"
  proof -
    have "2 powi (k0 + 52) * 2 powi int (bits (nat d)) = (2 :: real) powi (int (bits (nat n)) - 1)"
      by (subst power_int_add[symmetric]) (simp_all add: k0_def)
    then have "2 powi (k0 + 52) * real_of_int d \<le> real_of_int n"
      using real_bits[OF assms(1)] real_bits[OF assms(2)]
      by (smt (verit) mult_left_mono zero_le_power_int)
    then show ?thesis using assms(2) by (simp add: q_def pos_le_divide_eq)
  qed
  have hi: "q < 2 powi (k0 + 54)"
  proof -
    have e: "2 powi (k0 + 54) * 2 powi (int (bits (nat d)) - 1) = (2 :: real) powi int (bits (nat n))"
      by (simp add: k0_def power_int_add[symmetric])
    have "(2 :: real) powi (k0 + 54) * 2 powi (int (bits (nat d)) - 1) \<le> 2 powi (k0 + 54) * real_of_int d"
      using real_bits[OF assms(2)] by (intro mult_left_mono) simp_all
    with real_bits[OF assms(1)] e have "real_of_int n < 2 powi (k0 + 54) * real_of_int d" by linarith
    then show ?thesis using assms(2) by (simp add: q_def pos_divide_less_eq)
  qed
  have "2 powi (k0 + 52) < (2 :: real) powi 50" by (rule le_less_trans[OF lo assms(4)[folded q_def]])
  then have a: "k0 < - 2" using two_powi_less[of "k0 + 52" 50] by linarith
  have "(2 :: real) powi (- 50) < 2 powi (k0 + 54)" by (rule le_less_trans[OF assms(3)[folded q_def] hi])
  then have b: "- 104 < k0" using two_powi_less[of "- 50" "k0 + 54"] by linarith
  have f: "float_exp n d = (if d' * 2 ^ 53 \<le> n' then k0 + 1 else k0)"
    using a b nd by (auto simp: float_exp_def Let_def k0_def)
  have "2 powi (k0 + 53) \<le> q" if "d' * 2 ^ 53 \<le> n'"
  proof -
    have "real_of_int (d' * 2 ^ 53) \<le> real_of_int n'" using that by (simp only: of_int_le_iff)
    then have "2 ^ 53 \<le> real_of_int n' / real_of_int d'" using v(1) by (simp add: pos_le_divide_eq mult.commute)
    then have "2 powi 53 * 2 powi k0 \<le> q * 2 powi (- k0) * 2 powi k0" unfolding v(2) by (intro mult_right_mono) simp_all
    also have "(2 :: real) powi (- k0) * 2 powi k0 = 1" by (simp add: power_int_minus)
    then have "q * 2 powi (- k0) * 2 powi k0 = q" by (simp only: mult.assoc mult_1_right)
    finally show ?thesis by (simp add: power_int_add mult.commute)
  qed
  then show "2 powi (float_exp n d + 52) \<le> q" using lo by (simp add: f add.commute)
  show "float_exp n d < 0" using a by (simp add: f)
qed

lemma float_of_ratio_error:
  assumes "0 < n" "0 < d" "2 powi (- 50) \<le> real_of_int n / real_of_int d" "real_of_int n / real_of_int d < 2 powi 50"
  obtains m k where "float_of_ratio neg n d = Finite (if neg then - m else m) k" "k < 0"
    "\<bar>real_of_int m * 2 powi k - real_of_int n / real_of_int d\<bar> \<le> real_of_int n / real_of_int d / 2 ^ 53"
proof -
  define q where "q = real_of_int n / real_of_int d"
  define k where "k = float_exp n d"
  note e = float_exp_normal[OF assms, folded k_def q_def]
  obtain n' d' where nd: "scale_two n d k = (n', d')" by (cases "scale_two n d k")
  note v = scale_two_value[OF assms(2) nd, folded q_def]
  define m where "m = half_even n' d'"
  have "\<bar>real_of_int (2 * (m * d' - n'))\<bar> \<le> real_of_int d'"
    using half_even_error[OF v(1), of n'] by (simp only: m_def of_int_abs[symmetric] of_int_le_iff)
  then have "\<bar>2 * (real_of_int m - real_of_int n' / real_of_int d')\<bar> \<le> 1"
    using v(1) by (simp add: field_simps abs_le_iff)
  then have "\<bar>real_of_int m - q * 2 powi (- k)\<bar> \<le> 1 / 2" unfolding v(2) abs_mult by simp
  then have "\<bar>real_of_int m - q * 2 powi (- k)\<bar> * 2 powi k \<le> 1 / 2 * 2 powi k" by (intro mult_right_mono) simp_all
  then have "\<bar>(real_of_int m - q * 2 powi (- k)) * 2 powi k\<bar> \<le> 2 powi k / 2" by (simp add: abs_mult)
  moreover have "(real_of_int m - q * 2 powi (- k)) * 2 powi k = real_of_int m * 2 powi k - q"
    by (simp add: left_diff_distrib power_int_minus)
  moreover have "2 powi k / 2 \<le> q / 2 ^ 53" using e(1) by (simp add: power_int_add)
  ultimately have "\<bar>real_of_int m * 2 powi k - q\<bar> \<le> q / 2 ^ 53" by linarith
  moreover have "float_of_ratio neg n d = Finite (if neg then - m else m) k"
    using assms(1) nd e(2) by (simp add: float_of_ratio_def k_def[symmetric] m_def Let_def)
  ultimately show thesis using that e(2) by (simp add: q_def)
qed

lemma float_value_neg: "\<bar>float_value (Finite (if neg then - m else m) k)\<bar> = \<bar>real_of_int m * 2 powi k\<bar>"
  by (simp add: float_value_def)

text \<open>Two roundings of the double stay within half a cent of the exact amount.\<close>

lemma times_error:
  assumes m: "0 < m" "\<bar>real_of_int m * 2 powi k - v / 100\<bar> \<le> v / 100 / 2 ^ 53" "k < 0" and v: "1 \<le> v" "v < 2 ^ 49"
  obtains m' k' where "float_times (Finite (if neg then - m else m) k) 100 = Finite (if neg then - m' else m') k'" "k' < 0"
    "\<bar>real_of_int m' * 2 powi k' - v\<bar> < 1 / 2"
proof -
  define x where "x = real_of_int m * 2 powi k"
  have x: "\<bar>100 * x - v\<bar> \<le> v / 2 ^ 53" using m(2) by (simp add: x_def abs_le_iff field_simps)
  define n d where "n = m * 100" and "d = (2 :: int) ^ nat (- k)"
  have nd: "real_of_int n / real_of_int d = 100 * x" using m(3) by (simp add: n_def d_def x_def power_int_def divide_simps)
  have b: "2 powi (- 50) \<le> 100 * x" "100 * x < 2 powi 50"
  proof -
    have "v / 2 ^ 53 \<le> v / 2" using v by (simp add: divide_left_mono)
    then have "1 / 2 \<le> 100 * x" using x v by linarith
    then show "2 powi (- 50) \<le> 100 * x" by (simp add: power_int_minus divide_simps)
    have "v / 2 ^ 53 \<le> v" using v by (simp add: divide_le_eq)
    moreover have "(2 :: real) ^ 50 = 2 * 2 ^ 49" by simp
    ultimately have "100 * x < 2 ^ 50" using x v by linarith
    then show "100 * x < 2 powi 50" by simp
  qed
  obtain m' k' where r: "float_of_ratio neg n d = Finite (if neg then - m' else m') k'" "k' < 0"
    "\<bar>real_of_int m' * 2 powi k' - 100 * x\<bar> \<le> 100 * x / 2 ^ 53"
    by (rule float_of_ratio_error[of n d neg, unfolded nd]) (use b m(1) in \<open>simp_all add: n_def d_def\<close>)
  have "\<bar>real_of_int m' * 2 powi k' - v\<bar> \<le> 100 * x / 2 ^ 53 + v / 2 ^ 53" using r(3) x by linarith
  also have "\<dots> < 1 / 2" using b(2) v by (simp add: field_simps)
  finally have "\<bar>real_of_int m' * 2 powi k' - v\<bar> < 1 / 2" .
  moreover have "float_times (Finite (if neg then - m else m) k) 100 = float_of_ratio neg n d"
    using m(1,3) by (auto simp: float_times_def n_def d_def mult_less_0_iff)
  ultimately show thesis using that r by simp
qed

lemma scaled_error:
  assumes "0 < D" "\<bar>a / D - v\<bar> < 1 / 2"
  shows "\<bar>2 * (a - v * D)\<bar> < (D :: real)"
proof -
  have "\<bar>a / D - v\<bar> * D < 1 / 2 * D" using assms(2,1) by (rule mult_strict_right_mono)
  moreover have "\<bar>a / D - v\<bar> * D = \<bar>(a / D - v) * D\<bar>" using assms(1) by (simp add: abs_mult)
  moreover have "(a / D - v) * D = a - v * D" using assms(1) by (simp add: field_simps)
  ultimately have "\<bar>a - v * D\<bar> < D / 2" by simp
  then have "2 * \<bar>a - v * D\<bar> < D" by simp
  then show ?thesis by (simp only: abs_mult abs_numeral)
qed

lemma round_nearest:
  assumes "k < 0" "\<bar>real_of_int m * 2 powi k - real_of_int v\<bar> < 1 / 2" "0 < v"
  shows "float_round (Finite (if neg then - m else m) k) = Inr (if neg then - v else v)"
proof -
  let ?d = "(2 :: int) ^ nat (- k)"
  have "real_of_int m * 2 powi k = real_of_int m / real_of_int ?d" using assms(1) by (simp add: power_int_def divide_simps)
  with assms(2) have "\<bar>real_of_int m / real_of_int ?d - real_of_int v\<bar> < 1 / 2" by simp
  then have "\<bar>2 * (real_of_int m - real_of_int v * real_of_int ?d)\<bar> < real_of_int ?d" by (rule scaled_error[rotated]) simp
  then have "real_of_int \<bar>2 * (m - v * ?d)\<bar> < real_of_int ?d" by simp
  then have e: "\<bar>2 * (m - v * ?d)\<bar> < ?d" by (simp only: of_int_less_iff)
  have h: "half_even m ?d = v" by (rule half_even_nearest) (use e in simp_all)
  have "0 < m"
  proof -
    have "0 < ?d" "1 * ?d \<le> v * ?d" using assms(3) by (simp, intro mult_right_mono) simp_all
    then show ?thesis using e unfolding abs_less_iff by (smt (verit))
  qed
  then show ?thesis using assms(1) h by (simp add: float_round_def)
qed

lemma float_of_dec_ratio:
  assumes "- 2 \<le> e"
  obtains n d where "float_of_dec (Dec c e) = float_of_ratio (c < 0) n d" "0 < d" "0 \<le> n" "n = 0 \<longleftrightarrow> c = 0"
    "real_of_int n / real_of_int d = real_of_int (\<bar>c\<bar> * 10 ^ nat (e + 2)) / 100"
proof (cases "0 \<le> e")
  case True
  then have "nat (e + 2) = nat e + 2" by simp
  with True show thesis by (intro that[of "\<bar>c\<bar> * 10 ^ nat e" 1]) (simp_all add: float_of_dec_def power_add)
next
  case False
  then have "nat (e + 2) + nat (- e) = 2" using assms by simp
  then have "(10 :: real) ^ nat (e + 2) * 10 ^ nat (- e) = 100" by (simp only: power_add[symmetric]) simp
  then have "(10 :: real) ^ nat (e + 2) / 100 = 1 / 10 ^ nat (- e)" by (simp add: field_simps)
  with False show thesis by (intro that[of "\<bar>c\<bar>" "10 ^ nat (- e)"]) (simp_all add: float_of_dec_def)
qed

lemma float_cents_exact:
  assumes "decimal_of_string t = FiniteText (Dec c e)" "underscores_ok None (strip t)" "- 2 \<le> e" "\<bar>c\<bar> * 10 ^ nat (e + 2) < 2 ^ 49"
  shows "float_cents t = Inr (c * 10 ^ nat (e + 2))"
proof -
  obtain n d where f: "float_of_dec (Dec c e) = float_of_ratio (c < 0) n d" and d: "0 < d" "0 \<le> n" "n = 0 \<longleftrightarrow> c = 0"
    and q: "real_of_int n / real_of_int d = real_of_int (\<bar>c\<bar> * 10 ^ nat (e + 2)) / 100"
    using assms(3) by (rule float_of_dec_ratio)
  have t: "float_cents t = float_round (float_times (float_of_ratio (c < 0) n d) 100)"
    using assms(1,2) f by (simp add: float_cents_def float_of_string_def)
  show ?thesis
  proof (cases "c = 0")
    case True
    then show ?thesis using t d by (simp add: float_of_ratio_def float_times_def float_round_def)
  next
    case False
    define v where "v = \<bar>c\<bar> * 10 ^ nat (e + 2)"
    have v: "1 \<le> v" "v < 2 ^ 49" using False assms(4) by (simp_all add: v_def int_one_le_iff_zero_less)
    have rv: "1 \<le> real_of_int v" "real_of_int v < 2 ^ 49" using v by (simp, simp)
    have b: "2 powi (- 50) \<le> real_of_int v / 100" "real_of_int v / 100 < 2 powi 50" using rv by (simp_all add: power_int_minus)
    have n: "0 < n" using d False by auto
    obtain m k where x: "float_of_ratio (c < 0) n d = Finite (if c < 0 then - m else m) k" "k < 0"
      "\<bar>real_of_int m * 2 powi k - real_of_int v / 100\<bar> \<le> real_of_int v / 100 / 2 ^ 53"
      by (rule float_of_ratio_error[OF n d(1), of "c < 0", unfolded q, folded v_def]) (use b in auto)
    have "0 < real_of_int m * 2 powi k"
    proof -
      have "real_of_int v / 100 / 2 ^ 53 < real_of_int v / 100" using rv by (simp add: divide_less_eq)
      then show ?thesis using x(3) by linarith
    qed
    then have m: "0 < m" by (simp add: zero_less_mult_iff) (use zero_less_power_int[of "2 :: real" k] in linarith)
    obtain m' k' where y: "float_times (Finite (if c < 0 then - m else m) k) 100 = Finite (if c < 0 then - m' else m') k'" "k' < 0"
      "\<bar>real_of_int m' * 2 powi k' - real_of_int v\<bar> < 1 / 2"
      using m x(3,2) rv by (rule times_error)
    have "float_round (Finite (if c < 0 then - m' else m') k') = Inr (if c < 0 then - v else v)"
      using y(2,3) v(1) by (intro round_nearest) simp_all
    then show ?thesis using t x(1) y(1) by (simp add: v_def split: if_splits)
  qed
qed

end
