(* ===== verification/Consumption.thy ===== *)
theory Consumption imports PyDecimal begin

text \<open>
  \<^verbatim>\<open>backend/app/inventory/consumption.py\<close>: the resolution of sold line items into
  ingredient consumption.  A Python dictionary that is filled while a second list
  records the order of its keys is an association list in insertion order, and
  \<open>bump\<close> is the nested function \<open>add\<close>.
\<close>

record recipe_line_spec =
  rl_ingredient_id :: uuid
  rl_quantity_milli :: int
  rl_option_id :: "string option"
  rl_removable_ref_id :: "string option"

record recipe_spec =
  rs_lines :: "recipe_line_spec list"
  rs_yield_qty :: int

record add_on_selection_spec =
  as_add_on_id :: uuid
  as_quantity :: int

record line_item_spec =
  li_menu_item_id :: uuid
  li_quantity :: int
  li_selected_option_ids :: "(string \<times> string) list"
  li_add_on_selections :: "add_on_selection_spec list"
  li_removed_ref_ids :: "string list"

type_synonym consumption = "(uuid \<times> int) list"

record consumption_result =
  cr_lines :: consumption
  cr_menu_items_without_recipe :: "uuid list"

text \<open>\<open>totals[i] += amount\<close>, entering the key at the end when it is new.\<close>

fun add_to :: "uuid \<Rightarrow> int \<Rightarrow> consumption \<Rightarrow> consumption" where
  "add_to i amount [] = [(i, amount)]"
| "add_to i amount ((j, n) # rest) = (if i = j then (j, n + amount) # rest else (j, n) # add_to i amount rest)"

definition bump :: "uuid \<Rightarrow> int \<Rightarrow> consumption \<Rightarrow> consumption" where
  "bump i amount totals = (if amount = 0 then totals else add_to i amount totals)"

definition scale :: "int \<Rightarrow> int \<Rightarrow> int \<Rightarrow> int result" where
  "scale quantity_milli multiplier yield_qty =
     and_then (raise_if (yield_qty \<le> 0) ValueError) (\<lambda>_.
       dec_mul_div_int quantity_milli multiplier yield_qty)"

definition truthy :: "string option \<Rightarrow> bool" where
  "truthy s = (case s of None \<Rightarrow> False | Some t \<Rightarrow> t \<noteq> [])"

text \<open>Rules 2 and 1: a removed ingredient, and an option that was not selected.\<close>

definition line_applies :: "string set \<Rightarrow> string set \<Rightarrow> recipe_line_spec \<Rightarrow> bool" where
  "line_applies selected removed l =
     (\<not> (truthy (rl_removable_ref_id l) \<and> the (rl_removable_ref_id l) \<in> removed) \<and>
      (rl_option_id l = None \<or> the (rl_option_id l) \<in> selected))"

fun consume_lines ::
  "string set \<Rightarrow> string set \<Rightarrow> int \<Rightarrow> int \<Rightarrow> recipe_line_spec list \<Rightarrow> consumption \<Rightarrow> consumption result" where
  "consume_lines selected removed multiplier yield_qty [] totals = Inr totals"
| "consume_lines selected removed multiplier yield_qty (l # ls) totals =
     (if line_applies selected removed l
      then and_then (scale (rl_quantity_milli l) multiplier yield_qty) (\<lambda>amount.
             consume_lines selected removed multiplier yield_qty ls
               (bump (rl_ingredient_id l) amount totals))
      else consume_lines selected removed multiplier yield_qty ls totals)"

fun consume_add_ons ::
  "string set \<Rightarrow> string set \<Rightarrow> int \<Rightarrow> (uuid \<Rightarrow> recipe_spec option) \<Rightarrow> add_on_selection_spec list \<Rightarrow>
   consumption \<Rightarrow> consumption result" where
  "consume_add_ons selected removed qty recipes [] totals = Inr totals"
| "consume_add_ons selected removed qty recipes (s # ss) totals =
     (case recipes (as_add_on_id s) of
        None \<Rightarrow> consume_add_ons selected removed qty recipes ss totals
      | Some r \<Rightarrow>
          and_then (consume_lines selected removed (qty * max 0 (as_quantity s)) (rs_yield_qty r) (rs_lines r) totals)
            (consume_add_ons selected removed qty recipes ss))"

definition selected_ids :: "line_item_spec \<Rightarrow> string set" where
  "selected_ids item = {v \<in> set (map snd (li_selected_option_ids item)). v \<noteq> []}"

definition removed_ids :: "line_item_spec \<Rightarrow> string set" where
  "removed_ids item = set (li_removed_ref_ids item)"

definition resolve_line_item ::
  "line_item_spec \<Rightarrow> recipe_spec option \<Rightarrow> (uuid \<Rightarrow> recipe_spec option) \<Rightarrow> consumption result" where
  "resolve_line_item item item_recipe add_on_recipes =
     and_then
       (case item_recipe of
          None \<Rightarrow> Inr []
        | Some r \<Rightarrow> consume_lines (selected_ids item) (removed_ids item) (li_quantity item)
                      (rs_yield_qty r) (rs_lines r) [])
       (consume_add_ons (selected_ids item) (removed_ids item) (li_quantity item)
          add_on_recipes (li_add_on_selections item))"

definition merge_consumption :: "consumption \<Rightarrow> consumption \<Rightarrow> consumption" where
  "merge_consumption cs totals = fold (\<lambda>(i, n). add_to i n) cs totals"

fun resolve_items ::
  "line_item_spec list \<Rightarrow> (uuid \<Rightarrow> recipe_spec option) \<Rightarrow> (uuid \<Rightarrow> recipe_spec option) \<Rightarrow>
   consumption \<Rightarrow> uuid list \<Rightarrow> consumption_result result" where
  "resolve_items [] item_recipes add_on_recipes totals missing =
     Inr \<lparr>cr_lines = totals, cr_menu_items_without_recipe = missing\<rparr>"
| "resolve_items (item # items) item_recipes add_on_recipes totals missing =
     (let recipe = item_recipes (li_menu_item_id item);
          missing' = (if recipe = None \<and> li_menu_item_id item \<notin> set missing
                      then missing @ [li_menu_item_id item] else missing)
      in and_then (resolve_line_item item recipe add_on_recipes) (\<lambda>cs.
           resolve_items items item_recipes add_on_recipes (merge_consumption cs totals) missing'))"

definition resolve_order ::
  "line_item_spec list \<Rightarrow> (uuid \<Rightarrow> recipe_spec option) \<Rightarrow> (uuid \<Rightarrow> recipe_spec option) \<Rightarrow>
   consumption_result result" where
  "resolve_order items item_recipes add_on_recipes = resolve_items items item_recipes add_on_recipes [] []"

subsection \<open>Totals\<close>

text \<open>How much of an ingredient a consumption contains.\<close>

definition amount_of :: "uuid \<Rightarrow> consumption \<Rightarrow> int" where
  "amount_of i cs = sum_list (map snd (filter (\<lambda>(j, n). j = i) cs))"

lemma amount_of_simps [simp]:
  "amount_of i [] = 0"
  "amount_of i ((j, n) # cs) = (if j = i then n else 0) + amount_of i cs"
  by (simp_all add: amount_of_def)

lemma amount_of_add_to [simp]: "amount_of i (add_to j n cs) = (if j = i then n else 0) + amount_of i cs"
  by (induction j n cs rule: add_to.induct) auto

lemma add_to_keys: "set (map fst (add_to j n cs)) = insert j (set (map fst cs))"
  by (induction j n cs rule: add_to.induct) auto

lemma add_to_distinct: "distinct (map fst cs) \<Longrightarrow> distinct (map fst (add_to j n cs))"
proof (induction j n cs rule: add_to.induct)
  case (2 i amount j n rest)
  then show ?case using add_to_keys [of i amount rest] by auto
qed simp

lemma amount_of_bump [simp]: "amount_of i (bump j n cs) = (if j = i then n else 0) + amount_of i cs"
  by (simp add: bump_def)

lemma bump_distinct: "distinct (map fst cs) \<Longrightarrow> distinct (map fst (bump j n cs))"
  by (simp add: bump_def add_to_distinct)

lemma amount_of_merge: "amount_of i (merge_consumption cs totals) = amount_of i cs + amount_of i totals"
  unfolding merge_consumption_def
  by (induction cs arbitrary: totals) (auto simp: case_prod_unfold)

lemma merge_distinct: "distinct (map fst totals) \<Longrightarrow> distinct (map fst (merge_consumption cs totals))"
  unfolding merge_consumption_def
  by (induction cs arbitrary: totals) (auto simp: case_prod_unfold add_to_distinct)

lemma amount_of_distinct:
  "distinct (map fst cs) \<Longrightarrow> (i, n) \<in> set cs \<Longrightarrow> amount_of i cs = n"
proof (induction cs)
  case Nil
  then show ?case by simp
next
  case (Cons p cs)
  obtain j m where p: "p = (j, m)" by (cases p)
  have z: "amount_of j cs = 0" if "j \<notin> set (map fst cs)"
    using that by (induction cs) auto
  have nin: "(j, n) \<notin> set cs" using Cons.prems p by force
  from Cons p z nin show ?case by (cases "i = j") auto
qed

text \<open>
  The specification: the demand of a line, of a recipe, of a line item and of an order
  for one ingredient, as plain sums of exactly rounded portions.
\<close>

definition line_demand :: "string set \<Rightarrow> string set \<Rightarrow> int \<Rightarrow> int \<Rightarrow> uuid \<Rightarrow> recipe_line_spec \<Rightarrow> int" where
  "line_demand selected removed m y i l =
     (if line_applies selected removed l \<and> rl_ingredient_id l = i
      then half_up_signed (rl_quantity_milli l * m) y else 0)"

definition recipe_demand :: "string set \<Rightarrow> string set \<Rightarrow> int \<Rightarrow> uuid \<Rightarrow> recipe_spec \<Rightarrow> int" where
  "recipe_demand selected removed m i r =
     sum_list (map (line_demand selected removed m (rs_yield_qty r) i) (rs_lines r))"

definition add_on_demand ::
  "(uuid \<Rightarrow> recipe_spec option) \<Rightarrow> line_item_spec \<Rightarrow> uuid \<Rightarrow> add_on_selection_spec \<Rightarrow> int" where
  "add_on_demand recipes item i s = (case recipes (as_add_on_id s) of
      None \<Rightarrow> 0
    | Some r \<Rightarrow> recipe_demand (selected_ids item) (removed_ids item)
                  (li_quantity item * max 0 (as_quantity s)) i r)"

definition item_demand ::
  "(uuid \<Rightarrow> recipe_spec option) \<Rightarrow> (uuid \<Rightarrow> recipe_spec option) \<Rightarrow> uuid \<Rightarrow> line_item_spec \<Rightarrow> int" where
  "item_demand item_recipes add_on_recipes i item =
     (case item_recipes (li_menu_item_id item) of None \<Rightarrow> 0
      | Some r \<Rightarrow> recipe_demand (selected_ids item) (removed_ids item) (li_quantity item) i r)
     + sum_list (map (add_on_demand add_on_recipes item i) (li_add_on_selections item))"

text \<open>Recipes with a positive yield whose scaled quantities have at most 27 digits.\<close>

definition scalable :: "int \<Rightarrow> recipe_spec \<Rightarrow> bool" where
  "scalable m r = (0 < rs_yield_qty r \<and> (\<forall>l \<in> set (rs_lines r). \<bar>rl_quantity_milli l * m\<bar> < 10 ^ 27))"

definition item_scalable ::
  "(uuid \<Rightarrow> recipe_spec option) \<Rightarrow> (uuid \<Rightarrow> recipe_spec option) \<Rightarrow> line_item_spec \<Rightarrow> bool" where
  "item_scalable item_recipes add_on_recipes item =
     ((\<forall>r \<in> set_option (item_recipes (li_menu_item_id item)). scalable (li_quantity item) r) \<and>
      (\<forall>s \<in> set (li_add_on_selections item). \<forall>r \<in> set_option (add_on_recipes (as_add_on_id s)).
         scalable (li_quantity item * max 0 (as_quantity s)) r))"

lemma scale_exact: "0 < y \<Longrightarrow> \<bar>q * m\<bar> < 10 ^ 27 \<Longrightarrow> scale q m y = Inr (half_up_signed (q * m) y)"
  by (simp add: scale_def dec_mul_div_int_exact)

lemma consume_lines_demand:
  assumes "0 < y" and "\<forall>l \<in> set ls. \<bar>rl_quantity_milli l * m\<bar> < 10 ^ 27" and "distinct (map fst totals)"
  shows "\<exists>cs. consume_lines sel rem m y ls totals = Inr cs \<and> distinct (map fst cs) \<and>
           (\<forall>i. amount_of i cs = amount_of i totals + sum_list (map (line_demand sel rem m y i) ls))"
  using assms(2,3)
proof (induction ls arbitrary: totals)
  case Nil
  then show ?case by simp
next
  case (Cons l ls)
  show ?case
  proof (cases "line_applies sel rem l")
    case False
    then show ?thesis using Cons by (simp add: line_demand_def [of _ _ _ _ _ l])
  next
    case True
    let ?n = "half_up_signed (rl_quantity_milli l * m) y"
    have "scale (rl_quantity_milli l) m y = Inr ?n"
      using Cons.prems assms(1) by (simp add: scale_exact)
    moreover obtain cs where
      "consume_lines sel rem m y ls (bump (rl_ingredient_id l) ?n totals) = Inr cs" "distinct (map fst cs)"
      "\<forall>i. amount_of i cs = amount_of i (bump (rl_ingredient_id l) ?n totals)
              + sum_list (map (line_demand sel rem m y i) ls)"
      using Cons.IH [of "bump (rl_ingredient_id l) ?n totals"] Cons.prems bump_distinct by auto
    ultimately show ?thesis using True by (simp add: line_demand_def [of _ _ _ _ _ l])
  qed
qed

lemma consume_recipe_demand:
  assumes "scalable m r" and "distinct (map fst totals)"
  shows "\<exists>cs. consume_lines sel rem m (rs_yield_qty r) (rs_lines r) totals = Inr cs \<and> distinct (map fst cs) \<and>
           (\<forall>i. amount_of i cs = amount_of i totals + recipe_demand sel rem m i r)"
  unfolding recipe_demand_def using assms by (intro consume_lines_demand) (auto simp: scalable_def)

lemma consume_add_ons_demand:
  assumes "\<forall>s \<in> set ss. \<forall>r \<in> set_option (recipes (as_add_on_id s)). scalable (li_quantity item * max 0 (as_quantity s)) r"
    and "distinct (map fst totals)"
  shows "\<exists>cs. consume_add_ons (selected_ids item) (removed_ids item) (li_quantity item) recipes ss totals = Inr cs \<and>
           distinct (map fst cs) \<and>
           (\<forall>i. amount_of i cs = amount_of i totals + sum_list (map (add_on_demand recipes item i) ss))"
  using assms
proof (induction ss arbitrary: totals)
  case Nil
  then show ?case by simp
next
  case (Cons s ss)
  show ?case
  proof (cases "recipes (as_add_on_id s)")
    case None
    then show ?thesis using Cons by (simp add: add_on_demand_def [of _ _ _ s])
  next
    case (Some r)
    then have "scalable (li_quantity item * max 0 (as_quantity s)) r" using Cons.prems by simp
    then obtain c1 where 1: "consume_lines (selected_ids item) (removed_ids item)
        (li_quantity item * max 0 (as_quantity s)) (rs_yield_qty r) (rs_lines r) totals = Inr c1"
      "distinct (map fst c1)" "\<forall>i. amount_of i c1 = amount_of i totals +
        recipe_demand (selected_ids item) (removed_ids item) (li_quantity item * max 0 (as_quantity s)) i r"
      using consume_recipe_demand Cons.prems(2) by blast
    obtain c2 where 2: "consume_add_ons (selected_ids item) (removed_ids item) (li_quantity item) recipes ss c1 = Inr c2"
      "distinct (map fst c2)" "\<forall>i. amount_of i c2 = amount_of i c1 + sum_list (map (add_on_demand recipes item i) ss)"
      using Cons.IH [of c1] Cons.prems 1(2) by auto
    show ?thesis using Some 1 2 by (simp add: add_on_demand_def [of _ _ _ s])
  qed
qed

lemma resolve_line_item_demand:
  assumes "item_scalable item_recipes add_on_recipes item"
  shows "\<exists>cs. resolve_line_item item (item_recipes (li_menu_item_id item)) add_on_recipes = Inr cs \<and>
           distinct (map fst cs) \<and> (\<forall>i. amount_of i cs = item_demand item_recipes add_on_recipes i item)"
proof -
  let ?base = "\<lambda>i. case item_recipes (li_menu_item_id item) of None \<Rightarrow> 0
      | Some r \<Rightarrow> recipe_demand (selected_ids item) (removed_ids item) (li_quantity item) i r"
  obtain c1 where 1: "(case item_recipes (li_menu_item_id item) of None \<Rightarrow> Inr []
      | Some r \<Rightarrow> consume_lines (selected_ids item) (removed_ids item) (li_quantity item)
                    (rs_yield_qty r) (rs_lines r) []) = Inr c1"
    "distinct (map fst c1)" "\<forall>i. amount_of i c1 = ?base i"
  proof (cases "item_recipes (li_menu_item_id item)")
    case None
    then show thesis using that [of "[]"] by simp
  next
    case (Some r)
    then have "scalable (li_quantity item) r" using assms by (simp add: item_scalable_def)
    then show thesis using consume_recipe_demand [of "li_quantity item" r "[]"] that Some by fastforce
  qed
  obtain c2 where 2: "consume_add_ons (selected_ids item) (removed_ids item) (li_quantity item)
      add_on_recipes (li_add_on_selections item) c1 = Inr c2" "distinct (map fst c2)"
    "\<forall>i. amount_of i c2 = amount_of i c1 + sum_list (map (add_on_demand add_on_recipes item i) (li_add_on_selections item))"
    using consume_add_ons_demand 1(2) assms unfolding item_scalable_def by blast
  show ?thesis using 1 2 by (simp add: resolve_line_item_def item_demand_def)
qed

lemma resolve_items_demand:
  assumes "\<forall>item \<in> set items. item_scalable item_recipes add_on_recipes item" and "distinct (map fst totals)"
    and "distinct missing"
  shows "\<exists>res. resolve_items items item_recipes add_on_recipes totals missing = Inr res \<and>
     distinct (map fst (cr_lines res)) \<and>
     (\<forall>i. amount_of i (cr_lines res) =
        amount_of i totals + sum_list (map (item_demand item_recipes add_on_recipes i) items)) \<and>
     distinct (cr_menu_items_without_recipe res) \<and>
     set (cr_menu_items_without_recipe res) =
       set missing \<union> {m \<in> li_menu_item_id ` set items. item_recipes m = None}"
  using assms
proof (induction items arbitrary: totals missing)
  case Nil
  then show ?case by simp
next
  case (Cons item items)
  let ?missing = "if item_recipes (li_menu_item_id item) = None \<and> li_menu_item_id item \<notin> set missing
                  then missing @ [li_menu_item_id item] else missing"
  obtain cs where cs: "resolve_line_item item (item_recipes (li_menu_item_id item)) add_on_recipes = Inr cs"
    "\<forall>i. amount_of i cs = item_demand item_recipes add_on_recipes i item"
    using resolve_line_item_demand Cons.prems(1) by (metis list.set_intros(1))
  have d: "distinct (map fst (merge_consumption cs totals))" "distinct ?missing"
    using Cons.prems by (simp_all add: merge_distinct)
  have ok: "\<forall>item \<in> set items. item_scalable item_recipes add_on_recipes item"
    using Cons.prems(1) by simp
  from Cons.IH [OF ok d] obtain res where
    res: "resolve_items items item_recipes add_on_recipes (merge_consumption cs totals) ?missing = Inr res"
    "distinct (map fst (cr_lines res))"
    "\<forall>i. amount_of i (cr_lines res) = amount_of i (merge_consumption cs totals)
        + sum_list (map (item_demand item_recipes add_on_recipes i) items)"
    "distinct (cr_menu_items_without_recipe res)"
    "set (cr_menu_items_without_recipe res) =
       set ?missing \<union> {m \<in> li_menu_item_id ` set items. item_recipes m = None}"
    by (elim exE conjE)
  have "set ?missing \<union> {m \<in> li_menu_item_id ` set items. item_recipes m = None} =
      set missing \<union> {m \<in> li_menu_item_id ` set (item # items). item_recipes m = None}" by auto
  then show ?case using cs res by (simp add: Let_def amount_of_merge)
qed

lemmas resolve_order_demand =
  resolve_items_demand [of _ _ _ "[]" "[]", folded resolve_order_def, simplified]

text \<open>
  C15: Resolving an order never fails on well-formed recipes; it lists every ingredient
  once, and the amount of each ingredient is the sum, over the line items, of the
  applicable base and add-on recipe lines, each portion scaled exactly and rounded
  half-up once; the items without a recipe are exactly those reported as missing; and
  the order in which the line items were rung up does not change any amount.
\<close>

theorem order_consumption_is_total_demand:
  assumes ok: "\<forall>item \<in> set items. item_scalable item_recipes add_on_recipes item"
    and perm: "mset items = mset items'"
  shows "\<exists>res res'. resolve_order items item_recipes add_on_recipes = Inr res \<and>
     resolve_order items' item_recipes add_on_recipes = Inr res' \<and>
     distinct (map fst (cr_lines res)) \<and>
     (\<forall>i. amount_of i (cr_lines res) = sum_list (map (item_demand item_recipes add_on_recipes i) items)) \<and>
     (\<forall>i. amount_of i (cr_lines res') = amount_of i (cr_lines res)) \<and>
     set (cr_menu_items_without_recipe res) = {m \<in> li_menu_item_id ` set items. item_recipes m = None}"
proof -
  have "set items = set items'" using perm by (rule mset_eq_setD)
  then have ok': "\<forall>item \<in> set items'. item_scalable item_recipes add_on_recipes item" using ok by simp
  have "sum_list (map f items) = sum_list (map f items')" for f :: "line_item_spec \<Rightarrow> int"
    using perm by (metis mset_map sum_mset_sum_list)
  then show ?thesis using resolve_order_demand [OF ok] resolve_order_demand [OF ok'] by auto
qed

text \<open>A pizza with a size-scoped and a removable line, sold twice with extra cheese.\<close>

definition sample_pizza :: recipe_spec where
  "sample_pizza = \<lparr>rs_lines =
     [\<lparr>rl_ingredient_id = 7, rl_quantity_milli = 100000, rl_option_id = Some ''small'', rl_removable_ref_id = None\<rparr>,
      \<lparr>rl_ingredient_id = 7, rl_quantity_milli = 150000, rl_option_id = Some ''large'', rl_removable_ref_id = None\<rparr>,
      \<lparr>rl_ingredient_id = 8, rl_quantity_milli = 30000, rl_option_id = None, rl_removable_ref_id = Some ''mushroom''\<rparr>],
     rs_yield_qty = 1\<rparr>"

definition sample_cheese :: recipe_spec where
  "sample_cheese = \<lparr>rs_lines =
     [\<lparr>rl_ingredient_id = 7, rl_quantity_milli = 50000, rl_option_id = None, rl_removable_ref_id = None\<rparr>],
     rs_yield_qty = 1\<rparr>"

definition sample_item :: line_item_spec where
  "sample_item = \<lparr>li_menu_item_id = 1, li_quantity = 2, li_selected_option_ids = [(''size'', ''large'')],
     li_add_on_selections = [\<lparr>as_add_on_id = 5, as_quantity = 2\<rparr>], li_removed_ref_ids = [''mushroom'']\<rparr>"

lemmas sample_defs = sample_pizza_def sample_cheese_def sample_item_def

theorem order_consumption_is_total_demand_witness:
  "\<exists>res. resolve_order [sample_item] [1 \<mapsto> sample_pizza] [5 \<mapsto> sample_cheese] = Inr res \<and>
     amount_of 7 (cr_lines res) = 500000 \<and> amount_of 8 (cr_lines res) = 0"
proof -
  have "item_demand [1 \<mapsto> sample_pizza] [5 \<mapsto> sample_cheese] 7 sample_item = 500000"
    "item_demand [1 \<mapsto> sample_pizza] [5 \<mapsto> sample_cheese] 8 sample_item = 0"
    by (simp_all add: item_demand_def add_on_demand_def recipe_demand_def line_demand_def sample_defs
        line_applies_def truthy_def selected_ids_def removed_ids_def
        half_up_signed_def half_up_def)
  moreover have "\<forall>item \<in> set [sample_item]. item_scalable [1 \<mapsto> sample_pizza] [5 \<mapsto> sample_cheese] item"
    by (simp add: item_scalable_def scalable_def sample_defs)
  ultimately show ?thesis
    using order_consumption_is_total_demand [of "[sample_item]" "[1 \<mapsto> sample_pizza]" "[5 \<mapsto> sample_cheese]" "[sample_item]"]
    by auto
qed

subsection \<open>Signs\<close>

lemma line_demand_nonneg:
  "0 < y \<Longrightarrow> 0 \<le> m \<Longrightarrow> 0 \<le> rl_quantity_milli l \<Longrightarrow> 0 \<le> line_demand sel rem m y i l"
  by (simp add: line_demand_def half_up_signed_simps hu.nonneg)

subsection \<open>One entry per ingredient\<close>

lemma consume_lines_distinct:
  "consume_lines sel rem m y ls totals = Inr cs \<Longrightarrow> distinct (map fst totals) \<Longrightarrow> distinct (map fst cs)"
  by (induction ls arbitrary: totals) (auto simp: and_then_eq_Inr bump_distinct split: if_splits)

lemma consume_add_ons_distinct:
  "consume_add_ons sel rem q recipes ss totals = Inr cs \<Longrightarrow> distinct (map fst totals) \<Longrightarrow> distinct (map fst cs)"
proof (induction ss arbitrary: totals)
  case (Cons s ss)
  then show ?case by (auto simp: and_then_eq_Inr split: option.splits dest: consume_lines_distinct)
qed simp

lemma resolve_items_distinct:
  "resolve_items items ir ar totals missing = Inr res \<Longrightarrow> distinct (map fst totals) \<Longrightarrow> distinct (map fst (cr_lines res))"
  by (induction items arbitrary: totals missing) (auto simp: and_then_eq_Inr Let_def merge_distinct)

lemma resolve_order_distinct: "resolve_order items ir ar = Inr res \<Longrightarrow> distinct (map fst (cr_lines res))"
  unfolding resolve_order_def by (erule resolve_items_distinct) simp

end
