(* ===== verification/Units.thy ===== *)
theory Units imports PyDecimalText begin

text \<open>
  \<^verbatim>\<open>backend/app/inventory/units.py\<close>: stock quantities are stored as integers counting
  thousandths of a canonical unit.  This theory models every conversion between a human
  quantity in an entry unit, the stored milli-quantity, packs, display text and money.

  A quantity argument is an integer, a decimal, or anything else as its text.  The
  decimals are the finite ones: an infinity or a NaN read from text fails where
  the callers quantize it (\<open>InvalidOperation\<close>) or turn it into an integer
  (\<open>ValueError\<close>).  \<open>UnitError\<close> is the module's own exception.
\<close>

datatype canonical_unit = GRAM | MILLILITRE | UNIT
datatype measure_family = MASS | VOLUME | COUNT

fun family_canonical :: "measure_family \<Rightarrow> canonical_unit" where
  "family_canonical MASS = GRAM"
| "family_canonical VOLUME = MILLILITRE"
| "family_canonical COUNT = UNIT"

fun canonical_family :: "canonical_unit \<Rightarrow> measure_family" where
  "canonical_family GRAM = MASS"
| "canonical_family MILLILITRE = VOLUME"
| "canonical_family UNIT = COUNT"

definition milli :: int where "milli = 1000"

definition unit_defs :: "(string \<times> measure_family \<times> dec) list" where
  "unit_defs =
    [(''MG'', MASS, Dec 1 (- 3)),
     (''G'', MASS, Dec 1 0), (''GRAM'', MASS, Dec 1 0), (''GRAMS'', MASS, Dec 1 0),
     (''KG'', MASS, Dec 1000 0), (''KILOGRAM'', MASS, Dec 1000 0),
     (''ML'', VOLUME, Dec 1 0), (''MILLILITRE'', VOLUME, Dec 1 0),
     (''L'', VOLUME, Dec 1000 0), (''LITRE'', VOLUME, Dec 1000 0), (''LITER'', VOLUME, Dec 1000 0)] @
    map (\<lambda>u. (u, COUNT, Dec 1 0))
     [''UNIT'', ''UNITS'', ''EACH'', ''EA'', ''PORTION'', ''PORTIONS'', ''SACHET'', ''SACHETS'',
      ''BOTTLE'', ''BOTTLES'', ''BOX'', ''BOXES'', ''BALL'', ''BALLS'', ''TUB'', ''SLICE'',
      ''SLICES'', ''CAN'', ''CANS'']"

fun display_ladder :: "measure_family \<Rightarrow> (string \<times> int) list" where
  "display_ladder MASS = [(''kg'', 1000), (''g'', 1)]"
| "display_ladder VOLUME = [(''L'', 1000), (''ml'', 1)]"
| "display_ladder COUNT = [('''', 1)]"

datatype quantity_arg = QDec dec | QInt int | QText string

definition normalise_unit :: "string option \<Rightarrow> string result" where
  "normalise_unit unit = and_then (or_raise unit UnitError) (\<lambda>u.
     let key = upper (strip u)
     in and_then (raise_if (map_of unit_defs key = None) UnitError) (\<lambda>_. Inr key))"

definition unit_def_of :: "string option \<Rightarrow> (string \<times> measure_family \<times> dec) result" where
  "unit_def_of unit = and_then (normalise_unit unit) (\<lambda>key.
     and_then (or_raise (map_of unit_defs key) UnitError) (\<lambda>(family, factor).
       Inr (key, family, factor)))"

definition family_of :: "string option \<Rightarrow> measure_family result" where
  "family_of unit = and_then (unit_def_of unit) (\<lambda>(_, family, _). Inr family)"

definition canonical_unit_for :: "string option \<Rightarrow> canonical_unit result" where
  "canonical_unit_for unit = and_then (family_of unit) (\<lambda>f. Inr (family_canonical f))"

fun as_decimal :: "quantity_arg \<Rightarrow> dec result" where
  "as_decimal (QDec d) = Inr d"
| "as_decimal (QInt n) = Inr (dec_of_int n)"
| "as_decimal (QText t) = (case decimal_of_string t of
      FiniteText d \<Rightarrow> Inr d | BadText \<Rightarrow> Inl UnitError | NanText \<Rightarrow> Inl ValueError | _ \<Rightarrow> Inl DecimalError)"

definition to_milli :: "quantity_arg \<Rightarrow> string option \<Rightarrow> canonical_unit option \<Rightarrow> int result" where
  "to_milli q unit canonical = and_then (unit_def_of unit) (\<lambda>(key, family, factor).
     and_then (raise_if (\<exists>c \<in> set_option canonical. canonical_family c \<noteq> family) UnitError) (\<lambda>_.
     and_then (as_decimal q) (\<lambda>d.
       dec_quantize_int (dec_mul (dec_mul d factor) (dec_of_int milli)))))"

definition from_milli :: "int \<Rightarrow> string option \<Rightarrow> dec result" where
  "from_milli quantity_milli unit = and_then (unit_def_of unit) (\<lambda>(key, family, factor).
     and_then (dec_div (dec_of_int quantity_milli) (dec_of_int milli)) (\<lambda>d. dec_div d factor))"

definition to_canonical :: "int \<Rightarrow> dec result" where
  "to_canonical quantity_milli = dec_div (dec_of_int quantity_milli) (dec_of_int milli)"

definition pack_to_milli :: "quantity_arg \<Rightarrow> int \<Rightarrow> int result" where
  "pack_to_milli pack_count pack_size_milli = and_then (as_decimal pack_count) (\<lambda>d.
     dec_quantize_int (dec_mul d (dec_of_int pack_size_milli)))"

definition value_cents :: "int \<Rightarrow> int \<Rightarrow> int result" where
  "value_cents quantity_milli cost =
     dec_mul_div_int quantity_milli cost (milli * 1000000)"

definition cost_per_canonical_micro_cents :: "int \<Rightarrow> int \<Rightarrow> int result" where
  "cost_per_canonical_micro_cents pack_cost_cents pack_size_milli =
     and_then (raise_if (pack_size_milli \<le> 0) UnitError) (\<lambda>_.
     and_then (dec_div (dec_mul (dec_mul (dec_of_int pack_cost_cents) (dec_of_int 1000000)) (dec_of_int milli))
                       (dec_of_int pack_size_milli)) dec_quantize_int)"

subsection \<open>Display\<close>

definition dec_is_zero :: "dec \<Rightarrow> bool" where "dec_is_zero d = (case d of Dec c e \<Rightarrow> c = 0)"
definition dec_neg :: "dec \<Rightarrow> bool" where "dec_neg d = (case d of Dec c e \<Rightarrow> c < 0)"
definition dec_uminus :: "dec \<Rightarrow> dec" where "dec_uminus d = (case d of Dec c e \<Rightarrow> dec_fix (Dec (- c) e))"

text \<open>\<open>d >= n\<close> and \<open>abs(d) == 1\<close>.\<close>

definition dec_ge_int :: "dec \<Rightarrow> int \<Rightarrow> bool" where
  "dec_ge_int d n = (case d of Dec c e \<Rightarrow>
     if 0 \<le> e then n \<le> c * 10 ^ nat e else n * 10 ^ nat (- e) \<le> c)"

definition dec_abs_one :: "dec \<Rightarrow> bool" where
  "dec_abs_one d = (case d of Dec c e \<Rightarrow>
     if 0 \<le> e then \<bar>c\<bar> * 10 ^ nat e = 1 else \<bar>c\<bar> = 10 ^ nat (- e))"

text \<open>\<open>normalize()\<close>: round to the context, then strip every trailing zero.\<close>

definition dec_normalize :: "dec \<Rightarrow> dec" where
  "dec_normalize d = (case dec_fix d of Dec c e \<Rightarrow>
     if c = 0 then Dec 0 0 else reduce_to (ndig (nat \<bar>c\<bar>)) c e)"

text \<open>\<open>format(d, "f")\<close>: plain digits, with as many decimals as the exponent says.\<close>

definition dec_format_f :: "dec \<Rightarrow> string" where
  "dec_format_f d = (case d of Dec c e \<Rightarrow>
     (if c < 0 then ''-'' else []) @
     (if 0 \<le> e then nat_str (nat \<bar>c\<bar> * 10 ^ nat e)
      else let s = 10 ^ nat (- e)
           in nat_str (nat \<bar>c\<bar> div s) @ ''.'' @ fixed_digits 10 (nat (- e)) (nat \<bar>c\<bar> mod s)))"

text \<open>
  The code compares \<open>normalised == normalised.to_integral_value()\<close>, which holds of a
  normalised decimal exactly when its exponent is not negative, and then quantizes to
  exponent zero (at most 28 digits).
\<close>

definition trim :: "dec \<Rightarrow> string result" where
  "trim d = (case dec_normalize d of Dec c e \<Rightarrow>
     if 0 \<le> e then and_then (dec_quantize_int (Dec c e)) (\<lambda>n. Inr (dec_format_f (Dec n 0)))
     else Inr (dec_format_f (Dec c e)))"

definition pluralise :: "string option \<Rightarrow> dec \<Rightarrow> string" where
  "pluralise label q =
     (let l = strip (case label of None \<Rightarrow> [] | Some s \<Rightarrow> s)
      in if l = [] then []
         else if dec_abs_one q then l
         else if list_ex (\<lambda>suf. ends_with suf l) [''s'', ''x'', ''z'', ''ch'', ''sh''] then l @ ''es''
         else if ends_with ''y'' l \<and> \<not> list_ex (\<lambda>suf. ends_with suf l) [''ay'', ''ey'', ''iy'', ''oy'', ''uy'']
         then butlast l @ ''ies''
         else l @ ''s'')"

fun pick_rung :: "dec \<Rightarrow> (string \<times> int) list \<Rightarrow> (string \<times> int) option" where
  "pick_rung m [] = None"
| "pick_rung m ((symbol, rung) # rest) =
     (if dec_ge_int m rung \<or> rung = 1 then Some (symbol, rung) else pick_rung m rest)"

definition format_quantity :: "int \<Rightarrow> canonical_unit \<Rightarrow> string option \<Rightarrow> string result" where
  "format_quantity quantity_milli canonical unit_label =
     (let family = canonical_family canonical
      in and_then (to_canonical quantity_milli) (\<lambda>qty.
         let negative = dec_neg qty;
             magnitude = (if negative then dec_uminus qty else qty)
         in case pick_rung magnitude (display_ladder family) of
              None \<Rightarrow> trim qty
            | Some (symbol, rung) \<Rightarrow>
                and_then (dec_div magnitude (dec_of_int rung)) (\<lambda>v.
                and_then (trim v) (\<lambda>text.
                  let noun = (if unit_label \<noteq> None \<and> unit_label \<noteq> Some [] \<and> family = COUNT
                              then pluralise unit_label v else symbol);
                      out = strip (text @ '' '' @ noun)
                  in Inr (if negative then ''-'' @ out else out)))))"


subsection \<open>Known units\<close>

text \<open>A factor is a power of ten between one thousandth and one thousand.\<close>

lemma unit_def_factor:
  assumes "unit_def_of unit = Inr (key, family, factor)"
  obtains p j where "factor = Dec (10 ^ p) (- int j)" and "(p, j) \<in> {(0, 3), (0, 0), (3, 0)}"
proof -
  from assms have "(key, family, factor) \<in> set unit_defs"
    by (auto simp: unit_def_of_def result_simps dest: map_of_SomeD split: prod.splits)
  then have "factor \<in> {Dec 1 (- 3), Dec 1 0, Dec 1000 0}" by (auto simp: unit_defs_def)
  then show thesis
    using that [of 0 3] that [of 0 0] that [of 3 0] by auto
qed

text \<open>The size of a unit in thousandths of its canonical unit.\<close>

definition unit_milli :: "dec \<Rightarrow> int" where
  "unit_milli factor = (case factor of Dec c e \<Rightarrow> c * 10 ^ nat (3 + e))"

lemma unit_milli_factor:
  assumes "(p, j) \<in> {(0, 3), (0, 0), (3, 0)}"
  shows "unit_milli (Dec (10 ^ p) (- int j)) * 10 ^ j = 10 ^ p * 1000"
  using assms by (auto simp: unit_milli_def)

lemma dec_mul_small:
  "\<bar>a * b\<bar> < 10 ^ prec \<Longrightarrow> dec_mul (Dec a e) (Dec b f) = Dec (a * b) (e + f)"
  by (simp add: dec_mul_def dec_fix_def)

lemma abs_mult_less: "\<bar>a\<bar> < x \<Longrightarrow> 0 < b \<Longrightarrow> b * x \<le> y \<Longrightarrow> \<bar>a * b\<bar> < (y :: int)"
proof -
  assume a: "\<bar>a\<bar> < x" "0 < b" "b * x \<le> y"
  then have "b * \<bar>a\<bar> < b * x" by simp
  moreover have "\<bar>a * b\<bar> = b * \<bar>a\<bar>" using a by (simp add: abs_mult)
  ultimately show ?thesis using a(3) by linarith
qed

lemma to_milli_digits:
  assumes u: "unit_def_of unit = Inr (key, family, factor)"
    and c: "canonical = None \<or> canonical = Some (family_canonical family)"
    and q: "as_decimal q = Inr (Dec n e)" and n: "\<bar>n\<bar> < 10 ^ 22"
  shows "to_milli q unit canonical =
    dec_quantize_int (Dec (n * (case factor of Dec f j \<Rightarrow> f) * 1000) (e + (case factor of Dec f j \<Rightarrow> j)))"
proof -
  obtain p j where f: "factor = Dec (10 ^ p) (- int j)" and pj: "(p, j) \<in> {(0, 3), (0, 0), (3, 0)}"
    using unit_def_factor [OF u] .
  have fam: "canonical_family (family_canonical family) = family" by (cases family) simp_all
  have b1: "\<bar>n * 10 ^ p\<bar> < 10 ^ 25" using pj by (intro abs_mult_less [OF n]) auto
  have m1: "dec_mul (Dec n e) factor = Dec (n * 10 ^ p) (e - int j)"
    using b1 by (simp add: f dec_mul_small prec_def)
  have b2: "\<bar>n * 10 ^ p * 1000\<bar> < 10 ^ 28" by (intro abs_mult_less [OF b1]) simp_all
  have m2: "dec_mul (Dec (n * 10 ^ p) (e - int j)) (dec_of_int milli) = Dec (n * 10 ^ p * 1000) (e - int j)"
    using b2 by (simp add: dec_of_int_def milli_def dec_mul_small prec_def)
  from c fam show ?thesis by (auto simp: to_milli_def u q m1 [unfolded f] m2 f)
qed

lemma half_up_signed_one: "half_up_signed q 1 = q"
  by (auto simp: half_up_signed_def half_up_def)

lemma half_up_signed_abs: "0 < d \<Longrightarrow> \<bar>half_up_signed a d\<bar> \<le> \<bar>a\<bar> + 1"
  using half_up_le [of a d] half_up_nonneg [of a d] half_up_le [of "- a" d] half_up_nonneg [of "- a" d]
  by (simp add: half_up_signed_def)

lemma to_milli_value:
  assumes u: "unit_def_of unit = Inr (key, family, factor)"
    and c: "canonical = None \<or> canonical = Some (family_canonical family)"
    and q: "as_decimal q = Inr (Dec n (- int k))" and n: "\<bar>n\<bar> < 10 ^ 22"
  shows "to_milli q unit canonical = Inr (half_up_signed (n * unit_milli factor) (10 ^ k))"
proof -
  obtain p j where f: "factor = Dec (10 ^ p) (- int j)" and pj: "(p, j) \<in> {(0, 3), (0, 0), (3, 0)}"
    using unit_def_factor [OF u] .
  have um: "1 \<le> unit_milli factor" "unit_milli factor \<le> 10 ^ 6"
    using pj by (auto simp: f unit_milli_def)
  have "n * 10 ^ p * 1000 = n * unit_milli factor * 10 ^ j"
    using unit_milli_factor [OF pj] by (simp add: f)
  moreover have "(10::int) ^ (k + j) = 10 ^ k * 10 ^ j" by (simp add: power_add)
  ultimately have r: "half_up_signed (n * 10 ^ p * 1000) (10 ^ (k + j)) =
      half_up_signed (n * unit_milli factor) (10 ^ k)"
    using half_up_signed_scale [of "10 ^ j" "n * unit_milli factor" "10 ^ k"]
    by (simp only: zero_less_power zero_less_numeral simp_thms)
  have "\<bar>n * unit_milli factor\<bar> \<le> \<bar>n\<bar> * 10 ^ 6"
    using um by (simp add: abs_mult mult_left_mono)
  then have "\<bar>half_up_signed (n * unit_milli factor) (10 ^ k)\<bar> < 10 ^ prec"
    using half_up_signed_abs [of "10 ^ k" "n * unit_milli factor"] n by (simp add: prec_def)
  moreover have "to_milli q unit canonical = dec_quantize_int (Dec (n * 10 ^ p * 1000) (- int (k + j)))"
    using to_milli_digits [OF u c q n] by (simp add: f)
  ultimately show ?thesis using r by (simp add: dec_quantize_neg Let_def del: of_nat_add)
qed

lemma from_milli_exact:
  assumes u: "unit_def_of unit = Inr (key, family, factor)" and q: "\<bar>q\<bar> < 10 ^ 22"
  obtains c i where "from_milli q unit = Inr (Dec c (- (case factor of Dec f j \<Rightarrow> j) - int i))"
    and "\<bar>c\<bar> \<le> \<bar>q\<bar>" and "c * (case factor of Dec f j \<Rightarrow> f) * 1000 = q * 10 ^ i"
proof -
  obtain p j where f: "factor = Dec (10 ^ p) (- int j)" and pj: "(p, j) \<in> {(0, 3), (0, 0), (3, 0)}"
    using unit_def_factor [OF u] .
  have le: "\<bar>c\<bar> \<le> \<bar>a\<bar>" if "a * 10 ^ i = c * 10 ^ r" "i \<le> r" for a c :: int and i r
  proof -
    have "\<bar>c\<bar> * 10 ^ i \<le> \<bar>c\<bar> * 10 ^ r" using that by (intro mult_left_mono power_increasing) simp_all
    also have "\<dots> = \<bar>a\<bar> * 10 ^ i" using that(1) by (metis abs_mult abs_of_nonneg zero_le_numeral zero_le_power)
    finally show ?thesis by simp
  qed
  have "\<bar>q\<bar> < 10 ^ 25" using q by simp
  then obtain c1 i1 where 1: "dec_div (Dec q 0) (Dec (10 ^ 3) 0) = Inr (Dec c1 (0 - 0 - int i1))"
    "i1 \<le> 3" "q * 10 ^ i1 = c1 * 10 ^ 3" by (rule dec_div_power_ten)
  have l1: "\<bar>c1\<bar> \<le> \<bar>q\<bar>" using 1 by (intro le)
  then have "\<bar>c1\<bar> < 10 ^ 25" using q by simp
  then obtain c2 i2 where 2: "dec_div (Dec c1 (- int i1)) (Dec (10 ^ p) (- int j)) =
      Inr (Dec c2 (- int i1 - - int j - int i2))" "i2 \<le> p" "c1 * 10 ^ i2 = c2 * 10 ^ p"
    by (rule dec_div_power_ten)
  have l2: "\<bar>c2\<bar> \<le> \<bar>c1\<bar>" using 2 by (intro le)
  have fm: "from_milli q unit = Inr (Dec c2 (int j - int i1 - int i2))"
    using 1(1) 2(1) by (simp add: from_milli_def u f dec_of_int_def milli_def)
  have "c2 * 10 ^ p * 1000 = (c1 * 10 ^ 3) * 10 ^ i2" using 2(3) by simp
  also have "\<dots> = q * 10 ^ (i1 + i2)" using 1(3) by (simp add: power_add)
  finally show thesis using that [of c2 "i1 + i2"] fm l1 l2 by (simp add: f algebra_simps)
qed

text \<open>
  C32: Entering a quantity in any unit stores the exact decimal product of the quantity and
  the unit's size in thousandths of its canonical unit, rounded half-up once; and a unit
  of another measure family than the ingredient's is always refused.
\<close>

theorem to_milli_rounds_once:
  assumes u: "unit_def_of unit = Inr (key, family, factor)"
    and q: "as_decimal q = Inr (Dec n (- int k))" and n: "\<bar>n\<bar> < 10 ^ 22"
  shows "to_milli q unit None = Inr (half_up_signed (n * unit_milli factor) (10 ^ k)) \<and>
         to_milli q unit (Some canonical) =
           (if canonical_family canonical = family
            then Inr (half_up_signed (n * unit_milli factor) (10 ^ k)) else Inl UnitError)"
proof -
  have "canonical_family canonical = family \<longleftrightarrow> canonical = family_canonical family"
    by (cases canonical; cases family) simp_all
  moreover have "canonical_family canonical \<noteq> family \<Longrightarrow> to_milli q unit (Some canonical) = Inl UnitError"
    by (simp add: to_milli_def u)
  ultimately show ?thesis
    using to_milli_value [OF u _ q n, of None] to_milli_value [OF u _ q n, of "Some canonical"] by auto
qed

lemma kg_unit: "unit_def_of (Some '' kg'') = Inr (''KG'', MASS, Dec 1000 0)"
  by code_simp

theorem to_milli_rounds_once_witness:
  "to_milli (QDec (Dec 25 (- 1))) (Some '' kg'') (Some GRAM) = Inr 2500000 \<and>
   to_milli (QDec (Dec 25 (- 1))) (Some '' kg'') (Some UNIT) = Inl UnitError"
  using to_milli_rounds_once [OF kg_unit, of "QDec (Dec 25 (- 1))" 25 1 GRAM]
    to_milli_rounds_once [OF kg_unit, of "QDec (Dec 25 (- 1))" 25 1 UNIT]
  by (simp add: unit_milli_def half_up_signed_def half_up_def)

text \<open>
  Reading a stored quantity back in any unit loses nothing: converting it again gives
  the very same number of thousandths.
\<close>

theorem from_milli_to_milli_roundtrip:
  assumes u: "unit_def_of unit = Inr (key, family, factor)" and q: "\<bar>q\<bar> < 10 ^ 22"
  shows "\<exists>d. from_milli q unit = Inr d \<and> to_milli (QDec d) unit (Some (family_canonical family)) = Inr q"
proof -
  obtain c i where d: "from_milli q unit = Inr (Dec c (- (case factor of Dec f j \<Rightarrow> j) - int i))"
    and c: "\<bar>c\<bar> \<le> \<bar>q\<bar>" and e: "c * (case factor of Dec f j \<Rightarrow> f) * 1000 = q * 10 ^ i"
    using from_milli_exact [OF u q] .
  have "\<bar>c\<bar> < 10 ^ 22" using c q by simp
  then have "to_milli (QDec (Dec c (- (case factor of Dec f j \<Rightarrow> j) - int i))) unit (Some (family_canonical family))
      = dec_quantize_int (Dec (q * 10 ^ i) (- int i))"
    using to_milli_digits [OF u, of "Some (family_canonical family)" "QDec (Dec c (- (case factor of Dec f j \<Rightarrow> j) - int i))"] e
    by simp
  moreover have "half_up_signed (q * 10 ^ i) (10 ^ i) = q"
    using half_up_signed_scale [of "10 ^ i" q 1] by (simp add: half_up_signed_one)
  ultimately show ?thesis using d q by (simp add: dec_quantize_neg prec_def)
qed

theorem from_milli_to_milli_roundtrip_witness:
  "\<exists>d. from_milli 2500000 (Some '' kg'') = Inr d \<and> to_milli (QDec d) (Some '' kg'') (Some GRAM) = Inr 2500000"
  using from_milli_to_milli_roundtrip [OF kg_unit, of 2500000] by simp

subsection \<open>Money\<close>

lemma cost_per_canonical_exact:
  assumes "0 < pack" and "0 \<le> cost" and "cost < 10 ^ 18"
  shows "cost_per_canonical_micro_cents cost pack = Inr (half_up (cost * 10 ^ 9) pack)"
proof -
  have "dec_mul (dec_mul (dec_of_int cost) (dec_of_int 1000000)) (dec_of_int milli) = Dec (cost * 10 ^ 9) 0"
    using assms by (simp add: dec_of_int_def milli_def dec_mul_small prec_def)
  then show ?thesis
    using dec_ratio_half_up [of "cost * 10 ^ 9" pack] assms
    by (simp add: cost_per_canonical_micro_cents_def dec_of_int_def half_up_signed_simps)
qed

lemma value_cents_exact:
  assumes "0 \<le> q" "0 \<le> c" "q * c < 10 ^ 27"
  shows "value_cents q c = Inr (half_up (q * c) (10 ^ 9))"
  using dec_mul_div_int_exact [of q c "10 ^ 9"] assms
  by (simp add: value_cents_def milli_def half_up_signed_simps)

text \<open>
  The cost of an ingredient, derived from what a pack costs and held in micro-cents
  per canonical unit, is precise enough: valuing one whole pack at that cost gives back
  exactly what the pack cost, for every pack below one million canonical units.
\<close>

theorem pack_valued_at_its_cost:
  assumes "0 < pack" and "pack < 10 ^ 9" and "0 \<le> cost" and "cost < 10 ^ 17"
  shows "\<exists>unit_cost. cost_per_canonical_micro_cents cost pack = Inr unit_cost \<and>
           value_cents pack unit_cost = Inr cost"
proof -
  define k where "k = half_up (cost * 10 ^ 9) pack"
  have k0: "0 \<le> k" using assms by (simp add: k_def hu.nonneg)
  have e: "\<bar>2 * (pack * k - cost * 10 ^ 9)\<bar> \<le> pack"
    unfolding k_def by (rule hu.error_half [OF assms(1)])
  then have e1: "2 * (pack * k) \<le> 2000000000 * cost + pack"
    and e2: "2000000000 * cost \<le> 2 * (pack * k) + pack"
    by (auto simp: abs_le_iff algebra_simps)
  have "pack * k < 10 ^ 27" using e1 assms by simp
  then have "value_cents pack k = Inr (half_up (pack * k) (10 ^ 9))"
    using assms k0 by (intro value_cents_exact) simp_all
  also have "half_up (pack * k) (10 ^ 9) = cost"
  proof (rule hu.unique)
    show "2 * 10 ^ 9 * cost \<le> 2 * (pack * k) + 10 ^ 9" using e1 e2 assms by simp
    show "2 * (pack * k) + 10 ^ 9 < 2 * 10 ^ 9 * cost + 2 * 10 ^ 9" using e1 e2 assms by simp
  qed simp
  finally show ?thesis
    using cost_per_canonical_exact [of pack cost] assms by (simp add: k_def)
qed

theorem pack_valued_at_its_cost_witness:
  "\<exists>unit_cost. cost_per_canonical_micro_cents 19000 2000000 = Inr unit_cost \<and>
     value_cents 2000000 unit_cost = Inr 19000"
  by (rule pack_valued_at_its_cost) simp_all

end
