(* ===== verification/Pricing.thy ===== *)
theory Pricing imports PyDecimal begin

text \<open>
  \<^verbatim>\<open>shared/pricing/engine.py\<close>: the price breakdown of one line item and the VAT of an
  order total, the single source of truth of every order path.  Options and add-ons
  come either as the typed dataclasses or as plain dictionaries (a missing key is
  None); prices are integers of cents.
\<close>

record selected_option =
  so_group_id :: string
  so_group_name :: string
  so_option_id :: string
  so_option_name :: string
  so_price_delta_cents :: int

record selected_add_on =
  sa_add_on_id :: string
  sa_name :: string
  sa_price_cents :: int
  sa_quantity :: int

record option_dict =
  od_group_id :: "string option"
  od_group_name :: "string option"
  od_option_id :: "string option"
  od_option_name :: "string option"
  od_price_delta_cents :: "int option"

record add_on_dict =
  ad_add_on_id :: "string option"
  ad_name :: string
  ad_price_cents :: "int option"
  ad_quantity :: "int option"

datatype option_arg = TypedOption selected_option | PlainOption option_dict
datatype add_on_arg = TypedAddOn selected_add_on | PlainAddOn add_on_dict

record line_item_breakdown =
  base_price_cents :: int
  option_adjustment_cents :: int
  add_on_total_cents :: int
  unit_price_cents :: int
  quantity :: int
  line_total_cents :: int

definition dict_get :: "'a \<Rightarrow> 'a option \<Rightarrow> 'a" where
  "dict_get d x = (case x of None \<Rightarrow> d | Some v \<Rightarrow> v)"

fun option_delta :: "option_arg \<Rightarrow> int" where
  "option_delta (TypedOption o1) = so_price_delta_cents o1"
| "option_delta (PlainOption d) = dict_get 0 (od_price_delta_cents d)"

fun add_on_cost :: "add_on_arg \<Rightarrow> int" where
  "add_on_cost (TypedAddOn a) = sa_price_cents a * sa_quantity a"
| "add_on_cost (PlainAddOn d) = dict_get 0 (ad_price_cents d) * dict_get 1 (ad_quantity d)"

definition calculate_unit_price :: "int \<Rightarrow> option_arg list \<Rightarrow> add_on_arg list \<Rightarrow> int" where
  "calculate_unit_price base opts addons =
     (let option_adjustment = sum_list (map option_delta opts);
          add_on_total = sum_list (map add_on_cost addons)
      in max 0 (base + option_adjustment + add_on_total))"

definition calculate_line_item ::
  "int \<Rightarrow> option_arg list \<Rightarrow> add_on_arg list \<Rightarrow> int \<Rightarrow> line_item_breakdown" where
  "calculate_line_item base opts addons qty =
     (let option_adjustment = sum_list (map option_delta opts);
          add_on_total = sum_list (map add_on_cost addons);
          unit_price = max 0 (base + option_adjustment + add_on_total)
      in \<lparr>base_price_cents = base,
          option_adjustment_cents = option_adjustment,
          add_on_total_cents = add_on_total,
          unit_price_cents = unit_price,
          quantity = qty,
          line_total_cents = unit_price * qty\<rparr>)"

text \<open>VAT: the rate is in basis points; an inclusive price contains its VAT.\<close>

definition calculate_vat_cents :: "int \<Rightarrow> int \<Rightarrow> bool \<Rightarrow> int result" where
  "calculate_vat_cents amount rate incl =
     (if rate \<le> 0 \<or> amount \<le> 0 then Inr 0
      else let gross = dec_of_int amount;
               num = dec_mul gross (dec_of_int rate);
               exact = (if incl then dec_div num (dec_add (dec_of_int 10000) (dec_of_int rate))
                        else dec_div num (dec_of_int 10000))
           in and_then exact dec_quantize_int)"

definition apply_vat_to_total :: "int \<Rightarrow> int \<Rightarrow> bool \<Rightarrow> (int \<times> int) result" where
  "apply_vat_to_total net rate incl =
     and_then (calculate_vat_cents net rate incl) (\<lambda>vat.
       Inr (if incl then (net, vat) else (net + vat, vat)))"

text \<open>\<^verbatim>\<open>shared/utils/money.py\<close>: the checked line total.\<close>

definition calculate_line_total :: "int \<Rightarrow> int \<Rightarrow> int result" where
  "calculate_line_total unit_price qty =
     and_then (raise_if (qty < 0) ValueError) (\<lambda>_. Inr (unit_price * qty))"

subsection \<open>Line items\<close>

lemma breakdown_unit_price:
  "unit_price_cents (calculate_line_item base opts addons qty) = calculate_unit_price base opts addons"
  by (simp add: calculate_line_item_def calculate_unit_price_def Let_def)

lemma calculate_unit_price_nonneg: "0 \<le> calculate_unit_price base opts addons"
  by (simp add: calculate_unit_price_def Let_def)

lemma breakdown_line_total:
  "line_total_cents (calculate_line_item base opts addons qty) =
   calculate_unit_price base opts addons * qty"
  by (simp add: calculate_line_item_def calculate_unit_price_def Let_def)

lemma breakdown_quantity: "quantity (calculate_line_item base opts addons qty) = qty"
  by (simp add: calculate_line_item_def Let_def)

lemmas breakdown_simps = breakdown_unit_price breakdown_line_total breakdown_quantity

lemma breakdown_line_total_nonneg:
  "0 \<le> qty \<Longrightarrow> 0 \<le> line_total_cents (calculate_line_item base opts addons qty)"
  by (simp add: breakdown_line_total calculate_unit_price_nonneg)

lemma sum_list_map_mset: "mset xs = mset ys \<Longrightarrow> sum_list (map f xs) = (sum_list (map f ys) :: int)"
  by (metis mset_map sum_mset_sum_list)

text \<open>
  The breakdown of a line item is coherent: the unit price is the clamped sum of the
  base price, the option deltas and the add-on costs, hence never negative; the line
  total is the unit price times the quantity; and the order in which options and
  add-ons were selected does not change any component.
\<close>

theorem line_item_breakdown_coherent:
  fixes base qty :: int
  assumes "mset opts = mset opts'" and "mset addons = mset addons'"
  defines "b \<equiv> calculate_line_item base opts addons qty"
  shows "calculate_line_item base opts' addons' qty = b \<and>
         unit_price_cents b = max 0 (base_price_cents b + option_adjustment_cents b + add_on_total_cents b) \<and>
         unit_price_cents b = calculate_unit_price base opts addons \<and>
         0 \<le> unit_price_cents b \<and>
         line_total_cents b = unit_price_cents b * quantity b"
  using sum_list_map_mset [OF assms(1), of option_delta] sum_list_map_mset [OF assms(2), of add_on_cost]
  by (simp add: b_def calculate_line_item_def calculate_unit_price_def Let_def)

theorem line_item_breakdown_coherent_witness:
  "calculate_line_item 5000 [TypedOption (selected_option.make ''a'' ''b'' ''c'' ''d'' 700), TypedOption (selected_option.make ''a'' ''b'' ''e'' ''f'' (- 200))] [] 3
   = \<lparr>base_price_cents = 5000, option_adjustment_cents = 500, add_on_total_cents = 0, unit_price_cents = 5500,
      quantity = 3, line_total_cents = 16500\<rparr>"
  using line_item_breakdown_coherent
    [of "[TypedOption (selected_option.make ''a'' ''b'' ''e'' ''f'' (- 200)), TypedOption (selected_option.make ''a'' ''b'' ''c'' ''d'' 700)]"
        "[TypedOption (selected_option.make ''a'' ''b'' ''c'' ''d'' 700), TypedOption (selected_option.make ''a'' ''b'' ''e'' ''f'' (- 200))]"
        "[]" "[]" 5000 3]
  by (simp add: calculate_line_item_def selected_option.defs Let_def)

subsection \<open>VAT\<close>

definition vat_amount :: "int \<Rightarrow> int \<Rightarrow> bool \<Rightarrow> int" where
  "vat_amount amount rate incl =
     (if rate \<le> 0 \<or> amount \<le> 0 then 0
      else half_up (amount * rate) (if incl then 10000 + rate else 10000))"

lemma calculate_vat_exact:
  assumes "amount * rate < 10 ^ 27"
  shows "calculate_vat_cents amount rate incl = Inr (vat_amount amount rate incl)"
proof (cases "rate \<le> 0 \<or> amount \<le> 0")
  case True
  then show ?thesis by (simp add: calculate_vat_cents_def vat_amount_def)
next
  case False
  then have pos: "0 < rate" "0 < amount" by auto
  then have "rate \<le> amount * rate" by (simp add: mult_le_cancel_right1)
  with assms have r: "rate < 10 ^ 27" by linarith
  from pos have nn: "0 < amount * rate" by simp
  have add: "dec_add (Dec 10000 0) (Dec rate 0) = Dec (10000 + rate) 0"
    using pos r by (intro dec_add_int) (simp add: prec_def)
  have mul: "dec_mul (Dec amount 0) (Dec rate 0) = Dec (amount * rate) 0"
    using nn assms by (intro dec_mul_int) (simp add: prec_def)
  have q: "and_then (dec_div (Dec (amount * rate) 0) (Dec d 0)) dec_quantize_int
             = Inr (half_up (amount * rate) d)" if "0 < d" for d
    using dec_ratio_half_up [of "amount * rate" d] nn assms that by (simp add: half_up_signed_simps)
  show ?thesis
    using False pos q [of 10000] q [of "10000 + rate"]
    by (simp add: calculate_vat_cents_def vat_amount_def dec_of_int_def mul add Let_def)
qed

lemma vat_amount_bounds:
  shows "0 \<le> vat_amount amount rate incl" and "0 \<le> amount \<Longrightarrow> vat_amount amount rate True \<le> amount"
proof -
  show "0 \<le> vat_amount amount rate incl"
    by (auto simp: vat_amount_def intro: hu.nonneg)
  assume a: "0 \<le> amount"
  show "vat_amount amount rate True \<le> amount"
  proof (cases "rate \<le> 0 \<or> amount \<le> 0")
    case True
    with a show ?thesis by (simp add: vat_amount_def)
  next
    case False
    then have "amount * rate \<le> (10000 + rate) * amount" by (simp add: algebra_simps)
    with False show ?thesis by (simp add: vat_amount_def hu.le_self)
  qed
qed

lemma vat_exclusive_then_inclusive:
  assumes net: "0 < net" and rate: "0 < rate"
  shows "vat_amount (net + vat_amount net rate False) rate True = vat_amount net rate False"
proof -
  define v where "v = vat_amount net rate False"
  have v: "v = half_up (net * rate) 10000" using assms by (simp add: v_def vat_amount_def)
  have v0: "0 \<le> v" using vat_amount_bounds(1) by (simp add: v_def)
  have b: "20000 * v \<le> 2 * (net * rate) + 10000" "2 * (net * rate) + 10000 < 20000 * v + 20000"
    using hu.lower [of 10000 "net * rate"] hu.upper [of 10000 "net * rate"] by (simp_all add: v)
  have "half_up ((net + v) * rate) (10000 + rate) = v"
  proof (rule hu.unique)
    show "0 < 10000 + rate" using rate by simp
    show "2 * (10000 + rate) * v \<le> 2 * ((net + v) * rate) + (10000 + rate)"
      using b(1) rate by (simp add: algebra_simps)
    show "2 * ((net + v) * rate) + (10000 + rate) < 2 * (10000 + rate) * v + 2 * (10000 + rate)"
      using b(2) rate by (simp add: algebra_simps)
  qed
  with net rate v0 have "vat_amount (net + v) rate True = v" by (simp add: vat_amount_def)
  then show ?thesis by (simp only: v_def)
qed

text \<open>
  C16: VAT is computed exactly: although the code divides in 28-digit decimal arithmetic
  (half-even) and then rounds half-up to whole cents, the result is the exact half-up
  quotient of amount times rate by 10000 plus rate (inclusive) or by 10000 (exclusive)
  for every amount and rate whose product has at most 27 digits.
\<close>

theorem vat_decimal_is_exact_half_up:
  assumes "0 < amount" and "0 < rate" and "amount * rate < 10 ^ 27"
  shows "calculate_vat_cents amount rate incl =
         Inr ((2 * (amount * rate) + (if incl then 10000 + rate else 10000))
              div (2 * (if incl then 10000 + rate else 10000)))"
  using assms calculate_vat_exact [OF assms(3), of incl]
  by (simp add: vat_amount_def half_up_def)

theorem vat_decimal_is_exact_half_up_witness:
  "calculate_vat_cents 11500 1500 True = Inr 1500"
  using vat_decimal_is_exact_half_up [of 11500 1500 True] by simp

text \<open>
  The two VAT modes are inverse to each other: pricing a net amount exclusively and
  reading the resulting total inclusively finds the very same VAT, with no rounding
  drift, and the total splits into the net amount and the VAT.
\<close>

theorem vat_exclusive_inclusive_roundtrip:
  assumes "0 < net" and "0 < rate" and "2 * net * rate * rate + 2 * net * rate < 10 ^ 27"
  shows "\<exists>total vat. apply_vat_to_total net rate False = Inr (total, vat) \<and>
           total = net + vat \<and> 0 \<le> vat \<and>
           apply_vat_to_total total rate True = Inr (total, vat)"
proof -
  define v where "v = vat_amount net rate False"
  have nr: "0 \<le> net * rate" "0 \<le> net * rate * rate" using assms by simp_all
  have v0: "0 \<le> v" using vat_amount_bounds(1) by (simp add: v_def)
  have "v \<le> net * rate"
    using assms by (simp add: v_def vat_amount_def hu.le_self)
  then have "v * rate \<le> net * rate * rate" using assms by (simp add: mult_right_mono)
  moreover have "(net + v) * rate = net * rate + v * rate" by (simp add: algebra_simps)
  ultimately have p: "net * rate < 10 ^ 27" "(net + v) * rate < 10 ^ 27" using assms nr by linarith+
  have "apply_vat_to_total net rate False = Inr (net + v, v)"
    by (simp add: apply_vat_to_total_def calculate_vat_exact [OF p(1)] v_def)
  moreover have "apply_vat_to_total (net + v) rate True = Inr (net + v, v)"
    using vat_exclusive_then_inclusive [OF assms(1,2)]
    by (simp add: apply_vat_to_total_def calculate_vat_exact [OF p(2)]) (simp add: v_def)
  ultimately show ?thesis using v0 by blast
qed

theorem vat_exclusive_inclusive_roundtrip_witness:
  "\<exists>total vat. apply_vat_to_total 10000 1500 False = Inr (total, vat) \<and> total = 10000 + vat \<and>
     0 \<le> vat \<and> apply_vat_to_total total 1500 True = Inr (total, vat)"
  by (rule vat_exclusive_inclusive_roundtrip) simp_all

end
