(* ===== verification/Errors.thy ===== *)
theory Errors imports PyString begin

text \<open>
  \<^verbatim>\<open>backend/app/core/errors.py\<close>: the application errors with their machine-readable
  codes and HTTP statuses, and the normalisation that turns a human-readable resource
  name into the prefix of a code.  The message and the details are not modelled.
\<close>

text \<open>
  \<open>re.sub("[P]+", c, s)\<close> for a character class: every maximal run of characters of
  the class becomes the single character \<open>c\<close>.  The flag says that the previous character was in
  the class.  Applied to the class of the underscore alone it is also
  \<open>re.sub("_{2,}", "_", s)\<close>, because a run of length one stays itself.
\<close>

fun collapse_runs :: "(char \<Rightarrow> bool) \<Rightarrow> char \<Rightarrow> bool \<Rightarrow> string \<Rightarrow> string" where
  "collapse_runs P c inrun [] = []"
| "collapse_runs P c inrun (x # xs) =
     (if P x then (if inrun then [] else [c]) @ collapse_runs P c True xs
      else x # collapse_runs P c False xs)"

definition is_separator :: "char \<Rightarrow> bool" where
  "is_separator c = (is_space c \<or> c = CHR ''-'')"

definition strip_char :: "char \<Rightarrow> string \<Rightarrow> string" where
  "strip_char c s = rev (dropWhile (\<lambda>x. x = c) (rev (dropWhile (\<lambda>x. x = c) s)))"

definition normalize_not_found_code :: "string \<Rightarrow> string" where
  "normalize_not_found_code resource =
     (let normalized = upper (collapse_runs is_separator CHR ''_'' False (strip resource));
          normalized = collapse_runs (\<lambda>x. x = CHR ''_'') CHR ''_'' False normalized
      in strip_char CHR ''_'' normalized)"

definition not_found_error :: "string \<Rightarrow> app_error" where
  "not_found_error resource = AppError (normalize_not_found_code resource @ ''_NOT_FOUND'') 404"

definition invalid_transition_error :: app_error where
  "invalid_transition_error = AppError ''INVALID_STATUS_TRANSITION'' 422"

definition duplicate_error :: "string \<Rightarrow> app_error" where
  "duplicate_error resource = AppError (normalize_not_found_code resource @ ''_DUPLICATE'') 409"

subsection \<open>The normal form of a code\<close>

text \<open>No two adjacent underscores.\<close>

fun single_underscores :: "string \<Rightarrow> bool" where
  "single_underscores (x # y # s) =
     (\<not> (x = CHR ''_'' \<and> y = CHR ''_'') \<and> single_underscores (y # s))"
| "single_underscores s = True"

definition code_normal_form :: "string \<Rightarrow> bool" where
  "code_normal_form s =
     (list_all (\<lambda>c. \<not> is_separator c \<and> upper_char c = c) s \<and> single_underscores s \<and>
      (s \<noteq> [] \<longrightarrow> hd s \<noteq> CHR ''_'' \<and> last s \<noteq> CHR ''_''))"

lemma upper_char_cases:
  "upper_char c = c \<or> (65 \<le> ord_of (upper_char c) \<and> ord_of (upper_char c) \<le> 90)
   \<or> (192 \<le> ord_of (upper_char c) \<and> ord_of (upper_char c) \<le> 222)"
  by (auto simp: upper_char_def Let_def)

lemma upper_char_idem [simp]: "upper_char (upper_char c) = upper_char c"
  by (auto simp: upper_char_def Let_def)

lemma upper_char_separator: "\<not> is_separator c \<Longrightarrow> \<not> is_separator (upper_char c)"
proof
  assume n: "\<not> is_separator c" and s: "is_separator (upper_char c)"
  have "ord_of (CHR ''-'') = (45::nat)" by simp
  with s have "ord_of (upper_char c) \<le> (32::nat) \<or> ord_of (upper_char c) \<in> {45, 133, 160::nat}"
    by (auto simp: is_separator_def is_space_def Let_def)
  with upper_char_cases [of c] have "upper_char c = c" by auto
  with n s show False by simp
qed

lemma collapse_runs_set:
  "\<not> P c \<Longrightarrow> x \<in> set (collapse_runs P c b s) \<Longrightarrow> \<not> P x"
  by (induction s arbitrary: b) (auto split: if_splits)

lemma collapse_runs_subset: "set (collapse_runs P c b s) \<subseteq> insert c (set s)"
  by (induction s arbitrary: b) (auto split: if_splits)

lemma collapse_underscores:
  "single_underscores (collapse_runs (\<lambda>x. x = CHR ''_'') CHR ''_'' b s) \<and>
   (b \<longrightarrow> collapse_runs (\<lambda>x. x = CHR ''_'') CHR ''_'' b s \<noteq> [] \<longrightarrow>
      hd (collapse_runs (\<lambda>x. x = CHR ''_'') CHR ''_'' b s) \<noteq> CHR ''_'')"
proof (induction s arbitrary: b)
  case Nil
  then show ?case by simp
next
  case (Cons x s)
  let ?r = "\<lambda>b. collapse_runs (\<lambda>x. x = CHR ''_'') CHR ''_'' b s"
  show ?case
  proof (cases "x = CHR ''_''")
    case True
    with Cons.IH [of True] show ?thesis by (cases "?r True") auto
  next
    case False
    with Cons.IH [of False] show ?thesis by (cases "?r False") auto
  qed
qed

lemma single_underscores_append:
  "single_underscores (a @ b) \<Longrightarrow> single_underscores a \<and> single_underscores b"
proof (induction a)
  case Nil
  then show ?case by simp
next
  case (Cons x a)
  then show ?case by (cases a; cases b) auto
qed

lemma strip_char_decomp: "\<exists>a b. s = a @ strip_char c s @ b"
proof -
  have l: "\<exists>a. t = a @ dropWhile (\<lambda>x. x = c) t" for t
    by (metis takeWhile_dropWhile_id)
  obtain a where a: "s = a @ dropWhile (\<lambda>x. x = c) s" using l by blast
  obtain b where b: "rev (dropWhile (\<lambda>x. x = c) s) = b @ rev (strip_char c s)"
    using l [of "rev (dropWhile (\<lambda>x. x = c) s)"] by (auto simp: strip_char_def)
  from b have "dropWhile (\<lambda>x. x = c) s = strip_char c s @ rev b"
    by (metis rev_append rev_rev_ident)
  with a have "s = a @ strip_char c s @ rev b" by simp
  then show ?thesis by blast
qed

lemma strip_char_ends:
  assumes "strip_char c s \<noteq> []"
  shows "hd (strip_char c s) \<noteq> c \<and> last (strip_char c s) \<noteq> c"
proof -
  let ?d = "dropWhile (\<lambda>x. x = c) s" and ?e = "dropWhile (\<lambda>x. x = c) (rev (dropWhile (\<lambda>x. x = c) s))"
  from assms have ne: "?e \<noteq> []" by (simp add: strip_char_def)
  then have h: "hd ?e \<noteq> c" using hd_dropWhile by blast
  then have l: "last (strip_char c s) \<noteq> c" using ne by (simp add: strip_char_def last_rev)
  have nd: "?d \<noteq> []" using ne by (metis dropWhile.simps(1) rev.simps(1))
  then have hd: "hd ?d \<noteq> c" using hd_dropWhile by blast
  have "rev ?d = takeWhile (\<lambda>x. x = c) (rev ?d) @ ?e" by simp
  then have "?d = strip_char c s @ rev (takeWhile (\<lambda>x. x = c) (rev ?d))"
    by (metis rev_append rev_rev_ident strip_char_def)
  then have "hd ?d = hd (strip_char c s)" using assms by (metis hd_append2)
  with hd l show ?thesis by simp
qed

lemma normalize_normal_form: "code_normal_form (normalize_not_found_code r)"
proof -
  define u where "u = upper (collapse_runs is_separator CHR ''_'' False (strip r))"
  define w where "w = collapse_runs (\<lambda>x. x = CHR ''_'') CHR ''_'' False u"
  have us: "\<not> is_separator CHR ''_''" by (simp add: is_separator_def is_space_def Let_def)
  have up: "upper_char CHR ''_'' = CHR ''_''" by (simp add: upper_char_def)
  have u: "\<not> is_separator x \<and> upper_char x = x" if x: "x \<in> set u" for x
  proof -
    obtain y where y: "x = upper_char y" "y \<in> set (collapse_runs is_separator CHR ''_'' False (strip r))"
      using x unfolding u_def upper_def by auto
    from us y(2) have "\<not> is_separator y" by (rule collapse_runs_set [where P = is_separator])
    with y(1) show ?thesis by (simp add: upper_char_separator)
  qed
  have w: "\<not> is_separator x \<and> upper_char x = x" if "x \<in> set w" for x
    using that u us up collapse_runs_subset [of "\<lambda>x. x = CHR ''_''" "CHR ''_''" False u]
    unfolding w_def by auto
  have sw: "single_underscores w" using collapse_underscores [of False u] by (simp add: w_def)
  obtain a b where d: "w = a @ strip_char CHR ''_'' w @ b" using strip_char_decomp by blast
  then have ss: "single_underscores (strip_char CHR ''_'' w)"
    using sw single_underscores_append by metis
  have "set (strip_char CHR ''_'' w) \<subseteq> set w" by (subst (2) d) auto
  with w ss strip_char_ends [of "CHR ''_''" w] have "code_normal_form (strip_char CHR ''_'' w)"
    by (auto simp: code_normal_form_def list_all_iff)
  then show ?thesis by (simp add: normalize_not_found_code_def Let_def w_def u_def)
qed

lemma collapse_runs_id:
  "list_all (\<lambda>c. \<not> P c) s \<Longrightarrow> collapse_runs P c b s = s"
  by (induction s arbitrary: b) auto

lemma collapse_underscores_id:
  "single_underscores s \<Longrightarrow> (b \<longrightarrow> s \<noteq> [] \<longrightarrow> hd s \<noteq> CHR ''_'') \<Longrightarrow>
   collapse_runs (\<lambda>x. x = CHR ''_'') CHR ''_'' b s = s"
proof (induction s arbitrary: b)
  case Nil
  then show ?case by simp
next
  case (Cons x s)
  then show ?case by (cases s) auto
qed

lemma dropWhile_hd: "(s \<noteq> [] \<longrightarrow> \<not> P (hd s)) \<Longrightarrow> dropWhile P s = s"
  by (cases s) auto

lemma normalize_normal_form_id:
  assumes "code_normal_form s"
  shows "normalize_not_found_code s = s"
proof -
  from assms have ns: "\<forall>c \<in> set s. \<not> is_separator c" and up: "map upper_char s = s"
    and su: "single_underscores s" and e: "s \<noteq> [] \<Longrightarrow> hd s \<noteq> CHR ''_'' \<and> last s \<noteq> CHR ''_''"
    by (auto simp: code_normal_form_def list_all_iff intro: map_idI)
  have sp: "\<forall>c \<in> set s. \<not> is_space c" using ns by (auto simp: is_separator_def)
  have st: "strip s = s"
  proof (cases "s = []")
    case False
    then have "\<not> is_space (hd s)" "\<not> is_space (last s)" using sp by auto
    then show ?thesis by (simp add: strip_def dropWhile_hd hd_rev)
  qed (simp add: strip_def)
  have sc: "strip_char CHR ''_'' s = s"
  proof (cases "s = []")
    case False
    then show ?thesis using e by (simp add: strip_char_def dropWhile_hd hd_rev)
  qed (simp add: strip_char_def)
  show ?thesis
    using ns su by (simp add: normalize_not_found_code_def Let_def st collapse_runs_id list_all_iff
        upper_def up collapse_underscores_id sc)
qed

text \<open>
  The machine-readable prefix of an error code is in normal form whatever the resource
  name: upper case, no white space, no hyphen, no doubled, leading or trailing
  underscore; a name already in normal form is kept, hence the normalisation is idempotent.
\<close>

theorem not_found_code_normal_form:
  "code_normal_form (normalize_not_found_code resource) \<and>
   normalize_not_found_code (normalize_not_found_code resource) = normalize_not_found_code resource \<and>
   not_found_error resource = not_found_error (normalize_not_found_code resource)"
  using normalize_normal_form normalize_normal_form_id by (simp add: not_found_error_def)

end
