(* ===== verification/PosPricing.thy ===== *)
theory PosPricing imports Pricing Errors begin

text \<open>
  \<^verbatim>\<open>backend/app/pos/pricing.py\<close>: the resolution of the line items a till submits against
  the live menu of the business.  The catalogue is two tables, the menu items (with the
  ids of the add-ons attached to them and their option groups) and the add-ons; a key
  that may be missing from the JSON of the options is an option value.
\<close>

record menu_option =
  mo_id :: string
  mo_name :: string
  mo_is_enabled :: "bool option"
  mo_price_delta_cents :: "int option"

record option_group =
  og_id :: string
  og_name :: string
  og_is_enabled :: "bool option"
  og_required :: "bool option"
  og_options :: "menu_option list option"

record removable_ingredient =
  ri_id :: string
  ri_name :: string

record options_json =
  oj_option_groups :: "option_group list option"
  oj_removable_ingredients :: "removable_ingredient list option"

record menu_add_on =
  ma_id :: uuid
  ma_business_id :: uuid
  ma_name :: string
  ma_price_cents :: int
  ma_min_qty :: int
  ma_max_qty :: int
  ma_is_active :: bool
  ma_is_deleted :: bool

record menu_item =
  mi_id :: uuid
  mi_business_id :: uuid
  mi_name :: string
  mi_price_cents :: int
  mi_options_json :: "options_json option"
  mi_add_on_ids :: "uuid list"
  mi_is_active :: bool
  mi_is_deleted :: bool
  mi_requires_preparation :: bool

record catalog =
  cat_menu_items :: "menu_item list"
  cat_add_ons :: "menu_add_on list"

record pos_add_on_selection =
  ps_add_on_id :: uuid
  ps_quantity :: int

record pos_item_input =
  pi_menu_item_id :: uuid
  pi_quantity :: int
  pi_selected_option_ids :: "(string \<times> string) list"
  pi_add_on_selections :: "pos_add_on_selection list"
  pi_removed_ingredient_ids :: "string list"
  pi_special_instructions :: "string option"

record resolved_pos_item =
  rp_menu_item_id :: uuid
  rp_name :: string
  rp_breakdown :: line_item_breakdown
  rp_selected_options_snapshot :: "selected_option list"
  rp_add_ons_snapshot :: "selected_add_on list"
  rp_removed_ingredients_snapshot :: "removable_ingredient list"
  rp_special_instructions :: "string option"
  rp_requires_preparation :: bool

definition option_groups_of :: "menu_item \<Rightarrow> option_group list" where
  "option_groups_of m = (case mi_options_json m of None \<Rightarrow> [] | Some j \<Rightarrow> dict_get [] (oj_option_groups j))"

definition enabled_options :: "option_group \<Rightarrow> menu_option list" where
  "enabled_options g = filter (\<lambda>oo. dict_get True (mo_is_enabled oo)) (dict_get [] (og_options g))"

definition chosen_option :: "(string \<times> string) list \<Rightarrow> option_group \<Rightarrow> string option" where
  "chosen_option sel g = (case map_of sel (og_id g) of None \<Rightarrow> None | Some c \<Rightarrow> if c = [] then None else Some c)"

definition resolve_group :: "(string \<times> string) list \<Rightarrow> option_group \<Rightarrow> selected_option option result" where
  "resolve_group sel g =
     (if \<not> dict_get True (og_is_enabled g) then Inr None
      else case chosen_option sel g of
          None \<Rightarrow> if dict_get False (og_required g)
                  then Inl (AppError ''MISSING_REQUIRED_OPTION'' 422) else Inr None
        | Some c \<Rightarrow>
            (case find (\<lambda>oo. mo_id oo = c) (enabled_options g) of
               None \<Rightarrow> Inl (AppError ''INVALID_OPTION'' 422)
             | Some oo \<Rightarrow> Inr (Some \<lparr>so_group_id = og_id g, so_group_name = og_name g, so_option_id = mo_id oo,
                 so_option_name = mo_name oo, so_price_delta_cents = dict_get 0 (mo_price_delta_cents oo)\<rparr>)))"

definition resolve_selected_options :: "menu_item \<Rightarrow> (string \<times> string) list \<Rightarrow> selected_option list result" where
  "resolve_selected_options m sel =
     and_then (map_result (resolve_group sel) (option_groups_of m)) (\<lambda>rs. Inr (List.map_filter id rs))"

definition resolve_removed_ingredients :: "menu_item \<Rightarrow> string list \<Rightarrow> removable_ingredient list result" where
  "resolve_removed_ingredients m ids =
     (if ids = [] then Inr []
      else let entries = (case mi_options_json m of None \<Rightarrow> [] | Some j \<Rightarrow> dict_get [] (oj_removable_ingredients j));
               available = map_of (rev (map (\<lambda>i. (ri_id i, ri_name i)) entries))
           in map_result (\<lambda>i. case available i of
                  None \<Rightarrow> Inl (AppError ''INVALID_REMOVED_INGREDIENT'' 422)
                | Some n \<Rightarrow> if n = [] then Inl (AppError ''INVALID_REMOVED_INGREDIENT'' 422)
                            else Inr \<lparr>ri_id = i, ri_name = n\<rparr>) ids)"

definition add_on_available :: "uuid \<Rightarrow> uuid \<Rightarrow> menu_add_on \<Rightarrow> bool" where
  "add_on_available business i a =
     (ma_id a = i \<and> ma_business_id a = business \<and> ma_is_active a \<and> \<not> ma_is_deleted a)"

definition resolve_add_on :: "catalog \<Rightarrow> uuid \<Rightarrow> pos_add_on_selection \<Rightarrow> selected_add_on result" where
  "resolve_add_on cat business sel =
     and_then (or_raise (find (add_on_available business (ps_add_on_id sel)) (cat_add_ons cat))
                 (AppError ''INVALID_ADD_ON'' 422)) (\<lambda>a.
     let qty = max (ps_quantity sel) (ma_min_qty a)
     in if qty > ma_max_qty a then Inl (AppError ''INVALID_ADD_ON_QUANTITY'' 422)
        else Inr \<lparr>sa_add_on_id = uuid_str (ma_id a), sa_name = ma_name a,
                  sa_price_cents = ma_price_cents a, sa_quantity = qty\<rparr>)"

definition resolve_add_ons ::
  "catalog \<Rightarrow> uuid \<Rightarrow> menu_item \<Rightarrow> pos_add_on_selection list \<Rightarrow> selected_add_on list result" where
  "resolve_add_ons cat business m sels =
     (if sels = [] then Inr []
      else and_then (raise_if (\<not> ps_add_on_id ` set sels \<subseteq> set (mi_add_on_ids m)) (AppError ''INVALID_ADD_ON'' 422)) (\<lambda>_.
        map_result (resolve_add_on cat business) sels))"

definition menu_item_visible :: "uuid \<Rightarrow> uuid \<Rightarrow> menu_item \<Rightarrow> bool" where
  "menu_item_visible business i m = (mi_id m = i \<and> mi_business_id m = business \<and> \<not> mi_is_deleted m)"

definition resolve_pos_item :: "catalog \<Rightarrow> uuid \<Rightarrow> pos_item_input \<Rightarrow> resolved_pos_item result" where
  "resolve_pos_item cat business item =
     and_then (or_raise (find (menu_item_visible business (pi_menu_item_id item)) (cat_menu_items cat))
                 (not_found_error ''Menu item'')) (\<lambda>m.
     and_then (raise_if (\<not> mi_is_active m) (AppError ''MENU_ITEM_INACTIVE'' 422)) (\<lambda>_.
     and_then (resolve_selected_options m (pi_selected_option_ids item)) (\<lambda>selected_options.
     and_then (resolve_add_ons cat business m (pi_add_on_selections item)) (\<lambda>selected_add_ons.
     and_then (resolve_removed_ingredients m (pi_removed_ingredient_ids item)) (\<lambda>removed.
       Inr \<lparr>rp_menu_item_id = mi_id m, rp_name = mi_name m,
            rp_breakdown = calculate_line_item (mi_price_cents m) (map TypedOption selected_options)
                             (map TypedAddOn selected_add_ons) (pi_quantity item),
            rp_selected_options_snapshot = selected_options,
            rp_add_ons_snapshot = selected_add_ons,
            rp_removed_ingredients_snapshot = removed,
            rp_special_instructions = pi_special_instructions item,
            rp_requires_preparation = mi_requires_preparation m\<rparr>)))))"

definition resolve_pos_items :: "catalog \<Rightarrow> uuid \<Rightarrow> pos_item_input list \<Rightarrow> resolved_pos_item list result" where
  "resolve_pos_items cat business items = map_result (resolve_pos_item cat business) items"

subsection \<open>What a resolved item is made of\<close>

lemma resolve_group_option:
  assumes "resolve_group sel g = Inr (Some so)"
  shows "dict_get True (og_is_enabled g) \<and> so_group_id so = og_id g \<and>
    (\<exists>oo \<in> set (enabled_options g). so_option_id so = mo_id oo \<and>
       so_price_delta_cents so = dict_get 0 (mo_price_delta_cents oo) \<and> map_of sel (og_id g) = Some (mo_id oo))"
  using assms
  by (auto simp: resolve_group_def chosen_option_def split: if_splits option.splits dest!: find_SomeD)

lemma resolve_group_required:
  assumes "resolve_group sel g = Inr r" and "dict_get True (og_is_enabled g)" and "dict_get False (og_required g)"
  shows "\<exists>so. r = Some so \<and> so_group_id so = og_id g"
  using assms by (auto simp: resolve_group_def split: if_splits option.splits)

lemma resolve_options_sound:
  assumes r: "resolve_selected_options m sel = Inr opts" and so: "so \<in> set opts"
  shows "\<exists>g \<in> set (option_groups_of m). dict_get True (og_is_enabled g) \<and> so_group_id so = og_id g \<and>
    (\<exists>oo \<in> set (enabled_options g). so_option_id so = mo_id oo \<and>
       so_price_delta_cents so = dict_get 0 (mo_price_delta_cents oo))"
proof -
  from r obtain rs where rs: "map_result (resolve_group sel) (option_groups_of m) = Inr rs"
    and o: "opts = List.map_filter id rs" by (auto simp: resolve_selected_options_def and_then_eq_Inr)
  from so o have "Some so \<in> set rs" by (auto simp: set_map_filter_iff)
  with rs obtain g where "g \<in> set (option_groups_of m)" "resolve_group sel g = Inr (Some so)"
    using map_result_set by metis
  then show ?thesis using resolve_group_option by blast
qed

lemma resolve_options_required:
  assumes r: "resolve_selected_options m sel = Inr opts"
    and g: "g \<in> set (option_groups_of m)" "dict_get True (og_is_enabled g)" "dict_get False (og_required g)"
  shows "og_id g \<in> so_group_id ` set opts"
proof -
  from r obtain rs where rs: "map_result (resolve_group sel) (option_groups_of m) = Inr rs"
    and o: "opts = List.map_filter id rs" by (auto simp: resolve_selected_options_def and_then_eq_Inr)
  obtain x where x: "x \<in> set rs" "resolve_group sel g = Inr x" using map_result_all [OF rs g(1)] by auto
  then obtain so where "x = Some so" "so_group_id so = og_id g" using resolve_group_required g by blast
  then show ?thesis using x(1) o by (force simp: set_map_filter_iff)
qed

lemma resolve_add_on_sound:
  assumes "resolve_add_on cat business s = Inr a"
  shows "\<exists>ma \<in> set (cat_add_ons cat). add_on_available business (ps_add_on_id s) ma \<and>
    sa_price_cents a = ma_price_cents ma \<and> sa_add_on_id a = uuid_str (ma_id ma) \<and>
    ma_min_qty ma \<le> sa_quantity a \<and> ps_quantity s \<le> sa_quantity a \<and> sa_quantity a \<le> ma_max_qty ma"
proof -
  from assms obtain ma where f: "find (add_on_available business (ps_add_on_id s)) (cat_add_ons cat) = Some ma"
    and a: "\<not> max (ps_quantity s) (ma_min_qty ma) > ma_max_qty ma"
      "a = \<lparr>sa_add_on_id = uuid_str (ma_id ma), sa_name = ma_name ma,
             sa_price_cents = ma_price_cents ma, sa_quantity = max (ps_quantity s) (ma_min_qty ma)\<rparr>"
    by (auto simp: resolve_add_on_def result_simps Let_def split: if_splits)
  from find_SomeD [OF f] a show ?thesis by (intro bexI [of _ ma]) auto
qed

lemma resolve_add_ons_sound:
  assumes "resolve_add_ons cat business m sels = Inr as" and "a \<in> set as"
  shows "\<exists>ma \<in> set (cat_add_ons cat). ma_id ma \<in> set (mi_add_on_ids m) \<and> ma_business_id ma = business \<and>
    ma_is_active ma \<and> \<not> ma_is_deleted ma \<and> sa_price_cents a = ma_price_cents ma \<and>
    sa_add_on_id a = uuid_str (ma_id ma) \<and> ma_min_qty ma \<le> sa_quantity a \<and> sa_quantity a \<le> ma_max_qty ma"
proof -
  from assms have r: "map_result (resolve_add_on cat business) sels = Inr as"
    and sub: "ps_add_on_id ` set sels \<subseteq> set (mi_add_on_ids m)"
    by (auto simp: resolve_add_ons_def and_then_eq_Inr split: if_splits)
  from map_result_set [OF r assms(2)] obtain s where s: "s \<in> set sels" "resolve_add_on cat business s = Inr a" by auto
  from resolve_add_on_sound [OF s(2)] obtain ma where "ma \<in> set (cat_add_ons cat)"
    "add_on_available business (ps_add_on_id s) ma" "sa_price_cents a = ma_price_cents ma"
    "sa_add_on_id a = uuid_str (ma_id ma)" "ma_min_qty ma \<le> sa_quantity a" "sa_quantity a \<le> ma_max_qty ma"
    by blast
  with sub s(1) show ?thesis
    by (intro bexI [of _ ma]) (auto simp: add_on_available_def image_subset_iff)
qed

lemma resolve_pos_item_sound:
  assumes "resolve_pos_item cat business item = Inr r"
  obtains m opts addons where "m \<in> set (cat_menu_items cat)" "mi_id m = pi_menu_item_id item"
    "mi_business_id m = business" "\<not> mi_is_deleted m" "mi_is_active m"
    "resolve_selected_options m (pi_selected_option_ids item) = Inr opts"
    "resolve_add_ons cat business m (pi_add_on_selections item) = Inr addons"
    "rp_menu_item_id r = mi_id m"
    "rp_selected_options_snapshot r = opts" "rp_add_ons_snapshot r = addons"
    "rp_breakdown r = calculate_line_item (mi_price_cents m) (map TypedOption opts) (map TypedAddOn addons) (pi_quantity item)"
proof -
  from assms obtain m opts addons rem where m: "find (menu_item_visible business (pi_menu_item_id item)) (cat_menu_items cat) = Some m"
    "mi_is_active m" and o: "resolve_selected_options m (pi_selected_option_ids item) = Inr opts"
    and a: "resolve_add_ons cat business m (pi_add_on_selections item) = Inr addons"
    and r: "r = \<lparr>rp_menu_item_id = mi_id m, rp_name = mi_name m,
            rp_breakdown = calculate_line_item (mi_price_cents m) (map TypedOption opts)
                             (map TypedAddOn addons) (pi_quantity item),
            rp_selected_options_snapshot = opts, rp_add_ons_snapshot = addons,
            rp_removed_ingredients_snapshot = rem,
            rp_special_instructions = pi_special_instructions item,
            rp_requires_preparation = mi_requires_preparation m\<rparr>"
    unfolding resolve_pos_item_def and_then_eq_Inr or_raise_eq_Inr raise_if_eq_Inr by auto
  from find_SomeD [OF m(1)] show thesis
    using that [of m opts addons] m(2) o a by (simp add: r menu_item_visible_def)
qed

lemma resolve_pos_items_nth:
  assumes "resolve_pos_items cat business items = Inr rs"
  shows "length rs = length items" and "k < length items \<Longrightarrow> resolve_pos_item cat business (items ! k) = Inr (rs ! k)"
  using assms by (auto simp: resolve_pos_items_def map_result_eq_Inr list_all2_conv_all_nth)

text \<open>
  C33: A till never prices a line: in a resolved order every line comes from an active menu item
  of the calling business, its base price is the catalogue price, every option is an enabled
  option of an enabled group at its catalogue delta, every required group has a selection,
  every add-on is attached to the item, belongs to the business, is priced as in the
  catalogue and stays within its limits, and the line total is the clamped sum of these
  times the requested quantity.
\<close>

theorem pos_items_priced_from_catalog:
  assumes r: "resolve_pos_items cat business items = Inr rs" and k: "k < length items"
  shows "\<exists>m \<in> set (cat_menu_items cat). mi_id m = pi_menu_item_id (items ! k) \<and> mi_business_id m = business \<and>
    mi_is_active m \<and> \<not> mi_is_deleted m \<and>
    base_price_cents (rp_breakdown (rs ! k)) = mi_price_cents m \<and>
    quantity (rp_breakdown (rs ! k)) = pi_quantity (items ! k) \<and>
    line_total_cents (rp_breakdown (rs ! k)) =
      max 0 (mi_price_cents m + sum_list (map so_price_delta_cents (rp_selected_options_snapshot (rs ! k)))
        + sum_list (map (\<lambda>a. sa_price_cents a * sa_quantity a) (rp_add_ons_snapshot (rs ! k)))) * pi_quantity (items ! k) \<and>
    (\<forall>so \<in> set (rp_selected_options_snapshot (rs ! k)). \<exists>g \<in> set (option_groups_of m).
       dict_get True (og_is_enabled g) \<and> so_group_id so = og_id g \<and>
       (\<exists>oo \<in> set (enabled_options g). so_option_id so = mo_id oo \<and>
          so_price_delta_cents so = dict_get 0 (mo_price_delta_cents oo))) \<and>
    (\<forall>g \<in> set (option_groups_of m). dict_get True (og_is_enabled g) \<longrightarrow> dict_get False (og_required g) \<longrightarrow>
       og_id g \<in> so_group_id ` set (rp_selected_options_snapshot (rs ! k))) \<and>
    (\<forall>a \<in> set (rp_add_ons_snapshot (rs ! k)). \<exists>ma \<in> set (cat_add_ons cat).
       ma_id ma \<in> set (mi_add_on_ids m) \<and> ma_business_id ma = business \<and> ma_is_active ma \<and> \<not> ma_is_deleted ma \<and>
       sa_price_cents a = ma_price_cents ma \<and> sa_add_on_id a = uuid_str (ma_id ma) \<and>
       ma_min_qty ma \<le> sa_quantity a \<and> sa_quantity a \<le> ma_max_qty ma)"
proof -
  obtain m opts addons where m: "m \<in> set (cat_menu_items cat)" "mi_id m = pi_menu_item_id (items ! k)"
    "mi_business_id m = business" "\<not> mi_is_deleted m" "mi_is_active m"
    and o: "resolve_selected_options m (pi_selected_option_ids (items ! k)) = Inr opts"
    and a: "resolve_add_ons cat business m (pi_add_on_selections (items ! k)) = Inr addons"
    and s: "rp_selected_options_snapshot (rs ! k) = opts" "rp_add_ons_snapshot (rs ! k) = addons"
    and b: "rp_breakdown (rs ! k) = calculate_line_item (mi_price_cents m) (map TypedOption opts)
              (map TypedAddOn addons) (pi_quantity (items ! k))"
    using resolve_pos_item_sound [OF resolve_pos_items_nth(2) [OF r k]] .
  have "base_price_cents (rp_breakdown (rs ! k)) = mi_price_cents m"
    "quantity (rp_breakdown (rs ! k)) = pi_quantity (items ! k)"
    by (simp_all add: b calculate_line_item_def Let_def)
  moreover have "line_total_cents (rp_breakdown (rs ! k)) =
      max 0 (mi_price_cents m + sum_list (map so_price_delta_cents opts)
        + sum_list (map (\<lambda>a. sa_price_cents a * sa_quantity a) addons)) * pi_quantity (items ! k)"
    by (simp add: b calculate_line_item_def Let_def comp_def)
  moreover note m s resolve_options_sound [OF o] resolve_options_required [OF o] resolve_add_ons_sound [OF a]
  ultimately show ?thesis by (intro bexI [of _ m]) simp_all
qed

text \<open>A catalogue of two businesses that share nothing.\<close>

definition sample_menu_item :: menu_item where
  "sample_menu_item = \<lparr>mi_id = 1, mi_business_id = 10, mi_name = ''Pizza'', mi_price_cents = 9000,
     mi_options_json = Some \<lparr>oj_option_groups = Some [\<lparr>og_id = ''size'', og_name = ''Size'', og_is_enabled = None,
         og_required = Some True, og_options = Some [\<lparr>mo_id = ''l'', mo_name = ''Large'', mo_is_enabled = None,
           mo_price_delta_cents = Some 2500\<rparr>]\<rparr>], oj_removable_ingredients = None\<rparr>,
     mi_add_on_ids = [5], mi_is_active = True, mi_is_deleted = False, mi_requires_preparation = True\<rparr>"

definition sample_add_on :: menu_add_on where
  "sample_add_on = \<lparr>ma_id = 5, ma_business_id = 10, ma_name = ''Cheese'', ma_price_cents = 1500, ma_min_qty = 0,
     ma_max_qty = 2, ma_is_active = True, ma_is_deleted = False\<rparr>"

definition sample_catalog :: catalog where
  "sample_catalog = \<lparr>cat_menu_items = [sample_menu_item], cat_add_ons = [sample_add_on]\<rparr>"

definition sample_pos_input :: "(string \<times> string) list \<Rightarrow> pos_add_on_selection list \<Rightarrow> pos_item_input" where
  "sample_pos_input opts addons = \<lparr>pi_menu_item_id = 1, pi_quantity = 2, pi_selected_option_ids = opts,
     pi_add_on_selections = addons, pi_removed_ingredient_ids = [], pi_special_instructions = None\<rparr>"

lemmas sample_catalog_defs = sample_catalog_def sample_add_on_def sample_menu_item_def sample_pos_input_def

lemmas resolve_defs = resolve_pos_items_def resolve_pos_item_def resolve_selected_options_def resolve_group_def
  option_groups_of_def enabled_options_def chosen_option_def dict_get_def resolve_add_ons_def resolve_add_on_def
  add_on_available_def menu_item_visible_def resolve_removed_ingredients_def calculate_line_item_def

theorem pos_items_priced_from_catalog_witness:
  "\<exists>rs. resolve_pos_items sample_catalog 10 [sample_pos_input [(''size'', ''l'')] [\<lparr>ps_add_on_id = 5, ps_quantity = 2\<rparr>]] = Inr rs \<and>
     quantity (rp_breakdown (rs ! 0)) = 2 \<and> line_total_cents (rp_breakdown (rs ! 0)) = 29000"
proof -
  let ?in = "sample_pos_input [(''size'', ''l'')] [\<lparr>ps_add_on_id = 5, ps_quantity = 2\<rparr>]"
  obtain rs where r: "resolve_pos_items sample_catalog 10 [?in] = Inr rs"
    and l: "line_total_cents (rp_breakdown (rs ! 0)) = 29000"
    by (simp add: resolve_defs sample_catalog_defs)
  have "quantity (rp_breakdown (rs ! 0)) = 2"
    using pos_items_priced_from_catalog [OF r, of 0] by (auto simp: sample_pos_input_def)
  with r l show ?thesis by blast
qed

text \<open>
  Tenants cannot see each other's menu: resolving items for a business depends only on
  that business's own rows, so removing every other tenant's menu items and add-ons
  changes no result and no error.
\<close>

theorem pos_catalog_tenant_isolation:
  "resolve_pos_items cat business items =
   resolve_pos_items \<lparr>cat_menu_items = filter (\<lambda>m. mi_business_id m = business) (cat_menu_items cat),
                      cat_add_ons = filter (\<lambda>a. ma_business_id a = business) (cat_add_ons cat)\<rparr> business items"
proof -
  have f: "find P (filter Q xs) = find P xs" if "\<And>x. P x \<Longrightarrow> Q x" for P Q and xs :: "'x list"
    using that by (induction xs) auto
  have 1: "find (menu_item_visible business i) (filter (\<lambda>m. mi_business_id m = business) ms) =
      find (menu_item_visible business i) ms" for i ms
    by (rule f) (simp add: menu_item_visible_def)
  have 2: "find (add_on_available business i) (filter (\<lambda>m. ma_business_id m = business) ms) =
      find (add_on_available business i) ms" for i ms
    by (rule f) (simp add: add_on_available_def)
  let ?own = "\<lparr>cat_menu_items = filter (\<lambda>m. mi_business_id m = business) (cat_menu_items cat),
              cat_add_ons = filter (\<lambda>a. ma_business_id a = business) (cat_add_ons cat)\<rparr>"
  have "resolve_add_on cat business s = resolve_add_on ?own business s" for s
    by (simp add: resolve_add_on_def 2)
  then have "resolve_add_on cat business = resolve_add_on ?own business" by (rule ext)
  then have "resolve_add_ons cat business m s = resolve_add_ons ?own business m s" for m s
    by (simp add: resolve_add_ons_def)
  then have "resolve_pos_item cat business i = resolve_pos_item ?own business i" for i
    by (simp add: resolve_pos_item_def 1)
  then have "resolve_pos_item cat business = resolve_pos_item ?own business" by (rule ext)
  then show ?thesis by (simp add: resolve_pos_items_def)
qed

subsection \<open>Two gaps\<close>

text \<open>
  The limit of an add-on is checked per selection, not per line: the same add-on selected
  twice, each time at its limit, is accepted and charged twice over the limit.
\<close>

lemma add_on_limit_bypassed_by_repetition:
  "\<exists>rs. resolve_pos_items sample_catalog 10 [sample_pos_input [(''size'', ''l'')]
      [\<lparr>ps_add_on_id = 5, ps_quantity = 2\<rparr>, \<lparr>ps_add_on_id = 5, ps_quantity = 2\<rparr>]] = Inr rs \<and>
     sum_list (map sa_quantity (rp_add_ons_snapshot (rs ! 0))) = 4 \<and> ma_max_qty sample_add_on = 2"
  by (simp add: resolve_defs sample_catalog_defs)

text \<open>A selection for a group the item does not have is ignored, not refused.\<close>

lemma unknown_option_group_ignored:
  "resolve_pos_items sample_catalog 10 [sample_pos_input [(''size'', ''l''), (''crust'', ''x'')] []] =
   resolve_pos_items sample_catalog 10 [sample_pos_input [(''size'', ''l'')] []]"
  by (simp add: resolve_defs sample_catalog_defs)

end
