(* ===== verification/Ledger.thy ===== *)
theory Ledger imports Prelude begin

text \<open>
  The interface of an append-only ledger: rows that belong to an account and carry a
  signed amount, and a balance that is read back from the rows.  The laws say what a
  balance is before any row and after one more; the lemmas are what the stock ledger,
  the loyalty ledger and the cash of a till rely on.
\<close>

locale signed_ledger =
  fixes account :: "'r \<Rightarrow> 'a" and delta :: "'r \<Rightarrow> int" and balance :: "'r list \<Rightarrow> 'a \<Rightarrow> int"
  assumes balance_empty: "balance [] a = 0"
    and balance_post: "balance (rows @ [r]) a = balance rows a + (if account r = a then delta r else 0)"
begin

lemma balance_sum: "balance rows a = sum_list (map delta (filter (\<lambda>r. account r = a) rows))"
  by (induction rows rule: rev_induct) (auto simp: balance_empty balance_post)

lemma balance_append: "balance (rows @ new) a = balance rows a + balance new a"
  by (simp add: balance_sum)

lemma balance_other: "(\<And>r. r \<in> set new \<Longrightarrow> account r \<noteq> a) \<Longrightarrow> balance (rows @ new) a = balance rows a"
  by (simp add: balance_append balance_sum filter_empty_conv)

lemma balance_perm: "mset rows = mset rows' \<Longrightarrow> balance rows a = balance rows' a"
proof -
  assume "mset rows = mset rows'"
  then have "mset (map delta (filter (\<lambda>r. account r = a) rows)) = mset (map delta (filter (\<lambda>r. account r = a) rows'))"
    by simp
  then show ?thesis by (simp only: balance_sum sum_mset_sum_list [symmetric])
qed

text \<open>Compensating rows cancel what they mirror.\<close>

lemma balance_mirror:
  assumes "list_all2 (\<lambda>r r'. account r' = account r \<and> delta r' = - delta r) old new"
  shows "balance new a = - balance old a"
  using assms by (induction rule: list_all2_induct) (auto simp: balance_sum)

lemma balance_nonneg: "(\<And>r. r \<in> set rows \<Longrightarrow> 0 \<le> delta r) \<Longrightarrow> 0 \<le> balance rows a"
  unfolding balance_sum by (rule sum_list_nonneg_int) auto

end

end
