(* ===== verification/OrderStatus.thy ===== *)
theory OrderStatus imports Errors begin

text \<open>
  \<^verbatim>\<open>shared/enums.py\<close>: the statuses of an order with the transition table that every
  status change consults, the payment statuses, the order modes and sources, and the
  set of pre-preparation statuses of \<^verbatim>\<open>backend/app/inventory/cancellation.py\<close>.
  A column of an enumeration holds one of its values, because every write stores one;
  a status that arrives as text in a request is parsed, and an unknown one raises.
\<close>

datatype order_status =
    PENDING_DELIVERY_FEE | FEE_SENT | NEW | ACCEPTED | IN_PROGRESS | READY
  | COLLECTED | DELIVERED | COMPLETED | CANCELLED

fun order_status_value :: "order_status \<Rightarrow> string" where
  "order_status_value PENDING_DELIVERY_FEE = ''PENDING_DELIVERY_FEE''"
| "order_status_value FEE_SENT = ''FEE_SENT''"
| "order_status_value NEW = ''NEW''"
| "order_status_value ACCEPTED = ''ACCEPTED''"
| "order_status_value IN_PROGRESS = ''IN_PROGRESS''"
| "order_status_value READY = ''READY''"
| "order_status_value COLLECTED = ''COLLECTED''"
| "order_status_value DELIVERED = ''DELIVERED''"
| "order_status_value COMPLETED = ''COMPLETED''"
| "order_status_value CANCELLED = ''CANCELLED''"

definition all_order_statuses :: "order_status list" where
  "all_order_statuses = [PENDING_DELIVERY_FEE, FEE_SENT, NEW, ACCEPTED, IN_PROGRESS, READY,
     COLLECTED, DELIVERED, COMPLETED, CANCELLED]"

text \<open>\<open>OrderStatus(value)\<close>.\<close>

definition order_status_of :: "string \<Rightarrow> order_status result" where
  "order_status_of v = or_raise (find (\<lambda>s. order_status_value s = v) all_order_statuses) ValueError"

fun order_status_transitions :: "order_status \<Rightarrow> order_status list" where
  "order_status_transitions PENDING_DELIVERY_FEE = [FEE_SENT, CANCELLED]"
| "order_status_transitions FEE_SENT = [NEW, CANCELLED]"
| "order_status_transitions NEW = [ACCEPTED, CANCELLED]"
| "order_status_transitions ACCEPTED = [IN_PROGRESS, CANCELLED]"
| "order_status_transitions IN_PROGRESS = [READY, CANCELLED]"
| "order_status_transitions READY = [COLLECTED, DELIVERED, COMPLETED, CANCELLED]"
| "order_status_transitions COLLECTED = []"
| "order_status_transitions DELIVERED = []"
| "order_status_transitions COMPLETED = []"
| "order_status_transitions CANCELLED = []"

definition may_follow :: "order_status \<Rightarrow> order_status \<Rightarrow> bool" where
  "may_follow s t = (t \<in> set (order_status_transitions s))"

datatype payment_status =
    PS_UNPAID | PS_PENDING | PS_PAID | PS_PARTIALLY_REFUNDED | PS_REFUNDED | PS_FAILED
  | PS_VOIDED | PS_CASH_ON_COLLECTION

datatype order_mode = PICKUP | DELIVERY | DINE_IN

datatype order_source = WHATSAPP | MANUAL | ADMIN | POS | UBER_EATS | MR_D | OTHER_EXTERNAL

definition external_order_sources :: "order_source set" where
  "external_order_sources = {UBER_EATS, MR_D, OTHER_EXTERNAL}"

definition in_store_order_sources :: "order_source set" where
  "in_store_order_sources = {POS, WHATSAPP, MANUAL, ADMIN}"

datatype external_platform = UBER_EATS_PLATFORM | MR_D_PLATFORM | GENERIC_PLATFORM

fun platform_to_order_source :: "external_platform \<Rightarrow> order_source" where
  "platform_to_order_source UBER_EATS_PLATFORM = UBER_EATS"
| "platform_to_order_source MR_D_PLATFORM = MR_D"
| "platform_to_order_source GENERIC_PLATFORM = OTHER_EXTERNAL"

definition pre_preparation_statuses :: "order_status set" where
  "pre_preparation_statuses = {PENDING_DELIVERY_FEE, FEE_SENT, NEW, ACCEPTED}"

subsection \<open>Machines whose steps always advance\<close>

text \<open>
  A status machine is a transition relation with a rank that grows along every
  transition and is bounded.  Then no status is visited twice and every run ends.
\<close>

locale status_machine =
  fixes next_status :: "'s \<Rightarrow> 's \<Rightarrow> bool" and rank :: "'s \<Rightarrow> nat" and top :: nat
  assumes advances: "next_status s t \<Longrightarrow> rank s < rank t"
    and bounded: "rank s \<le> top"
begin

lemma path_rank: "next_status\<^sup>+\<^sup>+ s t \<Longrightarrow> rank s < rank t"
  by (induction rule: tranclp_induct) (auto dest: advances)

lemma no_return: "next_status\<^sup>*\<^sup>* s t \<Longrightarrow> next_status\<^sup>*\<^sup>* t s \<Longrightarrow> s = t"
  by (metis path_rank rtranclpD less_asym)

lemma run_rank: "successively next_status (s # xs) \<Longrightarrow> rank s + length xs \<le> rank (last (s # xs))"
proof (induction xs arbitrary: s)
  case Nil
  then show ?case by simp
next
  case (Cons t xs)
  then have "rank s < rank t" and "rank t + length xs \<le> rank (last (t # xs))"
    by (auto intro: advances)
  then show ?case by simp
qed

lemma run_length: "successively next_status xs \<Longrightarrow> length xs \<le> Suc top"
proof (cases xs)
  case (Cons s ys)
  assume "successively next_status xs"
  then have "rank s + length ys \<le> rank (last (s # ys))" using run_rank Cons by simp
  also have "\<dots> \<le> top" by (rule bounded)
  finally show ?thesis using Cons by simp
qed simp

lemma run_distinct: "successively next_status xs \<Longrightarrow> distinct xs"
proof (induction xs)
  case Nil
  then show ?case by simp
next
  case (Cons s xs)
  have "rank s < rank t" if t: "t \<in> set xs" for t
  proof -
    obtain ys zs where xs: "xs = ys @ t # zs" using split_list [OF t] by blast
    have "successively next_status ((s # ys @ [t]) @ zs)" using Cons.prems xs by simp
    then have "successively next_status (s # (ys @ [t]))"
      by (simp only: successively_append_iff)
    then have "rank s + length (ys @ [t]) \<le> rank (last (s # ys @ [t]))" by (rule run_rank)
    then show ?thesis by simp
  qed
  moreover have "distinct xs" using Cons by (cases xs) auto
  ultimately show ?case by auto
qed

end

fun order_rank :: "order_status \<Rightarrow> nat" where
  "order_rank PENDING_DELIVERY_FEE = 0"
| "order_rank FEE_SENT = 1"
| "order_rank NEW = 2"
| "order_rank ACCEPTED = 3"
| "order_rank IN_PROGRESS = 4"
| "order_rank READY = 5"
| "order_rank COLLECTED = 6"
| "order_rank DELIVERED = 6"
| "order_rank COMPLETED = 6"
| "order_rank CANCELLED = 6"

interpretation order_flow: status_machine may_follow order_rank 6
proof
  show "may_follow s t \<Longrightarrow> order_rank s < order_rank t" for s t
    by (cases s) (auto simp: may_follow_def)
  show "order_rank s \<le> 6" for s by (cases s) auto
qed

lemma order_status_value_inj: "order_status_value s = order_status_value t \<Longrightarrow> s = t"
  by (cases s; cases t; simp)

lemma in_all_order_statuses: "s \<in> set all_order_statuses"
  by (cases s) (simp_all add: all_order_statuses_def)

lemma find_value:
  assumes inj: "\<And>x y. f x = f y \<Longrightarrow> x = y" and all: "\<And>x. x \<in> set xs"
  shows "find (\<lambda>x. f x = v) xs = Some s \<longleftrightarrow> v = f s"
proof
  assume "find (\<lambda>x. f x = v) xs = Some s"
  then show "v = f s" by (auto simp: find_Some_iff)
next
  assume v: "v = f s"
  then have "find (\<lambda>x. f x = v) xs \<noteq> None" using all [of s] by (auto simp: find_None_iff)
  then obtain t where t: "find (\<lambda>x. f x = v) xs = Some t" by auto
  then have "f t = v" by (auto simp: find_Some_iff)
  with v inj have "t = s" by simp
  with t show "find (\<lambda>x. f x = v) xs = Some s" by simp
qed

lemma order_status_of_eq_Inr: "order_status_of v = Inr s \<longleftrightarrow> v = order_status_value s"
  by (simp add: order_status_of_def or_raise_eq_Inr
      find_value [OF order_status_value_inj in_all_order_statuses])

lemma order_status_of_value [simp]: "order_status_of (order_status_value s) = Inr s"
  by (simp add: order_status_of_eq_Inr)

lemma order_status_terminal:
  "order_status_transitions s = [] \<longleftrightarrow> s \<in> {COLLECTED, DELIVERED, COMPLETED, CANCELLED}"
  by (cases s) auto

lemma may_cancel: "may_follow s CANCELLED \<longleftrightarrow> order_status_transitions s \<noteq> []"
  by (cases s) (auto simp: may_follow_def)

lemma reaches_preparation: "may_follow\<^sup>+\<^sup>+ s IN_PROGRESS \<longleftrightarrow> s \<in> pre_preparation_statuses"
proof
  assume "may_follow\<^sup>+\<^sup>+ s IN_PROGRESS"
  then have "order_rank s < 4" using order_flow.path_rank by force
  then show "s \<in> pre_preparation_statuses" by (cases s) (auto simp: pre_preparation_statuses_def)
next
  have a: "may_follow\<^sup>+\<^sup>+ ACCEPTED IN_PROGRESS" by (rule tranclp.r_into_trancl) (simp add: may_follow_def)
  have n: "may_follow\<^sup>+\<^sup>+ NEW IN_PROGRESS"
    by (rule tranclp_into_tranclp2 [OF _ a]) (simp add: may_follow_def)
  have f: "may_follow\<^sup>+\<^sup>+ FEE_SENT IN_PROGRESS"
    by (rule tranclp_into_tranclp2 [OF _ n]) (simp add: may_follow_def)
  have p: "may_follow\<^sup>+\<^sup>+ PENDING_DELIVERY_FEE IN_PROGRESS"
    by (rule tranclp_into_tranclp2 [OF _ f]) (simp add: may_follow_def)
  show "s \<in> pre_preparation_statuses \<Longrightarrow> may_follow\<^sup>+\<^sup>+ s IN_PROGRESS"
    using a n f p by (auto simp: pre_preparation_statuses_def)
qed

text \<open>
  The status table of an order is a machine that only advances: a run of allowed
  transitions never visits a status twice and has at most seven statuses; exactly
  collected, delivered, completed and cancelled are final, every other status may
  still be cancelled, and a status still leads to preparation exactly when it belongs to the
  pre-preparation set that the stock rules use.
\<close>

theorem order_status_machine:
  "(\<forall>run. \<not> successively may_follow run \<or> distinct run \<and> length run \<le> 7) \<and>
   (\<forall>s. (order_status_transitions s = []) = (s \<in> {COLLECTED, DELIVERED, COMPLETED, CANCELLED})) \<and>
   (\<forall>s. may_follow s CANCELLED = (order_status_transitions s \<noteq> [])) \<and>
   (\<forall>s. may_follow\<^sup>+\<^sup>+ s IN_PROGRESS = (s \<in> pre_preparation_statuses))"
proof -
  have r: "\<not> successively may_follow run \<or> distinct run \<and> length run \<le> 7" for run
    using order_flow.run_distinct [of run] order_flow.run_length [of run] by auto
  show ?thesis
    by (intro conjI allI) (rule r order_status_terminal may_cancel reaches_preparation)+
qed

theorem order_status_machine_witness:
  "distinct [NEW, ACCEPTED, IN_PROGRESS, READY, DELIVERED] \<and> successively may_follow [NEW, ACCEPTED, IN_PROGRESS, READY, DELIVERED]
   \<and> may_follow\<^sup>+\<^sup>+ NEW IN_PROGRESS"
proof -
  have "successively may_follow [NEW, ACCEPTED, IN_PROGRESS, READY, DELIVERED]"
    by (simp add: may_follow_def)
  then show ?thesis using order_status_machine by (auto simp: pre_preparation_statuses_def)
qed

end
