(* ===== verification/StockLedger.thy ===== *)
theory StockLedger imports Consumption Units PosPricing Ledger OrderStatus "HOL-Library.AList" begin

text \<open>
  \<^verbatim>\<open>backend/app/inventory/ledger.py\<close> and \<^verbatim>\<open>backend/app/inventory/cancellation.py\<close>: the
  append-only stock ledger.  A sale posts one negative movement per ingredient of its
  resolved recipes, a reversal mirrors the movements of the sale, and stock on hand is
  the sum of the movements.  The tables are those of \<^verbatim>\<open>shared/models/recipe.py\<close> and
  \<^verbatim>\<open>shared/models/inventory.py\<close>; the partial unique index on the business and the
  idempotency key is the predicate \<open>stock_index\<close> that every commit has to satisfy.
\<close>

datatype movement_type =
    OPENING_BALANCE | GOODS_RECEIVED | SALE_CONSUMPTION | SALE_REVERSAL | REMAKE_CONSUMPTION | WASTAGE
  | STAFF_MEAL | COMPLIMENTARY | MANUAL_ADJUSTMENT | STOCKTAKE_ADJUSTMENT | SUPPLIER_RETURN | WASTAGE_REVERSAL

datatype stock_source_type =
    SRC_ORDER | SRC_GOODS_RECEIPT | SRC_WASTAGE_ENTRY | SRC_STOCKTAKE | SRC_MANUAL | SRC_OPENING_STOCK

definition loss_movement_types :: "movement_type list" where
  "loss_movement_types = [WASTAGE, STAFF_MEAL, COMPLIMENTARY]"

datatype count_method = UNIT_COUNT | WEIGHT_COUNT | VOLUME_COUNT

record ingredient =
  ing_id :: uuid
  ing_business_id :: uuid
  ing_canonical_unit :: canonical_unit
  ing_purchase_pack_milli :: int
  ing_cost_per_canonical_micro_cents :: int
  ing_is_active :: bool
  ing_is_deleted :: bool
  ing_name :: string
  ing_sku :: "string option"
  ing_count_method :: count_method
  ing_unit_label :: "string option"
  ing_category :: "string option"
  ing_purchase_unit_name :: "string option"
  ing_cost_per_pack_cents :: "int option"
  ing_par_level_milli :: "int option"
  ing_notes :: "string option"

record stock_movement =
  sm_business_id :: uuid
  sm_ingredient_id :: uuid
  sm_quantity_milli :: int
  sm_movement_type :: movement_type
  sm_source_type :: "stock_source_type option"
  sm_source_id :: "uuid option"
  sm_unit_cost_micro_cents :: int
  sm_value_cents :: int
  sm_created_by_user_id :: "uuid option"
  sm_idempotency_key :: "string option"
  sm_notes :: "string option"
  sm_occurred_at :: instant
  sm_created_at :: instant

record recipe_item =
  rt_ingredient_id :: uuid
  rt_quantity_milli :: int
  rt_option_group_id :: "string option"
  rt_option_id :: "string option"
  rt_removable_ref_id :: "string option"
  rt_sort_order :: int

record recipe =
  rc_id :: uuid
  rc_business_id :: uuid
  rc_menu_item_id :: "uuid option"
  rc_menu_add_on_id :: "uuid option"
  rc_version :: int
  rc_is_active :: bool
  rc_yield_qty :: int
  rc_notes :: "string option"
  rc_items :: "recipe_item list"

record stock_db =
  sd_recipes :: "recipe list"
  sd_ingredients :: "ingredient list"
  sd_movements :: "stock_movement list"

subsection \<open>Idempotency keys\<close>

definition sale_idempotency_key :: "uuid \<Rightarrow> uuid \<Rightarrow> string" where
  "sale_idempotency_key order_id ingredient_id = ''SALE:'' @ uuid_str order_id @ '':'' @ uuid_str ingredient_id"

definition reversal_idempotency_key :: "uuid \<Rightarrow> uuid \<Rightarrow> string" where
  "reversal_idempotency_key order_id ingredient_id = ''REVERSAL:'' @ uuid_str order_id @ '':'' @ uuid_str ingredient_id"

definition stocktake_adjustment_idempotency_key :: "uuid \<Rightarrow> uuid \<Rightarrow> string" where
  "stocktake_adjustment_idempotency_key session_id ingredient_id =
     ''STOCKTAKE_ADJUSTMENT:'' @ uuid_str session_id @ '':'' @ uuid_str ingredient_id"

definition wastage_idempotency_key :: "uuid \<Rightarrow> uuid \<Rightarrow> string" where
  "wastage_idempotency_key entry_id ingredient_id = ''WASTAGE:'' @ uuid_str entry_id @ '':'' @ uuid_str ingredient_id"

definition wastage_reversal_idempotency_key :: "uuid \<Rightarrow> uuid \<Rightarrow> string" where
  "wastage_reversal_idempotency_key entry_id ingredient_id =
     ''WASTAGE_REVERSAL:'' @ uuid_str entry_id @ '':'' @ uuid_str ingredient_id"

definition opening_balance_idempotency_key :: "uuid \<Rightarrow> string" where
  "opening_balance_idempotency_key ingredient_id = ''OPENING_BALANCE:'' @ uuid_str ingredient_id"

text \<open>The partial unique index \<open>uq_stock_movements_business_id_idempotency_key\<close>.\<close>

definition movement_key :: "stock_movement \<Rightarrow> (uuid \<times> string) option" where
  "movement_key m = map_option (Pair (sm_business_id m)) (sm_idempotency_key m)"

definition stock_index :: "stock_movement list \<Rightarrow> bool" where
  "stock_index ms = unique_index movement_key ms"

subsection \<open>Loading recipes and building line specifications\<close>

definition recipe_matches :: "uuid \<Rightarrow> uuid list \<Rightarrow> uuid list \<Rightarrow> recipe \<Rightarrow> bool" where
  "recipe_matches business item_ids add_on_ids r =
     (rc_business_id r = business \<and> rc_is_active r \<and>
      ((\<exists>i \<in> set_option (rc_menu_item_id r). i \<in> set item_ids) \<or>
       (\<exists>i \<in> set_option (rc_menu_add_on_id r). i \<in> set add_on_ids)))"

definition recipe_spec_of :: "recipe \<Rightarrow> recipe_spec" where
  "recipe_spec_of r =
     \<lparr>rs_lines = map (\<lambda>l. \<lparr>rl_ingredient_id = rt_ingredient_id l, rl_quantity_milli = rt_quantity_milli l,
                           rl_option_id = rt_option_id l, rl_removable_ref_id = rt_removable_ref_id l\<rparr>)
                    (sort_key rt_sort_order (rc_items r)),
      rs_yield_qty = (if rc_yield_qty r = 0 then 1 else rc_yield_qty r)\<rparr>"

fun enter_recipe ::
  "recipe \<Rightarrow> (uuid \<Rightarrow> recipe_spec option) \<times> (uuid \<Rightarrow> recipe_spec option) \<Rightarrow>
   (uuid \<Rightarrow> recipe_spec option) \<times> (uuid \<Rightarrow> recipe_spec option)" where
  "enter_recipe r (item_specs, add_on_specs) =
     (case rc_menu_item_id r of
        Some i \<Rightarrow> (item_specs(i \<mapsto> recipe_spec_of r), add_on_specs)
      | None \<Rightarrow> (case rc_menu_add_on_id r of
                   Some a \<Rightarrow> (item_specs, add_on_specs(a \<mapsto> recipe_spec_of r))
                 | None \<Rightarrow> (item_specs, add_on_specs)))"

definition load_recipe_specs ::
  "recipe list \<Rightarrow> uuid \<Rightarrow> uuid list \<Rightarrow> uuid list \<Rightarrow>
   (uuid \<Rightarrow> recipe_spec option) \<times> (uuid \<Rightarrow> recipe_spec option)" where
  "load_recipe_specs recipes business item_ids add_on_ids =
     (if item_ids = [] \<and> add_on_ids = [] then (Map.empty, Map.empty)
      else fold enter_recipe (filter (recipe_matches business item_ids add_on_ids) recipes) (Map.empty, Map.empty))"

text \<open>
  The snapshots are JSON: an entry may not be a dictionary and any key may be missing.
  \<open>uuid.UUID(text)\<close> is modelled on the plain and hyphenated forms of 32 hexadecimal digits.
\<close>

datatype 'a json_entry = Entry 'a | NotADict

record option_snapshot =
  on_group_id :: "string option"
  on_option_id :: "string option"

record add_on_snapshot =
  an_add_on_id :: "string option"
  an_id :: "string option"
  an_quantity :: "int option"

record removed_snapshot =
  rn_id :: "string option"

definition hex_value :: "char \<Rightarrow> nat option" where
  "hex_value c = (let n = ord_of c in
     if 48 \<le> n \<and> n \<le> 57 then Some (n - 48) else if 97 \<le> n \<and> n \<le> 102 then Some (n - 87)
     else if 65 \<le> n \<and> n \<le> 70 then Some (n - 55) else None)"

fun hex_number :: "nat \<Rightarrow> string \<Rightarrow> nat option" where
  "hex_number acc [] = Some acc"
| "hex_number acc (c # s) = (case hex_value c of None \<Rightarrow> None | Some d \<Rightarrow> hex_number (16 * acc + d) s)"

definition uuid_of_str :: "string \<Rightarrow> uuid option" where
  "uuid_of_str s = (let h = filter (\<lambda>c. c \<noteq> CHR ''-'') s
     in if length h = 32 then map_option of_nat (hex_number 0 h) else None)"

text \<open>Reading back what \<open>str\<close> of a UUID writes.\<close>

lemma hex_value_digit: "d < 16 \<Longrightarrow> hex_value (digit_char d) = Some d"
  by (simp add: hex_value_def digit_char_def Let_def)

lemma hex_number_append: "hex_number acc (s @ t) = Option.bind (hex_number acc s) (\<lambda>n. hex_number n t)"
  by (induction s arbitrary: acc) (auto split: option.splits)

lemma hex_number_fixed_digits: "hex_number acc (fixed_digits 16 k n) = Some (acc * 16 ^ k + n mod 16 ^ k)"
proof (induction k arbitrary: n)
  case (Suc k)
  have "n mod 16 ^ Suc k = 16 * (n div 16 mod 16 ^ k) + n mod 16"
    using mod_mult2_eq [of n 16 "16 ^ k"] by (simp add: mult.commute)
  then show ?case by (simp add: hex_number_append Suc.IH hex_value_digit algebra_simps)
qed simp

lemma uuid_of_str_str [simp]: "uuid_of_str (uuid_str u) = Some u"
proof -
  have "unat u < 16 ^ 32" using unsigned_less [of u, where ?'a = nat] by simp
  then show ?thesis by (simp add: uuid_of_str_def Let_def uuid_str_hex hex_number_fixed_digits)
qed

fun enter_option :: "option_snapshot json_entry \<Rightarrow> (string \<times> string) list \<Rightarrow> (string \<times> string) list" where
  "enter_option NotADict selected = selected"
| "enter_option (Entry oo) selected =
     (if truthy (on_group_id oo) \<and> truthy (on_option_id oo)
      then AList.update (the (on_group_id oo)) (the (on_option_id oo)) selected else selected)"

definition selected_option_ids :: "option_snapshot json_entry list \<Rightarrow> (string \<times> string) list" where
  "selected_option_ids snap = fold enter_option snap []"

definition or_one :: "int option \<Rightarrow> int" where
  "or_one q = (case q of None \<Rightarrow> 1 | Some n \<Rightarrow> if n = 0 then 1 else n)"

definition add_on_selections :: "add_on_snapshot json_entry list \<Rightarrow> add_on_selection_spec list" where
  "add_on_selections snap = List.map_filter (\<lambda>e. case e of
      NotADict \<Rightarrow> None
    | Entry a \<Rightarrow>
        (let raw = (if truthy (an_add_on_id a) then an_add_on_id a else an_id a)
         in if \<not> truthy raw then None
            else map_option (\<lambda>u. \<lparr>as_add_on_id = u, as_quantity = or_one (an_quantity a)\<rparr>) (uuid_of_str (the raw)))) snap"

definition removed_ref_ids :: "removed_snapshot json_entry list \<Rightarrow> string list" where
  "removed_ref_ids snap = List.map_filter (\<lambda>e. case e of
      NotADict \<Rightarrow> None | Entry r \<Rightarrow> if truthy (rn_id r) then rn_id r else None) snap"

text \<open>The dictionaries that the pricing layer writes into its snapshots.\<close>

definition option_entry :: "selected_option \<Rightarrow> option_snapshot json_entry" where
  "option_entry so = Entry \<lparr>on_group_id = Some (so_group_id so), on_option_id = Some (so_option_id so)\<rparr>"

definition add_on_entry :: "selected_add_on \<Rightarrow> add_on_snapshot json_entry" where
  "add_on_entry a = Entry \<lparr>an_add_on_id = Some (sa_add_on_id a), an_id = None, an_quantity = Some (sa_quantity a)\<rparr>"

definition removed_entry :: "removable_ingredient \<Rightarrow> removed_snapshot json_entry" where
  "removed_entry r = Entry \<lparr>rn_id = Some (ri_id r)\<rparr>"

definition build_line_specs :: "resolved_pos_item list \<Rightarrow> line_item_spec list" where
  "build_line_specs items = map (\<lambda>item.
     \<lparr>li_menu_item_id = rp_menu_item_id item,
      li_quantity = quantity (rp_breakdown item),
      li_selected_option_ids = selected_option_ids (map option_entry (rp_selected_options_snapshot item)),
      li_add_on_selections = add_on_selections (map add_on_entry (rp_add_ons_snapshot item)),
      li_removed_ref_ids = removed_ref_ids (map removed_entry (rp_removed_ingredients_snapshot item))\<rparr>) items"

record bot_cart_item =
  bc_menu_item_id :: "string option"
  bc_quantity :: "int option"
  bc_selected_options :: "option_snapshot json_entry list"
  bc_add_ons :: "add_on_snapshot json_entry list"

definition build_line_specs_from_bot_cart :: "bot_cart_item list \<Rightarrow> line_item_spec list" where
  "build_line_specs_from_bot_cart cart = List.map_filter (\<lambda>item.
     if \<not> truthy (bc_menu_item_id item) then None
     else map_option (\<lambda>u.
       \<lparr>li_menu_item_id = u, li_quantity = or_one (bc_quantity item),
        li_selected_option_ids = selected_option_ids (bc_selected_options item),
        li_add_on_selections = add_on_selections (bc_add_ons item),
        li_removed_ref_ids = []\<rparr>) (uuid_of_str (the (bc_menu_item_id item)))) cart"

subsection \<open>Posting\<close>

definition ingredient_costs :: "ingredient list \<Rightarrow> uuid \<Rightarrow> uuid list \<Rightarrow> uuid \<Rightarrow> int option" where
  "ingredient_costs ings business ids =
     map_of (map (\<lambda>i. (ing_id i, ing_cost_per_canonical_micro_cents i))
       (filter (\<lambda>i. ing_business_id i = business \<and> ing_id i \<in> set ids) ings))"

text \<open>
  \<open>build_movement\<close>: the arguments in the order of the code; \<open>occurred_at\<close> defaults to
  the present, which is a parameter.
\<close>

definition build_movement ::
  "uuid \<Rightarrow> uuid \<Rightarrow> int \<Rightarrow> movement_type \<Rightarrow> int \<Rightarrow> stock_source_type option \<Rightarrow> uuid option \<Rightarrow> uuid option \<Rightarrow>
   string option \<Rightarrow> string option \<Rightarrow> instant option \<Rightarrow> instant \<Rightarrow> stock_movement result" where
  "build_movement business ingr qty mtype cost stype sid user key notes occurred_at now =
     and_then (value_cents qty cost) (\<lambda>v.
       Inr \<lparr>sm_business_id = business, sm_ingredient_id = ingr, sm_quantity_milli = qty, sm_movement_type = mtype,
            sm_source_type = stype, sm_source_id = sid, sm_unit_cost_micro_cents = cost, sm_value_cents = v,
            sm_created_by_user_id = user, sm_idempotency_key = key, sm_notes = notes,
            sm_occurred_at = (case occurred_at of None \<Rightarrow> now | Some t \<Rightarrow> t), sm_created_at = now\<rparr>)"

definition add_movements :: "stock_movement list \<Rightarrow> stock_db \<Rightarrow> stock_db" where
  "add_movements ms db = db\<lparr>sd_movements := sd_movements db @ ms\<rparr>"

definition sale_movement ::
  "uuid \<Rightarrow> uuid \<Rightarrow> uuid option \<Rightarrow> instant option \<Rightarrow> movement_type \<Rightarrow> instant \<Rightarrow> (uuid \<Rightarrow> int option) \<Rightarrow>
   uuid \<times> int \<Rightarrow> stock_movement result" where
  "sale_movement business order_id user occurred_at mtype now costs line = (case line of (ingr, qty) \<Rightarrow>
     build_movement business ingr (- \<bar>qty\<bar>) mtype (dict_get 0 (costs ingr)) (Some SRC_ORDER) (Some order_id) user
       (Some (sale_idempotency_key order_id ingr)) None occurred_at now)"

definition post_sale_consumption ::
  "stock_db \<Rightarrow> uuid \<Rightarrow> uuid \<Rightarrow> line_item_spec list \<Rightarrow> uuid option \<Rightarrow> instant option \<Rightarrow> movement_type \<Rightarrow> instant \<Rightarrow>
   (stock_db \<times> consumption_result) result" where
  "post_sale_consumption db business order_id line_specs user occurred_at mtype now =
     (let item_ids = map li_menu_item_id line_specs;
          add_on_ids = concat (map (\<lambda>spec. map as_add_on_id (li_add_on_selections spec)) line_specs);
          (item_recipes, add_on_recipes) = load_recipe_specs (sd_recipes db) business item_ids add_on_ids
      in and_then (resolve_order line_specs item_recipes add_on_recipes) (\<lambda>res.
         if cr_lines res = [] then Inr (db, res)
         else let costs = ingredient_costs (sd_ingredients db) business (map fst (cr_lines res))
              in and_then (map_result (sale_movement business order_id user occurred_at mtype now costs) (cr_lines res)) (\<lambda>ms.
                 Inr (add_movements ms db, res))))"

definition of_order :: "uuid \<Rightarrow> uuid \<Rightarrow> stock_movement \<Rightarrow> bool" where
  "of_order business order_id m =
     (sm_business_id m = business \<and> sm_source_type m = Some SRC_ORDER \<and> sm_source_id m = Some order_id)"

definition is_consumption :: "uuid \<Rightarrow> uuid \<Rightarrow> stock_movement \<Rightarrow> bool" where
  "is_consumption business order_id m =
     (of_order business order_id m \<and> sm_movement_type m \<in> {SALE_CONSUMPTION, REMAKE_CONSUMPTION})"

definition is_reversal :: "uuid \<Rightarrow> uuid \<Rightarrow> stock_movement \<Rightarrow> bool" where
  "is_reversal business order_id m = (of_order business order_id m \<and> sm_movement_type m = SALE_REVERSAL)"

text \<open>The loop over the original movements; \<open>already\<close> holds the ingredients put back so far.\<close>

fun mirror_originals ::
  "uuid \<Rightarrow> uuid \<Rightarrow> uuid option \<Rightarrow> string option \<Rightarrow> instant \<Rightarrow> uuid set \<Rightarrow> stock_movement list \<Rightarrow> stock_movement list result" where
  "mirror_originals business order_id user notes now already [] = Inr []"
| "mirror_originals business order_id user notes now already (m # ms) =
     (if sm_ingredient_id m \<in> already then mirror_originals business order_id user notes now already ms
      else and_then (build_movement business (sm_ingredient_id m) (- sm_quantity_milli m) SALE_REVERSAL
                      (sm_unit_cost_micro_cents m) (Some SRC_ORDER) (Some order_id) user
                      (Some (reversal_idempotency_key order_id (sm_ingredient_id m))) notes None now) (\<lambda>r.
           and_then (mirror_originals business order_id user notes now (insert (sm_ingredient_id m) already) ms) (\<lambda>rs.
             Inr (r # rs))))"

definition reverse_sale_consumption ::
  "stock_db \<Rightarrow> uuid \<Rightarrow> uuid \<Rightarrow> uuid option \<Rightarrow> string option \<Rightarrow> instant \<Rightarrow> (stock_db \<times> nat) result" where
  "reverse_sale_consumption db business order_id user notes now =
     (let originals = filter (is_consumption business order_id) (sd_movements db)
      in if originals = [] then Inr (db, 0)
         else let already = sm_ingredient_id ` set (filter (is_reversal business order_id) (sd_movements db))
              in and_then (mirror_originals business order_id user notes now already originals) (\<lambda>rs.
                 Inr (add_movements rs db, length rs)))"

text \<open>
  \<^verbatim>\<open>cancellation.py\<close>: the audit event written when the food was already made is the
  right component.
\<close>

definition reverse_consumption_on_cancel ::
  "stock_db \<Rightarrow> uuid \<Rightarrow> bool \<Rightarrow> uuid \<Rightarrow> order_status \<Rightarrow> uuid option \<Rightarrow> instant \<Rightarrow> (stock_db \<times> string list) result" where
  "reverse_consumption_on_cancel db business inventory_enabled order_id previous_status user now =
     (if \<not> inventory_enabled then Inr (db, [])
      else if previous_status \<in> pre_preparation_statuses
      then and_then (reverse_sale_consumption db business order_id user
                      (Some ''Order cancelled before preparation started'') now) (\<lambda>(db', n). Inr (db', []))
      else Inr (db, [''inventory.sale.stock_kept_consumed'']))"

subsection \<open>Reading positions\<close>

definition in_scope :: "uuid \<Rightarrow> uuid list \<Rightarrow> stock_movement \<Rightarrow> bool" where
  "in_scope business ids m = (sm_business_id m = business \<and> (ids = [] \<or> sm_ingredient_id m \<in> set ids))"

definition stock_on_hand :: "stock_movement list \<Rightarrow> uuid \<Rightarrow> instant option \<Rightarrow> uuid list \<Rightarrow> uuid \<Rightarrow> int option" where
  "stock_on_hand ms business as_of ids i =
     (let rows = filter (\<lambda>m. in_scope business ids m \<and> (\<forall>t \<in> set_option as_of. sm_occurred_at m \<le> t)
                            \<and> sm_ingredient_id m = i) ms
      in if rows = [] then None else Some (sum_list (map sm_quantity_milli rows)))"

definition movement_totals_by_type ::
  "stock_movement list \<Rightarrow> uuid \<Rightarrow> instant option \<Rightarrow> instant option \<Rightarrow> uuid list \<Rightarrow> uuid \<times> movement_type \<Rightarrow> int option" where
  "movement_totals_by_type ms business since until ids key = (case key of (i, t) \<Rightarrow>
     let rows = filter (\<lambda>m. in_scope business ids m \<and> (\<forall>s \<in> set_option since. s < sm_occurred_at m)
                   \<and> (\<forall>u \<in> set_option until. sm_occurred_at m \<le> u)
                   \<and> sm_ingredient_id m = i \<and> sm_movement_type m = t) ms
     in if rows = [] then None else Some (sum_list (map sm_quantity_milli rows)))"

text \<open>\<open>soh.get(ingredient, 0)\<close> with no cut-off, the balance the lemmas are about.\<close>

definition position :: "stock_movement list \<Rightarrow> uuid \<times> uuid \<Rightarrow> int" where
  "position ms acc = (case acc of (business, i) \<Rightarrow> dict_get 0 (stock_on_hand ms business None [] i))"

interpretation stock: signed_ledger "\<lambda>m. (sm_business_id m, sm_ingredient_id m)" sm_quantity_milli position
proof
  show "position [] a = 0" for a
    by (simp add: position_def stock_on_hand_def dict_get_def split: prod.split)
  show "position (rows @ [r]) a = position rows a + (if (sm_business_id r, sm_ingredient_id r) = a then sm_quantity_milli r else 0)"
    for rows r a
    by (auto simp: position_def stock_on_hand_def dict_get_def in_scope_def Let_def split: prod.split)
qed

end
