(* ===== verification/OrderModel.thy ===== *)
theory OrderModel imports OrderStatus PosPricing begin

text \<open>
  The rows every part of the order life cycle shares: the settings of a business that
  orders depend on (\<^verbatim>\<open>shared/models/business.py\<close>), an order, its items and its events
  (\<^verbatim>\<open>shared/models/order.py\<close>), the caller of a request and the audit trail.  The columns
  of the marketplace import are not part of these rows.
\<close>

record business =
  bu_id :: uuid
  bu_currency :: string
  bu_order_number_sequence :: int
  bu_delivery_fee_cents :: int
  bu_vat_registered :: bool
  bu_vat_rate_basis_points :: int
  bu_vat_inclusive_pricing :: bool
  bu_inventory_enabled :: bool
  bu_loyalty_enabled :: bool
  bu_pos_enabled :: bool
  bu_payment_provider :: "string option"
  bu_pos_cash_enabled :: bool
  bu_pos_card_enabled :: bool
  bu_pos_payfast_enabled :: bool
  bu_pos_yoco_enabled :: bool
  bu_pos_ikhoka_enabled :: bool
  bu_pos_direct_eft_enabled :: bool
  bu_pos_other_payment_enabled :: bool
  bu_pos_table_number_required :: bool
  bu_max_staff_discount_cents :: "int option"
  bu_online_payment_required :: bool
  bu_is_active :: bool
  bu_delivery_reconciliation_enabled :: bool
  bu_delivery_platforms_enabled :: bool
  bu_uber_eats_enabled :: bool
  bu_mrd_enabled :: bool
  bu_wastage_approval_threshold_cents :: int

datatype role = OWNER | MANAGER | STAFF

record auth_user =
  au_user_id :: uuid
  au_business_id :: uuid
  au_role :: role

record audit_event =
  ae_business_id :: uuid
  ae_actor_user_id :: "uuid option"
  ae_action :: string
  ae_target_id :: uuid

record order =
  or_id :: uuid
  or_business_id :: uuid
  or_customer_id :: "uuid option"
  or_order_number :: string
  or_status :: order_status
  or_payment_status :: payment_status
  or_order_mode :: order_mode
  or_source :: order_source
  or_subtotal_cents :: int
  or_delivery_fee_cents :: int
  or_total_cents :: int
  or_currency :: string
  or_customer_name :: "string option"
  or_phone_number :: "string option"
  or_delivery_address :: "string option"
  or_estimated_ready_at :: "instant option"
  or_confirmed_at :: "instant option"
  or_accepted_at :: "instant option"
  or_ready_at :: "instant option"
  or_completed_at :: "instant option"
  or_payment_required :: bool
  or_payment_method :: "string option"
  or_payment_link_url :: "string option"
  or_payment_reference :: "string option"
  or_paid_at :: "instant option"
  or_refund_reference :: "string option"
  or_refund_amount_cents :: "int option"
  or_refunded_at :: "instant option"
  or_cancelled_reason :: "string option"
  or_cancelled_by_user_id :: "uuid option"
  or_discount_cents :: int
  or_tax_cents :: int
  or_discount_reason :: "string option"
  or_discount_approved_by_user_id :: "uuid option"
  or_table_number :: "string option"
  or_cash_tendered_cents :: "int option"
  or_change_due_cents :: "int option"
  or_till_session_id :: "uuid option"
  or_idempotency_key :: "string option"
  or_created_by_user_id :: "uuid option"
  or_loyalty_discount_cents :: int
  or_loyalty_reward_id :: "uuid option"
  or_loyalty_points_redeemed :: int
  or_loyalty_reward_name :: "string option"
  or_refund_cash_cents :: "int option"
  or_special_instructions :: "string option"
  or_external_order_id :: "string option"
  or_external_batch_id :: "uuid option"
  or_external_placed_at :: "instant option"
  or_external_imported_at :: "instant option"
  or_external_status :: "string option"


record order_item =
  oi_order_id :: uuid
  oi_business_id :: uuid
  oi_menu_item_id :: "uuid option"
  oi_name_snapshot :: string
  oi_base_price_cents :: int
  oi_option_adjustment_cents :: int
  oi_add_on_total_cents :: int
  oi_unit_price_cents :: int
  oi_quantity :: int
  oi_line_total_cents :: int
  oi_options_snapshot :: "(string \<times> string) list option"
  oi_selected_options_snapshot :: "option_arg list option"
  oi_add_ons_snapshot :: "add_on_arg list option"
  oi_removed_ingredients_snapshot :: "removable_ingredient list option"
  oi_special_instructions :: "string option"
  oi_is_ad_hoc_price :: bool

record order_event =
  oe_order_id :: uuid
  oe_business_id :: uuid
  oe_old_status :: "order_status option"
  oe_new_status :: order_status
  oe_changed_by_user_id :: "uuid option"

text \<open>A row as its constructor makes it: the columns that are not given take their defaults.\<close>

definition new_order :: "uuid \<Rightarrow> uuid \<Rightarrow> string \<Rightarrow> order" where
  "new_order oid business number =
     \<lparr>or_id = oid, or_business_id = business, or_customer_id = None, or_order_number = number,
      or_status = NEW, or_payment_status = PS_PENDING, or_order_mode = PICKUP, or_source = WHATSAPP,
      or_subtotal_cents = 0, or_delivery_fee_cents = 0, or_total_cents = 0, or_currency = ''ZAR'',
      or_customer_name = None, or_phone_number = None, or_delivery_address = None,
      or_estimated_ready_at = None, or_confirmed_at = None, or_accepted_at = None, or_ready_at = None,
      or_completed_at = None, or_payment_required = False, or_payment_method = None,
      or_payment_link_url = None, or_payment_reference = None, or_paid_at = None,
      or_refund_reference = None, or_refund_amount_cents = None, or_refunded_at = None,
      or_cancelled_reason = None, or_cancelled_by_user_id = None, or_discount_cents = 0,
      or_tax_cents = 0, or_discount_reason = None, or_discount_approved_by_user_id = None,
      or_table_number = None, or_cash_tendered_cents = None, or_change_due_cents = None,
      or_till_session_id = None, or_idempotency_key = None, or_created_by_user_id = None,
      or_loyalty_discount_cents = 0, or_loyalty_reward_id = None, or_loyalty_points_redeemed = 0,
      or_loyalty_reward_name = None, or_refund_cash_cents = None, or_special_instructions = None,
      or_external_order_id = None, or_external_batch_id = None, or_external_placed_at = None,
      or_external_imported_at = None, or_external_status = None\<rparr>"

text \<open>\<open>OrderItem\<close> of a line resolved against the catalogue; an empty snapshot is stored as null.\<close>

definition or_none :: "'a list \<Rightarrow> 'a list option" where
  "or_none xs = (if xs = [] then None else Some xs)"

definition catalog_order_item :: "uuid \<Rightarrow> uuid \<Rightarrow> string option \<Rightarrow> resolved_pos_item \<Rightarrow> order_item" where
  "catalog_order_item oid business instructions r =
     \<lparr>oi_order_id = oid, oi_business_id = business, oi_menu_item_id = Some (rp_menu_item_id r),
      oi_name_snapshot = rp_name r,
      oi_base_price_cents = base_price_cents (rp_breakdown r),
      oi_option_adjustment_cents = option_adjustment_cents (rp_breakdown r),
      oi_add_on_total_cents = add_on_total_cents (rp_breakdown r),
      oi_unit_price_cents = unit_price_cents (rp_breakdown r),
      oi_quantity = quantity (rp_breakdown r),
      oi_line_total_cents = line_total_cents (rp_breakdown r),
      oi_options_snapshot = None, oi_selected_options_snapshot = or_none (map TypedOption (rp_selected_options_snapshot r)),
      oi_add_ons_snapshot = or_none (map TypedAddOn (rp_add_ons_snapshot r)),
      oi_removed_ingredients_snapshot = or_none (rp_removed_ingredients_snapshot r),
      oi_special_instructions = instructions, oi_is_ad_hoc_price = False\<rparr>"

subsection \<open>Order numbers\<close>

text \<open>\<^verbatim>\<open>shared/utils/__init__.py\<close>: a prefix and the sequence number, padded with zeros to six places.\<close>

definition zero_pad :: "nat \<Rightarrow> string \<Rightarrow> string" where
  "zero_pad k s = replicate (k - length s) CHR ''0'' @ s"

definition format_order_number :: "int \<Rightarrow> string" where
  "format_order_number sequence = ''BO-'' @
     (if 0 \<le> sequence then zero_pad 6 (nat_str (nat sequence))
      else ''-'' @ zero_pad 5 (nat_str (nat (- sequence))))"

text \<open>The number read back from its digits.\<close>

definition digits_value :: "string \<Rightarrow> nat" where
  "digits_value s = foldl (\<lambda>a c. 10 * a + (ord_of c - 48)) 0 s"

lemma digits_value_append: "digits_value (s @ [c]) = 10 * digits_value s + (ord_of c - 48)"
  by (simp add: digits_value_def)

lemma ord_digit_char: "n < 10 \<Longrightarrow> ord_of (digit_char n) = 48 + n"
  by (simp add: digit_char_def)

lemma digits_value_nat_str: "digits_value (nat_str n) = n"
proof (induction n rule: nat_str.induct)
  case (1 n)
  show ?case
  proof (cases "n < 10")
    case True
    then show ?thesis by (subst nat_str.simps) (simp add: digits_value_def ord_digit_char)
  next
    case False
    then have "digits_value (nat_str n) = 10 * digits_value (nat_str (n div 10)) + n mod 10"
      by (subst nat_str.simps) (simp add: digits_value_append ord_digit_char)
    with 1 False show ?thesis by simp
  qed
qed

lemma digits_value_pad: "digits_value (zero_pad k s) = digits_value s"
proof -
  have "foldl (\<lambda>a c. 10 * a + (ord_of c - 48)) 0 (replicate n CHR ''0'') = (0::nat)" for n
    by (induction n) simp_all
  then show ?thesis by (simp add: digits_value_def zero_pad_def)
qed

lemma format_order_number_inj:
  assumes "0 \<le> m" "0 \<le> n"
  shows "format_order_number m = format_order_number n \<longleftrightarrow> m = n"
proof
  assume "format_order_number m = format_order_number n"
  with assms have "zero_pad 6 (nat_str (nat m)) = zero_pad 6 (nat_str (nat n))"
    by (simp add: format_order_number_def)
  then have "nat m = nat n" by (metis digits_value_nat_str digits_value_pad)
  with assms show "m = n" by simp
qed simp

end
