(* ===== verification/Phone.thy ===== *)
theory Phone imports PyString begin

text \<open>
  \<^verbatim>\<open>backend/app/utils/phone.py\<close>: the canonical form of a South African mobile number,
  which is the identity of a walk-in customer and the destination of a receipt.
\<close>

definition is_strip_char :: "char \<Rightarrow> bool" where
  "is_strip_char c = (is_space c \<or> c = CHR ''-'' \<or> c = CHR ''('' \<or> c = CHR '')'')"

definition clean_number :: "string \<Rightarrow> string" where
  "clean_number raw = filter (\<lambda>c. \<not> is_strip_char c) (strip raw)"

definition mobile_prefixes :: "char list" where
  "mobile_prefixes = ''678''"

definition national_part :: "string \<Rightarrow> string option" where
  "national_part cleaned =
     (if starts_with ''+'' cleaned then
        (let digits = drop 1 cleaned
         in if \<not> isdigit digits then None
            else if \<not> starts_with ''27'' digits \<or> length digits \<noteq> 11 then None
            else Some (drop 2 digits))
      else if isdigit cleaned then
        (if starts_with ''27'' cleaned \<and> length cleaned = 11 then Some (drop 2 cleaned)
         else if starts_with ''0'' cleaned \<and> length cleaned = 10 then Some (drop 1 cleaned)
         else None)
      else None)"

definition normalize_sa_mobile :: "string option \<Rightarrow> string option" where
  "normalize_sa_mobile raw = (case raw of None \<Rightarrow> None | Some raw \<Rightarrow>
     if raw = [] then None
     else let cleaned = clean_number raw
       in if cleaned = [] then None
          else case national_part cleaned of None \<Rightarrow> None | Some national \<Rightarrow>
            if length national \<noteq> 9 \<or> \<not> isdigit national then None
            else if hd national \<notin> set mobile_prefixes then None
            else Some (''+27'' @ national))"

subsection \<open>The canonical form\<close>

text \<open>Nine digit characters, the first in the mobile range.\<close>

definition national_number :: "string \<Rightarrow> bool" where
  "national_number n = (length n = 9 \<and> isdigit n \<and> hd n \<in> set mobile_prefixes)"

lemma digit_not_strip: "is_digit_char c \<Longrightarrow> \<not> is_strip_char c"
proof
  assume d: "is_digit_char c" and s: "is_strip_char c"
  have "ord_of CHR ''-'' = 45" "ord_of CHR ''('' = 40" "ord_of CHR '')'' = 41" by simp_all
  with s have "ord_of c \<le> 45 \<or> ord_of c = 133 \<or> ord_of c = 160"
    by (auto simp: is_strip_char_def is_space_def Let_def)
  with d show False by (auto simp: is_digit_char_def is_ascii_digit_def)
qed

lemma plus_not_strip: "\<not> is_strip_char CHR ''+''"
  by (simp add: is_strip_char_def is_space_def Let_def)

lemma strip_id: "list_all (\<lambda>c. \<not> is_space c) s \<Longrightarrow> strip s = s"
proof -
  have d: "dropWhile is_space t = t" if "list_all (\<lambda>c. \<not> is_space c) t" for t
    using that by (cases t) simp_all
  assume "list_all (\<lambda>c. \<not> is_space c) s"
  then show ?thesis by (simp add: strip_def d list_all_rev)
qed

lemma clean_number_id: "list_all (\<lambda>c. \<not> is_strip_char c) s \<Longrightarrow> clean_number s = s"
proof -
  assume a: "list_all (\<lambda>c. \<not> is_strip_char c) s"
  then have "list_all (\<lambda>c. \<not> is_space c) s" by (auto simp: list_all_iff is_strip_char_def)
  then have "strip s = s" by (rule strip_id)
  with a show ?thesis by (simp add: clean_number_def list_all_iff)
qed

lemma isdigit_append: "isdigit (a @ b) \<longleftrightarrow> a @ b \<noteq> [] \<and> list_all is_digit_char a \<and> list_all is_digit_char b"
  by (auto simp: isdigit_def)

lemma ascii_digits: "is_digit_char CHR ''2''" "is_digit_char CHR ''7''" "is_digit_char CHR ''0''"
  "\<not> is_digit_char CHR ''+''"
  by (simp_all add: is_digit_char_def is_ascii_digit_def)

lemma national_part_eq:
  "national_part s = Some n \<and> length n = 9 \<and> isdigit n \<longleftrightarrow>
   length n = 9 \<and> isdigit n \<and> s \<in> {''0'' @ n, ''27'' @ n, ''+27'' @ n}"
proof
  assume "national_part s = Some n \<and> length n = 9 \<and> isdigit n"
  then show "length n = 9 \<and> isdigit n \<and> s \<in> {''0'' @ n, ''27'' @ n, ''+27'' @ n}"
    by (auto simp: national_part_def Let_def starts_with_iff split: if_splits)
next
  assume a: "length n = 9 \<and> isdigit n \<and> s \<in> {''0'' @ n, ''27'' @ n, ''+27'' @ n}"
  then have d: "list_all is_digit_char n" and l: "length n = 9" by (simp_all add: isdigit_def)
  from a consider "s = ''0'' @ n" | "s = ''27'' @ n" | "s = ''+27'' @ n" by blast
  then have "national_part s = Some n"
    by cases (use d l in \<open>simp_all add: national_part_def isdigit_def starts_with_def ascii_digits\<close>)
  with a show "national_part s = Some n \<and> length n = 9 \<and> isdigit n" by simp
qed

lemma normalize_eq:
  "normalize_sa_mobile (Some raw) = Some m \<longleftrightarrow>
     (\<exists>n. national_number n \<and> m = ''+27'' @ n \<and> clean_number raw \<in> {''0'' @ n, ''27'' @ n, ''+27'' @ n})"
proof
  assume "normalize_sa_mobile (Some raw) = Some m"
  then obtain n where n: "national_part (clean_number raw) = Some n" "length n = 9" "isdigit n"
    "hd n \<in> set mobile_prefixes" "m = ''+27'' @ n"
    by (auto simp: normalize_sa_mobile_def Let_def split: if_splits option.splits)
  then show "\<exists>n. national_number n \<and> m = ''+27'' @ n \<and> clean_number raw \<in> {''0'' @ n, ''27'' @ n, ''+27'' @ n}"
    using national_part_eq [of "clean_number raw" n] by (auto simp: national_number_def)
next
  assume "\<exists>n. national_number n \<and> m = ''+27'' @ n \<and> clean_number raw \<in> {''0'' @ n, ''27'' @ n, ''+27'' @ n}"
  then obtain n where n: "national_number n" "m = ''+27'' @ n"
    "clean_number raw \<in> {''0'' @ n, ''27'' @ n, ''+27'' @ n}" by blast
  then have "national_part (clean_number raw) = Some n"
    using national_part_eq [of "clean_number raw" n] by (auto simp: national_number_def)
  moreover have "clean_number raw \<noteq> []" "raw \<noteq> []" using n(3) by (auto simp: clean_number_def strip_def)
  ultimately show "normalize_sa_mobile (Some raw) = Some m"
    using n(1,2) by (simp add: normalize_sa_mobile_def national_number_def)
qed

text \<open>
  A number is accepted exactly when, without its separators, it is a mobile national
  number behind one of the three prefixes, and every spelling of one number gets the
  same canonical form; a canonical form is its own canonical form.
\<close>

theorem phone_canonical_form:
  "(normalize_sa_mobile (Some raw) = Some m \<longleftrightarrow>
     (\<exists>n. national_number n \<and> m = ''+27'' @ n \<and> clean_number raw \<in> {''0'' @ n, ''27'' @ n, ''+27'' @ n})) \<and>
   normalize_sa_mobile (normalize_sa_mobile r) = normalize_sa_mobile r"
proof (cases "normalize_sa_mobile r")
  case None
  then show ?thesis by (simp only: normalize_eq) (simp add: normalize_sa_mobile_def)
next
  case (Some c)
  then obtain s where "r = Some s" by (cases r) (auto simp: normalize_sa_mobile_def)
  with Some obtain n where n: "national_number n" "c = ''+27'' @ n" by (auto simp: normalize_eq)
  then have "list_all (\<lambda>x. \<not> is_strip_char x) c"
    using plus_not_strip by (auto simp: national_number_def isdigit_def list_all_iff digit_not_strip ascii_digits)
  then have "clean_number c = c" by (rule clean_number_id)
  with n have "normalize_sa_mobile (Some c) = Some c" by (simp add: normalize_eq)
  with Some show ?thesis by (simp add: normalize_eq)
qed

text \<open>\<open>isdigit\<close> also holds of superscripts, so a text that is not a number is accepted.\<close>

lemma superscript_number_accepted:
  "normalize_sa_mobile (Some (''082123456'' @ [CHR 0xB2])) = Some (''+2782123456'' @ [CHR 0xB2])"
  by code_simp

end
