(* ===== verification/Loyalty.thy ===== *)
theory Loyalty imports OrderModel Phone Ledger "HOL-Library.Sublist" begin

text \<open>
  \<^verbatim>\<open>backend/app/loyalty/engine.py\<close> and the handlers of
  \<^verbatim>\<open>backend/app/api/v1/routes_loyalty.py\<close> that move points, over
  \<^verbatim>\<open>shared/models/loyalty.py\<close> and \<^verbatim>\<open>shared/models/customer.py\<close>.  A balance is cached on the
  customer and every change appends a row to the ledger; the row lock of the code makes
  each operation read the balance it writes, so an operation is a function of the state.
  The check constraint on the balance and the unique index of the ledger are checked by
  the commit.  The reason texts are display and are not kept.
\<close>

datatype loyalty_tier = BRONZE | SILVER | GOLD

datatype loyalty_transaction_type = EARN | REDEEM | EXPIRE | BONUS | ADJUST

record loyalty_program =
  lp_business_id :: uuid
  lp_is_enabled :: bool
  lp_points_per_rand :: int
  lp_points_per_order :: int
  lp_points_expiry_days :: "int option"
  lp_min_redemption_points :: int
  lp_silver_tier_points :: int
  lp_gold_tier_points :: int
  lp_double_points_promo_active :: bool
  lp_double_points_promo_starts_at :: "instant option"
  lp_double_points_promo_ends_at :: "instant option"

record loyalty_reward =
  lr_id :: uuid
  lr_business_id :: uuid
  lr_name :: string
  lr_points_cost :: int
  lr_is_active :: bool
  lr_value_cents :: "int option"

record loyalty_transaction =
  lt_business_id :: uuid
  lt_customer_id :: uuid
  lt_order_id :: "uuid option"
  lt_transaction_type :: loyalty_transaction_type
  lt_points_delta :: int
  lt_balance_after :: int
  lt_idempotency_key :: "string option"

record customer =
  cu_id :: uuid
  cu_business_id :: uuid
  cu_wa_id :: "string option"
  cu_display_name :: "string option"
  cu_phone_number :: "string option"
  cu_loyalty_points_balance :: int
  cu_loyalty_tier :: loyalty_tier
  cu_loyalty_points_expire_at :: "instant option"

record loyalty_db =
  ld_programs :: "loyalty_program list"
  ld_rewards :: "loyalty_reward list"
  ld_customers :: "customer list"
  ld_txns :: "loyalty_transaction list"
  ld_audit :: "audit_event list"

definition redeem_idempotency_key :: "uuid \<Rightarrow> string" where
  "redeem_idempotency_key order_id = ''REDEEM:'' @ uuid_str order_id"

definition redeem_reversal_idempotency_key :: "uuid \<Rightarrow> string" where
  "redeem_reversal_idempotency_key order_id = ''REDEEM_REVERSAL:'' @ uuid_str order_id"

definition manual_adjustment_idempotency_key :: "string \<Rightarrow> string" where
  "manual_adjustment_idempotency_key raw_key = ''ADJUST:'' @ raw_key"

definition compute_tier :: "int \<Rightarrow> loyalty_program \<Rightarrow> loyalty_tier" where
  "compute_tier points_balance program =
     (if points_balance \<ge> lp_gold_tier_points program then GOLD
      else if points_balance \<ge> lp_silver_tier_points program then SILVER
      else BRONZE)"

subsection \<open>The database\<close>

definition txn_key :: "loyalty_transaction \<Rightarrow> (uuid \<times> string) option" where
  "txn_key t = map_option (Pair (lt_business_id t)) (lt_idempotency_key t)"

definition commit_loyalty :: "loyalty_db \<Rightarrow> loyalty_db result" where
  "commit_loyalty db =
     and_then (raise_if (\<not> list_all (\<lambda>c. 0 \<le> cu_loyalty_points_balance c) (ld_customers db))
                 (IntegrityError ''ck_customers_loyalty_points_balance_nonneg'')) (\<lambda>_.
     and_then (raise_if (\<not> unique_index txn_key (ld_txns db))
                 (IntegrityError ''uq_loyalty_transactions_business_id_idempotency_key'')) (\<lambda>_.
       Inr db))"

text \<open>\<open>select(LoyaltyProgram).where(business_id == ...)\<close>.\<close>

definition program_of :: "loyalty_db \<Rightarrow> uuid \<Rightarrow> loyalty_program option result" where
  "program_of db business = scalar_one_or_none (filter (\<lambda>p. lp_business_id p = business) (ld_programs db))"

definition lock_customer_for_balance_update :: "loyalty_db \<Rightarrow> uuid \<Rightarrow> uuid \<Rightarrow> customer result" where
  "lock_customer_for_balance_update db business customer_id =
     and_then (scalar_one_or_none (filter (\<lambda>c. cu_id c = customer_id \<and> cu_business_id c = business) (ld_customers db)))
       (\<lambda>row. or_raise row (not_found_error ''Customer''))"

text \<open>Setting a balance, and the tier when the business has a programme.\<close>

definition with_balance :: "customer \<Rightarrow> int \<Rightarrow> loyalty_program option \<Rightarrow> customer" where
  "with_balance customer balance program =
     (case program of None \<Rightarrow> customer\<lparr>cu_loyalty_points_balance := balance\<rparr>
      | Some p \<Rightarrow> customer\<lparr>cu_loyalty_points_balance := balance, cu_loyalty_tier := compute_tier balance p\<rparr>)"

text \<open>Writing the loaded customer back and adding a row to the ledger, in one flush.\<close>

definition write_points :: "customer \<Rightarrow> loyalty_transaction \<Rightarrow> loyalty_db \<Rightarrow> loyalty_db" where
  "write_points c t db = db\<lparr>
     ld_customers := update_where (\<lambda>r. cu_id r = cu_id c) (\<lambda>_. c) (ld_customers db),
     ld_txns := ld_txns db @ [t]\<rparr>"

subsection \<open>Earning\<close>

definition is_double_points_active :: "loyalty_program \<Rightarrow> instant \<Rightarrow> bool" where
  "is_double_points_active program now =
     (lp_double_points_promo_active program \<and>
      (case lp_double_points_promo_starts_at program of None \<Rightarrow> True | Some s \<Rightarrow> \<not> now < s) \<and>
      (case lp_double_points_promo_ends_at program of None \<Rightarrow> True | Some e \<Rightarrow> \<not> now > e))"

definition day :: int where "day = 86400000000"

definition points_earned :: "order \<Rightarrow> loyalty_program \<Rightarrow> instant \<Rightarrow> int" where
  "points_earned order program now =
     (let base_points = (or_total_cents order div 100) * lp_points_per_rand program + lp_points_per_order program;
          multiplier = (if is_double_points_active program now then 2 else 1)
      in base_points * multiplier)"

definition award_points_for_paid_order ::
  "loyalty_db \<Rightarrow> uuid \<Rightarrow> uuid \<Rightarrow> order \<Rightarrow> loyalty_program \<Rightarrow> instant \<Rightarrow> (loyalty_db \<times> int) result" where
  "award_points_for_paid_order db business customer_id order program now =
     (if \<not> lp_is_enabled program then Inr (db, 0)
      else let points = points_earned order program now
        in if points \<le> 0 then Inr (db, 0)
           else and_then (lock_customer_for_balance_update db business customer_id) (\<lambda>customer.
             let balance = cu_loyalty_points_balance customer + points;
                 customer = customer\<lparr>cu_loyalty_points_balance := balance,
                                     cu_loyalty_tier := compute_tier balance program\<rparr>;
                 customer = (case lp_points_expiry_days program of None \<Rightarrow> customer | Some days \<Rightarrow>
                   if days = 0 then customer
                   else customer\<lparr>cu_loyalty_points_expire_at := Some (now + days * day)\<rparr>)
             in Inr (write_points customer
                  \<lparr>lt_business_id = business, lt_customer_id = cu_id customer, lt_order_id = Some (or_id order),
                   lt_transaction_type = EARN, lt_points_delta = points, lt_balance_after = balance,
                   lt_idempotency_key = None\<rparr> db, points)))"

text \<open>A failure is logged and swallowed: the database stays as it was.\<close>

definition award_loyalty_points_if_enabled :: "loyalty_db \<Rightarrow> uuid \<Rightarrow> order \<Rightarrow> instant \<Rightarrow> loyalty_db" where
  "award_loyalty_points_if_enabled db business order now =
     (case or_customer_id order of None \<Rightarrow> db | Some cid \<Rightarrow>
       (case and_then (program_of db business) (\<lambda>p. case p of None \<Rightarrow> Inr db | Some program \<Rightarrow>
          if \<not> lp_is_enabled program then Inr db
          else and_then (scalar_one_or_none (filter (\<lambda>c. cu_id c = cid) (ld_customers db))) (\<lambda>row.
            case row of None \<Rightarrow> Inr db | Some customer \<Rightarrow>
              and_then (award_points_for_paid_order db business (cu_id customer) order program now)
                (\<lambda>(db, _). commit_loyalty db)))
        of Inl _ \<Rightarrow> db | Inr db' \<Rightarrow> db'))"

subsection \<open>Redeeming\<close>

definition redeem_reward ::
  "loyalty_db \<Rightarrow> uuid \<Rightarrow> uuid \<Rightarrow> loyalty_reward \<Rightarrow> loyalty_program \<Rightarrow> uuid option \<Rightarrow>
   (loyalty_db \<times> loyalty_transaction) result" where
  "redeem_reward db business customer_id reward program order_id =
     and_then (raise_if (\<not> lp_is_enabled program) (AppError ''LOYALTY_DISABLED'' 422)) (\<lambda>_.
     and_then (raise_if (\<not> lr_is_active reward) (AppError ''REWARD_INACTIVE'' 422)) (\<lambda>_.
     and_then (lock_customer_for_balance_update db business customer_id) (\<lambda>customer.
     and_then (raise_if (cu_loyalty_points_balance customer < lp_min_redemption_points program)
                 (AppError ''BELOW_MIN_REDEMPTION'' 422)) (\<lambda>_.
     and_then (raise_if (cu_loyalty_points_balance customer < lr_points_cost reward)
                 (AppError ''INSUFFICIENT_POINTS'' 422)) (\<lambda>_.
       let balance = cu_loyalty_points_balance customer - lr_points_cost reward;
           customer = customer\<lparr>cu_loyalty_points_balance := balance,
                               cu_loyalty_tier := compute_tier balance program\<rparr>;
           txn = \<lparr>lt_business_id = business, lt_customer_id = cu_id customer, lt_order_id = order_id,
                  lt_transaction_type = REDEEM, lt_points_delta = - lr_points_cost reward,
                  lt_balance_after = balance,
                  lt_idempotency_key = map_option redeem_idempotency_key order_id\<rparr>
       in Inr (write_points customer txn db, txn))))))"

record checkout_redemption =
  cr_discount_cents :: int
  cr_points_cost :: int
  cr_shortfall_cents :: int
  cr_reward_name :: string

definition redeem_reward_for_checkout ::
  "loyalty_db \<Rightarrow> uuid \<Rightarrow> uuid \<Rightarrow> loyalty_reward \<Rightarrow> loyalty_program \<Rightarrow> uuid \<Rightarrow> int \<Rightarrow>
   (loyalty_db \<times> checkout_redemption) result" where
  "redeem_reward_for_checkout db business customer_id reward program order_id max_discountable_cents =
     and_then (or_raise (lr_value_cents reward) (AppError ''REWARD_NOT_REDEEMABLE_AT_TILL'' 422)) (\<lambda>value.
     and_then (redeem_reward db business customer_id reward program (Some order_id)) (\<lambda>(db, txn).
       let discount_cents = min value (max 0 max_discountable_cents)
       in Inr (db, \<lparr>cr_discount_cents = discount_cents, cr_points_cost = lr_points_cost reward,
                    cr_shortfall_cents = value - discount_cents, cr_reward_name = lr_name reward\<rparr>)))"

definition reverse_redemption :: "loyalty_db \<Rightarrow> uuid \<Rightarrow> uuid \<Rightarrow> (loyalty_db \<times> int) result" where
  "reverse_redemption db business order_id =
     and_then (scalar_one_or_none (filter (\<lambda>t. lt_business_id t = business \<and> lt_order_id t = Some order_id \<and>
                 lt_transaction_type t = REDEEM) (ld_txns db))) (\<lambda>original.
     case original of None \<Rightarrow> Inr (db, 0) | Some original \<Rightarrow>
     and_then (scalar_one_or_none (filter (\<lambda>t. lt_business_id t = business \<and>
                 lt_idempotency_key t = Some (redeem_reversal_idempotency_key order_id)) (ld_txns db)))
       (\<lambda>already_reversed.
     if already_reversed \<noteq> None then Inr (db, 0)
     else and_then (program_of db business) (\<lambda>program.
       and_then (lock_customer_for_balance_update db business (lt_customer_id original)) (\<lambda>customer.
         let points_back = - lt_points_delta original;
             balance = cu_loyalty_points_balance customer + points_back;
             customer = with_balance customer balance program
         in Inr (write_points customer
              \<lparr>lt_business_id = business, lt_customer_id = cu_id customer, lt_order_id = Some order_id,
               lt_transaction_type = ADJUST, lt_points_delta = points_back, lt_balance_after = balance,
               lt_idempotency_key = Some (redeem_reversal_idempotency_key order_id)\<rparr> db, points_back)))))"

subsection \<open>Adjusting by hand\<close>

definition adjust_points ::
  "loyalty_db \<Rightarrow> uuid \<Rightarrow> uuid \<Rightarrow> loyalty_program option \<Rightarrow> int \<Rightarrow> string option \<Rightarrow>
   (loyalty_db \<times> loyalty_transaction) result" where
  "adjust_points db business customer_id program points_delta idempotency_key =
     and_then (raise_if (points_delta = 0) (AppError ''ZERO_ADJUSTMENT'' 422)) (\<lambda>_.
     and_then (lock_customer_for_balance_update db business customer_id) (\<lambda>customer.
       let new_balance = cu_loyalty_points_balance customer + points_delta
       in and_then (raise_if (new_balance < 0) (AppError ''INSUFFICIENT_POINTS_FOR_ADJUSTMENT'' 422)) (\<lambda>_.
         let customer = with_balance customer new_balance program;
             txn = \<lparr>lt_business_id = business, lt_customer_id = cu_id customer, lt_order_id = None,
                    lt_transaction_type = ADJUST, lt_points_delta = points_delta,
                    lt_balance_after = new_balance, lt_idempotency_key = idempotency_key\<rparr>
         in Inr (write_points customer txn db, txn))))"

subsection \<open>Customers known by their phone\<close>

definition get_or_create_customer_by_phone ::
  "loyalty_db \<Rightarrow> uuid \<Rightarrow> string \<Rightarrow> string option \<Rightarrow> uuid \<Rightarrow> (loyalty_db \<times> customer) result" where
  "get_or_create_customer_by_phone db business phone_number display_name new_id =
     and_then (or_raise (normalize_sa_mobile (Some phone_number)) (AppError ''INVALID_PHONE_NUMBER'' 422)) (\<lambda>normalized.
     and_then (scalar_one_or_none (filter (\<lambda>c. cu_business_id c = business \<and> cu_phone_number c = Some normalized)
                 (ld_customers db))) (\<lambda>row.
       case row of Some customer \<Rightarrow> Inr (db, customer)
       | None \<Rightarrow>
         let customer = \<lparr>cu_id = new_id, cu_business_id = business, cu_wa_id = None,
               cu_display_name = display_name, cu_phone_number = Some normalized,
               cu_loyalty_points_balance = 0, cu_loyalty_tier = BRONZE, cu_loyalty_points_expire_at = None\<rparr>
         in Inr (db\<lparr>ld_customers := ld_customers db @ [customer]\<rparr>, customer)))"

subsection \<open>The handlers\<close>

definition require_loyalty_enabled :: "business list \<Rightarrow> uuid \<Rightarrow> business result" where
  "require_loyalty_enabled businesses business =
     and_then (scalar_one_or_none (filter (\<lambda>b. bu_id b = business) businesses)) (\<lambda>row.
     and_then (or_raise row (not_found_error ''Business'')) (\<lambda>b.
     and_then (raise_if (\<not> bu_loyalty_enabled b) (AppError ''LOYALTY_NOT_ENABLED'' 409)) (\<lambda>_. Inr b)))"

definition default_program :: "uuid \<Rightarrow> loyalty_program" where
  "default_program business =
     \<lparr>lp_business_id = business, lp_is_enabled = False, lp_points_per_rand = 1, lp_points_per_order = 0,
      lp_points_expiry_days = None, lp_min_redemption_points = 0, lp_silver_tier_points = 500,
      lp_gold_tier_points = 2000, lp_double_points_promo_active = False,
      lp_double_points_promo_starts_at = None, lp_double_points_promo_ends_at = None\<rparr>"

definition get_or_create_program :: "loyalty_db \<Rightarrow> uuid \<Rightarrow> (loyalty_db \<times> loyalty_program) result" where
  "get_or_create_program db business =
     and_then (program_of db business) (\<lambda>row. case row of Some p \<Rightarrow> Inr (db, p)
       | None \<Rightarrow> Inr (db\<lparr>ld_programs := ld_programs db @ [default_program business]\<rparr>, default_program business))"

definition customer_of :: "loyalty_db \<Rightarrow> uuid \<Rightarrow> uuid \<Rightarrow> customer result" where
  "customer_of db business customer_id =
     and_then (scalar_one_or_none (filter (\<lambda>c. cu_id c = customer_id \<and> cu_business_id c = business) (ld_customers db)))
       (\<lambda>row. or_raise row (not_found_error ''Customer''))"

definition reward_of :: "loyalty_db \<Rightarrow> uuid \<Rightarrow> uuid \<Rightarrow> loyalty_reward result" where
  "reward_of db business reward_id =
     and_then (scalar_one_or_none (filter (\<lambda>r. lr_id r = reward_id \<and> lr_business_id r = business) (ld_rewards db)))
       (\<lambda>row. or_raise row (not_found_error ''LoyaltyReward''))"

definition redeem_loyalty_reward ::
  "business list \<Rightarrow> loyalty_db \<Rightarrow> auth_user \<Rightarrow> uuid \<Rightarrow> uuid \<Rightarrow> (loyalty_db \<times> loyalty_transaction) result" where
  "redeem_loyalty_reward businesses db user customer_id reward_id =
     (let business = au_business_id user
      in and_then (require_loyalty_enabled businesses business) (\<lambda>_.
         and_then (get_or_create_program db business) (\<lambda>(db, program).
         and_then (customer_of db business customer_id) (\<lambda>customer.
         and_then (reward_of db business reward_id) (\<lambda>reward.
         and_then (redeem_reward db business (cu_id customer) reward program None) (\<lambda>(db, txn).
         and_then (commit_loyalty db) (\<lambda>db. Inr (db, txn))))))))"

definition lookup_customer_by_phone ::
  "business list \<Rightarrow> loyalty_db \<Rightarrow> auth_user \<Rightarrow> string \<Rightarrow> uuid \<Rightarrow> (loyalty_db \<times> customer) result" where
  "lookup_customer_by_phone businesses db user phone new_id =
     (let business = au_business_id user
      in and_then (require_loyalty_enabled businesses business) (\<lambda>_.
         and_then (get_or_create_program db business) (\<lambda>(db, program).
         and_then (raise_if (\<not> lp_is_enabled program) (not_found_error ''LoyaltyProgram'')) (\<lambda>_.
         and_then (get_or_create_customer_by_phone db business phone None new_id) (\<lambda>(db, customer).
         and_then (commit_loyalty db) (\<lambda>db. Inr (db, customer)))))))"

definition create_reward ::
  "business list \<Rightarrow> loyalty_db \<Rightarrow> auth_user \<Rightarrow> uuid \<Rightarrow> string \<Rightarrow> int \<Rightarrow> int option \<Rightarrow> loyalty_db result" where
  "create_reward businesses db user new_id name points_cost value_cents =
     and_then (require_loyalty_enabled businesses (au_business_id user)) (\<lambda>_.
       commit_loyalty (db\<lparr>ld_rewards := ld_rewards db @
         [\<lparr>lr_id = new_id, lr_business_id = au_business_id user, lr_name = name, lr_points_cost = points_cost,
           lr_is_active = True, lr_value_cents = value_cents\<rparr>]\<rparr>))"

definition delete_reward :: "business list \<Rightarrow> loyalty_db \<Rightarrow> auth_user \<Rightarrow> uuid \<Rightarrow> loyalty_db result" where
  "delete_reward businesses db user reward_id =
     and_then (require_loyalty_enabled businesses (au_business_id user)) (\<lambda>_.
     and_then (reward_of db (au_business_id user) reward_id) (\<lambda>reward.
       commit_loyalty (db\<lparr>ld_rewards :=
         update_where (\<lambda>r. lr_id r = lr_id reward) (\<lambda>_. reward\<lparr>lr_is_active := False\<rparr>) (ld_rewards db)\<rparr>)))"

definition find_by_idempotency_key :: "loyalty_db \<Rightarrow> uuid \<Rightarrow> string \<Rightarrow> loyalty_transaction option result" where
  "find_by_idempotency_key db business key =
     scalar_one_or_none (filter (\<lambda>t. lt_business_id t = business \<and> lt_idempotency_key t = Some key) (ld_txns db))"

definition is_adjustment_idempotency_violation :: "app_error \<Rightarrow> bool" where
  "is_adjustment_idempotency_violation e =
     (e = IntegrityError ''uq_loyalty_transactions_business_id_idempotency_key'')"

definition namespaced_key :: "string option \<Rightarrow> string option" where
  "namespaced_key idempotency_key = (case idempotency_key of None \<Rightarrow> None
     | Some k \<Rightarrow> if k = [] then None else Some (manual_adjustment_idempotency_key k))"

definition replay_adjustment :: "loyalty_db \<Rightarrow> uuid \<Rightarrow> string option \<Rightarrow> loyalty_transaction option result" where
  "replay_adjustment db business key =
     (case key of None \<Rightarrow> Inr None | Some k \<Rightarrow> find_by_idempotency_key db business k)"

text \<open>The body of the \<open>try\<close>: the adjustment, its audit event and the commit.\<close>

definition adjust_and_commit ::
  "loyalty_db \<Rightarrow> auth_user \<Rightarrow> customer \<Rightarrow> loyalty_program option \<Rightarrow> int \<Rightarrow> string option \<Rightarrow>
   (loyalty_db \<times> loyalty_transaction) result" where
  "adjust_and_commit db user customer program points_delta key =
     and_then (adjust_points db (au_business_id user) (cu_id customer) program points_delta key) (\<lambda>(db, txn).
     and_then (commit_loyalty (db\<lparr>ld_audit := ld_audit db @
         [\<lparr>ae_business_id = au_business_id user, ae_actor_user_id = Some (au_user_id user),
           ae_action = ''loyalty.points.adjusted'', ae_target_id = cu_id customer\<rparr>]\<rparr>)) (\<lambda>db. Inr (db, txn)))"

text \<open>
  The handler of a manual adjustment.  What it reads before it takes the row lock is read
  from \<open>seen\<close>; another request may commit in between, so the lock and the commit work on
  \<open>db\<close>.  The audit event carries the target customer.
\<close>

definition adjust_customer_points ::
  "business list \<Rightarrow> loyalty_db \<Rightarrow> loyalty_db \<Rightarrow> auth_user \<Rightarrow> uuid \<Rightarrow> int \<Rightarrow> string option \<Rightarrow>
   (loyalty_db \<times> loyalty_transaction) result" where
  "adjust_customer_points businesses seen db user customer_id points_delta idempotency_key =
     (let business = au_business_id user; key = namespaced_key idempotency_key
      in and_then (require_loyalty_enabled businesses business) (\<lambda>_.
         and_then (customer_of seen business customer_id) (\<lambda>customer.
         and_then (replay_adjustment seen business key) (\<lambda>existing. case existing of Some t \<Rightarrow> Inr (db, t) | None \<Rightarrow>
         and_then (program_of seen business) (\<lambda>program.
           case adjust_and_commit db user customer program points_delta key of
             Inr r \<Rightarrow> Inr r
           | Inl e \<Rightarrow>
               if key \<noteq> None \<and> is_adjustment_idempotency_violation e
               then and_then (replay_adjustment db business key) (\<lambda>existing.
                 case existing of Some t \<Rightarrow> Inr (db, t) | None \<Rightarrow> Inl e)
               else Inl e)))))"

end
