(* ===== verification/Shop.thy ===== *)
theory Shop imports StockLedger Loyalty begin

text \<open>
  The tables an order touches, put together: the rows of \<^verbatim>\<open>shared/models/till.py\<close> and
  \<^verbatim>\<open>shared/models/pos_payment.py\<close>, the database of the order and till handlers, and what
  a commit checks: the unique indexes and check constraints of the migrations.
\<close>

datatype till_status = TILL_OPEN | TILL_CLOSED

record till_session =
  ts_id :: uuid
  ts_business_id :: uuid
  ts_opened_by_user_id :: uuid
  ts_closed_by_user_id :: "uuid option"
  ts_approved_by_user_id :: "uuid option"
  ts_opening_float_cents :: int
  ts_expected_cash_cents :: "int option"
  ts_counted_cash_cents :: "int option"
  ts_variance_cents :: "int option"
  ts_status :: till_status
  ts_opened_at :: instant
  ts_closed_at :: "instant option"

datatype payment_method = M_CASH | M_CARD | M_OTHER | M_PAY_BY_LINK

datatype refund_state = PENDING_MANUAL | CONFIRMED

record payment_allocation =
  pa_business_id :: uuid
  pa_order_id :: uuid
  pa_till_session_id :: "uuid option"
  pa_payment_method :: payment_method
  pa_amount_cents :: int
  pa_cash_tendered_cents :: "int option"
  pa_change_due_cents :: "int option"
  pa_payment_reference :: "string option"
  pa_provider :: "string option"
  pa_payment_link_intent_id :: "uuid option"
  pa_paid_at :: "instant option"
  pa_created_by_user_id :: "uuid option"
  pa_created_at :: instant
  pa_provider_refund_status :: "refund_state option"
  pa_provider_refund_confirmed_at :: "instant option"
  pa_provider_refund_confirmed_by_user_id :: "uuid option"

datatype intent_status = I_PENDING | I_PAID | I_FAILED | I_EXPIRED | I_CANCELLED | I_CONSUMED

record payment_link_intent =
  in_id :: uuid
  in_business_id :: uuid
  in_till_session_id :: "uuid option"
  in_created_by_user_id :: "uuid option"
  in_amount_cents :: int
  in_currency :: string
  in_provider :: string
  in_status :: intent_status
  in_provider_reference :: "string option"
  in_payment_link_url :: "string option"
  in_customer_phone :: "string option"
  in_order_id :: "uuid option"
  in_created_at :: instant
  in_expires_at :: instant
  in_paid_at :: "instant option"
  in_consumed_at :: "instant option"
  in_cancelled_at :: "instant option"

record shop_db =
  sh_businesses :: "business list"
  sh_catalog :: catalog
  sh_orders :: "order list"
  sh_items :: "order_item list"
  sh_events :: "order_event list"
  sh_audit :: "audit_event list"
  sh_stock :: stock_db
  sh_loyalty :: loyalty_db
  sh_tills :: "till_session list"
  sh_allocations :: "payment_allocation list"
  sh_intents :: "payment_link_intent list"

subsection \<open>What a commit checks\<close>

definition order_key :: "order \<Rightarrow> (uuid \<times> string) option" where
  "order_key o1 = map_option (Pair (or_business_id o1)) (or_idempotency_key o1)"

definition order_number_key :: "order \<Rightarrow> (uuid \<times> string) option" where
  "order_number_key o1 = Some (or_business_id o1, or_order_number o1)"

definition open_till_key :: "till_session \<Rightarrow> uuid option" where
  "open_till_key s = (if ts_status s = TILL_OPEN then Some (ts_business_id s) else None)"

definition allocation_ok :: "payment_allocation \<Rightarrow> bool" where
  "allocation_ok a = (0 < pa_amount_cents a \<and>
     (pa_payment_method a \<noteq> M_CASH \<longrightarrow> pa_cash_tendered_cents a = None \<and> pa_change_due_cents a = None) \<and>
     (pa_payment_method a = M_CASH \<longrightarrow> (case pa_cash_tendered_cents a of None \<Rightarrow> False | Some t \<Rightarrow> pa_amount_cents a \<le> t)) \<and>
     (pa_payment_method a \<noteq> M_PAY_BY_LINK \<longrightarrow> pa_provider a = None \<and> pa_payment_link_intent_id a = None))"

definition intent_ok :: "payment_link_intent \<Rightarrow> bool" where
  "intent_ok i = (0 < in_amount_cents i \<and> in_provider i \<in> {''YOCO'', ''PAYFAST''} \<and>
     (in_status i = I_CONSUMED \<longrightarrow> in_order_id i \<noteq> None))"

text \<open>The constraints in the order a checkout can run into them.\<close>

definition shop_constraints :: "shop_db \<Rightarrow> (bool \<times> string) list" where
  "shop_constraints db =
     [(unique_index order_key (sh_orders db), ''uq_orders_business_idempotency_key''),
      (unique_index order_number_key (sh_orders db), ''uq_orders_business_id_order_number''),
      (unique_index open_till_key (sh_tills db), ''uq_till_sessions_one_open_per_business''),
      (unique_index in_order_id (sh_intents db), ''uq_pos_payment_link_intents_order_id''),
      (list_all intent_ok (sh_intents db), ''ck_pos_payment_link_intents''),
      (list_all allocation_ok (sh_allocations db), ''ck_pos_payment_allocations''),
      (stock_index (sd_movements (sh_stock db)), ''uq_stock_movements_business_id_idempotency_key'')]"

definition commit_shop :: "shop_db \<Rightarrow> shop_db result" where
  "commit_shop db =
     (case find (\<lambda>c. \<not> fst c) (shop_constraints db) of
        Some c \<Rightarrow> Inl (IntegrityError (snd c))
      | None \<Rightarrow> and_then (commit_loyalty (sh_loyalty db)) (\<lambda>_. Inr db))"

definition shop_ok :: "shop_db \<Rightarrow> bool" where
  "shop_ok db = (unique_index order_key (sh_orders db) \<and> unique_index order_number_key (sh_orders db) \<and>
     unique_index open_till_key (sh_tills db) \<and> unique_index in_order_id (sh_intents db) \<and>
     list_all intent_ok (sh_intents db) \<and> list_all allocation_ok (sh_allocations db) \<and>
     stock_index (sd_movements (sh_stock db)) \<and> commit_loyalty (sh_loyalty db) = Inr (sh_loyalty db))"

lemma commit_loyalty_same: "commit_loyalty db = Inr db' \<Longrightarrow> db' = db"
  by (auto simp: commit_loyalty_def result_simps)

lemma commit_shop_eq: "commit_shop db = Inr db' \<longleftrightarrow> db' = db \<and> shop_ok db"
  by (auto simp: commit_shop_def shop_constraints_def shop_ok_def find_Some_iff result_simps
      dest: commit_loyalty_same split: option.splits)

subsection \<open>Loading and writing rows\<close>

definition business_of :: "shop_db \<Rightarrow> uuid \<Rightarrow> business result" where
  "business_of db business =
     and_then (scalar_one_or_none (filter (\<lambda>b. bu_id b = business) (sh_businesses db)))
       (\<lambda>row. or_raise row (not_found_error ''Business''))"

definition order_of :: "shop_db \<Rightarrow> uuid \<Rightarrow> uuid \<Rightarrow> order result" where
  "order_of db business oid =
     and_then (scalar_one_or_none (filter (\<lambda>r. or_id r = oid \<and> or_business_id r = business) (sh_orders db)))
       (\<lambda>row. or_raise row (not_found_error ''Order''))"

definition write_order :: "order \<Rightarrow> shop_db \<Rightarrow> shop_db" where
  "write_order o1 db = db\<lparr>sh_orders := update_where (\<lambda>r. or_id r = or_id o1) (\<lambda>_. o1) (sh_orders db)\<rparr>"

definition add_order :: "order \<Rightarrow> shop_db \<Rightarrow> shop_db" where
  "add_order o1 db = db\<lparr>sh_orders := sh_orders db @ [o1]\<rparr>"

definition add_event :: "order_event \<Rightarrow> shop_db \<Rightarrow> shop_db" where
  "add_event e db = db\<lparr>sh_events := sh_events db @ [e]\<rparr>"

definition add_audit :: "uuid \<Rightarrow> uuid option \<Rightarrow> string \<Rightarrow> uuid \<Rightarrow> shop_db \<Rightarrow> shop_db" where
  "add_audit business actor action target db = db\<lparr>sh_audit := sh_audit db @
     [\<lparr>ae_business_id = business, ae_actor_user_id = actor, ae_action = action, ae_target_id = target\<rparr>]\<rparr>"

text \<open>\<open>UPDATE businesses SET order_number_sequence = order_number_sequence + 1 ... RETURNING\<close>.\<close>

definition next_order_number :: "shop_db \<Rightarrow> uuid \<Rightarrow> (shop_db \<times> business) result" where
  "next_order_number db business =
     (let bump = (\<lambda>b. b\<lparr>bu_order_number_sequence := bu_order_number_sequence b + 1\<rparr>);
          db' = db\<lparr>sh_businesses := update_where (\<lambda>b. bu_id b = business) bump (sh_businesses db)\<rparr>
      in and_then (business_of db' business) (\<lambda>b. Inr (db', b)))"

lemma order_of_in: "order_of db b oid = Inr o1 \<Longrightarrow> o1 \<in> set (sh_orders db) \<and> or_id o1 = oid \<and> or_business_id o1 = b"
proof -
  assume "order_of db b oid = Inr o1"
  then have "scalar_one_or_none (filter (\<lambda>r. or_id r = oid \<and> or_business_id r = b) (sh_orders db)) = Inr (Some o1)"
    by (auto simp: order_of_def and_then_eq_Inr or_raise_eq_Inr)
  from scalar_one_or_none_filter [OF this] show ?thesis by simp
qed

lemma business_of_in: "business_of db b = Inr x \<Longrightarrow> x \<in> set (sh_businesses db) \<and> bu_id x = b"
proof -
  assume "business_of db b = Inr x"
  then have "scalar_one_or_none (filter (\<lambda>r. bu_id r = b) (sh_businesses db)) = Inr (Some x)"
    by (auto simp: business_of_def and_then_eq_Inr or_raise_eq_Inr)
  from scalar_one_or_none_filter [OF this] show ?thesis by simp
qed

end
