(* ===== verification/Inventory.thy ===== *)
theory Inventory imports Shop begin

text \<open>
  \<^verbatim>\<open>backend/app/api/v1/routes_inventory.py\<close>: ingredients, suppliers, goods receipts, opening
  stock and manual adjustments, and \<^verbatim>\<open>routes_wastage.py\<close>, over the tables of
  \<^verbatim>\<open>shared/models/inventory.py\<close> and \<^verbatim>\<open>shared/models/wastage.py\<close>.  A request that is validated
  by its schema comes with a predicate \<open>valid_...\<close>; display texts are those of \<open>Units\<close>.
  Where a handler reads before a concurrent commit, the tables it read are the parameter \<open>seen\<close>.
\<close>

subsection \<open>Rows\<close>

record supplier =
  su_id :: uuid
  su_business_id :: uuid
  su_name :: string
  su_contact_name :: "string option"
  su_phone :: "string option"
  su_email :: "string option"
  su_is_active :: bool

record goods_receipt =
  gs_id :: uuid
  gs_business_id :: uuid
  gs_supplier_id :: "uuid option"
  gs_reference :: "string option"
  gs_received_by_user_id :: "uuid option"
  gs_total_cost_cents :: int
  gs_notes :: "string option"
  gs_idempotency_key :: "string option"
  gs_occurred_at :: instant
  gs_created_at :: instant

record goods_receipt_line =
  gl_business_id :: uuid
  gl_goods_receipt_id :: uuid
  gl_ingredient_id :: uuid
  gl_entered_quantity :: string
  gl_entered_unit :: string
  gl_quantity_milli :: int
  gl_unit_cost_cents :: "int option"
  gl_line_cost_cents :: int

datatype wastage_reason =
    SPOILED | EXPIRED | DROPPED | BURNT | INCORRECT_PREPARATION | REMAKE | DAMAGED_PACKAGING
  | STAFF_MEAL_REASON | COMPLIMENTARY_REASON | TRAINING | OTHER_REASON

record wastage_entry =
  wa_id :: uuid
  wa_business_id :: uuid
  wa_ingredient_id :: uuid
  wa_quantity_milli :: int
  wa_entered_quantity :: string
  wa_entered_unit :: string
  wa_reason :: wastage_reason
  wa_note :: "string option"
  wa_value_cents :: int
  wa_created_by_user_id :: "uuid option"
  wa_approved_by_user_id :: "uuid option"
  wa_rejected_by_user_id :: "uuid option"
  wa_rejected_at :: "instant option"
  wa_rejection_reason :: "string option"
  wa_photo_asset_id :: "uuid option"
  wa_related_order_id :: "uuid option"
  wa_occurred_at :: instant
  wa_created_at :: instant

record asset =
  as_id :: uuid
  as_business_id :: uuid

record inventory_db =
  iv_shop :: shop_db
  iv_suppliers :: "supplier list"
  iv_receipts :: "goods_receipt list"
  iv_receipt_lines :: "goods_receipt_line list"
  iv_wastage :: "wastage_entry list"
  iv_assets :: "asset list"

definition iv_stock :: "inventory_db \<Rightarrow> stock_db" where "iv_stock db = sh_stock (iv_shop db)"

definition iv_movements :: "inventory_db \<Rightarrow> stock_movement list" where "iv_movements db = sd_movements (iv_stock db)"

definition change_stock :: "(stock_db \<Rightarrow> stock_db) \<Rightarrow> inventory_db \<Rightarrow> inventory_db" where
  "change_stock f db = db\<lparr>iv_shop := (iv_shop db)\<lparr>sh_stock := f (sh_stock (iv_shop db))\<rparr>\<rparr>"

definition audit_inventory :: "auth_user \<Rightarrow> string \<Rightarrow> uuid \<Rightarrow> inventory_db \<Rightarrow> inventory_db" where
  "audit_inventory user action target db =
     db\<lparr>iv_shop := add_audit (au_business_id user) (Some (au_user_id user)) action target (iv_shop db)\<rparr>"

text \<open>The unique indexes of these tables, on top of those of the shop.\<close>

definition ingredient_name_key :: "ingredient \<Rightarrow> (uuid \<times> string) option" where
  "ingredient_name_key i = Some (ing_business_id i, ing_name i)"

definition supplier_name_key :: "supplier \<Rightarrow> (uuid \<times> string) option" where
  "supplier_name_key s = Some (su_business_id s, su_name s)"

definition receipt_key :: "goods_receipt \<Rightarrow> (uuid \<times> string) option" where
  "receipt_key r = map_option (Pair (gs_business_id r)) (gs_idempotency_key r)"

definition inventory_ok :: "inventory_db \<Rightarrow> bool" where
  "inventory_ok db = (unique_index receipt_key (iv_receipts db) \<and> unique_index supplier_name_key (iv_suppliers db) \<and>
     unique_index ingredient_name_key (sd_ingredients (iv_stock db)) \<and> shop_ok (iv_shop db))"

definition commit_inventory :: "inventory_db \<Rightarrow> inventory_db result" where
  "commit_inventory db =
     and_then (raise_if (\<not> unique_index receipt_key (iv_receipts db)) (IntegrityError ''uq_goods_receipts_business_idempotency_key'')) (\<lambda>_.
     and_then (raise_if (\<not> unique_index supplier_name_key (iv_suppliers db)) (IntegrityError ''uq_suppliers_business_id_name'')) (\<lambda>_.
     and_then (raise_if (\<not> unique_index ingredient_name_key (sd_ingredients (iv_stock db))) (IntegrityError ''uq_ingredients_business_id_name'')) (\<lambda>_.
     and_then (commit_shop (iv_shop db)) (\<lambda>_. Inr db))))"

lemma commit_inventory_eq: "commit_inventory db = Inr db' \<longleftrightarrow> db' = db \<and> inventory_ok db"
  by (auto simp: commit_inventory_def inventory_ok_def and_then_eq_Inr commit_shop_eq)

subsection \<open>Guards and conversion\<close>

definition require_inventory :: "inventory_db \<Rightarrow> uuid \<Rightarrow> business result" where
  "require_inventory db business = and_then (business_of (iv_shop db) business) (\<lambda>b.
     and_then (raise_if (\<not> bu_inventory_enabled b) (AppError ''INVENTORY_NOT_ENABLED'' 409)) (\<lambda>_. Inr b))"

definition convert_quantity :: "quantity_arg \<Rightarrow> string \<Rightarrow> canonical_unit \<Rightarrow> int result" where
  "convert_quantity q unit canonical = (case to_milli q (Some unit) (Some canonical) of
     Inl UnitError \<Rightarrow> Inl (AppError ''INVALID_UNIT'' 422) | Inl ValueError \<Rightarrow> Inl (AppError ''INVALID_UNIT'' 422) | r \<Rightarrow> r)"

definition load_ingredient :: "inventory_db \<Rightarrow> uuid \<Rightarrow> uuid \<Rightarrow> ingredient result" where
  "load_ingredient db business i =
     and_then (scalar_one_or_none (filter (\<lambda>x. ing_id x = i \<and> ing_business_id x = business \<and> \<not> ing_is_deleted x) (sd_ingredients (iv_stock db))))
       (\<lambda>row. or_raise row (not_found_error ''Ingredient''))"

definition write_ingredient :: "ingredient \<Rightarrow> inventory_db \<Rightarrow> inventory_db" where
  "write_ingredient x = change_stock (\<lambda>s. s\<lparr>sd_ingredients := update_where (\<lambda>i. ing_id i = ing_id x) (\<lambda>_. x) (sd_ingredients s)\<rparr>)"

text \<open>\<open>require_owned\<close>: the row by its identity within the business, or the same 404.\<close>

definition require_owned :: "('a \<Rightarrow> uuid) \<Rightarrow> ('a \<Rightarrow> uuid) \<Rightarrow> 'a list \<Rightarrow> uuid \<Rightarrow> uuid \<Rightarrow> string \<Rightarrow> 'a result" where
  "require_owned the_id the_business rows i business label =
     and_then (scalar_one_or_none (filter (\<lambda>x. the_id x = i \<and> the_business x = business) rows)) (\<lambda>row. or_raise row (not_found_error label))"

definition owned_supplier :: "inventory_db \<Rightarrow> uuid \<Rightarrow> uuid \<Rightarrow> supplier result" where
  "owned_supplier db business i = require_owned su_id su_business_id (iv_suppliers db) i business ''Supplier''"

subsection \<open>Ingredients\<close>

record ingredient_create =
  iq_name :: string
  iq_canonical_unit :: canonical_unit
  iq_count_method :: count_method
  iq_unit_label :: "string option"
  iq_category :: "string option"
  iq_sku :: "string option"
  iq_purchase_unit_name :: "string option"
  iq_purchase_pack_quantity :: string
  iq_purchase_pack_unit :: string
  iq_cost_per_pack_cents :: "int option"
  iq_par_level_quantity :: "string option"
  iq_par_level_unit :: "string option"
  iq_notes :: "string option"

record ingredient_update =
  ip_name :: "string option"
  ip_count_method :: "count_method option"
  ip_unit_label :: "string option"
  ip_category :: "string option"
  ip_sku :: "string option"
  ip_purchase_unit_name :: "string option"
  ip_purchase_pack_quantity :: "string option"
  ip_purchase_pack_unit :: "string option"
  ip_cost_per_pack_cents :: "int option"
  ip_par_level_quantity :: "string option"
  ip_par_level_unit :: "string option"
  ip_is_active :: "bool option"
  ip_notes :: "string option"

definition label_or_none :: "string option \<Rightarrow> string option" where
  "label_or_none s = or_none (strip (dict_get [] s))"

definition text_or :: "string option \<Rightarrow> string \<Rightarrow> string" where "text_or s d = (if truthy s then the s else d)"

definition pack_cost :: "int option \<Rightarrow> int \<Rightarrow> int result" where
  "pack_cost cost pack_milli = (if dict_get 0 cost \<noteq> 0 then cost_per_canonical_micro_cents (dict_get 0 cost) pack_milli else Inr 0)"

definition convert_pack :: "string \<Rightarrow> string \<Rightarrow> canonical_unit \<Rightarrow> int result" where
  "convert_pack q unit canonical = and_then (convert_quantity (QText q) unit canonical) (\<lambda>pack.
     and_then (raise_if (pack \<le> 0) (AppError ''INVALID_PACK_SIZE'' 422)) (\<lambda>_. Inr pack))"

definition canonical_text :: "canonical_unit \<Rightarrow> string" where
  "canonical_text u = (case u of GRAM \<Rightarrow> ''GRAM'' | MILLILITRE \<Rightarrow> ''MILLILITRE'' | UNIT \<Rightarrow> ''UNIT'')"

definition convert_par :: "string option \<Rightarrow> string \<Rightarrow> canonical_unit \<Rightarrow> int option result" where
  "convert_par q unit canonical =
     (case q of None \<Rightarrow> Inr None | Some q \<Rightarrow> and_then (convert_quantity (QText q) unit canonical) (\<lambda>n. Inr (Some n)))"

definition create_ingredient :: "inventory_db \<Rightarrow> auth_user \<Rightarrow> ingredient_create \<Rightarrow> uuid \<Rightarrow> inventory_db result" where
  "create_ingredient db user q new_id =
     (let business = au_business_id user; name = strip (iq_name q) in
      and_then (require_inventory db business) (\<lambda>_.
      and_then (scalar_one_or_none (filter (\<lambda>x. ing_business_id x = business \<and> ing_name x = name \<and> \<not> ing_is_deleted x) (sd_ingredients (iv_stock db)))) (\<lambda>existing.
      and_then (raise_if (existing \<noteq> None) (AppError ''INGREDIENT_EXISTS'' 409)) (\<lambda>_.
      and_then (convert_pack (iq_purchase_pack_quantity q) (iq_purchase_pack_unit q) (iq_canonical_unit q)) (\<lambda>pack.
      and_then (convert_par (iq_par_level_quantity q) (text_or (iq_par_level_unit q) (iq_purchase_pack_unit q)) (iq_canonical_unit q)) (\<lambda>par.
      and_then (pack_cost (iq_cost_per_pack_cents q) pack) (\<lambda>cost.
        commit_inventory (change_stock (\<lambda>s. s\<lparr>sd_ingredients := sd_ingredients s @
          [\<lparr>ing_id = new_id, ing_business_id = business, ing_canonical_unit = iq_canonical_unit q, ing_purchase_pack_milli = pack,
            ing_cost_per_canonical_micro_cents = cost, ing_is_active = True, ing_is_deleted = False, ing_name = name, ing_sku = iq_sku q,
            ing_count_method = iq_count_method q, ing_unit_label = label_or_none (iq_unit_label q), ing_category = label_or_none (iq_category q),
            ing_purchase_unit_name = iq_purchase_unit_name q, ing_cost_per_pack_cents = iq_cost_per_pack_cents q,
            ing_par_level_milli = par, ing_notes = iq_notes q\<rparr>]\<rparr>) db))))))))"

definition or_keep :: "'a option \<Rightarrow> 'a option \<Rightarrow> 'a option" where
  "or_keep new old = (if new = None then old else new)"

definition update_plain_fields :: "ingredient_update \<Rightarrow> ingredient \<Rightarrow> ingredient" where
  "update_plain_fields q x = x\<lparr>ing_name := dict_get (ing_name x) (ip_name q), ing_sku := or_keep (ip_sku q) (ing_sku x),
     ing_count_method := dict_get (ing_count_method x) (ip_count_method q), ing_unit_label := or_keep (ip_unit_label q) (ing_unit_label x),
     ing_category := or_keep (ip_category q) (ing_category x),
     ing_purchase_unit_name := or_keep (ip_purchase_unit_name q) (ing_purchase_unit_name x),
     ing_is_active := dict_get (ing_is_active x) (ip_is_active q), ing_notes := or_keep (ip_notes q) (ing_notes x)\<rparr>"

definition update_ingredient :: "inventory_db \<Rightarrow> auth_user \<Rightarrow> uuid \<Rightarrow> ingredient_update \<Rightarrow> inventory_db result" where
  "update_ingredient db user i q =
     and_then (require_inventory db (au_business_id user)) (\<lambda>_.
     and_then (load_ingredient db (au_business_id user) i) (\<lambda>x.
     and_then (case ip_purchase_pack_quantity q of None \<Rightarrow> Inr (ing_purchase_pack_milli x)
               | Some p \<Rightarrow> convert_pack p (text_or (ip_purchase_pack_unit q) (canonical_text (ing_canonical_unit x))) (ing_canonical_unit x)) (\<lambda>pack.
     let pack_price = or_keep (ip_cost_per_pack_cents q) (ing_cost_per_pack_cents x) in
     and_then (if ip_purchase_pack_quantity q \<noteq> None \<or> ip_cost_per_pack_cents q \<noteq> None then pack_cost pack_price pack
               else Inr (ing_cost_per_canonical_micro_cents x)) (\<lambda>cost.
     and_then (convert_par (ip_par_level_quantity q) (text_or (ip_par_level_unit q) (canonical_text (ing_canonical_unit x))) (ing_canonical_unit x)) (\<lambda>par.
       commit_inventory (write_ingredient ((update_plain_fields q x)\<lparr>ing_purchase_pack_milli := pack, ing_cost_per_pack_cents := pack_price,
         ing_cost_per_canonical_micro_cents := cost, ing_par_level_milli := or_keep par (ing_par_level_milli x)\<rparr>) db))))))"

definition delete_ingredient :: "inventory_db \<Rightarrow> auth_user \<Rightarrow> uuid \<Rightarrow> inventory_db result" where
  "delete_ingredient db user i =
     and_then (require_inventory db (au_business_id user)) (\<lambda>_.
     and_then (require_owned ing_id ing_business_id (sd_ingredients (iv_stock db)) i (au_business_id user) ''Ingredient'') (\<lambda>x.
       commit_inventory (write_ingredient (x\<lparr>ing_is_deleted := True, ing_is_active := False\<rparr>) db)))"

record stock_level =
  sl_ingredient_id :: uuid
  sl_on_hand_milli :: int
  sl_below_par :: bool
  sl_value_cents :: int

definition below_par :: "ingredient \<Rightarrow> int \<Rightarrow> bool" where
  "below_par x held = (case ing_par_level_milli x of None \<Rightarrow> False | Some par \<Rightarrow> held < par)"

definition get_stock_levels :: "inventory_db \<Rightarrow> auth_user \<Rightarrow> bool \<Rightarrow> instant option \<Rightarrow> stock_level list result" where
  "get_stock_levels db user below_par_only as_of =
     (let business = au_business_id user;
          on_hand = (\<lambda>x. dict_get 0 (stock_on_hand (iv_movements db) business as_of [] (ing_id x)))
      in and_then (require_inventory db business) (\<lambda>_.
         map_result (\<lambda>x. and_then (value_cents (on_hand x) (ing_cost_per_canonical_micro_cents x)) (\<lambda>v.
             Inr \<lparr>sl_ingredient_id = ing_id x, sl_on_hand_milli = on_hand x, sl_below_par = below_par x (on_hand x), sl_value_cents = v\<rparr>))
           (filter (\<lambda>x. ing_business_id x = business \<and> \<not> ing_is_deleted x \<and> ing_is_active x \<and> (below_par_only \<longrightarrow> below_par x (on_hand x)))
             (sd_ingredients (iv_stock db)))))"

subsection \<open>Suppliers\<close>

record supplier_create =
  sq_name :: string
  sq_contact_name :: "string option"
  sq_phone :: "string option"
  sq_email :: "string option"

record supplier_update =
  sp_name :: "string option"
  sp_contact_name :: "string option"
  sp_phone :: "string option"
  sp_email :: "string option"
  sp_is_active :: "bool option"

text \<open>\<open>except IntegrityError: raise DuplicateError\<close>.\<close>

definition duplicate_name :: "'a result \<Rightarrow> 'a result" where
  "duplicate_name r = (case r of Inl (IntegrityError _) \<Rightarrow> Inl (duplicate_error ''supplier'') | _ \<Rightarrow> r)"

definition create_supplier :: "inventory_db \<Rightarrow> auth_user \<Rightarrow> supplier_create \<Rightarrow> uuid \<Rightarrow> inventory_db result" where
  "create_supplier db user q new_id =
     and_then (require_inventory db (au_business_id user)) (\<lambda>_.
       duplicate_name (commit_inventory (db\<lparr>iv_suppliers := iv_suppliers db @
         [\<lparr>su_id = new_id, su_business_id = au_business_id user, su_name = sq_name q, su_contact_name = sq_contact_name q,
           su_phone = sq_phone q, su_email = sq_email q, su_is_active = True\<rparr>]\<rparr>)))"

definition update_supplier :: "inventory_db \<Rightarrow> auth_user \<Rightarrow> uuid \<Rightarrow> supplier_update \<Rightarrow> inventory_db result" where
  "update_supplier db user i q =
     and_then (require_inventory db (au_business_id user)) (\<lambda>_.
     and_then (owned_supplier db (au_business_id user) i) (\<lambda>s.
     and_then (raise_if (\<exists>n \<in> set_option (sp_name q). strip n = []) (AppError ''INVALID_NAME'' 422)) (\<lambda>_.
     let s' = s\<lparr>su_name := (case sp_name q of None \<Rightarrow> su_name s | Some n \<Rightarrow> strip n),
                su_contact_name := or_keep (sp_contact_name q) (su_contact_name s), su_phone := or_keep (sp_phone q) (su_phone s),
                su_email := or_keep (sp_email q) (su_email s), su_is_active := dict_get (su_is_active s) (sp_is_active q)\<rparr>
     in if s' = s then Inr db
        else duplicate_name (commit_inventory (audit_inventory user ''inventory.supplier.updated'' i
               (db\<lparr>iv_suppliers := update_where (\<lambda>x. su_id x = i) (\<lambda>_. s') (iv_suppliers db)\<rparr>))))))"

definition supplier_usage :: "inventory_db \<Rightarrow> uuid \<Rightarrow> uuid \<Rightarrow> nat" where
  "supplier_usage db business i = length (filter (\<lambda>r. gs_business_id r = business \<and> gs_supplier_id r = Some i) (iv_receipts db))"

text \<open>\<open>goods_receipts.supplier_id\<close> is \<open>ON DELETE SET NULL\<close>.\<close>

definition drop_supplier :: "uuid \<Rightarrow> inventory_db \<Rightarrow> inventory_db" where
  "drop_supplier i db = db\<lparr>iv_suppliers := filter (\<lambda>s. su_id s \<noteq> i) (iv_suppliers db),
     iv_receipts := update_where (\<lambda>r. gs_supplier_id r = Some i) (\<lambda>r. r\<lparr>gs_supplier_id := None\<rparr>) (iv_receipts db)\<rparr>"

definition delete_supplier :: "inventory_db \<Rightarrow> inventory_db \<Rightarrow> auth_user \<Rightarrow> uuid \<Rightarrow> inventory_db result" where
  "delete_supplier seen db user i =
     and_then (require_inventory seen (au_business_id user)) (\<lambda>_.
     and_then (owned_supplier seen (au_business_id user) i) (\<lambda>s.
     and_then (raise_if (0 < supplier_usage seen (au_business_id user) i) (AppError ''SUPPLIER_IN_USE'' 409)) (\<lambda>_.
     and_then (raise_if (su_is_active s) (AppError ''SUPPLIER_STILL_ACTIVE'' 409)) (\<lambda>_.
       commit_inventory (audit_inventory user ''inventory.supplier.deleted'' i (drop_supplier i db))))))"

subsection \<open>Goods received\<close>

record receipt_line_request =
  gq_ingredient_id :: uuid
  gq_quantity :: string
  gq_unit :: string
  gq_unit_cost_cents :: "int option"

record receipt_request =
  gn_lines :: "receipt_line_request list"
  gn_supplier_id :: "uuid option"
  gn_reference :: "string option"
  gn_notes :: "string option"
  gn_occurred_at :: "instant option"
  gn_idempotency_key :: "string option"

definition valid_receipt :: "receipt_request \<Rightarrow> bool" where
  "valid_receipt q = (gn_lines q \<noteq> [] \<and> list_all (\<lambda>l. 0 \<le> dict_get 0 (gq_unit_cost_cents l)) (gn_lines q))"

record receipt_reply =
  gr_receipt_id :: uuid
  gr_line_count :: nat
  gr_total_cents :: int

definition replay_receipt :: "inventory_db \<Rightarrow> uuid \<Rightarrow> string \<Rightarrow> receipt_reply option result" where
  "replay_receipt db business key =
     and_then (scalar_one_or_none (filter (\<lambda>r. gs_business_id r = business \<and> gs_idempotency_key r = Some key) (iv_receipts db))) (\<lambda>row.
       Inr (map_option (\<lambda>r. \<lparr>gr_receipt_id = gs_id r,
          gr_line_count = length (filter (\<lambda>l. gl_goods_receipt_id l = gs_id r) (iv_receipt_lines db)),
          gr_total_cents = gs_total_cost_cents r\<rparr>) row))"

text \<open>\<open>PACK\<close> counts whole purchase packs of the ingredient.\<close>

definition received_quantity :: "ingredient \<Rightarrow> receipt_line_request \<Rightarrow> int result" where
  "received_quantity x l =
     and_then (if upper (strip (gq_unit l)) = ''PACK''
               then (case pack_to_milli (QText (gq_quantity l)) (ing_purchase_pack_milli x) of
                       Inl UnitError \<Rightarrow> Inl (AppError ''INVALID_QUANTITY'' 422) | r \<Rightarrow> r)
               else convert_quantity (QText (gq_quantity l)) (gq_unit l) (ing_canonical_unit x)) (\<lambda>q.
     and_then (raise_if (q \<le> 0) (AppError ''INVALID_QUANTITY'' 422)) (\<lambda>_. Inr q))"

text \<open>The cost of a line and the micro-cents per canonical unit its movement is valued at.\<close>

definition received_cost :: "ingredient \<Rightarrow> receipt_line_request \<Rightarrow> int \<Rightarrow> (int \<times> int) result" where
  "received_cost x l q =
     (case gq_unit_cost_cents l of
        Some c \<Rightarrow>
          and_then (as_decimal (QText (gq_quantity l))) (\<lambda>entered.
          and_then (dec_quantize_int (dec_mul (dec_of_int c) entered)) (\<lambda>cost.
          and_then (cost_per_canonical_micro_cents cost q) (\<lambda>micro. Inr (cost, micro))))
      | None \<Rightarrow> and_then (value_cents q (ing_cost_per_canonical_micro_cents x)) (\<lambda>cost. Inr (cost, ing_cost_per_canonical_micro_cents x)))"

definition receive_line ::
  "auth_user \<Rightarrow> (uuid \<Rightarrow> ingredient option) \<Rightarrow> uuid \<Rightarrow> instant \<Rightarrow> instant \<Rightarrow> receipt_line_request \<Rightarrow> (goods_receipt_line \<times> stock_movement) result" where
  "receive_line user ingredients receipt_id occurred now l =
     and_then (or_raise (ingredients (gq_ingredient_id l)) (AppError ''UNKNOWN_INGREDIENT'' 422)) (\<lambda>x.
     and_then (received_quantity x l) (\<lambda>q.
     and_then (received_cost x l q) (\<lambda>(cost, micro).
     and_then (build_movement (au_business_id user) (ing_id x) q GOODS_RECEIVED micro (Some SRC_GOODS_RECEIPT) (Some receipt_id)
                 (Some (au_user_id user)) None None (Some occurred) now) (\<lambda>m.
       Inr (\<lparr>gl_business_id = au_business_id user, gl_goods_receipt_id = receipt_id, gl_ingredient_id = ing_id x,
             gl_entered_quantity = gq_quantity l, gl_entered_unit = gq_unit l, gl_quantity_milli = q,
             gl_unit_cost_cents = gq_unit_cost_cents l, gl_line_cost_cents = cost\<rparr>, m)))))"

definition receivable :: "inventory_db \<Rightarrow> uuid \<Rightarrow> uuid list \<Rightarrow> uuid \<Rightarrow> ingredient option" where
  "receivable db business ids i =
     (if i \<in> set ids then find (\<lambda>x. ing_id x = i \<and> ing_business_id x = business \<and> \<not> ing_is_deleted x) (sd_ingredients (iv_stock db)) else None)"

definition new_receipt :: "auth_user \<Rightarrow> receipt_request \<Rightarrow> uuid \<Rightarrow> int \<Rightarrow> instant \<Rightarrow> instant \<Rightarrow> goods_receipt" where
  "new_receipt user q receipt_id total_cost occurred now =
     \<lparr>gs_id = receipt_id, gs_business_id = au_business_id user, gs_supplier_id = gn_supplier_id q, gs_reference = gn_reference q,
      gs_received_by_user_id = Some (au_user_id user), gs_total_cost_cents = total_cost, gs_notes = gn_notes q,
      gs_idempotency_key = gn_idempotency_key q, gs_occurred_at = occurred, gs_created_at = now\<rparr>"

definition stage_receipt :: "auth_user \<Rightarrow> receipt_request \<Rightarrow> uuid \<Rightarrow> (goods_receipt_line \<times> stock_movement) list \<Rightarrow> instant \<Rightarrow> instant \<Rightarrow> inventory_db \<Rightarrow> inventory_db" where
  "stage_receipt user q receipt_id rows occurred now db =
     (change_stock (add_movements (map snd rows)) db)
       \<lparr>iv_receipts := iv_receipts db @ [new_receipt user q receipt_id (sum_list (map (gl_line_cost_cents \<circ> fst) rows)) occurred now],
        iv_receipt_lines := iv_receipt_lines db @ map fst rows\<rparr>"

definition early_replay :: "inventory_db \<Rightarrow> uuid \<Rightarrow> string option \<Rightarrow> receipt_reply option result" where
  "early_replay db business key = (if truthy key then replay_receipt db business (the key) else Inr None)"

text \<open>The loser of a race is answered with the winner's receipt.\<close>

definition commit_or_replay_receipt :: "inventory_db \<Rightarrow> uuid \<Rightarrow> string option \<Rightarrow> inventory_db \<Rightarrow> receipt_reply \<Rightarrow> (inventory_db \<times> receipt_reply) result" where
  "commit_or_replay_receipt db business key staged reply =
     (case commit_inventory staged of
        Inr db' \<Rightarrow> Inr (db', reply)
      | Inl e \<Rightarrow>
          if truthy key \<and> e = IntegrityError ''uq_goods_receipts_business_idempotency_key''
          then and_then (replay_receipt db business (the key)) (\<lambda>found. case found of None \<Rightarrow> Inl e | Some r \<Rightarrow> Inr (db, r))
          else Inl e)"

definition create_goods_receipt ::
  "inventory_db \<Rightarrow> inventory_db \<Rightarrow> auth_user \<Rightarrow> receipt_request \<Rightarrow> uuid \<Rightarrow> instant \<Rightarrow> (inventory_db \<times> receipt_reply) result" where
  "create_goods_receipt seen db user q receipt_id now =
     (let business = au_business_id user; ids = map gq_ingredient_id (gn_lines q); ingredients = receivable seen business ids;
          occurred = dict_get now (gn_occurred_at q)
      in and_then (require_inventory seen business) (\<lambda>_.
         and_then (early_replay seen business (gn_idempotency_key q)) (\<lambda>replayed.
         case replayed of Some r \<Rightarrow> Inr (db, r)
         | None \<Rightarrow>
           and_then (raise_if (\<exists>i \<in> set ids. ingredients i = None) (AppError ''UNKNOWN_INGREDIENT'' 422)) (\<lambda>_.
           and_then (case gn_supplier_id q of None \<Rightarrow> Inr () | Some s \<Rightarrow> and_then (owned_supplier seen business s) (\<lambda>_. Inr ())) (\<lambda>_.
           and_then (map_result (receive_line user ingredients receipt_id occurred now) (gn_lines q)) (\<lambda>rows.
             commit_or_replay_receipt db business (gn_idempotency_key q) (stage_receipt user q receipt_id rows occurred now db)
               \<lparr>gr_receipt_id = receipt_id, gr_line_count = length (gn_lines q),
                gr_total_cents = sum_list (map (gl_line_cost_cents \<circ> fst) rows)\<rparr>))))))"

subsection \<open>Opening stock and adjustments\<close>

record opening_stock_request =
  op_ingredient_id :: uuid
  op_quantity :: string
  op_unit :: string
  op_source :: "string option"
  op_occurred_at :: "instant option"

definition has_opening_balance :: "inventory_db \<Rightarrow> uuid \<Rightarrow> uuid \<Rightarrow> bool" where
  "has_opening_balance db business i =
     (\<exists>m \<in> set (iv_movements db). sm_business_id m = business \<and> sm_ingredient_id m = i \<and> sm_movement_type m = OPENING_BALANCE)"

definition opening_already_set :: app_error where "opening_already_set = AppError ''OPENING_STOCK_ALREADY_SET'' 409"

definition commit_opening :: "inventory_db \<Rightarrow> inventory_db result" where
  "commit_opening db = (case commit_inventory db of
     Inl e \<Rightarrow> Inl (if e = IntegrityError ''uq_stock_movements_business_id_idempotency_key'' then opening_already_set else e)
   | Inr db \<Rightarrow> Inr db)"

definition set_opening_stock :: "inventory_db \<Rightarrow> inventory_db \<Rightarrow> auth_user \<Rightarrow> opening_stock_request \<Rightarrow> instant \<Rightarrow> inventory_db result" where
  "set_opening_stock seen db user q now =
     (let business = au_business_id user in
      and_then (require_inventory seen business) (\<lambda>_.
      and_then (load_ingredient seen business (op_ingredient_id q)) (\<lambda>x.
      and_then (convert_quantity (QText (op_quantity q)) (op_unit q) (ing_canonical_unit x)) (\<lambda>n.
      and_then (raise_if (n \<le> 0) (AppError ''INVALID_QUANTITY'' 422)) (\<lambda>_.
      and_then (raise_if (has_opening_balance seen business (ing_id x)) opening_already_set) (\<lambda>_.
      and_then (build_movement business (ing_id x) n OPENING_BALANCE (ing_cost_per_canonical_micro_cents x) (Some SRC_OPENING_STOCK)
                  (Some (ing_id x)) (Some (au_user_id user)) (Some (opening_balance_idempotency_key (ing_id x)))
                  (Some (text_or (op_source q) ''Opening stock'')) (Some (dict_get now (op_occurred_at q))) now) (\<lambda>m.
        commit_opening (audit_inventory user ''inventory.stock.opening_balance_set'' (ing_id x) (change_stock (add_movements [m]) db)))))))))"

record adjustment_request =
  aj_ingredient_id :: uuid
  aj_quantity :: string
  aj_unit :: string
  aj_reason :: string

definition dec_abs :: "dec \<Rightarrow> dec" where "dec_abs d = (case d of Dec c e \<Rightarrow> dec_fix (Dec \<bar>c\<bar> e))"

text \<open>An infinity or a NaN is a number to the handler and fails where its milli-quantity is computed.\<close>

definition adjusted_quantity :: "ingredient \<Rightarrow> adjustment_request \<Rightarrow> int result" where
  "adjusted_quantity x q =
     (case decimal_of_string (strip (aj_quantity q)) of
        BadText \<Rightarrow> Inl (AppError ''INVALID_QUANTITY'' 422)
      | FiniteText d \<Rightarrow>
          and_then (raise_if (dec_is_zero d) (AppError ''INVALID_QUANTITY'' 422)) (\<lambda>_.
          and_then (convert_quantity (QDec (dec_abs d)) (aj_unit q) (ing_canonical_unit x)) (\<lambda>n. Inr (if dec_neg d then - n else n)))
      | _ \<Rightarrow> convert_quantity (QText (aj_quantity q)) (aj_unit q) (ing_canonical_unit x))"

definition create_adjustment :: "inventory_db \<Rightarrow> auth_user \<Rightarrow> adjustment_request \<Rightarrow> instant \<Rightarrow> inventory_db result" where
  "create_adjustment db user q now =
     (let business = au_business_id user in
      and_then (require_inventory db business) (\<lambda>_.
      and_then (load_ingredient db business (aj_ingredient_id q)) (\<lambda>x.
      and_then (adjusted_quantity x q) (\<lambda>n.
      and_then (build_movement business (ing_id x) n MANUAL_ADJUSTMENT (ing_cost_per_canonical_micro_cents x) (Some SRC_MANUAL) None
                  (Some (au_user_id user)) None (Some (aj_reason q)) None now) (\<lambda>m.
        commit_inventory (audit_inventory user ''inventory.stock.adjusted'' (ing_id x) (change_stock (add_movements [m]) db)))))))"

subsection \<open>Wastage\<close>

definition wastage_reason_text :: "wastage_reason \<Rightarrow> string" where
  "wastage_reason_text r = (case r of SPOILED \<Rightarrow> ''SPOILED'' | EXPIRED \<Rightarrow> ''EXPIRED'' | DROPPED \<Rightarrow> ''DROPPED'' | BURNT \<Rightarrow> ''BURNT''
     | INCORRECT_PREPARATION \<Rightarrow> ''INCORRECT_PREPARATION'' | REMAKE \<Rightarrow> ''REMAKE'' | DAMAGED_PACKAGING \<Rightarrow> ''DAMAGED_PACKAGING''
     | STAFF_MEAL_REASON \<Rightarrow> ''STAFF_MEAL'' | COMPLIMENTARY_REASON \<Rightarrow> ''COMPLIMENTARY'' | TRAINING \<Rightarrow> ''TRAINING'' | OTHER_REASON \<Rightarrow> ''OTHER'')"

definition movement_type_for_reason :: "wastage_reason \<Rightarrow> movement_type" where
  "movement_type_for_reason r = (case r of STAFF_MEAL_REASON \<Rightarrow> STAFF_MEAL | COMPLIMENTARY_REASON \<Rightarrow> COMPLIMENTARY | _ \<Rightarrow> WASTAGE)"

record wastage_request =
  wq_ingredient_id :: uuid
  wq_quantity :: string
  wq_unit :: string
  wq_reason :: wastage_reason
  wq_note :: "string option"
  wq_related_order_id :: "uuid option"
  wq_photo_asset_id :: "uuid option"
  wq_occurred_at :: "instant option"

definition valid_wastage :: "wastage_request \<Rightarrow> bool" where
  "valid_wastage q = (wq_reason q = OTHER_REASON \<longrightarrow> strip (dict_get [] (wq_note q)) \<noteq> [])"

definition needs_approval :: "business \<Rightarrow> int \<Rightarrow> bool" where
  "needs_approval b value = (bu_wastage_approval_threshold_cents b \<noteq> 0 \<and> bu_wastage_approval_threshold_cents b \<le> value)"

datatype wastage_status = WS_REJECTED | WS_APPROVED | WS_PENDING_APPROVAL | WS_NOT_REQUIRED

definition wastage_status_of :: "wastage_entry \<Rightarrow> bool \<Rightarrow> wastage_status" where
  "wastage_status_of e requires_approval =
     (if wa_rejected_by_user_id e \<noteq> None then WS_REJECTED else if wa_approved_by_user_id e \<noteq> None then WS_APPROVED
      else if requires_approval then WS_PENDING_APPROVAL else WS_NOT_REQUIRED)"

definition new_wastage :: "auth_user \<Rightarrow> business \<Rightarrow> wastage_request \<Rightarrow> ingredient \<Rightarrow> uuid \<Rightarrow> int \<Rightarrow> int \<Rightarrow> instant \<Rightarrow> wastage_entry" where
  "new_wastage user b q x entry_id n value now =
     \<lparr>wa_id = entry_id, wa_business_id = au_business_id user, wa_ingredient_id = ing_id x, wa_quantity_milli = n,
      wa_entered_quantity = wq_quantity q, wa_entered_unit = wq_unit q, wa_reason = wq_reason q, wa_note = wq_note q, wa_value_cents = value,
      wa_created_by_user_id = Some (au_user_id user),
      wa_approved_by_user_id = (if needs_approval b value \<and> au_role user \<in> {OWNER, MANAGER} then Some (au_user_id user) else None),
      wa_rejected_by_user_id = None, wa_rejected_at = None, wa_rejection_reason = None, wa_photo_asset_id = wq_photo_asset_id q,
      wa_related_order_id = wq_related_order_id q, wa_occurred_at = dict_get now (wq_occurred_at q), wa_created_at = now\<rparr>"

definition record_wastage :: "inventory_db \<Rightarrow> auth_user \<Rightarrow> wastage_request \<Rightarrow> uuid \<Rightarrow> instant \<Rightarrow> (inventory_db \<times> wastage_entry) result" where
  "record_wastage db user q entry_id now =
     (let business = au_business_id user in
      and_then (require_inventory db business) (\<lambda>b.
      and_then (load_ingredient db business (wq_ingredient_id q)) (\<lambda>x.
      and_then (convert_quantity (QText (wq_quantity q)) (wq_unit q) (ing_canonical_unit x)) (\<lambda>n.
      and_then (raise_if (n \<le> 0) (AppError ''INVALID_QUANTITY'' 422)) (\<lambda>_.
      and_then (case wq_photo_asset_id q of None \<Rightarrow> Inr () | Some a \<Rightarrow> and_then (require_owned as_id as_business_id (iv_assets db) a business ''Asset'') (\<lambda>_. Inr ())) (\<lambda>_.
      and_then (case wq_related_order_id q of None \<Rightarrow> Inr () | Some i \<Rightarrow> and_then (order_of (iv_shop db) business i) (\<lambda>_. Inr ())) (\<lambda>_.
      and_then (value_cents n (ing_cost_per_canonical_micro_cents x)) (\<lambda>v.
      let e = new_wastage user b q x entry_id n v now in
      and_then (build_movement business (ing_id x) (- n) (movement_type_for_reason (wq_reason q)) (ing_cost_per_canonical_micro_cents x)
                  (Some SRC_WASTAGE_ENTRY) (Some entry_id) (Some (au_user_id user)) (Some (wastage_idempotency_key entry_id (ing_id x)))
                  (Some (wastage_reason_text (wq_reason q) @ (if truthy (wq_note q) then '': '' @ the (wq_note q) else [])))
                  (Some (wa_occurred_at e)) now) (\<lambda>m.
      and_then (commit_inventory ((change_stock (add_movements [m]) db)\<lparr>iv_wastage := iv_wastage db @ [e]\<rparr>)) (\<lambda>db'. Inr (db', e)))))))))))"

definition pending_wastage :: "inventory_db \<Rightarrow> business \<Rightarrow> wastage_entry list" where
  "pending_wastage db b =
     (if bu_wastage_approval_threshold_cents b = 0 then []
      else filter (\<lambda>e. wa_business_id e = bu_id b \<and> wa_approved_by_user_id e = None \<and> wa_rejected_by_user_id e = None \<and>
             bu_wastage_approval_threshold_cents b \<le> wa_value_cents e) (iv_wastage db))"

text \<open>The entry joined with its ingredient.\<close>

definition load_wastage :: "inventory_db \<Rightarrow> uuid \<Rightarrow> uuid \<Rightarrow> wastage_entry result" where
  "load_wastage db business i =
     or_raise (find (\<lambda>e. wa_id e = i \<and> wa_business_id e = business \<and> wa_ingredient_id e \<in> ing_id ` set (sd_ingredients (iv_stock db))) (iv_wastage db))
       (not_found_error ''Wastage entry'')"

text \<open>
  An update of a loaded row writes the columns it changed: the approval writes its own column over the
  row as it is by then, whatever the rows it read said.
\<close>

definition approve_wastage :: "inventory_db \<Rightarrow> inventory_db \<Rightarrow> auth_user \<Rightarrow> uuid \<Rightarrow> inventory_db result" where
  "approve_wastage seen db user i =
     and_then (require_inventory seen (au_business_id user)) (\<lambda>_.
     and_then (load_wastage seen (au_business_id user) i) (\<lambda>e.
     and_then (raise_if (wa_rejected_by_user_id e \<noteq> None) (AppError ''WASTAGE_ALREADY_REJECTED'' 409)) (\<lambda>_.
       if wa_approved_by_user_id e \<noteq> None then Inr db
       else commit_inventory (db\<lparr>iv_wastage := update_where (\<lambda>x. wa_id x = i)
              (\<lambda>x. x\<lparr>wa_approved_by_user_id := Some (au_user_id user)\<rparr>) (iv_wastage db)\<rparr>))))"

definition wastage_movement :: "uuid \<Rightarrow> uuid \<Rightarrow> stock_movement \<Rightarrow> bool" where
  "wastage_movement business i m = (sm_business_id m = business \<and> sm_source_type m = Some SRC_WASTAGE_ENTRY \<and> sm_source_id m = Some i)"

definition reject_wastage :: "inventory_db \<Rightarrow> inventory_db \<Rightarrow> auth_user \<Rightarrow> uuid \<Rightarrow> string \<Rightarrow> instant \<Rightarrow> inventory_db result" where
  "reject_wastage seen db user i reason now =
     (let business = au_business_id user in
      and_then (require_inventory seen business) (\<lambda>_.
      and_then (load_wastage seen business i) (\<lambda>e.
      and_then (raise_if (wa_approved_by_user_id e \<noteq> None) (AppError ''WASTAGE_ALREADY_APPROVED'' 409)) (\<lambda>_.
        if wa_rejected_by_user_id e \<noteq> None then Inr db
        else and_then (or_raise (find (wastage_movement business i) (iv_movements seen)) (AppError ''WASTAGE_MOVEMENT_MISSING'' 409)) (\<lambda>m0.
             and_then (build_movement business (wa_ingredient_id e) (- sm_quantity_milli m0) WASTAGE_REVERSAL (sm_unit_cost_micro_cents m0)
                         (Some SRC_WASTAGE_ENTRY) (Some i) (Some (au_user_id user))
                         (Some (wastage_reversal_idempotency_key i (wa_ingredient_id e))) (Some (''Rejected: '' @ reason)) None now) (\<lambda>m.
               case commit_inventory ((change_stock (add_movements [m]) db)\<lparr>iv_wastage := update_where (\<lambda>x. wa_id x = i)
                      (\<lambda>x. x\<lparr>wa_rejected_by_user_id := Some (au_user_id user), wa_rejected_at := Some now, wa_rejection_reason := Some reason\<rparr>)
                      (iv_wastage db)\<rparr>) of
                 Inr db' \<Rightarrow> Inr db'
               | Inl e \<Rightarrow> if e = IntegrityError ''uq_stock_movements_business_id_idempotency_key'' then Inr db else Inl e))))))"

end
