(* ===== verification/SheetImport.thy ===== *)
theory SheetImport imports PyFloat Inventory "HOL-Library.AList" begin

text \<open>
  \<^verbatim>\<open>backend/app/api/v1/routes_import.py\<close>, first half: reading a spreadsheet, renaming its columns,
  and the menu import.  The csv and openpyxl readers give the rows of the file; a JSON text that
  is parsed by \<open>json.loads\<close> is a parameter.  A message of a row error is its kind.
\<close>

subsection \<open>Rows of a file\<close>

text \<open>A cell of a \<open>csv.DictReader\<close> row: a text, a missing value, or the rest of a row longer than its header.\<close>

datatype csv_cell = CellText string | CellMissing | CellRest "string list"

type_synonym sheet_row = "(string \<times> string) list"

record upload_file =
  up_filename :: "string option"
  up_size :: nat
  up_csv :: "(string option \<times> csv_cell) list list"
  up_cells :: "string option list list"

definition max_rows :: nat where "max_rows = 2000"

definition max_file_bytes :: nat where "max_file_bytes = 5 * 1024 * 1024"

text \<open>A dictionary display: the first occurrence of a key gives its place, the last its value.\<close>

definition dict_of :: "('k \<times> 'v) list \<Rightarrow> ('k \<times> 'v) list" where
  "dict_of ps = fold (\<lambda>(k, v) d. AList.update k v d) ps []"

definition csv_value :: "csv_cell \<Rightarrow> string result" where
  "csv_value c = (case c of CellText s \<Rightarrow> Inr (strip s) | CellMissing \<Rightarrow> Inr []
     | CellRest vs \<Rightarrow> if vs = [] then Inr [] else Inl (PyError ''AttributeError''))"

definition csv_row :: "(string option \<times> csv_cell) list \<Rightarrow> sheet_row result" where
  "csv_row row = and_then (map_result (\<lambda>(k, v). and_then (csv_value v) (\<lambda>s. Inr (lower (strip (dict_get [] k)), s))) row)
     (\<lambda>ps. Inr (dict_of ps))"

definition cell_text :: "string option \<Rightarrow> string" where "cell_text v = strip (dict_get [] v)"

definition xlsx_rows :: "string option list list \<Rightarrow> sheet_row list" where
  "xlsx_rows raw = (case raw of [] \<Rightarrow> []
     | h # rows \<Rightarrow> let headers = map (\<lambda>c. lower (cell_text c)) h
         in map (\<lambda>values. dict_of (zip headers (map cell_text values))) (filter (list_ex (\<lambda>v. cell_text v \<noteq> [])) rows))"

definition read_rows :: "upload_file \<Rightarrow> sheet_row list result" where
  "read_rows f =
     and_then (raise_if (max_file_bytes < up_size f) (AppError ''FILE_TOO_LARGE'' 413)) (\<lambda>_.
     let name = lower (dict_get [] (up_filename f)) in
     and_then (if ends_with ''.csv'' name then map_result csv_row (up_csv f)
               else if ends_with ''.xlsx'' name then Inr (xlsx_rows (up_cells f))
               else Inl (AppError ''UNSUPPORTED_FILE_TYPE'' 422)) (\<lambda>rows.
     and_then (raise_if (max_rows < length rows) (AppError ''TOO_MANY_ROWS'' 422)) (\<lambda>_. Inr rows)))"

subsection \<open>Column mapping\<close>

text \<open>What \<open>json.loads\<close> answers; a value of the object is its text, or None when it is false.\<close>

datatype json_mapping = NotJson | NotAnObject | JsonObject "(string \<times> string option) list"

definition parse_mapping :: "(string \<Rightarrow> json_mapping) \<Rightarrow> string option \<Rightarrow> (string \<times> string option) list option result" where
  "parse_mapping loads raw =
     (if \<not> truthy raw then Inr None
      else case loads (the raw) of
        NotJson \<Rightarrow> Inl (AppError ''INVALID_MAPPING'' 422) | NotAnObject \<Rightarrow> Inl (AppError ''INVALID_MAPPING'' 422)
      | JsonObject m \<Rightarrow> Inr (Some m))"

definition mapping_lookup :: "(string \<times> string option) list \<Rightarrow> (string \<times> string) list" where
  "mapping_lookup m = dict_of (List.map_filter (\<lambda>(k, v). if k \<noteq> [] then map_option (\<lambda>t. (lower (strip k), lower (strip t))) v else None) m)"

definition rename_row :: "(string \<times> string) list \<Rightarrow> sheet_row \<Rightarrow> sheet_row" where
  "rename_row names row = dict_of (map (\<lambda>(k, v). (dict_get k (map_of names k), v)) row)"

definition apply_mapping :: "sheet_row list \<Rightarrow> (string \<times> string option) list option \<Rightarrow> sheet_row list" where
  "apply_mapping rows mapping = (case mapping of None \<Rightarrow> rows
     | Some m \<Rightarrow> if mapping_lookup m = [] then rows else map (rename_row (mapping_lookup m)) rows)"

definition detected_columns :: "sheet_row list \<Rightarrow> string list" where
  "detected_columns rows =
     fold (\<lambda>row seen. fold (\<lambda>(k, _) s. if k \<noteq> [] \<and> k \<notin> set s then s @ [k] else s) row seen) (take 5 rows) []"

text \<open>\<open>(row.get(a) or row.get(b) or "").strip()\<close>, and \<open>casefold\<close> over these code points but the micro sign.\<close>

fun first_of :: "sheet_row \<Rightarrow> string list \<Rightarrow> string" where
  "first_of row [] = []"
| "first_of row (k # ks) = (if truthy (map_of row k) then the (map_of row k) else first_of row ks)"

definition cell :: "sheet_row \<Rightarrow> string list \<Rightarrow> string" where "cell row ks = strip (first_of row ks)"

definition casefold :: "string \<Rightarrow> string" where
  "casefold s = concat (map (\<lambda>c. if ord_of c = 223 then ''ss'' else [lower_char c]) s)"

subsection \<open>The menu sheet\<close>

datatype row_problem = MISSING_NAME | NOT_A_NUMBER | PRICE_MISSING | PRICE_NEGATIVE | DUPLICATE_SIZE | DUPLICATE_ITEM | NO_PRICE
  | DUPLICATE_NAME | BAD_UNIT | BAD_PACK | PACK_NOT_POSITIVE | BAD_COST | BAD_PAR | BAD_OPENING | OPENING_NEGATIVE
  | NAMES_REQUIRED | NO_MENU_ITEM | NO_INGREDIENT | UNIT_REQUIRED | BAD_QUANTITY | QUANTITY_NOT_POSITIVE

type_synonym row_error = "nat \<times> row_problem"

record menu_entry =
  me_category :: string
  me_name :: string
  me_description :: "string option"
  me_sku :: "string option"
  me_is_active :: bool
  me_sizes :: "(string \<times> int) list"
  me_price_cents :: "int option"
  me_rows :: "nat list"

type_synonym menu_sheet = "((string \<times> string) \<times> menu_entry) list"

definition price_text :: "string \<Rightarrow> string" where
  "price_text raw = filter (\<lambda>c. c \<notin> {CHR ''R'', CHR '','', CHR '' ''}) (strip raw)"

definition money_to_cents :: "string \<Rightarrow> int option result" where
  "money_to_cents raw =
     (if price_text raw = [] then Inr None else and_then (float_cents (price_text raw)) (\<lambda>n. Inr (Some n)))"

definition new_entry :: "sheet_row \<Rightarrow> string \<Rightarrow> string \<Rightarrow> bool \<Rightarrow> menu_entry" where
  "new_entry row category name is_active =
     \<lparr>me_category = category, me_name = name, me_description = or_none (cell row [''description'']),
      me_sku = or_none (cell row [''sku'', ''code'']), me_is_active = is_active, me_sizes = [], me_price_cents = None, me_rows = []\<rparr>"

definition enter_price :: "string \<Rightarrow> int \<Rightarrow> menu_entry \<Rightarrow> (row_problem, menu_entry) sum" where
  "enter_price sz price e =
     (if sz \<noteq> [] then
        if \<exists>s \<in> set (me_sizes e). casefold (fst s) = casefold sz then Inl DUPLICATE_SIZE
        else Inr (e\<lparr>me_sizes := me_sizes e @ [(sz, price)]\<rparr>)
      else if me_price_cents e \<noteq> None then Inl DUPLICATE_ITEM else Inr (e\<lparr>me_price_cents := Some price\<rparr>))"

text \<open>One row of the sheet; an entry keeps the number of a row that is then refused.\<close>

definition menu_row_step :: "nat \<times> sheet_row \<Rightarrow> menu_sheet \<times> row_error list \<Rightarrow> (menu_sheet \<times> row_error list) result" where
  "menu_row_step indexed state = (case (indexed, state) of ((index, row), (grouped, errors)) \<Rightarrow>
     let name = cell row [''name'', ''product'', ''item'']; fail = (\<lambda>p. Inr (grouped, errors @ [(index, p)])) in
     if name = [] then fail MISSING_NAME
     else case money_to_cents (first_of row [''price'', ''selling price'']) of
       Inl ValueError \<Rightarrow> fail NOT_A_NUMBER
     | Inl e \<Rightarrow> Inl e
     | Inr None \<Rightarrow> fail PRICE_MISSING
     | Inr (Some price) \<Rightarrow>
         if price < 0 then fail PRICE_NEGATIVE
         else let category = (if cell row [''category''] = [] then ''Menu'' else cell row [''category'']);
                  key = (casefold category, casefold name);
                  active = (lower (cell row [''active'']) \<notin> {''no'', ''false'', ''0'', ''inactive'', ''n''});
                  e0 = dict_get (new_entry row category name active) (map_of grouped key);
                  e = e0\<lparr>me_rows := me_rows e0 @ [index]\<rparr>
              in case enter_price (cell row [''size'']) price e of
                   Inl p \<Rightarrow> Inr (AList.update key e grouped, errors @ [(index, p)])
                 | Inr e' \<Rightarrow> Inr (AList.update key e' grouped, errors))"

fun fold_result :: "('a \<Rightarrow> 's \<Rightarrow> 's result) \<Rightarrow> 'a list \<Rightarrow> 's \<Rightarrow> 's result" where
  "fold_result f [] s = Inr s"
| "fold_result f (x # xs) s = and_then (f x s) (fold_result f xs)"

text \<open>The base price is the cheapest size.\<close>

definition settle_entry :: "menu_entry \<Rightarrow> menu_entry" where
  "settle_entry e = (if me_sizes e = [] then e else e\<lparr>me_price_cents := Some (Min (set (map snd (me_sizes e))))\<rparr>)"

definition unpriced :: "menu_sheet \<Rightarrow> row_error list" where
  "unpriced grouped = List.map_filter (\<lambda>(_, e). if me_sizes e = [] \<and> me_price_cents e = None then Some (hd (me_rows e), NO_PRICE) else None) grouped"

definition numbered :: "sheet_row list \<Rightarrow> (nat \<times> sheet_row) list" where "numbered rows = zip [2..<2 + length rows] rows"

definition parse_menu :: "sheet_row list \<Rightarrow> (menu_sheet \<times> row_error list) result" where
  "parse_menu rows = and_then (fold_result menu_row_step (numbered rows) ([], [])) (\<lambda>(grouped, errors).
     Inr (map (\<lambda>(k, e). (k, settle_entry e)) grouped, errors @ unpriced grouped))"

definition price_of :: "menu_entry \<Rightarrow> int" where "price_of e = dict_get 0 (me_price_cents e)"

definition size_deltas :: "menu_entry \<Rightarrow> (string \<times> int) list" where
  "size_deltas e = map (\<lambda>(n, p). (n, p - price_of e)) (me_sizes e)"

subsection \<open>Writing the menu\<close>

record menu_category =
  mc_id :: uuid
  mc_business_id :: uuid
  mc_name :: string

record menu_row = menu_item +
  mr_category_id :: "uuid option"
  mr_description :: "string option"

record menu_db =
  mn_categories :: "menu_category list"
  mn_items :: "menu_row list"

definition size_choice :: "string \<times> int \<Rightarrow> menu_option" where
  "size_choice s = \<lparr>mo_id = ''size-'' @ map (\<lambda>c. if c = CHR '' '' then CHR ''-'' else c) (lower (strip (fst s))),
     mo_name = fst s, mo_is_enabled = Some True, mo_price_delta_cents = Some (snd s)\<rparr>"

definition size_options :: "menu_entry \<Rightarrow> options_json option" where
  "size_options e = (if me_sizes e = [] then None else Some
     \<lparr>oj_option_groups = Some [\<lparr>og_id = ''size'', og_name = ''Size'', og_is_enabled = Some True, og_required = Some True,
        og_options = Some (map size_choice (size_deltas e))\<rparr>], oj_removable_ingredients = Some []\<rparr>)"

record menu_import =
  mm_db :: menu_db
  mm_category_ids :: "(string \<times> uuid) list"
  mm_fresh :: nat
  mm_created :: nat
  mm_updated :: nat
  mm_categories_created :: nat

definition ensure_category :: "uuid \<Rightarrow> (nat \<Rightarrow> uuid) \<Rightarrow> string \<Rightarrow> menu_import \<Rightarrow> uuid \<times> menu_import" where
  "ensure_category business fresh name s =
     (case map_of (mm_category_ids s) (casefold name) of
        Some i \<Rightarrow> (i, s)
      | None \<Rightarrow> let i = fresh (mm_fresh s) in
          (i, s\<lparr>mm_db := (mm_db s)\<lparr>mn_categories := mn_categories (mm_db s) @ [\<lparr>mc_id = i, mc_business_id = business, mc_name = name\<rparr>]\<rparr>,
              mm_category_ids := AList.update (casefold name) i (mm_category_ids s), mm_fresh := mm_fresh s + 1,
              mm_categories_created := mm_categories_created s + 1\<rparr>))"

definition updated_item :: "uuid \<Rightarrow> menu_entry \<Rightarrow> menu_row \<Rightarrow> menu_row" where
  "updated_item category e item =
     item\<lparr>mi_name := me_name e, mi_price_cents := price_of e, mi_is_active := me_is_active e,
       mr_category_id := Some category, mr_description := me_description e,
       mi_options_json := (case size_options e of None \<Rightarrow> mi_options_json item
         | Some oj \<Rightarrow> Some (oj\<lparr>oj_removable_ingredients := Some (dict_get [] (Option.bind (mi_options_json item) oj_removable_ingredients))\<rparr>))\<rparr>"

definition created_item :: "uuid \<Rightarrow> uuid \<Rightarrow> uuid \<Rightarrow> menu_entry \<Rightarrow> menu_row" where
  "created_item business new_id category e =
     \<lparr>mi_id = new_id, mi_business_id = business, mi_name = me_name e, mi_price_cents = price_of e, mi_options_json = size_options e,
      mi_add_on_ids = [], mi_is_active = me_is_active e, mi_is_deleted = False, mi_requires_preparation = True,
      mr_category_id = Some category, mr_description = me_description e\<rparr>"

text \<open>The items by name are those loaded before the first row is written.\<close>

definition write_entry :: "uuid \<Rightarrow> (nat \<Rightarrow> uuid) \<Rightarrow> (string \<times> uuid) list \<Rightarrow> menu_entry \<Rightarrow> menu_import \<Rightarrow> menu_import" where
  "write_entry business fresh items e s0 =
     (let (category, s) = ensure_category business fresh (me_category e) s0; db = mm_db s in
      case map_of items (casefold (me_name e)) of
        Some i \<Rightarrow> s\<lparr>mm_db := db\<lparr>mn_items := update_where (\<lambda>x. mi_id x = i) (updated_item category e) (mn_items db)\<rparr>, mm_updated := mm_updated s + 1\<rparr>
      | None \<Rightarrow> s\<lparr>mm_db := db\<lparr>mn_items := mn_items db @ [created_item business (fresh (mm_fresh s)) category e]\<rparr>,
                 mm_fresh := mm_fresh s + 1, mm_created := mm_created s + 1\<rparr>)"

definition menu_items_by_name :: "menu_db \<Rightarrow> uuid \<Rightarrow> (string \<times> uuid) list" where
  "menu_items_by_name db business = dict_of (map (\<lambda>i. (casefold (mi_name i), mi_id i))
     (filter (\<lambda>i. mi_business_id i = business \<and> \<not> mi_is_deleted i) (mn_items db)))"

definition categories_by_name :: "menu_db \<Rightarrow> uuid \<Rightarrow> (string \<times> uuid) list" where
  "categories_by_name db business = dict_of (map (\<lambda>c. (casefold (mc_name c), mc_id c)) (filter (\<lambda>c. mc_business_id c = business) (mn_categories db)))"

definition import_menu :: "menu_db \<Rightarrow> auth_user \<Rightarrow> (nat \<Rightarrow> uuid) \<Rightarrow> menu_sheet \<Rightarrow> menu_import" where
  "import_menu db user fresh grouped =
     fold (write_entry (au_business_id user) fresh (menu_items_by_name db (au_business_id user))) (map snd grouped)
       \<lparr>mm_db = db, mm_category_ids = categories_by_name db (au_business_id user), mm_fresh = 0, mm_created = 0, mm_updated = 0,
        mm_categories_created = 0\<rparr>"

definition commit_menu :: "(string \<Rightarrow> json_mapping) \<Rightarrow> menu_db \<Rightarrow> auth_user \<Rightarrow> upload_file \<Rightarrow> string option \<Rightarrow> (nat \<Rightarrow> uuid) \<Rightarrow> menu_import result" where
  "commit_menu loads db user f mapping fresh =
     and_then (read_rows f) (\<lambda>raw.
     and_then (parse_mapping loads mapping) (\<lambda>m.
     and_then (parse_menu (apply_mapping raw m)) (\<lambda>(grouped, errors).
     and_then (raise_if (errors \<noteq> []) (AppError ''IMPORT_HAS_ERRORS'' 422)) (\<lambda>_.
     and_then (raise_if (grouped = []) (AppError ''EMPTY_IMPORT'' 422)) (\<lambda>_.
       Inr (import_menu db user fresh grouped))))))"

record menu_preview =
  mp_detected_columns :: "string list"
  mp_total_rows :: nat
  mp_errors :: "row_error list"
  mp_would_create :: nat
  mp_would_update :: nat

definition preview_menu :: "(string \<Rightarrow> json_mapping) \<Rightarrow> menu_db \<Rightarrow> auth_user \<Rightarrow> upload_file \<Rightarrow> string option \<Rightarrow> menu_preview result" where
  "preview_menu loads db user f mapping =
     and_then (read_rows f) (\<lambda>raw.
     and_then (parse_mapping loads mapping) (\<lambda>m.
     let rows = apply_mapping raw m in
     and_then (parse_menu rows) (\<lambda>(grouped, errors).
     let existing = map fst (menu_items_by_name db (au_business_id user));
         updates = filter (\<lambda>e. casefold (me_name e) \<in> set existing) (map snd grouped)
     in Inr \<lparr>mp_detected_columns = detected_columns raw, mp_total_rows = length rows, mp_errors = errors,
             mp_would_create = length grouped - length updates, mp_would_update = length updates\<rparr>)))"

end
