(* ===== verification/Recipes.thy ===== *)
theory Recipes imports Inventory begin

text \<open>
  \<^verbatim>\<open>backend/app/api/v1/routes_recipes.py\<close>: the bill of materials of a menu item or an add-on and
  what it costs.  A recipe has its lines in its row; the rows of \<^verbatim>\<open>shared/models/recipe.py\<close> are
  \<open>recipe\<close> and \<open>recipe_item\<close> of \<open>StockLedger\<close>.  Identities of new rows are parameters.
\<close>

subsection \<open>Requests and replies\<close>

record recipe_item_request =
  rq_ingredient_id :: uuid
  rq_quantity :: string
  rq_unit :: string
  rq_option_group_id :: "string option"
  rq_option_id :: "string option"
  rq_removable_ref_id :: "string option"
  rq_sort_order :: int

record recipe_upsert =
  ru_menu_item_id :: "uuid option"
  ru_menu_add_on_id :: "uuid option"
  ru_yield_qty :: int
  ru_notes :: "string option"
  ru_items :: "recipe_item_request list"

record recipe_item_reply =
  ry_ingredient_id :: uuid
  ry_ingredient_name :: string
  ry_canonical_unit :: canonical_unit
  ry_unit_label :: "string option"
  ry_quantity_milli :: int
  ry_quantity_display :: string
  ry_option_group_id :: "string option"
  ry_option_id :: "string option"
  ry_removable_ref_id :: "string option"
  ry_cost_cents :: int
  ry_sort_order :: int

record recipe_reply =
  rp_recipe :: recipe
  rp_items :: "recipe_item_reply list"
  rp_base_food_cost_cents :: int
  rp_max_food_cost_cents :: int

subsection \<open>Costing\<close>

definition per_portion_quantity_milli :: "int \<Rightarrow> int \<Rightarrow> int result" where
  "per_portion_quantity_milli q yield_qty =
     and_then (dec_div (dec_of_int q) (dec_of_int (if yield_qty \<le> 0 then 1 else yield_qty))) dec_quantize_int"

definition recipe_line_reply :: "(uuid \<Rightarrow> ingredient option) \<Rightarrow> int \<Rightarrow> recipe_item \<Rightarrow> recipe_item_reply result" where
  "recipe_line_reply ingredients yield_qty line =
     (let ingredient = ingredients (rt_ingredient_id line);
          unit = (case ingredient of None \<Rightarrow> UNIT | Some x \<Rightarrow> ing_canonical_unit x);
          label = (case ingredient of None \<Rightarrow> None | Some x \<Rightarrow> ing_unit_label x);
          unit_cost = (case ingredient of None \<Rightarrow> 0 | Some x \<Rightarrow> ing_cost_per_canonical_micro_cents x)
      in and_then (per_portion_quantity_milli (rt_quantity_milli line) yield_qty) (\<lambda>n.
         and_then (value_cents n unit_cost) (\<lambda>cost.
         and_then (format_quantity (rt_quantity_milli line) unit label) (\<lambda>display.
           Inr \<lparr>ry_ingredient_id = rt_ingredient_id line,
                ry_ingredient_name = (case ingredient of None \<Rightarrow> ''(deleted ingredient)'' | Some x \<Rightarrow> ing_name x),
                ry_canonical_unit = unit, ry_unit_label = label, ry_quantity_milli = rt_quantity_milli line,
                ry_quantity_display = display, ry_option_group_id = rt_option_group_id line, ry_option_id = rt_option_id line, ry_removable_ref_id = rt_removable_ref_id line,
                ry_cost_cents = cost, ry_sort_order = rt_sort_order line\<rparr>))))"

text \<open>The dictionary of the costs per option, in the order the options are met.\<close>

definition add_option_cost :: "recipe_item_reply \<Rightarrow> (string \<times> int) list \<Rightarrow> (string \<times> int) list" where
  "add_option_cost r costs =
     (if truthy (ry_option_id r)
      then AList.update (the (ry_option_id r)) (dict_get 0 (map_of costs (the (ry_option_id r))) + ry_cost_cents r) costs else costs)"

definition build_recipe_reply :: "(uuid \<Rightarrow> ingredient option) \<Rightarrow> recipe \<Rightarrow> recipe_reply result" where
  "build_recipe_reply ingredients r =
     and_then (map_result (recipe_line_reply ingredients (if rc_yield_qty r = 0 then 1 else rc_yield_qty r))
                 (sort_key rt_sort_order (rc_items r))) (\<lambda>items.
       let base = sum_list (map ry_cost_cents (filter (\<lambda>i. \<not> truthy (ry_option_id i)) items));
           option_costs = fold add_option_cost items []
       in Inr \<lparr>rp_recipe = r, rp_items = items, rp_base_food_cost_cents = base,
               rp_max_food_cost_cents = base + (if option_costs = [] then 0 else Max (set (map snd option_costs)))\<rparr>)"

definition load_ingredients :: "inventory_db \<Rightarrow> uuid \<Rightarrow> uuid list \<Rightarrow> uuid \<Rightarrow> ingredient option" where
  "load_ingredients db business ids i =
     (if i \<in> set ids then find (\<lambda>x. ing_id x = i \<and> ing_business_id x = business) (sd_ingredients (iv_stock db)) else None)"

definition recipe_ingredient_ids :: "recipe \<Rightarrow> uuid list" where
  "recipe_ingredient_ids r = map rt_ingredient_id (rc_items r)"

subsection \<open>Reading\<close>

definition iv_recipes :: "inventory_db \<Rightarrow> recipe list" where "iv_recipes db = sd_recipes (iv_stock db)"

definition list_recipes :: "inventory_db \<Rightarrow> auth_user \<Rightarrow> recipe_reply list result" where
  "list_recipes db user =
     (let business = au_business_id user; recipes = filter (\<lambda>r. rc_business_id r = business \<and> rc_is_active r) (iv_recipes db)
      in and_then (require_inventory db business) (\<lambda>_.
         map_result (build_recipe_reply (load_ingredients db business (concat (map recipe_ingredient_ids recipes)))) recipes))"

definition active_recipe :: "inventory_db \<Rightarrow> uuid \<Rightarrow> (recipe \<Rightarrow> bool) \<Rightarrow> recipe option result" where
  "active_recipe db business of_parent =
     scalar_one_or_none (filter (\<lambda>r. rc_business_id r = business \<and> of_parent r \<and> rc_is_active r) (iv_recipes db))"

definition get_recipe_for_menu_item :: "inventory_db \<Rightarrow> auth_user \<Rightarrow> uuid \<Rightarrow> recipe_reply result" where
  "get_recipe_for_menu_item db user item_id =
     and_then (require_inventory db (au_business_id user)) (\<lambda>_.
     and_then (active_recipe db (au_business_id user) (\<lambda>r. rc_menu_item_id r = Some item_id)) (\<lambda>row.
     and_then (or_raise row (not_found_error ''Recipe for menu item'')) (\<lambda>r.
       build_recipe_reply (load_ingredients db (au_business_id user) (recipe_ingredient_ids r)) r)))"

subsection \<open>Writing\<close>

text \<open>
  The partial unique indexes on the active recipes of an item and of an add-on, and the check of the parent.
\<close>

definition active_item_key :: "recipe \<Rightarrow> uuid option" where
  "active_item_key r = (if rc_is_active r then rc_menu_item_id r else None)"

definition active_add_on_key :: "recipe \<Rightarrow> uuid option" where
  "active_add_on_key r = (if rc_is_active r then rc_menu_add_on_id r else None)"

definition one_parent :: "recipe \<Rightarrow> bool" where
  "one_parent r = ((rc_menu_item_id r = None) \<noteq> (rc_menu_add_on_id r = None))"

definition recipes_ok :: "recipe list \<Rightarrow> bool" where
  "recipes_ok rs = (unique_index active_item_key rs \<and> unique_index active_add_on_key rs \<and>
     list_all (\<lambda>r. one_parent r \<and> 0 < rc_yield_qty r) rs)"

definition commit_recipe_rows :: "inventory_db \<Rightarrow> inventory_db result" where
  "commit_recipe_rows db =
     and_then (raise_if (\<not> list_all one_parent (iv_recipes db)) (IntegrityError ''ck_recipes_exactly_one_parent'')) (\<lambda>_.
     and_then (raise_if (\<not> list_all (\<lambda>r. 0 < rc_yield_qty r) (iv_recipes db)) (IntegrityError ''ck_recipes_yield_positive'')) (\<lambda>_.
     and_then (raise_if (\<not> unique_index active_item_key (iv_recipes db)) (IntegrityError ''uq_recipes_active_menu_item'')) (\<lambda>_.
     and_then (raise_if (\<not> unique_index active_add_on_key (iv_recipes db)) (IntegrityError ''uq_recipes_active_menu_add_on'')) (\<lambda>_.
       commit_inventory db))))"

lemma commit_recipe_rows_eq: "commit_recipe_rows db = Inr db' \<longleftrightarrow> db' = db \<and> inventory_ok db \<and> recipes_ok (iv_recipes db)"
  by (auto simp: commit_recipe_rows_def recipes_ok_def and_then_eq_Inr commit_inventory_eq list_all_iff)

definition owned_parent :: "inventory_db \<Rightarrow> uuid \<Rightarrow> recipe_upsert \<Rightarrow> unit result" where
  "owned_parent db business q =
     (case ru_menu_item_id q of
        Some i \<Rightarrow> and_then (require_owned mi_id mi_business_id (cat_menu_items (sh_catalog (iv_shop db))) i business ''Menu item'') (\<lambda>_. Inr ())
      | None \<Rightarrow> and_then (or_raise (ru_menu_add_on_id q) TypeError) (\<lambda>a.
          and_then (require_owned ma_id ma_business_id (cat_add_ons (sh_catalog (iv_shop db))) a business ''Menu add-on'') (\<lambda>_. Inr ())))"

definition of_parent :: "recipe_upsert \<Rightarrow> recipe \<Rightarrow> bool" where
  "of_parent q r = (if ru_menu_item_id q \<noteq> None then rc_menu_item_id r = ru_menu_item_id q else rc_menu_add_on_id r = ru_menu_add_on_id q)"

definition recipe_row :: "(uuid \<Rightarrow> ingredient option) \<Rightarrow> recipe_item_request \<Rightarrow> recipe_item result" where
  "recipe_row ingredients q =
     and_then (or_raise (ingredients (rq_ingredient_id q)) (AppError ''UNKNOWN_INGREDIENT'' 422)) (\<lambda>x.
     and_then (convert_quantity (QText (rq_quantity q)) (rq_unit q) (ing_canonical_unit x)) (\<lambda>n.
     and_then (raise_if (n \<le> 0) (AppError ''INVALID_QUANTITY'' 422)) (\<lambda>_.
       Inr \<lparr>rt_ingredient_id = ing_id x, rt_quantity_milli = n, rt_option_group_id = rq_option_group_id q, rt_option_id = rq_option_id q,
            rt_removable_ref_id = rq_removable_ref_id q, rt_sort_order = rq_sort_order q\<rparr>)))"

definition put_recipe :: "recipe option \<Rightarrow> recipe \<Rightarrow> inventory_db \<Rightarrow> inventory_db" where
  "put_recipe existing r = change_stock (\<lambda>s. s\<lparr>sd_recipes :=
     (if existing = None then sd_recipes s @ [r] else update_where (\<lambda>x. rc_id x = rc_id r) (\<lambda>_. r) (sd_recipes s))\<rparr>)"

definition new_recipe_version :: "uuid \<Rightarrow> recipe_upsert \<Rightarrow> uuid \<Rightarrow> recipe option \<Rightarrow> recipe_item list \<Rightarrow> recipe" where
  "new_recipe_version business q new_id existing rows =
     (case existing of
        Some r \<Rightarrow> r\<lparr>rc_version := (if rc_version r = 0 then 1 else rc_version r) + 1, rc_yield_qty := ru_yield_qty q,
                    rc_notes := ru_notes q, rc_items := rows\<rparr>
      | None \<Rightarrow> \<lparr>rc_id = new_id, rc_business_id = business, rc_menu_item_id = ru_menu_item_id q, rc_menu_add_on_id = ru_menu_add_on_id q,
                 rc_version = 1, rc_is_active = True, rc_yield_qty = ru_yield_qty q, rc_notes = ru_notes q, rc_items = rows\<rparr>)"

text \<open>The reply is computed from the rows read back after the commit.\<close>

definition upsert_recipe :: "inventory_db \<Rightarrow> auth_user \<Rightarrow> recipe_upsert \<Rightarrow> uuid \<Rightarrow> (inventory_db \<times> recipe_reply result) result" where
  "upsert_recipe db user q new_id =
     (let business = au_business_id user; ids = map rq_ingredient_id (ru_items q); ingredients = load_ingredients db business ids
      in and_then (require_inventory db business) (\<lambda>_.
         and_then (raise_if ((ru_menu_item_id q \<noteq> None) = (ru_menu_add_on_id q \<noteq> None)) (AppError ''INVALID_RECIPE_PARENT'' 422)) (\<lambda>_.
         and_then (owned_parent db business q) (\<lambda>_.
         and_then (raise_if (\<exists>i \<in> set ids. ingredients i = None) (AppError ''UNKNOWN_INGREDIENT'' 422)) (\<lambda>_.
         and_then (active_recipe db business (of_parent q)) (\<lambda>existing.
         and_then (map_result (recipe_row ingredients) (ru_items q)) (\<lambda>rows.
         let r = new_recipe_version business q new_id existing rows in
         and_then (commit_recipe_rows (put_recipe existing r db)) (\<lambda>db'.
           Inr (db', build_recipe_reply ingredients r)))))))))"

definition deactivate_recipe :: "inventory_db \<Rightarrow> auth_user \<Rightarrow> uuid \<Rightarrow> inventory_db result" where
  "deactivate_recipe db user i =
     and_then (require_inventory db (au_business_id user)) (\<lambda>_.
     and_then (require_owned rc_id rc_business_id (iv_recipes db) i (au_business_id user) ''Recipe'') (\<lambda>r.
       commit_recipe_rows (put_recipe (Some r) (r\<lparr>rc_is_active := False\<rparr>) db)))"

end
