(* ===== verification/StockImport.thy ===== *)
theory StockImport imports SheetImport Recipes begin

text \<open>
  \<^verbatim>\<open>backend/app/api/v1/routes_import.py\<close>, second half: the import of ingredients with their
  opening stock and of recipes.  Identities of new rows are parameters.
\<close>

subsection \<open>Ingredients\<close>

definition sheet_units :: "(string \<times> canonical_unit) list" where
  "sheet_units = [(''G'', GRAM), (''GRAM'', GRAM), (''GRAMS'', GRAM), (''KG'', GRAM), (''ML'', MILLILITRE), (''MILLILITRE'', MILLILITRE),
     (''L'', MILLILITRE)] @ map (\<lambda>u. (u, UNIT)) [''UNIT'', ''UNITS'', ''EACH'', ''EA'', ''PORTION'', ''PORTIONS'', ''SACHET'', ''SACHETS'',
       ''BOTTLE'', ''BOTTLES'', ''BOX'', ''BOXES'', ''BALL'', ''BALLS'', ''TUB'', ''SLICE'', ''SLICES'', ''CAN'', ''CANS'']"

record parsed_ingredient =
  pg_name :: string
  pg_canonical_unit :: canonical_unit
  pg_count_method :: count_method
  pg_unit_label :: "string option"
  pg_category :: "string option"
  pg_opening_milli :: "int option"
  pg_sku :: "string option"
  pg_purchase_unit_name :: "string option"
  pg_purchase_pack_milli :: int
  pg_cost_per_pack_cents :: "int option"
  pg_cost_per_canonical_micro_cents :: int
  pg_par_level_milli :: "int option"

text \<open>A step that refuses its row, and one that fails the request.\<close>

datatype 'a row_result = RowOk 'a | RowFail row_problem | RowRaise app_error

definition row_then :: "'a row_result \<Rightarrow> ('a \<Rightarrow> 'b row_result) \<Rightarrow> 'b row_result" where
  "row_then r f = (case r of RowOk x \<Rightarrow> f x | RowFail p \<Rightarrow> RowFail p | RowRaise e \<Rightarrow> RowRaise e)"

definition row_check :: "bool \<Rightarrow> row_problem \<Rightarrow> unit row_result" where
  "row_check bad p = (if bad then RowFail p else RowOk ())"

definition catching :: "app_error set \<Rightarrow> row_problem \<Rightarrow> 'a result \<Rightarrow> 'a row_result" where
  "catching caught p r = (case r of Inr x \<Rightarrow> RowOk x | Inl e \<Rightarrow> if e \<in> caught then RowFail p else RowRaise e)"

definition sheet_milli :: "row_problem \<Rightarrow> string \<Rightarrow> string \<Rightarrow> canonical_unit \<Rightarrow> int row_result" where
  "sheet_milli p q unit canonical = catching {UnitError, ValueError} p (to_milli (QText q) (Some unit) (Some canonical))"

definition sheet_cost :: "sheet_row \<Rightarrow> int option row_result" where
  "sheet_cost row = (let raw = filter (\<lambda>c. c \<notin> {CHR ''R'', CHR '',''}) (cell row [''pack_cost''])
     in if raw = [] then RowOk None else row_then (catching {ValueError} BAD_COST (float_cents raw)) (\<lambda>n. RowOk (Some n)))"

definition sheet_par :: "sheet_row \<Rightarrow> string \<Rightarrow> canonical_unit \<Rightarrow> int option row_result" where
  "sheet_par row unit canonical =
     (if cell row [''par_level''] = [] then RowOk None
      else row_then (sheet_milli BAD_PAR (cell row [''par_level'']) unit canonical) (\<lambda>n. RowOk (Some n)))"

definition sheet_opening :: "sheet_row \<Rightarrow> string \<Rightarrow> canonical_unit \<Rightarrow> int option row_result" where
  "sheet_opening row unit canonical =
     (if cell row [''opening_quantity''] = [] then RowOk None
      else row_then (sheet_milli BAD_OPENING (cell row [''opening_quantity'']) unit canonical) (\<lambda>n.
           row_then (row_check (n < 0) OPENING_NEGATIVE) (\<lambda>_. RowOk (Some n))))"

definition sheet_count_method :: "sheet_row \<Rightarrow> canonical_unit \<Rightarrow> count_method" where
  "sheet_count_method row canonical =
     (let m = upper (cell row [''count_method''])
      in if m = ''UNIT_COUNT'' then UNIT_COUNT else if m = ''WEIGHT'' then WEIGHT_COUNT else if m = ''VOLUME'' then VOLUME_COUNT
         else case canonical of GRAM \<Rightarrow> WEIGHT_COUNT | MILLILITRE \<Rightarrow> VOLUME_COUNT | UNIT \<Rightarrow> UNIT_COUNT)"

text \<open>\<open>unit_raw.lower().rstrip("s")\<close> takes off every final s.\<close>

definition sheet_label :: "sheet_row \<Rightarrow> string \<Rightarrow> canonical_unit \<Rightarrow> string option" where
  "sheet_label row unit canonical =
     (if cell row [''unit_label''] \<noteq> [] then Some (cell row [''unit_label''])
      else if canonical = UNIT \<and> unit \<notin> {''UNIT'', ''UNITS'', []} then or_none (rev (dropWhile (\<lambda>c. c = CHR ''s'') (rev (lower unit))))
      else None)"

definition or_text :: "string \<Rightarrow> string \<Rightarrow> string" where "or_text s d = (if s = [] then d else s)"

text \<open>A row whose name is new; an empty cell is the default of the code, blanks in it are not.\<close>

definition parse_ingredient :: "sheet_row \<Rightarrow> string \<Rightarrow> parsed_ingredient row_result" where
  "parse_ingredient row name =
     (let unit = upper (cell row [''unit'']) in
      case map_of sheet_units unit of
        None \<Rightarrow> RowFail BAD_UNIT
      | Some canonical \<Rightarrow>
        let pack_size = or_text (strip (or_text (first_of row [''pack_size'']) ''1'')) ''1'';
            pack_unit = upper (strip (or_text (first_of row [''pack_unit'']) (or_text unit ''UNIT'')))
        in row_then (sheet_milli BAD_PACK pack_size pack_unit canonical) (\<lambda>pack.
           row_then (row_check (pack \<le> 0) PACK_NOT_POSITIVE) (\<lambda>_.
           row_then (sheet_cost row) (\<lambda>cost.
           row_then (sheet_par row pack_unit canonical) (\<lambda>par.
           row_then (sheet_opening row (or_text unit ''UNIT'') canonical) (\<lambda>opening.
           row_then (catching {} BAD_COST (pack_cost cost pack)) (\<lambda>micro.
             RowOk \<lparr>pg_name = name, pg_canonical_unit = canonical, pg_count_method = sheet_count_method row canonical,
               pg_unit_label = sheet_label row unit canonical, pg_category = or_none (cell row [''category'']), pg_opening_milli = opening,
               pg_sku = or_none (cell row [''sku'']),
               pg_purchase_unit_name = (if pack_size \<noteq> ''1'' then Some (pack_size @ '' '' @ lower pack_unit) else None),
               pg_purchase_pack_milli = pack, pg_cost_per_pack_cents = cost, pg_cost_per_canonical_micro_cents = micro,
               pg_par_level_milli = par\<rparr>)))))))"

record ingredient_sheet =
  is_rows :: "parsed_ingredient list"
  is_errors :: "row_error list"
  is_seen :: "string list"

definition ingredient_row_step :: "nat \<times> sheet_row \<Rightarrow> ingredient_sheet \<Rightarrow> ingredient_sheet result" where
  "ingredient_row_step indexed s = (case indexed of (index, row) \<Rightarrow>
     let name = cell row [''name'']; fail = (\<lambda>p s. Inr (s\<lparr>is_errors := is_errors s @ [(index, p)]\<rparr>)) in
     if name = [] then fail MISSING_NAME s
     else if casefold name \<in> set (is_seen s) then fail DUPLICATE_NAME s
     else let s = s\<lparr>is_seen := is_seen s @ [casefold name]\<rparr> in
       case parse_ingredient row name of
         RowOk p \<Rightarrow> Inr (s\<lparr>is_rows := is_rows s @ [p]\<rparr>) | RowFail p \<Rightarrow> fail p s | RowRaise e \<Rightarrow> Inl e)"

definition parse_ingredients :: "sheet_row list \<Rightarrow> ingredient_sheet result" where
  "parse_ingredients rows = fold_result ingredient_row_step (numbered rows) \<lparr>is_rows = [], is_errors = [], is_seen = []\<rparr>"

definition existing_names :: "inventory_db \<Rightarrow> uuid \<Rightarrow> string list" where
  "existing_names db business = map (\<lambda>x. casefold (ing_name x))
     (filter (\<lambda>x. ing_business_id x = business \<and> \<not> ing_is_deleted x) (sd_ingredients (iv_stock db)))"

definition imported_ingredient :: "uuid \<Rightarrow> uuid \<Rightarrow> parsed_ingredient \<Rightarrow> ingredient" where
  "imported_ingredient business new_id p =
     \<lparr>ing_id = new_id, ing_business_id = business, ing_canonical_unit = pg_canonical_unit p, ing_purchase_pack_milli = pg_purchase_pack_milli p,
      ing_cost_per_canonical_micro_cents = pg_cost_per_canonical_micro_cents p, ing_is_active = True, ing_is_deleted = False,
      ing_name = pg_name p, ing_sku = pg_sku p, ing_count_method = pg_count_method p, ing_unit_label = pg_unit_label p,
      ing_category = pg_category p, ing_purchase_unit_name = pg_purchase_unit_name p, ing_cost_per_pack_cents = pg_cost_per_pack_cents p,
      ing_par_level_milli = pg_par_level_milli p, ing_notes = None\<rparr>"

definition add_ingredient :: "ingredient \<Rightarrow> inventory_db \<Rightarrow> inventory_db" where
  "add_ingredient x = change_stock (\<lambda>s. s\<lparr>sd_ingredients := sd_ingredients s @ [x]\<rparr>)"

record ingredient_import =
  ii_db :: inventory_db
  ii_created :: nat
  ii_opening_posted :: nat
  ii_skipped :: "string list"

definition import_ingredient :: "auth_user \<Rightarrow> (nat \<Rightarrow> uuid) \<Rightarrow> instant \<Rightarrow> string list \<Rightarrow> parsed_ingredient \<Rightarrow> ingredient_import \<Rightarrow> ingredient_import result" where
  "import_ingredient user fresh now existing p s =
     (if casefold (pg_name p) \<in> set existing then Inr (s\<lparr>ii_skipped := ii_skipped s @ [pg_name p]\<rparr>)
      else let x = imported_ingredient (au_business_id user) (fresh (ii_created s)) p;
               s1 = s\<lparr>ii_db := add_ingredient x (ii_db s), ii_created := ii_created s + 1\<rparr>
           in if dict_get 0 (pg_opening_milli p) = 0 then Inr s1
              else and_then (build_movement (au_business_id user) (ing_id x) (the (pg_opening_milli p)) OPENING_BALANCE
                     (ing_cost_per_canonical_micro_cents x) None None (Some (au_user_id user)) None
                     (Some ''Opening stock from spreadsheet import'') None now) (\<lambda>m.
                   Inr (s1\<lparr>ii_db := change_stock (add_movements [m]) (ii_db s1), ii_opening_posted := ii_opening_posted s1 + 1\<rparr>)))"

definition read_sheet :: "(string \<Rightarrow> json_mapping) \<Rightarrow> upload_file \<Rightarrow> string option \<Rightarrow> sheet_row list result" where
  "read_sheet loads f mapping = and_then (read_rows f) (\<lambda>raw. and_then (parse_mapping loads mapping) (\<lambda>m. Inr (apply_mapping raw m)))"

definition commit_ingredients ::
  "(string \<Rightarrow> json_mapping) \<Rightarrow> inventory_db \<Rightarrow> auth_user \<Rightarrow> upload_file \<Rightarrow> string option \<Rightarrow> (nat \<Rightarrow> uuid) \<Rightarrow> instant \<Rightarrow> ingredient_import result" where
  "commit_ingredients loads db user f mapping fresh now =
     and_then (require_inventory db (au_business_id user)) (\<lambda>_.
     and_then (read_sheet loads f mapping) (\<lambda>rows.
     and_then (parse_ingredients rows) (\<lambda>parsed.
     and_then (raise_if (is_errors parsed \<noteq> []) (AppError ''IMPORT_HAS_ERRORS'' 422)) (\<lambda>_.
     and_then (fold_result (import_ingredient user fresh now (existing_names db (au_business_id user))) (is_rows parsed)
                 \<lparr>ii_db = db, ii_created = 0, ii_opening_posted = 0, ii_skipped = []\<rparr>) (\<lambda>out.
     and_then (commit_inventory (ii_db out)) (\<lambda>_. Inr out))))))"

record ingredient_preview =
  ig_total_rows :: nat
  ig_valid_rows :: nat
  ig_errors :: "row_error list"
  ig_would_create :: "string list"
  ig_would_skip :: "string list"
  ig_with_opening_stock :: nat

definition preview_ingredients ::
  "(string \<Rightarrow> json_mapping) \<Rightarrow> inventory_db \<Rightarrow> auth_user \<Rightarrow> upload_file \<Rightarrow> string option \<Rightarrow> ingredient_preview result" where
  "preview_ingredients loads db user f mapping =
     and_then (require_inventory db (au_business_id user)) (\<lambda>_.
     and_then (read_sheet loads f mapping) (\<lambda>rows.
     and_then (parse_ingredients rows) (\<lambda>parsed.
     let existing = existing_names db (au_business_id user); names = map pg_name (is_rows parsed) in
     Inr \<lparr>ig_total_rows = length (is_rows parsed) + length (is_errors parsed), ig_valid_rows = length (is_rows parsed),
          ig_errors = is_errors parsed, ig_would_create = filter (\<lambda>n. casefold n \<notin> set existing) names,
          ig_would_skip = filter (\<lambda>n. casefold n \<in> set existing) names,
          ig_with_opening_stock = length (filter (\<lambda>p. dict_get 0 (pg_opening_milli p) \<noteq> 0) (is_rows parsed))\<rparr>)))"

subsection \<open>Recipes\<close>

definition live_items :: "inventory_db \<Rightarrow> uuid \<Rightarrow> (string \<times> menu_item) list" where
  "live_items db business = dict_of (map (\<lambda>i. (casefold (mi_name i), i))
     (filter (\<lambda>i. mi_business_id i = business \<and> \<not> mi_is_deleted i) (cat_menu_items (sh_catalog (iv_shop db)))))"

definition live_ingredients :: "inventory_db \<Rightarrow> uuid \<Rightarrow> (string \<times> ingredient) list" where
  "live_ingredients db business = dict_of (map (\<lambda>i. (casefold (ing_name i), i))
     (filter (\<lambda>i. ing_business_id i = business \<and> \<not> ing_is_deleted i) (sd_ingredients (iv_stock db))))"

record parsed_line =
  pl_menu_item_id :: uuid
  pl_ingredient_id :: uuid
  pl_quantity_milli :: int
  pl_option_id :: "string option"
  pl_removable_ref_id :: "string option"

definition parse_recipe_row :: "(string \<times> menu_item) list \<Rightarrow> (string \<times> ingredient) list \<Rightarrow> sheet_row \<Rightarrow> parsed_line row_result" where
  "parse_recipe_row items ingredients row =
     (let item_name = cell row [''menu_item'']; ingredient_name = cell row [''ingredient'']; unit = cell row [''unit''] in
      row_then (row_check (item_name = [] \<or> ingredient_name = []) NAMES_REQUIRED) (\<lambda>_.
      case map_of items (casefold item_name) of None \<Rightarrow> RowFail NO_MENU_ITEM
      | Some item \<Rightarrow> (case map_of ingredients (casefold ingredient_name) of None \<Rightarrow> RowFail NO_INGREDIENT
        | Some x \<Rightarrow>
          row_then (row_check (unit = []) UNIT_REQUIRED) (\<lambda>_.
          row_then (sheet_milli BAD_QUANTITY (cell row [''quantity'']) unit (ing_canonical_unit x)) (\<lambda>n.
          row_then (row_check (n \<le> 0) QUANTITY_NOT_POSITIVE) (\<lambda>_.
            RowOk \<lparr>pl_menu_item_id = mi_id item, pl_ingredient_id = ing_id x, pl_quantity_milli = n,
                   pl_option_id = or_none (cell row [''option_id'']), pl_removable_ref_id = or_none (cell row [''removable_id''])\<rparr>))))))"

type_synonym recipe_sheet = "(uuid \<times> parsed_line list) list \<times> row_error list"

definition recipe_row_step ::
  "(string \<times> menu_item) list \<Rightarrow> (string \<times> ingredient) list \<Rightarrow> nat \<times> sheet_row \<Rightarrow> recipe_sheet \<Rightarrow> recipe_sheet result" where
  "recipe_row_step items ingredients indexed s = (case (indexed, s) of ((index, row), (grouped, errors)) \<Rightarrow>
     case parse_recipe_row items ingredients row of
       RowOk l \<Rightarrow> Inr (AList.update (pl_menu_item_id l) (dict_get [] (map_of grouped (pl_menu_item_id l)) @ [l]) grouped, errors)
     | RowFail p \<Rightarrow> Inr (grouped, errors @ [(index, p)])
     | RowRaise e \<Rightarrow> Inl e)"

definition parse_recipes :: "(string \<times> menu_item) list \<Rightarrow> (string \<times> ingredient) list \<Rightarrow> sheet_row list \<Rightarrow> recipe_sheet result" where
  "parse_recipes items ingredients rows = fold_result (recipe_row_step items ingredients) (numbered rows) ([], [])"

definition imported_lines :: "parsed_line list \<Rightarrow> recipe_item list" where
  "imported_lines ls = map (\<lambda>(order, l). \<lparr>rt_ingredient_id = pl_ingredient_id l, rt_quantity_milli = pl_quantity_milli l, rt_option_group_id = None,
     rt_option_id = pl_option_id l, rt_removable_ref_id = pl_removable_ref_id l, rt_sort_order = int order\<rparr>) (zip [0..<length ls] ls)"

definition retire :: "recipe option \<Rightarrow> inventory_db \<Rightarrow> inventory_db" where
  "retire existing db = (case existing of None \<Rightarrow> db | Some r \<Rightarrow> put_recipe (Some r) (r\<lparr>rc_is_active := False\<rparr>) db)"

definition import_recipe :: "uuid \<Rightarrow> (uuid \<Rightarrow> uuid) \<Rightarrow> uuid \<times> parsed_line list \<Rightarrow> inventory_db \<Rightarrow> inventory_db result" where
  "import_recipe business fresh p db = (case p of (item, ls) \<Rightarrow>
     and_then (active_recipe db business (\<lambda>r. rc_menu_item_id r = Some item)) (\<lambda>existing.
     commit_recipe_rows (put_recipe None
       \<lparr>rc_id = fresh item, rc_business_id = business, rc_menu_item_id = Some item, rc_menu_add_on_id = None,
        rc_version = (case existing of None \<Rightarrow> 1 | Some r \<Rightarrow> rc_version r + 1), rc_is_active = True, rc_yield_qty = 1, rc_notes = None,
        rc_items = imported_lines ls\<rparr> (retire existing db))))"

definition commit_recipes ::
  "(string \<Rightarrow> json_mapping) \<Rightarrow> inventory_db \<Rightarrow> auth_user \<Rightarrow> upload_file \<Rightarrow> string option \<Rightarrow> (uuid \<Rightarrow> uuid) \<Rightarrow> (inventory_db \<times> nat \<times> nat) result" where
  "commit_recipes loads db user f mapping fresh =
     and_then (require_inventory db (au_business_id user)) (\<lambda>_.
     and_then (read_sheet loads f mapping) (\<lambda>rows.
     and_then (parse_recipes (live_items db (au_business_id user)) (live_ingredients db (au_business_id user)) rows) (\<lambda>(grouped, errors).
     and_then (raise_if (errors \<noteq> []) (AppError ''IMPORT_HAS_ERRORS'' 422)) (\<lambda>_.
     and_then (raise_if (grouped = []) (AppError ''EMPTY_IMPORT'' 422)) (\<lambda>_.
     and_then (fold_result (import_recipe (au_business_id user) fresh) grouped db) (\<lambda>db'.
       Inr (db', length grouped, length (concat (map snd grouped)))))))))"

record recipe_preview =
  rw_valid_rows :: nat
  rw_errors :: "row_error list"
  rw_recipes :: "(uuid \<times> nat) list"

definition preview_recipes :: "(string \<Rightarrow> json_mapping) \<Rightarrow> inventory_db \<Rightarrow> auth_user \<Rightarrow> upload_file \<Rightarrow> string option \<Rightarrow> recipe_preview result" where
  "preview_recipes loads db user f mapping =
     and_then (require_inventory db (au_business_id user)) (\<lambda>_.
     and_then (read_sheet loads f mapping) (\<lambda>rows.
     and_then (parse_recipes (live_items db (au_business_id user)) (live_ingredients db (au_business_id user)) rows) (\<lambda>(grouped, errors).
       Inr \<lparr>rw_valid_rows = length (concat (map snd grouped)), rw_errors = errors, rw_recipes = map (\<lambda>(i, ls). (i, length ls)) grouped\<rparr>)))"

end
