(* ===== verification/Orders.thy ===== *)
theory Orders imports Shop begin

text \<open>
  \<^verbatim>\<open>backend/app/api/v1/routes_orders.py\<close>: creating an order from the dashboard, its
  status changes, the delivery fee, recording a payment and refunding one through a
  provider.  A handler takes the database, the caller and the instant of the request and
  returns the committed database with the order, or the error.  The notifications, the
  usage counter and the receipt, which the code sends after the commit and whose failures
  it ignores, are not modelled.
\<close>

subsection \<open>Creating an order\<close>

record order_item_create =
  ic_menu_item_id :: "uuid option"
  ic_selected_option_ids :: "(string \<times> string) list"
  ic_add_on_selections :: "pos_add_on_selection list"
  ic_removed_ingredient_ids :: "string list"
  ic_name :: "string option"
  ic_price_cents :: "int option"
  ic_qty :: int
  ic_special_instructions :: "string option"

record order_create =
  oc_customer_name :: "string option"
  oc_customer_phone :: "string option"
  oc_delivery_address :: "string option"
  oc_items :: "order_item_create list"
  oc_notes :: "string option"
  oc_order_mode :: order_mode
  oc_source :: order_source

definition manual_order_sources :: "order_source list" where
  "manual_order_sources = [MANUAL, ADMIN, WHATSAPP]"

text \<open>What the request schema accepts.\<close>

definition valid_item_create :: "order_item_create \<Rightarrow> bool" where
  "valid_item_create i = (1 \<le> ic_qty i \<and> ic_qty i \<le> 999 \<and>
     (case ic_price_cents i of None \<Rightarrow> True | Some p \<Rightarrow> 0 \<le> p) \<and>
     list_all (\<lambda>s. 1 \<le> ps_quantity s \<and> ps_quantity s \<le> 99) (ic_add_on_selections i) \<and>
     \<not> (ic_menu_item_id i = None \<and> (\<not> truthy (ic_name i) \<or> ic_price_cents i = None)))"

definition valid_order_create :: "order_create \<Rightarrow> bool" where
  "valid_order_create body = (oc_items body \<noteq> [] \<and> list_all valid_item_create (oc_items body) \<and>
     oc_source body \<in> set manual_order_sources)"

definition item_input :: "order_item_create \<Rightarrow> uuid \<Rightarrow> pos_item_input" where
  "item_input i menu_item_id = \<lparr>pi_menu_item_id = menu_item_id, pi_quantity = ic_qty i,
     pi_selected_option_ids = ic_selected_option_ids i, pi_add_on_selections = ic_add_on_selections i,
     pi_removed_ingredient_ids = ic_removed_ingredient_ids i, pi_special_instructions = ic_special_instructions i\<rparr>"

definition catalog_entries :: "order_item_create list \<Rightarrow> pos_item_input list" where
  "catalog_entries items = List.map_filter (\<lambda>i. map_option (item_input i) (ic_menu_item_id i)) items"

text \<open>\<open>a or b\<close> on texts that may be missing.\<close>

definition str_or :: "string option \<Rightarrow> string option \<Rightarrow> string option" where
  "str_or a b = (if truthy a then a else b)"

definition ad_hoc_item :: "uuid \<Rightarrow> uuid \<Rightarrow> string option \<Rightarrow> order_item_create \<Rightarrow> order_item" where
  "ad_hoc_item oid business notes i =
     (let price = dict_get 0 (ic_price_cents i)
      in \<lparr>oi_order_id = oid, oi_business_id = business, oi_menu_item_id = None,
          oi_name_snapshot = dict_get [] (ic_name i), oi_base_price_cents = price, oi_option_adjustment_cents = 0,
          oi_add_on_total_cents = 0, oi_unit_price_cents = price, oi_quantity = ic_qty i,
          oi_line_total_cents = ic_qty i * price, oi_options_snapshot = None,
          oi_selected_options_snapshot = None, oi_add_ons_snapshot = None,
          oi_removed_ingredients_snapshot = None, oi_special_instructions = str_or (ic_special_instructions i) notes,
          oi_is_ad_hoc_price = True\<rparr>)"

text \<open>The rows in the submitted order: the resolved lines are consumed by the catalogue lines.\<close>

fun item_rows ::
  "uuid \<Rightarrow> uuid \<Rightarrow> string option \<Rightarrow> order_item_create list \<Rightarrow> resolved_pos_item list \<Rightarrow> order_item list" where
  "item_rows oid business notes [] rs = []"
| "item_rows oid business notes (i # is) rs =
     (case (ic_menu_item_id i, rs) of
        (Some _, r # rs') \<Rightarrow>
          catalog_order_item oid business (str_or (rp_special_instructions r) notes) r # item_rows oid business notes is rs'
      | _ \<Rightarrow> ad_hoc_item oid business notes i # item_rows oid business notes is rs)"

definition total_with_vat :: "business \<Rightarrow> int \<Rightarrow> (int \<times> int) result" where
  "total_with_vat b net_total_cents =
     (if bu_vat_registered b
      then apply_vat_to_total net_total_cents (bu_vat_rate_basis_points b) (bu_vat_inclusive_pricing b)
      else Inr (net_total_cents, 0))"

text \<open>The row of the order and its first event.\<close>

definition manual_order :: "business \<Rightarrow> auth_user \<Rightarrow> order_create \<Rightarrow> uuid \<Rightarrow> instant \<Rightarrow> int \<Rightarrow> int \<Rightarrow> int \<Rightarrow> int \<Rightarrow> order" where
  "manual_order b user body new_id now subtotal_cents delivery_fee total_cents tax_cents =
     (new_order new_id (au_business_id user) (format_order_number (bu_order_number_sequence b)))
       \<lparr>or_order_mode := oc_order_mode body, or_source := oc_source body,
        or_subtotal_cents := subtotal_cents, or_delivery_fee_cents := delivery_fee,
        or_tax_cents := tax_cents, or_total_cents := total_cents, or_currency := bu_currency b,
        or_customer_name := oc_customer_name body, or_phone_number := oc_customer_phone body,
        or_delivery_address := oc_delivery_address body, or_confirmed_at := Some now\<rparr>"

definition created_event :: "auth_user \<Rightarrow> order \<Rightarrow> order_event" where
  "created_event user o1 = \<lparr>oe_order_id = or_id o1, oe_business_id = au_business_id user, oe_old_status = None,
     oe_new_status = or_status o1, oe_changed_by_user_id = Some (au_user_id user)\<rparr>"

definition order_delivery_fee :: "business \<Rightarrow> order_mode \<Rightarrow> int" where
  "order_delivery_fee b mode = (if mode = DELIVERY then bu_delivery_fee_cents b else 0)"

definition create_order :: "shop_db \<Rightarrow> auth_user \<Rightarrow> order_create \<Rightarrow> uuid \<Rightarrow> instant \<Rightarrow> (shop_db \<times> order) result" where
  "create_order db user body new_id now =
     (let business = au_business_id user; entries = catalog_entries (oc_items body)
      in and_then (if entries = [] then Inr [] else resolve_pos_items (sh_catalog db) business entries) (\<lambda>resolved.
         and_then (next_order_number db business) (\<lambda>(db, b).
         let rows = item_rows new_id business (oc_notes body) (oc_items body) resolved;
             subtotal_cents = sum_list (map oi_line_total_cents rows);
             delivery_fee = order_delivery_fee b (oc_order_mode body)
         in and_then (total_with_vat b (max 0 (subtotal_cents + delivery_fee))) (\<lambda>(total_cents, tax_cents).
           let order = manual_order b user body new_id now subtotal_cents delivery_fee total_cents tax_cents;
               db = add_event (created_event user order) (add_order order (db\<lparr>sh_items := sh_items db @ rows\<rparr>))
           in and_then (commit_shop db) (\<lambda>db. Inr (db, order))))))"

subsection \<open>Changing the status\<close>

definition minute :: int where "minute = 60000000"

text \<open>The milestones that depend on the requested status alone.\<close>

definition stamp_milestone :: "order_status \<Rightarrow> int option \<Rightarrow> string option \<Rightarrow> uuid \<Rightarrow> instant \<Rightarrow> order \<Rightarrow> order" where
  "stamp_milestone requested estimated_ready_minutes reason user_id now o1 =
     (if requested = ACCEPTED then
        (let o2 = o1\<lparr>or_accepted_at := Some now\<rparr>
         in case estimated_ready_minutes of None \<Rightarrow> o2
            | Some m \<Rightarrow> o2\<lparr>or_estimated_ready_at := Some (now + m * minute)\<rparr>)
      else if requested = READY then o1\<lparr>or_ready_at := Some now\<rparr>
      else if requested \<in> {COLLECTED, DELIVERED} then o1\<lparr>or_completed_at := Some now\<rparr>
      else if requested = CANCELLED
      then o1\<lparr>or_cancelled_reason := reason, or_cancelled_by_user_id := Some user_id\<rparr>
      else o1)"

text \<open>The stock side of a cancellation; the audit event of stock that stays consumed is recorded.\<close>

definition cancel_stock :: "shop_db \<Rightarrow> auth_user \<Rightarrow> order \<Rightarrow> instant \<Rightarrow> shop_db result" where
  "cancel_stock db user o1 now =
     (let business = au_business_id user
      in and_then (scalar_one_or_none (map bu_inventory_enabled (filter (\<lambda>b. bu_id b = business) (sh_businesses db)))) (\<lambda>row.
         and_then (reverse_consumption_on_cancel (sh_stock db) business (dict_get False row) (or_id o1) (or_status o1)
                     (Some (au_user_id user)) now) (\<lambda>(stock, actions).
           Inr (fold (\<lambda>a. add_audit business (Some (au_user_id user)) a (or_id o1)) actions (db\<lparr>sh_stock := stock\<rparr>)))))"

definition update_order_status ::
  "shop_db \<Rightarrow> auth_user \<Rightarrow> uuid \<Rightarrow> string \<Rightarrow> string option \<Rightarrow> int option \<Rightarrow> instant \<Rightarrow> (shop_db \<times> order) result" where
  "update_order_status db user oid status reason estimated_ready_minutes now =
     (let business = au_business_id user
      in and_then (order_of db business oid) (\<lambda>o1.
         and_then (order_status_of status) (\<lambda>requested.
         and_then (raise_if (requested \<notin> set (order_status_transitions (or_status o1))) invalid_transition_error) (\<lambda>_.
         and_then (raise_if (requested = IN_PROGRESS \<and> or_payment_required o1 \<and> or_payment_status o1 \<noteq> PS_PAID)
                     invalid_transition_error) (\<lambda>_.
         let o2 = stamp_milestone requested estimated_ready_minutes reason (au_user_id user) now (o1\<lparr>or_status := requested\<rparr>);
             o3 = (if requested = ACCEPTED \<and> or_payment_required o1 then o2\<lparr>or_payment_status := PS_PENDING\<rparr> else o2);
             event = \<lparr>oe_order_id = oid, oe_business_id = business, oe_old_status = Some (or_status o1),
                oe_new_status = requested, oe_changed_by_user_id = Some (au_user_id user)\<rparr>
         in and_then (if requested = CANCELLED then cancel_stock db user o1 now else Inr db) (\<lambda>db.
            and_then (commit_shop (add_event event (write_order o3 db))) (\<lambda>db. Inr (db, o3))))))))"

text \<open>After the acceptance of an order that must be paid online, the link the provider made, if any.\<close>

definition store_payment_link ::
  "(order \<Rightarrow> business \<Rightarrow> string option) \<Rightarrow> shop_db \<Rightarrow> order \<Rightarrow> shop_db" where
  "store_payment_link create_payment_link db o1 =
     (if or_status o1 = ACCEPTED \<and> or_payment_required o1 then
        (case business_of db (or_business_id o1) of Inl _ \<Rightarrow> db
         | Inr b \<Rightarrow> if truthy (bu_payment_provider b) then
             (case create_payment_link o1 b of None \<Rightarrow> db
              | Some link \<Rightarrow> if link = [] then db else write_order (o1\<lparr>or_payment_link_url := Some link\<rparr>) db)
             else db)
      else db)"

text \<open>The handler: the status change, then the link.\<close>

definition change_order_status ::
  "(order \<Rightarrow> business \<Rightarrow> string option) \<Rightarrow> shop_db \<Rightarrow> auth_user \<Rightarrow> uuid \<Rightarrow> string \<Rightarrow> string option \<Rightarrow> int option \<Rightarrow>
   instant \<Rightarrow> shop_db result" where
  "change_order_status create_payment_link db user oid status reason minutes now =
     and_then (update_order_status db user oid status reason minutes now) (\<lambda>(db, o1).
       Inr (store_payment_link create_payment_link db o1))"

subsection \<open>The delivery fee\<close>

definition set_delivery_fee :: "shop_db \<Rightarrow> auth_user \<Rightarrow> uuid \<Rightarrow> int \<Rightarrow> (shop_db \<times> order) result" where
  "set_delivery_fee db user oid fee =
     (let business = au_business_id user
      in and_then (order_of db business oid) (\<lambda>o1.
         and_then (raise_if (or_status o1 \<noteq> PENDING_DELIVERY_FEE) invalid_transition_error) (\<lambda>_.
         and_then (business_of db business) (\<lambda>b.
         let net_total_cents = max 0 (or_subtotal_cents o1 - or_discount_cents o1 - or_loyalty_discount_cents o1 + fee)
         in and_then (total_with_vat b net_total_cents) (\<lambda>(total_cents, tax_cents).
           let o2 = o1\<lparr>or_delivery_fee_cents := fee, or_total_cents := total_cents, or_tax_cents := tax_cents,
                       or_status := FEE_SENT\<rparr>;
               event = \<lparr>oe_order_id = oid, oe_business_id = business, oe_old_status = Some PENDING_DELIVERY_FEE,
                  oe_new_status = FEE_SENT, oe_changed_by_user_id = Some (au_user_id user)\<rparr>
           in and_then (commit_shop (add_event event (write_order o2 db))) (\<lambda>db. Inr (db, o2)))))))"

subsection \<open>Recording a payment\<close>

definition note_event :: "auth_user \<Rightarrow> order \<Rightarrow> order_event" where
  "note_event user o1 = \<lparr>oe_order_id = or_id o1, oe_business_id = au_business_id user,
     oe_old_status = Some (or_status o1), oe_new_status = or_status o1, oe_changed_by_user_id = Some (au_user_id user)\<rparr>"

definition record_payment ::
  "payment_status \<Rightarrow> string option \<Rightarrow> string option \<Rightarrow> instant \<Rightarrow> order \<Rightarrow> order" where
  "record_payment new_status payment_method payment_reference now o1 =
     o1\<lparr>or_payment_status := new_status,
        or_payment_method := (if payment_method = None then or_payment_method o1 else payment_method),
        or_payment_reference := (if payment_reference = None then or_payment_reference o1 else payment_reference),
        or_paid_at := (if new_status = PS_PAID \<and> or_paid_at o1 = None then Some now else or_paid_at o1)\<rparr>"

definition update_payment_status ::
  "shop_db \<Rightarrow> auth_user \<Rightarrow> uuid \<Rightarrow> payment_status \<Rightarrow> string option \<Rightarrow> string option \<Rightarrow> instant \<Rightarrow>
   (shop_db \<times> order) result" where
  "update_payment_status db user oid new_status payment_method payment_reference now =
     (let business = au_business_id user
      in and_then (order_of db business oid) (\<lambda>o1.
         and_then (raise_if (new_status \<in> {PS_REFUNDED, PS_PARTIALLY_REFUNDED, PS_VOIDED})
                     (AppError ''USE_REFUND_ENDPOINT'' 422)) (\<lambda>_.
         and_then (raise_if (or_payment_status o1 = PS_PAID \<and> new_status \<noteq> PS_PAID \<and> au_role user \<notin> {OWNER, MANAGER})
                     (AppError ''OWNER_OR_MANAGER_REQUIRED'' 403)) (\<lambda>_.
         let was_unpaid = or_payment_status o1 \<in> {PS_UNPAID, PS_PENDING};
             o2 = record_payment new_status payment_method payment_reference now o1;
             db = write_order o2 db;
             db = (if payment_method = Some ''MANUAL'' then add_event (note_event user o1) db else db);
             db = (if or_payment_status o1 = PS_PAID \<and> new_status \<noteq> PS_PAID
                   then add_audit business (Some (au_user_id user)) ''order.payment.reverted_from_paid'' oid db else db)
         in and_then (commit_shop db) (\<lambda>db.
            Inr (if new_status = PS_PAID \<and> was_unpaid
                 then db\<lparr>sh_loyalty := award_loyalty_points_if_enabled (sh_loyalty db) business o2 now\<rparr>
                 else db, o2))))))"

subsection \<open>Refunding through the provider\<close>

definition payment_providers :: "string list" where
  "payment_providers = [''DIRECT_EFT'', ''MOCK'', ''YOCO'', ''PAYFAST'', ''STITCH'', ''IKHOKA'']"

definition get_provider :: "string option \<Rightarrow> string option" where
  "get_provider name = (if truthy name then find (\<lambda>p. p = upper (the name)) payment_providers else None)"

record refund_result =
  rr_success :: bool
  rr_status :: string
  rr_provider_reference :: "string option"

record refund_request =
  rq_amount_cents :: "int option"
  rq_confirm_manual :: bool
  rq_reference :: "string option"

definition valid_refund_request :: "refund_request \<Rightarrow> bool" where
  "valid_refund_request body = ((case rq_amount_cents body of None \<Rightarrow> True | Some a \<Rightarrow> 1 \<le> a) \<and>
     (rq_confirm_manual body \<longrightarrow> truthy (rq_reference body)))"

text \<open>\<open>body.amount_cents or order.total_cents\<close>.\<close>

definition refund_amount :: "int option \<Rightarrow> int \<Rightarrow> int" where
  "refund_amount amount total_cents = (case amount of None \<Rightarrow> total_cents | Some a \<Rightarrow> if a = 0 then total_cents else a)"

definition confirm_manual_refund ::
  "shop_db \<Rightarrow> auth_user \<Rightarrow> order \<Rightarrow> refund_request \<Rightarrow> instant \<Rightarrow> (shop_db \<times> order) result" where
  "confirm_manual_refund db user o1 body now =
     and_then (raise_if (or_payment_status o1 \<in> {PS_REFUNDED, PS_PARTIALLY_REFUNDED})
                 (AppError ''REFUND_ALREADY_RECORDED'' 409)) (\<lambda>_.
     and_then (raise_if (or_payment_status o1 \<noteq> PS_PAID) (AppError ''ORDER_NOT_PAID'' 422)) (\<lambda>_.
     let amount_cents = refund_amount (rq_amount_cents body) (or_total_cents o1)
     in and_then (raise_if (amount_cents > or_total_cents o1) (AppError ''REFUND_EXCEEDS_TOTAL'' 422)) (\<lambda>_.
        let o2 = o1\<lparr>or_payment_status := (if amount_cents = or_total_cents o1 then PS_REFUNDED else PS_PARTIALLY_REFUNDED),
                    or_refund_amount_cents := Some amount_cents, or_refund_reference := rq_reference body,
                    or_refunded_at := Some now\<rparr>;
            db = add_audit (au_business_id user) (Some (au_user_id user)) ''order.payment.manual_refund_confirmed'' (or_id o1)
                   (add_event (note_event user o1) (write_order o2 db))
        in and_then (commit_shop db) (\<lambda>db. Inr (db, o2)))))"

text \<open>
  The provider's answer is a parameter: it is asked for one amount, and only a completed
  refund changes the order.
\<close>

definition refund_order_payment ::
  "(string \<Rightarrow> order \<Rightarrow> business \<Rightarrow> int \<Rightarrow> refund_result) \<Rightarrow> shop_db \<Rightarrow> auth_user \<Rightarrow> uuid \<Rightarrow> refund_request \<Rightarrow> instant \<Rightarrow>
   (shop_db \<times> order) result" where
  "refund_order_payment refund_payment db user oid body now =
     (let business = au_business_id user
      in and_then (order_of db business oid) (\<lambda>o1.
         if rq_confirm_manual body then confirm_manual_refund db user o1 body now
         else and_then (raise_if (or_payment_status o1 \<noteq> PS_PAID) (AppError ''ORDER_NOT_PAID'' 422)) (\<lambda>_.
           let amount_cents = refund_amount (rq_amount_cents body) (or_total_cents o1)
           in and_then (raise_if (amount_cents > or_total_cents o1) (AppError ''REFUND_EXCEEDS_TOTAL'' 422)) (\<lambda>_.
              and_then (business_of db business) (\<lambda>b.
              and_then (or_raise (get_provider (bu_payment_provider b)) (AppError ''NO_PAYMENT_PROVIDER'' 422)) (\<lambda>provider.
              let res = refund_payment provider o1 b amount_cents;
                  o2 = (if rr_success res \<and> rr_status res = ''COMPLETED''
                        then o1\<lparr>or_payment_status := PS_REFUNDED, or_refund_reference := rr_provider_reference res,
                                or_refund_amount_cents := Some amount_cents, or_refunded_at := Some now\<rparr>
                        else o1);
                  db = add_audit business (Some (au_user_id user)) ''order.payment.refund_attempted'' oid (write_order o2 db)
              in and_then (commit_shop db) (\<lambda>db. Inr (db, o2))))))))"

end
