(* ===== verification/StockLaws.thy ===== *)
theory StockLaws imports StockLedger begin

text \<open>
  The laws of the stock ledger: idempotency keys never collide, a sale takes exactly the
  resolved consumption out of stock, the unique index refuses a second deduction, and a
  reversal puts back exactly what is still out, once.
\<close>

subsection \<open>Keys\<close>

datatype key_event =
    SaleKey uuid uuid | ReversalKey uuid uuid | StocktakeKey uuid uuid | WastageKey uuid uuid
  | WastageReversalKey uuid uuid | OpeningKey uuid

fun stock_key :: "key_event \<Rightarrow> string" where
  "stock_key (SaleKey x i) = sale_idempotency_key x i"
| "stock_key (ReversalKey x i) = reversal_idempotency_key x i"
| "stock_key (StocktakeKey x i) = stocktake_adjustment_idempotency_key x i"
| "stock_key (WastageKey x i) = wastage_idempotency_key x i"
| "stock_key (WastageReversalKey x i) = wastage_reversal_idempotency_key x i"
| "stock_key (OpeningKey i) = opening_balance_idempotency_key i"

lemmas idempotency_key_defs = sale_idempotency_key_def reversal_idempotency_key_def
  stocktake_adjustment_idempotency_key_def wastage_idempotency_key_def
  wastage_reversal_idempotency_key_def opening_balance_idempotency_key_def

lemma stock_key_inj: "stock_key e = stock_key e' \<Longrightarrow> e = e'"
  by (cases e; cases e') (simp_all add: idempotency_key_defs key_simps)

lemma sale_key_eq [key_simps]: "sale_idempotency_key x i = sale_idempotency_key y j \<longleftrightarrow> x = y \<and> i = j"
  using stock_key_inj [of "SaleKey x i" "SaleKey y j"] by auto

lemma reversal_key_eq [key_simps]: "reversal_idempotency_key x i = reversal_idempotency_key y j \<longleftrightarrow> x = y \<and> i = j"
  using stock_key_inj [of "ReversalKey x i" "ReversalKey y j"] by auto

lemma sale_reversal_key_neq [key_simps]: "sale_idempotency_key x i \<noteq> reversal_idempotency_key y j"
  using stock_key_inj [of "SaleKey x i" "ReversalKey y j"] by auto

text \<open>
  Two ledger events share an idempotency key only if they are the same event: the
  same kind of movement, for the same order, session or entry and the same ingredient.
\<close>

theorem stock_keys_never_collide: "stock_key e = stock_key e' \<longleftrightarrow> e = e'"
  using stock_key_inj by blast

subsection \<open>Posting a sale\<close>

lemma build_movement_shape:
  "build_movement b i q t c st sid u k n occ now = Inr m \<Longrightarrow>
   sm_business_id m = b \<and> sm_ingredient_id m = i \<and> sm_quantity_milli m = q \<and> sm_movement_type m = t \<and>
   sm_source_type m = st \<and> sm_source_id m = sid \<and> sm_idempotency_key m = k"
  by (auto simp: build_movement_def and_then_eq_Inr)

definition sale_row :: "uuid \<Rightarrow> uuid \<Rightarrow> movement_type \<Rightarrow> uuid \<times> int \<Rightarrow> stock_movement \<Rightarrow> bool" where
  "sale_row b x t line m = (sm_business_id m = b \<and> sm_ingredient_id m = fst line \<and> sm_quantity_milli m = - \<bar>snd line\<bar> \<and>
     sm_movement_type m = t \<and> sm_source_type m = Some SRC_ORDER \<and> sm_source_id m = Some x \<and>
     sm_idempotency_key m = Some (sale_idempotency_key x (fst line)))"

lemma sale_movement_row: "sale_movement b x u occ t now costs line = Inr m \<Longrightarrow> sale_row b x t line m"
  by (cases line) (auto simp: sale_movement_def sale_row_def dest: build_movement_shape)

lemma post_sale_rows:
  assumes "post_sale_consumption db b x specs u occ t now = Inr (db', res)"
  obtains ms where "db' = add_movements ms db" and "list_all2 (sale_row b x t) (cr_lines res) ms"
    and "distinct (map fst (cr_lines res))"
proof -
  obtain ir ar where l: "load_recipe_specs (sd_recipes db) b (map li_menu_item_id specs)
      (concat (map (\<lambda>spec. map as_add_on_id (li_add_on_selections spec)) specs)) = (ir, ar)"
    by (cases "load_recipe_specs (sd_recipes db) b (map li_menu_item_id specs)
      (concat (map (\<lambda>spec. map as_add_on_id (li_add_on_selections spec)) specs))")
  let ?costs = "\<lambda>r. ingredient_costs (sd_ingredients db) b (map fst (cr_lines r))"
  from assms l have r: "resolve_order specs ir ar = Inr res"
    and m: "(cr_lines res = [] \<and> db' = db) \<or>
      (\<exists>ms. map_result (sale_movement b x u occ t now (?costs res)) (cr_lines res) = Inr ms \<and> db' = add_movements ms db)"
    by (auto simp: post_sale_consumption_def Let_def and_then_eq_Inr split: if_splits)
  have d: "distinct (map fst (cr_lines res))" using resolve_order_distinct [OF r] .
  from m show thesis
  proof (elim disjE conjE exE)
    assume "cr_lines res = []" "db' = db"
    then show thesis using that [of "[]"] by (simp add: add_movements_def)
  next
    fix ms assume ms: "map_result (sale_movement b x u occ t now (?costs res)) (cr_lines res) = Inr ms"
      "db' = add_movements ms db"
    then have "list_all2 (sale_row b x t) (cr_lines res) ms"
      by (auto simp: map_result_eq_Inr intro: list_all2_mono sale_movement_row)
    with ms(2) d show thesis using that by blast
  qed
qed

lemma sale_rows_position:
  assumes "list_all2 (sale_row b x t) lines ms" and "distinct (map fst lines)"
  shows "position ms (b', i) = (if b' = b then - \<bar>amount_of i lines\<bar> else 0)"
  using assms
proof (induction rule: list_all2_induct)
  case Nil
  then show ?case by (simp add: stock.balance_empty)
next
  case (Cons line lines m ms)
  obtain j n where l: "line = (j, n)" by (cases line)
  have z: "amount_of i lines = 0" if "i \<notin> set (map fst lines)"
    using that by (induction lines) auto
  have "position (m # ms) (b', i) = position ([m] @ ms) (b', i)" by simp
  also have "\<dots> = position [m] (b', i) + position ms (b', i)" by (rule stock.balance_append)
  also have "position [m] (b', i) = (if b = b' \<and> j = i then - \<bar>n\<bar> else 0)"
    using Cons.hyps(1) l by (auto simp: stock.balance_sum sale_row_def)
  finally show ?case using Cons z l by auto
qed

lemma add_movements_simps [simp]:
  "sd_movements (add_movements ms db) = sd_movements db @ ms"
  "sd_recipes (add_movements ms db) = sd_recipes db"
  "sd_ingredients (add_movements ms db) = sd_ingredients db"
  by (simp_all add: add_movements_def)

lemma post_sale_position:
  assumes "post_sale_consumption db b x specs u occ t now = Inr (db', res)"
  shows "position (sd_movements db') (b', i) =
     position (sd_movements db) (b', i) - (if b' = b then \<bar>amount_of i (cr_lines res)\<bar> else 0)"
proof -
  from assms obtain ms where "db' = add_movements ms db" "list_all2 (sale_row b x t) (cr_lines res) ms"
    "distinct (map fst (cr_lines res))" by (rule post_sale_rows)
  then show ?thesis using sale_rows_position [of b x t "cr_lines res" ms b' i]
    by (simp add: stock.balance_append)
qed

subsection \<open>The invariant of the ledger\<close>

text \<open>
  A row is in order when consumption of an order carries the sale key, a reversal carries the
  reversal key and mirrors a consumption in the ledger, and a reversal key is found
  on the reversal it names and nowhere else.
\<close>

definition row_ok :: "stock_movement set \<Rightarrow> stock_movement \<Rightarrow> bool" where
  "row_ok S m =
     ((\<forall>b x. is_consumption b x m \<longrightarrow> sm_idempotency_key m = Some (sale_idempotency_key x (sm_ingredient_id m))) \<and>
      (\<forall>b x. is_reversal b x m \<longrightarrow>
        sm_idempotency_key m = Some (reversal_idempotency_key x (sm_ingredient_id m)) \<and>
        (\<exists>s \<in> S. is_consumption b x s \<and> sm_ingredient_id s = sm_ingredient_id m \<and>
           sm_quantity_milli m = - sm_quantity_milli s)) \<and>
      (\<forall>x i. sm_idempotency_key m = Some (reversal_idempotency_key x i) \<longrightarrow>
        is_reversal (sm_business_id m) x m \<and> sm_ingredient_id m = i))"

definition ledger_ok :: "stock_movement list \<Rightarrow> bool" where
  "ledger_ok ms = (stock_index ms \<and> (\<forall>m \<in> set ms. row_ok (set ms) m))"

lemma row_ok_mono: "row_ok S m \<Longrightarrow> S \<subseteq> T \<Longrightarrow> row_ok T m"
  unfolding row_ok_def by blast

lemma ledger_ok_append:
  assumes "ledger_ok ms" and "stock_index (ms @ new)" and "\<And>m. m \<in> set new \<Longrightarrow> row_ok (set ms) m"
  shows "ledger_ok (ms @ new)"
  using assms row_ok_mono [of "set ms" _ "set (ms @ new)"] by (auto simp: ledger_ok_def)

lemma ledger_ok_index: "ledger_ok ms \<Longrightarrow> unique_index movement_key ms"
  by (simp add: ledger_ok_def stock_index_def)

lemma movement_key_row:
  "sm_business_id m = b \<Longrightarrow> sm_idempotency_key m = Some k \<Longrightarrow> movement_key m = Some (b, k)"
  by (simp add: movement_key_def)

lemma ledger_ok_consumption_key:
  assumes "ledger_ok ms" "m \<in> set ms" "is_consumption b x m"
  shows "movement_key m = Some (b, sale_idempotency_key x (sm_ingredient_id m))"
proof (rule movement_key_row)
  show "sm_business_id m = b" using assms(3) by (simp add: is_consumption_def of_order_def)
  show "sm_idempotency_key m = Some (sale_idempotency_key x (sm_ingredient_id m))"
    using assms unfolding ledger_ok_def row_ok_def by blast
qed

lemma ledger_ok_reversal_key:
  assumes "ledger_ok ms" "m \<in> set ms" "is_reversal b x m"
  shows "movement_key m = Some (b, reversal_idempotency_key x (sm_ingredient_id m))"
proof (rule movement_key_row)
  show "sm_business_id m = b" using assms(3) by (simp add: is_reversal_def of_order_def)
  show "sm_idempotency_key m = Some (reversal_idempotency_key x (sm_ingredient_id m))"
    using assms unfolding ledger_ok_def row_ok_def by blast
qed

lemma ledger_ok_reversal_source:
  assumes "ledger_ok ms" "m \<in> set ms" "is_reversal b x m"
  obtains s where "s \<in> set ms" "is_consumption b x s" "sm_ingredient_id s = sm_ingredient_id m"
    "sm_quantity_milli m = - sm_quantity_milli s"
  using assms unfolding ledger_ok_def row_ok_def by blast

lemma ledger_ok_key_reversal:
  "ledger_ok ms \<Longrightarrow> m \<in> set ms \<Longrightarrow> movement_key m = Some (b, reversal_idempotency_key x i) \<Longrightarrow>
   is_reversal b x m \<and> sm_ingredient_id m = i"
  unfolding ledger_ok_def row_ok_def by (auto simp: movement_key_def)

lemma is_reversal_not_consumption: "is_reversal b x m \<Longrightarrow> \<not> is_consumption b' x' m"
  by (auto simp: is_reversal_def is_consumption_def)

lemma sale_row_ok: "sale_row b x t line m \<Longrightarrow> t \<noteq> SALE_REVERSAL \<Longrightarrow> row_ok S m"
proof -
  assume r: "sale_row b x t line m" and t: "t \<noteq> SALE_REVERSAL"
  then have k: "sm_idempotency_key m = Some (sale_idempotency_key x (sm_ingredient_id m))"
    by (simp add: sale_row_def)
  have n: "\<not> is_reversal b' y m" for b' y using r t by (simp add: sale_row_def is_reversal_def)
  have c: "is_consumption b' y m \<Longrightarrow> y = x" for b' y
    using r by (simp add: sale_row_def is_consumption_def of_order_def)
  have q: "sm_idempotency_key m \<noteq> Some (reversal_idempotency_key y j)" for y j
    by (simp add: k key_simps)
  show ?thesis unfolding row_ok_def using k n c q by blast
qed

lemma post_sale_ledger_ok:
  assumes "post_sale_consumption db b x specs u occ t now = Inr (db', res)" and "ledger_ok (sd_movements db)"
    and "t \<noteq> SALE_REVERSAL" and "stock_index (sd_movements db')"
  shows "ledger_ok (sd_movements db')"
proof -
  from assms(1) obtain ms where d: "db' = add_movements ms db" and l: "list_all2 (sale_row b x t) (cr_lines res) ms"
    by (rule post_sale_rows)
  have "row_ok S m" if m: "m \<in> set ms" for S m
  proof -
    obtain k where "k < length ms" "m = ms ! k" using m by (auto simp: in_set_conv_nth)
    with l have "sale_row b x t (cr_lines res ! k) m" by (simp add: list_all2_conv_all_nth)
    then show ?thesis using assms(3) by (rule sale_row_ok)
  qed
  then show ?thesis using assms(2,4) unfolding d by (auto intro: ledger_ok_append)
qed

text \<open>
  C14: A committed sale takes out of stock exactly what its line items consume, for every
  ingredient, and nothing of any other tenant; and the same order cannot be deducted a
  second time for any ingredient, because the unique index refuses the commit.
\<close>

theorem sale_deducts_once:
  assumes p: "post_sale_consumption db b x specs u occ SALE_CONSUMPTION now = Inr (db1, res)"
    and again: "post_sale_consumption db1 b x specs' u' occ' SALE_CONSUMPTION now' = Inr (db2, res')"
    and common: "i \<in> fst ` set (cr_lines res)" "i \<in> fst ` set (cr_lines res')"
  shows "position (sd_movements db1) (b, j) = position (sd_movements db) (b, j) - \<bar>amount_of j (cr_lines res)\<bar> \<and>
         (\<forall>b'. b' = b \<or> position (sd_movements db1) (b', j) = position (sd_movements db) (b', j)) \<and>
         \<not> stock_index (sd_movements db2)"
proof -
  have k: "\<exists>m \<in> set ms. movement_key m = Some (b, sale_idempotency_key x i)"
    if l: "list_all2 (sale_row b x SALE_CONSUMPTION) lines ms" and i: "i \<in> fst ` set lines" for lines ms
  proof -
    obtain k where k: "k < length lines" "fst (lines ! k) = i" using i by (auto simp: in_set_conv_nth)
    with l have "k < length ms" "sale_row b x SALE_CONSUMPTION (lines ! k) (ms ! k)"
      by (simp_all add: list_all2_conv_all_nth)
    with k show ?thesis by (intro bexI [of _ "ms ! k"] movement_key_row) (auto simp: sale_row_def)
  qed
  obtain ms where 1: "db1 = add_movements ms db" "list_all2 (sale_row b x SALE_CONSUMPTION) (cr_lines res) ms"
    using p by (rule post_sale_rows)
  obtain ms' where 2: "db2 = add_movements ms' db1" "list_all2 (sale_row b x SALE_CONSUMPTION) (cr_lines res') ms'"
    using again by (rule post_sale_rows)
  obtain m where m: "m \<in> set (sd_movements db1)" "movement_key m = Some (b, sale_idempotency_key x i)"
    using k [OF 1(2) common(1)] 1(1) by auto
  obtain m' where m': "m' \<in> set ms'" "movement_key m' = Some (b, sale_idempotency_key x i)"
    using k [OF 2(2) common(2)] by auto
  have "\<not> stock_index (sd_movements db2)"
    using m m' by (force simp: 2(1) stock_index_def unique_index_append)
  then show ?thesis using post_sale_position [OF p] by auto
qed

definition sample_stock_db :: stock_db where
  "sample_stock_db = \<lparr>sd_recipes = [\<lparr>rc_id = 3, rc_business_id = 10, rc_menu_item_id = Some 1, rc_menu_add_on_id = None, rc_version = 1,
       rc_is_active = True, rc_yield_qty = 1, rc_notes = None, rc_items = [\<lparr>rt_ingredient_id = 7, rt_quantity_milli = 150000,
         rt_option_group_id = None, rt_option_id = None, rt_removable_ref_id = None, rt_sort_order = 0\<rparr>]\<rparr>],
     sd_ingredients = [], sd_movements = []\<rparr>"

definition sample_specs :: "line_item_spec list" where
  "sample_specs = [\<lparr>li_menu_item_id = 1, li_quantity = 2, li_selected_option_ids = [],
     li_add_on_selections = [], li_removed_ref_ids = []\<rparr>]"

lemma sample_sale:
  "\<exists>db1 res. post_sale_consumption (sample_stock_db\<lparr>sd_movements := ms\<rparr>) 10 99 sample_specs None None SALE_CONSUMPTION now = Inr (db1, res) \<and>
     cr_lines res = [(7, 300000)] \<and> (\<exists>m. db1 = sample_stock_db\<lparr>sd_movements := ms @ [m]\<rparr> \<and>
       sm_unit_cost_micro_cents m = 0 \<and> sm_quantity_milli m = - 300000)"
proof -
  have r: "resolve_order sample_specs [1 \<mapsto> \<lparr>rs_lines = [\<lparr>rl_ingredient_id = 7, rl_quantity_milli = 150000,
        rl_option_id = None, rl_removable_ref_id = None\<rparr>], rs_yield_qty = 1\<rparr>] Map.empty
      = Inr \<lparr>cr_lines = [(7, 300000)], cr_menu_items_without_recipe = []\<rparr>"
    by (simp add: resolve_order_def sample_specs_def resolve_line_item_def line_applies_def truthy_def scale_exact
        half_up_signed_one bump_def merge_consumption_def)
  have v: "value_cents (- 300000) 0 = Inr 0"
    using dec_mul_div_int_exact [of "- 300000" 0 "10 ^ 9"]
    by (simp add: value_cents_def milli_def half_up_signed_def half_up_def)
  have l: "load_recipe_specs (sd_recipes sample_stock_db) 10 [1] [] =
      ([1 \<mapsto> \<lparr>rs_lines = [\<lparr>rl_ingredient_id = 7, rl_quantity_milli = 150000,
        rl_option_id = None, rl_removable_ref_id = None\<rparr>], rs_yield_qty = 1\<rparr>], Map.empty)"
    by (simp add: load_recipe_specs_def sample_stock_db_def recipe_matches_def recipe_spec_of_def)
  show ?thesis
    using r l by (simp add: post_sale_consumption_def sample_specs_def sale_movement_def build_movement_def v
        dict_get_def ingredient_costs_def add_movements_def) (simp add: sample_stock_db_def v)
qed

theorem sale_deducts_once_witness:
  "\<exists>db1 res db2 res'. post_sale_consumption sample_stock_db 10 99 sample_specs None None SALE_CONSUMPTION 0 = Inr (db1, res) \<and>
     post_sale_consumption db1 10 99 sample_specs None None SALE_CONSUMPTION 1 = Inr (db2, res') \<and>
     position (sd_movements db1) (10, 7) = - 300000 \<and> \<not> stock_index (sd_movements db2)"
proof -
  have s: "sample_stock_db\<lparr>sd_movements := []\<rparr> = sample_stock_db" by (simp add: sample_stock_db_def)
  obtain db1 res m where 1: "post_sale_consumption sample_stock_db 10 99 sample_specs None None SALE_CONSUMPTION 0 = Inr (db1, res)"
    "cr_lines res = [(7, 300000)]" "db1 = sample_stock_db\<lparr>sd_movements := [m]\<rparr>"
    using sample_sale [of "[]" 0] s by auto
  obtain db2 res' where 2: "post_sale_consumption db1 10 99 sample_specs None None SALE_CONSUMPTION 1 = Inr (db2, res')"
    "cr_lines res' = [(7, 300000)]" using sample_sale [of "[m]" 1] 1(3) by auto
  have "position (sd_movements sample_stock_db) (10, 7) = 0" by (simp add: stock.balance_sum sample_stock_db_def)
  with sale_deducts_once [OF 1(1) 2(1), of 7 7] 1(2) 2(2)
  have "position (sd_movements db1) (10, 7) = - 300000 \<and> \<not> stock_index (sd_movements db2)" by simp
  with 1(1) 2(1) show ?thesis by blast
qed

subsection \<open>Reversing a sale\<close>

lemma mirror_rows:
  "mirror_originals b x u n now al ms = Inr rs \<Longrightarrow>
   (\<forall>r \<in> set rs. is_reversal b x r \<and> sm_idempotency_key r = Some (reversal_idempotency_key x (sm_ingredient_id r)) \<and>
      sm_ingredient_id r \<notin> al \<and> (\<exists>m \<in> set ms. sm_ingredient_id m = sm_ingredient_id r \<and>
        sm_quantity_milli r = - sm_quantity_milli m)) \<and>
   distinct (map sm_ingredient_id rs) \<and> sm_ingredient_id ` set rs = sm_ingredient_id ` set ms - al"
proof (induction ms arbitrary: al rs)
  case Nil
  then show ?case by simp
next
  case (Cons m ms)
  show ?case
  proof (cases "sm_ingredient_id m \<in> al")
    case True
    with Cons.prems have "mirror_originals b x u n now al ms = Inr rs" by simp
    from Cons.IH [OF this] True show ?thesis by auto
  next
    case False
    with Cons.prems obtain r rs' where
      r: "build_movement b (sm_ingredient_id m) (- sm_quantity_milli m) SALE_REVERSAL
                      (sm_unit_cost_micro_cents m) (Some SRC_ORDER) (Some x) u
                      (Some (reversal_idempotency_key x (sm_ingredient_id m))) n None now = Inr r"
      and rs': "mirror_originals b x u n now (insert (sm_ingredient_id m) al) ms = Inr rs'" and rs: "rs = r # rs'"
      by (auto simp: and_then_eq_Inr)
    have row: "is_reversal b x r" "sm_ingredient_id r = sm_ingredient_id m" "sm_quantity_milli r = - sm_quantity_milli m"
      "sm_idempotency_key r = Some (reversal_idempotency_key x (sm_ingredient_id m))"
      using build_movement_shape [OF r] by (auto simp: is_reversal_def of_order_def)
    show ?thesis using Cons.IH [OF rs'] row False unfolding rs by auto
  qed
qed

text \<open>What the movements of an order add up to for one ingredient.\<close>

definition order_net :: "stock_movement list \<Rightarrow> uuid \<Rightarrow> uuid \<Rightarrow> uuid \<Rightarrow> int" where
  "order_net ms b x i = sum_list (map sm_quantity_milli
     (filter (\<lambda>m. (is_consumption b x m \<or> is_reversal b x m) \<and> sm_ingredient_id m = i) ms))"

lemma order_net_split:
  "order_net ms b x i =
     sum_list (map sm_quantity_milli (filter (\<lambda>m. is_consumption b x m \<and> sm_ingredient_id m = i) ms)) +
     sum_list (map sm_quantity_milli (filter (\<lambda>m. is_reversal b x m \<and> sm_ingredient_id m = i) ms))"
  unfolding order_net_def by (induction ms) (auto dest: is_reversal_not_consumption)

lemma ledger_ok_single:
  assumes ok: "ledger_ok ms"
  shows "filter (\<lambda>m. is_consumption b x m \<and> sm_ingredient_id m = i) ms = [] \<or>
           (\<exists>s. filter (\<lambda>m. is_consumption b x m \<and> sm_ingredient_id m = i) ms = [s])"
    and "filter (\<lambda>m. is_reversal b x m \<and> sm_ingredient_id m = i) ms = [] \<or>
           (\<exists>s. filter (\<lambda>m. is_reversal b x m \<and> sm_ingredient_id m = i) ms = [s])"
proof -
  have one: "filter P ms = [] \<or> (\<exists>s. filter P ms = [s])"
    if k: "\<And>m. m \<in> set ms \<Longrightarrow> P m \<Longrightarrow> movement_key m = Some k" for P k
  proof -
    have f: "filter P ms = filter (\<lambda>m. P m \<and> movement_key m = Some k) ms"
      using k by (intro filter_cong) auto
    show ?thesis unfolding f by (rule unique_index_filter_le_1 [OF ledger_ok_index [OF ok]]) simp
  qed
  show "filter (\<lambda>m. is_consumption b x m \<and> sm_ingredient_id m = i) ms = [] \<or>
           (\<exists>s. filter (\<lambda>m. is_consumption b x m \<and> sm_ingredient_id m = i) ms = [s])"
    by (rule one [where k = "(b, sale_idempotency_key x i)"]) (use ledger_ok_consumption_key [OF ok] in blast)
  show "filter (\<lambda>m. is_reversal b x m \<and> sm_ingredient_id m = i) ms = [] \<or>
           (\<exists>s. filter (\<lambda>m. is_reversal b x m \<and> sm_ingredient_id m = i) ms = [s])"
    by (rule one [where k = "(b, reversal_idempotency_key x i)"]) (use ledger_ok_reversal_key [OF ok] in blast)
qed

text \<open>When every consumed ingredient has been put back, the order nets to zero.\<close>

lemma order_net_zero:
  assumes ok: "ledger_ok ms"
    and returned: "sm_ingredient_id ` {m \<in> set ms. is_consumption b x m} \<subseteq> sm_ingredient_id ` {m \<in> set ms. is_reversal b x m}"
  shows "order_net ms b x i = 0"
proof -
  let ?C = "filter (\<lambda>m. is_consumption b x m \<and> sm_ingredient_id m = i) ms"
  let ?R = "filter (\<lambda>m. is_reversal b x m \<and> sm_ingredient_id m = i) ms"
  show ?thesis
  proof (cases "?R = []")
    case True
    then have "i \<notin> sm_ingredient_id ` {m \<in> set ms. is_reversal b x m}" by (auto simp: filter_empty_conv)
    then have "i \<notin> sm_ingredient_id ` {m \<in> set ms. is_consumption b x m}" using returned by blast
    then have "?C = []" by (auto simp: filter_empty_conv)
    with True show ?thesis by (simp add: order_net_split)
  next
    case False
    then obtain r where r: "?R = [r]" using ledger_ok_single(2) [OF ok] by blast
    then have "r \<in> set ?R" by simp
    then have rm: "r \<in> set ms" "is_reversal b x r" "sm_ingredient_id r = i" by auto
    obtain s where s: "s \<in> set ms" "is_consumption b x s" "sm_ingredient_id s = i"
      "sm_quantity_milli r = - sm_quantity_milli s"
      using ledger_ok_reversal_source [OF ok rm(1,2)] rm(3) by metis
    then have sC: "s \<in> set ?C" by simp
    then have "?C \<noteq> []" by (metis empty_iff list.set(1))
    then obtain s' where "?C = [s']" using ledger_ok_single(1) [OF ok, of b x i] by blast
    with sC have "?C = [s]" by simp
    with r s(4) show ?thesis by (simp add: order_net_split)
  qed
qed

lemma reverse_rows:
  assumes "reverse_sale_consumption db b x u n now = Inr (db', k)"
  obtains rs where "db' = add_movements rs db" "k = length rs"
    "\<forall>r \<in> set rs. is_reversal b x r \<and> sm_idempotency_key r = Some (reversal_idempotency_key x (sm_ingredient_id r)) \<and>
       sm_ingredient_id r \<notin> sm_ingredient_id ` {m \<in> set (sd_movements db). is_reversal b x m} \<and>
       (\<exists>m \<in> set (sd_movements db). is_consumption b x m \<and> sm_ingredient_id m = sm_ingredient_id r \<and>
          sm_quantity_milli r = - sm_quantity_milli m)"
    "distinct (map sm_ingredient_id rs)"
    "sm_ingredient_id ` set rs = sm_ingredient_id ` {m \<in> set (sd_movements db). is_consumption b x m}
       - sm_ingredient_id ` {m \<in> set (sd_movements db). is_reversal b x m}"
proof (cases "filter (is_consumption b x) (sd_movements db) = []")
  case True
  with assms have "db' = db" "k = 0" by (simp_all add: reverse_sale_consumption_def)
  moreover have "{m \<in> set (sd_movements db). is_consumption b x m} = {}" using True by (auto simp: filter_empty_conv)
  ultimately show thesis by (intro that [of "[]"]) (auto simp: add_movements_def)
next
  case False
  with assms obtain rs where rs: "mirror_originals b x u n now
      (sm_ingredient_id ` set (filter (is_reversal b x) (sd_movements db))) (filter (is_consumption b x) (sd_movements db)) = Inr rs"
    and d: "db' = add_movements rs db" "k = length rs"
    by (auto simp: reverse_sale_consumption_def Let_def and_then_eq_Inr)
  show thesis by (rule that [of rs]) (use mirror_rows [OF rs] d in auto)
qed

lemma reverse_ledger_ok:
  assumes r: "reverse_sale_consumption db b x u n now = Inr (db', k)" and ok: "ledger_ok (sd_movements db)"
  shows "ledger_ok (sd_movements db')"
    and "sm_ingredient_id ` {m \<in> set (sd_movements db'). is_consumption b x m}
           \<subseteq> sm_ingredient_id ` {m \<in> set (sd_movements db'). is_reversal b x m}"
proof -
  obtain rs where d: "db' = add_movements rs db" and "k = length rs"
    and rows: "\<forall>r \<in> set rs. is_reversal b x r \<and> sm_idempotency_key r = Some (reversal_idempotency_key x (sm_ingredient_id r)) \<and>
       sm_ingredient_id r \<notin> sm_ingredient_id ` {m \<in> set (sd_movements db). is_reversal b x m} \<and>
       (\<exists>m \<in> set (sd_movements db). is_consumption b x m \<and> sm_ingredient_id m = sm_ingredient_id r \<and>
          sm_quantity_milli r = - sm_quantity_milli m)"
    and dist: "distinct (map sm_ingredient_id rs)"
    and img: "sm_ingredient_id ` set rs = sm_ingredient_id ` {m \<in> set (sd_movements db). is_consumption b x m}
       - sm_ingredient_id ` {m \<in> set (sd_movements db). is_reversal b x m}"
    using r by (rule reverse_rows)
  have key: "movement_key r = Some (b, reversal_idempotency_key x (sm_ingredient_id r))" if "r \<in> set rs" for r
    using rows that by (intro movement_key_row) (auto simp: is_reversal_def of_order_def)
  have "unique_index movement_key rs"
  proof -
    have "map movement_key rs = map (\<lambda>r. Some (b, reversal_idempotency_key x (sm_ingredient_id r))) rs"
      using key by (intro map_cong) simp_all
    then have "List.map_filter movement_key rs = map (\<lambda>i. (b, reversal_idempotency_key x i)) (map sm_ingredient_id rs)"
      by (induction rs) simp_all
    moreover have "inj (\<lambda>i. (b, reversal_idempotency_key x i))" by (rule injI) (simp add: key_simps)
    ultimately show ?thesis using dist by (simp only: unique_index_def) (metis distinct_map inj_on_subset subset_UNIV)
  qed
  moreover have "movement_key m \<noteq> movement_key r" if mem: "m \<in> set (sd_movements db)" "r \<in> set rs" for m r
  proof
    assume "movement_key m = movement_key r"
    then have "is_reversal b x m \<and> sm_ingredient_id m = sm_ingredient_id r"
      using ledger_ok_key_reversal [OF ok mem(1)] key [OF mem(2)] by simp
    then have "sm_ingredient_id r \<in> sm_ingredient_id ` {m \<in> set (sd_movements db). is_reversal b x m}"
      using mem(1) by (intro image_eqI [of _ _ m]) auto
    then show False using rows mem(2) by blast
  qed
  ultimately have idx: "stock_index (sd_movements db @ rs)"
    using ledger_ok_index [OF ok] by (auto simp: stock_index_def unique_index_append)
  have nc: "\<not> is_consumption b' x' r" if "r \<in> set rs" for r b' x'
    using rows that is_reversal_not_consumption by blast
  have "row_ok (set (sd_movements db)) r" if mem: "r \<in> set rs" for r
  proof -
    have rr: "is_reversal b x r" "sm_idempotency_key r = Some (reversal_idempotency_key x (sm_ingredient_id r))"
      "\<exists>s \<in> set (sd_movements db). is_consumption b x s \<and> sm_ingredient_id s = sm_ingredient_id r \<and>
         sm_quantity_milli r = - sm_quantity_milli s"
      using rows mem by blast+
    have bx: "is_reversal b' x' r \<longleftrightarrow> b' = b \<and> x' = x" for b' x'
      using rr(1) by (auto simp: is_reversal_def of_order_def)
    have q: "x' = x \<and> sm_ingredient_id r = i" if "sm_idempotency_key r = Some (reversal_idempotency_key x' i)" for x' i
      using that rr(2) by (simp add: key_simps)
    have sb: "sm_business_id r = b" using rr(1) by (simp add: is_reversal_def of_order_def)
    show ?thesis unfolding row_ok_def bx sb using rr nc [OF mem] q by blast
  qed
  then show "ledger_ok (sd_movements db')" using ok idx unfolding d by (auto intro: ledger_ok_append)
  have "is_reversal b x r" if "r \<in> set rs" for r using rows that by blast
  then have "{m \<in> set (sd_movements db'). is_reversal b x m} = {m \<in> set (sd_movements db). is_reversal b x m} \<union> set rs"
    by (auto simp: d)
  moreover have "{m \<in> set (sd_movements db'). is_consumption b x m} = {m \<in> set (sd_movements db). is_consumption b x m}"
    using nc by (auto simp: d)
  ultimately show "sm_ingredient_id ` {m \<in> set (sd_movements db'). is_consumption b x m}
           \<subseteq> sm_ingredient_id ` {m \<in> set (sd_movements db'). is_reversal b x m}"
    using img by (auto simp: image_Un)
qed

text \<open>Nothing is written when everything has been put back already.\<close>

lemma mirror_nothing: "sm_ingredient_id ` set ms \<subseteq> al \<Longrightarrow> mirror_originals b x u n now al ms = Inr []"
  by (induction ms) auto

lemma reverse_nothing:
  assumes "sm_ingredient_id ` {m \<in> set (sd_movements db). is_consumption b x m}
             \<subseteq> sm_ingredient_id ` {m \<in> set (sd_movements db). is_reversal b x m}"
  shows "reverse_sale_consumption db b x u n now = Inr (db, 0)"
  using assms by (simp add: reverse_sale_consumption_def Let_def mirror_nothing add_movements_def)

lemma order_net_append: "order_net (ms @ ms') b x i = order_net ms b x i + order_net ms' b x i"
  by (simp add: order_net_def)

lemma reverse_position:
  assumes r: "reverse_sale_consumption db b x u n now = Inr (db', k)" and ok: "ledger_ok (sd_movements db)"
  shows "position (sd_movements db') (b', i) =
    position (sd_movements db) (b', i) - (if b' = b then order_net (sd_movements db) b x i else 0)"
proof -
  obtain rs where d: "db' = add_movements rs db" and rows: "\<forall>r \<in> set rs. is_reversal b x r"
    using r by (elim reverse_rows) blast
  have "position rs (b', i) = (if b' = b then order_net rs b x i else 0)"
  proof (cases "b' = b")
    case True
    have "filter (\<lambda>m. (sm_business_id m, sm_ingredient_id m) = (b, i)) rs =
          filter (\<lambda>m. (is_consumption b x m \<or> is_reversal b x m) \<and> sm_ingredient_id m = i) rs"
      using rows by (intro filter_cong) (auto simp: is_reversal_def of_order_def)
    with True show ?thesis by (simp add: stock.balance_sum order_net_def)
  next
    case False
    then have "filter (\<lambda>m. (sm_business_id m, sm_ingredient_id m) = (b', i)) rs = []"
      using rows by (auto simp: filter_empty_conv is_reversal_def of_order_def)
    with False show ?thesis by (simp only: stock.balance_sum) simp
  qed
  moreover have "order_net (sd_movements db) b x i + order_net rs b x i = 0"
    using order_net_zero [OF reverse_ledger_ok [OF r ok]] by (simp add: d order_net_append)
  ultimately show ?thesis by (simp add: d stock.balance_append)
qed

text \<open>
  C7: Reversing an order keeps the ledger consistent, so the commit can never violate the
  unique index; afterwards the movements of the order net to zero for every ingredient;
  stock on hand is what it was without the order; no other tenant is touched; and a
  second reversal writes nothing.
\<close>

theorem reversal_nets_to_zero_once:
  assumes r: "reverse_sale_consumption db b x u n now = Inr (db', k)" and ok: "ledger_ok (sd_movements db)"
  shows "ledger_ok (sd_movements db') \<and> order_net (sd_movements db') b x i = 0 \<and>
    position (sd_movements db') (b', i) =
      position (sd_movements db) (b', i) - (if b' = b then order_net (sd_movements db) b x i else 0) \<and>
    reverse_sale_consumption db' b x u' n' now' = Inr (db', 0)"
  using reverse_ledger_ok(1) [OF r ok] order_net_zero [OF reverse_ledger_ok [OF r ok]] reverse_position [OF r ok]
    reverse_nothing [OF reverse_ledger_ok(2) [OF r ok]] by simp

theorem reversal_nets_to_zero_once_witness:
  "\<exists>db1 res db2 k. post_sale_consumption sample_stock_db 10 99 sample_specs None None SALE_CONSUMPTION 0 = Inr (db1, res) \<and>
     reverse_sale_consumption db1 10 99 None None 5 = Inr (db2, k) \<and> order_net (sd_movements db2) 10 99 7 = 0"
proof -
  have s: "sample_stock_db\<lparr>sd_movements := []\<rparr> = sample_stock_db" by (simp add: sample_stock_db_def)
  obtain db1 res m where 1: "post_sale_consumption sample_stock_db 10 99 sample_specs None None SALE_CONSUMPTION 0 = Inr (db1, res)"
    "cr_lines res = [(7, 300000)]" and db1: "db1 = sample_stock_db\<lparr>sd_movements := [m]\<rparr>"
    and m0: "sm_unit_cost_micro_cents m = 0" "sm_quantity_milli m = - 300000"
    using sample_sale [of "[]" 0] s by auto
  have mv: "sd_movements db1 = [m]" by (simp add: db1)
  have row: "sale_row 10 99 SALE_CONSUMPTION (7, 300000) m"
  proof -
    obtain ms where "db1 = add_movements ms sample_stock_db" "list_all2 (sale_row 10 99 SALE_CONSUMPTION) (cr_lines res) ms"
      using 1(1) by (rule post_sale_rows)
    then show ?thesis using 1(2) mv by (auto simp: list_all2_Cons1 sample_stock_db_def)
  qed
  have ok: "ledger_ok (sd_movements db1)"
  proof (rule post_sale_ledger_ok [OF 1(1)])
    show "stock_index (sd_movements db1)"
      using unique_index_snoc [of movement_key "[]" m] by (simp add: mv stock_index_def)
  qed (simp_all add: ledger_ok_def stock_index_def sample_stock_db_def)
  have v: "value_cents 300000 0 = Inr 0"
    using dec_mul_div_int_exact [of 300000 0 "10 ^ 9"]
    by (simp add: value_cents_def milli_def half_up_signed_def half_up_def)
  have "is_consumption 10 99 m" "\<not> is_reversal 10 99 m"
    using row by (simp_all add: sale_row_def is_consumption_def is_reversal_def of_order_def)
  then obtain db2 k where 2: "reverse_sale_consumption db1 10 99 None None 5 = Inr (db2, k)"
    by (simp add: reverse_sale_consumption_def mv build_movement_def m0 v)
  show ?thesis using 1(1) 2 reversal_nets_to_zero_once [OF 2 ok] by blast
qed

subsection \<open>Cancellation\<close>

text \<open>
  Cancelling an order puts its stock back exactly when it had not reached the kitchen:
  from a pre-preparation status the order nets to zero afterwards, from any later status
  the ledger is untouched and the reason is recorded; without inventory nothing happens.
\<close>

theorem cancellation_respects_preparation:
  assumes c: "reverse_consumption_on_cancel db b enabled x previous u now = Inr (db', events)"
    and ok: "ledger_ok (sd_movements db)"
  shows "ledger_ok (sd_movements db') \<and>
    (if \<not> enabled then db' = db \<and> events = []
     else if may_follow\<^sup>+\<^sup>+ previous IN_PROGRESS then order_net (sd_movements db') b x i = 0 \<and> events = []
     else db' = db \<and> events = [''inventory.sale.stock_kept_consumed''])"
proof (cases "enabled \<and> previous \<in> pre_preparation_statuses")
  case True
  with c obtain k n where r: "reverse_sale_consumption db b x u n now = Inr (db', k)" and "events = []"
    by (auto simp: reverse_consumption_on_cancel_def and_then_eq_Inr)
  with True show ?thesis
    using reverse_ledger_ok(1) [OF r ok] order_net_zero [OF reverse_ledger_ok [OF r ok]] by (simp add: reaches_preparation)
next
  case False
  with c ok show ?thesis by (auto simp: reverse_consumption_on_cancel_def reaches_preparation split: if_splits)
qed

theorem cancellation_respects_preparation_witness:
  "reverse_consumption_on_cancel sample_stock_db 10 True 99 READY None 0 = Inr (sample_stock_db, [''inventory.sale.stock_kept_consumed'']) \<and>
   \<not> may_follow\<^sup>+\<^sup>+ READY IN_PROGRESS"
proof -
  have c: "reverse_consumption_on_cancel sample_stock_db 10 True 99 READY None 0 = Inr (sample_stock_db, [''inventory.sale.stock_kept_consumed''])"
    by (simp add: reverse_consumption_on_cancel_def pre_preparation_statuses_def)
  have "ledger_ok (sd_movements sample_stock_db)" by (simp add: ledger_ok_def stock_index_def sample_stock_db_def)
  from cancellation_respects_preparation [OF c this] show ?thesis using c by (auto split: if_splits)
qed

end
