(* ===== verification/LoyaltyLaws.thy ===== *)
theory LoyaltyLaws imports Loyalty begin

text \<open>
  What the loyalty ledger promises: every balance is explained by its rows, is never
  negative, and every row records the balance it left; a redemption never overdraws and
  never discounts more than the sale; a reversal returns exactly what was spent, once;
  a repeated manual adjustment is replayed.
\<close>

subsection \<open>Tiers\<close>

instantiation loyalty_tier :: linorder
begin

fun tier_rank :: "loyalty_tier \<Rightarrow> nat" where
  "tier_rank BRONZE = 0"
| "tier_rank SILVER = 1"
| "tier_rank GOLD = 2"

definition less_eq_loyalty_tier :: "loyalty_tier \<Rightarrow> loyalty_tier \<Rightarrow> bool" where
  "less_eq_loyalty_tier s t = (tier_rank s \<le> tier_rank t)"

definition less_loyalty_tier :: "loyalty_tier \<Rightarrow> loyalty_tier \<Rightarrow> bool" where
  "less_loyalty_tier s t = (tier_rank s < tier_rank t)"

instance
proof
  fix x y z :: loyalty_tier
  show "x < y \<longleftrightarrow> x \<le> y \<and> \<not> y \<le> x" by (auto simp: less_loyalty_tier_def less_eq_loyalty_tier_def)
  show "x \<le> x" by (simp add: less_eq_loyalty_tier_def)
  show "x \<le> y \<Longrightarrow> y \<le> z \<Longrightarrow> x \<le> z" by (simp add: less_eq_loyalty_tier_def)
  show "x \<le> y \<Longrightarrow> y \<le> x \<Longrightarrow> x = y" by (cases x; cases y) (simp_all add: less_eq_loyalty_tier_def)
  show "x \<le> y \<or> y \<le> x" by (auto simp: less_eq_loyalty_tier_def)
qed

end

lemma compute_tier_mono: "m \<le> n \<Longrightarrow> compute_tier m p \<le> compute_tier n p"
  by (auto simp: compute_tier_def less_eq_loyalty_tier_def)

subsection \<open>The ledger\<close>

definition points_of :: "loyalty_transaction list \<Rightarrow> uuid \<Rightarrow> int" where
  "points_of ts cid = sum_list (map lt_points_delta (filter (\<lambda>t. lt_customer_id t = cid) ts))"

interpretation points: signed_ledger lt_customer_id lt_points_delta points_of
  by unfold_locales (simp_all add: points_of_def)

text \<open>Every row records the balance its customer had right after it.\<close>

definition audit_trail :: "loyalty_transaction list \<Rightarrow> bool" where
  "audit_trail ts = (\<forall>i < length ts. lt_balance_after (ts ! i) = points_of (take (Suc i) ts) (lt_customer_id (ts ! i)))"

lemma audit_trail_Nil [simp]: "audit_trail []"
  by (simp add: audit_trail_def)

lemma audit_trail_snoc:
  "audit_trail (ts @ [t]) \<longleftrightarrow> audit_trail ts \<and> lt_balance_after t = points_of (ts @ [t]) (lt_customer_id t)"
  by (auto simp: audit_trail_def nth_append less_Suc_eq)

text \<open>A redemption never adds points, and one for an order carries the key of that order.\<close>

definition redeem_row_ok :: "loyalty_transaction \<Rightarrow> bool" where
  "redeem_row_ok t = (lt_transaction_type t = REDEEM \<longrightarrow> lt_points_delta t \<le> 0 \<and>
     lt_idempotency_key t = map_option redeem_idempotency_key (lt_order_id t))"

definition customer_ok :: "loyalty_db \<Rightarrow> customer \<Rightarrow> bool" where
  "customer_ok db c = (cu_loyalty_points_balance c = points_of (ld_txns db) (cu_id c) \<and> 0 \<le> cu_loyalty_points_balance c)"

definition loyalty_inv :: "loyalty_db \<Rightarrow> bool" where
  "loyalty_inv db = (distinct (map cu_id (ld_customers db)) \<and> unique_index txn_key (ld_txns db) \<and>
     (\<forall>c \<in> set (ld_customers db). customer_ok db c) \<and>
     (\<forall>t \<in> set (ld_txns db). redeem_row_ok t \<and> lt_customer_id t \<in> cu_id ` set (ld_customers db)) \<and>
     (\<forall>r \<in> set (ld_rewards db). 1 \<le> lr_points_cost r) \<and> audit_trail (ld_txns db))"

lemma loyalty_inv_customer: "loyalty_inv db \<Longrightarrow> c \<in> set (ld_customers db) \<Longrightarrow> customer_ok db c"
  by (simp add: loyalty_inv_def)

lemma loyalty_inv_index: "loyalty_inv db \<Longrightarrow> unique_index txn_key (ld_txns db)"
  by (simp add: loyalty_inv_def)

lemma loyalty_inv_row: "loyalty_inv db \<Longrightarrow> t \<in> set (ld_txns db) \<Longrightarrow> redeem_row_ok t"
  by (simp add: loyalty_inv_def)

lemma commit_loyalty_eq:
  "commit_loyalty db = Inr db' \<longleftrightarrow> db' = db \<and> (\<forall>c \<in> set (ld_customers db). 0 \<le> cu_loyalty_points_balance c) \<and>
     unique_index txn_key (ld_txns db)"
  by (auto simp: commit_loyalty_def result_simps list_all_iff)

lemma lock_customer_in:
  "lock_customer_for_balance_update db b cid = Inr c \<Longrightarrow>
     c \<in> set (ld_customers db) \<and> cu_id c = cid \<and> cu_business_id c = b"
proof -
  assume "lock_customer_for_balance_update db b cid = Inr c"
  then have "scalar_one_or_none (filter (\<lambda>c. cu_id c = cid \<and> cu_business_id c = b) (ld_customers db)) = Inr (Some c)"
    by (auto simp: lock_customer_for_balance_update_def and_then_eq_Inr or_raise_eq_Inr)
  from scalar_one_or_none_filter [OF this] show ?thesis by simp
qed

subsection \<open>Posting points\<close>

text \<open>The one way a balance changes: the locked customer and a ledger row for the difference.\<close>

definition posts :: "loyalty_db \<Rightarrow> uuid \<Rightarrow> uuid \<Rightarrow> int \<Rightarrow> loyalty_transaction \<Rightarrow> loyalty_db \<Rightarrow> bool" where
  "posts db b cid d t db' = (\<exists>c0 c. lock_customer_for_balance_update db b cid = Inr c0 \<and> db' = write_points c t db \<and>
     cu_id c = cid \<and> cu_business_id c = b \<and> cu_loyalty_points_balance c = cu_loyalty_points_balance c0 + d \<and>
     lt_business_id t = b \<and> lt_customer_id t = cid \<and> lt_points_delta t = d \<and>
     lt_balance_after t = cu_loyalty_points_balance c)"

lemma write_points_simps [simp]:
  "ld_txns (write_points c t db) = ld_txns db @ [t]"
  "ld_customers (write_points c t db) = update_where (\<lambda>r. cu_id r = cu_id c) (\<lambda>_. c) (ld_customers db)"
  "ld_rewards (write_points c t db) = ld_rewards db"
  "ld_programs (write_points c t db) = ld_programs db"
  "ld_audit (write_points c t db) = ld_audit db"
  by (simp_all add: write_points_def)

lemma posts_simps:
  assumes "posts db b cid d t db'"
  shows "ld_txns db' = ld_txns db @ [t]" "ld_rewards db' = ld_rewards db" "ld_programs db' = ld_programs db"
    "map cu_id (ld_customers db') = map cu_id (ld_customers db)"
    "cu_id ` set (ld_customers db') = cu_id ` set (ld_customers db)"
proof -
  from assms obtain c where db': "db' = write_points c t db" by (auto simp: posts_def)
  then show "ld_txns db' = ld_txns db @ [t]" "ld_rewards db' = ld_rewards db" "ld_programs db' = ld_programs db"
    by simp_all
  show m: "map cu_id (ld_customers db') = map cu_id (ld_customers db)"
    unfolding db' by (simp add: map_update_where)
  then show "cu_id ` set (ld_customers db') = cu_id ` set (ld_customers db)" by (metis set_map)
qed

lemma posts_customers:
  assumes inv: "loyalty_inv db" and p: "posts db b cid d t db'" and c': "c' \<in> set (ld_customers db')"
  shows "cu_loyalty_points_balance c' = points_of (ld_txns db') (cu_id c')"
proof -
  from p obtain c0 c where l: "lock_customer_for_balance_update db b cid = Inr c0" and db': "db' = write_points c t db"
    and c: "cu_id c = cid" "cu_loyalty_points_balance c = cu_loyalty_points_balance c0 + d"
    and t: "lt_customer_id t = cid" "lt_points_delta t = d" by (auto simp: posts_def)
  from lock_customer_in [OF l] have c0: "c0 \<in> set (ld_customers db)" "cu_id c0 = cid" by simp_all
  have old: "cu_loyalty_points_balance r = points_of (ld_txns db) (cu_id r)" if "r \<in> set (ld_customers db)" for r
    using loyalty_inv_customer [OF inv that] by (simp add: customer_ok_def)
  from c' db' obtain r where r: "r \<in> set (ld_customers db)" "c' = (if cu_id r = cu_id c then c else r)"
    by (auto simp: set_update_where)
  show ?thesis
  proof (cases "cu_id r = cid")
    case True
    with r c have "c' = c" by simp
    then show ?thesis using c t old [OF c0(1)] c0 db' by (simp add: points.balance_post)
  next
    case False
    with r c have "c' = r" by simp
    then show ?thesis using False t old [OF r(1)] db' by (simp add: points.balance_post)
  qed
qed

lemma posts_row_balance:
  assumes inv: "loyalty_inv db" and p: "posts db b cid d t db'"
  shows "lt_balance_after t = points_of (ld_txns db @ [t]) (lt_customer_id t)"
proof -
  from p obtain c0 where l: "lock_customer_for_balance_update db b cid = Inr c0"
    and t: "lt_customer_id t = cid" "lt_points_delta t = d" "lt_balance_after t = cu_loyalty_points_balance c0 + d"
    by (auto simp: posts_def)
  from lock_customer_in [OF l] have "c0 \<in> set (ld_customers db)" "cu_id c0 = cid" by simp_all
  then show ?thesis using loyalty_inv_customer [OF inv] t by (simp add: customer_ok_def points.balance_post)
qed

lemma posts_inv:
  assumes inv: "loyalty_inv db" and p: "posts db b cid d t db'" and row: "redeem_row_ok t"
    and cm: "commit_loyalty db' = Inr db''"
  shows "loyalty_inv db'' \<and> db'' = db'"
proof -
  from cm have [simp]: "db'' = db'" and nn: "\<forall>c \<in> set (ld_customers db'). 0 \<le> cu_loyalty_points_balance c"
    and u: "unique_index txn_key (ld_txns db')" by (auto simp: commit_loyalty_eq)
  note s = posts_simps [OF p]
  from p obtain c0 where l: "lock_customer_for_balance_update db b cid = Inr c0" and "lt_customer_id t = cid"
    by (auto simp: posts_def)
  with lock_customer_in [OF l] have t: "lt_customer_id t \<in> cu_id ` set (ld_customers db)" by blast
  have "audit_trail (ld_txns db')"
    using inv posts_row_balance [OF inv p] by (simp add: s audit_trail_snoc loyalty_inv_def)
  moreover have "\<forall>c \<in> set (ld_customers db'). customer_ok db' c"
    using posts_customers [OF inv p] nn by (simp add: customer_ok_def)
  ultimately show ?thesis
    using inv u row t unfolding loyalty_inv_def by (auto simp: s)
qed

subsection \<open>Every operation posts or leaves the ledger alone\<close>

lemma award_shape:
  assumes "award_points_for_paid_order db b cid ord p now = Inr (db', n)"
  shows "db' = db \<and> n = 0 \<or>
    (\<exists>t. posts db b cid n t db' \<and> lt_transaction_type t = EARN \<and> lt_idempotency_key t = None \<and> 0 < n)"
proof (cases "db' = db \<and> n = 0")
  case False
  with assms obtain c0 where l: "lock_customer_for_balance_update db b cid = Inr c0" and n: "0 < n"
    and e: "n = points_earned ord p now"
    by (auto simp: award_points_for_paid_order_def result_simps Let_def split: if_splits)
  let ?c = "c0\<lparr>cu_loyalty_points_balance := cu_loyalty_points_balance c0 + n,
     cu_loyalty_tier := compute_tier (cu_loyalty_points_balance c0 + n) p\<rparr>"
  let ?e = "case lp_points_expiry_days p of None \<Rightarrow> ?c | Some days \<Rightarrow>
     if days = 0 then ?c else ?c\<lparr>cu_loyalty_points_expire_at := Some (now + days * day)\<rparr>"
  let ?t = "\<lparr>lt_business_id = b, lt_customer_id = cu_id ?e, lt_order_id = Some (or_id ord), lt_transaction_type = EARN,
     lt_points_delta = n, lt_balance_after = cu_loyalty_points_balance c0 + n, lt_idempotency_key = None\<rparr>"
  from assms False l e have db': "db' = write_points ?e ?t db"
    by (auto simp: award_points_for_paid_order_def result_simps Let_def split: if_splits)
  have "cu_id ?e = cid" "cu_business_id ?e = b"
    "cu_loyalty_points_balance ?e = cu_loyalty_points_balance c0 + n"
    using lock_customer_in [OF l] by (simp_all split: option.splits)
  then have "posts db b cid n ?t db'" unfolding posts_def using l db'
    by (intro exI [of _ c0] exI [of _ ?e]) simp
  with n show ?thesis by (intro disjI2 exI [of _ ?t]) simp
qed simp

lemma redeem_shape:
  assumes "redeem_reward db b cid rw p ord = Inr (db', t)"
  shows "posts db b cid (- lr_points_cost rw) t db' \<and> lt_transaction_type t = REDEEM \<and> lt_order_id t = ord \<and>
    lt_idempotency_key t = map_option redeem_idempotency_key ord \<and>
    (\<exists>c0. lock_customer_for_balance_update db b cid = Inr c0 \<and> lr_points_cost rw \<le> cu_loyalty_points_balance c0)"
proof -
  from assms obtain c0 where l: "lock_customer_for_balance_update db b cid = Inr c0"
    and n: "lr_points_cost rw \<le> cu_loyalty_points_balance c0"
    by (auto simp: redeem_reward_def result_simps Let_def)
  let ?n = "cu_loyalty_points_balance c0 - lr_points_cost rw"
  let ?c = "c0\<lparr>cu_loyalty_points_balance := ?n, cu_loyalty_tier := compute_tier ?n p\<rparr>"
  from assms l have r: "db' = write_points ?c t db" "lt_transaction_type t = REDEEM" "lt_order_id t = ord"
    "lt_idempotency_key t = map_option redeem_idempotency_key ord" "lt_business_id t = b"
    "lt_customer_id t = cu_id c0" "lt_points_delta t = - lr_points_cost rw" "lt_balance_after t = ?n"
    by (auto simp: redeem_reward_def result_simps Let_def)
  have "posts db b cid (- lr_points_cost rw) t db'" unfolding posts_def
    using l r lock_customer_in [OF l] by (intro exI [of _ c0] exI [of _ ?c]) simp
  with r l n show ?thesis by blast
qed

lemma checkout_shape:
  assumes "redeem_reward_for_checkout db b cid rw p oid m = Inr (db', cr)"
  shows "\<exists>t v. posts db b cid (- lr_points_cost rw) t db' \<and> lt_transaction_type t = REDEEM \<and>
    lt_order_id t = Some oid \<and> lt_idempotency_key t = Some (redeem_idempotency_key oid) \<and>
    lr_value_cents rw = Some v \<and> cr = \<lparr>cr_discount_cents = min v (max 0 m), cr_points_cost = lr_points_cost rw,
      cr_shortfall_cents = v - min v (max 0 m), cr_reward_name = lr_name rw\<rparr> \<and>
    (\<exists>c0. lock_customer_for_balance_update db b cid = Inr c0 \<and> lr_points_cost rw \<le> cu_loyalty_points_balance c0)"
proof -
  from assms obtain v t where v: "lr_value_cents rw = Some v" and r: "redeem_reward db b cid rw p (Some oid) = Inr (db', t)"
    and cr: "cr = \<lparr>cr_discount_cents = min v (max 0 m), cr_points_cost = lr_points_cost rw,
      cr_shortfall_cents = v - min v (max 0 m), cr_reward_name = lr_name rw\<rparr>"
    by (auto simp: redeem_reward_for_checkout_def result_simps Let_def)
  from redeem_shape [OF r] v cr show ?thesis by (intro exI [of _ t] exI [of _ v]) simp
qed

definition redemptions :: "loyalty_db \<Rightarrow> uuid \<Rightarrow> uuid \<Rightarrow> loyalty_transaction list" where
  "redemptions db b oid = filter (\<lambda>t. lt_business_id t = b \<and> lt_order_id t = Some oid \<and>
     lt_transaction_type t = REDEEM) (ld_txns db)"

definition reversals :: "loyalty_db \<Rightarrow> uuid \<Rightarrow> uuid \<Rightarrow> loyalty_transaction list" where
  "reversals db b oid = filter (\<lambda>t. lt_business_id t = b \<and>
     lt_idempotency_key t = Some (redeem_reversal_idempotency_key oid)) (ld_txns db)"

lemma with_balance_simps [simp]:
  "cu_id (with_balance c n p) = cu_id c" "cu_business_id (with_balance c n p) = cu_business_id c"
  "cu_loyalty_points_balance (with_balance c n p) = n"
  by (simp_all add: with_balance_def split: option.split)

lemma reverse_shape:
  assumes "reverse_redemption db b oid = Inr (db', n)"
  shows "(db' = db \<and> n = 0 \<and> (redemptions db b oid = [] \<or> reversals db b oid \<noteq> [])) \<or>
    (\<exists>t0 t. redemptions db b oid = [t0] \<and> reversals db b oid = [] \<and> n = - lt_points_delta t0 \<and>
       posts db b (lt_customer_id t0) n t db' \<and> lt_transaction_type t = ADJUST \<and>
       lt_idempotency_key t = Some (redeem_reversal_idempotency_key oid))"
proof -
  note rd = assms [unfolded reverse_redemption_def, folded redemptions_def reversals_def]
  from rd obtain r where r: "scalar_one_or_none (redemptions db b oid) = Inr r" by (auto simp: and_then_eq_Inr)
  show ?thesis
  proof (cases "redemptions db b oid = [] \<or> reversals db b oid \<noteq> []")
    case True
    show ?thesis
    proof (cases r)
      case None
      with rd r True show ?thesis by simp
    next
      case (Some t0)
      with r have t0: "redemptions db b oid = [t0]" by (simp add: scalar_one_or_none_Some)
      with rd obtain a where a: "scalar_one_or_none (reversals db b oid) = Inr a" by (auto simp: and_then_eq_Inr)
      with t0 True have "a \<noteq> None" by (cases a) (simp_all add: scalar_one_or_none_None)
      with rd t0 a True show ?thesis by simp
    qed
  next
    case False
    with r False obtain t0 where t0: "redemptions db b oid = [t0]" by (cases r) (auto simp: result_simps)
    from rd t0 False obtain p c0 where l: "lock_customer_for_balance_update db b (lt_customer_id t0) = Inr c0"
      and n: "n = - lt_points_delta t0"
      and db': "db' = write_points (with_balance c0 (cu_loyalty_points_balance c0 + n) p)
        \<lparr>lt_business_id = b, lt_customer_id = cu_id c0, lt_order_id = Some oid, lt_transaction_type = ADJUST,
         lt_points_delta = n, lt_balance_after = cu_loyalty_points_balance c0 + n,
         lt_idempotency_key = Some (redeem_reversal_idempotency_key oid)\<rparr> db" (is "_ = write_points ?c ?t db")
      by (auto simp: and_then_eq_Inr Let_def)
    have "posts db b (lt_customer_id t0) n ?t db'" unfolding posts_def
      using l db' lock_customer_in [OF l] by (intro exI [of _ c0] exI [of _ ?c]) simp
    with t0 n False show ?thesis by (intro disjI2 exI [of _ t0] exI [of _ ?t]) simp
  qed
qed

lemma adjust_shape:
  assumes "adjust_points db b cid p d k = Inr (db', t)"
  shows "posts db b cid d t db' \<and> lt_transaction_type t = ADJUST \<and> lt_idempotency_key t = k \<and> d \<noteq> 0"
proof -
  from assms obtain c0 where l: "lock_customer_for_balance_update db b cid = Inr c0" and d: "d \<noteq> 0"
    by (auto simp: adjust_points_def result_simps Let_def)
  let ?n = "cu_loyalty_points_balance c0 + d"
  from assms l have r: "db' = write_points (with_balance c0 ?n p) t db" "lt_transaction_type t = ADJUST"
    "lt_idempotency_key t = k" "lt_business_id t = b" "lt_customer_id t = cu_id c0" "lt_points_delta t = d"
    "lt_balance_after t = ?n"
    by (auto simp: adjust_points_def result_simps Let_def)
  have "posts db b cid d t db'" unfolding posts_def
    using l r lock_customer_in [OF l] by (intro exI [of _ c0] exI [of _ "with_balance c0 ?n p"]) simp
  with r d show ?thesis by blast
qed

subsection \<open>Keys\<close>

lemma adjust_key_neq:
  "manual_adjustment_idempotency_key k \<noteq> redeem_idempotency_key o1"
  "manual_adjustment_idempotency_key k \<noteq> redeem_reversal_idempotency_key o1"
  "redeem_idempotency_key o1 \<noteq> redeem_reversal_idempotency_key o2"
  by (simp_all add: manual_adjustment_idempotency_key_def redeem_idempotency_key_def redeem_reversal_idempotency_key_def)

lemma redeem_key_inj:
  "redeem_idempotency_key o1 = redeem_idempotency_key o2 \<longleftrightarrow> o1 = o2"
  "redeem_reversal_idempotency_key o1 = redeem_reversal_idempotency_key o2 \<longleftrightarrow> o1 = o2"
  by (simp_all add: redeem_idempotency_key_def redeem_reversal_idempotency_key_def key_simps)

lemma txn_key_Some: "lt_idempotency_key t = Some k \<Longrightarrow> txn_key t = Some (lt_business_id t, k)"
  by (simp add: txn_key_def)

text \<open>The index leaves at most one redemption and one reversal of an order.\<close>

lemma redemptions_le_1: "loyalty_inv db \<Longrightarrow> redemptions db b oid = [] \<or> (\<exists>t. redemptions db b oid = [t])"
proof -
  assume inv: "loyalty_inv db"
  let ?P = "\<lambda>t. lt_business_id t = b \<and> lt_order_id t = Some oid \<and> lt_transaction_type t = REDEEM \<and> redeem_row_ok t"
  have eq: "filter ?P (ld_txns db) = redemptions db b oid"
    unfolding redemptions_def using loyalty_inv_row [OF inv] by (intro filter_cong) auto
  have "filter ?P (ld_txns db) = [] \<or> (\<exists>t. filter ?P (ld_txns db) = [t])"
    by (rule unique_index_filter_le_1 [OF loyalty_inv_index [OF inv], where k = "(b, redeem_idempotency_key oid)"])
      (auto simp: redeem_row_ok_def txn_key_def)
  then show ?thesis by (simp only: eq)
qed

lemma reversals_le_1: "loyalty_inv db \<Longrightarrow> reversals db b oid = [] \<or> (\<exists>t. reversals db b oid = [t])"
  unfolding reversals_def
  by (rule unique_index_filter_le_1 [OF loyalty_inv_index, where k = "(b, redeem_reversal_idempotency_key oid)"])
    (auto simp: txn_key_def)

lemma redemption_spends: "loyalty_inv db \<Longrightarrow> redemptions db b oid = [t] \<Longrightarrow>
    t \<in> set (ld_txns db) \<and> lt_points_delta t \<le> 0 \<and> lt_business_id t = b"
proof -
  assume inv: "loyalty_inv db" and r: "redemptions db b oid = [t]"
  then have "t \<in> set (redemptions db b oid)" by simp
  then have "t \<in> set (ld_txns db)" "lt_transaction_type t = REDEEM" "lt_business_id t = b"
    unfolding redemptions_def by auto
  with loyalty_inv_row [OF inv] show ?thesis by (auto simp: redeem_row_ok_def)
qed

subsection \<open>Runs of the loyalty module\<close>

text \<open>
  One committed request: an award after a payment, a redemption at the counter or at a
  checkout, the reversal of a void, a manual adjustment whose early reads may be stale, a
  new customer under a fresh identity, a change of the catalogue.
\<close>

inductive loyalty_step :: "business list \<Rightarrow> loyalty_db \<Rightarrow> loyalty_db \<Rightarrow> bool" for bs where
  earn: "loyalty_step bs db (award_loyalty_points_if_enabled db b ord now)"
| redeem: "redeem_loyalty_reward bs db user cid rid = Inr (db', t) \<Longrightarrow> loyalty_step bs db db'"
| checkout: "reward_of db b rid = Inr rw \<Longrightarrow> redeem_reward_for_checkout db b cid rw p oid m = Inr (db1, cr) \<Longrightarrow>
    commit_loyalty db1 = Inr db' \<Longrightarrow> loyalty_step bs db db'"
| reverse: "reverse_redemption db b oid = Inr (db1, n) \<Longrightarrow> commit_loyalty db1 = Inr db' \<Longrightarrow> loyalty_step bs db db'"
| adjust: "adjust_customer_points bs seen db user cid d k = Inr (db', t) \<Longrightarrow> loyalty_step bs db db'"
| enrol: "lookup_customer_by_phone bs db user phone new_id = Inr (db', c) \<Longrightarrow>
    new_id \<notin> cu_id ` set (ld_customers db) \<Longrightarrow> loyalty_step bs db db'"
| new_reward: "create_reward bs db user new_id name cost v = Inr db' \<Longrightarrow> 1 \<le> cost \<Longrightarrow> loyalty_step bs db db'"
| drop_reward: "delete_reward bs db user rid = Inr db' \<Longrightarrow> loyalty_step bs db db'"

definition grows :: "loyalty_db \<Rightarrow> loyalty_db \<Rightarrow> bool" where
  "grows db db' = (loyalty_inv db' \<and> prefix (ld_txns db) (ld_txns db'))"

lemma grows_refl: "loyalty_inv db \<Longrightarrow> grows db db"
  by (simp add: grows_def)

lemma grows_posts:
  assumes "loyalty_inv db" "posts db b cid d t db'" "redeem_row_ok t" "commit_loyalty db' = Inr db''"
  shows "grows db db''"
  using posts_inv [OF assms] posts_simps(1) [OF assms(2)] by (auto simp: grows_def prefix_def)

lemma loyalty_inv_programs: "loyalty_inv (db\<lparr>ld_programs := ps\<rparr>) = loyalty_inv db"
  "loyalty_inv (db\<lparr>ld_audit := as\<rparr>) = loyalty_inv db"
  by (simp_all add: loyalty_inv_def customer_ok_def)

lemma program_created:
  "get_or_create_program db b = Inr (db', p) \<Longrightarrow> db' = db \<or> (\<exists>ps. db' = db\<lparr>ld_programs := ps\<rparr>)"
  by (auto simp: get_or_create_program_def result_simps split: option.splits)

lemma program_created_inv:
  assumes "get_or_create_program db b = Inr (db', p)" "loyalty_inv db"
  shows "loyalty_inv db' \<and> ld_txns db' = ld_txns db \<and> ld_customers db' = ld_customers db \<and> ld_rewards db' = ld_rewards db"
  using program_created [OF assms(1)] assms(2) by (auto simp: loyalty_inv_programs)

lemma earn_grows: "loyalty_inv db \<Longrightarrow> grows db (award_loyalty_points_if_enabled db b ord now)"
proof -
  assume inv: "loyalty_inv db"
  let ?db' = "award_loyalty_points_if_enabled db b ord now"
  show ?thesis
  proof (cases "?db' = db")
    case False
    then obtain cid p n db1 where a: "award_points_for_paid_order db b cid ord p now = Inr (db1, n)"
      and c: "commit_loyalty db1 = Inr ?db'"
      by (fastforce simp: award_loyalty_points_if_enabled_def and_then_eq_Inr split: option.splits sum.splits if_splits)
    from award_shape [OF a] show ?thesis
    proof
      assume "db1 = db \<and> n = 0"
      with c False show ?thesis by (simp add: commit_loyalty_eq)
    next
      assume "\<exists>t. posts db b cid n t db1 \<and> lt_transaction_type t = EARN \<and> lt_idempotency_key t = None \<and> 0 < n"
      then show ?thesis using grows_posts [OF inv _ _ c] by (auto simp: redeem_row_ok_def)
    qed
  qed (simp add: inv grows_refl)
qed

lemma redeem_row: "lt_transaction_type t = REDEEM \<Longrightarrow> lt_points_delta t \<le> 0 \<Longrightarrow>
    lt_idempotency_key t = map_option redeem_idempotency_key (lt_order_id t) \<Longrightarrow> redeem_row_ok t"
  by (simp add: redeem_row_ok_def)

lemma reward_cost: "loyalty_inv db \<Longrightarrow> reward_of db b rid = Inr rw \<Longrightarrow> 1 \<le> lr_points_cost rw"
proof -
  assume inv: "loyalty_inv db" and r: "reward_of db b rid = Inr rw"
  then have "scalar_one_or_none (filter (\<lambda>r. lr_id r = rid \<and> lr_business_id r = b) (ld_rewards db)) = Inr (Some rw)"
    by (auto simp: reward_of_def and_then_eq_Inr or_raise_eq_Inr)
  from scalar_one_or_none_filter [OF this] inv show ?thesis by (simp add: loyalty_inv_def)
qed

lemma posts_delta: "posts db b cid d t db' \<Longrightarrow> lt_points_delta t = d \<and> lt_customer_id t = cid \<and> lt_business_id t = b"
  by (auto simp: posts_def)

lemma redeem_grows:
  assumes inv: "loyalty_inv db" and r: "redeem_reward db b cid rw p ord = Inr (db1, t)"
    and cost: "1 \<le> lr_points_cost rw" and c: "commit_loyalty db1 = Inr db'"
  shows "grows db db'"
proof -
  from redeem_shape [OF r] have p: "posts db b cid (- lr_points_cost rw) t db1"
    and t: "lt_transaction_type t = REDEEM" "lt_idempotency_key t = map_option redeem_idempotency_key (lt_order_id t)"
    by auto
  have "redeem_row_ok t" using t cost posts_delta [OF p] by (intro redeem_row) simp_all
  then show ?thesis by (rule grows_posts [OF inv p _ c])
qed

lemma reverse_grows:
  assumes inv: "loyalty_inv db" and r: "reverse_redemption db b oid = Inr (db1, n)" and c: "commit_loyalty db1 = Inr db'"
  shows "grows db db'"
  using reverse_shape [OF r]
proof
  assume "db1 = db \<and> n = 0 \<and> (redemptions db b oid = [] \<or> reversals db b oid \<noteq> [])"
  with c inv show ?thesis by (simp add: commit_loyalty_eq grows_refl)
next
  assume "\<exists>t0 t. redemptions db b oid = [t0] \<and> reversals db b oid = [] \<and> n = - lt_points_delta t0 \<and>
       posts db b (lt_customer_id t0) n t db1 \<and> lt_transaction_type t = ADJUST \<and>
       lt_idempotency_key t = Some (redeem_reversal_idempotency_key oid)"
  then obtain cid t where "posts db b cid n t db1" "lt_transaction_type t = ADJUST" by blast
  moreover from this have "redeem_row_ok t" by (simp add: redeem_row_ok_def)
  ultimately show ?thesis using grows_posts [OF inv _ _ c] by blast
qed

text \<open>A manual adjustment posts once, or is the replay of a row that is already there.\<close>

definition adjusted :: "loyalty_db \<Rightarrow> auth_user \<Rightarrow> uuid \<Rightarrow> int \<Rightarrow> string option \<Rightarrow> loyalty_db \<Rightarrow> loyalty_transaction \<Rightarrow> bool" where
  "adjusted db user cid d key db' t = (\<exists>db1 as. posts db (au_business_id user) cid d t db1 \<and>
     lt_transaction_type t = ADJUST \<and> lt_idempotency_key t = key \<and> db' = db1\<lparr>ld_audit := as\<rparr> \<and>
     commit_loyalty db' = Inr db')"

lemma customer_of_id: "customer_of db b cid = Inr c \<Longrightarrow> cu_id c = cid"
  using lock_customer_in [of db b cid c] by (simp add: customer_of_def lock_customer_for_balance_update_def)

lemma adjust_and_commit_shape:
  assumes "adjust_and_commit db user c p d key = Inr (db', t)"
  shows "adjusted db user (cu_id c) d key db' t"
proof -
  from assms obtain db1 as where a: "adjust_points db (au_business_id user) (cu_id c) p d key = Inr (db1, t)"
    and c: "commit_loyalty (db1\<lparr>ld_audit := as\<rparr>) = Inr db'"
    by (auto simp: adjust_and_commit_def and_then_eq_Inr)
  from c have "db' = db1\<lparr>ld_audit := as\<rparr>" "commit_loyalty db' = Inr db'" by (auto simp: commit_loyalty_eq)
  with adjust_shape [OF a] show ?thesis unfolding adjusted_def by blast
qed

lemma adjust_customer_shape:
  assumes "adjust_customer_points bs seen db user cid d k = Inr (db', t)"
  shows "(replay_adjustment seen (au_business_id user) (namespaced_key k) = Inr None \<and>
      adjusted db user cid d (namespaced_key k) db' t) \<or>
    db' = db \<and> (\<exists>tables \<in> {seen, db}. replay_adjustment tables (au_business_id user) (namespaced_key k) = Inr (Some t))"
proof -
  from assms obtain c ex where c: "customer_of seen (au_business_id user) cid = Inr c"
    and ex: "replay_adjustment seen (au_business_id user) (namespaced_key k) = Inr ex"
    by (auto simp: adjust_customer_points_def Let_def and_then_eq_Inr)
  show ?thesis
  proof (cases ex)
    case (Some t')
    with assms c ex show ?thesis by (auto simp: adjust_customer_points_def Let_def and_then_eq_Inr)
  next
    case None
    with assms c ex obtain p where p: "program_of seen (au_business_id user) = Inr p"
      by (auto simp: adjust_customer_points_def Let_def and_then_eq_Inr)
    show ?thesis
    proof (cases "adjust_and_commit db user c p d (namespaced_key k)")
      case (Inr r)
      with assms c ex None p have "r = (db', t)" by (auto simp: adjust_customer_points_def Let_def and_then_eq_Inr)
      with Inr adjust_and_commit_shape [of db user c p d] customer_of_id [OF c] ex None show ?thesis by auto
    next
      case (Inl e)
      with assms c ex None p show ?thesis
        by (auto simp: adjust_customer_points_def Let_def and_then_eq_Inr split: if_splits option.splits)
    qed
  qed
qed

lemma adjusted_grows:
  assumes inv: "loyalty_inv db" and a: "adjusted db user cid d (namespaced_key k) db' t"
  shows "grows db db'"
proof -
  from a obtain db1 as where p: "posts db (au_business_id user) cid d t db1" and t: "lt_transaction_type t = ADJUST"
    and db': "db' = db1\<lparr>ld_audit := as\<rparr>" and c: "commit_loyalty db' = Inr db'" by (auto simp: adjusted_def)
  have "commit_loyalty db1 = Inr db1" using c by (simp add: commit_loyalty_eq db')
  moreover have "redeem_row_ok t" using t by (simp add: redeem_row_ok_def)
  ultimately have "grows db db1" by (intro grows_posts [OF inv p])
  then show ?thesis by (simp add: grows_def db' loyalty_inv_programs)
qed

lemma adjust_grows:
  "loyalty_inv db \<Longrightarrow> adjust_customer_points bs seen db user cid d k = Inr (db', t) \<Longrightarrow> grows db db'"
  using adjust_customer_shape [of bs seen db user cid d k db' t] adjusted_grows [of db user cid d k db' t] grows_refl [of db]
  by blast

lemma points_of_unknown: "cid \<notin> lt_customer_id ` set ts \<Longrightarrow> points_of ts cid = 0"
proof -
  assume "cid \<notin> lt_customer_id ` set ts"
  then have "filter (\<lambda>t. lt_customer_id t = cid) ts = []" by (auto simp: filter_empty_conv)
  then show ?thesis by (simp only: points_of_def list.map sum_list.Nil)
qed

lemma new_customer_inv:
  assumes inv: "loyalty_inv db" and g: "get_or_create_customer_by_phone db b phone name new_id = Inr (db', c)"
    and fresh: "new_id \<notin> cu_id ` set (ld_customers db)"
  shows "grows db db'"
proof (cases "db' = db")
  case False
  with g obtain c where db': "db' = db\<lparr>ld_customers := ld_customers db @ [c]\<rparr>" and c: "cu_id c = new_id"
    "cu_loyalty_points_balance c = 0"
    by (auto simp: get_or_create_customer_by_phone_def and_then_eq_Inr Let_def split: option.splits)
  have "new_id \<notin> lt_customer_id ` set (ld_txns db)" using inv fresh by (force simp: loyalty_inv_def)
  then have "customer_ok db' c" by (simp add: customer_ok_def db' c points_of_unknown)
  then show ?thesis using inv fresh unfolding grows_def loyalty_inv_def db' by (auto simp: c customer_ok_def)
qed (simp add: grows_refl inv)

lemma loyalty_step_grows: "loyalty_step bs db db' \<Longrightarrow> loyalty_inv db \<Longrightarrow> grows db db'"
proof (induction rule: loyalty_step.induct)
  case (redeem db user cid rid db' t)
  from redeem.hyps obtain db0 p cid' rw db1 where p: "get_or_create_program db (au_business_id user) = Inr (db0, p)"
    and rw: "reward_of db0 (au_business_id user) rid = Inr rw"
    and r: "redeem_reward db0 (au_business_id user) cid' rw p None = Inr (db1, t)"
    and c: "commit_loyalty db1 = Inr db'"
    by (auto simp: redeem_loyalty_reward_def Let_def and_then_eq_Inr)
  note i = program_created_inv [OF p redeem.prems]
  have "grows db0 db'" using i by (intro redeem_grows [OF _ r reward_cost [OF _ rw] c]) auto
  with i show ?case by (simp add: grows_def)
next
  case (checkout db b rid rw cid p oid m db1 cr db')
  then obtain v t where "redeem_reward db b cid rw p (Some oid) = Inr (db1, t)"
    by (auto simp: redeem_reward_for_checkout_def and_then_eq_Inr Let_def)
  with checkout show ?case by (blast intro: redeem_grows reward_cost)
next
  case (enrol db user phone new_id db' c)
  from enrol.hyps obtain db0 p db1 where p: "get_or_create_program db (au_business_id user) = Inr (db0, p)"
    and g: "get_or_create_customer_by_phone db0 (au_business_id user) phone None new_id = Inr (db1, c)"
    and c: "commit_loyalty db1 = Inr db'"
    by (auto simp: lookup_customer_by_phone_def Let_def and_then_eq_Inr)
  note i = program_created_inv [OF p enrol.prems]
  have "grows db0 db1" using i enrol.hyps(2) by (intro new_customer_inv [OF _ g]) auto
  with c i show ?case by (simp add: grows_def commit_loyalty_eq)
next
  case (new_reward db user new_id name cost v db')
  then show ?case
    by (auto simp: create_reward_def and_then_eq_Inr commit_loyalty_eq grows_def loyalty_inv_def customer_ok_def)
next
  case (drop_reward db user rid db')
  then show ?case
    using reward_cost [OF drop_reward.prems]
    by (auto simp: delete_reward_def and_then_eq_Inr commit_loyalty_eq grows_def loyalty_inv_def customer_ok_def
        set_update_where)
qed (blast intro: earn_grows reverse_grows adjust_grows)+

text \<open>
  C12: Along every run of the module each balance is the sum of its customer's ledger
  rows and is not negative, every row shows the balance it left, and rows are only ever
  added.
\<close>

theorem loyalty_balances_explained:
  assumes "(loyalty_step bs)\<^sup>*\<^sup>* db db'" and "loyalty_inv db"
  shows "(\<forall>c \<in> set (ld_customers db'). cu_loyalty_points_balance c = points_of (ld_txns db') (cu_id c) \<and>
      0 \<le> cu_loyalty_points_balance c) \<and>
    (\<forall>i < length (ld_txns db'). lt_balance_after (ld_txns db' ! i) =
      points_of (take (Suc i) (ld_txns db')) (lt_customer_id (ld_txns db' ! i))) \<and>
    prefix (ld_txns db) (ld_txns db')"
proof -
  from assms have "grows db db'"
    by (induction rule: rtranclp_induct)
      (auto simp: grows_def intro: prefix_order.trans dest!: loyalty_step_grows)
  then show ?thesis unfolding grows_def loyalty_inv_def customer_ok_def audit_trail_def by blast
qed

definition sample_program :: loyalty_program where
  "sample_program = (default_program 10)\<lparr>lp_is_enabled := True, lp_points_expiry_days := Some 30\<rparr>"

definition sample_reward :: loyalty_reward where
  "sample_reward = \<lparr>lr_id = 7, lr_business_id = 10, lr_name = ''Free coffee'', lr_points_cost = 50,
     lr_is_active = True, lr_value_cents = Some 3000\<rparr>"

definition sample_customer :: "int \<Rightarrow> customer" where
  "sample_customer n = \<lparr>cu_id = 5, cu_business_id = 10, cu_wa_id = None, cu_display_name = None,
     cu_phone_number = None, cu_loyalty_points_balance = n, cu_loyalty_tier = BRONZE, cu_loyalty_points_expire_at = None\<rparr>"

definition sample_loyalty :: loyalty_db where
  "sample_loyalty = \<lparr>ld_programs = [sample_program], ld_rewards = [sample_reward],
     ld_customers = [sample_customer 0], ld_txns = [], ld_audit = []\<rparr>"

lemma sample_loyalty_inv: "loyalty_inv sample_loyalty"
  by (simp add: loyalty_inv_def sample_loyalty_def customer_ok_def sample_customer_def points_of_def sample_reward_def)

definition sample_paid_order :: order where
  "sample_paid_order = (new_order 21 10 ''BO-000001'')\<lparr>or_total_cents := 12050, or_customer_id := Some 5\<rparr>"

lemma sample_award:
  "ld_txns (award_loyalty_points_if_enabled sample_loyalty 10 sample_paid_order 0) =
     [\<lparr>lt_business_id = 10, lt_customer_id = 5, lt_order_id = Some 21, lt_transaction_type = EARN,
       lt_points_delta = 120, lt_balance_after = 120, lt_idempotency_key = None\<rparr>]"
  by (simp add: award_loyalty_points_if_enabled_def sample_loyalty_def sample_paid_order_def new_order_def
      program_of_def sample_program_def default_program_def award_points_for_paid_order_def points_earned_def
      is_double_points_active_def lock_customer_for_balance_update_def sample_customer_def write_points_def
      commit_loyalty_def update_where_def unique_index_def txn_key_def day_def)

lemma loyalty_balances_explained_witness:
  "points_of (ld_txns (award_loyalty_points_if_enabled sample_loyalty 10 sample_paid_order 0)) 5 = 120 \<and>
   prefix (ld_txns sample_loyalty) (ld_txns (award_loyalty_points_if_enabled sample_loyalty 10 sample_paid_order 0))"
  using loyalty_balances_explained [OF r_into_rtranclp sample_loyalty_inv,
      OF loyalty_step.earn [where bs = "[]" and b = 10 and ord = sample_paid_order and now = 0]]
  by (simp add: sample_award points_of_def)

subsection \<open>Reversing a redemption\<close>

lemma reversed_points:
  assumes "reverse_redemption db b oid = Inr (db', n)" "redemptions db b oid = [t]" "reversals db b oid = []"
  shows "points_of (ld_txns db') c = points_of (ld_txns db) c + (if c = lt_customer_id t then - lt_points_delta t else 0)"
proof -
  from reverse_shape [OF assms(1)] assms(2,3) obtain t' where p: "posts db b (lt_customer_id t) (- lt_points_delta t) t' db'"
    by auto
  show ?thesis using posts_delta [OF p] by (simp add: posts_simps(1) [OF p] points.balance_post)
qed

text \<open>
  The points spent on an order come back exactly once: the first reversal credits the
  customer with what the redemption took and nobody else, and every further one changes
  nothing.
\<close>

theorem reversal_returns_points_once:
  assumes inv: "loyalty_inv db" and r: "reverse_redemption db b oid = Inr (db', n)"
  shows "0 \<le> n \<and> reverse_redemption db' b oid = Inr (db', 0) \<and>
    (\<forall>t. redemptions db b oid = [t] \<longrightarrow> reversals db b oid = [] \<longrightarrow> n = - lt_points_delta t \<and>
       (\<forall>c. points_of (ld_txns db') c = points_of (ld_txns db) c + (if c = lt_customer_id t then n else 0))) \<and>
    (redemptions db b oid = [] \<or> reversals db b oid \<noteq> [] \<longrightarrow> n = 0 \<and> db' = db)"
  using reverse_shape [OF r]
proof
  assume a: "db' = db \<and> n = 0 \<and> (redemptions db b oid = [] \<or> reversals db b oid \<noteq> [])"
  with r show ?thesis by auto
next
  assume "\<exists>t0 t. redemptions db b oid = [t0] \<and> reversals db b oid = [] \<and> n = - lt_points_delta t0 \<and>
       posts db b (lt_customer_id t0) n t db' \<and> lt_transaction_type t = ADJUST \<and>
       lt_idempotency_key t = Some (redeem_reversal_idempotency_key oid)"
  then obtain t0 :: loyalty_transaction and t where t0: "redemptions db b oid = [t0]" and e: "reversals db b oid = []"
    and n: "n = - lt_points_delta t0" and p: "posts db b (lt_customer_id t0) n t db'"
    and t: "lt_transaction_type t = ADJUST" "lt_idempotency_key t = Some (redeem_reversal_idempotency_key oid)" by blast
  note d = posts_delta [OF p] and s = posts_simps(1) [OF p]
  have "redemptions db' b oid = [t0]" "reversals db' b oid = [t]"
    using t0 e t d by (simp_all add: redemptions_def reversals_def s)
  then have "reverse_redemption db' b oid = Inr (db', 0)"
    by (simp add: reverse_redemption_def redemptions_def [symmetric] reversals_def [symmetric])
  moreover have "points_of (ld_txns db') c = points_of (ld_txns db) c + (if c = lt_customer_id t0 then n else 0)" for c
    using reversed_points [OF r t0 e] n by simp
  ultimately show ?thesis using t0 e n redemption_spends [OF inv t0] by simp
qed

subsection \<open>Redeeming at the till\<close>

text \<open>
  C35: A redemption at the till discounts at most the sale and at most the value of the
  reward, the rest is the shortfall; the full cost is taken from the customer's points,
  which stay non-negative, and from nobody else's.
\<close>

theorem checkout_redemption_clamped:
  assumes inv: "loyalty_inv db" and v: "lr_value_cents rw = Some v" "0 \<le> v" and cost: "0 \<le> lr_points_cost rw"
    and r: "redeem_reward_for_checkout db b cid rw p oid m = Inr (db', cr)"
  shows "0 \<le> cr_discount_cents cr \<and> cr_discount_cents cr \<le> max 0 m \<and>
    cr_discount_cents cr + cr_shortfall_cents cr = v \<and> 0 \<le> cr_shortfall_cents cr \<and>
    (0 < cr_shortfall_cents cr \<longrightarrow> cr_discount_cents cr = max 0 m) \<and> cr_points_cost cr = lr_points_cost rw \<and>
    (\<forall>c. points_of (ld_txns db') c = points_of (ld_txns db) c - (if c = cid then lr_points_cost rw else 0)) \<and>
    0 \<le> points_of (ld_txns db') cid"
proof -
  from checkout_shape [OF r] v obtain t c0 where p: "posts db b cid (- lr_points_cost rw) t db'"
    and cr: "cr = \<lparr>cr_discount_cents = min v (max 0 m), cr_points_cost = lr_points_cost rw,
      cr_shortfall_cents = v - min v (max 0 m), cr_reward_name = lr_name rw\<rparr>"
    and l: "lock_customer_for_balance_update db b cid = Inr c0" and le: "lr_points_cost rw \<le> cu_loyalty_points_balance c0"
    by auto
  have pts: "points_of (ld_txns db') c = points_of (ld_txns db) c - (if c = cid then lr_points_cost rw else 0)" for c
    using posts_delta [OF p] by (simp add: posts_simps(1) [OF p] points.balance_post)
  from lock_customer_in [OF l] loyalty_inv_customer [OF inv, of c0]
  have "points_of (ld_txns db) cid = cu_loyalty_points_balance c0" by (simp add: customer_ok_def)
  with le pts [of cid] have "0 \<le> points_of (ld_txns db') cid" by simp
  with pts v show ?thesis by (simp add: cr)
qed

definition sample_txn :: "uuid option \<Rightarrow> loyalty_transaction_type \<Rightarrow> int \<Rightarrow> int \<Rightarrow> string option \<Rightarrow> loyalty_transaction" where
  "sample_txn ord tt d after key = \<lparr>lt_business_id = 10, lt_customer_id = 5, lt_order_id = ord,
     lt_transaction_type = tt, lt_points_delta = d, lt_balance_after = after, lt_idempotency_key = key\<rparr>"

definition sample_rich :: loyalty_db where
  "sample_rich = sample_loyalty\<lparr>ld_customers := [sample_customer 120], ld_txns := [sample_txn (Some 21) EARN 120 120 None]\<rparr>"

definition sample_spent :: loyalty_db where
  "sample_spent = sample_loyalty\<lparr>ld_customers := [sample_customer 70],
     ld_txns := [sample_txn (Some 21) EARN 120 120 None,
       sample_txn (Some 33) REDEEM (- 50) 70 (Some (redeem_idempotency_key 33))]\<rparr>"

lemmas sample_loyalty_defs = sample_rich_def sample_spent_def sample_loyalty_def sample_customer_def sample_txn_def
  sample_reward_def sample_program_def default_program_def

lemma sample_rich_inv: "loyalty_inv sample_rich"
  by (simp add: loyalty_inv_def customer_ok_def points_of_def redeem_row_ok_def audit_trail_def sample_loyalty_defs
      unique_index_def txn_key_def)

lemma sample_spent_inv: "loyalty_inv sample_spent"
  by (simp add: loyalty_inv_def customer_ok_def points_of_def redeem_row_ok_def audit_trail_def sample_loyalty_defs
      unique_index_def txn_key_def less_Suc_eq)

lemma sample_redemption:
  "redeem_reward_for_checkout sample_rich 10 5 sample_reward sample_program 33 2000 =
     Inr (sample_spent, \<lparr>cr_discount_cents = 2000, cr_points_cost = 50, cr_shortfall_cents = 1000,
       cr_reward_name = ''Free coffee''\<rparr>)"
  by (simp add: redeem_reward_for_checkout_def redeem_reward_def lock_customer_for_balance_update_def write_points_def
      update_where_def compute_tier_def sample_loyalty_defs Let_def)

lemma checkout_redemption_clamped_witness:
  "points_of (ld_txns sample_spent) 5 = points_of (ld_txns sample_rich) 5 - 50 \<and> 0 \<le> points_of (ld_txns sample_spent) 5"
proof -
  have "lr_value_cents sample_reward = Some 3000" "lr_points_cost sample_reward = 50" by (simp_all add: sample_reward_def)
  with checkout_redemption_clamped [OF sample_rich_inv _ _ _ sample_redemption, of 3000] show ?thesis by auto
qed

lemma sample_reversal:
  "\<exists>db'. reverse_redemption sample_spent 10 33 = Inr (db', 50)"
  by (simp add: reverse_redemption_def program_of_def lock_customer_for_balance_update_def sample_loyalty_defs
      adjust_key_neq)

lemma reversal_returns_points_once_witness:
  "\<exists>db'. reverse_redemption sample_spent 10 33 = Inr (db', 50) \<and>
     reverse_redemption db' 10 33 = Inr (db', 0)"
proof -
  from sample_reversal obtain db' where r: "reverse_redemption sample_spent 10 33 = Inr (db', 50)" by blast
  with reversal_returns_points_once [OF sample_spent_inv r] show ?thesis by blast
qed

subsection \<open>Repeating an adjustment\<close>

text \<open>
  A manual adjustment sent again under the same idempotency key, even one that read
  the tables before the first was committed, changes nothing and answers with the first
  one's row.
\<close>

theorem adjustment_applied_once:
  assumes inv: "loyalty_inv db" and raw: "raw \<noteq> []"
    and t: "t \<in> set (ld_txns db)" "lt_business_id t = au_business_id user"
      "lt_idempotency_key t = Some (manual_adjustment_idempotency_key raw)"
    and seen: "prefix (ld_txns seen) (ld_txns db)"
    and again: "adjust_customer_points bs seen db user cid d (Some raw) = Inr (db', t')"
  shows "db' = db \<and> t' = t"
proof -
  let ?k = "manual_adjustment_idempotency_key raw"
  have key: "namespaced_key (Some raw) = Some ?k" using raw by (simp add: namespaced_key_def)
  from adjust_customer_shape [OF again] show ?thesis unfolding key
  proof
    assume "replay_adjustment seen (au_business_id user) (Some ?k) = Inr None \<and> adjusted db user cid d (Some ?k) db' t'"
    then obtain db1 where p: "posts db (au_business_id user) cid d t' db1" and k: "lt_idempotency_key t' = Some ?k"
      and u: "unique_index txn_key (ld_txns db1)"
      by (auto simp: adjusted_def commit_loyalty_eq)
    have "txn_key t = txn_key t'" "txn_key t \<noteq> None" using t k posts_delta [OF p] by (simp_all add: txn_key_def)
    then show ?thesis using u t(1) by (auto simp: posts_simps(1) [OF p] unique_index_snoc)
  next
    assume "db' = db \<and> (\<exists>tables \<in> {seen, db}. replay_adjustment tables (au_business_id user) (Some ?k) = Inr (Some t'))"
    then obtain tables where db': "db' = db" and tb: "tables = seen \<or> tables = db"
      and f: "find_by_idempotency_key tables (au_business_id user) ?k = Inr (Some t')"
      by (auto simp: replay_adjustment_def)
    from scalar_one_or_none_filter [OF f [unfolded find_by_idempotency_key_def]]
    have t': "txn_key t' = txn_key t" "t' \<in> set (ld_txns tables)" using t by (auto simp: txn_key_def)
    with tb seen have in_db: "t' \<in> set (ld_txns db)" by (auto dest: set_mono_prefix)
    have "txn_key t = Some (au_business_id user, ?k)" using t by (simp add: txn_key_def)
    with unique_index_eq [OF loyalty_inv_index [OF inv] in_db t(1)] t'(1) db' show ?thesis by simp
  qed
qed

definition sample_owner :: auth_user where
  "sample_owner = \<lparr>au_user_id = 99, au_business_id = 10, au_role = OWNER\<rparr>"

definition sample_adjusted :: loyalty_db where
  "sample_adjusted = sample_loyalty\<lparr>ld_customers := [sample_customer 30],
     ld_txns := [sample_txn None ADJUST 30 30 (Some (manual_adjustment_idempotency_key ''k1''))]\<rparr>"

definition sample_business :: business where
  "sample_business = \<lparr>bu_id = 10, bu_currency = ''ZAR'', bu_order_number_sequence = 0, bu_delivery_fee_cents = 2500,
     bu_vat_registered = True, bu_vat_rate_basis_points = 1500, bu_vat_inclusive_pricing = True,
     bu_inventory_enabled = True, bu_loyalty_enabled = True, bu_pos_enabled = True, bu_payment_provider = None,
     bu_pos_cash_enabled = True, bu_pos_card_enabled = True, bu_pos_payfast_enabled = False,
     bu_pos_yoco_enabled = True, bu_pos_ikhoka_enabled = False, bu_pos_direct_eft_enabled = False,
     bu_pos_other_payment_enabled = False, bu_pos_table_number_required = False,
     bu_max_staff_discount_cents = Some 500, bu_online_payment_required = False,
     bu_is_active = True, bu_delivery_reconciliation_enabled = True, bu_delivery_platforms_enabled = True,
     bu_uber_eats_enabled = True, bu_mrd_enabled = False,
     bu_wastage_approval_threshold_cents = 10000\<rparr>"

text \<open>The second request read the tables before the first was committed.\<close>

lemma sample_adjust_race:
  "adjust_customer_points [sample_business] sample_loyalty sample_adjusted sample_owner 5 30 (Some ''k1'') =
     Inr (sample_adjusted, sample_txn None ADJUST 30 30 (Some (manual_adjustment_idempotency_key ''k1'')))"
  by (simp add: adjust_customer_points_def Let_def require_loyalty_enabled_def sample_business_def sample_owner_def
      customer_of_def namespaced_key_def replay_adjustment_def find_by_idempotency_key_def program_of_def
      adjust_and_commit_def adjust_points_def lock_customer_for_balance_update_def write_points_def with_balance_def
      commit_loyalty_def update_where_def unique_index_def txn_key_def is_adjustment_idempotency_violation_def
      sample_adjusted_def sample_loyalty_defs)

lemma adjustment_applied_once_witness:
  "\<exists>db' t'. adjust_customer_points [sample_business] sample_loyalty sample_adjusted sample_owner 5 30 (Some ''k1'') =
     Inr (db', t') \<and> ld_txns db' = [t']"
proof -
  have inv: "loyalty_inv sample_adjusted"
    by (simp add: loyalty_inv_def customer_ok_def points_of_def redeem_row_ok_def audit_trail_def sample_adjusted_def
        sample_loyalty_defs unique_index_def txn_key_def)
  let ?t = "sample_txn None ADJUST 30 30 (Some (manual_adjustment_idempotency_key ''k1''))"
  have "db' = sample_adjusted \<and> t' = ?t"
    if "adjust_customer_points [sample_business] sample_loyalty sample_adjusted sample_owner 5 30 (Some ''k1'') = Inr (db', t')"
    for db' t'
    by (rule adjustment_applied_once [OF inv _ _ _ _ _ that])
      (simp_all add: sample_adjusted_def sample_loyalty_def sample_txn_def sample_owner_def)
  with sample_adjust_race show ?thesis by (simp add: sample_adjusted_def)
qed

end
