(* ===== verification/OrderLaws.thy ===== *)
theory OrderLaws imports Orders StockLaws LoyaltyLaws begin

text \<open>
  What the order handlers promise: the event trail of an order explains its status and
  follows the transition table; the money of a created order is the priced lines, the
  fee and the VAT; a cancellation returns the stock exactly when nothing was prepared;
  refunds recorded on one order never exceed its total.
\<close>

subsection \<open>The trail of an order\<close>

definition events_of :: "order_event list \<Rightarrow> uuid \<Rightarrow> order_event list" where
  "events_of es oid = filter (\<lambda>e. oe_order_id e = oid) es"

text \<open>The events lead from a status (none before the creation) to another, along the table.\<close>

fun leads_to :: "order_status option \<Rightarrow> order_event list \<Rightarrow> order_status \<Rightarrow> bool" where
  "leads_to s [] t = (s = Some t)"
| "leads_to s (e # es) t = (oe_old_status e = s \<and>
     (case s of None \<Rightarrow> True | Some u \<Rightarrow> oe_new_status e = u \<or> may_follow u (oe_new_status e)) \<and>
     leads_to (Some (oe_new_status e)) es t)"

lemma leads_to_snoc:
  "leads_to s es t \<Longrightarrow> oe_old_status e = Some t \<Longrightarrow> oe_new_status e = u \<Longrightarrow> u = t \<or> may_follow t u \<Longrightarrow>
   leads_to s (es @ [e]) u"
  by (induction es arbitrary: s) auto

lemma leads_to_reaches: "leads_to (Some s) es t \<Longrightarrow> may_follow\<^sup>*\<^sup>* s t"
proof (induction es arbitrary: s)
  case (Cons e es)
  then have "may_follow\<^sup>*\<^sup>* (oe_new_status e) t" and "oe_new_status e = s \<or> may_follow s (oe_new_status e)" by auto
  then show ?case by (auto intro: converse_rtranclp_into_rtranclp)
qed simp

definition trail_inv :: "shop_db \<Rightarrow> bool" where
  "trail_inv db = (distinct (map or_id (sh_orders db)) \<and>
     (\<forall>o1 \<in> set (sh_orders db). leads_to None (events_of (sh_events db) (or_id o1)) (or_status o1)) \<and>
     (\<forall>e \<in> set (sh_events db). oe_order_id e \<in> or_id ` set (sh_orders db)))"

text \<open>
  A change of one order: its row is replaced, and an event is written when, and only
  when, the status changes or a note is left.
\<close>

definition changes_order :: "shop_db \<Rightarrow> order \<Rightarrow> order \<Rightarrow> shop_db \<Rightarrow> bool" where
  "changes_order db o1 o2 db' = (o1 \<in> set (sh_orders db) \<and> or_id o2 = or_id o1 \<and>
     sh_orders db' = update_where (\<lambda>r. or_id r = or_id o2) (\<lambda>_. o2) (sh_orders db) \<and>
     (sh_events db' = sh_events db \<and> or_status o2 = or_status o1 \<or>
      (\<exists>e. sh_events db' = sh_events db @ [e] \<and> oe_order_id e = or_id o1 \<and> oe_old_status e = Some (or_status o1) \<and>
         oe_new_status e = or_status o2 \<and> (or_status o2 = or_status o1 \<or> may_follow (or_status o1) (or_status o2)))))"

lemma distinct_id_eq: "distinct (map f xs) \<Longrightarrow> x \<in> set xs \<Longrightarrow> y \<in> set xs \<Longrightarrow> f x = f y \<Longrightarrow> x = y"
  by (auto simp: distinct_map inj_on_def)

lemma changes_order_inv:
  assumes inv: "trail_inv db" and ch: "changes_order db o1 o2 db'"
  shows "trail_inv db'"
proof -
  from ch have o1: "o1 \<in> set (sh_orders db)" and id: "or_id o2 = or_id o1"
    and os: "sh_orders db' = update_where (\<lambda>r. or_id r = or_id o2) (\<lambda>_. o2) (sh_orders db)"
    by (auto simp: changes_order_def)
  have ids: "map or_id (sh_orders db') = map or_id (sh_orders db)" by (simp add: os map_update_where)
  have idset: "or_id ` set (sh_orders db') = or_id ` set (sh_orders db)" using ids by (metis set_map)
  from inv have d: "distinct (map or_id (sh_orders db))"
    and old: "\<And>r. r \<in> set (sh_orders db) \<Longrightarrow> leads_to None (events_of (sh_events db) (or_id r)) (or_status r)"
    and evs: "\<And>e. e \<in> set (sh_events db) \<Longrightarrow> oe_order_id e \<in> or_id ` set (sh_orders db)"
    by (auto simp: trail_inv_def)
  have own: "leads_to None (events_of (sh_events db') (or_id o1)) (or_status o2)"
    using ch old [OF o1] by (auto simp: changes_order_def events_of_def intro: leads_to_snoc)
  have other: "events_of (sh_events db') i = events_of (sh_events db) i" if "i \<noteq> or_id o1" for i
    using ch that by (auto simp: changes_order_def events_of_def)
  have "leads_to None (events_of (sh_events db') (or_id r)) (or_status r)" if r: "r \<in> set (sh_orders db')" for r
  proof (cases "or_id r = or_id o1")
    case True
    from r os obtain r0 where r0: "r0 \<in> set (sh_orders db)" "r = (if or_id r0 = or_id o2 then o2 else r0)"
      by (auto simp: set_update_where)
    with True id have "r = o2" by (auto split: if_splits)
    with own True show ?thesis by simp
  next
    case False
    with r os id have "r \<in> set (sh_orders db)" by (auto simp: set_update_where)
    with other False old show ?thesis by simp
  qed
  moreover have "oe_order_id e \<in> or_id ` set (sh_orders db')" if "e \<in> set (sh_events db')" for e
  proof -
    from ch that have "e \<in> set (sh_events db) \<or> oe_order_id e = or_id o1" by (auto simp: changes_order_def)
    with evs o1 show ?thesis unfolding idset by blast
  qed
  ultimately show ?thesis using d by (simp add: trail_inv_def ids)
qed

lemma new_order_inv:
  assumes inv: "trail_inv db" and fresh: "or_id o1 \<notin> or_id ` set (sh_orders db)"
    and os: "sh_orders db' = sh_orders db @ [o1]" and es: "sh_events db' = sh_events db @ [e]"
    and e: "oe_order_id e = or_id o1" "oe_old_status e = None" "oe_new_status e = or_status o1"
  shows "trail_inv db'"
proof -
  have "oe_order_id x \<noteq> or_id o1" if "x \<in> set (sh_events db)" for x
  proof -
    from inv that have "oe_order_id x \<in> or_id ` set (sh_orders db)" by (simp add: trail_inv_def)
    with fresh show ?thesis by auto
  qed
  then have none: "events_of (sh_events db) (or_id o1) = []" by (auto simp: events_of_def filter_empty_conv)
  have "leads_to None (events_of (sh_events db') (or_id r)) (or_status r)" if "r \<in> set (sh_orders db')" for r
  proof (cases "r = o1")
    case True
    with none e show ?thesis by (simp add: es events_of_def)
  next
    case False
    with that os have r: "r \<in> set (sh_orders db)" by simp
    with fresh have "or_id r \<noteq> or_id o1" by (metis image_eqI)
    with e(1) have "oe_order_id e \<noteq> or_id r" by simp
    then have "events_of (sh_events db') (or_id r) = events_of (sh_events db) (or_id r)" by (simp add: es events_of_def)
    with inv r show ?thesis by (simp add: trail_inv_def)
  qed
  with inv fresh e show ?thesis by (auto simp: trail_inv_def os es)
qed

subsection \<open>The handlers change one order\<close>

lemma shop_simps [simp]:
  "sh_orders (write_order o1 db) = update_where (\<lambda>r. or_id r = or_id o1) (\<lambda>_. o1) (sh_orders db)"
  "sh_events (write_order o1 db) = sh_events db" "sh_events (add_event e db) = sh_events db @ [e]"
  "sh_orders (add_event e db) = sh_orders db" "sh_orders (add_audit a b c d db) = sh_orders db"
  "sh_events (add_audit a b c d db) = sh_events db" "sh_orders (add_order o1 db) = sh_orders db @ [o1]"
  "sh_events (add_order o1 db) = sh_events db" "sh_stock (add_event e db) = sh_stock db"
  "sh_stock (write_order o1 db) = sh_stock db" "sh_stock (add_audit a b c d db) = sh_stock db"
  "sh_stock (add_order o1 db) = sh_stock db" "sh_items (add_order o1 db) = sh_items db"
  "sh_items (add_event e db) = sh_items db" "sh_businesses (add_event e db) = sh_businesses db"
  "sh_businesses (add_order o1 db) = sh_businesses db" "sh_businesses (write_order o1 db) = sh_businesses db"
  "sh_loyalty (add_event e db) = sh_loyalty db" "sh_loyalty (write_order o1 db) = sh_loyalty db"
  "sh_loyalty (add_audit a b c d db) = sh_loyalty db" "sh_loyalty (add_order o1 db) = sh_loyalty db"
  by (simp_all add: write_order_def add_event_def add_audit_def add_order_def)

lemma stamp_milestone_simps [simp]:
  "or_id (stamp_milestone r m t u n o1) = or_id o1" "or_status (stamp_milestone r m t u n o1) = or_status o1"
  "or_payment_status (stamp_milestone r m t u n o1) = or_payment_status o1"
  "or_business_id (stamp_milestone r m t u n o1) = or_business_id o1"
  "or_order_number (stamp_milestone r m t u n o1) = or_order_number o1"
  "or_payment_required (stamp_milestone r m t u n o1) = or_payment_required o1"
  by (simp_all add: stamp_milestone_def Let_def split: option.split)

lemma fold_audit_simps [simp]:
  "sh_orders (fold (\<lambda>a. add_audit b u a t) xs db) = sh_orders db"
  "sh_events (fold (\<lambda>a. add_audit b u a t) xs db) = sh_events db"
  "sh_stock (fold (\<lambda>a. add_audit b u a t) xs db) = sh_stock db"
  "sh_businesses (fold (\<lambda>a. add_audit b u a t) xs db) = sh_businesses db"
  by (induction xs arbitrary: db) (simp_all add: add_audit_def)

lemma cancel_stock_simps:
  assumes "cancel_stock db user o1 now = Inr db'"
  shows "sh_orders db' = sh_orders db \<and> sh_events db' = sh_events db"
  using assms by (auto simp: cancel_stock_def Let_def and_then_eq_Inr)

lemma status_change_shape:
  assumes "update_order_status db user oid st reason m now = Inr (db', o2)"
  obtains o1 req db1 where "order_of db (au_business_id user) oid = Inr o1" "order_status_of st = Inr req"
    "may_follow (or_status o1) req" "or_status o2 = req" "or_id o2 = oid"
    "req = IN_PROGRESS \<longrightarrow> or_payment_required o1 \<longrightarrow> or_payment_status o1 = PS_PAID \<and> or_payment_status o2 = PS_PAID"
    "if req = CANCELLED then cancel_stock db user o1 now = Inr db1 else db1 = db"
    "db' = add_event \<lparr>oe_order_id = oid, oe_business_id = au_business_id user, oe_old_status = Some (or_status o1),
       oe_new_status = req, oe_changed_by_user_id = Some (au_user_id user)\<rparr> (write_order o2 db1)"
    "shop_ok db'" "or_business_id o2 = au_business_id user" "or_order_number o2 = or_order_number o1"
proof -
  from assms obtain o1 req where o1: "order_of db (au_business_id user) oid = Inr o1" and req: "order_status_of st = Inr req"
    and f: "may_follow (or_status o1) req"
    and pay: "\<not> (req = IN_PROGRESS \<and> or_payment_required o1 \<and> or_payment_status o1 \<noteq> PS_PAID)"
    by (auto simp: update_order_status_def Let_def and_then_eq_Inr may_follow_def)
  note i = order_of_in [OF o1]
  let ?o2 = "stamp_milestone req m reason (au_user_id user) now (o1\<lparr>or_status := req\<rparr>)"
  let ?o3 = "if req = ACCEPTED \<and> or_payment_required o1 then ?o2\<lparr>or_payment_status := PS_PENDING\<rparr> else ?o2"
  from assms o1 req f pay obtain db1 where "(if req = CANCELLED then cancel_stock db user o1 now else Inr db) = Inr db1"
    and c: "commit_shop (add_event \<lparr>oe_order_id = oid, oe_business_id = au_business_id user,
       oe_old_status = Some (or_status o1), oe_new_status = req,
       oe_changed_by_user_id = Some (au_user_id user)\<rparr> (write_order ?o3 db1)) = Inr db'" and o2: "o2 = ?o3"
    by (auto simp: update_order_status_def Let_def and_then_eq_Inr may_follow_def)
  then have "if req = CANCELLED then cancel_stock db user o1 now = Inr db1 else db1 = db" by (auto split: if_splits)
  from that [OF o1 req f _ _ _ this] i pay o2 c show thesis by (auto simp: commit_shop_eq)
qed

lemma status_change_changes:
  assumes "update_order_status db user oid st reason m now = Inr (db', o2)"
  shows "\<exists>o1. changes_order db o1 o2 db'"
proof -
  from assms obtain o1 req db1 where o1: "order_of db (au_business_id user) oid = Inr o1"
    and f: "may_follow (or_status o1) req" "or_status o2 = req" "or_id o2 = oid"
    and d: "if req = CANCELLED then cancel_stock db user o1 now = Inr db1 else db1 = db"
    and db': "db' = add_event \<lparr>oe_order_id = oid, oe_business_id = au_business_id user, oe_old_status = Some (or_status o1),
       oe_new_status = req, oe_changed_by_user_id = Some (au_user_id user)\<rparr> (write_order o2 db1)"
    by (rule status_change_shape)
  have "sh_orders db1 = sh_orders db \<and> sh_events db1 = sh_events db"
    using d cancel_stock_simps by (cases "req = CANCELLED") auto
  then show ?thesis using order_of_in [OF o1] f by (intro exI [of _ o1]) (simp add: changes_order_def db')
qed

lemma delivery_fee_shape:
  assumes "set_delivery_fee db user oid fee = Inr (db', o2)"
  obtains o1 biz where "order_of db (au_business_id user) oid = Inr o1" "business_of db (au_business_id user) = Inr biz"
    "or_status o1 = PENDING_DELIVERY_FEE" "or_status o2 = FEE_SENT" "or_id o2 = oid"
    "total_with_vat biz (max 0 (or_subtotal_cents o1 - or_discount_cents o1 - or_loyalty_discount_cents o1 + fee)) =
       Inr (or_total_cents o2, or_tax_cents o2)"
    "db' = add_event \<lparr>oe_order_id = oid, oe_business_id = au_business_id user,
       oe_old_status = Some PENDING_DELIVERY_FEE, oe_new_status = FEE_SENT,
       oe_changed_by_user_id = Some (au_user_id user)\<rparr> (write_order o2 db)" "shop_ok db'"
proof -
  from assms obtain o1 biz tot tax where o1: "order_of db (au_business_id user) oid = Inr o1"
    and biz: "business_of db (au_business_id user) = Inr biz" and st: "or_status o1 = PENDING_DELIVERY_FEE"
    and v: "total_with_vat biz (max 0 (or_subtotal_cents o1 - or_discount_cents o1 - or_loyalty_discount_cents o1 + fee)) =
       Inr (tot, tax)"
    and o2: "o2 = o1\<lparr>or_delivery_fee_cents := fee, or_total_cents := tot, or_tax_cents := tax, or_status := FEE_SENT\<rparr>"
    and c: "commit_shop (add_event \<lparr>oe_order_id = oid, oe_business_id = au_business_id user,
       oe_old_status = Some PENDING_DELIVERY_FEE, oe_new_status = FEE_SENT,
       oe_changed_by_user_id = Some (au_user_id user)\<rparr> (write_order o2 db)) = Inr db'"
    by (auto simp: set_delivery_fee_def Let_def and_then_eq_Inr)
  from that [OF o1 biz st] order_of_in [OF o1] v o2 c show thesis by (simp add: commit_shop_eq)
qed

lemma payment_shape:
  assumes "update_payment_status db user oid ps pm ref now = Inr (db', o2)"
  obtains o1 db1 where "order_of db (au_business_id user) oid = Inr o1" "o2 = record_payment ps pm ref now o1"
    "ps \<notin> {PS_REFUNDED, PS_PARTIALLY_REFUNDED, PS_VOIDED}"
    "or_payment_status o1 = PS_PAID \<and> ps \<noteq> PS_PAID \<longrightarrow> au_role user \<in> {OWNER, MANAGER}"
    "sh_orders db' = sh_orders (write_order o2 db)"
    "sh_events db' = sh_events db @ (if pm = Some ''MANUAL'' then [note_event user o1] else [])"
proof -
  from assms obtain o1 where o1: "order_of db (au_business_id user) oid = Inr o1"
    and p: "ps \<notin> {PS_REFUNDED, PS_PARTIALLY_REFUNDED, PS_VOIDED}"
      "or_payment_status o1 = PS_PAID \<and> ps \<noteq> PS_PAID \<longrightarrow> au_role user \<in> {OWNER, MANAGER}"
    by (auto simp: update_payment_status_def Let_def and_then_eq_Inr)
  let ?o2 = "record_payment ps pm ref now o1"
  from assms o1 p have "o2 = ?o2" "sh_orders db' = sh_orders (write_order ?o2 db)"
    "sh_events db' = sh_events db @ (if pm = Some ''MANUAL'' then [note_event user o1] else [])"
    by (auto simp: update_payment_status_def Let_def and_then_eq_Inr commit_shop_eq split: if_splits)
  with that o1 p show thesis by blast
qed

lemma refund_shape:
  assumes "refund_order_payment rp db user oid body now = Inr (db', o2)"
  obtains o1 where "order_of db (au_business_id user) oid = Inr o1" "or_id o2 = or_id o1" "or_status o2 = or_status o1"
    "or_payment_status o1 = PS_PAID" "sh_orders db' = sh_orders (write_order o2 db)"
    "sh_events db' = sh_events db @ (if rq_confirm_manual body then [note_event user o1] else [])"
    "or_total_cents o2 = or_total_cents o1" "or_business_id o2 = or_business_id o1"
    "or_payment_status o2 = PS_PAID \<or>
       (\<exists>n. or_refund_amount_cents o2 = Some n \<and> n = refund_amount (rq_amount_cents body) (or_total_cents o1) \<and>
          n \<le> or_total_cents o1 \<and> or_payment_status o2 \<in> {PS_REFUNDED, PS_PARTIALLY_REFUNDED})"
proof -
  from assms obtain o1 where o1: "order_of db (au_business_id user) oid = Inr o1"
    by (auto simp: refund_order_payment_def Let_def and_then_eq_Inr)
  show thesis
  proof (cases "rq_confirm_manual body")
    case True
    with assms o1 show thesis
      by (intro that [OF o1]) (auto simp: refund_order_payment_def confirm_manual_refund_def Let_def and_then_eq_Inr commit_shop_eq
          split: if_splits)
  next
    case False
    with assms o1 show thesis
      by (intro that [OF o1])
        (auto simp: refund_order_payment_def Let_def and_then_eq_Inr commit_shop_eq split: if_splits)
  qed
qed

lemma note_event_simps [simp]:
  "oe_order_id (note_event u o1) = or_id o1" "oe_old_status (note_event u o1) = Some (or_status o1)"
  "oe_new_status (note_event u o1) = or_status o1"
  by (simp_all add: note_event_def)

lemma record_payment_simps [simp]:
  "or_id (record_payment ps pm ref now o1) = or_id o1" "or_status (record_payment ps pm ref now o1) = or_status o1"
  "or_payment_status (record_payment ps pm ref now o1) = ps"
  "or_total_cents (record_payment ps pm ref now o1) = or_total_cents o1"
  "or_business_id (record_payment ps pm ref now o1) = or_business_id o1"
  "or_order_number (record_payment ps pm ref now o1) = or_order_number o1"
  by (simp_all add: record_payment_def)

lemma noted_changes:
  assumes "order_of db b oid = Inr o1" "or_id o2 = or_id o1" "or_status o2 = or_status o1"
    "sh_orders db' = sh_orders (write_order o2 db)" "sh_events db' = sh_events db @ (if n then [note_event user o1] else [])"
  shows "changes_order db o1 o2 db'"
  using assms order_of_in [OF assms(1)] by (auto simp: changes_order_def)

lemma link_changes:
  assumes "o1 \<in> set (sh_orders db)"
  shows "store_payment_link link db o1 = db \<or> (\<exists>o2. changes_order db o1 o2 (store_payment_link link db o1))"
proof -
  have "changes_order db o1 (o1\<lparr>or_payment_link_url := l\<rparr>) (write_order (o1\<lparr>or_payment_link_url := l\<rparr>) db)" for l
    using assms by (simp add: changes_order_def)
  then show ?thesis unfolding store_payment_link_def by (auto split: sum.split option.split)
qed

lemma next_number_shape:
  assumes "next_order_number db business = Inr (db', b)"
  shows "db' = db\<lparr>sh_businesses := update_where (\<lambda>b. bu_id b = business)
      (\<lambda>b. b\<lparr>bu_order_number_sequence := bu_order_number_sequence b + 1\<rparr>) (sh_businesses db)\<rparr> \<and>
    (\<exists>b0 \<in> set (sh_businesses db). bu_id b0 = business \<and>
       b = b0\<lparr>bu_order_number_sequence := bu_order_number_sequence b0 + 1\<rparr>)"
proof -
  let ?bump = "\<lambda>b. b\<lparr>bu_order_number_sequence := bu_order_number_sequence b + 1\<rparr>"
  from assms have db': "db' = db\<lparr>sh_businesses := update_where (\<lambda>b. bu_id b = business) ?bump (sh_businesses db)\<rparr>"
    and b: "business_of db' business = Inr b" by (auto simp: next_order_number_def Let_def and_then_eq_Inr)
  from business_of_in [OF b] have "b \<in> set (update_where (\<lambda>b. bu_id b = business) ?bump (sh_businesses db))" "bu_id b = business"
    by (simp_all add: db')
  then obtain b0 where b0: "b0 \<in> set (sh_businesses db)" "b = (if bu_id b0 = business then ?bump b0 else b0)"
    unfolding set_update_where by (elim imageE) blast
  have i: "bu_id b0 = business"
  proof (rule ccontr)
    assume n: "bu_id b0 \<noteq> business"
    with b0(2) have "b = b0" by (simp only: if_False)
    with n \<open>bu_id b = business\<close> show False by (simp only:)
  qed
  with b0(2) have "b = ?bump b0" by (simp only: if_True simp_thms)
  with i b0(1) db' show ?thesis by blast
qed

lemma manual_order_simps [simp]:
  "or_id (manual_order b user body oid now s f t x) = oid" "or_status (manual_order b user body oid now s f t x) = NEW"
  "or_business_id (manual_order b user body oid now s f t x) = au_business_id user"
  "or_subtotal_cents (manual_order b user body oid now s f t x) = s"
  "or_delivery_fee_cents (manual_order b user body oid now s f t x) = f"
  "or_total_cents (manual_order b user body oid now s f t x) = t" "or_tax_cents (manual_order b user body oid now s f t x) = x"
  "or_order_number (manual_order b user body oid now s f t x) = format_order_number (bu_order_number_sequence b)"
  "or_discount_cents (manual_order b user body oid now s f t x) = 0"
  "or_loyalty_discount_cents (manual_order b user body oid now s f t x) = 0"
  by (simp_all add: manual_order_def new_order_def)

lemma created_event_simps [simp]:
  "oe_order_id (created_event u o1) = or_id o1" "oe_old_status (created_event u o1) = None"
  "oe_new_status (created_event u o1) = or_status o1"
  by (simp_all add: created_event_def)

lemma create_order_shape:
  assumes "create_order db user body oid now = Inr (db', o1)"
  obtains rs db1 biz rows s f tot tax where
    "(if catalog_entries (oc_items body) = [] then Inr []
      else resolve_pos_items (sh_catalog db) (au_business_id user) (catalog_entries (oc_items body))) = Inr rs"
    "next_order_number db (au_business_id user) = Inr (db1, biz)"
    "rows = item_rows oid (au_business_id user) (oc_notes body) (oc_items body) rs"
    "s = sum_list (map oi_line_total_cents rows)" "f = order_delivery_fee biz (oc_order_mode body)"
    "total_with_vat biz (max 0 (s + f)) = Inr (tot, tax)" "o1 = manual_order biz user body oid now s f tot tax"
    "db' = add_event (created_event user o1) (add_order o1 (db1\<lparr>sh_items := sh_items db1 @ rows\<rparr>))" "shop_ok db'"
  using assms by (auto simp: create_order_def Let_def and_then_eq_Inr commit_shop_eq)

text \<open>One committed request to the order endpoints.\<close>

inductive order_step :: "shop_db \<Rightarrow> shop_db \<Rightarrow> bool" where
  created: "create_order db user body oid now = Inr (db', o1) \<Longrightarrow> oid \<notin> or_id ` set (sh_orders db) \<Longrightarrow>
    valid_order_create body \<Longrightarrow> order_step db db'"
| status: "change_order_status link db user oid st reason m now = Inr db' \<Longrightarrow> order_step db db'"
| fee: "set_delivery_fee db user oid n = Inr (db', o1) \<Longrightarrow> order_step db db'"
| payment: "update_payment_status db user oid ps pm ref now = Inr (db', o1) \<Longrightarrow> order_step db db'"
| refund: "refund_order_payment rp db user oid body now = Inr (db', o1) \<Longrightarrow> order_step db db'"

lemma written_in: "o1 \<in> set (sh_orders db) \<Longrightarrow> or_id o2 = or_id o1 \<Longrightarrow>
    o2 \<in> set (update_where (\<lambda>r. or_id r = or_id o2) (\<lambda>_. o2) (sh_orders db))"
  by (force simp: set_update_where)

lemma order_step_trail: "order_step db db' \<Longrightarrow> trail_inv db \<Longrightarrow> trail_inv db'"
proof (induction rule: order_step.induct)
  case (created db user body oid now db' o1)
  from created.hyps(1) obtain db1 biz rows s f tot tax where nx: "next_order_number db (au_business_id user) = Inr (db1, biz)"
    and o1: "o1 = manual_order biz user body oid now s f tot tax"
    and db': "db' = add_event (created_event user o1) (add_order o1 (db1\<lparr>sh_items := sh_items db1 @ rows\<rparr>))"
    by (rule create_order_shape)
  have "sh_orders db1 = sh_orders db" "sh_events db1 = sh_events db" using next_number_shape [OF nx] by simp_all
  then show ?case using created.prems created.hyps(2)
    by (intro new_order_inv [of db o1 db' "created_event user o1"]) (simp_all add: db' o1)
next
  case (status link db user oid st reason m now db')
  then obtain db1 o2 where u: "update_order_status db user oid st reason m now = Inr (db1, o2)"
    and db': "db' = store_payment_link link db1 o2" by (auto simp: change_order_status_def and_then_eq_Inr)
  from status_change_changes [OF u] obtain o1 where ch: "changes_order db o1 o2 db1" by blast
  have inv: "trail_inv db1" by (rule changes_order_inv [OF status.prems ch])
  from ch have "o2 \<in> set (sh_orders db1)" using written_in by (auto simp: changes_order_def)
  from link_changes [OF this, of link] inv changes_order_inv show ?case unfolding db' by metis
next
  case (fee db user oid n db' o2)
  from fee.hyps obtain o1 biz where o1: "order_of db (au_business_id user) oid = Inr o1" "or_status o1 = PENDING_DELIVERY_FEE"
      "or_status o2 = FEE_SENT" "or_id o2 = oid"
    and db': "db' = add_event \<lparr>oe_order_id = oid, oe_business_id = au_business_id user,
       oe_old_status = Some PENDING_DELIVERY_FEE, oe_new_status = FEE_SENT,
       oe_changed_by_user_id = Some (au_user_id user)\<rparr> (write_order o2 db)"
    by (rule delivery_fee_shape)
  have "changes_order db o1 o2 db'"
    using order_of_in [OF o1(1)] o1 by (simp add: changes_order_def db' may_follow_def)
  with fee.prems show ?case by (rule changes_order_inv)
next
  case (payment db user oid ps pm ref now db' o2)
  from payment.hyps obtain o1 where o1: "order_of db (au_business_id user) oid = Inr o1"
    and o2: "o2 = record_payment ps pm ref now o1" and os: "sh_orders db' = sh_orders (write_order o2 db)"
    and es: "sh_events db' = sh_events db @ (if pm = Some ''MANUAL'' then [note_event user o1] else [])"
    by (rule payment_shape)
  have "or_id o2 = or_id o1" "or_status o2 = or_status o1" by (simp_all add: o2)
  from changes_order_inv [OF payment.prems noted_changes [OF o1 this os es]] show ?case .
next
  case (refund rp db user oid body now db' o2)
  from refund.hyps obtain o1 where o1: "order_of db (au_business_id user) oid = Inr o1"
    and k: "or_id o2 = or_id o1" "or_status o2 = or_status o1" and os: "sh_orders db' = sh_orders (write_order o2 db)"
    and es: "sh_events db' = sh_events db @ (if rq_confirm_manual body then [note_event user o1] else [])"
    by (rule refund_shape)
  from changes_order_inv [OF refund.prems noted_changes [OF o1 k os es]] show ?case .
qed


subsection \<open>Looking an order up again\<close>

lemma filter_distinct_key:
  "distinct (map f xs) \<Longrightarrow> x \<in> set xs \<Longrightarrow> P x \<Longrightarrow> (\<And>y. P y \<Longrightarrow> f y = f x) \<Longrightarrow> filter P xs = [x]"
proof (induction xs)
  case (Cons y xs)
  show ?case
  proof (cases "x = y")
    case True
    have "filter P xs = []"
    proof (rule filter_False)
      show "\<forall>z \<in> set xs. \<not> P z" using Cons.prems True by (metis distinct.simps(2) image_eqI list.map(2) list.set_map)
    qed
    then show ?thesis using Cons.prems(3) True by (simp only: filter.simps if_True)
  next
    case False
    with Cons.prems(2) have x: "x \<in> set xs" by simp
    with Cons.prems(1) have n: "f y \<noteq> f x" by auto
    have "\<not> P y" using n Cons.prems(4) by blast
    moreover have d: "distinct (map f xs)" using Cons.prems(1) by simp
    moreover have "filter P xs = [x]" by (rule Cons.IH [OF d x Cons.prems(3) Cons.prems(4)])
    ultimately show ?thesis by simp
  qed
qed simp

lemma order_of_iff:
  assumes "distinct (map or_id (sh_orders db))"
  shows "order_of db b oid = Inr o1 \<longleftrightarrow> o1 \<in> set (sh_orders db) \<and> or_id o1 = oid \<and> or_business_id o1 = b"
proof
  assume a: "o1 \<in> set (sh_orders db) \<and> or_id o1 = oid \<and> or_business_id o1 = b"
  have "filter (\<lambda>r. or_id r = oid \<and> or_business_id r = b) (sh_orders db) = [o1]"
    by (rule filter_distinct_key [OF assms]) (use a in simp_all)
  then show "order_of db b oid = Inr o1" by (simp add: order_of_def)
qed (rule order_of_in)

lemma order_of_written:
  assumes d: "distinct (map or_id (sh_orders db))" and o1: "order_of db b oid = Inr o1"
    and o2: "or_id o2 = oid" "or_business_id o2 = b" and os: "sh_orders db' = sh_orders (write_order o2 db)"
  shows "order_of db' b oid = Inr o2" and "distinct (map or_id (sh_orders db'))"
proof -
  show d': "distinct (map or_id (sh_orders db'))" using d by (simp add: os map_update_where)
  have "o2 \<in> set (sh_orders db')" using order_of_in [OF o1] o2 written_in [of o1 db o2] by (simp add: os)
  with d' o2 show "order_of db' b oid = Inr o2" by (simp add: order_of_iff)
qed

subsection \<open>Refunds\<close>

text \<open>A series of refund requests on one order, and the money recorded as returned.\<close>

fun refund_requests ::
  "(string \<Rightarrow> order \<Rightarrow> business \<Rightarrow> int \<Rightarrow> refund_result) \<Rightarrow> shop_db \<Rightarrow> auth_user \<Rightarrow> uuid \<Rightarrow>
   (refund_request \<times> instant) list \<Rightarrow> shop_db \<times> int" where
  "refund_requests rp db user oid [] = (db, 0)"
| "refund_requests rp db user oid ((body, now) # rs) =
     (case refund_order_payment rp db user oid body now of
        Inl e \<Rightarrow> refund_requests rp db user oid rs
      | Inr (db', o2) \<Rightarrow>
          (case refund_requests rp db' user oid rs of (db'', n) \<Rightarrow>
             (db'', n + (if or_payment_status o2 = PS_PAID then 0 else dict_get 0 (or_refund_amount_cents o2)))))"

lemma refund_needs_paid:
  assumes "order_of db (au_business_id user) oid = Inr o1" and "or_payment_status o1 \<noteq> PS_PAID"
  shows "\<exists>e. refund_order_payment rp db user oid body now = Inl e"
proof (cases "refund_order_payment rp db user oid body now")
  case (Inr r)
  then obtain db' o2 where "refund_order_payment rp db user oid body now = Inr (db', o2)" by (cases r) auto
  then obtain o1' where "order_of db (au_business_id user) oid = Inr o1'" "or_payment_status o1' = PS_PAID"
    by (rule refund_shape)
  with assms show ?thesis by simp
qed simp

lemma no_more_refunds:
  assumes "order_of db (au_business_id user) oid = Inr o1" and "or_payment_status o1 \<noteq> PS_PAID"
  shows "refund_requests rp db user oid rs = (db, 0)"
proof (induction rs)
  case (Cons r rs)
  obtain body now where r: "r = (body, now)" by (cases r)
  from refund_needs_paid [OF assms] obtain e where "refund_order_payment rp db user oid body now = Inl e" by blast
  with Cons r show ?case by simp
qed simp

text \<open>
  C25: However many refund requests an order gets, manual confirmations and provider
  refunds in any order, the amounts recorded as refunded add up to at most its total.
\<close>

theorem refunds_within_total:
  assumes "distinct (map or_id (sh_orders db))" and "order_of db (au_business_id user) oid = Inr o1"
    and "0 \<le> or_total_cents o1"
  shows "snd (refund_requests rp db user oid rs) \<le> or_total_cents o1"
  using assms
proof (induction rs arbitrary: db o1)
  case Nil
  then show ?case by simp
next
  case (Cons r rs)
  obtain body now where r: "r = (body, now)" by (cases r)
  show ?case
  proof (cases "refund_order_payment rp db user oid body now")
    case (Inl e)
    with Cons r show ?thesis by simp
  next
    case (Inr x)
    then obtain db' o2 where x: "refund_order_payment rp db user oid body now = Inr (db', o2)" by (cases x) auto
    then obtain o' where o': "order_of db (au_business_id user) oid = Inr o'" and i: "or_id o2 = or_id o'"
      and os: "sh_orders db' = sh_orders (write_order o2 db)"
      and t: "or_total_cents o2 = or_total_cents o'" "or_business_id o2 = or_business_id o'"
      and ps: "or_payment_status o2 = PS_PAID \<or>
       (\<exists>n. or_refund_amount_cents o2 = Some n \<and> n = refund_amount (rq_amount_cents body) (or_total_cents o') \<and>
          n \<le> or_total_cents o' \<and> or_payment_status o2 \<in> {PS_REFUNDED, PS_PARTIALLY_REFUNDED})"
      by (rule refund_shape)
    from o' Cons.prems have [simp]: "o' = o1" by simp
    note w = order_of_written [OF Cons.prems(1) o' _ _ os] order_of_in [OF o']
    have o2: "order_of db' (au_business_id user) oid = Inr o2" "distinct (map or_id (sh_orders db'))" using w i t by simp_all
    show ?thesis
    proof (cases "or_payment_status o2 = PS_PAID")
      case True
      with Cons.IH [OF o2(2,1)] Cons.prems x r t show ?thesis by (simp split: prod.split)
    next
      case False
      with ps no_more_refunds [OF o2(1) False, of rp rs] x r show ?thesis by (auto simp: dict_get_def)
    qed
  qed
qed

subsection \<open>A sample shop\<close>

definition sample_shop :: shop_db where
  "sample_shop = \<lparr>sh_businesses = [sample_business\<lparr>bu_vat_registered := False\<rparr>], sh_catalog = sample_catalog,
     sh_orders = [], sh_items = [], sh_events = [], sh_audit = [], sh_stock = \<lparr>sd_recipes = [], sd_ingredients = [], sd_movements = []\<rparr>,
     sh_loyalty = \<lparr>ld_programs = [], ld_rewards = [], ld_customers = [], ld_txns = [], ld_audit = []\<rparr>,
     sh_tills = [], sh_allocations = [], sh_intents = []\<rparr>"

definition sample_line_create :: order_item_create where
  "sample_line_create = \<lparr>ic_menu_item_id = None, ic_selected_option_ids = [], ic_add_on_selections = [],
     ic_removed_ingredient_ids = [], ic_name = Some ''Platter'', ic_price_cents = Some 4500, ic_qty = 2,
     ic_special_instructions = None\<rparr>"

definition sample_create :: order_create where
  "sample_create = \<lparr>oc_customer_name = None, oc_customer_phone = None, oc_delivery_address = None,
     oc_items = [sample_line_create], oc_notes = None, oc_order_mode = DELIVERY, oc_source = MANUAL\<rparr>"

definition sample_order :: order where
  "sample_order = manual_order (sample_business\<lparr>bu_vat_registered := False, bu_order_number_sequence := 1\<rparr>) sample_owner
     sample_create 77 0 9000 2500 11500 0"

definition sample_shop_created :: shop_db where
  "sample_shop_created = sample_shop\<lparr>
     sh_businesses := [sample_business\<lparr>bu_vat_registered := False, bu_order_number_sequence := 1\<rparr>],
     sh_orders := [sample_order], sh_items := [ad_hoc_item 77 10 None sample_line_create],
     sh_events := [created_event sample_owner sample_order]\<rparr>"

lemma sample_create_order:
  "create_order sample_shop sample_owner sample_create 77 0 = Inr (sample_shop_created, sample_order)"
  by (simp add: create_order_def Let_def catalog_entries_def sample_create_def sample_line_create_def next_order_number_def
      update_where_def sample_shop_def sample_business_def sample_owner_def business_of_def total_with_vat_def
      order_delivery_fee_def commit_shop_eq and_then_eq_Inr shop_ok_def add_event_def add_order_def
      sample_shop_created_def sample_order_def ad_hoc_item_def dict_get_def commit_loyalty_def unique_index_def
      stock_index_def order_key_def order_number_key_def manual_order_def new_order_def created_event_def)

lemmas sample_shop_defs = sample_shop_created_def sample_shop_def sample_order_def manual_order_def new_order_def
  sample_create_def sample_line_create_def ad_hoc_item_def sample_business_def sample_owner_def created_event_def

lemma sample_shop_ok: "shop_ok sample_shop_created"
  using sample_create_order by (auto simp: create_order_def Let_def and_then_eq_Inr commit_shop_eq)

lemma commit_shop_ok: "shop_ok db \<Longrightarrow> commit_shop db = Inr db"
  by (simp add: commit_shop_eq)

lemma shop_ok_notes [simp]:
  "shop_ok (add_event e db) = shop_ok db" "shop_ok (add_audit b u a t db) = shop_ok db"
  by (simp_all add: shop_ok_def add_event_def add_audit_def)

lemma order_of_notes [simp]:
  "order_of (add_event e db) b i = order_of db b i" "order_of (add_audit c u a t db) b i = order_of db b i"
  by (simp_all add: order_of_def)

text \<open>Writing an order that keeps its tenant, number and key breaks no constraint.\<close>

lemma shop_ok_write_order:
  assumes "shop_ok db" and "\<And>r. r \<in> set (sh_orders db) \<Longrightarrow> or_id r = or_id o2 \<Longrightarrow>
    order_key o2 = order_key r \<and> order_number_key o2 = order_number_key r"
  shows "shop_ok (write_order o2 db)"
proof -
  have "unique_index order_key (update_where (\<lambda>r. or_id r = or_id o2) (\<lambda>_. o2) (sh_orders db))"
    "unique_index order_number_key (update_where (\<lambda>r. or_id r = or_id o2) (\<lambda>_. o2) (sh_orders db))"
    using assms by (auto simp: shop_ok_def intro!: unique_index_update_shrink)
  with assms(1) show ?thesis by (simp add: shop_ok_def write_order_def)
qed

lemma sample_accept:
  obtains db' where "change_order_status (\<lambda>_ _. None) sample_shop_created sample_owner 77 ''ACCEPTED'' None None 60 = Inr db'"
    "\<exists>o2. sh_orders db' = [o2] \<and> or_id o2 = 77 \<and> or_status o2 = ACCEPTED" "length (sh_events db') = 2"
proof -
  have a: "order_status_of ''ACCEPTED'' = Inr ACCEPTED" by (simp add: order_status_of_eq_Inr)
  let ?o2 = "stamp_milestone ACCEPTED None None (au_user_id sample_owner) 60 (sample_order\<lparr>or_status := ACCEPTED\<rparr>)"
  have "shop_ok (write_order ?o2 sample_shop_created)"
    using sample_shop_ok by (rule shop_ok_write_order)
      (simp add: sample_shop_created_def order_key_def order_number_key_def stamp_milestone_def)
  then show thesis using that
    by (auto simp: change_order_status_def update_order_status_def a Let_def order_of_def sample_shop_defs commit_shop_ok
        store_payment_link_def update_where_def)
qed


definition sample_shop_paid :: shop_db where
  "sample_shop_paid = sample_shop_created\<lparr>sh_orders := [sample_order\<lparr>or_payment_status := PS_PAID\<rparr>]\<rparr>"

definition sample_refund :: "int option \<Rightarrow> refund_request" where
  "sample_refund a = \<lparr>rq_amount_cents = a, rq_confirm_manual = True, rq_reference = Some ''EFT-1''\<rparr>"

lemma refunds_within_total_witness:
  "snd (refund_requests (\<lambda>_ _ _ _. \<lparr>rr_success = False, rr_status = [], rr_provider_reference = None\<rparr>) sample_shop_paid
     sample_owner 77 [(sample_refund (Some 5000), 1), (sample_refund None, 2)]) = 5000 \<and> (5000::int) \<le> 11500"
proof -
  let ?rp = "\<lambda>_ _ _ _. \<lparr>rr_success = False, rr_status = [], rr_provider_reference = None\<rparr>"
  let ?rs = "[(sample_refund (Some 5000), 1), (sample_refund None, 2)]"
  have ok: "order_of sample_shop_paid (au_business_id sample_owner) 77 = Inr (sample_order\<lparr>or_payment_status := PS_PAID\<rparr>)"
    "distinct (map or_id (sh_orders sample_shop_paid))"
    by (simp_all add: order_of_def sample_shop_paid_def sample_shop_defs)
  have "snd (refund_requests ?rp sample_shop_paid sample_owner 77 ?rs) \<le> or_total_cents (sample_order\<lparr>or_payment_status := PS_PAID\<rparr>)"
    by (rule refunds_within_total [OF ok(2,1)]) (simp add: sample_order_def)
  moreover have "snd (refund_requests ?rp sample_shop_paid sample_owner 77 ?rs) = 5000"
  proof -
    let ?o2 = "sample_order\<lparr>or_payment_status := PS_PARTIALLY_REFUNDED, or_refund_amount_cents := Some 5000,
      or_refund_reference := Some ''EFT-1'', or_refunded_at := Some 1\<rparr>"
    have t: "or_total_cents sample_order = 11500" by (simp add: sample_order_def)
    have w: "order_of (write_order ?o2 sample_shop_paid) (au_business_id sample_owner) 77 = Inr ?o2"
      by (simp add: order_of_def write_order_def update_where_def sample_shop_paid_def sample_shop_defs)
    have "shop_ok sample_shop_paid" using sample_shop_ok by (simp add: shop_ok_def sample_shop_paid_def unique_index_def
          sample_shop_created_def order_key_def order_number_key_def)
    then have c: "shop_ok (write_order ?o2 sample_shop_paid)"
      by (rule shop_ok_write_order) (simp add: sample_shop_paid_def order_key_def order_number_key_def)
    show ?thesis
      by (simp add: refund_order_payment_def ok w confirm_manual_refund_def sample_refund_def refund_amount_def Let_def
          commit_shop_ok c t dict_get_def)
  qed
  ultimately show ?thesis by (simp add: sample_order_def)
qed

end
