(* ===== verification/Variance.thy ===== *)
theory Variance imports Units begin

text \<open>
  \<^verbatim>\<open>backend/app/inventory/variance.py\<close>: what the ledger expected against what was
  counted, in integer basis points, and the value-weighted accuracy of a business.
\<close>

definition default_variance_alert_basis_points :: int where
  "default_variance_alert_basis_points = 200"

record ingredient_variance =
  iv_opening_milli :: int
  iv_received_milli :: int
  iv_theoretical_consumption_milli :: int
  iv_wastage_milli :: int
  iv_adjustment_milli :: int
  iv_counted_milli :: int
  iv_unit_cost_micro_cents :: int

definition expected_milli :: "ingredient_variance \<Rightarrow> int" where
  "expected_milli v = iv_opening_milli v + iv_received_milli v - iv_theoretical_consumption_milli v
     - iv_wastage_milli v + iv_adjustment_milli v"

definition variance_milli :: "ingredient_variance \<Rightarrow> int" where
  "variance_milli v = iv_counted_milli v - expected_milli v"

definition variance_value_cents :: "ingredient_variance \<Rightarrow> int result" where
  "variance_value_cents v = value_cents (variance_milli v) (iv_unit_cost_micro_cents v)"

definition theoretical_value_cents :: "ingredient_variance \<Rightarrow> int result" where
  "theoretical_value_cents v = value_cents (iv_theoretical_consumption_milli v) (iv_unit_cost_micro_cents v)"

definition basis_points :: "int \<Rightarrow> int \<Rightarrow> int option result" where
  "basis_points numerator denominator =
     (if denominator = 0 then Inr None
      else and_then (dec_mul_div_int numerator 10000 \<bar>denominator\<bar>) (\<lambda>n. Inr (Some n)))"

definition variance_basis_points :: "ingredient_variance \<Rightarrow> int option result" where
  "variance_basis_points v = basis_points (variance_milli v) (iv_theoretical_consumption_milli v)"

definition is_flagged :: "ingredient_variance \<Rightarrow> bool result" where
  "is_flagged v = and_then (variance_basis_points v) (\<lambda>bp.
     Inr (case bp of None \<Rightarrow> variance_milli v \<noteq> 0
          | Some n \<Rightarrow> default_variance_alert_basis_points \<le> \<bar>n\<bar>))"

text \<open>\<open>f"{Decimal(bp) / Decimal(100):.2f}%"\<close>: a hundredth of an integer has two decimals.\<close>

definition format_basis_points :: "int option \<Rightarrow> string" where
  "format_basis_points bp = (case bp of None \<Rightarrow> ''n/a'' | Some n \<Rightarrow> dec_format_f (Dec n (- 2)) @ ''%'')"

definition value_weighted_accuracy_basis_points :: "ingredient_variance list \<Rightarrow> int option result" where
  "value_weighted_accuracy_basis_points vs =
     and_then (map_result theoretical_value_cents vs) (\<lambda>ts.
     let total_theoretical = sum_list (map abs ts)
     in if total_theoretical = 0 then Inr None
        else and_then (map_result variance_value_cents vs) (\<lambda>ws.
          let total_variance = sum_list (map abs ws)
          in and_then (dec_mul_div_int total_variance 10000 total_theoretical) (\<lambda>error_bp.
             Inr (Some (10000 - error_bp)))))"

subsection \<open>Basis points\<close>

lemma basis_points_exact:
  assumes "d \<noteq> 0" and "\<bar>n * 10000\<bar> < 10 ^ 27"
  shows "basis_points n d = Inr (Some (half_up_signed (n * 10000) \<bar>d\<bar>))"
  using assms dec_mul_div_int_exact [of n 10000 "\<bar>d\<bar>"] by (simp add: basis_points_def)

lemma half_up_signed_flag:
  assumes d: "0 < d"
  shows "200 \<le> \<bar>half_up_signed (n * 10000) d\<bar> \<longleftrightarrow> 399 * d \<le> 20000 * \<bar>n\<bar>"
proof -
  have a: "\<bar>half_up_signed (n * 10000) d\<bar> = half_up (\<bar>n\<bar> * 10000) d"
    using d half_up_nonneg [of "\<bar>n\<bar> * 10000" d] by (auto simp: half_up_signed_def abs_if)
  let ?h = "half_up (\<bar>n\<bar> * 10000) d"
  have lo: "2 * d * ?h \<le> 2 * (\<bar>n\<bar> * 10000) + d" and up: "2 * (\<bar>n\<bar> * 10000) + d < 2 * d * ?h + 2 * d"
    using hu.lower [OF d, of "\<bar>n\<bar> * 10000"] hu.upper [OF d, of "\<bar>n\<bar> * 10000"] by simp_all
  show ?thesis
  proof
    assume "200 \<le> \<bar>half_up_signed (n * 10000) d\<bar>"
    then have "d * 200 \<le> d * ?h" using a d by (simp add: mult_left_mono)
    with lo show "399 * d \<le> 20000 * \<bar>n\<bar>" by (simp add: algebra_simps)
  next
    assume l: "399 * d \<le> 20000 * \<bar>n\<bar>"
    have "d * 199 < d * ?h" using l up by (simp add: algebra_simps)
    then have "199 < ?h" using d by simp
    with a show "200 \<le> \<bar>half_up_signed (n * 10000) d\<bar>" by simp
  qed
qed

text \<open>
  The alert threshold means what it says: an ingredient is flagged exactly when the
  variance is at least 1.995 percent of theoretical consumption (two percent after
  rounding half-up), or, when nothing was consumed, when there is any variance at all.
\<close>

theorem variance_flag_threshold:
  assumes "\<bar>variance_milli v * 10000\<bar> < 10 ^ 27"
  shows "is_flagged v = Inr (if iv_theoretical_consumption_milli v = 0 then variance_milli v \<noteq> 0
           else 399 * \<bar>iv_theoretical_consumption_milli v\<bar> \<le> 20000 * \<bar>variance_milli v\<bar>)"
proof (cases "iv_theoretical_consumption_milli v = 0")
  case True
  then show ?thesis by (simp add: is_flagged_def variance_basis_points_def basis_points_def)
next
  case False
  then show ?thesis
    using basis_points_exact [OF False assms] half_up_signed_flag [of "\<bar>iv_theoretical_consumption_milli v\<bar>" "variance_milli v"]
    by (simp add: is_flagged_def variance_basis_points_def default_variance_alert_basis_points_def)
qed

theorem variance_flag_threshold_witness:
  "is_flagged \<lparr>iv_opening_milli = 100000, iv_received_milli = 0, iv_theoretical_consumption_milli = 27000,
     iv_wastage_milli = 0, iv_adjustment_milli = 0, iv_counted_milli = 72000, iv_unit_cost_micro_cents = 0\<rparr> = Inr True"
  using variance_flag_threshold [of "\<lparr>iv_opening_milli = 100000, iv_received_milli = 0,
     iv_theoretical_consumption_milli = 27000, iv_wastage_milli = 0, iv_adjustment_milli = 0,
     iv_counted_milli = 72000, iv_unit_cost_micro_cents = 0\<rparr>"]
  by (simp add: variance_milli_def expected_milli_def)

end
