(* ===== verification/Stocktake.thy ===== *)
theory Stocktake imports Variance StockLaws begin

text \<open>
  \<^verbatim>\<open>backend/app/api/v1/routes_stocktake.py\<close> over \<^verbatim>\<open>shared/models/stocktake.py\<close>: opening a
  count, saving quantities, freezing the variance, the manager's approval and the
  cancellation.  Each handler takes the database, the caller and the instant of the
  request and returns the committed database or the error; an error leaves the database
  as it was, because the request's session is discarded.  The identity of a new row and
  the default reference text, which formats the present, are parameters.
\<close>

datatype stocktake_status = SK_DRAFT | SK_COMPLETED | SK_APPROVED | SK_CANCELLED

record stocktake_line =
  sl_ingredient_id :: uuid
  sl_counted_quantity_milli :: "int option"
  sl_entered_quantity :: "string option"
  sl_entered_unit :: "string option"
  sl_opening_quantity_milli :: int
  sl_received_quantity_milli :: int
  sl_theoretical_consumption_milli :: int
  sl_wastage_quantity_milli :: int
  sl_adjustment_quantity_milli :: int
  sl_expected_quantity_milli :: int
  sl_variance_quantity_milli :: int
  sl_variance_value_cents :: int
  sl_variance_basis_points :: "int option"
  sl_unit_cost_micro_cents :: int
  sl_notes :: "string option"

record stocktake_session =
  ss_id :: uuid
  ss_business_id :: uuid
  ss_reference :: "string option"
  ss_status :: stocktake_status
  ss_cutoff_at :: instant
  ss_period_start_at :: "instant option"
  ss_opened_by_user_id :: "uuid option"
  ss_completed_by_user_id :: "uuid option"
  ss_approved_by_user_id :: "uuid option"
  ss_opened_at :: instant
  ss_completed_at :: "instant option"
  ss_approved_at :: "instant option"
  ss_total_variance_value_cents :: int
  ss_total_theoretical_value_cents :: int
  ss_notes :: "string option"
  ss_lines :: "stocktake_line list"

record count_db =
  kd_inventory_enabled :: "uuid \<Rightarrow> bool option"
  kd_stock :: stock_db
  kd_sessions :: "stocktake_session list"
  kd_audit :: "(uuid \<times> string) list"

definition is_locked :: "stocktake_session \<Rightarrow> bool" where
  "is_locked s = (ss_status s = SK_APPROVED)"

text \<open>The unique index on open sessions: one draft per business.\<close>

definition draft_index :: "stocktake_session list \<Rightarrow> bool" where
  "draft_index ss = unique_index (\<lambda>s. if ss_status s = SK_DRAFT then Some (ss_business_id s) else None) ss"

definition require_inventory_enabled :: "count_db \<Rightarrow> uuid \<Rightarrow> unit result" where
  "require_inventory_enabled db business =
     and_then (or_raise (kd_inventory_enabled db business) (not_found_error ''Business'')) (\<lambda>enabled.
       raise_if (\<not> enabled) (AppError ''INVENTORY_NOT_ENABLED'' 409))"

definition load_session :: "count_db \<Rightarrow> uuid \<Rightarrow> uuid \<Rightarrow> stocktake_session result" where
  "load_session db business sid =
     and_then (scalar_one_or_none (filter (\<lambda>s. ss_id s = sid \<and> ss_business_id s = business) (kd_sessions db)))
       (\<lambda>row. or_raise row (not_found_error ''Stocktake''))"

definition reject_if_locked :: "stocktake_session \<Rightarrow> unit result" where
  "reject_if_locked s =
     and_then (raise_if (ss_status s = SK_APPROVED) (AppError ''STOCKTAKE_LOCKED'' 409)) (\<lambda>_.
       raise_if (ss_status s = SK_CANCELLED) (AppError ''STOCKTAKE_CANCELLED'' 409))"

definition write_session :: "stocktake_session \<Rightarrow> count_db \<Rightarrow> count_db" where
  "write_session s db = db\<lparr>kd_sessions := update_where (\<lambda>r. ss_id r = ss_id s) (\<lambda>_. s) (kd_sessions db)\<rparr>"

subsection \<open>Variances from the ledger\<close>

definition all_movement_types :: "movement_type list" where
  "all_movement_types = [OPENING_BALANCE, GOODS_RECEIVED, SALE_CONSUMPTION, SALE_REVERSAL, REMAKE_CONSUMPTION,
     WASTAGE, STAFF_MEAL, COMPLIMENTARY, MANUAL_ADJUSTMENT, STOCKTAKE_ADJUSTMENT, SUPPLIER_RETURN, WASTAGE_REVERSAL]"

definition receipt_types :: "movement_type list" where "receipt_types = [GOODS_RECEIVED]"

definition consumption_types :: "movement_type list" where
  "consumption_types = [SALE_CONSUMPTION, REMAKE_CONSUMPTION, SALE_REVERSAL]"

definition wastage_types :: "movement_type list" where
  "wastage_types = [WASTAGE, STAFF_MEAL, COMPLIMENTARY]"

definition adjustment_types :: "movement_type list" where
  "adjustment_types = filter (\<lambda>t. t \<notin> set (receipt_types @ consumption_types @ wastage_types)) all_movement_types"

definition compute_variance ::
  "stock_movement list \<Rightarrow> uuid \<Rightarrow> instant option \<Rightarrow> instant \<Rightarrow> uuid list \<Rightarrow> ingredient \<Rightarrow> ingredient_variance" where
  "compute_variance ms business period_start cutoff ids ing =
     (let opening = (case period_start of None \<Rightarrow> (\<lambda>_. None) | Some t \<Rightarrow> stock_on_hand ms business (Some t) ids);
          totals = movement_totals_by_type ms business period_start (Some cutoff) ids;
          total = (\<lambda>t. dict_get 0 (totals (ing_id ing, t)))
      in \<lparr>iv_opening_milli = dict_get 0 (opening (ing_id ing)),
          iv_received_milli = sum_list (map total receipt_types),
          iv_theoretical_consumption_milli = sum_list (map (\<lambda>t. - total t) consumption_types),
          iv_wastage_milli = sum_list (map (\<lambda>t. - total t) wastage_types),
          iv_adjustment_milli = sum_list (map total adjustment_types),
          iv_counted_milli = 0,
          iv_unit_cost_micro_cents = ing_cost_per_canonical_micro_cents ing\<rparr>)"

text \<open>The variances of a session, by ingredient: only the tenant's own ingredients.\<close>

definition session_ingredients :: "count_db \<Rightarrow> stocktake_session \<Rightarrow> ingredient list" where
  "session_ingredients db s = filter (\<lambda>i. ing_business_id i = ss_business_id s \<and>
      ing_id i \<in> sl_ingredient_id ` set (ss_lines s)) (sd_ingredients (kd_stock db))"

definition compute_variances :: "count_db \<Rightarrow> stocktake_session \<Rightarrow> uuid \<Rightarrow> ingredient_variance option" where
  "compute_variances db s =
     (let ings = session_ingredients db s
      in map_of (map (\<lambda>i. (ing_id i, compute_variance (sd_movements (kd_stock db)) (ss_business_id s)
                 (ss_period_start_at s) (ss_cutoff_at s) (map ing_id ings) i)) ings))"

subsection \<open>Opening\<close>

record open_request =
  oq_reference :: "string option"
  oq_cutoff_at :: "instant option"
  oq_notes :: "string option"

definition sessions_with :: "count_db \<Rightarrow> uuid \<Rightarrow> stocktake_status \<Rightarrow> stocktake_session list" where
  "sessions_with db business st =
     filter (\<lambda>s. ss_business_id s = business \<and> ss_status s = st) (kd_sessions db)"

text \<open>\<open>ORDER BY cutoff_at DESC LIMIT 1\<close>.\<close>

definition last_approved :: "count_db \<Rightarrow> uuid \<Rightarrow> stocktake_session option" where
  "last_approved db business =
     (case rev (sort_key ss_cutoff_at (sessions_with db business SK_APPROVED)) of [] \<Rightarrow> None | s # _ \<Rightarrow> Some s)"

definition new_line :: "ingredient \<Rightarrow> stocktake_line" where
  "new_line i = \<lparr>sl_ingredient_id = ing_id i, sl_counted_quantity_milli = None, sl_entered_quantity = None,
     sl_entered_unit = None, sl_opening_quantity_milli = 0, sl_received_quantity_milli = 0,
     sl_theoretical_consumption_milli = 0, sl_wastage_quantity_milli = 0, sl_adjustment_quantity_milli = 0,
     sl_expected_quantity_milli = 0, sl_variance_quantity_milli = 0, sl_variance_value_cents = 0,
     sl_variance_basis_points = None, sl_unit_cost_micro_cents = ing_cost_per_canonical_micro_cents i,
     sl_notes = None\<rparr>"

definition open_stocktake ::
  "count_db \<Rightarrow> uuid \<Rightarrow> uuid \<Rightarrow> open_request \<Rightarrow> instant \<Rightarrow> uuid \<Rightarrow> string \<Rightarrow> count_db result" where
  "open_stocktake db business user body now new_id default_reference =
     and_then (require_inventory_enabled db business) (\<lambda>_.
     and_then (scalar_one_or_none (sessions_with db business SK_DRAFT)) (\<lambda>open_already.
     and_then (raise_if (open_already \<noteq> None) (AppError ''STOCKTAKE_ALREADY_OPEN'' 409)) (\<lambda>_.
     and_then (scalar_one_or_none (sessions_with db business SK_COMPLETED)) (\<lambda>pending.
     and_then (raise_if (pending \<noteq> None) (AppError ''STOCKTAKE_PENDING_APPROVAL'' 409)) (\<lambda>_.
     let previous = last_approved db business;
         ings = filter (\<lambda>i. ing_business_id i = business \<and> ing_is_active i \<and> \<not> ing_is_deleted i)
                  (sd_ingredients (kd_stock db));
         session = \<lparr>ss_id = new_id, ss_business_id = business,
           ss_reference = (if truthy (oq_reference body) then oq_reference body else Some default_reference),
           ss_status = SK_DRAFT,
           ss_cutoff_at = (case oq_cutoff_at body of None \<Rightarrow> now | Some t \<Rightarrow> t),
           ss_period_start_at = map_option ss_cutoff_at previous,
           ss_opened_by_user_id = Some user, ss_completed_by_user_id = None, ss_approved_by_user_id = None,
           ss_opened_at = now, ss_completed_at = None, ss_approved_at = None,
           ss_total_variance_value_cents = 0, ss_total_theoretical_value_cents = 0,
           ss_notes = oq_notes body, ss_lines = map new_line ings\<rparr>
     in and_then (raise_if (ings = []) (AppError ''NO_INGREDIENTS'' 422)) (\<lambda>_.
        and_then (raise_if (\<not> draft_index (kd_sessions db @ [session])) (IntegrityError ''uq_stocktake_sessions_one_open_per_business'')) (\<lambda>_.
          Inr (db\<lparr>kd_sessions := kd_sessions db @ [session]\<rparr>))))))))"

subsection \<open>Counting\<close>

record count_entry =
  ce_ingredient_id :: uuid
  ce_quantity :: string
  ce_unit :: string
  ce_notes :: "string option"

text \<open>
  The \<open>except (UnitError, ValueError)\<close> of the code: the overflow of the decimal module is
  neither of them and escapes.
\<close>

fun as_invalid_unit :: "app_error \<Rightarrow> app_error" where
  "as_invalid_unit UnitError = AppError ''INVALID_UNIT'' 422"
| "as_invalid_unit ValueError = AppError ''INVALID_UNIT'' 422"
| "as_invalid_unit e = e"

definition count_line :: "count_db \<Rightarrow> uuid \<Rightarrow> count_entry \<Rightarrow> stocktake_line list \<Rightarrow> stocktake_line list result" where
  "count_line db business entry lines =
     and_then (raise_if ((\<forall>l \<in> set lines. sl_ingredient_id l \<noteq> ce_ingredient_id entry))
                (AppError ''INGREDIENT_NOT_ON_COUNT'' 422)) (\<lambda>_.
     and_then (or_raise (find (\<lambda>i. ing_business_id i = business \<and> ing_id i = ce_ingredient_id entry)
                           (sd_ingredients (kd_stock db))) (AppError ''INGREDIENT_NOT_ON_COUNT'' 422)) (\<lambda>ing.
     and_then (case to_milli (QText (ce_quantity entry)) (Some (ce_unit entry)) (Some (ing_canonical_unit ing)) of
                 Inl e \<Rightarrow> Inl (as_invalid_unit e) | Inr n \<Rightarrow> Inr n) (\<lambda>counted.
     and_then (raise_if (counted < 0) (AppError ''INVALID_QUANTITY'' 422)) (\<lambda>_.
       Inr (update_where (\<lambda>l. sl_ingredient_id l = ce_ingredient_id entry)
         (\<lambda>l. l\<lparr>sl_counted_quantity_milli := Some counted, sl_entered_quantity := Some (ce_quantity entry),
               sl_entered_unit := Some (ce_unit entry),
               sl_notes := (if ce_notes entry = None then sl_notes l else ce_notes entry)\<rparr>) lines)))))"

fun count_lines :: "count_db \<Rightarrow> uuid \<Rightarrow> count_entry list \<Rightarrow> stocktake_line list \<Rightarrow> stocktake_line list result" where
  "count_lines db business [] lines = Inr lines"
| "count_lines db business (e # es) lines =
     and_then (count_line db business e lines) (count_lines db business es)"

definition submit_counts :: "count_db \<Rightarrow> uuid \<Rightarrow> uuid \<Rightarrow> count_entry list \<Rightarrow> count_db result" where
  "submit_counts db business sid entries =
     and_then (require_inventory_enabled db business) (\<lambda>_.
     and_then (load_session db business sid) (\<lambda>s.
     and_then (reject_if_locked s) (\<lambda>_.
     and_then (raise_if (ss_status s = SK_COMPLETED) (AppError ''STOCKTAKE_COMPLETED'' 409)) (\<lambda>_.
     and_then (count_lines db business entries (ss_lines s)) (\<lambda>lines.
       Inr (write_session (s\<lparr>ss_lines := lines\<rparr>) db))))))"

subsection \<open>Completing\<close>

text \<open>The snapshot of one line, with what it adds to the two totals.\<close>

definition snapshot_line ::
  "(uuid \<Rightarrow> ingredient_variance option) \<Rightarrow> stocktake_line \<Rightarrow> (stocktake_line \<times> int \<times> int) result" where
  "snapshot_line variances l =
     (case variances (sl_ingredient_id l) of
        None \<Rightarrow> Inr (l, 0, 0)
      | Some v0 \<Rightarrow>
          (let v = v0\<lparr>iv_counted_milli := dict_get 0 (sl_counted_quantity_milli l)\<rparr>
           in and_then (variance_value_cents v) (\<lambda>value.
              and_then (variance_basis_points v) (\<lambda>bp.
              and_then (theoretical_value_cents v) (\<lambda>theoretical.
                Inr (l\<lparr>sl_opening_quantity_milli := iv_opening_milli v,
                       sl_received_quantity_milli := iv_received_milli v,
                       sl_theoretical_consumption_milli := iv_theoretical_consumption_milli v,
                       sl_wastage_quantity_milli := iv_wastage_milli v,
                       sl_adjustment_quantity_milli := iv_adjustment_milli v,
                       sl_expected_quantity_milli := expected_milli v,
                       sl_variance_quantity_milli := variance_milli v,
                       sl_variance_value_cents := value,
                       sl_variance_basis_points := bp,
                       sl_unit_cost_micro_cents := iv_unit_cost_micro_cents v\<rparr>, value, theoretical))))))"

definition complete_stocktake :: "count_db \<Rightarrow> uuid \<Rightarrow> uuid \<Rightarrow> uuid \<Rightarrow> instant \<Rightarrow> count_db result" where
  "complete_stocktake db business user sid now =
     and_then (require_inventory_enabled db business) (\<lambda>_.
     and_then (load_session db business sid) (\<lambda>s.
     and_then (reject_if_locked s) (\<lambda>_.
     and_then (raise_if (ss_status s \<noteq> SK_DRAFT) (AppError ''STOCKTAKE_NOT_DRAFT'' 409)) (\<lambda>_.
     and_then (raise_if (\<exists>l \<in> set (ss_lines s). sl_counted_quantity_milli l = None) (AppError ''INCOMPLETE_COUNT'' 422)) (\<lambda>_.
     and_then (map_result (snapshot_line (compute_variances db s)) (ss_lines s)) (\<lambda>snaps.
       Inr (write_session (s\<lparr>ss_lines := map fst snaps, ss_status := SK_COMPLETED,
              ss_completed_by_user_id := Some user, ss_completed_at := Some now,
              ss_total_variance_value_cents := sum_list (map (fst \<circ> snd) snaps),
              ss_total_theoretical_value_cents := sum_list (map (snd \<circ> snd) snaps)\<rparr>) db)))))))"

subsection \<open>Approving and cancelling\<close>

definition adjustment_movement :: "stocktake_session \<Rightarrow> uuid \<Rightarrow> instant \<Rightarrow> stocktake_line \<Rightarrow> stock_movement result" where
  "adjustment_movement s user now l =
     build_movement (ss_business_id s) (sl_ingredient_id l) (sl_variance_quantity_milli l) STOCKTAKE_ADJUSTMENT
       (sl_unit_cost_micro_cents l) (Some SRC_STOCKTAKE) (Some (ss_id s)) (Some user)
       (Some (stocktake_adjustment_idempotency_key (ss_id s) (sl_ingredient_id l)))
       (Some (''Stocktake '' @ (case ss_reference s of None \<Rightarrow> ''None'' | Some r \<Rightarrow> r) @ '' correction''))
       (Some (ss_cutoff_at s)) now"

definition approve_stocktake :: "count_db \<Rightarrow> uuid \<Rightarrow> uuid \<Rightarrow> uuid \<Rightarrow> bool \<Rightarrow> instant \<Rightarrow> count_db result" where
  "approve_stocktake db business user sid post_adjustments now =
     and_then (require_inventory_enabled db business) (\<lambda>_.
     and_then (load_session db business sid) (\<lambda>s.
     and_then (raise_if (ss_status s = SK_APPROVED) (AppError ''STOCKTAKE_LOCKED'' 409)) (\<lambda>_.
     and_then (raise_if (ss_status s \<noteq> SK_COMPLETED) (AppError ''STOCKTAKE_NOT_COMPLETED'' 409)) (\<lambda>_.
     and_then (if post_adjustments
               then map_result (adjustment_movement s user now)
                      (filter (\<lambda>l. sl_variance_quantity_milli l \<noteq> 0) (ss_lines s))
               else Inr []) (\<lambda>ms.
     and_then (raise_if (\<not> stock_index (sd_movements (kd_stock db) @ ms))
                (IntegrityError ''uq_stock_movements_business_id_idempotency_key'')) (\<lambda>_.
       Inr (write_session (s\<lparr>ss_status := SK_APPROVED, ss_approved_by_user_id := Some user,
               ss_approved_at := Some now\<rparr>)
             (db\<lparr>kd_stock := add_movements ms (kd_stock db),
                 kd_audit := kd_audit db @ [(sid, ''inventory.stocktake.approved'')]\<rparr>))))))))"

definition cancel_stocktake :: "count_db \<Rightarrow> uuid \<Rightarrow> uuid \<Rightarrow> count_db result" where
  "cancel_stocktake db business sid =
     and_then (require_inventory_enabled db business) (\<lambda>_.
     and_then (load_session db business sid) (\<lambda>s.
     and_then (reject_if_locked s) (\<lambda>_.
       Inr (write_session (s\<lparr>ss_status := SK_CANCELLED\<rparr>) db))))"

subsection \<open>Reporting\<close>

text \<open>
  The figures of \<open>_build_response\<close>: an approved count replays what was signed off, any
  other one is computed from the ledger.
\<close>

definition replayed_variance :: "stocktake_line \<Rightarrow> ingredient_variance" where
  "replayed_variance l =
     \<lparr>iv_opening_milli = sl_opening_quantity_milli l, iv_received_milli = sl_received_quantity_milli l,
      iv_theoretical_consumption_milli = sl_theoretical_consumption_milli l,
      iv_wastage_milli = sl_wastage_quantity_milli l, iv_adjustment_milli = sl_adjustment_quantity_milli l,
      iv_counted_milli = dict_get 0 (sl_counted_quantity_milli l),
      iv_unit_cost_micro_cents = sl_unit_cost_micro_cents l\<rparr>"

definition report_variances :: "count_db \<Rightarrow> stocktake_session \<Rightarrow> (stocktake_line \<times> ingredient_variance option) list" where
  "report_variances db s =
     map (\<lambda>l. (l, if is_locked s then Some (replayed_variance l)
                  else map_option (\<lambda>v. case sl_counted_quantity_milli l of None \<Rightarrow> v
                         | Some n \<Rightarrow> v\<lparr>iv_counted_milli := n\<rparr>) (compute_variances db s (sl_ingredient_id l)))) (ss_lines s)"

definition report_totals :: "count_db \<Rightarrow> stocktake_session \<Rightarrow> (int \<times> int \<times> int option) result" where
  "report_totals db s =
     (let counted = List.map_filter (\<lambda>(l, v). if sl_counted_quantity_milli l = None then None else v) (report_variances db s)
      in and_then (if counted = [] then Inr None else value_weighted_accuracy_basis_points counted) (\<lambda>accuracy.
         if is_locked s then Inr (ss_total_variance_value_cents s, ss_total_theoretical_value_cents s, accuracy)
         else and_then (map_result variance_value_cents counted) (\<lambda>vs.
              and_then (map_result theoretical_value_cents counted) (\<lambda>ts.
                Inr (sum_list vs, sum_list ts, accuracy)))))"

end
