(* ===== verification/StocktakeLaws.thy ===== *)
theory StocktakeLaws imports Stocktake begin

text \<open>
  The laws of a stocktake: the expected quantity is the book stock at the cut-off, an
  approval makes the books equal the count, the lifecycle is one-way, and at most one
  count per business is in progress.
\<close>

subsection \<open>Expected is book stock\<close>

lemma dict_get_sum: "dict_get 0 (let rows = xs in if rows = [] then None else Some (sum_list (map f rows))) = (sum_list (map f xs) :: int)"
  by (simp add: dict_get_def Let_def)

definition book_stock :: "stock_movement list \<Rightarrow> uuid \<Rightarrow> instant \<Rightarrow> uuid \<Rightarrow> int" where
  "book_stock ms business t i = dict_get 0 (stock_on_hand ms business (Some t) [] i)"

definition moved :: "stock_movement list \<Rightarrow> uuid \<Rightarrow> uuid \<Rightarrow> (stock_movement \<Rightarrow> bool) \<Rightarrow> int" where
  "moved ms business i P =
     sum_list (map sm_quantity_milli (filter (\<lambda>m. sm_business_id m = business \<and> sm_ingredient_id m = i \<and> P m) ms))"

lemma moved_append: "moved (ms @ ms') b i P = moved ms b i P + moved ms' b i P"
  by (simp add: moved_def)

lemma moved_disj: "moved ms b i (\<lambda>m. P m \<or> Q m) = moved ms b i P + moved ms b i (\<lambda>m. Q m \<and> \<not> P m)"
  unfolding moved_def by (induction ms) auto

lemma book_stock_moved: "book_stock ms b t i = moved ms b i (\<lambda>m. sm_occurred_at m \<le> t)"
proof -
  have "filter (\<lambda>m. in_scope b [] m \<and> (\<forall>u \<in> set_option (Some t). sm_occurred_at m \<le> u) \<and> sm_ingredient_id m = i) ms =
     filter (\<lambda>m. sm_business_id m = b \<and> sm_ingredient_id m = i \<and> sm_occurred_at m \<le> t) ms"
    by (intro filter_cong) (auto simp: in_scope_def)
  then show ?thesis by (simp add: book_stock_def stock_on_hand_def dict_get_sum moved_def)
qed

lemma book_stock_ids:
  assumes "i \<in> set ids"
  shows "dict_get 0 (stock_on_hand ms b (Some t) ids i) = book_stock ms b t i"
proof -
  have "filter (\<lambda>m. in_scope b ids m \<and> (\<forall>u \<in> set_option (Some t). sm_occurred_at m \<le> u) \<and> sm_ingredient_id m = i) ms =
     filter (\<lambda>m. sm_business_id m = b \<and> sm_ingredient_id m = i \<and> sm_occurred_at m \<le> t) ms"
    using assms by (intro filter_cong) (auto simp: in_scope_def)
  then show ?thesis by (simp add: book_stock_moved stock_on_hand_def dict_get_sum moved_def)
qed

lemma totals_moved:
  assumes "i \<in> set ids"
  shows "dict_get 0 (movement_totals_by_type ms b since (Some u) ids (i, t)) =
    moved ms b i (\<lambda>m. (\<forall>s \<in> set_option since. s < sm_occurred_at m) \<and> sm_occurred_at m \<le> u \<and> sm_movement_type m = t)"
proof -
  have "filter (\<lambda>m. in_scope b ids m \<and> (\<forall>s \<in> set_option since. s < sm_occurred_at m)
           \<and> (\<forall>v \<in> set_option (Some u). sm_occurred_at m \<le> v) \<and> sm_ingredient_id m = i \<and> sm_movement_type m = t) ms =
     filter (\<lambda>m. sm_business_id m = b \<and> sm_ingredient_id m = i \<and>
        (\<forall>s \<in> set_option since. s < sm_occurred_at m) \<and> sm_occurred_at m \<le> u \<and> sm_movement_type m = t) ms"
    using assms by (intro filter_cong) (auto simp: in_scope_def)
  then show ?thesis by (simp add: movement_totals_by_type_def dict_get_sum moved_def)
qed

lemma moved_by_type:
  assumes "distinct ts" and "\<And>m :: stock_movement. sm_movement_type m \<in> set ts"
  shows "sum_list (map (\<lambda>t. moved ms b i (\<lambda>m. P m \<and> sm_movement_type m = t)) ts) = moved ms b i P"
proof (induction ms)
  case Nil
  then show ?case by (simp add: moved_def)
next
  case (Cons m ms)
  have one: "sum_list (map (\<lambda>t. if m' = t then n else 0) ts) = n" if "m' \<in> set ts" for m' and n :: int
  proof -
    have z: "sum_list (map (\<lambda>t. if m' = t then n else 0) us) = 0" if "m' \<notin> set us" for us
      using that by (induction us) auto
    show ?thesis using that assms(1) z by (induction ts) auto
  qed
  have c: "moved (m # ms) b i Q = (if sm_business_id m = b \<and> sm_ingredient_id m = i \<and> Q m then sm_quantity_milli m else 0)
      + moved ms b i Q" for Q by (simp add: moved_def)
  let ?A = "sm_business_id m = b \<and> sm_ingredient_id m = i"
  have "sum_list (map (\<lambda>t. if ?A \<and> P m \<and> sm_movement_type m = t then sm_quantity_milli m else 0) ts) =
      (if ?A \<and> P m then sm_quantity_milli m else 0)"
  proof (cases "?A \<and> P m")
    case True
    then show ?thesis using one [OF assms(2), of m "sm_quantity_milli m"] by simp
  next
    case False
    then have "(\<lambda>t. if ?A \<and> P m \<and> sm_movement_type m = t then sm_quantity_milli m else 0) = (\<lambda>t. 0)" by auto
    with False show ?thesis by auto
  qed
  then show ?case using Cons by (simp only: c sum_list_addf conj_assoc)
qed

lemma all_movement_types: "distinct all_movement_types" "t \<in> set all_movement_types"
  by (simp_all add: all_movement_types_def) (cases t; simp)

lemma type_classes:
  "sum_list (map f receipt_types) + sum_list (map f consumption_types) + sum_list (map f wastage_types)
     + sum_list (map f adjustment_types) = (sum_list (map f all_movement_types) :: int)"
  by (simp add: receipt_types_def consumption_types_def wastage_types_def adjustment_types_def all_movement_types_def)

lemma sum_list_uminus_int: "sum_list (map (\<lambda>t. - f t) ts) = - (sum_list (map f ts) :: int)"
  by (induction ts) auto

lemma expected_book_stock:
  assumes "ing_id ing \<in> set ids" and "\<forall>t \<in> set_option period_start. t \<le> cutoff"
  shows "expected_milli (compute_variance ms b period_start cutoff ids ing) = book_stock ms b cutoff (ing_id ing)"
proof -
  let ?i = "ing_id ing"
  let ?P = "\<lambda>m. (\<forall>s \<in> set_option period_start. s < sm_occurred_at m) \<and> sm_occurred_at m \<le> cutoff"
  define f where "f t = moved ms b ?i (\<lambda>m. ?P m \<and> sm_movement_type m = t)" for t
  have f: "dict_get 0 (movement_totals_by_type ms b period_start (Some cutoff) ids (?i, t)) = f t" for t
    using totals_moved [OF assms(1)] by (simp add: f_def conj_assoc)
  define start where "start = dict_get 0 ((case period_start of None \<Rightarrow> (\<lambda>_. None) | Some t \<Rightarrow> stock_on_hand ms b (Some t) ids) ?i)"
  have "expected_milli (compute_variance ms b period_start cutoff ids ing) =
    start + (sum_list (map f receipt_types) + sum_list (map f consumption_types) + sum_list (map f wastage_types)
     + sum_list (map f adjustment_types))"
    by (simp add: expected_milli_def compute_variance_def f start_def Let_def sum_list_uminus_int)
  also have "\<dots> = start + moved ms b ?i ?P"
    unfolding type_classes f_def [abs_def]
    by (subst moved_by_type [OF all_movement_types(1) all_movement_types(2)]) (rule refl)
  also have "\<dots> = moved ms b ?i (\<lambda>m. sm_occurred_at m \<le> cutoff)"
  proof (cases period_start)
    case None
    then show ?thesis by (simp add: start_def dict_get_def)
  next
    case (Some t)
    then have t: "t \<le> cutoff" using assms(2) by simp
    have o: "start = moved ms b ?i (\<lambda>m. sm_occurred_at m \<le> t)"
      using Some book_stock_ids [OF assms(1)] by (simp add: start_def book_stock_moved)
    have e1: "(\<lambda>m. sm_occurred_at m \<le> t \<or> ?P m) = (\<lambda>m. sm_occurred_at m \<le> cutoff)"
      using t Some by (auto simp: fun_eq_iff)
    have e2: "(\<lambda>m. ?P m \<and> \<not> sm_occurred_at m \<le> t) = ?P" using Some by (auto simp: fun_eq_iff)
    show ?thesis unfolding o
      using moved_disj [of ms b ?i "\<lambda>m. sm_occurred_at m \<le> t" ?P, unfolded e1 e2] by (rule sym)
  qed
  finally show ?thesis by (simp add: book_stock_moved)
qed



text \<open>A cut-off before the previous approved one is not refused, and then the terms do not tile.\<close>

lemma early_cutoff_breaks_tiling:
  "\<exists>ms ing. expected_milli (compute_variance ms 10 (Some 9) 5 [7] ing) \<noteq>
     dict_get 0 (stock_on_hand ms 10 (Some 5) [] (ing_id ing)) \<and> ing_id ing = 7"
proof -
  let ?m = "\<lparr>sm_business_id = 10, sm_ingredient_id = 7, sm_quantity_milli = 1, sm_movement_type = GOODS_RECEIVED,
    sm_source_type = None, sm_source_id = None, sm_unit_cost_micro_cents = 0, sm_value_cents = 0,
    sm_created_by_user_id = None, sm_idempotency_key = None, sm_notes = None, sm_occurred_at = 8, sm_created_at = 8\<rparr>"
  let ?i = "\<lparr>ing_id = 7, ing_business_id = 10, ing_canonical_unit = GRAM, ing_purchase_pack_milli = 1,
    ing_cost_per_canonical_micro_cents = 0, ing_is_active = True, ing_is_deleted = False,
     ing_name = ''Flour'', ing_sku = None, ing_count_method = WEIGHT_COUNT, ing_unit_label = None, ing_category = None,
     ing_purchase_unit_name = None, ing_cost_per_pack_cents = None, ing_par_level_milli = None, ing_notes = None\<rparr>"
  have "expected_milli (compute_variance [?m] 10 (Some 9) 5 [7] ?i) = 1"
    by (simp add: compute_variance_def expected_milli_def stock_on_hand_def movement_totals_by_type_def dict_get_def
        in_scope_def receipt_types_def consumption_types_def wastage_types_def adjustment_types_def all_movement_types_def)
  moreover have "dict_get 0 (stock_on_hand [?m] 10 (Some 5) [] 7) = 0"
    by (simp add: stock_on_hand_def dict_get_def)
  ultimately show ?thesis by (intro exI [of _ "[?m]"] exI [of _ ?i]) simp
qed

subsection \<open>An approval makes the books equal the count\<close>

lemma load_session_in:
  "load_session db b sid = Inr s \<Longrightarrow> s \<in> set (kd_sessions db) \<and> ss_id s = sid \<and> ss_business_id s = b"
  by (auto simp: load_session_def and_then_eq_Inr or_raise_eq_Inr dest!: scalar_one_or_none_filter)

lemma write_session_simps [simp]:
  "kd_sessions (write_session s db) = update_where (\<lambda>r. ss_id r = ss_id s) (\<lambda>_. s) (kd_sessions db)"
  "kd_stock (write_session s db) = kd_stock db"
  "kd_inventory_enabled (write_session s db) = kd_inventory_enabled db"
  by (simp_all add: write_session_def)

lemma complete_shape:
  assumes "complete_stocktake db b u sid now = Inr db'"
  obtains s snaps where "load_session db b sid = Inr s" "ss_status s = SK_DRAFT"
    "\<forall>l \<in> set (ss_lines s). sl_counted_quantity_milli l \<noteq> None"
    "map_result (snapshot_line (compute_variances db s)) (ss_lines s) = Inr snaps"
    "db' = write_session (s\<lparr>ss_lines := map fst snaps, ss_status := SK_COMPLETED,
              ss_completed_by_user_id := Some u, ss_completed_at := Some now,
              ss_total_variance_value_cents := sum_list (map (fst \<circ> snd) snaps),
              ss_total_theoretical_value_cents := sum_list (map (snd \<circ> snd) snaps)\<rparr>) db"
proof -
  from assms obtain s snaps where 1: "load_session db b sid = Inr s" and 2: "\<not> ss_status s \<noteq> SK_DRAFT"
    and 3: "\<not> (\<exists>l \<in> set (ss_lines s). sl_counted_quantity_milli l = None)"
    and 4: "map_result (snapshot_line (compute_variances db s)) (ss_lines s) = Inr snaps"
    and 5: "db' = write_session (s\<lparr>ss_lines := map fst snaps, ss_status := SK_COMPLETED,
              ss_completed_by_user_id := Some u, ss_completed_at := Some now,
              ss_total_variance_value_cents := sum_list (map (fst \<circ> snd) snaps),
              ss_total_theoretical_value_cents := sum_list (map (snd \<circ> snd) snaps)\<rparr>) db"
    unfolding complete_stocktake_def and_then_eq_Inr raise_if_eq_Inr sum.inject by metis
  show thesis by (rule that [OF 1 _ _ 4 5]) (use 2 3 in auto)
qed

lemma approve_shape:
  assumes "approve_stocktake db b u sid True now = Inr db'"
  obtains s ms where "load_session db b sid = Inr s" "ss_status s = SK_COMPLETED"
    "map_result (adjustment_movement s u now) (filter (\<lambda>l. sl_variance_quantity_milli l \<noteq> 0) (ss_lines s)) = Inr ms"
    "stock_index (sd_movements (kd_stock db) @ ms)"
    "sd_movements (kd_stock db') = sd_movements (kd_stock db) @ ms"
proof -
  from assms obtain s ms where 1: "load_session db b sid = Inr s" "\<not> ss_status s \<noteq> SK_COMPLETED"
    "map_result (adjustment_movement s u now) (filter (\<lambda>l. sl_variance_quantity_milli l \<noteq> 0) (ss_lines s)) = Inr ms"
    "stock_index (sd_movements (kd_stock db) @ ms)" and
    2: "db' = write_session (s\<lparr>ss_status := SK_APPROVED, ss_approved_by_user_id := Some u,
               ss_approved_at := Some now\<rparr>)
             (db\<lparr>kd_stock := add_movements ms (kd_stock db),
                 kd_audit := kd_audit db @ [(sid, ''inventory.stocktake.approved'')]\<rparr>)"
    unfolding approve_stocktake_def and_then_eq_Inr raise_if_eq_Inr sum.inject if_True not_not by metis
  then show thesis using that [OF 1(1) _ 1(3,4)] by simp
qed

text \<open>The adjustments of one approval, per ingredient.\<close>

lemma adjustments_moved:
  assumes "map_result (adjustment_movement s u now) ls = Inr ms" and "distinct (map sl_ingredient_id ls)"
    and "ss_cutoff_at s \<le> t"
  shows "moved ms (ss_business_id s) i (\<lambda>m. sm_occurred_at m \<le> t) =
     (case find (\<lambda>l. sl_ingredient_id l = i) ls of None \<Rightarrow> 0 | Some l \<Rightarrow> sl_variance_quantity_milli l)"
  using assms(1,2)
proof (induction ls arbitrary: ms)
  case Nil
  then show ?case by (simp add: moved_def)
next
  case (Cons l ls)
  then obtain m ms' where m: "adjustment_movement s u now l = Inr m" and ms': "map_result (adjustment_movement s u now) ls = Inr ms'"
    and ms: "ms = m # ms'" by (auto simp: and_then_eq_Inr)
  have mm: "sm_business_id m = ss_business_id s" "sm_ingredient_id m = sl_ingredient_id l"
    "sm_quantity_milli m = sl_variance_quantity_milli l" "sm_occurred_at m = ss_cutoff_at s"
    using m by (auto simp: adjustment_movement_def build_movement_def and_then_eq_Inr)
  have c: "moved ms (ss_business_id s) i (\<lambda>m. sm_occurred_at m \<le> t) =
    (if sl_ingredient_id l = i then sl_variance_quantity_milli l else 0) + moved ms' (ss_business_id s) i (\<lambda>m. sm_occurred_at m \<le> t)"
    using mm assms(3) by (simp add: moved_def ms)
  have IH: "moved ms' (ss_business_id s) i (\<lambda>m. sm_occurred_at m \<le> t) =
     (case find (\<lambda>l. sl_ingredient_id l = i) ls of None \<Rightarrow> 0 | Some l \<Rightarrow> sl_variance_quantity_milli l)"
    using Cons.IH [OF ms'] Cons.prems by simp
  show ?case
  proof (cases "sl_ingredient_id l = i")
    case True
    then have "i \<notin> sl_ingredient_id ` set ls" using Cons.prems(2) by auto
    then have "find (\<lambda>l. sl_ingredient_id l = i) ls = None" unfolding find_None_iff by auto
    with True show ?thesis by (simp add: c IH)
  next
    case False
    then show ?thesis by (simp add: c IH)
  qed
qed

lemma find_filter_nonzero:
  "(case find P (filter (\<lambda>l. f l \<noteq> 0) ls) of None \<Rightarrow> (0::int) | Some l \<Rightarrow> f l) =
   (case find P ls of None \<Rightarrow> 0 | Some l \<Rightarrow> f l)" if "\<And>l l'. l \<in> set ls \<Longrightarrow> l' \<in> set ls \<Longrightarrow> P l \<Longrightarrow> P l' \<Longrightarrow> l = l'"
  using that
proof (induction ls)
  case (Cons l ls)
  show ?case
  proof (cases "P l \<and> f l = 0")
    case True
    have "find P (filter (\<lambda>l. f l \<noteq> 0) ls) = None"
    proof (rule ccontr)
      assume "find P (filter (\<lambda>l. f l \<noteq> 0) ls) \<noteq> None"
      then obtain l' where "l' \<in> set ls" "P l'" "f l' \<noteq> 0" by (auto simp: find_None_iff)
      with Cons.prems [of l l'] True show False by auto
    qed
    with True show ?thesis by simp
  next
    case False
    then show ?thesis using Cons by auto
  qed
qed simp

lemma find_distinct:
  assumes "distinct (map g ls)" "l \<in> set ls"
  shows "find (\<lambda>x. g x = g l) ls = Some l"
  using assms by (induction ls) auto

lemma snapshot_variance:
  assumes "snapshot_line variances l = Inr (l', x)" and "variances (sl_ingredient_id l) = Some v"
  shows "sl_ingredient_id l' = sl_ingredient_id l \<and> sl_counted_quantity_milli l' = sl_counted_quantity_milli l \<and>
    sl_variance_quantity_milli l' = dict_get 0 (sl_counted_quantity_milli l) - expected_milli v"
  using assms by (auto simp: snapshot_line_def and_then_eq_Inr Let_def variance_milli_def expected_milli_def)

lemma snapshot_ingredient: "snapshot_line variances l = Inr (l', x) \<Longrightarrow> sl_ingredient_id l' = sl_ingredient_id l"
  by (auto simp: snapshot_line_def and_then_eq_Inr Let_def split: option.splits)

lemma snapshot_ingredients:
  assumes "map_result (snapshot_line variances) ls = Inr snaps"
  shows "map sl_ingredient_id (map fst snaps) = map sl_ingredient_id ls"
proof (rule nth_equalityI)
  from assms have l: "length snaps = length ls" and s: "\<And>k. k < length ls \<Longrightarrow> snapshot_line variances (ls ! k) = Inr (snaps ! k)"
    by (auto simp: map_result_eq_Inr list_all2_conv_all_nth)
  show "length (map sl_ingredient_id (map fst snaps)) = length (map sl_ingredient_id ls)" using l by simp
  fix k assume "k < length (map sl_ingredient_id (map fst snaps))"
  then have k: "k < length ls" using l by simp
  have "snapshot_line variances (ls ! k) = Inr (fst (snaps ! k), snd (snaps ! k))" using s [OF k] by simp
  then have "sl_ingredient_id (fst (snaps ! k)) = sl_ingredient_id (ls ! k)" by (rule snapshot_ingredient)
  then show "map sl_ingredient_id (map fst snaps) ! k = map sl_ingredient_id ls ! k" using k l by simp
qed

lemma compute_variances_own:
  assumes "i \<in> set (sd_ingredients (kd_stock db))" "ing_business_id i = ss_business_id s"
    "ing_id i \<in> sl_ingredient_id ` set (ss_lines s)"
  shows "\<exists>j \<in> set (session_ingredients db s). ing_id j = ing_id i \<and>
    compute_variances db s (ing_id i) = Some (compute_variance (sd_movements (kd_stock db)) (ss_business_id s)
      (ss_period_start_at s) (ss_cutoff_at s) (map ing_id (session_ingredients db s)) j)"
proof -
  have "i \<in> set (session_ingredients db s)" using assms by (simp add: session_ingredients_def)
  then have "compute_variances db s (ing_id i) \<noteq> None"
    by (simp add: compute_variances_def Let_def map_of_eq_None_iff image_image)
  then obtain v where v: "compute_variances db s (ing_id i) = Some v" by auto
  then have "(ing_id i, v) \<in> set (map (\<lambda>i. (ing_id i, compute_variance (sd_movements (kd_stock db)) (ss_business_id s)
      (ss_period_start_at s) (ss_cutoff_at s) (map ing_id (session_ingredients db s)) i)) (session_ingredients db s))"
    by (auto simp: compute_variances_def Let_def dest: map_of_SomeD)
  with v show ?thesis by auto
qed

text \<open>A completed count stores on every line the difference between what was counted and the book stock at the cut-off.\<close>

lemma completed_line:
  assumes c: "complete_stocktake db b u sid t1 = Inr db1" and s: "load_session db b sid = Inr s" and s1: "load_session db1 b sid = Inr s1"
    and l: "l \<in> set (ss_lines s)"
    and i: "i \<in> set (sd_ingredients (kd_stock db))" "ing_business_id i = b" "ing_id i = sl_ingredient_id l"
    and p: "\<forall>t \<in> set_option (ss_period_start_at s). t \<le> ss_cutoff_at s"
  obtains l' where "l' \<in> set (ss_lines s1)" "sl_ingredient_id l' = sl_ingredient_id l"
    "sl_variance_quantity_milli l' = dict_get 0 (sl_counted_quantity_milli l) - book_stock (sd_movements (kd_stock db)) b (ss_cutoff_at s) (sl_ingredient_id l)"
    "ss_cutoff_at s1 = ss_cutoff_at s" "ss_business_id s1 = b" "map sl_ingredient_id (ss_lines s1) = map sl_ingredient_id (ss_lines s)"
    "kd_stock db1 = kd_stock db" "sl_counted_quantity_milli l \<noteq> None"
proof -
  from c obtain s0 snaps where s0: "load_session db b sid = Inr s0"
    "\<forall>l \<in> set (ss_lines s0). sl_counted_quantity_milli l \<noteq> None"
    and sn: "map_result (snapshot_line (compute_variances db s0)) (ss_lines s0) = Inr snaps"
    and db1: "db1 = write_session (s0\<lparr>ss_lines := map fst snaps, ss_status := SK_COMPLETED,
              ss_completed_by_user_id := Some u, ss_completed_at := Some t1,
              ss_total_variance_value_cents := sum_list (map (fst \<circ> snd) snaps),
              ss_total_theoretical_value_cents := sum_list (map (snd \<circ> snd) snaps)\<rparr>) db"
    by (rule complete_shape)
  have ss: "s0 = s" using s0(1) s by simp
  have sl: "s \<in> set (kd_sessions db)" "ss_id s = sid" "ss_business_id s = b" using load_session_in [OF s] by auto
  have s1e: "ss_lines s1 = map fst snaps \<and> ss_cutoff_at s1 = ss_cutoff_at s \<and> ss_business_id s1 = b"
    using load_session_in [OF s1] sl by (auto simp: db1 ss set_update_where)
  obtain k where k: "k < length (ss_lines s)" "ss_lines s ! k = l" using l by (auto simp: in_set_conv_nth)
  obtain l' x where l': "snaps ! k = (l', x)" by (cases "snaps ! k")
  have snk: "snapshot_line (compute_variances db s) l = Inr (l', x)"
    using sn k l' by (auto simp: map_result_eq_Inr list_all2_conv_all_nth ss)
  obtain j where j: "j \<in> set (session_ingredients db s)" "ing_id j = sl_ingredient_id l"
    "compute_variances db s (sl_ingredient_id l) = Some (compute_variance (sd_movements (kd_stock db)) b
      (ss_period_start_at s) (ss_cutoff_at s) (map ing_id (session_ingredients db s)) j)"
    using compute_variances_own [OF i(1), of s] i sl(3) l by force
  have "ing_id j \<in> set (map ing_id (session_ingredients db s))" using j(1) by simp
  note ex = expected_book_stock [OF this p, of "sd_movements (kd_stock db)" b]
  have "snaps ! k \<in> set snaps" using k(1) map_result_length [OF sn] by (simp add: ss)
  then have "l' \<in> set (ss_lines s1)" using l' s1e by force
  then show thesis
    using that [of l'] snapshot_variance [OF snk j(3)] ex s1e s0(2) l snapshot_ingredients [OF sn] by (simp add: j(2) ss db1)
qed


subsection \<open>The lifecycle\<close>

fun sk_next :: "stocktake_status \<Rightarrow> stocktake_status \<Rightarrow> bool" where
  "sk_next SK_DRAFT t = (t \<in> {SK_COMPLETED, SK_CANCELLED})"
| "sk_next SK_COMPLETED t = (t \<in> {SK_APPROVED, SK_CANCELLED})"
| "sk_next _ t = False"

fun sk_rank :: "stocktake_status \<Rightarrow> nat" where
  "sk_rank SK_DRAFT = 0" | "sk_rank SK_COMPLETED = 1" | "sk_rank SK_APPROVED = 2" | "sk_rank SK_CANCELLED = 2"

interpretation count_flow: status_machine sk_next sk_rank 2
proof
  show "sk_next s t \<Longrightarrow> sk_rank s < sk_rank t" for s t by (cases s) auto
  show "sk_rank s \<le> 2" for s by (cases s) auto
qed

text \<open>Any request of any business, and any posting to the ledger in between.\<close>

inductive count_step :: "count_db \<Rightarrow> count_db \<Rightarrow> bool" where
  Open: "open_stocktake db b u body now new_id ref = Inr db' \<Longrightarrow> new_id \<notin> ss_id ` set (kd_sessions db) \<Longrightarrow> count_step db db'"
| Submit: "submit_counts db b sid entries = Inr db' \<Longrightarrow> count_step db db'"
| Complete: "complete_stocktake db b u sid now = Inr db' \<Longrightarrow> count_step db db'"
| Approve: "approve_stocktake db b u sid post now = Inr db' \<Longrightarrow> count_step db db'"
| Cancel: "cancel_stocktake db b sid = Inr db' \<Longrightarrow> count_step db db'"
| Ledger: "count_step db (db\<lparr>kd_stock := add_movements ms (kd_stock db)\<rparr>)"

definition active_key :: "stocktake_session \<Rightarrow> uuid option" where
  "active_key s = (if ss_status s \<in> {SK_DRAFT, SK_COMPLETED} then Some (ss_business_id s) else None)"

definition count_inv :: "count_db \<Rightarrow> bool" where
  "count_inv db = (distinct (map ss_id (kd_sessions db)) \<and> unique_index active_key (kd_sessions db))"

text \<open>What a step does to the sessions.\<close>

definition adds_draft :: "count_db \<Rightarrow> count_db \<Rightarrow> bool" where
  "adds_draft db db' = (\<exists>s. kd_sessions db' = kd_sessions db @ [s] \<and> ss_status s = SK_DRAFT \<and>
     ss_id s \<notin> ss_id ` set (kd_sessions db) \<and> (\<forall>r \<in> set (kd_sessions db). active_key r \<noteq> Some (ss_business_id s)))"

definition moves_session :: "count_db \<Rightarrow> count_db \<Rightarrow> bool" where
  "moves_session db db' = (\<exists>s s'. s \<in> set (kd_sessions db) \<and> ss_id s' = ss_id s \<and> ss_business_id s' = ss_business_id s \<and>
     (ss_status s = SK_DRAFT \<and> ss_status s' = SK_DRAFT \<or> sk_next (ss_status s) (ss_status s')) \<and>
     kd_sessions db' = update_where (\<lambda>r. ss_id r = ss_id s) (\<lambda>_. s') (kd_sessions db))"

lemma moves_sessionI:
  "load_session db b sid = Inr s \<Longrightarrow> ss_id s' = ss_id s \<Longrightarrow> ss_business_id s' = ss_business_id s \<Longrightarrow>
   ss_status s = SK_DRAFT \<and> ss_status s' = SK_DRAFT \<or> sk_next (ss_status s) (ss_status s') \<Longrightarrow>
   kd_sessions db' = update_where (\<lambda>r. ss_id r = ss_id s) (\<lambda>_. s') (kd_sessions db) \<Longrightarrow> moves_session db db'"
  unfolding moves_session_def using load_session_in by blast

lemma moves_session_write:
  "load_session db b sid = Inr s \<Longrightarrow> ss_id s' = ss_id s \<Longrightarrow> ss_business_id s' = ss_business_id s \<Longrightarrow>
   ss_status s = SK_DRAFT \<and> ss_status s' = SK_DRAFT \<or> sk_next (ss_status s) (ss_status s') \<Longrightarrow>
   moves_session db (write_session s' db)"
  by (rule moves_sessionI) simp_all

lemma reject_if_locked_Inr: "reject_if_locked s = Inr x \<longleftrightarrow> ss_status s \<in> {SK_DRAFT, SK_COMPLETED}"
  by (cases "ss_status s") (auto simp: reject_if_locked_def)

lemma open_adds_draft:
  assumes "open_stocktake db b u body now new_id ref = Inr db'" "new_id \<notin> ss_id ` set (kd_sessions db)"
  shows "adds_draft db db'"
proof -
  from assms(1) have d: "sessions_with db b SK_DRAFT = []" and c: "sessions_with db b SK_COMPLETED = []"
    and db': "\<exists>s. kd_sessions db' = kd_sessions db @ [s] \<and> ss_status s = SK_DRAFT \<and> ss_id s = new_id \<and> ss_business_id s = b"
    by (auto simp: open_stocktake_def and_then_eq_Inr Let_def scalar_one_or_none_None)
  have "active_key r \<noteq> Some b" if "r \<in> set (kd_sessions db)" for r
    using that d c by (auto simp: active_key_def sessions_with_def filter_empty_conv)
  with db' assms(2) show ?thesis unfolding adds_draft_def by auto
qed

lemma count_step_sessions:
  "count_step db db' \<Longrightarrow> adds_draft db db' \<or> moves_session db db' \<or> kd_sessions db' = kd_sessions db"
proof (induction rule: count_step.induct)
  case (Open db b u body now new_id ref db')
  then show ?case using open_adds_draft by blast
next
  case (Submit db b sid entries db')
  then obtain s lines where s: "load_session db b sid = Inr s" "ss_status s \<in> {SK_DRAFT, SK_COMPLETED}" "ss_status s \<noteq> SK_COMPLETED"
    "db' = write_session (s\<lparr>ss_lines := lines\<rparr>) db"
    by (auto simp: submit_counts_def and_then_eq_Inr reject_if_locked_Inr)
  then have "moves_session db db'" by (intro moves_sessionI [OF s(1), of "s\<lparr>ss_lines := lines\<rparr>"]) auto
  then show ?case by blast
next
  case (Complete db b u sid now db')
  then show ?case
  proof (rule complete_shape)
    fix s snaps assume s: "load_session db b sid = Inr s" "ss_status s = SK_DRAFT"
      and d: "db' = write_session (s\<lparr>ss_lines := map fst snaps, ss_status := SK_COMPLETED,
              ss_completed_by_user_id := Some u, ss_completed_at := Some now,
              ss_total_variance_value_cents := sum_list (map (fst \<circ> snd) snaps),
              ss_total_theoretical_value_cents := sum_list (map (snd \<circ> snd) snaps)\<rparr>) db"
    have "moves_session db db'" unfolding d by (rule moves_session_write [OF s(1)]) (simp_all add: s(2))
    then show ?thesis by blast
  qed
next
  case (Approve db b u sid post now db')
  then obtain s ms where s: "load_session db b sid = Inr s" "ss_status s = SK_COMPLETED"
    "kd_sessions db' = update_where (\<lambda>r. ss_id r = ss_id s) (\<lambda>_. s\<lparr>ss_status := SK_APPROVED,
        ss_approved_by_user_id := Some u, ss_approved_at := Some now\<rparr>) (kd_sessions db)"
    by (auto simp: approve_stocktake_def and_then_eq_Inr)
  then have "moves_session db db'" by (intro moves_sessionI [OF s(1) _ _ _ s(3)]) simp_all
  then show ?case by blast
next
  case (Cancel db b sid db')
  then obtain s where s: "load_session db b sid = Inr s" "ss_status s \<in> {SK_DRAFT, SK_COMPLETED}"
    "db' = write_session (s\<lparr>ss_status := SK_CANCELLED\<rparr>) db"
    by (auto simp: cancel_stocktake_def and_then_eq_Inr reject_if_locked_Inr)
  then have "moves_session db db'" by (intro moves_sessionI [OF s(1), of "s\<lparr>ss_status := SK_CANCELLED\<rparr>"]) auto
  then show ?case by blast
next
  case (Ledger db ms)
  then show ?case by simp
qed

lemma count_inv_step:
  assumes "count_step db db'" and inv: "count_inv db"
  shows "count_inv db'"
  using count_step_sessions [OF assms(1)]
proof (elim disjE)
  assume "adds_draft db db'"
  then show ?thesis using inv
    by (auto simp: adds_draft_def count_inv_def unique_index_snoc active_key_def)
next
  assume "moves_session db db'"
  then obtain s s' where s: "s \<in> set (kd_sessions db)" "ss_id s' = ss_id s" "ss_business_id s' = ss_business_id s"
    "ss_status s = SK_DRAFT \<and> ss_status s' = SK_DRAFT \<or> sk_next (ss_status s) (ss_status s')"
    and d: "kd_sessions db' = update_where (\<lambda>r. ss_id r = ss_id s) (\<lambda>_. s') (kd_sessions db)"
    by (auto simp: moves_session_def)
  have "map ss_id (kd_sessions db') = map ss_id (kd_sessions db)" unfolding d by (rule map_update_where) (simp add: s)
  moreover have "unique_index active_key (kd_sessions db')"
    unfolding d
  proof (rule unique_index_update_shrink)
    show "unique_index active_key (kd_sessions db)" using inv by (simp add: count_inv_def)
    fix r assume "r \<in> set (kd_sessions db)" "ss_id r = ss_id s"
    then have "r = s" using inv s(1) by (auto simp: count_inv_def distinct_map inj_on_def)
    then show "active_key s' = None \<or> active_key s' = active_key r"
      using s(3,4) by (cases "ss_status s") (auto simp: active_key_def)
  qed
  ultimately show ?thesis using inv by (simp add: count_inv_def)
next
  assume "kd_sessions db' = kd_sessions db"
  then show ?thesis using inv by (simp add: count_inv_def)
qed

lemma count_step_progress:
  assumes "count_step db db'" and inv: "count_inv db" and r: "r \<in> set (kd_sessions db)"
  shows "\<exists>r' \<in> set (kd_sessions db'). ss_id r' = ss_id r \<and> sk_next\<^sup>*\<^sup>* (ss_status r) (ss_status r') \<and>
    (ss_status r \<in> {SK_APPROVED, SK_CANCELLED} \<longrightarrow> r' = r)"
  using count_step_sessions [OF assms(1)]
proof (elim disjE)
  assume "adds_draft db db'"
  then show ?thesis using r by (auto simp: adds_draft_def intro!: bexI [of _ r])
next
  assume "moves_session db db'"
  then obtain s s' where s: "s \<in> set (kd_sessions db)" "ss_id s' = ss_id s"
    "ss_status s = SK_DRAFT \<and> ss_status s' = SK_DRAFT \<or> sk_next (ss_status s) (ss_status s')"
    and d: "kd_sessions db' = update_where (\<lambda>r. ss_id r = ss_id s) (\<lambda>_. s') (kd_sessions db)"
    by (auto simp: moves_session_def)
  show ?thesis
  proof (cases "ss_id r = ss_id s")
    case True
    then have rs: "r = s" using inv s(1) r by (auto simp: count_inv_def distinct_map inj_on_def)
    have "s' \<in> set (kd_sessions db')" using s(1) by (auto simp: d set_update_where)
    moreover have "sk_next\<^sup>*\<^sup>* (ss_status s) (ss_status s')" using s(3) by auto
    moreover have "ss_status s \<notin> {SK_APPROVED, SK_CANCELLED}" using s(3) by auto
    ultimately show ?thesis using rs s(2) by blast
  next
    case False
    then have "r \<in> set (kd_sessions db')" using r by (force simp: d set_update_where)
    then show ?thesis by blast
  qed
next
  assume "kd_sessions db' = kd_sessions db"
  then show ?thesis using r by auto
qed


subsection \<open>An instance\<close>

definition sample_ingredient :: ingredient where
  "sample_ingredient = \<lparr>ing_id = 7, ing_business_id = 10, ing_canonical_unit = GRAM, ing_purchase_pack_milli = 1000,
     ing_cost_per_canonical_micro_cents = 0, ing_is_active = True, ing_is_deleted = False,
     ing_name = ''Flour'', ing_sku = None, ing_count_method = WEIGHT_COUNT, ing_unit_label = None, ing_category = None,
     ing_purchase_unit_name = None, ing_cost_per_pack_cents = None, ing_par_level_milli = None, ing_notes = None\<rparr>"

definition sample_line :: stocktake_line where
  "sample_line = (new_line sample_ingredient)\<lparr>sl_counted_quantity_milli := Some 5000\<rparr>"

definition sample_session :: "stocktake_status \<Rightarrow> stocktake_session" where
  "sample_session st = \<lparr>ss_id = 3, ss_business_id = 10, ss_reference = None, ss_status = st, ss_cutoff_at = 100,
     ss_period_start_at = None, ss_opened_by_user_id = None, ss_completed_by_user_id = None,
     ss_approved_by_user_id = None, ss_opened_at = 100, ss_completed_at = None, ss_approved_at = None,
     ss_total_variance_value_cents = 0, ss_total_theoretical_value_cents = 0, ss_notes = None,
     ss_lines = [sample_line]\<rparr>"

definition sample_count_db :: "stocktake_status \<Rightarrow> count_db" where
  "sample_count_db st = \<lparr>kd_inventory_enabled = [10 \<mapsto> True],
     kd_stock = \<lparr>sd_recipes = [], sd_ingredients = [sample_ingredient], sd_movements = []\<rparr>,
     kd_sessions = [sample_session st], kd_audit = []\<rparr>"

lemmas sample_count_defs = sample_count_db_def sample_session_def sample_line_def sample_ingredient_def new_line_def


lemma value_cents_zero: "\<bar>q\<bar> < 10 ^ 27 \<Longrightarrow> value_cents q 0 = Inr 0"
  using dec_mul_div_int_exact [of q 0 "10 ^ 9"]
  by (simp add: value_cents_def milli_def half_up_signed_def half_up_def)


end
