(* ===== verification/InventoryLaws.thy ===== *)
theory InventoryLaws imports Inventory OrderLaws StocktakeLaws begin

text \<open>
  What the inventory handlers guarantee: a delivery is recorded once and its lines, its total and its
  stock movements state the same quantities and the same money; an ingredient is opened once; a loss is
  deducted once and put back at most once; a receipt keeps its supplier.
\<close>

lemmas inventory_simps = iv_movements_def iv_stock_def change_stock_def audit_inventory_def add_audit_def

lemma change_stock_fields [simp]:
  "iv_receipts (change_stock f db) = iv_receipts db" "iv_receipt_lines (change_stock f db) = iv_receipt_lines db"
  "iv_wastage (change_stock f db) = iv_wastage db" "iv_suppliers (change_stock f db) = iv_suppliers db"
  "iv_assets (change_stock f db) = iv_assets db" "iv_stock (change_stock f db) = f (iv_stock db)"
  by (simp_all add: change_stock_def iv_stock_def)

lemma audit_inventory_fields [simp]:
  "iv_receipts (audit_inventory user action target db) = iv_receipts db" "iv_receipt_lines (audit_inventory user action target db) = iv_receipt_lines db"
  "iv_wastage (audit_inventory user action target db) = iv_wastage db" "iv_suppliers (audit_inventory user action target db) = iv_suppliers db"
  "iv_stock (audit_inventory user action target db) = iv_stock db"
  by (simp_all add: audit_inventory_def iv_stock_def add_audit_def)

lemma load_ingredient_in: "load_ingredient db business i = Inr x \<Longrightarrow>
   x \<in> set (sd_ingredients (iv_stock db)) \<and> ing_id x = i \<and> ing_business_id x = business \<and> \<not> ing_is_deleted x"
  unfolding load_ingredient_def and_then_eq_Inr or_raise_eq_Inr by (elim exE conjE, simp) (drule scalar_one_or_none_filter, auto)

lemma require_owned_in: "require_owned the_id the_business rows i business label = Inr x \<Longrightarrow> x \<in> set rows \<and> the_id x = i \<and> the_business x = business"
  unfolding require_owned_def and_then_eq_Inr or_raise_eq_Inr by (elim exE conjE, simp) (drule scalar_one_or_none_filter, auto)

subsection \<open>Goods receipts\<close>

definition line_of_ingredient :: "inventory_db \<Rightarrow> uuid \<Rightarrow> receipt_line_request \<Rightarrow> goods_receipt_line \<times> stock_movement \<Rightarrow> bool" where
  "line_of_ingredient db business l p = (case p of (line, m) \<Rightarrow>
     gl_ingredient_id line = gq_ingredient_id l \<and> sm_ingredient_id m = gq_ingredient_id l \<and>
     (\<exists>x \<in> set (sd_ingredients (iv_stock db)). ing_id x = gq_ingredient_id l \<and> ing_business_id x = business \<and> \<not> ing_is_deleted x))"

text \<open>A line and its movement tell the same story, to the cent below one million canonical units.\<close>

definition line_agrees :: "uuid \<Rightarrow> uuid \<Rightarrow> goods_receipt_line \<times> stock_movement \<Rightarrow> bool" where
  "line_agrees business receipt_id p = (case p of (line, m) \<Rightarrow>
     gl_business_id line = business \<and> gl_goods_receipt_id line = receipt_id \<and> sm_business_id m = business \<and>
     sm_movement_type m = GOODS_RECEIVED \<and> sm_source_type m = Some SRC_GOODS_RECEIPT \<and> sm_source_id m = Some receipt_id \<and>
     sm_idempotency_key m = None \<and> sm_ingredient_id m = gl_ingredient_id line \<and> sm_quantity_milli m = gl_quantity_milli line \<and> 0 < gl_quantity_milli line \<and>
     (gl_unit_cost_cents line = None \<or> (gl_quantity_milli line < 10 ^ 9 \<and> 0 \<le> gl_line_cost_cents line \<and> gl_line_cost_cents line < 10 ^ 17) \<longrightarrow>
        sm_value_cents m = gl_line_cost_cents line))"

lemma received_quantity_positive: "received_quantity x l = Inr n \<Longrightarrow> 0 < n"
  by (auto simp: received_quantity_def and_then_eq_Inr)

lemma received_cost_agrees:
  assumes "received_cost x l n = Inr (cost, micro)" "value_cents n micro = Inr v" "0 < n"
    and "gq_unit_cost_cents l = None \<or> (n < 10 ^ 9 \<and> 0 \<le> cost \<and> cost < 10 ^ 17)"
  shows "v = cost"
proof (cases "gq_unit_cost_cents l")
  case None
  with assms(1,2) show ?thesis by (auto simp: received_cost_def and_then_eq_Inr)
next
  case (Some c)
  with assms(1) have "cost_per_canonical_micro_cents cost n = Inr micro" by (auto simp: received_cost_def and_then_eq_Inr)
  with pack_valued_at_its_cost[of n cost] assms Some show ?thesis by auto
qed

lemma build_movement_value: "build_movement b i q t c st sid u k n occ now = Inr m \<Longrightarrow> value_cents q c = Inr (sm_value_cents m)"
  by (auto simp: build_movement_def and_then_eq_Inr)

lemma receive_line_agrees:
  assumes "receive_line user ingredients receipt_id occurred now l = Inr p"
  shows "line_agrees (au_business_id user) receipt_id p \<and>
     (\<exists>x. ingredients (gq_ingredient_id l) = Some x \<and> gl_ingredient_id (fst p) = ing_id x \<and> sm_ingredient_id (snd p) = ing_id x)"
proof -
  obtain x n cost micro m where x: "ingredients (gq_ingredient_id l) = Some x" "received_quantity x l = Inr n" "received_cost x l n = Inr (cost, micro)"
    and m: "build_movement (au_business_id user) (ing_id x) n GOODS_RECEIVED micro (Some SRC_GOODS_RECEIPT) (Some receipt_id)
       (Some (au_user_id user)) None None (Some occurred) now = Inr m"
    and p: "p = (\<lparr>gl_business_id = au_business_id user, gl_goods_receipt_id = receipt_id, gl_ingredient_id = ing_id x,
             gl_entered_quantity = gq_quantity l, gl_entered_unit = gq_unit l, gl_quantity_milli = n,
             gl_unit_cost_cents = gq_unit_cost_cents l, gl_line_cost_cents = cost\<rparr>, m)"
    using assms by (auto simp: receive_line_def and_then_eq_Inr or_raise_eq_Inr)
  from received_cost_agrees[OF x(3) build_movement_value[OF m]] received_quantity_positive[OF x(2)] build_movement_shape[OF m]
  show ?thesis by (auto simp: line_agrees_def p x(1))
qed

lemma receivable_in: "receivable db business ids i = Some x \<Longrightarrow>
   x \<in> set (sd_ingredients (iv_stock db)) \<and> ing_id x = i \<and> ing_business_id x = business \<and> \<not> ing_is_deleted x"
  by (auto simp: receivable_def find_Some_iff split: if_splits)

lemma received_rows:
  assumes "map_result (receive_line user (receivable db (au_business_id user) ids) receipt_id occurred now) lines = Inr rows"
  shows "list_all (line_agrees (au_business_id user) receipt_id) rows \<and> list_all2 (line_of_ingredient db (au_business_id user)) lines rows"
proof -
  have each: "line_agrees (au_business_id user) receipt_id p \<and> line_of_ingredient db (au_business_id user) l p"
    if "receive_line user (receivable db (au_business_id user) ids) receipt_id occurred now l = Inr p" for l p
    using receive_line_agrees[OF that] by (auto simp: line_of_ingredient_def case_prod_beta dest!: receivable_in)
  have "list_all2 (\<lambda>l p. receive_line user (receivable db (au_business_id user) ids) receipt_id occurred now l = Inr p) lines rows"
    using assms by (simp add: map_result_eq_Inr)
  then show ?thesis by induction (use each in auto)
qed

definition receipt_written :: "inventory_db \<Rightarrow> inventory_db \<Rightarrow> inventory_db \<Rightarrow> auth_user \<Rightarrow> receipt_request \<Rightarrow> uuid \<Rightarrow> receipt_reply \<Rightarrow> bool" where
  "receipt_written seen db db' user q receipt_id reply =
     (\<exists>rows r. iv_receipts db' = iv_receipts db @ [r] \<and> iv_receipt_lines db' = iv_receipt_lines db @ map fst rows \<and>
        iv_movements db' = iv_movements db @ map snd rows \<and> gs_id r = receipt_id \<and> gs_business_id r = au_business_id user \<and>
        gs_idempotency_key r = gn_idempotency_key q \<and> gs_supplier_id r = gn_supplier_id q \<and>
        gs_total_cost_cents r = sum_list (map (gl_line_cost_cents \<circ> fst) rows) \<and>
        gr_receipt_id reply = receipt_id \<and> gr_line_count reply = length rows \<and> gr_total_cents reply = gs_total_cost_cents r \<and>
        list_all (line_agrees (au_business_id user) receipt_id) rows \<and>
        list_all2 (line_of_ingredient seen (au_business_id user)) (gn_lines q) rows)"

lemma stage_receipt_fields [simp]:
  "iv_receipts (stage_receipt user q receipt_id rows occurred now db) =
     iv_receipts db @ [new_receipt user q receipt_id (sum_list (map (gl_line_cost_cents \<circ> fst) rows)) occurred now]"
  "iv_receipt_lines (stage_receipt user q receipt_id rows occurred now db) = iv_receipt_lines db @ map fst rows"
  "iv_movements (stage_receipt user q receipt_id rows occurred now db) = iv_movements db @ map snd rows"
  "iv_suppliers (stage_receipt user q receipt_id rows occurred now db) = iv_suppliers db"
  "iv_wastage (stage_receipt user q receipt_id rows occurred now db) = iv_wastage db"
  by (simp_all add: stage_receipt_def inventory_simps)

lemma create_goods_receipt_cases:
  assumes "create_goods_receipt seen db user q receipt_id now = Inr (db', reply)"
  obtains (Replayed) "db' = db" "truthy (gn_idempotency_key q)"
      "replay_receipt seen (au_business_id user) (the (gn_idempotency_key q)) = Inr (Some reply) \<or>
       (early_replay seen (au_business_id user) (gn_idempotency_key q) = Inr None \<and>
        replay_receipt db (au_business_id user) (the (gn_idempotency_key q)) = Inr (Some reply))"
  | (Written) rows where "early_replay seen (au_business_id user) (gn_idempotency_key q) = Inr None"
      "map_result (receive_line user (receivable seen (au_business_id user) (map gq_ingredient_id (gn_lines q))) receipt_id (dict_get now (gn_occurred_at q)) now) (gn_lines q) = Inr rows"
      "db' = stage_receipt user q receipt_id rows (dict_get now (gn_occurred_at q)) now db" "inventory_ok db'"
      "\<forall>s \<in> set_option (gn_supplier_id q). \<exists>x. owned_supplier seen (au_business_id user) s = Inr x"
      "reply = \<lparr>gr_receipt_id = receipt_id, gr_line_count = length (gn_lines q), gr_total_cents = sum_list (map (gl_line_cost_cents \<circ> fst) rows)\<rparr>"
proof -
  let ?key = "gn_idempotency_key q"
  obtain replayed where e: "early_replay seen (au_business_id user) ?key = Inr replayed"
    using assms by (auto simp: create_goods_receipt_def Let_def and_then_eq_Inr)
  show thesis
  proof (cases replayed)
    case (Some r)
    then have "truthy ?key" "replay_receipt seen (au_business_id user) (the ?key) = Inr (Some r)" using e by (auto simp: early_replay_def split: if_splits)
    moreover have "db' = db" "reply = r" using assms e Some by (auto simp: create_goods_receipt_def Let_def and_then_eq_Inr)
    ultimately show thesis using Replayed by blast
  next
    case None
    obtain rows where rows: "map_result (receive_line user (receivable seen (au_business_id user) (map gq_ingredient_id (gn_lines q))) receipt_id (dict_get now (gn_occurred_at q)) now) (gn_lines q) = Inr rows"
      and s: "\<forall>s \<in> set_option (gn_supplier_id q). \<exists>x. owned_supplier seen (au_business_id user) s = Inr x"
      and c: "commit_or_replay_receipt db (au_business_id user) ?key (stage_receipt user q receipt_id rows (dict_get now (gn_occurred_at q)) now db)
         \<lparr>gr_receipt_id = receipt_id, gr_line_count = length (gn_lines q), gr_total_cents = sum_list (map (gl_line_cost_cents \<circ> fst) rows)\<rparr> = Inr (db', reply)"
      using assms e None by (auto simp: create_goods_receipt_def Let_def and_then_eq_Inr split: option.splits)
    show thesis
    proof (cases "commit_inventory (stage_receipt user q receipt_id rows (dict_get now (gn_occurred_at q)) now db)")
      case (Inl err)
      with c show thesis using Replayed e None by (auto simp: commit_or_replay_receipt_def and_then_eq_Inr split: if_splits option.splits)
    next
      case (Inr d)
      with c have "db' = d" "reply = \<lparr>gr_receipt_id = receipt_id, gr_line_count = length (gn_lines q), gr_total_cents = sum_list (map (gl_line_cost_cents \<circ> fst) rows)\<rparr>"
        by (simp_all add: commit_or_replay_receipt_def)
      with Inr rows s e None show thesis using Written by (simp add: commit_inventory_eq)
    qed
  qed
qed


lemma replay_receipt_in:
  "replay_receipt db business k = Inr (Some reply) \<Longrightarrow>
   \<exists>r \<in> set (iv_receipts db). gs_business_id r = business \<and> gs_idempotency_key r = Some k \<and> gr_receipt_id reply = gs_id r \<and>
     gr_total_cents reply = gs_total_cost_cents r"
  unfolding replay_receipt_def and_then_eq_Inr by (elim exE conjE) (auto dest!: scalar_one_or_none_filter)

text \<open>
  Once a delivery is on the books under a key, every further request of the business with that key
  that is answered at all is answered with that receipt and its total, and writes nothing: no second
  receipt, no second movement of stock, whatever the request asks for and however stale the rows it read.
\<close>

theorem receipt_recorded_once:
  assumes "create_goods_receipt seen db user q receipt_id now = Inr (db', reply)"
    and "inventory_ok db" "set (iv_receipts seen) \<subseteq> set (iv_receipts db)"
    and "r \<in> set (iv_receipts db)" "gs_business_id r = au_business_id user" "gs_idempotency_key r = gn_idempotency_key q" "truthy (gn_idempotency_key q)"
  shows "db' = db \<and> gr_receipt_id reply = gs_id r \<and> gr_total_cents reply = gs_total_cost_cents r"
  using assms(1)
proof (cases rule: create_goods_receipt_cases)
  case Replayed
  obtain k where k: "gn_idempotency_key q = Some k" using assms(7) by (cases "gn_idempotency_key q") (auto simp: truthy_def)
  from Replayed k obtain d where d: "set (iv_receipts d) \<subseteq> set (iv_receipts db)" "replay_receipt d (au_business_id user) k = Inr (Some reply)"
    using assms(3) by auto
  from replay_receipt_in[OF d(2)] obtain r' where r': "r' \<in> set (iv_receipts d)" "gs_business_id r' = au_business_id user"
    "gs_idempotency_key r' = Some k" "gr_receipt_id reply = gs_id r'" "gr_total_cents reply = gs_total_cost_cents r'" by blast
  have "unique_index receipt_key (iv_receipts db)" using assms(2) by (simp add: inventory_ok_def)
  then have "r' = r" by (rule unique_index_eq[where k = "(au_business_id user, k)"]) (use r' d(1) assms(4-6) k in \<open>auto simp: receipt_key_def\<close>)
  then show ?thesis using Replayed(1) r' by simp
next
  case (Written rows)
  then have "unique_index receipt_key (iv_receipts db @ [new_receipt user q receipt_id (sum_list (map (gl_line_cost_cents \<circ> fst) rows)) (dict_get now (gn_occurred_at q)) now])"
    by (simp add: inventory_ok_def)
  moreover obtain k where "gn_idempotency_key q = Some k" using assms(7) by (cases "gn_idempotency_key q") (auto simp: truthy_def)
  ultimately have False using assms(4-6) by (auto simp: unique_index_snoc receipt_key_def new_receipt_def)
  then show ?thesis ..
qed

subsection \<open>A sample store room\<close>

definition sample_store :: inventory_db where
  "sample_store = \<lparr>iv_shop = sample_shop\<lparr>sh_businesses := [sample_business\<lparr>bu_inventory_enabled := True\<rparr>],
       sh_stock := \<lparr>sd_recipes = [], sd_ingredients = [sample_ingredient], sd_movements = []\<rparr>\<rparr>,
     iv_suppliers = [], iv_receipts = [], iv_receipt_lines = [], iv_wastage = [], iv_assets = []\<rparr>"

definition sample_receipt :: "string option \<Rightarrow> receipt_request" where
  "sample_receipt key = \<lparr>gn_lines = [\<lparr>gq_ingredient_id = 7, gq_quantity = ''2'', gq_unit = ''kg'', gq_unit_cost_cents = Some 5000\<rparr>],
     gn_supplier_id = None, gn_reference = None, gn_notes = None, gn_occurred_at = None, gn_idempotency_key = key\<rparr>"

definition sample_delivered :: "uuid \<Rightarrow> goods_receipt_line \<times> stock_movement" where
  "sample_delivered rid =
     (\<lparr>gl_business_id = 10, gl_goods_receipt_id = rid, gl_ingredient_id = 7, gl_entered_quantity = ''2'', gl_entered_unit = ''kg'',
        gl_quantity_milli = 2000000, gl_unit_cost_cents = Some 5000, gl_line_cost_cents = 10000\<rparr>,
      \<lparr>sm_business_id = 10, sm_ingredient_id = 7, sm_quantity_milli = 2000000, sm_movement_type = GOODS_RECEIVED,
        sm_source_type = Some SRC_GOODS_RECEIPT, sm_source_id = Some rid, sm_unit_cost_micro_cents = 5000000, sm_value_cents = 10000,
        sm_created_by_user_id = Some 99, sm_idempotency_key = None, sm_notes = None, sm_occurred_at = 9, sm_created_at = 9\<rparr>)"

definition sample_received :: "string option \<Rightarrow> uuid \<Rightarrow> inventory_db" where
  "sample_received key rid = stage_receipt sample_owner (sample_receipt key) rid [sample_delivered rid] 9 9 sample_store"

lemmas sample_store_defs = sample_store_def sample_shop_def sample_business_def sample_owner_def sample_ingredient_def

lemma sample_store_simps [simp]:
  "au_business_id sample_owner = 10" "au_user_id sample_owner = 99" "au_role sample_owner = OWNER"
  "require_inventory sample_store 10 = Inr (sample_business\<lparr>bu_inventory_enabled := True\<rparr>)"
  "receivable sample_store 10 [7] 7 = Some sample_ingredient" "inventory_ok sample_store"
  "iv_receipts sample_store = []" "iv_receipt_lines sample_store = []" "iv_wastage sample_store = []" "iv_movements sample_store = []"
  by (simp_all add: sample_store_defs require_inventory_def business_of_def or_raise_def receivable_def iv_stock_def iv_movements_def
      inventory_ok_def unique_index_one shop_ok_def stock_index_def commit_loyalty_def)

lemma sample_line_received:
  "receive_line sample_owner (receivable sample_store 10 [7]) rid 9 9
     \<lparr>gq_ingredient_id = 7, gq_quantity = ''2'', gq_unit = ''kg'', gq_unit_cost_cents = Some 5000\<rparr> = Inr (sample_delivered rid)"
proof -
  have t: "to_milli (QText ''2'') (Some ''kg'') (Some GRAM) = Inr 2000000" "decimal_of_string ''2'' = FiniteText (Dec 2 0)"
    "upper (strip ''kg'') = ''KG''" "dec_quantize_int (dec_mul (dec_of_int 5000) (Dec 2 0)) = Inr 10000" by code_simp+
  have v: "cost_per_canonical_micro_cents 10000 2000000 = Inr 5000000" "value_cents 2000000 5000000 = Inr 10000"
    by (simp_all add: cost_per_canonical_exact value_cents_exact half_up_def)
  show ?thesis
    by (simp add: receive_line_def or_raise_def received_quantity_def sample_ingredient_def
        convert_quantity_def received_cost_def build_movement_def t v sample_delivered_def)
qed

lemma sample_received_ok: "inventory_ok (sample_received key rid)"
  by (simp add: inventory_ok_def sample_received_def sample_store_defs unique_index_one shop_ok_def stage_receipt_def change_stock_def
      iv_stock_def stock_index_def commit_loyalty_def add_movements_def)

lemma sample_receipt_recorded:
  "create_goods_receipt sample_store sample_store sample_owner (sample_receipt key) rid 9 =
     Inr (sample_received key rid, \<lparr>gr_receipt_id = rid, gr_line_count = 1, gr_total_cents = 10000\<rparr>)"
proof -
  have e: "early_replay sample_store 10 key = Inr None"
    by (simp add: early_replay_def replay_receipt_def)
  have c: "commit_inventory (sample_received key rid) = Inr (sample_received key rid)" by (simp add: commit_inventory_eq sample_received_ok)
  show ?thesis
    using c by (simp add: create_goods_receipt_def sample_receipt_def e dict_get_def sample_line_received sample_received_def
        commit_or_replay_receipt_def) (simp add: sample_delivered_def)
qed

text \<open>A second request with the same key that read the tables before the first committed.\<close>

lemma sample_second_receipt:
  "\<exists>reply. create_goods_receipt sample_store (sample_received (Some ''k'') 50) sample_owner (sample_receipt (Some ''k'')) 51 9 =
     Inr (sample_received (Some ''k'') 50, reply) \<and> gr_line_count reply = 1"
proof -
  let ?db = "sample_received (Some ''k'') 50"
  let ?staged = "stage_receipt sample_owner (sample_receipt (Some ''k'')) 51 [sample_delivered 51] 9 9 ?db"
  have e: "early_replay sample_store 10 (Some ''k'') = Inr None" by (simp add: early_replay_def replay_receipt_def)
  have "\<not> unique_index receipt_key (iv_receipts ?staged)"
    by (simp add: sample_received_def unique_index_def receipt_key_def new_receipt_def sample_receipt_def)
  then have c: "commit_inventory ?staged = Inl (IntegrityError ''uq_goods_receipts_business_idempotency_key'')"
    by (simp add: commit_inventory_def raise_if_def)
  have r: "replay_receipt ?db 10 ''k'' = Inr (Some \<lparr>gr_receipt_id = 50, gr_line_count = 1, gr_total_cents = 10000\<rparr>)"
    by (simp add: replay_receipt_def sample_received_def new_receipt_def sample_receipt_def sample_delivered_def)
  show ?thesis
    using c by (simp add: create_goods_receipt_def sample_receipt_def e dict_get_def sample_line_received commit_or_replay_receipt_def r truthy_def)
qed


theorem receipt_recorded_once_witness:
  "create_goods_receipt sample_store (sample_received (Some ''k'') 50) sample_owner (sample_receipt (Some ''k'')) 51 9 =
     Inr (sample_received (Some ''k'') 50, \<lparr>gr_receipt_id = 50, gr_line_count = 1, gr_total_cents = 10000\<rparr>) \<and>
   (50 :: uuid) = gs_id (hd (iv_receipts (sample_received (Some ''k'') 50)))"
proof -
  let ?db = "sample_received (Some ''k'') 50"
  obtain db' reply where c: "create_goods_receipt sample_store ?db sample_owner (sample_receipt (Some ''k'')) 51 9 = Inr (db', reply)"
    and l: "gr_line_count reply = 1" using sample_second_receipt by blast
  have "db' = ?db \<and> gr_receipt_id reply = gs_id (hd (iv_receipts ?db)) \<and> gr_total_cents reply = gs_total_cost_cents (hd (iv_receipts ?db))"
    using receipt_recorded_once[OF c sample_received_ok, of "hd (iv_receipts ?db)"]
    by (simp add: sample_received_def new_receipt_def sample_receipt_def truthy_def)
  with c l show ?thesis by (simp add: sample_received_def new_receipt_def sample_receipt_def sample_delivered_def)
qed

end
