(* ===== verification/RecipeLaws.thy ===== *)
theory RecipeLaws imports Recipes InventoryLaws begin

text \<open>
  What the recipe page guarantees: the food cost it quotes is what the ledger books when a portion is
  sold, and an edited recipe is the only active one of its parent, with exactly the lines of the request.
\<close>

subsection \<open>Lists\<close>

lemma map_of_find:
  "map_of (map (\<lambda>x. (k x, v x)) (filter P xs)) i = map_option v (find (\<lambda>x. k x = i \<and> P x) xs)"
  by (induction xs) auto

lemma find_cong_in: "(\<And>x. x \<in> set xs \<Longrightarrow> P x = Q x) \<Longrightarrow> find P xs = find Q xs"
  by (induction xs) auto

lemma add_to_new: "i \<notin> set (map fst cs) \<Longrightarrow> add_to i n cs = cs @ [(i, n)]"
  by (induction i n cs rule: add_to.induct) auto

lemma merge_new: "distinct (map fst (totals @ cs)) \<Longrightarrow> merge_consumption cs totals = totals @ cs"
proof (induction cs arbitrary: totals)
  case (Cons p cs)
  obtain i n where p: "p = (i, n)" by (cases p)
  have "merge_consumption cs (totals @ [p]) = (totals @ [p]) @ cs" using Cons.prems by (intro Cons.IH) auto
  moreover have "add_to i n totals = totals @ [p]" using Cons.prems p by (intro trans[OF add_to_new]) auto
  ultimately show ?case by (simp add: merge_consumption_def p)
qed (simp add: merge_consumption_def)

lemma unique_index_filter_one:
  assumes "unique_index key rows" "\<And>r. P r \<Longrightarrow> key r = Some k" "r \<in> set rows" "P r"
  shows "filter P rows = [r]"
proof -
  have "filter P rows = [] \<or> (\<exists>r. filter P rows = [r])" using assms(1,2) by (rule unique_index_filter_le_1)
  moreover have "r \<in> set (filter P rows)" using assms(3,4) by simp
  ultimately show ?thesis by (metis empty_iff empty_set singletonD list.set(2))
qed

subsection \<open>The quoted cost is the booked cost\<close>

definition portion_of :: "int \<Rightarrow> recipe_item \<Rightarrow> int" where
  "portion_of y l = half_up_signed (rt_quantity_milli l) y"

text \<open>What selling one portion with no option, no add-on and nothing removed consumes.\<close>

definition base_lines :: "recipe \<Rightarrow> recipe_item list" where
  "base_lines r = filter (\<lambda>l. rt_option_id l = None) (sort_key rt_sort_order (rc_items r))"

definition quotable :: "recipe \<Rightarrow> bool" where
  "quotable r = (0 < rc_yield_qty r \<and> distinct (map rt_ingredient_id (base_lines r)) \<and>
     (\<forall>l \<in> set (rc_items r). rt_option_id l \<noteq> Some [] \<and> 0 < rt_quantity_milli l \<and> rt_quantity_milli l < 10 ^ 12))"

definition plain_portion :: "uuid \<Rightarrow> line_item_spec" where
  "plain_portion item = \<lparr>li_menu_item_id = item, li_quantity = 1, li_selected_option_ids = [], li_add_on_selections = [], li_removed_ref_ids = []\<rparr>"

lemma half_up_le_self:
  assumes "0 \<le> a" "0 < b"
  shows "half_up a b \<le> a"
proof -
  have "a \<le> a * b" using assms mult_left_mono[of 1 b a] by simp
  then have "half_up a b \<le> (b + a * (2 * b)) div (2 * b)"
    unfolding half_up_def using assms by (intro zdiv_mono1) (simp_all add: algebra_simps)
  also have "\<dots> = a" using assms by simp
  finally show ?thesis .
qed

lemma portion_bounds:
  assumes "0 < rt_quantity_milli l" "rt_quantity_milli l < 10 ^ 12" "0 < y"
  shows "0 \<le> portion_of y l" "portion_of y l < 10 ^ 12"
  using half_up_nonneg[of "rt_quantity_milli l" y] half_up_le_self[of "rt_quantity_milli l" y] assms by (auto simp: portion_of_def half_up_signed_simps)

text \<open>The consumption of a portion: the base lines that do not round to nothing, in their order.\<close>

definition portion_lines :: "int \<Rightarrow> recipe_item list \<Rightarrow> consumption" where
  "portion_lines y ls = filter (\<lambda>p. snd p \<noteq> 0) (map (\<lambda>l. (rt_ingredient_id l, portion_of y l)) ls)"

definition line_spec :: "recipe_item \<Rightarrow> recipe_line_spec" where
  "line_spec l = \<lparr>rl_ingredient_id = rt_ingredient_id l, rl_quantity_milli = rt_quantity_milli l,
     rl_option_id = rt_option_id l, rl_removable_ref_id = rt_removable_ref_id l\<rparr>"

lemma line_spec_simps [simp]:
  "rl_ingredient_id (line_spec l) = rt_ingredient_id l" "rl_quantity_milli (line_spec l) = rt_quantity_milli l"
  "line_applies {} {} (line_spec l) = (rt_option_id l = None)"
  by (simp_all add: line_spec_def line_applies_def)

definition portion_entry :: "int \<Rightarrow> recipe_item \<Rightarrow> consumption" where
  "portion_entry y l = (if portion_of y l = 0 then [] else [(rt_ingredient_id l, portion_of y l)])"

lemma portion_lines_Cons: "portion_lines y (l # ls) = portion_entry y l @ portion_lines y ls"
  by (simp add: portion_lines_def portion_entry_def)

lemma portion_lines_subset: "set (map fst (portion_lines y ls)) \<subseteq> set (map rt_ingredient_id ls)"
  by (auto simp: portion_lines_def)

lemma portion_lines_distinct: "distinct (map rt_ingredient_id ls) \<Longrightarrow> distinct (map fst (portion_lines y ls))"
  by (auto simp: portion_lines_def distinct_map inj_on_def)

lemma consume_portion:
  assumes "0 < y" "\<forall>l \<in> set ls. rt_option_id l = None \<longrightarrow> \<bar>rt_quantity_milli l\<bar> < 10 ^ 12"
    and "distinct (map fst totals @ map rt_ingredient_id (filter (\<lambda>l. rt_option_id l = None) ls))"
  shows "consume_lines {} {} 1 y (map line_spec ls) totals = Inr (totals @ portion_lines y (filter (\<lambda>l. rt_option_id l = None) ls))"
  using assms(2,3)
proof (induction ls arbitrary: totals)
  case (Cons l ls)
  show ?case
  proof (cases "rt_option_id l = None")
    case True
    have s: "scale (rt_quantity_milli l) 1 y = Inr (portion_of y l)"
      using Cons.prems(1) True assms(1) by (simp add: scale_exact portion_of_def)
    have b: "bump (rt_ingredient_id l) (portion_of y l) totals = totals @ portion_entry y l"
      using Cons.prems(2) True by (simp add: bump_def portion_entry_def add_to_new)
    have "consume_lines {} {} 1 y (map line_spec ls) (totals @ portion_entry y l) =
        Inr ((totals @ portion_entry y l) @ portion_lines y (filter (\<lambda>l. rt_option_id l = None) ls))"
      using Cons.prems True by (intro Cons.IH) (auto simp: portion_entry_def)
    with True s b show ?thesis by (simp add: portion_lines_Cons)
  next
    case False
    with Cons show ?thesis by auto
  qed
qed (simp add: portion_lines_def)

lemma recipe_spec_of_lines: "rs_lines (recipe_spec_of r) = map line_spec (sort_key rt_sort_order (rc_items r))"
  by (simp add: recipe_spec_of_def line_spec_def)

lemma portion_resolved:
  assumes r: "r \<in> set recipes" "rc_is_active r" "rc_business_id r = b" "rc_menu_item_id r = Some i" "recipes_ok recipes" "quotable r"
  shows "(case load_recipe_specs recipes b [i] [] of (ir, ar) \<Rightarrow> resolve_order [plain_portion i] ir ar) =
      Inr \<lparr>cr_lines = portion_lines (rc_yield_qty r) (base_lines r), cr_menu_items_without_recipe = []\<rparr>"
proof -
  have f: "filter (recipe_matches b [i] []) recipes = [r]"
    by (rule unique_index_filter_one[where key = active_item_key and k = i])
      (use r in \<open>auto simp: recipes_ok_def recipe_matches_def active_item_key_def\<close>)
  have y: "0 < rc_yield_qty r" using r(6) by (simp add: quotable_def)
  have c: "consume_lines {} {} 1 (rc_yield_qty r) (map line_spec (sort_key rt_sort_order (rc_items r))) [] =
      Inr (portion_lines (rc_yield_qty r) (base_lines r))"
    unfolding base_lines_def using y
    by (rule consume_portion[where totals = "[]", unfolded append_Nil]) (use r(6) in \<open>auto simp: quotable_def base_lines_def abs_of_pos\<close>)
  have m: "merge_consumption (portion_lines (rc_yield_qty r) (base_lines r)) [] = portion_lines (rc_yield_qty r) (base_lines r)"
    using merge_new[of "[]"] portion_lines_distinct r(6) by (simp add: quotable_def)
  have l: "load_recipe_specs recipes b [i] [] = ([i \<mapsto> recipe_spec_of r], Map.empty)"
    by (simp add: load_recipe_specs_def f r(4))
  have "rs_yield_qty (recipe_spec_of r) = rc_yield_qty r" using y by (simp add: recipe_spec_of_def)
  with c m show ?thesis
    by (simp add: l resolve_order_def plain_portion_def resolve_line_item_def selected_ids_def removed_ids_def recipe_spec_of_lines)
qed

text \<open>One line: the quote rounds the same portion to the same cents as the movement, with the other sign.\<close>

lemma per_portion_exact: "0 < y \<Longrightarrow> \<bar>q\<bar> < 10 ^ 18 \<Longrightarrow> per_portion_quantity_milli q y = Inr (half_up_signed q y)"
  using dec_ratio_half_up[of q y] by (simp add: per_portion_quantity_milli_def dec_of_int_def)

lemma value_cents_signed: "\<bar>n * c\<bar> < 10 ^ 27 \<Longrightarrow> value_cents n c = Inr (half_up_signed (n * c) (10 ^ 9))"
  using dec_mul_div_int_exact[of n c "10 ^ 9"] by (simp add: value_cents_def milli_def)

definition cost_in :: "(uuid \<Rightarrow> ingredient option) \<Rightarrow> uuid \<Rightarrow> int" where
  "cost_in ingredients i = (case ingredients i of None \<Rightarrow> 0 | Some x \<Rightarrow> ing_cost_per_canonical_micro_cents x)"

lemma line_quoted:
  assumes "recipe_line_reply ingredients y l = Inr reply" "0 < y" "0 < rt_quantity_milli l" "rt_quantity_milli l < 10 ^ 12"
    and "\<bar>cost_in ingredients (rt_ingredient_id l)\<bar> < 10 ^ 15"
  shows "ry_option_id reply = rt_option_id l"
    and "ry_cost_cents reply = half_up_signed (portion_of y l * cost_in ingredients (rt_ingredient_id l)) (10 ^ 9)"
proof -
  let ?c = "cost_in ingredients (rt_ingredient_id l)"
  have p: "per_portion_quantity_milli (rt_quantity_milli l) y = Inr (portion_of y l)"
    using assms per_portion_exact[of y "rt_quantity_milli l"] by (simp add: portion_of_def)
  have "\<bar>portion_of y l * ?c\<bar> < 10 ^ 12 * 10 ^ 15"
    unfolding abs_mult using portion_bounds[OF assms(3,4,2)] assms(5) by (intro mult_strict_mono) auto
  then have v: "value_cents (portion_of y l) ?c = Inr (half_up_signed (portion_of y l * ?c) (10 ^ 9))" by (intro value_cents_signed) simp
  show "ry_option_id reply = rt_option_id l" "ry_cost_cents reply = half_up_signed (portion_of y l * ?c) (10 ^ 9)"
    using assms(1) v by (auto simp: recipe_line_reply_def Let_def and_then_eq_Inr p cost_in_def split: option.splits)
qed

lemma portion_booked:
  assumes "sale_movement b x u occ t now costs (i, n) = Inr m" "0 \<le> n" "n < 10 ^ 12" "\<bar>dict_get 0 (costs i)\<bar> < 10 ^ 15"
  shows "sm_value_cents m = - half_up_signed (n * dict_get 0 (costs i)) (10 ^ 9)"
proof -
  have "\<bar>n * dict_get 0 (costs i)\<bar> < 10 ^ 12 * 10 ^ 15"
    unfolding abs_mult using assms by (intro mult_strict_mono) auto
  then have "value_cents (- n) (dict_get 0 (costs i)) = Inr (half_up_signed (- n * dict_get 0 (costs i)) (10 ^ 9))"
    by (intro value_cents_signed) (simp add: abs_mult)
  moreover have "value_cents (- \<bar>n\<bar>) (dict_get 0 (costs i)) = Inr (sm_value_cents m)"
    using assms(1) by (auto simp: sale_movement_def dest: build_movement_value)
  ultimately show ?thesis using assms(2) half_up_signed_minus[of "10 ^ 9" "n * dict_get 0 (costs i)"] by simp
qed

lemma filter_map_zero: "sum_list (map f (filter (\<lambda>p. snd p \<noteq> 0) ps)) = (sum_list (map f ps) :: int)" if "\<And>i. f (i, 0) = 0"
  using that by (induction ps) auto

lemma half_up_signed_zero: "half_up_signed 0 1000000000 = 0"
  by (simp add: half_up_signed_def half_up_def)

lemma quoted_sum:
  assumes "list_all2 (\<lambda>l a. recipe_line_reply ingredients y l = Inr a) ls items" "0 < y"
    and "\<forall>l \<in> set ls. rt_option_id l \<noteq> Some [] \<and> 0 < rt_quantity_milli l \<and> rt_quantity_milli l < 10 ^ 12 \<and>
           \<bar>cost_in ingredients (rt_ingredient_id l)\<bar> < 10 ^ 15"
  shows "sum_list (map ry_cost_cents (filter (\<lambda>i. \<not> truthy (ry_option_id i)) items)) =
     sum_list (map (\<lambda>l. half_up_signed (portion_of y l * cost_in ingredients (rt_ingredient_id l)) (10 ^ 9)) (filter (\<lambda>l. rt_option_id l = None) ls))"
  using assms(1,3)
proof (induction rule: list_all2_induct)
  case (Cons l ls a items)
  then have "ry_option_id a = rt_option_id l"
    "ry_cost_cents a = half_up_signed (portion_of y l * cost_in ingredients (rt_ingredient_id l)) (10 ^ 9)"
    using line_quoted[OF Cons.hyps(1) assms(2)] by auto
  with Cons show ?case by (cases "rt_option_id l") (auto simp: truthy_def)
qed simp

lemma booked_sum:
  assumes "list_all2 (\<lambda>p m. sale_movement b x u occ t now costs p = Inr m) ps ms"
    and "\<forall>p \<in> set ps. 0 \<le> snd p \<and> snd p < 10 ^ 12 \<and> \<bar>dict_get 0 (costs (fst p))\<bar> < 10 ^ 15"
  shows "sum_list (map sm_value_cents ms) = - sum_list (map (\<lambda>p. half_up_signed (snd p * dict_get 0 (costs (fst p))) (10 ^ 9)) ps)"
  using assms
proof (induction rule: list_all2_induct)
  case (Cons p ps m ms)
  with portion_booked[of b x u occ t now costs "fst p" "snd p" m] show ?case by simp
qed simp

lemma quoted_reply:
  assumes "get_recipe_for_menu_item db user i = Inr reply"
  shows "rp_recipe reply \<in> set (iv_recipes db) \<and> rc_is_active (rp_recipe reply) \<and> rc_business_id (rp_recipe reply) = au_business_id user \<and>
     rc_menu_item_id (rp_recipe reply) = Some i \<and>
     build_recipe_reply (load_ingredients db (au_business_id user) (recipe_ingredient_ids (rp_recipe reply))) (rp_recipe reply) = Inr reply"
  using assms unfolding get_recipe_for_menu_item_def active_recipe_def and_then_eq_Inr or_raise_eq_Inr
  by (elim exE conjE, simp) (auto simp: build_recipe_reply_def and_then_eq_Inr Let_def dest!: scalar_one_or_none_filter)

lemma quoted_base:
  assumes "build_recipe_reply (load_ingredients db b (recipe_ingredient_ids r)) r = Inr reply" "quotable r"
    and "\<And>j. \<bar>case find (\<lambda>x. ing_id x = j \<and> ing_business_id x = b) (sd_ingredients (iv_stock db)) of None \<Rightarrow> 0 | Some x \<Rightarrow> ing_cost_per_canonical_micro_cents x\<bar> < 10 ^ 15"
  shows "rp_base_food_cost_cents reply = sum_list (map (\<lambda>l. half_up_signed (portion_of (rc_yield_qty r) l *
     (case find (\<lambda>x. ing_id x = rt_ingredient_id l \<and> ing_business_id x = b) (sd_ingredients (iv_stock db)) of None \<Rightarrow> 0 | Some x \<Rightarrow> ing_cost_per_canonical_micro_cents x))
     (10 ^ 9)) (base_lines r))"
proof -
  let ?L = "load_ingredients db b (recipe_ingredient_ids r)" and ?ls = "sort_key rt_sort_order (rc_items r)"
  have y: "0 < rc_yield_qty r" "(if rc_yield_qty r = 0 then 1 else rc_yield_qty r) = rc_yield_qty r" using assms(2) by (auto simp: quotable_def)
  have k: "cost_in ?L (rt_ingredient_id l) = (case find (\<lambda>x. ing_id x = rt_ingredient_id l \<and> ing_business_id x = b) (sd_ingredients (iv_stock db)) of
      None \<Rightarrow> 0 | Some x \<Rightarrow> ing_cost_per_canonical_micro_cents x)" if "l \<in> set (rc_items r)" for l
    using that by (simp add: cost_in_def load_ingredients_def recipe_ingredient_ids_def)
  obtain items where items: "list_all2 (\<lambda>l a. recipe_line_reply ?L (rc_yield_qty r) l = Inr a) ?ls items"
    and base: "rp_base_food_cost_cents reply = sum_list (map ry_cost_cents (filter (\<lambda>i. \<not> truthy (ry_option_id i)) items))"
    using assms(1) y by (auto simp: build_recipe_reply_def and_then_eq_Inr Let_def map_result_eq_Inr)
  have "\<forall>l \<in> set ?ls. rt_option_id l \<noteq> Some [] \<and> 0 < rt_quantity_milli l \<and> rt_quantity_milli l < 10 ^ 12 \<and> \<bar>cost_in ?L (rt_ingredient_id l)\<bar> < 10 ^ 15"
    using assms(2,3) k by (simp add: quotable_def)
  from quoted_sum[OF items y(1) this] have "rp_base_food_cost_cents reply =
      sum_list (map (\<lambda>l. half_up_signed (portion_of (rc_yield_qty r) l * cost_in ?L (rt_ingredient_id l)) (10 ^ 9)) (base_lines r))"
    by (simp add: base base_lines_def)
  also have "\<dots> = sum_list (map (\<lambda>l. half_up_signed (portion_of (rc_yield_qty r) l *
     (case find (\<lambda>x. ing_id x = rt_ingredient_id l \<and> ing_business_id x = b) (sd_ingredients (iv_stock db)) of None \<Rightarrow> 0 | Some x \<Rightarrow> ing_cost_per_canonical_micro_cents x))
     (10 ^ 9)) (base_lines r))"
    by (rule arg_cong[where f = sum_list], rule map_cong) (auto simp: k base_lines_def)
  finally show ?thesis .
qed

lemma portion_lines_bounds: "quotable r \<Longrightarrow> \<forall>p \<in> set (portion_lines (rc_yield_qty r) (base_lines r)). 0 \<le> snd p \<and> snd p < 10 ^ 12"
  using portion_bounds[of _ "rc_yield_qty r"] by (auto simp: portion_lines_def quotable_def base_lines_def)

lemma portion_posted:
  assumes "post_sale_consumption s b x [plain_portion i] u occ SALE_CONSUMPTION now = Inr (s', res)"
    and "r \<in> set (sd_recipes s)" "rc_is_active r" "rc_business_id r = b" "rc_menu_item_id r = Some i" "recipes_ok (sd_recipes s)" "quotable r"
  shows "cr_lines res = portion_lines (rc_yield_qty r) (base_lines r)"
    and "\<exists>ms. sd_movements s' = sd_movements s @ ms \<and>
     list_all2 (\<lambda>p m. sale_movement b x u occ SALE_CONSUMPTION now
        (ingredient_costs (sd_ingredients s) b (map fst (portion_lines (rc_yield_qty r) (base_lines r)))) p = Inr m)
      (portion_lines (rc_yield_qty r) (base_lines r)) ms"
  using assms(1) portion_resolved[OF assms(2-7)]
  by (auto simp: post_sale_consumption_def plain_portion_def and_then_eq_Inr Let_def map_result_eq_Inr split: prod.splits if_splits)

lemma booked_cost:
  assumes "p \<in> set ps"
  shows "dict_get 0 (ingredient_costs ings b (map fst ps) (fst p)) =
    (case find (\<lambda>x. ing_id x = fst p \<and> ing_business_id x = b) ings of None \<Rightarrow> 0 | Some x \<Rightarrow> ing_cost_per_canonical_micro_cents x)"
proof -
  have "find (\<lambda>x. ing_id x = fst p \<and> ing_business_id x = b \<and> ing_id x \<in> fst ` set ps) ings = find (\<lambda>x. ing_id x = fst p \<and> ing_business_id x = b) ings"
    using assms by (intro find_cong_in) auto
  then show ?thesis by (simp add: ingredient_costs_def map_of_find dict_get_def split: option.split)
qed

text \<open>
  C6: The food cost the recipe page quotes for a menu item is to the cent what the stock ledger books
  when one plain portion of it is sold: the movements of the sale are worth the quote, with a minus sign.
  The recipe names an ingredient at most once among the lines that always apply.
\<close>

theorem quoted_cost_is_booked:
  assumes "get_recipe_for_menu_item db user i = Inr reply" "recipes_ok (iv_recipes db)" "quotable (rp_recipe reply)"
    and "\<forall>x \<in> set (sd_ingredients (iv_stock db)). \<bar>ing_cost_per_canonical_micro_cents x\<bar> < 10 ^ 15"
    and "post_sale_consumption (iv_stock db) (au_business_id user) x [plain_portion i] u occ SALE_CONSUMPTION now = Inr (s, res)"
  shows "\<exists>ms. sd_movements s = iv_movements db @ ms \<and> sum_list (map sm_value_cents ms) = - rp_base_food_cost_cents reply"
proof -
  let ?b = "au_business_id user" and ?r = "rp_recipe reply"
  let ?y = "rc_yield_qty ?r" and ?find = "\<lambda>i. find (\<lambda>x. ing_id x = i \<and> ing_business_id x = ?b) (sd_ingredients (iv_stock db))"
  let ?cost = "\<lambda>i. case ?find i of None \<Rightarrow> 0 | Some x \<Rightarrow> ing_cost_per_canonical_micro_cents x"
  define ps where "ps = portion_lines ?y (base_lines ?r)"
  note r = quoted_reply[OF assms(1)]
  have y: "0 < ?y" using assms(3) by (simp add: quotable_def)
  have c: "\<bar>?cost j\<bar> < 10 ^ 15" for j
    using assms(4) by (auto split: option.split dest!: find_SomeD)
  have q: "rp_base_food_cost_cents reply = sum_list (map (\<lambda>l. half_up_signed (portion_of ?y l * ?cost (rt_ingredient_id l)) (10 ^ 9)) (base_lines ?r))"
    using r[THEN conjunct2, THEN conjunct2, THEN conjunct2, THEN conjunct2] assms(3) c by (rule quoted_base)
  have ps: "\<forall>p \<in> set ps. 0 \<le> snd p \<and> snd p < 10 ^ 12" unfolding ps_def using assms(3) by (rule portion_lines_bounds)
  have "cr_lines res = ps" and m: "\<exists>ms. sd_movements s = iv_movements db @ ms \<and>
     list_all2 (\<lambda>p m. sale_movement ?b x u occ SALE_CONSUMPTION now (ingredient_costs (sd_ingredients (iv_stock db)) ?b (map fst ps)) p = Inr m) ps ms"
    using portion_posted[OF assms(5)] r assms(2,3) by (simp_all add: ps_def iv_movements_def iv_recipes_def)
  then obtain ms where ms: "sd_movements s = iv_movements db @ ms"
    "list_all2 (\<lambda>p m. sale_movement ?b x u occ SALE_CONSUMPTION now (ingredient_costs (sd_ingredients (iv_stock db)) ?b (map fst ps)) p = Inr m) ps ms" by blast
  have k: "dict_get 0 (ingredient_costs (sd_ingredients (iv_stock db)) ?b (map fst ps) (fst p)) = ?cost (fst p)" if "p \<in> set ps" for p
    using that by (rule booked_cost)
  have "sum_list (map sm_value_cents ms) = - sum_list (map (\<lambda>p. half_up_signed (snd p * ?cost (fst p)) (10 ^ 9)) ps)"
    using booked_sum[OF ms(2)] ps k c by (simp cong: map_cong)
  also have "sum_list (map (\<lambda>p. half_up_signed (snd p * ?cost (fst p)) (10 ^ 9)) ps) = rp_base_food_cost_cents reply"
    unfolding q ps_def portion_lines_def by (subst filter_map_zero) (simp_all add: half_up_signed_zero comp_def)
  finally show ?thesis using ms(1) by blast
qed

lemma reduce_to_numeral:
  "reduce_to (numeral k) c e = (if c mod 10 = 0 then reduce_to (pred_numeral k) (c div 10) (e + 1) else Dec c e)"
  by (simp add: numeral_eq_Suc)

lemma sample_display: "format_quantity 150000 GRAM None = Inr ''150 g''"
proof -
  have n: "ndig 150000 = 6" "ndig 1000 = 4" "ndig 150 = 3" "ndig (Suc 0) = 1" by (simp_all add: ndig.simps)
  have d: "dec_div (Dec 150000 0) (Dec 1000 0) = Inr (Dec 150 0)" "dec_div (Dec 150 0) (Dec 1 0) = Inr (Dec 150 0)"
    by (simp_all add: dec_div_def div_exp_def scale_ratio_def Let_def half_even_def n prec_def reduce_to_numeral)
  have "dec_normalize (Dec 150 0) = Dec 15 1" by (simp add: dec_normalize_def dec_fix_def prec_def n reduce_to_numeral)
  moreover have "dec_quantize_int (Dec 15 1) = Inr 150" by (simp add: dec_quantize_int_def prec_def)
  moreover have "dec_format_f (Dec 150 0) = ''150''" "strip (''150'' @ '' '' @ ''g'') = ''150 g''" by code_simp+
  ultimately show ?thesis by (simp add: trim_def format_quantity_def to_canonical_def dec_of_int_def milli_def d dec_neg_def dec_ge_int_def)
qed

definition sample_recipes_store :: inventory_db where
  "sample_recipes_store = change_stock (\<lambda>s. \<lparr>sd_recipes = sd_recipes sample_stock_db,
     sd_ingredients = [sample_ingredient\<lparr>ing_cost_per_canonical_micro_cents := 5000000\<rparr>], sd_movements = []\<rparr>) sample_store"

theorem quoted_cost_is_booked_witness:
  "\<exists>reply s res. get_recipe_for_menu_item sample_recipes_store sample_owner 1 = Inr reply \<and>
     post_sale_consumption (iv_stock sample_recipes_store) 10 99 [plain_portion 1] None None SALE_CONSUMPTION 5 = Inr (s, res) \<and>
     rp_base_food_cost_cents reply = 750 \<and>
     (\<exists>ms. sd_movements s = iv_movements sample_recipes_store @ ms \<and> sum_list (map sm_value_cents ms) = - rp_base_food_cost_cents reply)"
proof -
  note f = sample_display
  have p: "per_portion_quantity_milli 150000 1 = Inr 150000" by (simp add: per_portion_exact half_up_signed_def half_up_def)
  have v: "value_cents 150000 5000000 = Inr 750" "value_cents (- 150000) 5000000 = Inr (- 750)" "scale 150000 1 1 = Inr 150000"
    by (simp_all add: value_cents_signed scale_exact half_up_signed_def half_up_def)
  have b: "require_inventory sample_recipes_store 10 = Inr (sample_business\<lparr>bu_inventory_enabled := True\<rparr>)"
    by (simp add: sample_recipes_store_def change_stock_def sample_store_defs require_inventory_def business_of_def or_raise_def)
  have i: "iv_stock sample_recipes_store = \<lparr>sd_recipes = sd_recipes sample_stock_db,
     sd_ingredients = [sample_ingredient\<lparr>ing_cost_per_canonical_micro_cents := 5000000\<rparr>], sd_movements = []\<rparr>" by (simp add: sample_recipes_store_def)
  obtain reply where reply: "get_recipe_for_menu_item sample_recipes_store sample_owner 1 = Inr reply" "rp_base_food_cost_cents reply = 750"
     "rp_recipe reply = hd (sd_recipes sample_stock_db)"
    by (simp add: get_recipe_for_menu_item_def b active_recipe_def iv_recipes_def i sample_stock_db_def or_raise_def
        build_recipe_reply_def load_ingredients_def recipe_ingredient_ids_def recipe_line_reply_def sample_ingredient_def p v f Let_def truthy_def)
  obtain s res where s: "post_sale_consumption (iv_stock sample_recipes_store) 10 99 [plain_portion 1] None None SALE_CONSUMPTION 5 = Inr (s, res)"
    by (simp add: post_sale_consumption_def plain_portion_def i sample_stock_db_def load_recipe_specs_def recipe_matches_def
        recipe_spec_of_def resolve_order_def resolve_line_item_def line_applies_def truthy_def v bump_def merge_consumption_def
        ingredient_costs_def sample_ingredient_def sale_movement_def build_movement_def dict_get_def)
  have "\<exists>ms. sd_movements s = iv_movements sample_recipes_store @ ms \<and> sum_list (map sm_value_cents ms) = - rp_base_food_cost_cents reply"
    by (rule quoted_cost_is_booked[OF reply(1) _ _ _ s[folded sample_store_simps(1)]])
      (simp_all add: reply quotable_def base_lines_def recipes_ok_def iv_recipes_def i sample_stock_db_def
        unique_index_one one_parent_def sample_ingredient_def)
  with reply s show ?thesis by blast
qed

subsection \<open>Editing a recipe\<close>

lemma put_recipe_fields [simp]:
  "iv_recipes (put_recipe e r db) = (if e = None then iv_recipes db @ [r] else update_where (\<lambda>x. rc_id x = rc_id r) (\<lambda>_. r) (iv_recipes db))"
  "iv_movements (put_recipe e r db) = iv_movements db"
  by (simp_all add: put_recipe_def iv_recipes_def iv_movements_def)

lemma upsert_recipe_cases:
  assumes "upsert_recipe db user q new_id = Inr (db', reply)"
  obtains existing rows where "active_recipe db (au_business_id user) (of_parent q) = Inr existing"
    "map_result (recipe_row (load_ingredients db (au_business_id user) (map rq_ingredient_id (ru_items q)))) (ru_items q) = Inr rows"
    "db' = put_recipe existing (new_recipe_version (au_business_id user) q new_id existing rows) db"
    "inventory_ok db'" "recipes_ok (iv_recipes db')" "(ru_menu_item_id q \<noteq> None) \<noteq> (ru_menu_add_on_id q \<noteq> None)"
  using assms unfolding upsert_recipe_def Let_def and_then_eq_Inr raise_if_eq_Inr commit_recipe_rows_eq
  by (elim exE conjE) (rule that, auto)

definition row_of_request :: "recipe_item_request \<Rightarrow> recipe_item \<Rightarrow> bool" where
  "row_of_request q l = (rt_ingredient_id l = rq_ingredient_id q \<and> 0 < rt_quantity_milli l \<and> rt_option_id l = rq_option_id q \<and>
     rt_removable_ref_id l = rq_removable_ref_id q \<and> rt_sort_order l = rq_sort_order q)"

lemma recipe_row_shape: "recipe_row (load_ingredients db b ids) q = Inr l \<Longrightarrow> row_of_request q l"
  by (auto simp: recipe_row_def and_then_eq_Inr or_raise_eq_Inr row_of_request_def load_ingredients_def split: if_splits dest!: find_SomeD)

text \<open>The active recipe of the parent, alone, with the lines of the request; no other row and no stock changed.\<close>

definition recipe_replaced :: "inventory_db \<Rightarrow> inventory_db \<Rightarrow> uuid \<Rightarrow> recipe_upsert \<Rightarrow> recipe \<Rightarrow> bool" where
  "recipe_replaced db db' business q r =
     (filter (\<lambda>x. rc_business_id x = business \<and> of_parent q x \<and> rc_is_active x) (iv_recipes db') = [r] \<and>
      rc_yield_qty r = ru_yield_qty q \<and> list_all2 row_of_request (ru_items q) (rc_items r) \<and>
      filter (\<lambda>x. rc_id x \<noteq> rc_id r) (iv_recipes db') = filter (\<lambda>x. rc_id x \<noteq> rc_id r) (iv_recipes db) \<and>
      iv_movements db' = iv_movements db)"

lemma of_parent_new_version:
  assumes "active_recipe db b (of_parent q) = Inr existing"
  shows "rc_business_id (new_recipe_version b q i existing rows) = b" "of_parent q (new_recipe_version b q i existing rows)"
    "rc_is_active (new_recipe_version b q i existing rows)" "rc_items (new_recipe_version b q i existing rows) = rows"
    "rc_yield_qty (new_recipe_version b q i existing rows) = ru_yield_qty q"
  using assms by (auto simp: new_recipe_version_def active_recipe_def of_parent_def dest!: scalar_one_or_none_filter split: option.splits if_splits)

lemma filter_update_other: "filter (\<lambda>x. k x \<noteq> k r) (update_where (\<lambda>x. k x = k r) (\<lambda>_. r) xs) = filter (\<lambda>x. k x \<noteq> k r) xs"
  by (induction xs) (auto simp: update_where_def)


definition sample_upsert :: recipe_upsert where
  "sample_upsert = \<lparr>ru_menu_item_id = Some (mi_id sample_menu_item), ru_menu_add_on_id = None, ru_yield_qty = 1, ru_notes = None,
     ru_items = [\<lparr>rq_ingredient_id = 7, rq_quantity = ''150'', rq_unit = ''g'', rq_option_group_id = None, rq_option_id = None,
       rq_removable_ref_id = None, rq_sort_order = 0\<rparr>]\<rparr>"

lemma sample_store_parts:
  "sh_catalog (iv_shop sample_store) = sample_catalog" "sd_ingredients (iv_stock sample_store) = [sample_ingredient]" "iv_recipes sample_store = []"
  by (simp_all add: sample_store_defs iv_stock_def iv_recipes_def)

lemma sample_recipe_commit:
  "one_parent r \<Longrightarrow> 0 < rc_yield_qty r \<Longrightarrow> commit_recipe_rows (put_recipe None r sample_store) = Inr (put_recipe None r sample_store)"
  by (simp add: commit_recipe_rows_eq recipes_ok_def sample_store_parts unique_index_one)
    (simp add: inventory_ok_def put_recipe_def sample_store_defs unique_index_one shop_ok_def change_stock_def iv_stock_def stock_index_def commit_loyalty_def)


text \<open>A line scoped to the empty option is quoted with the base lines and never consumed.\<close>

lemma empty_option_quoted_not_booked:
  assumes "recipe_line_reply ingredients y l = Inr reply" "rt_option_id l = Some []"
  shows "\<not> truthy (ry_option_id reply)" and "selected = selected_ids item \<Longrightarrow> \<not> line_applies selected removed (line_spec l)"
  using assms by (auto simp: recipe_line_reply_def and_then_eq_Inr Let_def truthy_def line_applies_def line_spec_def selected_ids_def)

end
