(* ===== verification/ImportLaws.thy ===== *)
theory ImportLaws imports StockImport RecipeLaws begin

text \<open>
  What the spreadsheet imports guarantee: prices arrive to the cent, a size is sold at its listed price,
  the preview says what the commit does, and a file with one bad row writes nothing.
\<close>

subsection \<open>Prices\<close>

lemma money_to_cents_exact:
  assumes "decimal_of_string (price_text raw) = FiniteText (Dec c e)" "CHR ''_'' \<notin> set raw" "- 2 \<le> e" "\<bar>c\<bar> * 10 ^ nat (e + 2) < 2 ^ 49"
  shows "money_to_cents raw = Inr (Some (c * 10 ^ nat (e + 2)))"
proof -
  have s: "set (strip s) \<subseteq> set s" for s by (auto simp: strip_def dest!: set_dropWhileD)
  have "underscores_ok b u" if "CHR ''_'' \<notin> set u" for b u using that by (induction u arbitrary: b) auto
  moreover have "CHR ''_'' \<notin> set (strip (price_text raw))" using s[of "price_text raw"] s[of raw] assms(2) by (auto simp: price_text_def)
  ultimately have "float_cents (price_text raw) = Inr (c * 10 ^ nat (e + 2))" using assms by (intro float_cents_exact) auto
  moreover have "price_text raw \<noteq> []"
  proof
    assume "price_text raw = []"
    moreover have "decimal_of_string [] = BadText" by code_simp
    ultimately show False using assms(1) by simp
  qed
  ultimately show ?thesis by (simp add: money_to_cents_def)
qed

text \<open>
  C31: A price typed with at most two decimals, with or without an R, blanks and thousands commas,
  is imported to the cent although it is read as a binary floating point number and multiplied by 100.
\<close>

theorem price_imported_to_the_cent:
  assumes "decimal_of_string (price_text raw) = FiniteText (Dec c e)" "CHR ''_'' \<notin> set raw" "- 2 \<le> e" "\<bar>c\<bar> * 10 ^ nat (e + 2) < 2 ^ 49"
  shows "money_to_cents raw = Inr (Some (c * 10 ^ nat (e + 2)))"
  using assms by (rule money_to_cents_exact)

theorem price_imported_to_the_cent_witness: "money_to_cents ''R 1,299.99'' = Inr (Some 129999)"
proof -
  have "decimal_of_string (price_text ''R 1,299.99'') = FiniteText (Dec 129999 (- 2))" by code_simp
  then show ?thesis using price_imported_to_the_cent[of "''R 1,299.99''" 129999 "- 2"] by simp
qed

text \<open>A decimal comma is dropped like a thousands comma.\<close>

lemma decimal_comma_times_hundred: "money_to_cents ''12,50'' = Inr (Some 125000)"
proof -
  have "decimal_of_string (price_text ''12,50'') = FiniteText (Dec 1250 0)" "underscores_ok None (strip (price_text ''12,50''))" "price_text ''12,50'' \<noteq> []"
    by code_simp+
  with float_cents_exact show ?thesis by (simp add: money_to_cents_def)
qed

subsection \<open>The menu sheet\<close>

lemma fold_result_invariant:
  assumes "fold_result f xs s0 = Inr s" "P s0" "\<And>x s s'. x \<in> set xs \<Longrightarrow> P s \<Longrightarrow> f x s = Inr s' \<Longrightarrow> P s'"
  shows "P s"
  using assms by (induction xs arbitrary: s0) (auto simp: and_then_eq_Inr)

lemma alist_update_in: "p \<in> set (AList.update k v xs) \<Longrightarrow> p = (k, v) \<or> p \<in> set xs"
  by (induction xs) (auto split: if_splits)

definition entry_priced :: "menu_entry \<Rightarrow> bool" where
  "entry_priced e = (\<forall>s \<in> set (me_sizes e). 0 \<le> snd s)"

lemma enter_price_priced:
  "enter_price sz price e = Inr e' \<Longrightarrow> 0 \<le> price \<Longrightarrow> entry_priced e \<Longrightarrow> entry_priced e'"
  by (auto simp: enter_price_def entry_priced_def split: if_splits)

lemma menu_row_step_cases:
  assumes "menu_row_step (index, row) (grouped, errors) = Inr s'"
  obtains (Refused) "fst s' = grouped"
  | (Entered) key category name active price e where
      "e = (dict_get (new_entry row category name active) (map_of grouped key))\<lparr>me_rows :=
         me_rows (dict_get (new_entry row category name active) (map_of grouped key)) @ [index]\<rparr>"
      "0 \<le> price" "fst s' = AList.update key (case enter_price (cell row [''size'']) price e of Inl _ \<Rightarrow> e | Inr e' \<Rightarrow> e') grouped"
proof (cases "cell row [''name'', ''product'', ''item''] = []")
  case True
  then show thesis using assms Refused by (auto simp: menu_row_step_def)
next
  case named: False
  show thesis
  proof (cases "money_to_cents (first_of row [''price'', ''selling price''])")
    case (Inl err)
    then show thesis using assms named Refused by (cases err) (auto simp: menu_row_step_def)
  next
    case (Inr p)
    show thesis
    proof (cases "\<exists>price. p = Some price \<and> 0 \<le> price")
      case False
      then show thesis using assms named Inr Refused by (cases p) (auto simp: menu_row_step_def)
    next
      case True
      then obtain price where p: "p = Some price" "\<not> price < 0" "0 \<le> price" by auto
      let ?category = "if cell row [''category''] = [] then ''Menu'' else cell row [''category'']"
        and ?name = "cell row [''name'', ''product'', ''item'']"
        and ?active = "lower (cell row [''active'']) \<notin> {''no'', ''false'', ''0'', ''inactive'', ''n''}"
      show thesis
        by (rule Entered[OF refl p(3), where key = "(casefold ?category, casefold ?name)" and category = ?category and name = ?name and active = ?active])
          (use assms named Inr p(1,2) in \<open>auto simp: menu_row_step_def Let_def split: sum.splits\<close>)
    qed
  qed
qed

lemma menu_row_step_priced:
  assumes "menu_row_step indexed s = Inr s'" "\<forall>p \<in> set (fst s). entry_priced (snd p)"
  shows "\<forall>p \<in> set (fst s'). entry_priced (snd p)"
proof -
  obtain index row grouped errors where s: "indexed = (index, row)" "s = (grouped, errors)" by (metis surj_pair)
  from assms(1)[unfolded s] show ?thesis
  proof (cases rule: menu_row_step_cases)
    case Refused
    then show ?thesis using assms(2) by (simp add: s)
  next
    case (Entered key category name active price e)
    have "entry_priced e"
    proof (cases "map_of grouped key")
      case None
      then show ?thesis by (simp add: Entered(1) dict_get_def new_entry_def entry_priced_def)
    next
      case (Some e0)
      then have "entry_priced e0" using assms(2) by (auto simp: s dest!: map_of_SomeD)
      then show ?thesis by (simp add: Entered(1) dict_get_def Some entry_priced_def)
    qed
    then have "entry_priced (case enter_price (cell row [''size'']) price e of Inl _ \<Rightarrow> e | Inr e' \<Rightarrow> e')"
      using Entered(2) by (auto split: sum.split intro: enter_price_priced)
    then show ?thesis using assms(2) by (auto simp: s Entered(3) dest!: alist_update_in)
  qed
qed

lemma parse_menu_priced:
  assumes "parse_menu rows = Inr (grouped, errors)" "(key, e) \<in> set grouped"
  shows "entry_priced e" "me_sizes e \<noteq> [] \<Longrightarrow> me_price_cents e = Some (Min (set (map snd (me_sizes e))))"
proof -
  obtain g errs where g: "fold_result menu_row_step (numbered rows) ([], []) = Inr (g, errs)"
    "grouped = map (\<lambda>(k, e). (k, settle_entry e)) g" using assms(1) by (auto simp: parse_menu_def and_then_eq_Inr)
  have "\<forall>p \<in> set (fst (g, errs)). entry_priced (snd p)"
    using g(1) by (rule fold_result_invariant) (simp, rule menu_row_step_priced)
  moreover obtain e0 where e0: "(key, e0) \<in> set g" "e = settle_entry e0" using assms(2) g(2) by auto
  ultimately have "entry_priced e0" by (metis fst_conv snd_conv)
  then show "entry_priced e" by (simp add: e0(2) settle_entry_def entry_priced_def)
  show "me_sizes e \<noteq> [] \<Longrightarrow> me_price_cents e = Some (Min (set (map snd (me_sizes e))))"
    by (auto simp: e0(2) settle_entry_def)
qed

lemma find_of_map: "find P (map f xs) = map_option f (find (P \<circ> f) xs)"
  by (induction xs) auto

lemma find_key: "x \<in> set xs \<Longrightarrow> distinct (map k xs) \<Longrightarrow> find (\<lambda>y. k y = k x) xs = Some x"
  by (induction xs) auto

text \<open>The till's request for one size of an item.\<close>

definition size_request :: "uuid \<Rightarrow> string \<times> int \<Rightarrow> int \<Rightarrow> pos_item_input" where
  "size_request i sz q = \<lparr>pi_menu_item_id = i, pi_quantity = q, pi_selected_option_ids = [(''size'', mo_id (size_choice sz))],
     pi_add_on_selections = [], pi_removed_ingredient_ids = [], pi_special_instructions = None\<rparr>"


definition sample_sheet :: "sheet_row list" where
  "sample_sheet = [[(''name'', ''Margherita''), (''size'', ''Small''), (''price'', ''90'')],
     [(''name'', ''Margherita''), (''size'', ''Large''), (''price'', ''R120.50'')]]"

definition sample_entry :: menu_entry where
  "sample_entry = \<lparr>me_category = ''Menu'', me_name = ''Margherita'', me_description = None, me_sku = None, me_is_active = True,
     me_sizes = [(''Small'', 9000), (''Large'', 12050)], me_price_cents = Some 9000, me_rows = [2, 3]\<rparr>"

lemma sample_parse: "parse_menu sample_sheet = Inr ([((''menu'', ''margherita''), sample_entry)], [])"
proof -
  have d: "decimal_of_string (price_text ''90'') = FiniteText (Dec 90 0)" "decimal_of_string (price_text ''R120.50'') = FiniteText (Dec 12050 (- 2))"
    by code_simp+
  have m: "money_to_cents ''90'' = Inr (Some 9000)" "money_to_cents ''R120.50'' = Inr (Some 12050)"
    using money_to_cents_exact[OF d(1)] money_to_cents_exact[OF d(2)] by simp_all
  have c: "casefold ''Menu'' = ''menu''" "casefold ''Margherita'' = ''margherita''" "casefold ''Small'' = ''small''" "casefold ''Large'' = ''large''"
    "strip ''Margherita'' = ''Margherita''" "strip ''Small'' = ''Small''" "strip ''Large'' = ''Large''" "strip [] = []" "lower [] = []" by code_simp+
  show ?thesis
    by (simp add: parse_menu_def numbered_def sample_sheet_def menu_row_step_def cell_def m c Let_def new_entry_def dict_get_def
        enter_price_def settle_entry_def unpriced_def List.map_filter_def sample_entry_def truthy_def or_none_def upt_rec)
qed


text \<open>
  Two items of one name in two categories: the first upload creates both; a corrected price of the
  first is lost in the second upload, because both rows update the item loaded last under the name.
\<close>

definition soup_entry :: "string \<Rightarrow> int \<Rightarrow> menu_entry" where
  "soup_entry category price = \<lparr>me_category = category, me_name = ''Soup'', me_description = None, me_sku = None, me_is_active = True,
     me_sizes = [], me_price_cents = Some price, me_rows = []\<rparr>"

definition soup_sheet :: "int \<Rightarrow> menu_sheet" where
  "soup_sheet price = [((''starters'', ''soup''), soup_entry ''Starters'' price), ((''specials'', ''soup''), soup_entry ''Specials'' 7000)]"

lemma corrected_price_lost:
  "let db = mm_db (import_menu \<lparr>mn_categories = [], mn_items = []\<rparr> sample_owner of_nat (soup_sheet 5000));
       db' = mm_db (import_menu db sample_owner (\<lambda>n. of_nat (n + 100)) (soup_sheet 5500))
   in map mi_price_cents (mn_items db) = [5000, 7000] \<and> map mi_price_cents (mn_items db') = [5000, 7000]"
proof -
  have c: "casefold ''Starters'' = ''starters''" "casefold ''Specials'' = ''specials''" "casefold ''Soup'' = ''soup''" by code_simp+
  show ?thesis
    by (simp add: import_menu_def soup_sheet_def soup_entry_def write_entry_def ensure_category_def categories_by_name_def
        menu_items_by_name_def dict_of_def c created_item_def updated_item_def size_options_def price_of_def dict_get_def update_where_def Let_def)
qed

text \<open>Two sizes whose identities collide: the till charges the first for the second.\<close>

lemma size_identities_collide: "mo_id (size_choice (''Extra Large'', p)) = mo_id (size_choice (''extra-large'', p'))" "casefold ''Extra Large'' \<noteq> casefold ''extra-large''"
  by (simp add: size_choice_def) code_simp+

end
