(* ===== verification/InventoryHistory.thy ===== *)
theory InventoryHistory imports ImportLaws begin

text \<open>
  The stock room over time: every handler of the inventory, wastage and ingredient import modules is a
  step that may have read any earlier state, and what the rows say of one another is kept by all of them.
\<close>

subsection \<open>The steps\<close>

text \<open>What the rest of the program does to these tables: it appends movements of other kinds.\<close>

definition plain_movement :: "stock_movement \<Rightarrow> bool" where
  "plain_movement m = (sm_movement_type m \<noteq> OPENING_BALANCE \<and> sm_source_type m \<noteq> Some SRC_WASTAGE_ENTRY)"

definition ingredient_ids :: "inventory_db \<Rightarrow> uuid set" where
  "ingredient_ids db = ing_id ` set (sd_ingredients (iv_stock db))"

definition elsewhere :: "inventory_db \<Rightarrow> inventory_db \<Rightarrow> bool" where
  "elsewhere db db' = ((\<exists>ms. iv_movements db' = iv_movements db @ ms \<and> list_all plain_movement ms) \<and> inventory_ok db' \<and>
     iv_receipts db' = iv_receipts db \<and> iv_receipt_lines db' = iv_receipt_lines db \<and> iv_wastage db' = iv_wastage db \<and>
     ingredient_ids db' = ingredient_ids db)"

inductive inventory_step :: "inventory_db \<Rightarrow> inventory_db \<Rightarrow> inventory_db \<Rightarrow> bool" where
  Receive: "create_goods_receipt seen db user q receipt_id now = Inr (db', reply) \<Longrightarrow> receipt_id \<notin> gs_id ` set (iv_receipts db) \<Longrightarrow> inventory_step seen db db'"
| Open_Stock: "set_opening_stock seen db user oq now = Inr db' \<Longrightarrow> inventory_step seen db db'"
| Adjust: "create_adjustment db user aq now = Inr db' \<Longrightarrow> inventory_step seen db db'"
| Record: "record_wastage db user wq entry_id now = Inr (db', e) \<Longrightarrow> entry_id \<notin> wa_id ` set (iv_wastage db) \<Longrightarrow> inventory_step seen db db'"
| Approve: "approve_wastage seen db user i = Inr db' \<Longrightarrow> inventory_step seen db db'"
| Reject: "reject_wastage seen db user i reason now = Inr db' \<Longrightarrow> inventory_step seen db db'"
| Create_Ingredient: "create_ingredient db user cq new_id = Inr db' \<Longrightarrow> inventory_step seen db db'"
| Update_Ingredient: "update_ingredient db user i uq = Inr db' \<Longrightarrow> inventory_step seen db db'"
| Delete_Ingredient: "delete_ingredient db user i = Inr db' \<Longrightarrow> inventory_step seen db db'"
| Create_Supplier: "create_supplier db user sq new_id = Inr db' \<Longrightarrow> inventory_step seen db db'"
| Update_Supplier: "update_supplier db user i sp = Inr db' \<Longrightarrow> inventory_step seen db db'"
| Delete_Supplier: "delete_supplier seen db user i = Inr db' \<Longrightarrow> inventory_step seen db db'"
| Import_Ingredients: "commit_ingredients loads db user f mapping fresh now = Inr out \<Longrightarrow> inj fresh \<Longrightarrow> range fresh \<inter> ingredient_ids db = {} \<Longrightarrow>
    inventory_step seen db (ii_db out)"
| Elsewhere: "elsewhere db db' \<Longrightarrow> inventory_step seen db db'"

definition empty_books :: "inventory_db \<Rightarrow> bool" where
  "empty_books db = (inventory_ok db \<and> iv_movements db = [] \<and> iv_receipts db = [] \<and> iv_receipt_lines db = [] \<and> iv_wastage db = [])"

text \<open>The states so far, the latest first; a step may have read any of them.\<close>

inductive inventory_history :: "inventory_db list \<Rightarrow> bool" where
  Start: "empty_books db \<Longrightarrow> inventory_history [db]"
| Next: "inventory_history (db # dbs) \<Longrightarrow> seen \<in> set (db # dbs) \<Longrightarrow> inventory_step seen db db' \<Longrightarrow> inventory_history (db' # db # dbs)"

subsection \<open>The invariant\<close>

definition opens :: "uuid \<Rightarrow> uuid \<Rightarrow> stock_movement \<Rightarrow> bool" where
  "opens b i m = (sm_movement_type m = OPENING_BALANCE \<and> sm_business_id m = b \<and> sm_ingredient_id m = i)"

definition opening_ok :: "uuid set \<Rightarrow> stock_movement list \<Rightarrow> bool" where
  "opening_ok ids ms =
     ((\<forall>m \<in> set ms. sm_movement_type m = OPENING_BALANCE \<longrightarrow> sm_ingredient_id m \<in> ids \<and> 0 < sm_quantity_milli m \<and>
          (sm_idempotency_key m = None \<or> sm_idempotency_key m = Some (opening_balance_idempotency_key (sm_ingredient_id m)))) \<and>
      (\<forall>b i. length (filter (opens b i) ms) \<le> 1))"

definition waste_moves :: "wastage_entry \<Rightarrow> stock_movement list \<Rightarrow> stock_movement list" where
  "waste_moves e ms = filter (wastage_movement (wa_business_id e) (wa_id e)) ms"

definition entry_ok :: "stock_movement list \<Rightarrow> wastage_entry \<Rightarrow> bool" where
  "entry_ok ms e = (0 < wa_quantity_milli e \<and> (\<forall>m \<in> set (waste_moves e ms). sm_ingredient_id m = wa_ingredient_id e) \<and>
     (if wa_rejected_by_user_id e = None then map sm_quantity_milli (waste_moves e ms) = [- wa_quantity_milli e]
      else map sm_quantity_milli (waste_moves e ms) = [- wa_quantity_milli e, wa_quantity_milli e] \<and>
        (\<exists>m \<in> set (waste_moves e ms). sm_idempotency_key m = Some (wastage_reversal_idempotency_key (wa_id e) (wa_ingredient_id e)))))"

definition waste_ok :: "stock_movement list \<Rightarrow> wastage_entry list \<Rightarrow> bool" where
  "waste_ok ms ws = (distinct (map wa_id ws) \<and> (\<forall>e \<in> set ws. entry_ok ms e) \<and>
     (\<forall>m \<in> set ms. sm_source_type m = Some SRC_WASTAGE_ENTRY \<longrightarrow> sm_source_id m \<in> Some ` wa_id ` set ws))"

definition receipts_ok :: "goods_receipt list \<Rightarrow> goods_receipt_line list \<Rightarrow> bool" where
  "receipts_ok rs ls = (distinct (map gs_id rs) \<and> gl_goods_receipt_id ` set ls \<subseteq> gs_id ` set rs \<and>
     (\<forall>r \<in> set rs. gs_total_cost_cents r = sum_list (map gl_line_cost_cents (filter (\<lambda>l. gl_goods_receipt_id l = gs_id r) ls))))"

definition books_ok :: "inventory_db \<Rightarrow> bool" where
  "books_ok db = (inventory_ok db \<and> opening_ok (ingredient_ids db) (iv_movements db) \<and> waste_ok (iv_movements db) (iv_wastage db) \<and>
     receipts_ok (iv_receipts db) (iv_receipt_lines db))"

text \<open>What a later state still says of an earlier one.\<close>

definition entry_core :: "wastage_entry \<Rightarrow> uuid \<times> uuid \<times> uuid \<times> int" where
  "entry_core e = (wa_id e, wa_business_id e, wa_ingredient_id e, wa_quantity_milli e)"

definition keyless_opening :: "stock_movement \<Rightarrow> bool" where
  "keyless_opening m = (sm_movement_type m = OPENING_BALANCE \<and> sm_idempotency_key m = None)"

definition grew :: "inventory_db \<Rightarrow> inventory_db \<Rightarrow> bool" where
  "grew db db' = ((\<exists>ms. iv_movements db' = iv_movements db @ ms) \<and> entry_core ` set (iv_wastage db) \<subseteq> entry_core ` set (iv_wastage db') \<and>
     ingredient_ids db \<subseteq> ingredient_ids db' \<and>
     (\<forall>m \<in> set (iv_movements db'). keyless_opening m \<longrightarrow> sm_ingredient_id m \<in> ingredient_ids db \<longrightarrow> m \<in> set (iv_movements db)))"

lemma grew_refl: "grew db db"
  by (simp add: grew_def)

lemma grew_trans:
  assumes "grew a b" "grew b c"
  shows "grew a c"
  unfolding grew_def
proof (intro conjI)
  show "\<exists>ms. iv_movements c = iv_movements a @ ms" using assms by (auto simp: grew_def)
  show "entry_core ` set (iv_wastage a) \<subseteq> entry_core ` set (iv_wastage c)" "ingredient_ids a \<subseteq> ingredient_ids c"
    using assms unfolding grew_def by (meson order_trans)+
  have a: "ingredient_ids a \<subseteq> ingredient_ids b" "\<And>m. m \<in> set (iv_movements b) \<Longrightarrow> keyless_opening m \<Longrightarrow> sm_ingredient_id m \<in> ingredient_ids a \<Longrightarrow> m \<in> set (iv_movements a)"
    using assms(1) by (simp_all add: grew_def)
  have b: "\<And>m. m \<in> set (iv_movements c) \<Longrightarrow> keyless_opening m \<Longrightarrow> sm_ingredient_id m \<in> ingredient_ids b \<Longrightarrow> m \<in> set (iv_movements b)"
    using assms(2) by (simp add: grew_def)
  show "\<forall>m \<in> set (iv_movements c). keyless_opening m \<longrightarrow> sm_ingredient_id m \<in> ingredient_ids a \<longrightarrow> m \<in> set (iv_movements a)"
    by (intro ballI impI a(2) b) (use a(1) in auto)
qed

subsection \<open>Movements of other kinds\<close>

lemma opening_ok_other:
  assumes "opening_ok ids ms" "\<forall>m \<in> set new. sm_movement_type m \<noteq> OPENING_BALANCE" "ids \<subseteq> ids'"
  shows "opening_ok ids' (ms @ new)"
proof -
  have "filter (opens b i) new = []" for b i using assms(2) by (auto simp: filter_empty_conv opens_def)
  then show ?thesis using assms by (auto simp: opening_ok_def)
qed

lemma opening_ok_plain: "opening_ok ids ms \<Longrightarrow> list_all plain_movement new \<Longrightarrow> ids \<subseteq> ids' \<Longrightarrow> opening_ok ids' (ms @ new)"
  by (rule opening_ok_other) (auto simp: list_all_iff plain_movement_def)

lemma entry_ok_append: "waste_moves e new = [] \<Longrightarrow> entry_ok ms e \<Longrightarrow> entry_ok (ms @ new) e"
proof -
  assume "waste_moves e new = []"
  then have "waste_moves e (ms @ new) = waste_moves e ms" by (simp add: waste_moves_def)
  then show "entry_ok ms e \<Longrightarrow> entry_ok (ms @ new) e" by (simp add: entry_ok_def)
qed

lemma waste_ok_other:
  assumes "waste_ok ms ws" "\<forall>m \<in> set new. sm_source_type m \<noteq> Some SRC_WASTAGE_ENTRY"
  shows "waste_ok (ms @ new) ws"
proof -
  have "waste_moves e new = []" for e using assms(2) by (auto simp: waste_moves_def filter_empty_conv wastage_movement_def)
  then show ?thesis using assms by (auto simp: waste_ok_def intro: entry_ok_append)
qed

lemma waste_ok_plain: "waste_ok ms ws \<Longrightarrow> list_all plain_movement new \<Longrightarrow> waste_ok (ms @ new) ws"
  by (rule waste_ok_other) (auto simp: list_all_iff plain_movement_def)

text \<open>A change that adds only such movements and keeps the entries and the receipts as the books see them.\<close>

definition quiet :: "inventory_db \<Rightarrow> inventory_db \<Rightarrow> bool" where
  "quiet db db' = (inventory_ok db' \<and> (\<exists>ms. iv_movements db' = iv_movements db @ ms \<and> list_all plain_movement ms) \<and>
     map (\<lambda>e. (entry_core e, wa_rejected_by_user_id e)) (iv_wastage db') = map (\<lambda>e. (entry_core e, wa_rejected_by_user_id e)) (iv_wastage db) \<and>
     map (\<lambda>r. (gs_id r, gs_total_cost_cents r)) (iv_receipts db') = map (\<lambda>r. (gs_id r, gs_total_cost_cents r)) (iv_receipts db) \<and>
     iv_receipt_lines db' = iv_receipt_lines db \<and> ingredient_ids db \<subseteq> ingredient_ids db')"

lemma entry_ok_core:
  "entry_core e' = entry_core e \<Longrightarrow> wa_rejected_by_user_id e' = wa_rejected_by_user_id e \<Longrightarrow> entry_ok ms e' = entry_ok ms e"
  by (simp add: entry_ok_def waste_moves_def entry_core_def)

lemma waste_ok_core:
  assumes "map (\<lambda>e. (entry_core e, wa_rejected_by_user_id e)) ws' = map (\<lambda>e. (entry_core e, wa_rejected_by_user_id e)) ws" "waste_ok ms ws"
  shows "waste_ok ms ws'"
proof -
  have "map (\<lambda>p. fst (fst p)) (map (\<lambda>e. (entry_core e, wa_rejected_by_user_id e)) ws') = map (\<lambda>p. fst (fst p)) (map (\<lambda>e. (entry_core e, wa_rejected_by_user_id e)) ws)"
    unfolding assms(1) ..
  then have ids: "map wa_id ws' = map wa_id ws" by (simp add: o_def entry_core_def)
  have "entry_ok ms e'" if "e' \<in> set ws'" for e'
  proof -
    have "(entry_core e', wa_rejected_by_user_id e') \<in> set (map (\<lambda>e. (entry_core e, wa_rejected_by_user_id e)) ws)"
      unfolding assms(1)[symmetric] using that by force
    then obtain e where e: "e \<in> set ws" "entry_core e' = entry_core e" "wa_rejected_by_user_id e' = wa_rejected_by_user_id e" by auto
    have "entry_ok ms e" using assms(2) e(1) by (simp add: waste_ok_def)
    then show ?thesis using entry_ok_core[OF e(2,3)] by blast
  qed
  moreover have "wa_id ` set ws' = wa_id ` set ws" using arg_cong[OF ids, of set] by simp
  ultimately show ?thesis using assms(2) ids by (simp add: waste_ok_def)
qed

lemma receipts_ok_core:
  assumes "map (\<lambda>r. (gs_id r, gs_total_cost_cents r)) rs' = map (\<lambda>r. (gs_id r, gs_total_cost_cents r)) rs" "receipts_ok rs ls"
  shows "receipts_ok rs' ls"
proof -
  have "map fst (map (\<lambda>r. (gs_id r, gs_total_cost_cents r)) rs') = map fst (map (\<lambda>r. (gs_id r, gs_total_cost_cents r)) rs)" unfolding assms(1) ..
  then have ids: "map gs_id rs' = map gs_id rs" by (simp add: o_def)
  have this_core: "\<exists>r \<in> set rs. gs_id r' = gs_id r \<and> gs_total_cost_cents r' = gs_total_cost_cents r" if "r' \<in> set rs'" for r'
  proof -
    have "(gs_id r', gs_total_cost_cents r') \<in> set (map (\<lambda>r. (gs_id r, gs_total_cost_cents r)) rs)" unfolding assms(1)[symmetric] using that by force
    then show ?thesis by auto
  qed
  have total_cost: "\<forall>r' \<in> set rs'. gs_total_cost_cents r' = sum_list (map gl_line_cost_cents (filter (\<lambda>l. gl_goods_receipt_id l = gs_id r') ls))"
  proof (intro ballI)
    fix r'
    assume r': "r' \<in> set rs'"
    with this_core obtain r0 where r0: "r0 \<in> set rs" "gs_id r' = gs_id r0" "gs_total_cost_cents r' = gs_total_cost_cents r0" by blast
    have "gs_total_cost_cents r0 = sum_list (map gl_line_cost_cents (filter (\<lambda>l. gl_goods_receipt_id l = gs_id r0) ls))"
      using assms(2) r0(1) unfolding receipts_ok_def by blast
    then show "gs_total_cost_cents r' = sum_list (map gl_line_cost_cents (filter (\<lambda>l. gl_goods_receipt_id l = gs_id r') ls))" by (simp only: r0)
  qed
  have "set (map gs_id rs') = set (map gs_id rs)" unfolding ids ..
  then have "gl_goods_receipt_id ` set ls \<subseteq> gs_id ` set rs'" using assms(2) by (simp add: receipts_ok_def)
  moreover have "distinct (map gs_id rs')" using assms(2) by (simp add: receipts_ok_def ids)
  ultimately show ?thesis using total_cost unfolding receipts_ok_def by blast
qed

lemma quiet_kept:
  assumes "quiet db db'"
  shows "books_ok db \<Longrightarrow> books_ok db'" and "grew db db'"
proof -
  from assms obtain ms where q: "inventory_ok db'" "iv_movements db' = iv_movements db @ ms" "list_all plain_movement ms"
    "map (\<lambda>e. (entry_core e, wa_rejected_by_user_id e)) (iv_wastage db') = map (\<lambda>e. (entry_core e, wa_rejected_by_user_id e)) (iv_wastage db)"
    "map (\<lambda>r. (gs_id r, gs_total_cost_cents r)) (iv_receipts db') = map (\<lambda>r. (gs_id r, gs_total_cost_cents r)) (iv_receipts db)"
    "iv_receipt_lines db' = iv_receipt_lines db" "ingredient_ids db \<subseteq> ingredient_ids db'" unfolding quiet_def by blast
  show "books_ok db'" if "books_ok db"
    using that q(1,6) opening_ok_plain[OF _ q(3,7)] waste_ok_core[OF q(4) waste_ok_plain[OF _ q(3)]] receipts_ok_core[OF q(5)]
    by (simp add: books_ok_def q(2))
  have "fst ` set (map (\<lambda>e. (entry_core e, wa_rejected_by_user_id e)) (iv_wastage db')) = fst ` set (map (\<lambda>e. (entry_core e, wa_rejected_by_user_id e)) (iv_wastage db))"
    unfolding q(4) ..
  then have "entry_core ` set (iv_wastage db') = entry_core ` set (iv_wastage db)" by (simp add: image_image)
  then show "grew db db'" using q(2,3,7) by (auto simp: grew_def list_all_iff plain_movement_def keyless_opening_def)
qed

subsection \<open>The quiet handlers\<close>

lemma quiet_movements:
  assumes "inventory_ok db'" "iv_movements db' = iv_movements db @ ms" "list_all plain_movement ms" "iv_wastage db' = iv_wastage db"
    "iv_receipts db' = iv_receipts db" "iv_receipt_lines db' = iv_receipt_lines db" "ingredient_ids db \<subseteq> ingredient_ids db'"
  shows "quiet db db'"
  using assms by (auto simp: quiet_def)

lemma quiet_same: "inventory_ok db \<Longrightarrow> quiet db db"
  by (rule quiet_movements[of _ _ "[]"]) simp_all

lemma quiet_elsewhere: "elsewhere db db' \<Longrightarrow> quiet db db'"
  unfolding elsewhere_def by (elim conjE exE) (rule quiet_movements, auto)

lemma build_movement_plain: "build_movement b i n t c st sid u k notes occ now = Inr m \<Longrightarrow> t \<noteq> OPENING_BALANCE \<Longrightarrow> st \<noteq> Some SRC_WASTAGE_ENTRY \<Longrightarrow> plain_movement m"
  by (auto simp: plain_movement_def dest: build_movement_shape)

lemma stock_fields [simp]:
  "iv_movements (change_stock (add_movements ms) db) = iv_movements db @ ms"
  "ingredient_ids (change_stock (add_movements ms) db) = ingredient_ids db"
  "iv_movements (audit_inventory user action target db) = iv_movements db"
  "ingredient_ids (audit_inventory user action target db) = ingredient_ids db"
  by (simp_all add: iv_movements_def ingredient_ids_def)

lemma quiet_adjustment: "create_adjustment db user q now = Inr db' \<Longrightarrow> quiet db db'"
  unfolding create_adjustment_def Let_def and_then_eq_Inr commit_inventory_eq
  by (elim exE conjE, rule quiet_movements) (auto dest!: build_movement_plain)

lemma write_ingredient_fields [simp]:
  "iv_movements (write_ingredient x db) = iv_movements db" "iv_wastage (write_ingredient x db) = iv_wastage db"
  "iv_receipts (write_ingredient x db) = iv_receipts db" "iv_receipt_lines (write_ingredient x db) = iv_receipt_lines db"
  by (simp_all add: write_ingredient_def iv_movements_def)

lemma ingredient_ids_write [simp]: "ingredient_ids (write_ingredient x db) = ingredient_ids db"
  by (auto simp: ingredient_ids_def write_ingredient_def update_where_def image_iff split: if_splits) metis

lemma quiet_write: "inventory_ok (write_ingredient x db) \<Longrightarrow> quiet db (write_ingredient x db)"
  by (rule quiet_movements[of _ _ "[]"]) simp_all

lemma quiet_update_ingredient: "update_ingredient db user i q = Inr db' \<Longrightarrow> quiet db db'"
  unfolding update_ingredient_def Let_def and_then_eq_Inr commit_inventory_eq by (elim exE conjE) (simp add: quiet_write)

lemma quiet_delete_ingredient: "delete_ingredient db user i = Inr db' \<Longrightarrow> quiet db db'"
  unfolding delete_ingredient_def and_then_eq_Inr commit_inventory_eq by (elim exE conjE) (simp add: quiet_write)

lemma quiet_create_ingredient: "create_ingredient db user q i = Inr db' \<Longrightarrow> quiet db db'"
  unfolding create_ingredient_def Let_def and_then_eq_Inr commit_inventory_eq
  by (elim exE conjE, rule quiet_movements[of _ _ "[]"]) (auto simp: iv_movements_def ingredient_ids_def)

lemma inventory_updates [simp]:
  "iv_movements (db\<lparr>iv_suppliers := s\<rparr>) = iv_movements db" "ingredient_ids (db\<lparr>iv_suppliers := s\<rparr>) = ingredient_ids db"
  "iv_movements (db\<lparr>iv_wastage := w\<rparr>) = iv_movements db" "ingredient_ids (db\<lparr>iv_wastage := w\<rparr>) = ingredient_ids db"
  "iv_movements (drop_supplier i db) = iv_movements db" "ingredient_ids (drop_supplier i db) = ingredient_ids db"
  "iv_wastage (drop_supplier i db) = iv_wastage db" "iv_receipt_lines (drop_supplier i db) = iv_receipt_lines db"
  by (simp_all add: iv_movements_def iv_stock_def ingredient_ids_def drop_supplier_def)

lemma drop_supplier_receipts:
  "map (\<lambda>r. (gs_id r, gs_total_cost_cents r)) (iv_receipts (drop_supplier i db)) = map (\<lambda>r. (gs_id r, gs_total_cost_cents r)) (iv_receipts db)"
  by (simp add: drop_supplier_def update_where_def)

lemma quiet_drop: "inventory_ok (audit_inventory user action t (drop_supplier i db)) \<Longrightarrow> quiet db (audit_inventory user action t (drop_supplier i db))"
  by (auto simp: quiet_def drop_supplier_receipts intro!: exI[of _ "[]"])

lemma duplicate_name_eq: "duplicate_name r = Inr x \<longleftrightarrow> r = Inr x"
  by (auto simp: duplicate_name_def split: sum.splits app_error.splits)

lemma quiet_create_supplier: "create_supplier db user q i = Inr db' \<Longrightarrow> quiet db db'"
  unfolding create_supplier_def and_then_eq_Inr duplicate_name_eq commit_inventory_eq
  by (elim exE conjE, rule quiet_movements[of _ _ "[]"]) auto

lemma quiet_update_supplier: "inventory_ok db \<Longrightarrow> update_supplier db user i q = Inr db' \<Longrightarrow> quiet db db'"
  unfolding update_supplier_def Let_def and_then_eq_Inr
  by (elim exE conjE, split if_splits) (auto simp: quiet_same duplicate_name_eq commit_inventory_eq intro!: quiet_movements[of _ _ "[]"])

lemma quiet_delete_supplier: "delete_supplier seen db user i = Inr db' \<Longrightarrow> quiet db db'"
  unfolding delete_supplier_def and_then_eq_Inr commit_inventory_eq
  by (elim exE conjE, hypsubst) (rule quiet_drop)

text \<open>An approval signs an entry: nothing the books say of it changes.\<close>

lemma quiet_approval: "inventory_ok db \<Longrightarrow> approve_wastage seen db user i = Inr db' \<Longrightarrow> quiet db db'"
  unfolding approve_wastage_def and_then_eq_Inr
  by (elim exE conjE, split if_splits) (auto simp: quiet_same commit_inventory_eq quiet_def update_where_def entry_core_def)

subsection \<open>Deliveries\<close>

lemma received_kept:
  assumes "create_goods_receipt seen db user q receipt_id now = Inr (db', reply)" "receipt_id \<notin> gs_id ` set (iv_receipts db)" "books_ok db"
  shows "books_ok db' \<and> grew db db'"
  using assms(1)
proof (cases rule: create_goods_receipt_cases)
  case Replayed
  then show ?thesis using assms(3) grew_refl by simp
next
  case (Written rows)
  let ?r = "new_receipt user q receipt_id (sum_list (map (gl_line_cost_cents \<circ> fst) rows)) (dict_get now (gn_occurred_at q)) now"
  note rows = received_rows[OF Written(2)]
  have f: "iv_receipts db' = iv_receipts db @ [?r]" "iv_receipt_lines db' = iv_receipt_lines db @ map fst rows"
    "iv_movements db' = iv_movements db @ map snd rows" "iv_wastage db' = iv_wastage db" "ingredient_ids db' = ingredient_ids db"
    by (simp_all add: Written(3)) (simp add: ingredient_ids_def stage_receipt_def iv_stock_def change_stock_def add_movements_def)
  have plain: "list_all plain_movement (map snd rows)" using rows by (auto simp: list_all_iff line_agrees_def plain_movement_def)
  have new: "\<forall>l \<in> set (map fst rows). gl_goods_receipt_id l = receipt_id" using rows by (auto simp: list_all_iff line_agrees_def)
  have none: "filter (\<lambda>l. gl_goods_receipt_id l = receipt_id) (iv_receipt_lines db) = []"
    using assms(2,3) by (auto simp: filter_empty_conv books_ok_def receipts_ok_def)
  have all: "filter (\<lambda>l. gl_goods_receipt_id l = receipt_id) (map fst rows) = map fst rows" using new by (simp add: filter_id_conv)
  have other: "filter (\<lambda>l. gl_goods_receipt_id l = gs_id r) (map fst rows) = []" if "r \<in> set (iv_receipts db)" for r
    using new assms(2) that by (auto simp: filter_empty_conv)
  have "receipts_ok (iv_receipts db') (iv_receipt_lines db')"
    using assms(2,3) new none all other by (auto simp: receipts_ok_def books_ok_def f new_receipt_def o_def simp del: filter_map)
  then have "books_ok db'"
    using assms(3) opening_ok_plain[OF _ plain subset_refl] waste_ok_plain[OF _ plain] Written(4) by (simp add: books_ok_def f)
  moreover have "grew db db'" using plain by (auto simp: grew_def f list_all_iff plain_movement_def keyless_opening_def)
  ultimately show ?thesis by simp
qed

subsection \<open>Opening stock\<close>

lemma set_opening_stock_cases:
  assumes "set_opening_stock seen db user q now = Inr db'"
  obtains m where "iv_movements db' = iv_movements db @ [m]" "inventory_ok db'" "iv_wastage db' = iv_wastage db" "iv_receipts db' = iv_receipts db"
    "iv_receipt_lines db' = iv_receipt_lines db" "ingredient_ids db' = ingredient_ids db" "opens (au_business_id user) (op_ingredient_id q) m"
    "sm_idempotency_key m = Some (opening_balance_idempotency_key (op_ingredient_id q))" "0 < sm_quantity_milli m" "sm_source_type m = Some SRC_OPENING_STOCK"
    "op_ingredient_id q \<in> ingredient_ids seen" "\<not> has_opening_balance seen (au_business_id user) (op_ingredient_id q)"
proof -
  from assms obtain x n m where x: "load_ingredient seen (au_business_id user) (op_ingredient_id q) = Inr x" "\<not> n \<le> 0" "\<not> has_opening_balance seen (au_business_id user) (ing_id x)"
    and m: "build_movement (au_business_id user) (ing_id x) n OPENING_BALANCE (ing_cost_per_canonical_micro_cents x) (Some SRC_OPENING_STOCK)
                  (Some (ing_id x)) (Some (au_user_id user)) (Some (opening_balance_idempotency_key (ing_id x)))
                  (Some (text_or (op_source q) ''Opening stock'')) (Some (dict_get now (op_occurred_at q))) now = Inr m"
    and c: "commit_opening (audit_inventory user ''inventory.stock.opening_balance_set'' (ing_id x) (change_stock (add_movements [m]) db)) = Inr db'"
    unfolding set_opening_stock_def Let_def and_then_eq_Inr raise_if_eq_Inr by auto
  have "db' = audit_inventory user ''inventory.stock.opening_balance_set'' (ing_id x) (change_stock (add_movements [m]) db) \<and> inventory_ok db'"
    using c by (auto simp: commit_opening_def commit_inventory_eq split: sum.splits)
  moreover have "op_ingredient_id q \<in> ingredient_ids seen" using load_ingredient_in[OF x(1)] by (force simp: ingredient_ids_def)
  ultimately show thesis using that[of m] x load_ingredient_in[OF x(1)] build_movement_shape[OF m] by (auto simp: opens_def)
qed

lemma same_key_clash:
  assumes "inventory_ok db" "iv_movements db = ms @ [m]" "m' \<in> set ms" "sm_business_id m' = sm_business_id m"
    "sm_idempotency_key m' = Some k" "sm_idempotency_key m = Some k"
  shows False
proof -
  have "unique_index movement_key (ms @ [m])"
    using assms(1,2) by (simp add: inventory_ok_def shop_ok_def stock_index_def iv_movements_def iv_stock_def)
  then show False using assms(3-6) by (auto simp: unique_index_snoc movement_key_def)
qed

lemma opening_kept:
  assumes "set_opening_stock seen db user q now = Inr db'" "books_ok db" "grew seen db"
  shows "books_ok db' \<and> grew db db'"
  using assms(1)
proof (rule set_opening_stock_cases)
  fix m
  let ?b = "au_business_id user" and ?i = "op_ingredient_id q"
  assume f: "iv_movements db' = iv_movements db @ [m]" "inventory_ok db'" "iv_wastage db' = iv_wastage db" "iv_receipts db' = iv_receipts db"
    "iv_receipt_lines db' = iv_receipt_lines db" "ingredient_ids db' = ingredient_ids db"
    and m: "opens ?b ?i m" "sm_idempotency_key m = Some (opening_balance_idempotency_key ?i)" "0 < sm_quantity_milli m" "sm_source_type m = Some SRC_OPENING_STOCK"
    and i: "?i \<in> ingredient_ids seen" "\<not> has_opening_balance seen ?b ?i"
  have old: "opening_ok (ingredient_ids db) (iv_movements db)" using assms(2) by (simp add: books_ok_def)
  have none: "m' \<notin> set (iv_movements db)" if o: "opens ?b ?i m'" for m'
  proof
    assume m': "m' \<in> set (iv_movements db)"
    then consider "sm_idempotency_key m' = None" | "sm_idempotency_key m' = Some (opening_balance_idempotency_key ?i)"
      using bspec[OF conjunct1[OF old[unfolded opening_ok_def]] m'] o by (auto simp: opens_def)
    then show False
    proof cases
      case 1
      then have "m' \<in> set (iv_movements seen)" using assms(3) m' o i(1) by (auto simp: grew_def keyless_opening_def opens_def)
      then show False using i(2) o by (auto simp: has_opening_balance_def opens_def)
    next
      case 2
      then show False using same_key_clash[OF f(2,1) m'] m o by (auto simp: opens_def)
    qed
  qed
  have "length (filter (opens b j) (iv_movements db @ [m])) \<le> 1" for b j
  proof (cases "opens b j m")
    case True
    then have "b = ?b" "j = ?i" using m(1) by (auto simp: opens_def)
    then have "filter (opens b j) (iv_movements db) = []" using none by (auto simp: filter_empty_conv)
    then show ?thesis by simp
  next
    case False
    then show ?thesis using old by (simp add: opening_ok_def)
  qed
  then have "opening_ok (ingredient_ids db) (iv_movements db @ [m])"
    using old m i(1) assms(3) by (auto simp: opening_ok_def opens_def grew_def)
  moreover have "waste_ok (iv_movements db @ [m]) (iv_wastage db)" using assms(2) m(4) by (intro waste_ok_other) (auto simp: books_ok_def)
  ultimately have "books_ok db'" using assms(2) f by (simp add: books_ok_def)
  moreover have "grew db db'" using m by (auto simp: grew_def f keyless_opening_def)
  ultimately show ?thesis by simp
qed

subsection \<open>Wastage\<close>

lemma record_kept:
  assumes "record_wastage db user q entry_id now = Inr (db', e)" "entry_id \<notin> wa_id ` set (iv_wastage db)" "books_ok db"
  shows "books_ok db' \<and> grew db db'"
proof -
  let ?b = "au_business_id user"
  obtain b x n v m where n: "\<not> n \<le> 0" and e: "e = new_wastage user b q x entry_id n v now"
    and m: "build_movement ?b (ing_id x) (- n) (movement_type_for_reason (wq_reason q)) (ing_cost_per_canonical_micro_cents x)
                  (Some SRC_WASTAGE_ENTRY) (Some entry_id) (Some (au_user_id user)) (Some (wastage_idempotency_key entry_id (ing_id x)))
                  (Some (wastage_reason_text (wq_reason q) @ (if truthy (wq_note q) then '': '' @ the (wq_note q) else [])))
                  (Some (wa_occurred_at e)) now = Inr m"
    and c: "db' = (change_stock (add_movements [m]) db)\<lparr>iv_wastage := iv_wastage db @ [e]\<rparr>" "inventory_ok db'"
    using assms(1) unfolding record_wastage_def Let_def and_then_eq_Inr commit_inventory_eq raise_if_eq_Inr by auto
  note shape = build_movement_shape[OF m]
  have old: "waste_ok (iv_movements db) (iv_wastage db)" using assms(3) by (simp add: books_ok_def)
  have t: "sm_movement_type m \<noteq> OPENING_BALANCE" using shape by (simp add: movement_type_for_reason_def split: wastage_reason.split)
  have none: "waste_moves e (iv_movements db) = []"
  proof -
    have "sm_source_id x \<noteq> Some entry_id" if "x \<in> set (iv_movements db)" "sm_source_type x = Some SRC_WASTAGE_ENTRY" for x
      using old assms(2) that by (fastforce simp: waste_ok_def)
    then show ?thesis by (auto simp: waste_moves_def filter_empty_conv wastage_movement_def e new_wastage_def)
  qed
  have new: "waste_moves e [m] = [m]" using shape by (simp add: waste_moves_def wastage_movement_def e new_wastage_def)
  have "entry_ok (iv_movements db @ [m]) e"
    using none new shape n by (simp add: entry_ok_def waste_moves_def) (simp add: e new_wastage_def)
  moreover have "entry_ok (iv_movements db @ [m]) w" if "w \<in> set (iv_wastage db)" for w
  proof (rule entry_ok_append)
    show "waste_moves w [m] = []" using that assms(2) shape by (auto simp: waste_moves_def wastage_movement_def)
    show "entry_ok (iv_movements db) w" using old that by (simp add: waste_ok_def)
  qed
  ultimately have "waste_ok (iv_movements db @ [m]) (iv_wastage db @ [e])"
    using old assms(2) shape by (auto simp: waste_ok_def e new_wastage_def)
  moreover have "opening_ok (ingredient_ids db) (iv_movements db @ [m])" using assms(3) t by (intro opening_ok_other) (auto simp: books_ok_def)
  ultimately have "books_ok db'" using assms(3) c by (simp add: books_ok_def)
  moreover have "grew db db'" using t by (auto simp: grew_def c(1) keyless_opening_def)
  ultimately show ?thesis by simp
qed

lemma reject_wastage_cases:
  assumes "reject_wastage seen db user i reason now = Inr db'"
  obtains (Unchanged) "db' = db"
  | (Reversed) e m0 m where "e \<in> set (iv_wastage seen)" "wa_id e = i" "wa_business_id e = au_business_id user"
      "find (wastage_movement (au_business_id user) i) (iv_movements seen) = Some m0" "inventory_ok db'"
      "sm_business_id m = au_business_id user" "sm_ingredient_id m = wa_ingredient_id e" "sm_quantity_milli m = - sm_quantity_milli m0"
      "sm_movement_type m = WASTAGE_REVERSAL" "sm_source_type m = Some SRC_WASTAGE_ENTRY" "sm_source_id m = Some i"
      "sm_idempotency_key m = Some (wastage_reversal_idempotency_key i (wa_ingredient_id e))"
      "db' = (change_stock (add_movements [m]) db)\<lparr>iv_wastage := update_where (\<lambda>x. wa_id x = i)
         (\<lambda>x. x\<lparr>wa_rejected_by_user_id := Some (au_user_id user), wa_rejected_at := Some now, wa_rejection_reason := Some reason\<rparr>) (iv_wastage db)\<rparr>"
proof -
  obtain e where e: "load_wastage seen (au_business_id user) i = Inr e"
    using assms by (auto simp: reject_wastage_def Let_def and_then_eq_Inr)
  show thesis
  proof (cases "db' = db")
    case False
    let ?staged = "\<lambda>m. (change_stock (add_movements [m]) db)\<lparr>iv_wastage := update_where (\<lambda>x. wa_id x = i)
         (\<lambda>x. x\<lparr>wa_rejected_by_user_id := Some (au_user_id user), wa_rejected_at := Some now, wa_rejection_reason := Some reason\<rparr>) (iv_wastage db)\<rparr>"
    obtain m0 m where m0: "find (wastage_movement (au_business_id user) i) (iv_movements seen) = Some m0"
      and m: "build_movement (au_business_id user) (wa_ingredient_id e) (- sm_quantity_milli m0) WASTAGE_REVERSAL (sm_unit_cost_micro_cents m0)
                         (Some SRC_WASTAGE_ENTRY) (Some i) (Some (au_user_id user))
                         (Some (wastage_reversal_idempotency_key i (wa_ingredient_id e))) (Some (''Rejected: '' @ reason)) None now = Inr m"
      and r: "(case commit_inventory (?staged m) of Inr db' \<Rightarrow> Inr db'
               | Inl e \<Rightarrow> if e = IntegrityError ''uq_stock_movements_business_id_idempotency_key'' then Inr db else Inl e) = Inr db'"
      using assms e False unfolding reject_wastage_def Let_def and_then_eq_Inr or_raise_eq_Inr by (elim exE conjE, split if_splits) (auto simp: and_then_eq_Inr or_raise_eq_Inr)
    have c: "commit_inventory (?staged m) = Inr db'" using r False by (cases "commit_inventory (?staged m)") (simp_all split: if_splits)
    have "e \<in> set (iv_wastage seen)" "wa_id e = i" "wa_business_id e = au_business_id user"
      using e by (auto simp: load_wastage_def or_raise_eq_Inr dest!: find_SomeD)
    then show thesis using Reversed[of e m0 m] m0 build_movement_shape[OF m] c by (simp add: commit_inventory_eq)
  qed (rule Unchanged)
qed

lemma find_first: "find P xs = Some x \<Longrightarrow> \<exists>ys. filter P (xs @ zs) = x # ys"
  by (induction xs) (auto split: if_splits)

lemma reject_kept:
  assumes "reject_wastage seen db user i reason now = Inr db'" "books_ok db" "grew seen db"
  shows "books_ok db' \<and> grew db db'"
  using assms(1)
proof (cases rule: reject_wastage_cases)
  case Unchanged
  then show ?thesis using assms(2) grew_refl by simp
next
  case (Reversed e0 m0 m)
  let ?set = "\<lambda>x. x\<lparr>wa_rejected_by_user_id := Some (au_user_id user), wa_rejected_at := Some now, wa_rejection_reason := Some reason\<rparr>"
  have old: "waste_ok (iv_movements db) (iv_wastage db)" using assms(2) by (simp add: books_ok_def)
  have f: "iv_movements db' = iv_movements db @ [m]" "iv_wastage db' = update_where (\<lambda>x. wa_id x = i) ?set (iv_wastage db)"
    "iv_receipts db' = iv_receipts db" "iv_receipt_lines db' = iv_receipt_lines db" "ingredient_ids db' = ingredient_ids db"
    by (simp_all add: Reversed(13))
  have "entry_core e0 \<in> entry_core ` set (iv_wastage db)" using assms(3) Reversed(1) by (auto simp: grew_def)
  then obtain e where e: "e \<in> set (iv_wastage db)" "wa_id e = i" "wa_business_id e = au_business_id user" "wa_ingredient_id e = wa_ingredient_id e0"
    using Reversed(2,3) by (auto simp: entry_core_def)
  have ok: "entry_ok (iv_movements db) e" using old e(1) by (simp add: waste_ok_def)
  obtain ms where "iv_movements db = iv_movements seen @ ms" using assms(3) unfolding grew_def by blast
  then obtain ys where first: "waste_moves e (iv_movements db) = m0 # ys"
    using find_first[OF Reversed(4), of ms] e(2,3) unfolding waste_moves_def by auto
  have live: "wa_rejected_by_user_id e = None"
  proof (rule ccontr)
    assume "wa_rejected_by_user_id e \<noteq> None"
    then obtain r where "r \<in> set (waste_moves e (iv_movements db))" "sm_idempotency_key r = Some (wastage_reversal_idempotency_key (wa_id e) (wa_ingredient_id e))"
      using ok by (auto simp: entry_ok_def)
    then show False using same_key_clash[OF Reversed(5) f(1), of r] Reversed(6,12) e by (auto simp: waste_moves_def wastage_movement_def)
  qed
  then have q: "sm_quantity_milli m0 = - wa_quantity_milli e" "ys = []" using ok first by (auto simp: entry_ok_def)
  have i0: "sm_ingredient_id m0 = wa_ingredient_id e" using ok first by (simp add: entry_ok_def)
  have new: "waste_moves w [m] = (if wa_id w = i \<and> wa_business_id w = au_business_id user then [m] else [])" for w
    using Reversed(6,10,11) by (auto simp: waste_moves_def wastage_movement_def)
  have "entry_ok (iv_movements db @ [m]) (?set e)"
    using ok first q i0 new[of e] e Reversed(7,8,12) by (simp add: entry_ok_def waste_moves_def)
  moreover have "w = e" if "w \<in> set (iv_wastage db)" "wa_id w = i" for w
    using old that e(1,2) by (auto simp: waste_ok_def distinct_map inj_on_def)
  moreover have "entry_ok (iv_movements db @ [m]) w" if "w \<in> set (iv_wastage db)" "wa_id w \<noteq> i" for w
    using that new[of w] old by (intro entry_ok_append) (auto simp: waste_ok_def)
  ultimately have all: "\<forall>w \<in> set (iv_wastage db'). entry_ok (iv_movements db') w" by (auto simp: f update_where_def)
  have ids: "map wa_id (iv_wastage db') = map wa_id (iv_wastage db)" by (auto simp: f update_where_def)
  have idset: "wa_id ` set (iv_wastage db') = wa_id ` set (iv_wastage db)" using arg_cong[OF ids, of set] by simp
  have known: "sm_source_id x \<in> Some ` wa_id ` set (iv_wastage db)" if "x \<in> set (iv_movements db')" "sm_source_type x = Some SRC_WASTAGE_ENTRY" for x
  proof (cases "x = m")
    case True
    then show ?thesis using e(1,2) Reversed(11) by auto
  next
    case False
    then show ?thesis using that old by (auto simp: f(1) waste_ok_def)
  qed
  have "distinct (map wa_id (iv_wastage db'))" using old by (simp only: ids waste_ok_def)
  then have "waste_ok (iv_movements db') (iv_wastage db')" using all known unfolding waste_ok_def idset by blast
  moreover have "opening_ok (ingredient_ids db) (iv_movements db @ [m])" using assms(2) Reversed(9) by (intro opening_ok_other) (auto simp: books_ok_def)
  ultimately have "books_ok db'" using assms(2) Reversed(5) f(1,3-5) by (simp add: books_ok_def)
  moreover have "map entry_core (iv_wastage db') = map entry_core (iv_wastage db)" by (auto simp: f update_where_def entry_core_def)
  then have "entry_core ` set (iv_wastage db') = entry_core ` set (iv_wastage db)" by (metis image_set)
  then have "grew db db'" using Reversed(9) by (auto simp: grew_def f keyless_opening_def)
  ultimately show ?thesis by simp
qed

subsection \<open>Imported ingredients\<close>

lemma distinct_filter_key: "distinct (map k xs) \<Longrightarrow> length (filter (\<lambda>x. k x = i) xs) \<le> 1"
proof (induction xs)
  case (Cons x xs)
  have "filter (\<lambda>x. k x = i) xs = []" if "k x = i" using Cons.prems that by (auto simp: filter_empty_conv intro: rev_image_eqI)
  then show ?case using Cons by (cases "k x = i") simp_all
qed simp

lemma subseq_set_subset: "subseq xs ys \<Longrightarrow> set xs \<subseteq> set ys"
  by (induction rule: list_emb.induct) auto

lemma subseq_keeps_distinct: "subseq xs ys \<Longrightarrow> distinct ys \<Longrightarrow> distinct xs"
  by (induction rule: list_emb.induct) (auto dest: subseq_set_subset)

definition parsed_ok :: "parsed_ingredient \<Rightarrow> bool" where
  "parsed_ok p = (\<forall>n \<in> set_option (pg_opening_milli p). 0 \<le> n)"

lemma row_then_ok: "row_then r f = RowOk y \<longleftrightarrow> (\<exists>x. r = RowOk x \<and> f x = RowOk y)"
  by (cases r) (simp_all add: row_then_def)

lemma parse_ingredient_ok: "parse_ingredient row name = RowOk p \<Longrightarrow> parsed_ok p"
  by (auto simp: parse_ingredient_def Let_def row_then_ok sheet_opening_def row_check_def parsed_ok_def split: option.splits if_splits)

lemma parse_ingredients_ok:
  assumes "parse_ingredients rows = Inr s"
  shows "\<forall>p \<in> set (is_rows s). parsed_ok p"
  using assms unfolding parse_ingredients_def
proof (rule fold_result_invariant)
  fix x s s'
  assume "\<forall>p \<in> set (is_rows s). parsed_ok p" "ingredient_row_step x s = Inr s'"
  then show "\<forall>p \<in> set (is_rows s'). parsed_ok p"
    by (cases x) (auto simp: ingredient_row_step_def Let_def parse_ingredient_ok split: if_splits row_result.splits)
qed simp

text \<open>What the rows add: ingredients with fresh identities, and at most one opening movement for each of them.\<close>

definition import_grew :: "auth_user \<Rightarrow> (nat \<Rightarrow> uuid) \<Rightarrow> ingredient_import \<Rightarrow> ingredient_import \<Rightarrow> bool" where
  "import_grew user fresh s out = (\<exists>ms new. iv_movements (ii_db out) = iv_movements (ii_db s) @ ms \<and>
     sd_ingredients (iv_stock (ii_db out)) = sd_ingredients (iv_stock (ii_db s)) @ new \<and>
     map ing_id new = map fresh [ii_created s..<ii_created out] \<and> ii_created s \<le> ii_created out \<and> subseq (map sm_ingredient_id ms) (map ing_id new) \<and>
     (\<forall>m \<in> set ms. keyless_opening m \<and> 0 < sm_quantity_milli m \<and> sm_source_type m = None \<and> sm_business_id m = au_business_id user) \<and>
     iv_wastage (ii_db out) = iv_wastage (ii_db s) \<and> iv_receipts (ii_db out) = iv_receipts (ii_db s) \<and>
     iv_receipt_lines (ii_db out) = iv_receipt_lines (ii_db s))"

lemma import_grew_trans:
  assumes "import_grew user fresh a b" "import_grew user fresh b c"
  shows "import_grew user fresh a c"
proof -
  let ?fine = "\<lambda>m. keyless_opening m \<and> 0 < sm_quantity_milli m \<and> sm_source_type m = None \<and> sm_business_id m = au_business_id user"
  obtain ms1 new1 where 1: "iv_movements (ii_db b) = iv_movements (ii_db a) @ ms1" "sd_ingredients (iv_stock (ii_db b)) = sd_ingredients (iv_stock (ii_db a)) @ new1"
    "map ing_id new1 = map fresh [ii_created a..<ii_created b]" "ii_created a \<le> ii_created b" "subseq (map sm_ingredient_id ms1) (map ing_id new1)"
    "\<forall>m \<in> set ms1. ?fine m" "iv_wastage (ii_db b) = iv_wastage (ii_db a)" "iv_receipts (ii_db b) = iv_receipts (ii_db a)"
    "iv_receipt_lines (ii_db b) = iv_receipt_lines (ii_db a)"
    using assms(1) unfolding import_grew_def by (elim exE conjE) (rule that)
  obtain ms2 new2 where 2: "iv_movements (ii_db c) = iv_movements (ii_db b) @ ms2" "sd_ingredients (iv_stock (ii_db c)) = sd_ingredients (iv_stock (ii_db b)) @ new2"
    "map ing_id new2 = map fresh [ii_created b..<ii_created c]" "ii_created b \<le> ii_created c" "subseq (map sm_ingredient_id ms2) (map ing_id new2)"
    "\<forall>m \<in> set ms2. ?fine m" "iv_wastage (ii_db c) = iv_wastage (ii_db b)" "iv_receipts (ii_db c) = iv_receipts (ii_db b)"
    "iv_receipt_lines (ii_db c) = iv_receipt_lines (ii_db b)"
    using assms(2) unfolding import_grew_def by (elim exE conjE) (rule that)
  have "[ii_created a..<ii_created c] = [ii_created a..<ii_created b] @ [ii_created b..<ii_created c]"
    using upt_add_eq_append[of "ii_created a" "ii_created b" "ii_created c - ii_created b"] 1(4) 2(4) by simp
  then have ids: "map ing_id (new1 @ new2) = map fresh [ii_created a..<ii_created c]" using 1(3) 2(3) by simp
  have sub: "subseq (map sm_ingredient_id (ms1 @ ms2)) (map ing_id (new1 @ new2))" using list_emb_append_mono[OF 1(5) 2(5)] by simp
  have fine: "\<forall>m \<in> set (ms1 @ ms2). ?fine m" using 1(6) 2(6) by (metis Un_iff set_append)
  show ?thesis unfolding import_grew_def
  proof (rule exI[of _ "ms1 @ ms2"], rule exI[of _ "new1 @ new2"], intro conjI)
    show "iv_movements (ii_db c) = iv_movements (ii_db a) @ ms1 @ ms2"
      "sd_ingredients (iv_stock (ii_db c)) = sd_ingredients (iv_stock (ii_db a)) @ new1 @ new2" using 1(1,2) 2(1,2) by simp_all
    show "ii_created a \<le> ii_created c" using 1(4) 2(4) by simp
    show "iv_wastage (ii_db c) = iv_wastage (ii_db a)" "iv_receipts (ii_db c) = iv_receipts (ii_db a)"
      "iv_receipt_lines (ii_db c) = iv_receipt_lines (ii_db a)" using 1(7-9) 2(7-9) by simp_all
  qed (fact ids sub fine)+
qed

lemma add_ingredient_fields [simp]:
  "iv_movements (add_ingredient x db) = iv_movements db" "sd_ingredients (iv_stock (add_ingredient x db)) = sd_ingredients (iv_stock db) @ [x]"
  "iv_wastage (add_ingredient x db) = iv_wastage db" "iv_receipts (add_ingredient x db) = iv_receipts db" "iv_receipt_lines (add_ingredient x db) = iv_receipt_lines db"
  by (simp_all add: add_ingredient_def iv_movements_def)

lemma import_ingredient_grew:
  assumes "import_ingredient user fresh now existing p s = Inr out" "parsed_ok p"
  shows "import_grew user fresh s out"
proof -
  let ?x = "imported_ingredient (au_business_id user) (fresh (ii_created s)) p"
  consider "out = s\<lparr>ii_skipped := ii_skipped s @ [pg_name p]\<rparr>"
    | "out = s\<lparr>ii_db := add_ingredient ?x (ii_db s), ii_created := ii_created s + 1\<rparr>"
    | m where "0 < dict_get 0 (pg_opening_milli p)" "build_movement (au_business_id user) (ing_id ?x) (the (pg_opening_milli p)) OPENING_BALANCE
         (ing_cost_per_canonical_micro_cents ?x) None None (Some (au_user_id user)) None (Some ''Opening stock from spreadsheet import'') None now = Inr m"
        "out = s\<lparr>ii_db := change_stock (add_movements [m]) (add_ingredient ?x (ii_db s)), ii_created := ii_created s + 1, ii_opening_posted := ii_opening_posted s + 1\<rparr>"
    using assms by (cases "pg_opening_milli p") (auto simp: import_ingredient_def Let_def and_then_eq_Inr parsed_ok_def dict_get_def split: if_splits)
  then show ?thesis
  proof cases
    case 1
    then show ?thesis by (auto simp: import_grew_def)
  next
    case 2
    then show ?thesis by (auto simp: import_grew_def imported_ingredient_def)
  next
    case (3 m)
    then have "0 < the (pg_opening_milli p)" by (cases "pg_opening_milli p") (simp_all add: dict_get_def)
    with 3 build_movement_shape[OF 3(2)] show ?thesis
      unfolding import_grew_def by (intro exI[of _ "[m]"] exI[of _ "[?x]"]) (simp add: imported_ingredient_def keyless_opening_def)
  qed
qed

lemma import_all_grew:
  "fold_result (import_ingredient user fresh now existing) ps s = Inr out \<Longrightarrow> \<forall>p \<in> set ps. parsed_ok p \<Longrightarrow> import_grew user fresh s out"
proof (induction ps arbitrary: s)
  case Nil
  then show ?case by (auto simp: import_grew_def)
next
  case (Cons p ps)
  then show ?case by (auto simp: and_then_eq_Inr intro: import_grew_trans import_ingredient_grew)
qed

lemma commit_ingredients_cases:
  assumes "commit_ingredients loads db user f mapping fresh now = Inr out"
  obtains ps where "\<forall>p \<in> set ps. parsed_ok p" "fold_result (import_ingredient user fresh now (existing_names db (au_business_id user))) ps
      \<lparr>ii_db = db, ii_created = 0, ii_opening_posted = 0, ii_skipped = []\<rparr> = Inr out" "inventory_ok (ii_db out)"
  using assms unfolding commit_ingredients_def and_then_eq_Inr commit_inventory_eq case_prod_beta
  by (elim exE conjE) (rule that, erule parse_ingredients_ok, auto)

lemma import_kept:
  assumes "commit_ingredients loads db user f mapping fresh now = Inr out" "inj fresh" "range fresh \<inter> ingredient_ids db = {}" "books_ok db"
  shows "books_ok (ii_db out) \<and> grew db (ii_db out)"
proof -
  obtain ps where ps: "\<forall>p \<in> set ps. parsed_ok p" and run: "fold_result (import_ingredient user fresh now (existing_names db (au_business_id user))) ps
      \<lparr>ii_db = db, ii_created = 0, ii_opening_posted = 0, ii_skipped = []\<rparr> = Inr out" and ok: "inventory_ok (ii_db out)"
    using assms(1) by (rule commit_ingredients_cases)
  then have "import_grew user fresh \<lparr>ii_db = db, ii_created = 0, ii_opening_posted = 0, ii_skipped = []\<rparr> out" by (intro import_all_grew) auto
  then obtain ms new where g: "iv_movements (ii_db out) = iv_movements db @ ms" "sd_ingredients (iv_stock (ii_db out)) = sd_ingredients (iv_stock db) @ new"
    "map ing_id new = map fresh [0..<ii_created out]" "subseq (map sm_ingredient_id ms) (map ing_id new)"
    "\<forall>m \<in> set ms. keyless_opening m \<and> 0 < sm_quantity_milli m \<and> sm_source_type m = None \<and> sm_business_id m = au_business_id user"
    "iv_wastage (ii_db out) = iv_wastage db" "iv_receipts (ii_db out) = iv_receipts db" "iv_receipt_lines (ii_db out) = iv_receipt_lines db"
    unfolding import_grew_def by auto
  have ids: "ingredient_ids (ii_db out) = ingredient_ids db \<union> set (map ing_id new)" by (auto simp: ingredient_ids_def g(2))
  have fresh_new: "set (map ing_id new) \<inter> ingredient_ids db = {}" using assms(3) unfolding g(3) by auto
  have sub: "set (map sm_ingredient_id ms) \<subseteq> set (map ing_id new)" by (rule subseq_set_subset[OF g(4)])
  have "distinct (map ing_id new)" unfolding g(3) using inj_on_subset[OF assms(2) subset_UNIV] by (simp add: distinct_map)
  then have d: "distinct (map sm_ingredient_id ms)" by (rule subseq_keeps_distinct[OF g(4)])
  have old: "opening_ok (ingredient_ids db) (iv_movements db)" using assms(4) by (simp add: books_ok_def)
  have "length (filter (opens b i) (iv_movements db @ ms)) \<le> 1" for b i
  proof (cases "i \<in> ingredient_ids db")
    case True
    then have "filter (opens b i) ms = []" using sub fresh_new by (auto simp: filter_empty_conv opens_def)
    then show ?thesis using old by (simp add: opening_ok_def)
  next
    case False
    then have "filter (opens b i) (iv_movements db) = []" using old by (auto simp: filter_empty_conv opening_ok_def opens_def)
    moreover have "length (filter (opens b i) ms) \<le> length (filter (\<lambda>m. sm_ingredient_id m = i) ms)"
      by (induction ms) (auto simp: opens_def)
    moreover have "length (filter (\<lambda>m. sm_ingredient_id m = i) ms) \<le> 1" using d by (rule distinct_filter_key)
    ultimately show ?thesis by simp
  qed
  then have "opening_ok (ingredient_ids (ii_db out)) (iv_movements (ii_db out))"
    using old sub g(5) by (auto simp: opening_ok_def g(1) ids keyless_opening_def)
  moreover have "waste_ok (iv_movements db @ ms) (iv_wastage db)" using assms(4) g(5) by (intro waste_ok_other) (auto simp: books_ok_def)
  ultimately have "books_ok (ii_db out)" using assms(4) ok by (simp add: books_ok_def g)
  moreover have "grew db (ii_db out)" using g(5) sub fresh_new by (auto simp: grew_def g ids)
  ultimately show ?thesis by simp
qed

subsection \<open>Every step, every history\<close>

lemma step_kept:
  assumes "inventory_step seen db db'" "books_ok db" "grew seen db"
  shows "books_ok db' \<and> grew db db'"
proof -
  have ok: "inventory_ok db" using assms(2) by (simp add: books_ok_def)
  have q: "books_ok d \<and> grew db d" if "quiet db d" for d using quiet_kept[OF that] assms(2) by blast
  from assms(1) show ?thesis
  proof cases
    case Receive
    from this(1,2) show ?thesis by (rule received_kept[OF _ _ assms(2)])
  next
    case Open_Stock
    then show ?thesis by (rule opening_kept[OF _ assms(2,3)])
  next
    case Record
    from this(1,2) show ?thesis by (rule record_kept[OF _ _ assms(2)])
  next
    case Reject
    then show ?thesis by (rule reject_kept[OF _ assms(2,3)])
  next
    case (Import_Ingredients loads user f mapping fresh now out)
    then show ?thesis using import_kept[OF Import_Ingredients(2-4) assms(2)] by simp
  next
    case Adjust
    then show ?thesis by (rule q[OF quiet_adjustment])
  next
    case Approve
    then show ?thesis by (rule q[OF quiet_approval[OF ok]])
  next
    case Create_Ingredient
    then show ?thesis by (rule q[OF quiet_create_ingredient])
  next
    case Update_Ingredient
    then show ?thesis by (rule q[OF quiet_update_ingredient])
  next
    case Delete_Ingredient
    then show ?thesis by (rule q[OF quiet_delete_ingredient])
  next
    case Create_Supplier
    then show ?thesis by (rule q[OF quiet_create_supplier])
  next
    case Update_Supplier
    then show ?thesis by (rule q[OF quiet_update_supplier[OF ok]])
  next
    case Delete_Supplier
    then show ?thesis by (rule q[OF quiet_delete_supplier])
  next
    case Elsewhere
    then show ?thesis by (rule q[OF quiet_elsewhere])
  qed
qed

lemma empty_books_ok: "empty_books db \<Longrightarrow> books_ok db"
  by (simp add: empty_books_def books_ok_def opening_ok_def waste_ok_def receipts_ok_def)

lemma history_kept: "inventory_history dbs \<Longrightarrow> dbs \<noteq> [] \<and> books_ok (hd dbs) \<and> (\<forall>s \<in> set dbs. grew s (hd dbs))"
proof (induction rule: inventory_history.induct)
  case (Start db)
  then show ?case by (simp add: empty_books_ok grew_refl)
next
  case (Next db dbs seen db')
  have IH: "books_ok db" "\<And>s. s \<in> set (db # dbs) \<Longrightarrow> grew s db" using Next.IH by auto
  have step: "books_ok db' \<and> grew db db'" using step_kept[OF Next.hyps(3) IH(1) IH(2)[OF Next.hyps(2)]] .
  then have "grew s db'" if "s \<in> set (db' # db # dbs)" for s
    using that grew_refl[of db'] grew_trans[OF IH(2)[of s], of db'] by (cases "s = db'") auto
  then show ?case using step by simp
qed

text \<open>
  C2: Whatever the inventory, wastage and import handlers do, in any order and on rows read at any earlier
  time, the stock ledger stays explained: an ingredient has at most one opening balance, a positive one;
  the movements of a wastage entry take its quantity off the stock once, and put it back once exactly when
  the entry is rejected; and the total of every delivery is the sum of its lines.
\<close>

theorem stock_books_stay_explained:
  assumes "inventory_history (db # dbs)"
  shows "(\<forall>b i. length (filter (opens b i) (iv_movements db)) \<le> 1) \<and>
     (\<forall>e \<in> set (iv_wastage db). map (\<lambda>m. (sm_ingredient_id m, sm_quantity_milli m)) (waste_moves e (iv_movements db)) =
        map (Pair (wa_ingredient_id e)) (- wa_quantity_milli e # (if wa_rejected_by_user_id e = None then [] else [wa_quantity_milli e])) \<and>
        0 < wa_quantity_milli e) \<and>
     (\<forall>r \<in> set (iv_receipts db). gs_total_cost_cents r =
        sum_list (map gl_line_cost_cents (filter (\<lambda>l. gl_goods_receipt_id l = gs_id r) (iv_receipt_lines db))))"
proof -
  have ok: "books_ok db" using history_kept[OF assms] by simp
  have "map (\<lambda>m. (sm_ingredient_id m, sm_quantity_milli m)) (waste_moves e (iv_movements db)) =
     map (Pair (wa_ingredient_id e)) (map sm_quantity_milli (waste_moves e (iv_movements db)))" if "entry_ok (iv_movements db) e" for e
    using that by (simp add: entry_ok_def)
  then show ?thesis using ok by (auto simp: books_ok_def opening_ok_def waste_ok_def receipts_ok_def entry_ok_def split: if_splits)
qed

subsection \<open>A sample history\<close>

text \<open>Two kilograms of flour are reported spoiled, and the report is rejected.\<close>

definition sample_spoiled :: wastage_request where
  "sample_spoiled = \<lparr>wq_ingredient_id = 7, wq_quantity = ''2'', wq_unit = ''kg'', wq_reason = SPOILED, wq_note = None,
     wq_related_order_id = None, wq_photo_asset_id = None, wq_occurred_at = None\<rparr>"

definition sample_spoilage :: wastage_entry where
  "sample_spoilage = new_wastage sample_owner (sample_business\<lparr>bu_inventory_enabled := True\<rparr>) sample_spoiled sample_ingredient 60 2000000 0 9"

definition sample_waste_movement :: "int \<Rightarrow> movement_type \<Rightarrow> string \<Rightarrow> string \<Rightarrow> stock_movement" where
  "sample_waste_movement n t key note = \<lparr>sm_business_id = 10, sm_ingredient_id = 7, sm_quantity_milli = n, sm_movement_type = t,
     sm_source_type = Some SRC_WASTAGE_ENTRY, sm_source_id = Some 60, sm_unit_cost_micro_cents = 0, sm_value_cents = 0,
     sm_created_by_user_id = Some 99, sm_idempotency_key = Some key, sm_notes = Some note, sm_occurred_at = 9, sm_created_at = 9\<rparr>"

definition sample_wasted :: inventory_db where
  "sample_wasted = (change_stock (add_movements [sample_waste_movement (-2000000) WASTAGE (wastage_idempotency_key 60 7) ''SPOILED'']) sample_store)
     \<lparr>iv_wastage := [sample_spoilage]\<rparr>"

definition sample_returned :: inventory_db where
  "sample_returned = (change_stock (add_movements [sample_waste_movement 2000000 WASTAGE_REVERSAL (wastage_reversal_idempotency_key 60 7)
       ''Rejected: found'']) sample_wasted)
     \<lparr>iv_wastage := [sample_spoilage\<lparr>wa_rejected_by_user_id := Some 99, wa_rejected_at := Some 9, wa_rejection_reason := Some ''found''\<rparr>]\<rparr>"

lemma sample_wasted_step: "record_wastage sample_store sample_owner sample_spoiled 60 9 = Inr (sample_wasted, sample_spoilage)"
proof -
  have t: "to_milli (QText ''2'') (Some ''kg'') (Some GRAM) = Inr 2000000" "upper (strip ''kg'') = ''KG''" by code_simp+
  have v: "value_cents 2000000 0 = Inr 0" "value_cents (-2000000) 0 = Inr 0" by (simp_all add: value_cents_exact value_cents_signed half_up_signed_def half_up_def)
  have l: "load_ingredient sample_store 10 7 = Inr sample_ingredient"
    by (simp add: load_ingredient_def sample_store_defs iv_stock_def or_raise_def)
  have c: "commit_inventory sample_wasted = Inr sample_wasted"
    by (simp add: commit_inventory_eq inventory_ok_def sample_wasted_def sample_store_defs unique_index_one shop_ok_def change_stock_def
      iv_stock_def stock_index_def commit_loyalty_def add_movements_def)
  have i: "ing_id sample_ingredient = 7" "ing_canonical_unit sample_ingredient = GRAM" "ing_cost_per_canonical_micro_cents sample_ingredient = 0"
    by (simp_all add: sample_ingredient_def)
  have q: "convert_quantity (QText (wq_quantity sample_spoiled)) (wq_unit sample_spoiled) GRAM = Inr 2000000" "wq_ingredient_id sample_spoiled = 7"
    "wq_photo_asset_id sample_spoiled = None" "wq_related_order_id sample_spoiled = None" "wq_reason sample_spoiled = SPOILED" "\<not> truthy (wq_note sample_spoiled)"
    by (simp_all add: sample_spoiled_def convert_quantity_def t truthy_def)
  have b: "build_movement 10 7 (-2000000) WASTAGE 0 (Some SRC_WASTAGE_ENTRY) (Some 60) (Some 99) (Some (wastage_idempotency_key 60 7)) (Some ''SPOILED'')
      (Some (wa_occurred_at sample_spoilage)) 9 = Inr (sample_waste_movement (-2000000) WASTAGE (wastage_idempotency_key 60 7) ''SPOILED'')"
    by (simp add: build_movement_def v sample_waste_movement_def sample_spoilage_def new_wastage_def sample_spoiled_def dict_get_def)
  have s: "(change_stock (add_movements [sample_waste_movement (-2000000) WASTAGE (wastage_idempotency_key 60 7) ''SPOILED'']) sample_store)\<lparr>iv_wastage := [sample_spoilage]\<rparr> = sample_wasted"
    by (simp add: sample_wasted_def)
  show ?thesis
    using c by (simp add: record_wastage_def q v l i b s sample_spoilage_def[symmetric] movement_type_for_reason_def wastage_reason_text_def)
qed

lemma sample_returned_step: "reject_wastage sample_wasted sample_wasted sample_owner 60 ''found'' 9 = Inr sample_returned"
proof -
  have v: "value_cents 2000000 0 = Inr 0" by (simp add: value_cents_exact half_up_def)
  have k: "wastage_idempotency_key 60 7 \<noteq> wastage_reversal_idempotency_key 60 7"
    by (simp add: wastage_idempotency_key_def wastage_reversal_idempotency_key_def)
  have i: "unique_index movement_key (iv_movements sample_returned)"
    using k by (simp add: unique_index_def sample_returned_def sample_wasted_def movement_key_def sample_waste_movement_def)
  have c: "commit_inventory sample_returned = Inr sample_returned"
    using i by (simp add: commit_inventory_eq inventory_ok_def sample_returned_def sample_wasted_def sample_store_defs unique_index_one shop_ok_def
      change_stock_def iv_stock_def iv_movements_def stock_index_def commit_loyalty_def add_movements_def)
  have l: "load_wastage sample_wasted 10 60 = Inr sample_spoilage" "require_inventory sample_wasted 10 = Inr (sample_business\<lparr>bu_inventory_enabled := True\<rparr>)"
    by (simp_all add: load_wastage_def sample_wasted_def sample_store_defs iv_stock_def change_stock_def add_movements_def or_raise_def
        sample_spoilage_def new_wastage_def require_inventory_def business_of_def)
  have m: "find (wastage_movement 10 60) (iv_movements sample_wasted) =
      Some (sample_waste_movement (-2000000) WASTAGE (wastage_idempotency_key 60 7) ''SPOILED'')"
    by (simp add: sample_wasted_def wastage_movement_def sample_waste_movement_def)
  have e: "wa_approved_by_user_id sample_spoilage = None" "wa_rejected_by_user_id sample_spoilage = None" "wa_ingredient_id sample_spoilage = 7"
    by (simp_all add: sample_spoilage_def new_wastage_def needs_approval_def sample_business_def sample_ingredient_def)
  have id60: "wa_id sample_spoilage = 60" by (simp add: sample_spoilage_def new_wastage_def)
  have s: "(change_stock (add_movements [sample_waste_movement 2000000 WASTAGE_REVERSAL (wastage_reversal_idempotency_key 60 7) ''Rejected: found'']) sample_wasted)
     \<lparr>iv_wastage := update_where (\<lambda>x. wa_id x = 60) (\<lambda>x. x\<lparr>wa_rejected_by_user_id := Some 99, wa_rejected_at := Some 9, wa_rejection_reason := Some ''found''\<rparr>)
        (iv_wastage sample_wasted)\<rparr> = sample_returned"
    using id60 by (simp add: sample_returned_def sample_wasted_def update_where_def change_stock_def)
  have b: "build_movement 10 7 2000000 WASTAGE_REVERSAL 0 (Some SRC_WASTAGE_ENTRY) (Some 60) (Some 99)
     (Some (wastage_reversal_idempotency_key 60 7)) (Some ''Rejected: found'') None 9 =
     Inr (sample_waste_movement 2000000 WASTAGE_REVERSAL (wastage_reversal_idempotency_key 60 7) ''Rejected: found'')"
    by (simp add: build_movement_def v sample_waste_movement_def)
  have f: "sm_quantity_milli (sample_waste_movement n t k u) = n" "sm_unit_cost_micro_cents (sample_waste_movement n t k u) = 0" for n t k u
    by (simp_all add: sample_waste_movement_def)
  show ?thesis using c by (simp add: reject_wastage_def l m e or_raise_def f b s)
qed

lemma sample_history: "inventory_history [sample_returned, sample_wasted, sample_store]"
proof (rule Next[of _ _ sample_wasted])
  show "inventory_history [sample_wasted, sample_store]"
  proof (rule Next[of _ _ sample_store])
    show "inventory_history [sample_store]" by (rule Start) (simp add: empty_books_def)
    show "inventory_step sample_store sample_store sample_wasted" by (rule Record[OF sample_wasted_step]) simp
  qed simp
  show "inventory_step sample_wasted sample_wasted sample_returned" by (rule Reject[OF sample_returned_step])
qed simp

theorem stock_books_stay_explained_witness:
  "inventory_history [sample_returned, sample_wasted, sample_store] \<and> length (filter (opens 10 7) (iv_movements sample_returned)) \<le> 1 \<and>
   map (\<lambda>m. (sm_ingredient_id m, sm_quantity_milli m)) (waste_moves (hd (iv_wastage sample_returned)) (iv_movements sample_returned)) =
     [(7, -2000000), (7, 2000000)]"
proof -
  have e: "hd (iv_wastage sample_returned) \<in> set (iv_wastage sample_returned)" by (simp add: sample_returned_def)
  show ?thesis using sample_history stock_books_stay_explained[OF sample_history] bspec[OF conjunct1[OF conjunct2[OF stock_books_stay_explained[OF sample_history]]] e]
    by (simp add: sample_returned_def sample_spoilage_def new_wastage_def sample_ingredient_def)
qed

end
