(* ===== verification/PosCheckout.thy ===== *)
theory PosCheckout imports Shop begin

text \<open>
  \<^verbatim>\<open>backend/app/api/v1/routes_pos.py\<close>, \<open>create_pos_order\<close>: ringing up and paying for an
  order at the till in one transaction.  Each phase of the handler is a definition:
  the guards, the pricing and the discount limits, the loyalty redemption, the money,
  the payments and the payment-link intents they use up, the rows that are staged, the
  stock that is taken, the commit with its replay, and the award of points.
\<close>

subsection \<open>The request\<close>

record pos_payment =
  pp_payment_method :: payment_method
  pp_amount_cents :: int
  pp_cash_tendered_cents :: "int option"
  pp_payment_reference :: "string option"
  pp_payment_intent_id :: "uuid option"

record pos_order_create =
  pc_items :: "pos_item_input list"
  pc_order_mode :: order_mode
  pc_table_number :: "string option"
  pc_customer_name :: "string option"
  pc_customer_phone :: "string option"
  pc_discount_cents :: int
  pc_discount_reason :: "string option"
  pc_loyalty_reward_id :: "uuid option"
  pc_payment_method :: "payment_method option"
  pc_cash_tendered_cents :: "int option"
  pc_payment_reference :: "string option"
  pc_payments :: "pos_payment list option"
  pc_idempotency_key :: "string option"

text \<open>What the request schema accepts.\<close>

definition valid_pos_payment :: "pos_payment \<Rightarrow> bool" where
  "valid_pos_payment p = (0 < pp_amount_cents p \<and>
     (if pp_payment_method p = M_CASH
      then (case pp_cash_tendered_cents p of None \<Rightarrow> False | Some t \<Rightarrow> pp_amount_cents p \<le> t)
      else pp_cash_tendered_cents p = None) \<and>
     (pp_payment_method p = M_PAY_BY_LINK \<longleftrightarrow> pp_payment_intent_id p \<noteq> None))"

definition valid_pos_item :: "pos_item_input \<Rightarrow> bool" where
  "valid_pos_item i = (1 \<le> pi_quantity i \<and> pi_quantity i \<le> 999 \<and>
     list_all (\<lambda>s. 1 \<le> ps_quantity s \<and> ps_quantity s \<le> 99) (pi_add_on_selections i))"

definition valid_pos_order :: "pos_order_create \<Rightarrow> bool" where
  "valid_pos_order body = (pc_items body \<noteq> [] \<and> list_all valid_pos_item (pc_items body) \<and> 0 \<le> pc_discount_cents body \<and>
     (case pc_payments body of
        None \<Rightarrow> pc_payment_method body \<in> {Some M_CASH, Some M_CARD, Some M_OTHER} \<and>
          (pc_payment_method body = Some M_CASH \<longleftrightarrow> pc_cash_tendered_cents body \<noteq> None) \<and>
          0 \<le> dict_get 0 (pc_cash_tendered_cents body)
      | Some ps \<Rightarrow> pc_payment_method body = None \<and> ps \<noteq> [] \<and> list_all valid_pos_payment ps) \<and>
     (pc_loyalty_reward_id body \<noteq> None \<longrightarrow> truthy (pc_customer_phone body) \<and> truthy (pc_idempotency_key body)))"

subsection \<open>Guards\<close>

definition require_pos_enabled :: "shop_db \<Rightarrow> uuid \<Rightarrow> unit result" where
  "require_pos_enabled db business =
     and_then (scalar_one_or_none (map bu_pos_enabled (filter (\<lambda>b. bu_id b = business) (sh_businesses db)))) (\<lambda>row.
       raise_if (\<not> dict_get False row) (AppError ''POS_NOT_ENABLED'' 409))"

text \<open>The most recently opened session, should more than one be open.\<close>

fun latest_session :: "till_session \<Rightarrow> till_session list \<Rightarrow> till_session" where
  "latest_session s [] = s"
| "latest_session s (x # xs) = latest_session (if ts_opened_at s < ts_opened_at x then x else s) xs"

definition is_open_till :: "uuid \<Rightarrow> till_session \<Rightarrow> bool" where
  "is_open_till business s = (ts_business_id s = business \<and> ts_status s = TILL_OPEN)"

definition get_open_till :: "shop_db \<Rightarrow> uuid \<Rightarrow> till_session result" where
  "get_open_till db business =
     (case filter (is_open_till business) (sh_tills db) of
        [] \<Rightarrow> Inl (AppError ''TILL_NOT_OPEN'' 409)
      | s # ss \<Rightarrow> Inr (latest_session s ss))"

definition pos_link_provider :: "business \<Rightarrow> string option" where
  "pos_link_provider b = (if bu_pos_yoco_enabled b then Some ''YOCO''
     else if bu_pos_payfast_enabled b then Some ''PAYFAST'' else None)"

definition payment_method_enabled :: "business \<Rightarrow> payment_method \<Rightarrow> bool" where
  "payment_method_enabled b m = (if m = M_CASH then bu_pos_cash_enabled b else if m = M_CARD then bu_pos_card_enabled b
     else bu_pos_payfast_enabled b \<or> bu_pos_yoco_enabled b \<or> bu_pos_ikhoka_enabled b \<or>
          bu_pos_direct_eft_enabled b \<or> bu_pos_other_payment_enabled b)"

definition method_accepted :: "business \<Rightarrow> payment_method \<Rightarrow> bool" where
  "method_accepted b m = (if m = M_PAY_BY_LINK then pos_link_provider b \<noteq> None else payment_method_enabled b m)"

definition check_request :: "business \<Rightarrow> pos_order_create \<Rightarrow> unit result" where
  "check_request b body =
     and_then (raise_if (pc_loyalty_reward_id body \<noteq> None \<and> \<not> bu_loyalty_enabled b) (AppError ''LOYALTY_NOT_ENABLED'' 409)) (\<lambda>_.
     and_then (raise_if (case pc_payments body of
                  Some ps \<Rightarrow> \<not> list_all (\<lambda>p. method_accepted b (pp_payment_method p)) ps
                | None \<Rightarrow> \<not> payment_method_enabled b (case pc_payment_method body of None \<Rightarrow> M_OTHER | Some m \<Rightarrow> m))
                (AppError ''PAYMENT_METHOD_NOT_ACCEPTED'' 422)) (\<lambda>_.
       raise_if (bu_pos_table_number_required b \<and> pc_order_mode body = DINE_IN \<and> \<not> truthy (pc_table_number body))
         (AppError ''TABLE_NUMBER_REQUIRED'' 422)))"

definition check_discount :: "business \<Rightarrow> auth_user \<Rightarrow> pos_order_create \<Rightarrow> int \<Rightarrow> unit result" where
  "check_discount b user body subtotal_cents =
     and_then (raise_if (pc_discount_cents body > subtotal_cents) (AppError ''DISCOUNT_EXCEEDS_SUBTOTAL'' 422)) (\<lambda>_.
       raise_if (pc_discount_cents body > 0 \<and> au_role user \<noteq> OWNER \<and>
                 pc_discount_cents body > dict_get 0 (bu_max_staff_discount_cents b))
         (AppError ''DISCOUNT_LIMIT_EXCEEDED'' 403))"

subsection \<open>Loyalty\<close>

text \<open>The member is known when a phone was given and the programme is enabled.\<close>

definition checkout_member ::
  "loyalty_db \<Rightarrow> uuid \<Rightarrow> pos_order_create \<Rightarrow> uuid \<Rightarrow> (loyalty_db \<times> (loyalty_program \<times> customer) option) result" where
  "checkout_member db business body new_customer_id =
     (if \<not> truthy (pc_customer_phone body) then Inr (db, None)
      else and_then (program_of db business) (\<lambda>row. case row of
          None \<Rightarrow> Inr (db, None)
        | Some program \<Rightarrow>
            if \<not> lp_is_enabled program then Inr (db, None)
            else and_then (get_or_create_customer_by_phone db business (the (pc_customer_phone body)) (pc_customer_name body)
                             new_customer_id) (\<lambda>(db, customer). Inr (db, Some (program, customer)))))"

definition checkout_reward ::
  "loyalty_db \<Rightarrow> uuid \<Rightarrow> pos_order_create \<Rightarrow> (loyalty_program \<times> customer) option \<Rightarrow> uuid \<Rightarrow> int \<Rightarrow>
   (loyalty_db \<times> (loyalty_reward \<times> checkout_redemption) option) result" where
  "checkout_reward db business body member order_id subtotal_cents =
     (case pc_loyalty_reward_id body of None \<Rightarrow> Inr (db, None)
      | Some reward_id \<Rightarrow>
          and_then (or_raise member (AppError ''LOYALTY_DISABLED'' 422)) (\<lambda>(program, customer).
          and_then (reward_of db business reward_id) (\<lambda>reward.
          and_then (redeem_reward_for_checkout db business (cu_id customer) reward program order_id
                      (max 0 (subtotal_cents - pc_discount_cents body))) (\<lambda>(db, redemption).
            Inr (db, Some (reward, redemption))))))"

subsection \<open>Money\<close>

definition net_total :: "business \<Rightarrow> pos_order_create \<Rightarrow> int \<Rightarrow> int \<Rightarrow> int" where
  "net_total b body subtotal_cents loyalty_discount_cents =
     max 0 (subtotal_cents - pc_discount_cents body - loyalty_discount_cents +
            (if pc_order_mode body = DELIVERY then bu_delivery_fee_cents b else 0))"

definition checkout_total :: "business \<Rightarrow> int \<Rightarrow> (int \<times> int) result" where
  "checkout_total b net_total_cents =
     (if bu_vat_registered b
      then apply_vat_to_total net_total_cents (bu_vat_rate_basis_points b) (bu_vat_inclusive_pricing b)
      else Inr (net_total_cents, 0))"

subsection \<open>Payments\<close>

text \<open>
  One payment link: an intent that was used up by this very checkout is a replay (the left
  component), otherwise it has to be paid, unused and for the same amount.
\<close>

definition check_intent :: "shop_db \<Rightarrow> uuid \<Rightarrow> string option \<Rightarrow> pos_payment \<Rightarrow> (order + payment_link_intent) result" where
  "check_intent db business key p =
     and_then (scalar_one_or_none (filter (\<lambda>i. Some (in_id i) = pp_payment_intent_id p \<and> in_business_id i = business)
                 (sh_intents db))) (\<lambda>row.
     and_then (or_raise row (not_found_error ''POSPaymentLinkIntent'')) (\<lambda>i.
       if in_status i = I_CONSUMED
       then and_then (if truthy key \<and> in_order_id i \<noteq> None
                      then scalar_one_or_none (filter (\<lambda>r. Some (or_id r) = in_order_id i) (sh_orders db))
                      else Inr None) (\<lambda>existing.
            case existing of
              Some o1 \<Rightarrow> if or_idempotency_key o1 = key then Inr (Inl o1)
                        else Inl (AppError ''PAYMENT_INTENT_ALREADY_CONSUMED'' 409)
            | None \<Rightarrow> Inl (AppError ''PAYMENT_INTENT_ALREADY_CONSUMED'' 409))
       else and_then (raise_if (in_status i \<noteq> I_PAID) (AppError ''PAYMENT_INTENT_NOT_PAID'' 422)) (\<lambda>_.
            and_then (raise_if (in_amount_cents i \<noteq> pp_amount_cents p) (AppError ''PAYMENT_INTENT_AMOUNT_MISMATCH'' 422)) (\<lambda>_.
              Inr (Inr i)))))"

fun collect_intents ::
  "shop_db \<Rightarrow> uuid \<Rightarrow> string option \<Rightarrow> pos_payment list \<Rightarrow> (order + payment_link_intent list) result" where
  "collect_intents db business key [] = Inr (Inr [])"
| "collect_intents db business key (p # ps) =
     (if pp_payment_method p \<noteq> M_PAY_BY_LINK then collect_intents db business key ps
      else and_then (check_intent db business key p) (\<lambda>r. case r of
          Inl o1 \<Rightarrow> Inr (Inl o1)
        | Inr i \<Rightarrow> and_then (collect_intents db business key ps) (\<lambda>rs. case rs of
            Inl o1 \<Rightarrow> Inr (Inl o1) | Inr is \<Rightarrow> Inr (Inr (i # is)))))"

text \<open>The intents to use up and the change due, or the order that is replayed.\<close>

definition check_payments ::
  "shop_db \<Rightarrow> uuid \<Rightarrow> pos_order_create \<Rightarrow> int \<Rightarrow> (order + (payment_link_intent list \<times> int option)) result" where
  "check_payments db business body total_cents =
     (case pc_payments body of
        Some ps \<Rightarrow>
          and_then (raise_if (sum_list (map pp_amount_cents ps) \<noteq> total_cents) (AppError ''PAYMENT_TOTAL_MISMATCH'' 422)) (\<lambda>_.
          and_then (collect_intents db business (pc_idempotency_key body) ps) (\<lambda>r. case r of
            Inl o1 \<Rightarrow> Inr (Inl o1) | Inr is \<Rightarrow> Inr (Inr (is, None))))
      | None \<Rightarrow>
          if pc_payment_method body = Some M_CASH
          then let tendered = dict_get 0 (pc_cash_tendered_cents body)
               in and_then (raise_if (tendered < total_cents) (AppError ''INSUFFICIENT_CASH_TENDERED'' 422)) (\<lambda>_.
                    Inr (Inr ([], Some (tendered - total_cents))))
          else Inr (Inr ([], None)))"

definition consume_intents :: "payment_link_intent list \<Rightarrow> uuid \<Rightarrow> instant \<Rightarrow> shop_db \<Rightarrow> shop_db" where
  "consume_intents is order_id now db = db\<lparr>sh_intents :=
     update_where (\<lambda>i. in_id i \<in> set (map in_id is))
       (\<lambda>i. i\<lparr>in_status := I_CONSUMED, in_order_id := Some order_id, in_consumed_at := Some now\<rparr>) (sh_intents db)\<rparr>"

subsection \<open>The rows of the sale\<close>

definition initial_status :: "resolved_pos_item list \<Rightarrow> order_status" where
  "initial_status rs = (if list_ex rp_requires_preparation rs then ACCEPTED else COMPLETED)"

definition method_name :: "payment_method \<Rightarrow> string" where
  "method_name m = (case m of M_CASH \<Rightarrow> ''CASH'' | M_CARD \<Rightarrow> ''CARD'' | M_OTHER \<Rightarrow> ''OTHER'' | M_PAY_BY_LINK \<Rightarrow> ''PAY_BY_LINK'')"

definition order_payment_method :: "pos_order_create \<Rightarrow> string option" where
  "order_payment_method body = (if pc_payments body \<noteq> None then Some ''SPLIT'' else map_option method_name (pc_payment_method body))"

record sale =
  sl_order_id :: uuid
  sl_till :: till_session
  sl_business :: business
  sl_items :: "resolved_pos_item list"
  sl_subtotal_cents :: int
  sl_customer_id :: "uuid option"
  sl_redemption :: "(loyalty_reward \<times> checkout_redemption) option"
  sl_total_cents :: int
  sl_tax_cents :: int
  sl_intents :: "payment_link_intent list"
  sl_change_due_cents :: "int option"

definition loyalty_discount :: "(loyalty_reward \<times> checkout_redemption) option \<Rightarrow> int" where
  "loyalty_discount r = (case r of None \<Rightarrow> 0 | Some (reward, redemption) \<Rightarrow> cr_discount_cents redemption)"

text \<open>The order row: who, when, where and how it was paid, then the money.\<close>

definition sale_order :: "sale \<Rightarrow> auth_user \<Rightarrow> pos_order_create \<Rightarrow> instant \<Rightarrow> int \<Rightarrow> order" where
  "sale_order s user body now sequence =
     (let status = initial_status (sl_items s); split = pc_payments body \<noteq> None
      in (new_order (sl_order_id s) (au_business_id user) (format_order_number sequence))
       \<lparr>or_customer_id := sl_customer_id s, or_status := status, or_payment_status := PS_PAID,
        or_payment_required := False, or_payment_method := order_payment_method body,
        or_payment_reference := (if split then None else pc_payment_reference body), or_paid_at := Some now,
        or_cash_tendered_cents := (if split then None else pc_cash_tendered_cents body),
        or_change_due_cents := (if split then None else sl_change_due_cents s),
        or_till_session_id := Some (ts_id (sl_till s)), or_idempotency_key := pc_idempotency_key body,
        or_created_by_user_id := Some (au_user_id user), or_order_mode := pc_order_mode body,
        or_table_number := (if pc_order_mode body = DINE_IN then pc_table_number body else None), or_source := POS,
        or_subtotal_cents := sl_subtotal_cents s,
        or_delivery_fee_cents := (if pc_order_mode body = DELIVERY then bu_delivery_fee_cents (sl_business s) else 0),
        or_discount_cents := pc_discount_cents body, or_tax_cents := sl_tax_cents s,
        or_discount_reason := pc_discount_reason body,
        or_discount_approved_by_user_id := (if pc_discount_cents body > 0 then Some (au_user_id user) else None),
        or_loyalty_discount_cents := loyalty_discount (sl_redemption s),
        or_loyalty_reward_id := map_option (\<lambda>(r, _). lr_id r) (sl_redemption s),
        or_loyalty_points_redeemed := (case sl_redemption s of None \<Rightarrow> 0 | Some (_, c) \<Rightarrow> cr_points_cost c),
        or_loyalty_reward_name := map_option (\<lambda>(_, c). cr_reward_name c) (sl_redemption s),
        or_total_cents := sl_total_cents s, or_currency := bu_currency (sl_business s),
        or_customer_name := pc_customer_name body, or_phone_number := pc_customer_phone body,
        or_confirmed_at := Some now,
        or_accepted_at := (if status = ACCEPTED then Some now else None),
        or_completed_at := (if status = COMPLETED then Some now else None)\<rparr>)"

definition sale_allocation :: "sale \<Rightarrow> auth_user \<Rightarrow> instant \<Rightarrow> payment_method \<Rightarrow> int \<Rightarrow> payment_allocation" where
  "sale_allocation s user now m amount_cents =
     \<lparr>pa_business_id = au_business_id user, pa_order_id = sl_order_id s, pa_till_session_id = Some (ts_id (sl_till s)),
      pa_payment_method = m, pa_amount_cents = amount_cents, pa_cash_tendered_cents = None, pa_change_due_cents = None,
      pa_payment_reference = None, pa_provider = None, pa_payment_link_intent_id = None, pa_paid_at = None,
      pa_created_by_user_id = Some (au_user_id user), pa_created_at = now, pa_provider_refund_status = None,
      pa_provider_refund_confirmed_at = None, pa_provider_refund_confirmed_by_user_id = None\<rparr>"

definition split_allocation :: "sale \<Rightarrow> auth_user \<Rightarrow> instant \<Rightarrow> pos_payment \<Rightarrow> payment_allocation" where
  "split_allocation s user now p =
     (let a = sale_allocation s user now (pp_payment_method p) (pp_amount_cents p)
      in case pp_payment_method p of
        M_CASH \<Rightarrow> a\<lparr>pa_cash_tendered_cents := pp_cash_tendered_cents p,
                  pa_change_due_cents := map_option (\<lambda>t. t - pp_amount_cents p) (pp_cash_tendered_cents p)\<rparr>
      | M_PAY_BY_LINK \<Rightarrow>
          (case find (\<lambda>i. Some (in_id i) = pp_payment_intent_id p) (sl_intents s) of None \<Rightarrow> a
           | Some i \<Rightarrow> a\<lparr>pa_provider := Some (in_provider i), pa_payment_link_intent_id := Some (in_id i),
                       pa_payment_reference := in_provider_reference i, pa_paid_at := in_paid_at i\<rparr>)
      | _ \<Rightarrow> a\<lparr>pa_payment_reference := pp_payment_reference p\<rparr>)"

definition sale_allocations :: "sale \<Rightarrow> auth_user \<Rightarrow> pos_order_create \<Rightarrow> instant \<Rightarrow> payment_allocation list" where
  "sale_allocations s user body now =
     (case pc_payments body of
        Some ps \<Rightarrow> map (split_allocation s user now) ps
      | None \<Rightarrow>
          if sl_total_cents s > 0
          then (let m = (case pc_payment_method body of None \<Rightarrow> M_OTHER | Some m \<Rightarrow> m)
                in [(sale_allocation s user now m (sl_total_cents s))
                     \<lparr>pa_cash_tendered_cents := (if m = M_CASH then pc_cash_tendered_cents body else None),
                      pa_change_due_cents := (if m = M_CASH then sl_change_due_cents s else None),
                      pa_payment_reference := pc_payment_reference body\<rparr>])
          else [])"

definition sale_event :: "auth_user \<Rightarrow> order \<Rightarrow> order_event" where
  "sale_event user o1 = \<lparr>oe_order_id = or_id o1, oe_business_id = au_business_id user, oe_old_status = None,
     oe_new_status = or_status o1, oe_changed_by_user_id = Some (au_user_id user)\<rparr>"

text \<open>The stock the sale takes, and the note about dishes without a recipe.\<close>

definition take_stock :: "shop_db \<Rightarrow> sale \<Rightarrow> auth_user \<Rightarrow> instant \<Rightarrow> shop_db result" where
  "take_stock db s user now =
     (if \<not> bu_inventory_enabled (sl_business s) then Inr db
      else and_then (post_sale_consumption (sh_stock db) (au_business_id user) (sl_order_id s) (build_line_specs (sl_items s))
                       (Some (au_user_id user)) (Some now) SALE_CONSUMPTION now) (\<lambda>(stock, consumption).
        let db = db\<lparr>sh_stock := stock\<rparr>
        in Inr (if cr_menu_items_without_recipe consumption = [] then db
                else add_audit (au_business_id user) (Some (au_user_id user)) ''inventory.sale.missing_recipe'' (sl_order_id s) db)))"

definition sale_audit :: "sale \<Rightarrow> auth_user \<Rightarrow> pos_order_create \<Rightarrow> shop_db \<Rightarrow> shop_db" where
  "sale_audit s user body db =
     (let note = (\<lambda>action. add_audit (au_business_id user) (Some (au_user_id user)) action (sl_order_id s));
          db = (if pc_discount_cents body > 0 then note ''order.pos.discount_applied'' db else db)
      in if sl_redemption s \<noteq> None then note ''order.pos.loyalty_redeemed'' db else db)"

text \<open>Everything between the order number and the commit.\<close>

definition stage_sale :: "shop_db \<Rightarrow> sale \<Rightarrow> auth_user \<Rightarrow> pos_order_create \<Rightarrow> order \<Rightarrow> instant \<Rightarrow> shop_db result" where
  "stage_sale db s user body o1 now =
     (let db = add_order o1 (consume_intents (sl_intents s) (sl_order_id s) now db);
          db = db\<lparr>sh_items := sh_items db @ map (\<lambda>r. catalog_order_item (sl_order_id s) (au_business_id user)
                                                   (rp_special_instructions r) r) (sl_items s)\<rparr>;
          db = add_event (sale_event user o1) db;
          db = db\<lparr>sh_allocations := sh_allocations db @ sale_allocations s user body now\<rparr>
      in take_stock (sale_audit s user body db) s user now)"

subsection \<open>The checkout\<close>

definition order_by_key :: "shop_db \<Rightarrow> uuid \<Rightarrow> string option \<Rightarrow> order option result" where
  "order_by_key db business key =
     (if \<not> truthy key then Inr None
      else scalar_one_or_none (filter (\<lambda>r. or_business_id r = business \<and> or_idempotency_key r = key) (sh_orders db)))"

text \<open>The pricing phases: a replay, or the sale with the loyalty tables it leaves.\<close>

definition price_sale ::
  "shop_db \<Rightarrow> auth_user \<Rightarrow> pos_order_create \<Rightarrow> till_session \<Rightarrow> business \<Rightarrow> uuid \<Rightarrow> uuid \<Rightarrow>
   (order + (loyalty_db \<times> sale)) result" where
  "price_sale db user body till b new_order_id new_customer_id =
     (let business = au_business_id user
      in and_then (resolve_pos_items (sh_catalog db) business (pc_items body)) (\<lambda>items.
         let subtotal_cents = sum_list (map (\<lambda>r. line_total_cents (rp_breakdown r)) items)
         in and_then (check_discount b user body subtotal_cents) (\<lambda>_.
         and_then (checkout_member (sh_loyalty db) business body new_customer_id) (\<lambda>(ldb, member).
         and_then (checkout_reward ldb business body member new_order_id subtotal_cents) (\<lambda>(ldb, redemption).
         and_then (checkout_total b (net_total b body subtotal_cents (loyalty_discount redemption))) (\<lambda>(total_cents, tax_cents).
         and_then (check_payments db business body total_cents) (\<lambda>payments. case payments of
             Inl o1 \<Rightarrow> Inr (Inl o1)
           | Inr (intents, change_due_cents) \<Rightarrow>
               Inr (Inr (ldb, \<lparr>sl_order_id = new_order_id, sl_till = till, sl_business = b, sl_items = items,
                 sl_subtotal_cents = subtotal_cents, sl_customer_id = map_option (\<lambda>(_, c). cu_id c) member,
                 sl_redemption = redemption, sl_total_cents = total_cents, sl_tax_cents = tax_cents,
                 sl_intents = intents, sl_change_due_cents = change_due_cents\<rparr>)))))))))"

text \<open>
  The \<open>try\<close> with its commit: a request that lost the race for its idempotency key replays
  the order that won; nothing it staged is kept.
\<close>

definition commit_or_replay :: "shop_db \<Rightarrow> uuid \<Rightarrow> string option \<Rightarrow> shop_db \<Rightarrow> order \<Rightarrow> (shop_db \<times> order \<times> bool) result" where
  "commit_or_replay db business key staged o1 =
     (case commit_shop staged of
        Inr db' \<Rightarrow> Inr (db', o1, True)
      | Inl e \<Rightarrow>
          if truthy key \<and> e = IntegrityError ''uq_orders_business_idempotency_key''
          then and_then (order_by_key db business key) (\<lambda>existing.
                 case existing of Some o2 \<Rightarrow> Inr (db, o2, False) | None \<Rightarrow> Inl e)
          else Inl e)"

text \<open>The order number, the rows, the commit and the points of a priced sale.\<close>

definition finish_sale ::
  "shop_db \<Rightarrow> auth_user \<Rightarrow> pos_order_create \<Rightarrow> instant \<Rightarrow> loyalty_db \<Rightarrow> sale \<Rightarrow> (shop_db \<times> order) result" where
  "finish_sale db user body now ldb s =
     (let business = au_business_id user
      in and_then (next_order_number (db\<lparr>sh_loyalty := ldb\<rparr>) business) (\<lambda>(db1, b1).
         let order = sale_order s user body now (bu_order_number_sequence b1)
         in and_then (stage_sale db1 s user body order now) (\<lambda>staged.
            and_then (commit_or_replay db business (pc_idempotency_key body) staged order) (\<lambda>(db2, o2, fresh).
              Inr (if fresh \<and> sl_customer_id s \<noteq> None
                   then db2\<lparr>sh_loyalty := award_loyalty_points_if_enabled (sh_loyalty db2) business o2 now\<rparr>
                   else db2, o2)))))"

text \<open>
  The handler.  The first lookup of the idempotency key reads \<open>seen\<close>: another checkout may
  commit before this one holds the row of the open till, from where it works on \<open>db\<close>.
\<close>

definition create_pos_order ::
  "shop_db \<Rightarrow> shop_db \<Rightarrow> auth_user \<Rightarrow> pos_order_create \<Rightarrow> uuid \<Rightarrow> uuid \<Rightarrow> instant \<Rightarrow> (shop_db \<times> order) result" where
  "create_pos_order seen db user body new_order_id new_customer_id now =
     (let business = au_business_id user; key = pc_idempotency_key body
      in and_then (require_pos_enabled seen business) (\<lambda>_.
         and_then (order_by_key seen business key) (\<lambda>existing. case existing of Some o1 \<Rightarrow> Inr (db, o1) | None \<Rightarrow>
         and_then (get_open_till db business) (\<lambda>till.
         and_then (business_of db business) (\<lambda>b.
         and_then (check_request b body) (\<lambda>_.
         and_then (price_sale db user body till b new_order_id new_customer_id) (\<lambda>priced. case priced of
             Inl o1 \<Rightarrow> Inr (db, o1)
           | Inr (ldb, s) \<Rightarrow> finish_sale db user body now ldb s)))))))"

end
