(* ===== verification/PosPayments.thy ===== *)
theory PosPayments imports PosCheckout OrderLaws begin

text \<open>
  The payment links of the till (\<^verbatim>\<open>routes_pos.py\<close>: creating, reading, resending and
  cancelling an intent) and the confirmations of the payment providers
  (\<^verbatim>\<open>routes_payments.py\<close>: \<open>_mark_intent_paid\<close>, \<open>_mark_order_paid\<close>).  A confirmation never
  raises, so it is a total function of the database.  Sending messages is not modelled.
\<close>

subsection \<open>Intents\<close>

definition load_pos_payment_intent :: "shop_db \<Rightarrow> uuid \<Rightarrow> uuid \<Rightarrow> payment_link_intent result" where
  "load_pos_payment_intent db business intent_id =
     and_then (scalar_one_or_none (filter (\<lambda>i. in_id i = intent_id \<and> in_business_id i = business) (sh_intents db)))
       (\<lambda>row. or_raise row (not_found_error ''POSPaymentLinkIntent''))"

definition is_stale :: "instant \<Rightarrow> payment_link_intent \<Rightarrow> bool" where
  "is_stale now i = (in_status i = I_PENDING \<and> in_expires_at i \<le> now)"

text \<open>\<open>UPDATE pos_payment_link_intents SET ... WHERE id = ...\<close> of the attributes that changed.\<close>

definition change_intent :: "uuid \<Rightarrow> (payment_link_intent \<Rightarrow> payment_link_intent) \<Rightarrow> shop_db \<Rightarrow> shop_db" where
  "change_intent intent_id f db = db\<lparr>sh_intents := update_where (\<lambda>i. in_id i = intent_id) f (sh_intents db)\<rparr>"

definition expire_intent :: "payment_link_intent \<Rightarrow> payment_link_intent" where
  "expire_intent i = i\<lparr>in_status := I_EXPIRED\<rparr>"

definition current_till_id :: "shop_db \<Rightarrow> uuid \<Rightarrow> uuid option result" where
  "current_till_id db business = scalar_one_or_none (map ts_id (filter (is_open_till business) (sh_tills db)))"

definition new_intent ::
  "auth_user \<Rightarrow> business \<Rightarrow> uuid \<Rightarrow> string \<Rightarrow> int \<Rightarrow> string \<Rightarrow> uuid \<Rightarrow> instant \<Rightarrow> payment_link_intent" where
  "new_intent user b till_id provider amount_cents phone new_id now =
     \<lparr>in_id = new_id, in_business_id = au_business_id user, in_till_session_id = Some till_id,
      in_created_by_user_id = Some (au_user_id user), in_amount_cents = amount_cents,
      in_currency = (if bu_currency b = [] then ''ZAR'' else bu_currency b), in_provider = provider, in_status = I_PENDING,
      in_provider_reference = None, in_payment_link_url = None, in_customer_phone = normalize_sa_mobile (Some phone),
      in_order_id = None, in_created_at = now, in_expires_at = now + 15 * minute, in_paid_at = None,
      in_consumed_at = None, in_cancelled_at = None\<rparr>"

text \<open>
  The provider that makes the link is a parameter: provider, business, amount and the reference
  that comes back with its confirmation.
\<close>

definition create_pos_payment_intent ::
  "(string \<Rightarrow> business \<Rightarrow> int \<Rightarrow> string \<Rightarrow> string option) \<Rightarrow> shop_db \<Rightarrow> auth_user \<Rightarrow> int \<Rightarrow> string \<Rightarrow> uuid \<Rightarrow> instant \<Rightarrow>
   (shop_db \<times> payment_link_intent) result" where
  "create_pos_payment_intent create_payment_link db user amount_cents customer_phone new_id now =
     (let business = au_business_id user
      in and_then (require_pos_enabled db business) (\<lambda>_.
         and_then (business_of db business) (\<lambda>b.
         and_then (current_till_id db business) (\<lambda>till.
         and_then (or_raise till (AppError ''TILL_NOT_OPEN'' 409)) (\<lambda>till_id.
         and_then (or_raise (pos_link_provider b) (AppError ''PAY_BY_LINK_NOT_AVAILABLE'' 409)) (\<lambda>provider.
           let intent = new_intent user b till_id provider amount_cents customer_phone new_id now;
               link = create_payment_link provider b amount_cents (''pos_intent:'' @ uuid_str new_id);
               intent = (if truthy link then intent\<lparr>in_payment_link_url := link\<rparr> else intent\<lparr>in_status := I_FAILED\<rparr>)
           in and_then (commit_shop (db\<lparr>sh_intents := sh_intents db @ [intent]\<rparr>)) (\<lambda>db. Inr (db, intent))))))))"

text \<open>
  Reading an intent expires it lazily.  The row is read without a lock, from \<open>seen\<close>; the
  status is written to whatever the row has become in \<open>db\<close>.
\<close>

definition get_pos_payment_intent :: "shop_db \<Rightarrow> shop_db \<Rightarrow> auth_user \<Rightarrow> uuid \<Rightarrow> instant \<Rightarrow> shop_db result" where
  "get_pos_payment_intent seen db user intent_id now =
     and_then (require_pos_enabled seen (au_business_id user)) (\<lambda>_.
     and_then (load_pos_payment_intent seen (au_business_id user) intent_id) (\<lambda>i.
       if is_stale now i then commit_shop (change_intent intent_id expire_intent db) else Inr db))"

text \<open>The rate limit of the resend button is a parameter; sending changes no status.\<close>

definition resend_pos_payment_intent :: "bool \<Rightarrow> shop_db \<Rightarrow> auth_user \<Rightarrow> uuid \<Rightarrow> instant \<Rightarrow> shop_db result" where
  "resend_pos_payment_intent allowed db user intent_id now =
     and_then (require_pos_enabled db (au_business_id user)) (\<lambda>_.
     and_then (load_pos_payment_intent db (au_business_id user) intent_id) (\<lambda>i.
       if is_stale now i then commit_shop (change_intent intent_id expire_intent db)
       else and_then (raise_if (in_status i \<noteq> I_PENDING) (AppError ''PAYMENT_INTENT_NOT_PENDING'' 422)) (\<lambda>_.
            and_then (raise_if (\<not> truthy (in_payment_link_url i)) (AppError ''PAYMENT_LINK_UNAVAILABLE'' 422)) (\<lambda>_.
            and_then (raise_if (\<not> allowed) (AppError ''RESEND_TOO_SOON'' 429)) (\<lambda>_.
            and_then (business_of db (au_business_id user)) (\<lambda>_. Inr db))))))"

definition cancel_pos_payment_intent :: "shop_db \<Rightarrow> auth_user \<Rightarrow> uuid \<Rightarrow> instant \<Rightarrow> shop_db result" where
  "cancel_pos_payment_intent db user intent_id now =
     and_then (require_pos_enabled db (au_business_id user)) (\<lambda>_.
     and_then (load_pos_payment_intent db (au_business_id user) intent_id) (\<lambda>i.
       if is_stale now i then commit_shop (change_intent intent_id expire_intent db)
       else and_then (raise_if (in_status i \<noteq> I_PENDING) (AppError ''PAYMENT_INTENT_NOT_PENDING'' 422)) (\<lambda>_.
              commit_shop (change_intent intent_id (\<lambda>i. i\<lparr>in_status := I_CANCELLED, in_cancelled_at := Some now\<rparr>) db))))"

text \<open>Paid links that no sale used: money with nowhere to go, oldest first.\<close>

definition unconsumed_paid :: "shop_db \<Rightarrow> uuid \<Rightarrow> payment_link_intent list" where
  "unconsumed_paid db business =
     sort_key (\<lambda>i. dict_get 0 (in_paid_at i))
       (filter (\<lambda>i. in_business_id i = business \<and> in_status i = I_PAID \<and> in_order_id i = None) (sh_intents db))"

subsection \<open>Confirmations of the providers\<close>

definition currency_matches :: "string option \<Rightarrow> string \<Rightarrow> bool" where
  "currency_matches reported own = (case reported of None \<Rightarrow> True
     | Some c \<Rightarrow> upper c = upper (if own = [] then ''ZAR'' else own))"

text \<open>A handler that returns early, or whose commit is refused, leaves the database.\<close>

definition or_keep :: "shop_db \<Rightarrow> shop_db result \<Rightarrow> shop_db" where
  "or_keep db r = (case r of Inl _ \<Rightarrow> db | Inr db' \<Rightarrow> db')"

lemma or_keep_commit: "or_keep db (commit_shop db1) = (if shop_ok db1 then db1 else db)"
proof (cases "shop_ok db1")
  case True
  then show ?thesis by (simp add: commit_shop_ok or_keep_def)
next
  case False
  with commit_shop_eq [of db1] have "\<exists>e. commit_shop db1 = Inl e" by (cases "commit_shop db1") auto
  with False show ?thesis by (auto simp: or_keep_def)
qed

definition mark_intent_paid ::
  "shop_db \<Rightarrow> string \<Rightarrow> uuid \<Rightarrow> string option \<Rightarrow> int option \<Rightarrow> string option \<Rightarrow> instant \<Rightarrow> shop_db" where
  "mark_intent_paid db intent_ref business provider_reference amount_cents currency now =
     (case uuid_of_str intent_ref of None \<Rightarrow> db
      | Some intent_id \<Rightarrow>
        (case load_pos_payment_intent db business intent_id of Inl _ \<Rightarrow> db
         | Inr i \<Rightarrow>
           if in_status i \<noteq> I_PENDING then db
           else if in_expires_at i \<le> now then or_keep db (commit_shop (change_intent intent_id expire_intent db))
           else if amount_cents \<noteq> Some (in_amount_cents i) \<or> \<not> currency_matches currency (in_currency i) then db
           else or_keep db (commit_shop (change_intent intent_id
             (\<lambda>i. i\<lparr>in_status := I_PAID, in_provider_reference := provider_reference, in_paid_at := Some now\<rparr>) db))))"

text \<open>For an order every part of the report is optional; an empty currency is not compared.\<close>

definition amount_currency_ok :: "order \<Rightarrow> int option \<Rightarrow> string option \<Rightarrow> bool" where
  "amount_currency_ok o1 amount_cents currency =
     ((case amount_cents of None \<Rightarrow> True | Some a \<Rightarrow> a = or_total_cents o1) \<and>
      (truthy currency \<longrightarrow> currency_matches currency (or_currency o1)))"

definition mark_order_paid ::
  "shop_db \<Rightarrow> string \<Rightarrow> uuid \<Rightarrow> string option \<Rightarrow> int option \<Rightarrow> string option \<Rightarrow> instant \<Rightarrow> shop_db" where
  "mark_order_paid db order_id_str business provider_reference amount_cents currency now =
     (case uuid_of_str order_id_str of None \<Rightarrow> db
      | Some oid \<Rightarrow>
        (case order_of db business oid of Inl _ \<Rightarrow> db
         | Inr o1 \<Rightarrow>
           if or_payment_status o1 = PS_PAID \<or> \<not> amount_currency_ok o1 amount_cents currency then db
           else let o2 = o1\<lparr>or_payment_status := PS_PAID, or_paid_at := Some now,
                     or_payment_reference := (if truthy provider_reference \<and> \<not> truthy (or_payment_reference o1)
                                              then provider_reference else or_payment_reference o1)\<rparr>;
                    event = \<lparr>oe_order_id = or_id o1, oe_business_id = or_business_id o1, oe_old_status = Some (or_status o1),
                       oe_new_status = or_status o1, oe_changed_by_user_id = None\<rparr>
                in (case commit_shop (add_event event (write_order o2 db)) of
                      Inl _ \<Rightarrow> db
                    | Inr db' \<Rightarrow> db'\<lparr>sh_loyalty := award_loyalty_points_if_enabled (sh_loyalty db') business o2 now\<rparr>)))"

end
