(* ===== verification/OrderMoney.thy ===== *)
theory OrderMoney imports OrderLaws begin

text \<open>
  The money of a dashboard order, its number, and what a status change may do: the rows are
  the submitted lines in their order, catalogue lines at the catalogue's prices, the
  total is their sum, the fee and the VAT; numbers are never given out twice; a
  cancellation moves the stock of the order exactly when nothing was prepared; an
  order that waits for an online payment is not prepared.
\<close>

subsection \<open>Totals\<close>

lemma total_with_vat_exact:
  assumes "bu_vat_registered b \<longrightarrow> net * bu_vat_rate_basis_points b < 10 ^ 27" and "total_with_vat b net = Inr (tot, tax)"
  shows "tax = (if bu_vat_registered b then vat_amount net (bu_vat_rate_basis_points b) (bu_vat_inclusive_pricing b) else 0)"
    and "tot = (if bu_vat_registered b \<and> \<not> bu_vat_inclusive_pricing b then net + tax else net)"
proof -
  show "tax = (if bu_vat_registered b then vat_amount net (bu_vat_rate_basis_points b) (bu_vat_inclusive_pricing b) else 0)"
    using assms calculate_vat_exact [of net "bu_vat_rate_basis_points b" "bu_vat_inclusive_pricing b"]
    by (auto simp: total_with_vat_def apply_vat_to_total_def split: if_splits)
  show "tot = (if bu_vat_registered b \<and> \<not> bu_vat_inclusive_pricing b then net + tax else net)"
    using assms(2) by (auto simp: total_with_vat_def apply_vat_to_total_def and_then_eq_Inr split: if_splits)
qed

lemma resolved_line:
  assumes "resolve_pos_item cat b i = Inr r"
  shows "\<exists>m \<in> set (cat_menu_items cat). mi_id m = pi_menu_item_id i \<and> mi_business_id m = b \<and> mi_is_active m \<and>
      rp_menu_item_id r = mi_id m \<and> base_price_cents (rp_breakdown r) = mi_price_cents m"
    and "line_total_cents (rp_breakdown r) = unit_price_cents (rp_breakdown r) * quantity (rp_breakdown r)"
    and "0 \<le> unit_price_cents (rp_breakdown r)" and "quantity (rp_breakdown r) = pi_quantity i"
proof -
  obtain m opts addons where m: "m \<in> set (cat_menu_items cat)" "mi_id m = pi_menu_item_id i" "mi_business_id m = b"
      "mi_is_active m" "rp_menu_item_id r = mi_id m"
    and b: "rp_breakdown r = calculate_line_item (mi_price_cents m) (map TypedOption opts) (map TypedAddOn addons) (pi_quantity i)"
    using assms by (rule resolve_pos_item_sound)
  have "base_price_cents (rp_breakdown r) = mi_price_cents m" by (simp add: b calculate_line_item_def Let_def)
  with m show "\<exists>m \<in> set (cat_menu_items cat). mi_id m = pi_menu_item_id i \<and> mi_business_id m = b \<and> mi_is_active m \<and>
      rp_menu_item_id r = mi_id m \<and> base_price_cents (rp_breakdown r) = mi_price_cents m" by blast
  show "line_total_cents (rp_breakdown r) = unit_price_cents (rp_breakdown r) * quantity (rp_breakdown r)"
    "0 \<le> unit_price_cents (rp_breakdown r)" "quantity (rp_breakdown r) = pi_quantity i"
    by (simp_all add: b breakdown_line_total breakdown_unit_price breakdown_quantity calculate_unit_price_nonneg)
qed

text \<open>What a stored row owes to the submitted line.\<close>

definition row_of_line :: "catalog \<Rightarrow> uuid \<Rightarrow> uuid \<Rightarrow> order_item_create \<Rightarrow> order_item \<Rightarrow> bool" where
  "row_of_line cat business oid i r = (oi_order_id r = oid \<and> oi_business_id r = business \<and> oi_menu_item_id r = ic_menu_item_id i \<and>
     oi_quantity r = ic_qty i \<and> 0 \<le> oi_unit_price_cents r \<and> oi_line_total_cents r = oi_unit_price_cents r * oi_quantity r \<and>
     (case ic_menu_item_id i of
        None \<Rightarrow> oi_is_ad_hoc_price r \<and> ic_price_cents i = Some (oi_unit_price_cents r)
      | Some mid \<Rightarrow> \<not> oi_is_ad_hoc_price r \<and> (\<exists>m \<in> set (cat_menu_items cat). mi_id m = mid \<and> mi_business_id m = business \<and>
          mi_is_active m \<and> oi_base_price_cents r = mi_price_cents m)))"

lemma catalog_row_of_line:
  assumes "resolve_pos_item cat b (item_input i mid) = Inr r" and "ic_menu_item_id i = Some mid"
  shows "row_of_line cat b oid i (catalog_order_item oid b instr r)"
proof -
  obtain m where "m \<in> set (cat_menu_items cat)" "mi_id m = mid" "mi_business_id m = b" "mi_is_active m"
      "rp_menu_item_id r = mi_id m" "base_price_cents (rp_breakdown r) = mi_price_cents m"
    using resolved_line(1) [OF assms(1)] by (auto simp: item_input_def)
  moreover have "quantity (rp_breakdown r) = ic_qty i" using resolved_line(4) [OF assms(1)] by (simp add: item_input_def)
  ultimately show ?thesis using resolved_line(2,3) [OF assms(1)] assms(2)
    by (auto simp: row_of_line_def catalog_order_item_def)
qed

lemma ad_hoc_row_of_line:
  "valid_item_create i \<Longrightarrow> ic_menu_item_id i = None \<Longrightarrow> row_of_line cat b oid i (ad_hoc_item oid b notes i)"
  by (auto simp: valid_item_create_def row_of_line_def ad_hoc_item_def Let_def dict_get_def mult.commute)

lemma item_rows_shape:
  assumes "list_all valid_item_create is" and "list_all2 (\<lambda>e r. resolve_pos_item cat b e = Inr r) (catalog_entries is) rs"
  shows "list_all2 (row_of_line cat b oid) is (item_rows oid b notes is rs)"
  using assms
proof (induction "is" arbitrary: rs)
  case Nil
  then show ?case by simp
next
  case (Cons i "is")
  show ?case
  proof (cases "ic_menu_item_id i")
    case None
    with Cons show ?thesis by (auto simp: catalog_entries_def intro: ad_hoc_row_of_line)
  next
    case (Some mid)
    with Cons.prems(2) obtain r rs' where rs: "rs = r # rs'" "resolve_pos_item cat b (item_input i mid) = Inr r"
      "list_all2 (\<lambda>e r. resolve_pos_item cat b e = Inr r) (catalog_entries is) rs'"
      by (auto simp: catalog_entries_def list_all2_Cons1)
    with Some Cons show ?thesis by (auto intro: catalog_row_of_line)
  qed
qed

lemma row_of_line_nonneg: "row_of_line cat b oid i r \<Longrightarrow> valid_item_create i \<Longrightarrow> 0 \<le> oi_line_total_cents r"
  by (auto simp: row_of_line_def valid_item_create_def)

lemma rows_nonneg:
  "list_all2 (row_of_line cat b oid) is rows \<Longrightarrow> list_all valid_item_create is \<Longrightarrow> 0 \<le> sum_list (map oi_line_total_cents rows)"
proof (induction rule: list_all2_induct)
  case (Cons i "is" r rows)
  then have "0 \<le> oi_line_total_cents r" by (intro row_of_line_nonneg) auto
  with Cons show ?case by simp
qed simp

text \<open>
  The money of a dashboard order: its rows are the submitted lines in their order, a
  line with a menu item at the price of the calling business's active catalogue item,
  an ad hoc line flagged as such; the subtotal is the sum of the line totals; the fee
  is the business's for a delivery and nothing otherwise; the total is their sum with the
  exact VAT on top, or inside, or none; stock and loyalty are not touched.
\<close>

theorem manual_order_money:
  assumes c: "create_order db user body oid now = Inr (db', o1)" and v: "valid_order_create body"
    and small: "\<And>biz. biz \<in> set (sh_businesses db) \<Longrightarrow> (or_subtotal_cents o1 + or_delivery_fee_cents o1) * bu_vat_rate_basis_points biz < 10 ^ 27"
    and fees: "\<And>biz. biz \<in> set (sh_businesses db) \<Longrightarrow> 0 \<le> bu_delivery_fee_cents biz"
  shows "\<exists>rows. \<exists>biz \<in> set (sh_businesses db). bu_id biz = au_business_id user \<and> sh_items db' = sh_items db @ rows \<and>
     list_all2 (row_of_line (sh_catalog db) (au_business_id user) oid) (oc_items body) rows \<and>
     or_subtotal_cents o1 = sum_list (map oi_line_total_cents rows) \<and> 0 \<le> or_subtotal_cents o1 \<and>
     or_delivery_fee_cents o1 = (if oc_order_mode body = DELIVERY then bu_delivery_fee_cents biz else 0) \<and>
     or_tax_cents o1 = (if bu_vat_registered biz then vat_amount (or_subtotal_cents o1 + or_delivery_fee_cents o1)
         (bu_vat_rate_basis_points biz) (bu_vat_inclusive_pricing biz) else 0) \<and>
     or_total_cents o1 = or_subtotal_cents o1 + or_delivery_fee_cents o1 +
       (if bu_vat_registered biz \<and> \<not> bu_vat_inclusive_pricing biz then or_tax_cents o1 else 0) \<and>
     sh_stock db' = sh_stock db \<and> sh_loyalty db' = sh_loyalty db"
proof -
  let ?b = "au_business_id user"
  obtain rs db1 biz rows s f tot tax where rs: "(if catalog_entries (oc_items body) = [] then Inr []
      else resolve_pos_items (sh_catalog db) ?b (catalog_entries (oc_items body))) = Inr rs"
    and nx: "next_order_number db ?b = Inr (db1, biz)" and rows: "rows = item_rows oid ?b (oc_notes body) (oc_items body) rs"
    and s: "s = sum_list (map oi_line_total_cents rows)" and f: "f = order_delivery_fee biz (oc_order_mode body)"
    and vat: "total_with_vat biz (max 0 (s + f)) = Inr (tot, tax)" and o1: "o1 = manual_order biz user body oid now s f tot tax"
    and db': "db' = add_event (created_event user o1) (add_order o1 (db1\<lparr>sh_items := sh_items db1 @ rows\<rparr>))"
    using c by (rule create_order_shape)
  obtain biz0 where biz0: "biz0 \<in> set (sh_businesses db)" "bu_id biz0 = ?b"
      "biz = biz0\<lparr>bu_order_number_sequence := bu_order_number_sequence biz0 + 1\<rparr>"
    and db1: "db1 = db\<lparr>sh_businesses := update_where (\<lambda>b. bu_id b = ?b)
      (\<lambda>b. b\<lparr>bu_order_number_sequence := bu_order_number_sequence b + 1\<rparr>) (sh_businesses db)\<rparr>"
    using next_number_shape [OF nx] by blast
  have lines: "list_all2 (\<lambda>e r. resolve_pos_item (sh_catalog db) ?b e = Inr r) (catalog_entries (oc_items body)) rs"
    using rs by (auto simp: resolve_pos_items_def map_result_eq_Inr split: if_splits)
  have valid: "list_all valid_item_create (oc_items body)" using v by (simp add: valid_order_create_def)
  have l: "list_all2 (row_of_line (sh_catalog db) ?b oid) (oc_items body) rows"
    unfolding rows by (rule item_rows_shape [OF valid lines])
  have s0: "0 \<le> s" unfolding s by (rule rows_nonneg [OF l valid])
  have f0: "f = (if oc_order_mode body = DELIVERY then bu_delivery_fee_cents biz0 else 0)" "0 \<le> f"
    using fees [OF biz0(1)] by (simp_all add: f order_delivery_fee_def biz0(3))
  have net: "max 0 (s + f) = s + f" using s0 f0 by simp
  have m: "bu_vat_registered biz \<longrightarrow> (s + f) * bu_vat_rate_basis_points biz < 10 ^ 27"
    using small [OF biz0(1)] by (simp add: o1 biz0(3))
  note t = total_with_vat_exact [OF m vat [unfolded net]]
  have "sh_items db' = sh_items db @ rows" "sh_stock db' = sh_stock db" "sh_loyalty db' = sh_loyalty db"
    by (simp_all add: db' db1)
  with l s0 f0 t biz0 s show ?thesis by (intro exI [of _ rows] bexI [of _ biz0]) (simp_all add: o1)
qed

lemma manual_order_money_witness:
  "\<exists>rows. sh_items sample_shop_created = rows \<and> length rows = 1 \<and> or_subtotal_cents sample_order = 9000 \<and>
     sum_list (map oi_line_total_cents rows) = 9000 \<and> or_total_cents sample_order = 11500"
proof -
  have v: "valid_order_create sample_create"
    by (simp add: valid_order_create_def sample_create_def sample_line_create_def valid_item_create_def manual_order_sources_def
        truthy_def)
  have b: "sh_businesses sample_shop = [sample_business\<lparr>bu_vat_registered := False\<rparr>]" by (simp add: sample_shop_def)
  have o1: "or_subtotal_cents sample_order = 9000" "or_delivery_fee_cents sample_order = 2500" by (simp_all add: sample_order_def)
  obtain rows where "sh_items sample_shop_created = sh_items sample_shop @ rows"
    "list_all2 (row_of_line (sh_catalog sample_shop) (au_business_id sample_owner) 77) (oc_items sample_create) rows"
    "or_subtotal_cents sample_order = sum_list (map oi_line_total_cents rows)"
    using manual_order_money [OF sample_create_order v] by (auto simp: b o1 sample_business_def)
  then show ?thesis by (auto simp: sample_order_def sample_shop_def sample_create_def list_all2_Cons1)
qed

subsection \<open>What a status change does to the stock\<close>

text \<open>
  C36: Cancelling an order: it must be allowed by the transition table; when the business
  keeps stock and the order had not reached the kitchen, the movements of the order net to
  zero for every ingredient; otherwise the ledger is untouched, and food that was made
  leaves an audit event.  Any other status change leaves the ledger alone.
\<close>

theorem status_change_moves_stock_rightly:
  assumes c: "update_order_status db user oid st reason m now = Inr (db', o2)"
    and ok: "ledger_ok (sd_movements (sh_stock db))"
  shows "\<exists>o1. order_of db (au_business_id user) oid = Inr o1 \<and> may_follow (or_status o1) (or_status o2) \<and>
    ledger_ok (sd_movements (sh_stock db')) \<and>
    (if or_status o2 = CANCELLED \<and> (\<exists>b \<in> set (sh_businesses db). bu_id b = au_business_id user \<and> bu_inventory_enabled b)
     then if may_follow\<^sup>+\<^sup>+ (or_status o1) IN_PROGRESS
       then order_net (sd_movements (sh_stock db')) (au_business_id user) oid i = 0
       else sh_stock db' = sh_stock db \<and>
         ''inventory.sale.stock_kept_consumed'' \<in> ae_action ` set (sh_audit db')
     else sh_stock db' = sh_stock db)"
proof -
  let ?b = "au_business_id user"
  obtain o1 req db1 where o1: "order_of db ?b oid = Inr o1" and f: "may_follow (or_status o1) req" and o2: "or_status o2 = req"
    and d: "if req = CANCELLED then cancel_stock db user o1 now = Inr db1 else db1 = db"
    and db': "db' = add_event \<lparr>oe_order_id = oid, oe_business_id = ?b, oe_old_status = Some (or_status o1),
       oe_new_status = req, oe_changed_by_user_id = Some (au_user_id user)\<rparr> (write_order o2 db1)"
    using c by (rule status_change_shape)
  have st: "sh_stock db' = sh_stock db1" "sh_audit db' = sh_audit db1" by (simp_all add: db' add_event_def write_order_def)
  have id: "or_id o1 = oid" using order_of_in [OF o1] by simp
  show ?thesis
  proof (cases "req = CANCELLED")
    case False
    with d have "db1 = db" by simp
    with False o1 f o2 ok st show ?thesis by simp
  next
    case True
    with d obtain row stock actions where row: "scalar_one_or_none (map bu_inventory_enabled (filter (\<lambda>b. bu_id b = ?b) (sh_businesses db))) = Inr row"
      and r: "reverse_consumption_on_cancel (sh_stock db) ?b (dict_get False row) oid (or_status o1)
                     (Some (au_user_id user)) now = Inr (stock, actions)"
      and db1: "db1 = fold (\<lambda>a. add_audit ?b (Some (au_user_id user)) a oid) actions (db\<lparr>sh_stock := stock\<rparr>)"
      by (auto simp: cancel_stock_def Let_def and_then_eq_Inr id)
    have en: "dict_get False row \<longleftrightarrow> (\<exists>b \<in> set (sh_businesses db). bu_id b = ?b \<and> bu_inventory_enabled b)"
    proof -
      have "map bu_inventory_enabled (filter (\<lambda>b. bu_id b = ?b) (sh_businesses db)) = (case row of None \<Rightarrow> [] | Some e \<Rightarrow> [e])"
        using row by (cases row) (simp_all add: scalar_one_or_none_None scalar_one_or_none_Some)
      then have "bu_inventory_enabled ` set (filter (\<lambda>b. bu_id b = ?b) (sh_businesses db)) = set (case row of None \<Rightarrow> [] | Some e \<Rightarrow> [e])"
        by (metis set_map)
      then show ?thesis by (cases row) (auto simp: dict_get_def)
    qed
    have s1: "sh_stock db1 = stock" by (simp add: db1)
    have aud: "actions = [a] \<Longrightarrow> a \<in> ae_action ` set (sh_audit db1)" for a by (simp add: db1 add_audit_def)
    show ?thesis
    proof (cases "dict_get False row \<and> or_status o1 \<in> pre_preparation_statuses")
      case t: True
      with r obtain k n where v: "reverse_sale_consumption (sh_stock db) ?b oid (Some (au_user_id user)) n now = Inr (stock, k)"
        by (auto simp: reverse_consumption_on_cancel_def and_then_eq_Inr)
      from o1 f o2 True t en st s1 reverse_ledger_ok(1) [OF v ok] order_net_zero [OF reverse_ledger_ok [OF v ok]]
      show ?thesis by (simp add: reaches_preparation)
    next
      case f2: False
      with r have "stock = sh_stock db" "dict_get False row \<Longrightarrow> actions = [''inventory.sale.stock_kept_consumed'']"
        by (auto simp: reverse_consumption_on_cancel_def split: if_splits)
      with f2 o1 f o2 True en st s1 aud ok show ?thesis by (auto simp: reaches_preparation)
    qed
  qed
qed

lemma status_change_moves_stock_rightly_witness:
  "\<exists>db' o2. update_order_status sample_shop_created sample_owner 77 ''CANCELLED'' None None 60 = Inr (db', o2) \<and>
     order_net (sd_movements (sh_stock db')) 10 77 5 = 0 \<and> or_status o2 = CANCELLED"
proof -
  have a: "order_status_of ''CANCELLED'' = Inr CANCELLED" by (simp add: order_status_of_eq_Inr)
  let ?o2 = "stamp_milestone CANCELLED None None (au_user_id sample_owner) 60 (sample_order\<lparr>or_status := CANCELLED\<rparr>)"
  have o1: "order_of sample_shop_created (au_business_id sample_owner) 77 = Inr sample_order" "or_status sample_order = NEW"
    by (simp_all add: order_of_def sample_shop_defs)
  have cs: "cancel_stock sample_shop_created sample_owner sample_order 60 = Inr sample_shop_created"
    by (simp add: cancel_stock_def Let_def o1 reverse_consumption_on_cancel_def reverse_sale_consumption_def
        pre_preparation_statuses_def dict_get_def sample_shop_created_def sample_shop_def sample_business_def sample_owner_def)
  have w: "shop_ok (write_order ?o2 sample_shop_created)"
    using sample_shop_ok by (rule shop_ok_write_order)
      (simp_all add: sample_shop_created_def order_key_def order_number_key_def stamp_milestone_def)
  obtain db' o2 where c: "update_order_status sample_shop_created sample_owner 77 ''CANCELLED'' None None 60 = Inr (db', o2)"
      "or_status o2 = CANCELLED"
    by (simp add: update_order_status_def a Let_def o1 cs commit_shop_ok w)
  have ok: "ledger_ok (sd_movements (sh_stock sample_shop_created))"
    by (simp add: ledger_ok_def stock_index_def sample_shop_created_def sample_shop_def)
  have p: "may_follow\<^sup>+\<^sup>+ NEW IN_PROGRESS" by (simp add: reaches_preparation pre_preparation_statuses_def)
  have b: "\<exists>b \<in> set (sh_businesses sample_shop_created). bu_id b = au_business_id sample_owner \<and> bu_inventory_enabled b"
    by (simp add: sample_shop_created_def sample_business_def sample_owner_def)
  from status_change_moves_stock_rightly [OF c(1) ok, of 5] c o1 p b show ?thesis by (auto simp: sample_owner_def)
qed

subsection \<open>Evidence on the status handler\<close>

text \<open>A collected or delivered order gets its completion instant, a completed one does not.\<close>

lemma completed_has_no_instant:
  "or_completed_at (stamp_milestone COMPLETED m r u now o1) = or_completed_at o1"
  "or_completed_at (stamp_milestone COLLECTED m r u now o1) = Some now"
  by (simp_all add: stamp_milestone_def)

text \<open>Accepting an order that was paid online already sets its payment back to pending.\<close>

lemma acceptance_forgets_payment:
  assumes "update_order_status db user oid ''ACCEPTED'' r m now = Inr (db', o2)" "order_of db (au_business_id user) oid = Inr o1"
    "or_payment_required o1"
  shows "or_payment_status o2 = PS_PENDING"
proof -
  have a: "order_status_of ''ACCEPTED'' = Inr ACCEPTED" by (simp add: order_status_of_eq_Inr)
  from assms show ?thesis by (auto simp: update_order_status_def a Let_def and_then_eq_Inr)
qed

text \<open>Recording a payment turns a refunded order back into a paid one whoever asks.\<close>

lemma refunded_order_reopened:
  assumes "order_of db (au_business_id user) oid = Inr o1" "or_payment_status o1 = PS_REFUNDED"
    and "update_payment_status db user oid PS_PAID pm ref now = Inr (db', o2)"
  shows "or_payment_status o2 = PS_PAID \<and> or_refund_amount_cents o2 = or_refund_amount_cents o1"
proof -
  obtain o0 where "order_of db (au_business_id user) oid = Inr o0" "o2 = record_payment PS_PAID pm ref now o0"
    using assms(3) by (rule payment_shape)
  with assms(1) show ?thesis by (simp add: record_payment_def)
qed

text \<open>A partial refund through the provider is recorded as a full one.\<close>

lemma partial_provider_refund_recorded_as_full:
  assumes "refund_order_payment (\<lambda>_ _ _ _. \<lparr>rr_success = True, rr_status = ''COMPLETED'', rr_provider_reference = None\<rparr>)
      db user oid \<lparr>rq_amount_cents = Some 1, rq_confirm_manual = False, rq_reference = None\<rparr> now = Inr (db', o2)"
  shows "or_payment_status o2 = PS_REFUNDED \<and> or_refund_amount_cents o2 = Some 1"
  using assms by (auto simp: refund_order_payment_def Let_def and_then_eq_Inr refund_amount_def)

end
