(* ===== verification/PosLaws.thy ===== *)
theory PosLaws imports PosCheckout OrderMoney begin

text \<open>
  What a checkout promises: the allocations of a sale are its total, which is the priced
  lines less the discounts with the fee and the VAT; a payment link pays for one sale
  only; a retried checkout is the same sale; the stock taken is what the sold
  dishes consume.
\<close>

subsection \<open>The phases of a successful checkout\<close>

lemma case_sum_eq_Inr:
  "(case x of Inl a \<Rightarrow> f a | Inr b \<Rightarrow> g b) = Inr y \<longleftrightarrow>
     (\<exists>a. x = Inl a \<and> f a = Inr y) \<or> (\<exists>b. x = Inr b \<and> g b = Inr y)"
  by (cases x) auto

lemma checkout_total_eq: "checkout_total = total_with_vat"
  by (intro ext) (simp add: checkout_total_def total_with_vat_def)

lemma check_intent_fresh:
  assumes "check_intent db b key p = Inr (Inr i)"
  shows "i \<in> set (sh_intents db) \<and> Some (in_id i) = pp_payment_intent_id p \<and> in_business_id i = b \<and>
    in_status i = I_PAID \<and> in_amount_cents i = pp_amount_cents p"
proof -
  from assms have s: "scalar_one_or_none (filter (\<lambda>i. Some (in_id i) = pp_payment_intent_id p \<and> in_business_id i = b)
      (sh_intents db)) = Inr (Some i)" and r: "in_status i = I_PAID" "in_amount_cents i = pp_amount_cents p"
    by (auto simp: check_intent_def and_then_eq_Inr or_raise_eq_Inr split: if_splits option.splits)
  from scalar_one_or_none_filter [OF s] r show ?thesis by simp
qed

lemma check_intent_replay:
  assumes "check_intent db b key p = Inr (Inl o1)"
  obtains i where "i \<in> set (sh_intents db)" "in_business_id i = b" "in_status i = I_CONSUMED" "in_order_id i = Some (or_id o1)"
    "o1 \<in> set (sh_orders db)" "or_idempotency_key o1 = key" "truthy key"
proof -
  from assms obtain i where s: "scalar_one_or_none (filter (\<lambda>i. Some (in_id i) = pp_payment_intent_id p \<and> in_business_id i = b)
      (sh_intents db)) = Inr (Some i)" and c: "in_status i = I_CONSUMED"
    and t: "(if truthy key \<and> in_order_id i \<noteq> None then scalar_one_or_none (filter (\<lambda>r. Some (or_id r) = in_order_id i) (sh_orders db))
      else Inr None) = Inr (Some o1)" and k: "or_idempotency_key o1 = key"
    by (auto simp: check_intent_def and_then_eq_Inr or_raise_eq_Inr split: if_splits option.splits)
  from t have k2: "truthy key" and o1: "scalar_one_or_none (filter (\<lambda>r. Some (or_id r) = in_order_id i) (sh_orders db)) = Inr (Some o1)"
    by (simp_all split: if_splits)
  from scalar_one_or_none_filter [OF s] scalar_one_or_none_filter [OF o1] c k k2 show thesis by (intro that [of i]) simp_all
qed

definition link_payment :: "pos_payment \<Rightarrow> bool" where
  "link_payment p = (pp_payment_method p = M_PAY_BY_LINK)"

lemma collect_intents_fresh:
  "collect_intents db b key ps = Inr (Inr is) \<Longrightarrow>
   list_all2 (\<lambda>p i. i \<in> set (sh_intents db) \<and> Some (in_id i) = pp_payment_intent_id p \<and> in_business_id i = b \<and>
     in_status i = I_PAID \<and> in_amount_cents i = pp_amount_cents p) (filter link_payment ps) is"
proof (induction ps arbitrary: "is")
  case (Cons p ps)
  show ?case
  proof (cases "link_payment p")
    case False
    with Cons show ?thesis by (simp add: link_payment_def)
  next
    case True
    with Cons.prems obtain i is' where i: "check_intent db b key p = Inr (Inr i)" and r: "collect_intents db b key ps = Inr (Inr is')"
      and e: "is = i # is'"
      by (auto simp: link_payment_def and_then_eq_Inr case_sum_eq_Inr)
    from check_intent_fresh [OF i] Cons.IH [OF r] True e show ?thesis by simp
  qed
qed simp

lemma collect_intents_replay:
  assumes "collect_intents db b key ps = Inr (Inl o1)"
  obtains i where "i \<in> set (sh_intents db)" "in_business_id i = b" "in_status i = I_CONSUMED" "in_order_id i = Some (or_id o1)"
    "o1 \<in> set (sh_orders db)" "or_idempotency_key o1 = key" "truthy key"
proof -
  have "\<exists>p. check_intent db b key p = Inr (Inl o1)" using assms
    by (induction ps) (auto simp: and_then_eq_Inr case_sum_eq_Inr split: if_splits)
  then show thesis using check_intent_replay that by blast
qed

lemma price_sale_shape:
  assumes "price_sale db user body till b oid cid = Inr (Inr (ldb, s))"
  obtains ldb1 member where
    "resolve_pos_items (sh_catalog db) (au_business_id user) (pc_items body) = Inr (sl_items s)"
    "sl_subtotal_cents s = sum_list (map (\<lambda>r. line_total_cents (rp_breakdown r)) (sl_items s))"
    "check_discount b user body (sl_subtotal_cents s) = Inr ()"
    "checkout_member (sh_loyalty db) (au_business_id user) body cid = Inr (ldb1, member)"
    "checkout_reward ldb1 (au_business_id user) body member oid (sl_subtotal_cents s) = Inr (ldb, sl_redemption s)"
    "checkout_total b (net_total b body (sl_subtotal_cents s) (loyalty_discount (sl_redemption s))) =
       Inr (sl_total_cents s, sl_tax_cents s)"
    "check_payments db (au_business_id user) body (sl_total_cents s) = Inr (Inr (sl_intents s, sl_change_due_cents s))"
    "sl_order_id s = oid" "sl_till s = till" "sl_business s = b" "sl_customer_id s = map_option (\<lambda>(_, c). cu_id c) member"
  using assms by (auto simp: price_sale_def Let_def and_then_eq_Inr case_sum_eq_Inr)

lemma price_sale_replay:
  assumes "price_sale db user body till b oid cid = Inr (Inl o1)"
  obtains ps where "collect_intents db (au_business_id user) (pc_idempotency_key body) ps = Inr (Inl o1)"
proof -
  from assms obtain t where c: "check_payments db (au_business_id user) body t = Inr (Inl o1)"
    by (auto simp: price_sale_def Let_def and_then_eq_Inr case_sum_eq_Inr)
  show thesis
  proof (cases "pc_payments body")
    case None
    with c show thesis by (auto simp: check_payments_def Let_def and_then_eq_Inr split: if_splits)
  next
    case (Some ps)
    with c have "collect_intents db (au_business_id user) (pc_idempotency_key body) ps = Inr (Inl o1)"
      by (auto simp: check_payments_def and_then_eq_Inr case_sum_eq_Inr)
    then show thesis by (rule that)
  qed
qed

text \<open>A checkout either replays a stored order and leaves the database, or commits a new sale.\<close>

definition fresh_sale ::
  "shop_db \<Rightarrow> auth_user \<Rightarrow> pos_order_create \<Rightarrow> uuid \<Rightarrow> uuid \<Rightarrow> instant \<Rightarrow> sale \<Rightarrow> shop_db \<Rightarrow> shop_db \<Rightarrow> order \<Rightarrow> bool" where
  "fresh_sale db user body oid cid now s staged db' o1 =
     (\<exists>till b ldb db1 b1. get_open_till db (au_business_id user) = Inr till \<and> business_of db (au_business_id user) = Inr b \<and>
        check_request b body = Inr () \<and> price_sale db user body till b oid cid = Inr (Inr (ldb, s)) \<and>
        next_order_number (db\<lparr>sh_loyalty := ldb\<rparr>) (au_business_id user) = Inr (db1, b1) \<and>
        o1 = sale_order s user body now (bu_order_number_sequence b1) \<and>
        stage_sale db1 s user body o1 now = Inr staged \<and> shop_ok staged \<and>
        db' = (if sl_customer_id s \<noteq> None
               then staged\<lparr>sh_loyalty := award_loyalty_points_if_enabled (sh_loyalty staged) (au_business_id user) o1 now\<rparr>
               else staged))"

definition replayed_from :: "shop_db \<Rightarrow> shop_db \<Rightarrow> auth_user \<Rightarrow> pos_order_create \<Rightarrow> order \<Rightarrow> bool" where
  "replayed_from seen db user body o1 =
     (order_by_key seen (au_business_id user) (pc_idempotency_key body) = Inr (Some o1) \<or>
      order_by_key db (au_business_id user) (pc_idempotency_key body) = Inr (Some o1) \<or>
      (\<exists>ps. collect_intents db (au_business_id user) (pc_idempotency_key body) ps = Inr (Inl o1)))"

lemma commit_or_replay_cases:
  assumes "commit_or_replay db b key staged o1 = Inr (db', o2, fresh)"
  shows "fresh \<and> db' = staged \<and> o2 = o1 \<and> shop_ok staged \<or> \<not> fresh \<and> db' = db \<and> order_by_key db b key = Inr (Some o2)"
  using assms by (auto simp: commit_or_replay_def and_then_eq_Inr commit_shop_eq split: sum.splits if_splits option.splits)

lemma finish_sale_cases:
  assumes "finish_sale db user body now ldb s = Inr (db', o2)"
  obtains (replayed) "db' = db" "order_by_key db (au_business_id user) (pc_idempotency_key body) = Inr (Some o2)"
    | (fresh) db1 b1 staged where "next_order_number (db\<lparr>sh_loyalty := ldb\<rparr>) (au_business_id user) = Inr (db1, b1)"
        "o2 = sale_order s user body now (bu_order_number_sequence b1)" "stage_sale db1 s user body o2 now = Inr staged"
        "shop_ok staged" "db' = (if sl_customer_id s \<noteq> None
               then staged\<lparr>sh_loyalty := award_loyalty_points_if_enabled (sh_loyalty staged) (au_business_id user) o2 now\<rparr>
               else staged)"
proof -
  let ?o = "\<lambda>b1. sale_order s user body now (bu_order_number_sequence b1)"
  from assms obtain db1 b1 staged db2 fr where n: "next_order_number (db\<lparr>sh_loyalty := ldb\<rparr>) (au_business_id user) = Inr (db1, b1)"
    and st: "stage_sale db1 s user body (?o b1) now = Inr staged"
    and cr: "commit_or_replay db (au_business_id user) (pc_idempotency_key body) staged (?o b1) = Inr (db2, o2, fr)"
    and d: "db' = (if fr \<and> sl_customer_id s \<noteq> None
             then db2\<lparr>sh_loyalty := award_loyalty_points_if_enabled (sh_loyalty db2) (au_business_id user) o2 now\<rparr> else db2)"
    by (auto simp: finish_sale_def Let_def and_then_eq_Inr)
  from commit_or_replay_cases [OF cr] show thesis
  proof (elim disjE conjE)
    assume "fr" "db2 = staged" "o2 = ?o b1" "shop_ok staged"
    with n st d show thesis by (intro fresh [of db1 b1 staged]) simp_all
  next
    assume "\<not> fr" "db2 = db" "order_by_key db (au_business_id user) (pc_idempotency_key body) = Inr (Some o2)"
    with d show thesis by (intro replayed) simp_all
  qed
qed

lemma create_pos_order_cases:
  assumes "create_pos_order seen db user body oid cid now = Inr (db', o1)"
  obtains (replayed) "db' = db" "replayed_from seen db user body o1"
    | (fresh) s staged where "fresh_sale db user body oid cid now s staged db' o1"
proof -
  let ?b = "au_business_id user"
  from assms obtain existing where e: "order_by_key seen ?b (pc_idempotency_key body) = Inr existing"
    by (auto simp: create_pos_order_def Let_def and_then_eq_Inr)
  show thesis
  proof (cases existing)
    case (Some x)
    with e assms show thesis
      by (intro replayed) (auto simp: replayed_from_def create_pos_order_def Let_def and_then_eq_Inr)
  next
    case None
    with e assms obtain till b priced where g: "get_open_till db ?b = Inr till" "business_of db ?b = Inr b"
        "check_request b body = Inr ()" and p: "price_sale db user body till b oid cid = Inr priced"
      and f: "(case priced of Inl o1 \<Rightarrow> Inr (db, o1) | Inr (ldb, s) \<Rightarrow> finish_sale db user body now ldb s) = Inr (db', o1)"
      by (auto simp: create_pos_order_def Let_def and_then_eq_Inr)
    show thesis
    proof (cases priced)
      case (Inl x)
      with f p price_sale_replay [of db user body till b oid cid x] show thesis
        by (intro replayed) (auto simp: replayed_from_def)
    next
      case (Inr r)
      obtain ldb s where r: "r = (ldb, s)" by (cases r)
      with Inr f have "finish_sale db user body now ldb s = Inr (db', o1)" by simp
      then show thesis
      proof (cases rule: finish_sale_cases)
        case replayed
        with that(1) show thesis by (simp add: replayed_from_def)
      next
        case (fresh db1 b1 staged)
        with g p Inr r have "fresh_sale db user body oid cid now s staged db' o1" unfolding fresh_sale_def by blast
        then show thesis by (rule that(2))
      qed
    qed
  qed
qed

subsection \<open>What a sale writes\<close>

lemma fold_note_simps [simp]:
  "sh_orders (sale_audit s user body db) = sh_orders db" "sh_events (sale_audit s user body db) = sh_events db"
  "sh_items (sale_audit s user body db) = sh_items db" "sh_stock (sale_audit s user body db) = sh_stock db"
  "sh_loyalty (sale_audit s user body db) = sh_loyalty db" "sh_tills (sale_audit s user body db) = sh_tills db"
  "sh_allocations (sale_audit s user body db) = sh_allocations db" "sh_intents (sale_audit s user body db) = sh_intents db"
  "sh_businesses (sale_audit s user body db) = sh_businesses db" "sh_catalog (sale_audit s user body db) = sh_catalog db"
  by (simp_all add: sale_audit_def Let_def add_audit_def)

lemma take_stock_shape:
  assumes "take_stock db s user now = Inr db'"
  shows "sh_orders db' = sh_orders db \<and> sh_events db' = sh_events db \<and> sh_items db' = sh_items db \<and>
    sh_loyalty db' = sh_loyalty db \<and> sh_tills db' = sh_tills db \<and> sh_allocations db' = sh_allocations db \<and>
    sh_intents db' = sh_intents db \<and> sh_businesses db' = sh_businesses db \<and> sh_catalog db' = sh_catalog db \<and>
    (if bu_inventory_enabled (sl_business s)
     then \<exists>res. post_sale_consumption (sh_stock db) (au_business_id user) (sl_order_id s) (build_line_specs (sl_items s))
        (Some (au_user_id user)) (Some now) SALE_CONSUMPTION now = Inr (sh_stock db', res)
     else sh_stock db' = sh_stock db)"
  using assms by (auto simp: take_stock_def Let_def and_then_eq_Inr add_audit_def split: if_splits)

definition sale_rows :: "sale \<Rightarrow> auth_user \<Rightarrow> order_item list" where
  "sale_rows s user = map (\<lambda>r. catalog_order_item (sl_order_id s) (au_business_id user) (rp_special_instructions r) r) (sl_items s)"

definition stage_writes :: "shop_db \<Rightarrow> sale \<Rightarrow> auth_user \<Rightarrow> pos_order_create \<Rightarrow> order \<Rightarrow> instant \<Rightarrow> shop_db \<Rightarrow> bool" where
  "stage_writes db s user body o1 now db' = (sh_orders db' = sh_orders db @ [o1] \<and>
     sh_items db' = sh_items db @ sale_rows s user \<and> sh_events db' = sh_events db @ [sale_event user o1] \<and>
     sh_allocations db' = sh_allocations db @ sale_allocations s user body now \<and>
     sh_intents db' = sh_intents (consume_intents (sl_intents s) (sl_order_id s) now db) \<and> sh_tills db' = sh_tills db \<and>
     sh_loyalty db' = sh_loyalty db \<and> sh_businesses db' = sh_businesses db \<and> sh_catalog db' = sh_catalog db \<and>
     (if bu_inventory_enabled (sl_business s)
      then \<exists>res. post_sale_consumption (sh_stock db) (au_business_id user) (sl_order_id s) (build_line_specs (sl_items s))
        (Some (au_user_id user)) (Some now) SALE_CONSUMPTION now = Inr (sh_stock db', res)
      else sh_stock db' = sh_stock db))"

lemma stage_sale_writes: "stage_sale db s user body o1 now = Inr db' \<Longrightarrow> stage_writes db s user body o1 now db'"
proof -
  assume "stage_sale db s user body o1 now = Inr db'"
  then obtain db1 where t: "take_stock (sale_audit s user body db1) s user now = Inr db'"
    and d: "db1 = (add_event (sale_event user o1) ((add_order o1 (consume_intents (sl_intents s) (sl_order_id s) now db))
       \<lparr>sh_items := sh_items db @ sale_rows s user\<rparr>))\<lparr>sh_allocations := sh_allocations db @ sale_allocations s user body now\<rparr>"
    by (auto simp: stage_sale_def Let_def sale_rows_def add_order_def add_event_def consume_intents_def)
  have st: "sh_stock (sale_audit s user body db1) = sh_stock db"
    by (simp add: d add_event_def add_order_def consume_intents_def)
  from take_stock_shape [OF t, unfolded st] show ?thesis
    by (simp add: d stage_writes_def add_event_def add_order_def consume_intents_def)
qed

lemma sale_order_simps [simp]:
  "or_id (sale_order s user body now n) = sl_order_id s" "or_business_id (sale_order s user body now n) = au_business_id user"
  "or_total_cents (sale_order s user body now n) = sl_total_cents s" "or_tax_cents (sale_order s user body now n) = sl_tax_cents s"
  "or_subtotal_cents (sale_order s user body now n) = sl_subtotal_cents s"
  "or_discount_cents (sale_order s user body now n) = pc_discount_cents body"
  "or_loyalty_discount_cents (sale_order s user body now n) = loyalty_discount (sl_redemption s)"
  "or_payment_status (sale_order s user body now n) = PS_PAID" "or_status (sale_order s user body now n) = initial_status (sl_items s)"
  "or_idempotency_key (sale_order s user body now n) = pc_idempotency_key body"
  "or_payment_method (sale_order s user body now n) = order_payment_method body"
  "or_source (sale_order s user body now n) = POS" "or_refund_cash_cents (sale_order s user body now n) = None"
  "or_refunded_at (sale_order s user body now n) = None" "or_till_session_id (sale_order s user body now n) = Some (ts_id (sl_till s))"
  "or_delivery_fee_cents (sale_order s user body now n) =
     (if pc_order_mode body = DELIVERY then bu_delivery_fee_cents (sl_business s) else 0)"
  "or_order_number (sale_order s user body now n) = format_order_number n"
  by (simp_all add: sale_order_def Let_def new_order_def)

lemma sale_allocation_simps [simp]:
  "pa_business_id (sale_allocation s user now m a) = au_business_id user" "pa_order_id (sale_allocation s user now m a) = sl_order_id s"
  "pa_till_session_id (sale_allocation s user now m a) = Some (ts_id (sl_till s))"
  "pa_payment_method (sale_allocation s user now m a) = m" "pa_amount_cents (sale_allocation s user now m a) = a"
  by (simp_all add: sale_allocation_def)

lemma split_allocation_simps [simp]:
  "pa_business_id (split_allocation s user now p) = au_business_id user" "pa_order_id (split_allocation s user now p) = sl_order_id s"
  "pa_till_session_id (split_allocation s user now p) = Some (ts_id (sl_till s))"
  "pa_payment_method (split_allocation s user now p) = pp_payment_method p"
  "pa_amount_cents (split_allocation s user now p) = pp_amount_cents p"
  by (simp_all add: split_allocation_def Let_def split: payment_method.split option.split)

lemma sale_allocations_of:
  "a \<in> set (sale_allocations s user body now) \<Longrightarrow>
   pa_order_id a = sl_order_id s \<and> pa_business_id a = au_business_id user \<and> pa_till_session_id a = Some (ts_id (sl_till s))"
  by (auto simp: sale_allocations_def Let_def split: option.splits if_splits)

lemma sale_allocations_total:
  assumes "check_payments db b body (sl_total_cents s) = Inr (Inr r)" and "0 \<le> sl_total_cents s"
  shows "sum_list (map pa_amount_cents (sale_allocations s user body now)) = sl_total_cents s"
proof (cases "pc_payments body")
  case None
  with assms(2) show ?thesis by (auto simp: sale_allocations_def Let_def)
next
  case (Some ps)
  with assms(1) have "sum_list (map pp_amount_cents ps) = sl_total_cents s"
    by (auto simp: check_payments_def and_then_eq_Inr)
  with Some show ?thesis by (simp add: sale_allocations_def comp_def)
qed

lemma fresh_sale_writes:
  assumes "fresh_sale db user body oid cid now s staged db' o1"
  obtains b0 db1 n where "business_of db (au_business_id user) = Inr (sl_business s)" "get_open_till db (au_business_id user) = Inr (sl_till s)"
    "price_sale db user body (sl_till s) (sl_business s) oid cid = Inr (Inr (sh_loyalty db1, s))"
    "check_request (sl_business s) body = Inr ()"
    "sh_orders db1 = sh_orders db" "sh_items db1 = sh_items db" "sh_events db1 = sh_events db" "sh_stock db1 = sh_stock db"
    "sh_allocations db1 = sh_allocations db" "sh_intents db1 = sh_intents db" "sh_tills db1 = sh_tills db" "sh_catalog db1 = sh_catalog db"
    "sh_businesses db1 = update_where (\<lambda>b. bu_id b = au_business_id user)
      (\<lambda>b. b\<lparr>bu_order_number_sequence := bu_order_number_sequence b + 1\<rparr>) (sh_businesses db)"
    "b0 \<in> set (sh_businesses db)" "bu_id b0 = au_business_id user" "n = bu_order_number_sequence b0 + 1"
    "o1 = sale_order s user body now n" "stage_writes db1 s user body o1 now staged" "shop_ok staged" "sl_order_id s = oid"
    "db' = (if sl_customer_id s \<noteq> None
       then staged\<lparr>sh_loyalty := award_loyalty_points_if_enabled (sh_loyalty staged) (au_business_id user) o1 now\<rparr> else staged)"
proof -
  from assms obtain till b ldb db1 b1 where t: "get_open_till db (au_business_id user) = Inr till"
    and b: "business_of db (au_business_id user) = Inr b" and c: "check_request b body = Inr ()"
    and p: "price_sale db user body till b oid cid = Inr (Inr (ldb, s))"
    and n: "next_order_number (db\<lparr>sh_loyalty := ldb\<rparr>) (au_business_id user) = Inr (db1, b1)"
    and o1: "o1 = sale_order s user body now (bu_order_number_sequence b1)"
    and st: "stage_sale db1 s user body o1 now = Inr staged" "shop_ok staged"
    and d: "db' = (if sl_customer_id s \<noteq> None
       then staged\<lparr>sh_loyalty := award_loyalty_points_if_enabled (sh_loyalty staged) (au_business_id user) o1 now\<rparr> else staged)"
    unfolding fresh_sale_def by blast
  have s: "sl_till s = till" "sl_business s = b" "sl_order_id s = oid" using p by (auto elim: price_sale_shape)
  from next_number_shape [OF n] obtain b0 where b0: "b0 \<in> set (sh_businesses db)" "bu_id b0 = au_business_id user"
      "b1 = b0\<lparr>bu_order_number_sequence := bu_order_number_sequence b0 + 1\<rparr>" by auto
  note nn = next_number_shape [OF n, THEN conjunct1]
  show thesis
    by (rule that [of db1 b0 "bu_order_number_sequence b1"])
      (use t b c p b0 o1 st d s stage_sale_writes [OF st(1)] in \<open>simp_all add: nn\<close>)
qed

subsection \<open>Money\<close>

lemma redemption_bounded:
  assumes "checkout_reward ldb b body member oid st = Inr (ldb', r)" and "0 \<le> st - pc_discount_cents body"
  shows "loyalty_discount r \<le> st - pc_discount_cents body"
proof (cases "pc_loyalty_reward_id body")
  case None
  with assms show ?thesis by (simp add: checkout_reward_def loyalty_discount_def)
next
  case (Some rid)
  with assms(1) obtain p c rw l cr where red: "redeem_reward_for_checkout l b c rw p oid (max 0 (st - pc_discount_cents body)) = Inr (ldb', cr)"
    and r: "r = Some (rw, cr)"
    by (auto simp: checkout_reward_def and_then_eq_Inr)
  from checkout_shape [OF red] have "cr_discount_cents cr \<le> max 0 (max 0 (st - pc_discount_cents body))" by auto
  with assms(2) r show ?thesis by (simp add: loyalty_discount_def)
qed

lemma order_by_key_in:
  "order_by_key db b key = Inr (Some o1) \<Longrightarrow>
   truthy key \<and> o1 \<in> set (sh_orders db) \<and> or_business_id o1 = b \<and> or_idempotency_key o1 = key"
proof -
  assume "order_by_key db b key = Inr (Some o1)"
  then have t: "truthy key" and f: "scalar_one_or_none (filter (\<lambda>r. or_business_id r = b \<and> or_idempotency_key r = key) (sh_orders db)) =
      Inr (Some o1)" by (auto simp: order_by_key_def split: if_splits)
  from scalar_one_or_none_filter [OF f] t show ?thesis by simp
qed

lemma replayed_in:
  "replayed_from seen db user body o1 \<Longrightarrow> o1 \<in> set (sh_orders seen) \<union> set (sh_orders db) \<and> or_idempotency_key o1 = pc_idempotency_key body"
  unfolding replayed_from_def by (auto dest: order_by_key_in elim: collect_intents_replay)

lemma new_sale:
  assumes "create_pos_order seen db user body oid cid now = Inr (db', o1)" and "or_id o1 = oid"
    and "oid \<notin> or_id ` (set (sh_orders seen) \<union> set (sh_orders db))"
  obtains s staged where "fresh_sale db user body oid cid now s staged db' o1"
  using assms(1)
proof (cases rule: create_pos_order_cases)
  case replayed
  with replayed_in [OF replayed(2)] assms(2,3) show thesis by blast
next
  case (fresh s staged)
  then show thesis by (rule that)
qed

lemma shop_ok_allocations: "shop_ok db \<Longrightarrow> a \<in> set (sh_allocations db) \<Longrightarrow> allocation_ok a"
  by (simp add: shop_ok_def list_all_iff)

lemma sale_discounts:
  assumes p: "price_sale db user body till b oid cid = Inr (Inr (ldb, s))"
  shows "pc_discount_cents body + loyalty_discount (sl_redemption s) \<le> sl_subtotal_cents s"
    and "pc_discount_cents body > 0 \<Longrightarrow> au_role user \<noteq> OWNER \<Longrightarrow> pc_discount_cents body \<le> dict_get 0 (bu_max_staff_discount_cents b)"
proof -
  obtain ldb1 member where d: "check_discount b user body (sl_subtotal_cents s) = Inr ()"
    and r: "checkout_reward ldb1 (au_business_id user) body member oid (sl_subtotal_cents s) = Inr (ldb, sl_redemption s)"
    using p by (rule price_sale_shape)
  from d have "pc_discount_cents body \<le> sl_subtotal_cents s" by (auto simp: check_discount_def and_then_eq_Inr)
  with redemption_bounded [OF r] show "pc_discount_cents body + loyalty_discount (sl_redemption s) \<le> sl_subtotal_cents s" by simp
  from d show "pc_discount_cents body > 0 \<Longrightarrow> au_role user \<noteq> OWNER \<Longrightarrow> pc_discount_cents body \<le> dict_get 0 (bu_max_staff_discount_cents b)"
    by (auto simp: check_discount_def and_then_eq_Inr)
qed

lemma sale_total:
  assumes p: "price_sale db user body till b oid cid = Inr (Inr (ldb, s))" and fee: "0 \<le> bu_delivery_fee_cents b"
    and net: "net = sl_subtotal_cents s - pc_discount_cents body - loyalty_discount (sl_redemption s) +
      (if pc_order_mode body = DELIVERY then bu_delivery_fee_cents b else 0)"
    and small: "bu_vat_registered b \<longrightarrow> net * bu_vat_rate_basis_points b < 10 ^ 27"
  shows "0 \<le> net" and "sl_tax_cents s = (if bu_vat_registered b then vat_amount net (bu_vat_rate_basis_points b) (bu_vat_inclusive_pricing b) else 0)"
    and "sl_total_cents s = (if bu_vat_registered b \<and> \<not> bu_vat_inclusive_pricing b then net + sl_tax_cents s else net)"
    and "0 \<le> sl_total_cents s"
proof -
  show n0: "0 \<le> net" using sale_discounts(1) [OF p] fee by (simp add: net)
  have "checkout_total b (net_total b body (sl_subtotal_cents s) (loyalty_discount (sl_redemption s))) = Inr (sl_total_cents s, sl_tax_cents s)"
    using p by (rule price_sale_shape)
  moreover have "net_total b body (sl_subtotal_cents s) (loyalty_discount (sl_redemption s)) = net" using n0 by (simp add: net_total_def net)
  ultimately have t: "total_with_vat b net = Inr (sl_total_cents s, sl_tax_cents s)" by (simp add: checkout_total_eq)
  show tax: "sl_tax_cents s = (if bu_vat_registered b then vat_amount net (bu_vat_rate_basis_points b) (bu_vat_inclusive_pricing b) else 0)"
    by (rule total_with_vat_exact [OF small t])
  show tot: "sl_total_cents s = (if bu_vat_registered b \<and> \<not> bu_vat_inclusive_pricing b then net + sl_tax_cents s else net)"
    by (rule total_with_vat_exact [OF small t])
  show "0 \<le> sl_total_cents s" using n0 vat_amount_bounds(1) by (simp add: tot tax)
qed

lemma sale_rows_of: "i \<in> set (sale_rows s user) \<Longrightarrow> oi_order_id i = sl_order_id s"
  by (auto simp: sale_rows_def catalog_order_item_def)

lemma sale_money:
  assumes c: "create_pos_order seen db user body oid cid now = Inr (db', o1)" and id: "or_id o1 = oid"
    and new: "oid \<notin> or_id ` (set (sh_orders seen) \<union> set (sh_orders db))"
    and fee: "\<And>biz. biz \<in> set (sh_businesses db) \<Longrightarrow> 0 \<le> bu_delivery_fee_cents biz"
    and net: "net = or_subtotal_cents o1 - or_discount_cents o1 - or_loyalty_discount_cents o1 + or_delivery_fee_cents o1"
    and small: "\<And>biz. biz \<in> set (sh_businesses db) \<Longrightarrow> net * bu_vat_rate_basis_points biz < 10 ^ 27"
  shows "\<exists>biz \<in> set (sh_businesses db). \<exists>allocs rows. bu_id biz = au_business_id user \<and>
     sh_allocations db' = sh_allocations db @ allocs \<and> (\<forall>a \<in> set allocs. pa_order_id a = oid \<and> 0 < pa_amount_cents a) \<and>
     sum_list (map pa_amount_cents allocs) = or_total_cents o1 \<and>
     sh_items db' = sh_items db @ rows \<and> (\<forall>i \<in> set rows. oi_order_id i = oid) \<and> or_subtotal_cents o1 = sum_list (map oi_line_total_cents rows) \<and>
     or_discount_cents o1 + or_loyalty_discount_cents o1 \<le> or_subtotal_cents o1 \<and> 0 \<le> net \<and>
     or_tax_cents o1 = (if bu_vat_registered biz then vat_amount net (bu_vat_rate_basis_points biz) (bu_vat_inclusive_pricing biz) else 0) \<and>
     or_total_cents o1 = (if bu_vat_registered biz \<and> \<not> bu_vat_inclusive_pricing biz then net + or_tax_cents o1 else net) \<and>
     (or_discount_cents o1 > 0 \<longrightarrow> au_role user \<noteq> OWNER \<longrightarrow> or_discount_cents o1 \<le> dict_get 0 (bu_max_staff_discount_cents biz)) \<and>
     or_payment_status o1 = PS_PAID"
proof -
  obtain s staged where f: "fresh_sale db user body oid cid now s staged db' o1" using c id new by (rule new_sale)
  obtain db1 n where b: "business_of db (au_business_id user) = Inr (sl_business s)"
    and p: "price_sale db user body (sl_till s) (sl_business s) oid cid = Inr (Inr (sh_loyalty db1, s))"
    and d1: "sh_items db1 = sh_items db" "sh_allocations db1 = sh_allocations db"
    and o1: "o1 = sale_order s user body now n" and w: "stage_writes db1 s user body o1 now staged" and ok: "shop_ok staged"
    and so: "sl_order_id s = oid"
    and d': "db' = (if sl_customer_id s \<noteq> None
       then staged\<lparr>sh_loyalty := award_loyalty_points_if_enabled (sh_loyalty staged) (au_business_id user) o1 now\<rparr> else staged)"
    using f by (rule fresh_sale_writes)
  note biz = business_of_in [OF b]
  have net2: "net = sl_subtotal_cents s - pc_discount_cents body - loyalty_discount (sl_redemption s) +
      (if pc_order_mode body = DELIVERY then bu_delivery_fee_cents (sl_business s) else 0)" by (simp add: net o1)
  note t = sale_total [OF p fee net2] 
  have sm: "bu_vat_registered (sl_business s) \<longrightarrow> net * bu_vat_rate_basis_points (sl_business s) < 10 ^ 27" using small biz by simp
  obtain ldb1 member where rs: "sl_subtotal_cents s = sum_list (map (\<lambda>r. line_total_cents (rp_breakdown r)) (sl_items s))"
    and cp: "check_payments db (au_business_id user) body (sl_total_cents s) = Inr (Inr (sl_intents s, sl_change_due_cents s))"
    using p by (rule price_sale_shape)
  have al: "sh_allocations staged = sh_allocations db @ sale_allocations s user body now" "sh_items staged = sh_items db @ sale_rows s user"
    using w d1 by (simp_all add: stage_writes_def)
  have pos: "0 < pa_amount_cents a" if "a \<in> set (sale_allocations s user body now)" for a
    using shop_ok_allocations [OF ok, of a] that al by (simp add: allocation_ok_def)
  have sum: "sum_list (map pa_amount_cents (sale_allocations s user body now)) = sl_total_cents s"
    using cp t(4) sm biz by (intro sale_allocations_total) auto
  have rows: "sl_subtotal_cents s = sum_list (map oi_line_total_cents (sale_rows s user))"
    by (simp add: rs sale_rows_def catalog_order_item_def comp_def)
  have st: "sh_allocations db' = sh_allocations staged" "sh_items db' = sh_items staged" by (simp_all add: d')
  show ?thesis
  proof (intro bexI [of _ "sl_business s"] exI [of _ "sale_allocations s user body now"] exI [of _ "sale_rows s user"] conjI ballI)
    show "sl_business s \<in> set (sh_businesses db)" "bu_id (sl_business s) = au_business_id user" using biz by simp_all
  qed (use al st pos sum rows sale_allocations_of sale_rows_of so sale_discounts [OF p] t sm biz in \<open>simp_all add: o1\<close>)
qed


subsection \<open>Replays\<close>

definition intents_own :: "shop_db \<Rightarrow> bool" where
  "intents_own db = (\<forall>i \<in> set (sh_intents db). \<forall>r \<in> set (sh_orders db).
     in_order_id i = Some (or_id r) \<longrightarrow> or_business_id r = in_business_id i)"

lemma shop_ok_key:
  "shop_ok db \<Longrightarrow> o1 \<in> set (sh_orders db) \<Longrightarrow> o2 \<in> set (sh_orders db) \<Longrightarrow> or_business_id o1 = or_business_id o2 \<Longrightarrow>
   or_idempotency_key o1 = Some k \<Longrightarrow> or_idempotency_key o2 = Some k \<Longrightarrow> o1 = o2"
  by (rule unique_index_eq [of order_key "sh_orders db" o1 o2 "(or_business_id o2, k)"]) (simp_all add: shop_ok_def order_key_def)


subsection \<open>A sample sale\<close>

definition sample_till :: till_session where
  "sample_till = \<lparr>ts_id = 60, ts_business_id = 10, ts_opened_by_user_id = 20, ts_closed_by_user_id = None,
     ts_approved_by_user_id = None, ts_opening_float_cents = 50000, ts_expected_cash_cents = None, ts_counted_cash_cents = None,
     ts_variance_cents = None, ts_status = TILL_OPEN, ts_opened_at = 5, ts_closed_at = None\<rparr>"

definition sample_pos_business :: business where
  "sample_pos_business = sample_business\<lparr>bu_vat_registered := False, bu_inventory_enabled := False\<rparr>"

definition sample_pos_shop :: shop_db where
  "sample_pos_shop = sample_shop\<lparr>sh_businesses := [sample_pos_business], sh_tills := [sample_till]\<rparr>"

definition sample_checkout :: pos_order_create where
  "sample_checkout = \<lparr>pc_items = [sample_pos_input [(''size'', ''l'')] [\<lparr>ps_add_on_id = 5, ps_quantity = 2\<rparr>]],
     pc_order_mode = PICKUP, pc_table_number = None, pc_customer_name = None, pc_customer_phone = None, pc_discount_cents = 400,
     pc_discount_reason = None, pc_loyalty_reward_id = None, pc_payment_method = Some M_CASH,
     pc_cash_tendered_cents = Some 30000, pc_payment_reference = None, pc_payments = None, pc_idempotency_key = Some ''k1''\<rparr>"

lemmas sample_pos_defs = sample_pos_shop_def sample_pos_business_def sample_till_def sample_shop_def sample_business_def
  sample_owner_def

lemma sample_checkout_simps [simp]:
  "pc_order_mode sample_checkout = PICKUP" "pc_table_number sample_checkout = None" "pc_customer_phone sample_checkout = None"
  "pc_discount_cents sample_checkout = 400" "pc_loyalty_reward_id sample_checkout = None"
  "pc_payment_method sample_checkout = Some M_CASH" "pc_cash_tendered_cents sample_checkout = Some 30000"
  "pc_payments sample_checkout = None" "pc_idempotency_key sample_checkout = Some ''k1''"
  by (simp_all add: sample_checkout_def)

lemma sample_resolved:
  obtains r where "resolve_pos_items sample_catalog 10 (pc_items sample_checkout) = Inr [r]"
    "line_total_cents (rp_breakdown r) = 29000"
  by (simp add: resolve_defs sample_catalog_defs sample_checkout_def)

definition sample_sale :: "resolved_pos_item \<Rightarrow> sale" where
  "sample_sale r = \<lparr>sl_order_id = 88, sl_till = sample_till, sl_business = sample_pos_business, sl_items = [r], sl_subtotal_cents = 29000,
     sl_customer_id = None, sl_redemption = None, sl_total_cents = 28600, sl_tax_cents = 0, sl_intents = [],
     sl_change_due_cents = Some 1400\<rparr>"

lemma sample_pos_business_simps [simp]:
  "bu_vat_registered sample_pos_business = False" "bu_inventory_enabled sample_pos_business = False"
  "bu_pos_enabled sample_pos_business = True" "bu_id sample_pos_business = 10" "bu_pos_cash_enabled sample_pos_business = True"
  "bu_pos_table_number_required sample_pos_business = False" "bu_order_number_sequence sample_pos_business = 0"
  "bu_delivery_fee_cents sample_pos_business = 2500"
  by (simp_all add: sample_pos_business_def sample_business_def)

lemma sample_owner_simps [simp]: "au_business_id sample_owner = 10" "au_role sample_owner = OWNER"
  by (simp_all add: sample_owner_def)

lemma sample_pos_shop_simps [simp]:
  "sh_catalog sample_pos_shop = sample_catalog" "sh_businesses sample_pos_shop = [sample_pos_business]"
  "sh_tills sample_pos_shop = [sample_till]" "sh_orders sample_pos_shop = []" "sh_allocations sample_pos_shop = []"
  "sh_intents sample_pos_shop = []" "sh_items sample_pos_shop = []" "sh_events sample_pos_shop = []"
  by (simp_all add: sample_pos_shop_def sample_shop_def)

lemma sample_priced:
  assumes "resolve_pos_items sample_catalog 10 (pc_items sample_checkout) = Inr [r]" "line_total_cents (rp_breakdown r) = 29000"
  shows "price_sale sample_pos_shop sample_owner sample_checkout sample_till sample_pos_business 88 89 =
    Inr (Inr (sh_loyalty sample_pos_shop, sample_sale r))"
  by (simp add: price_sale_def Let_def assms check_discount_def checkout_member_def checkout_reward_def checkout_total_def
      net_total_def loyalty_discount_def check_payments_def dict_get_def sample_sale_def truthy_def)

definition sample_sold :: "resolved_pos_item \<Rightarrow> shop_db" where
  "sample_sold r = (let s = sample_sale r; o1 = sale_order s sample_owner sample_checkout 1000 1 in
     sample_pos_shop\<lparr>sh_businesses := [sample_pos_business\<lparr>bu_order_number_sequence := 1\<rparr>], sh_orders := [o1],
       sh_items := sale_rows s sample_owner, sh_events := [sale_event sample_owner o1],
       sh_audit := [\<lparr>ae_business_id = 10, ae_actor_user_id = Some (au_user_id sample_owner),
          ae_action = ''order.pos.discount_applied'', ae_target_id = 88\<rparr>],
       sh_allocations := sale_allocations s sample_owner sample_checkout 1000\<rparr>)"

lemma sample_staged:
  "stage_sale (sample_pos_shop\<lparr>sh_businesses := [sample_pos_business\<lparr>bu_order_number_sequence := 1\<rparr>]\<rparr>) (sample_sale r)
     sample_owner sample_checkout (sale_order (sample_sale r) sample_owner sample_checkout 1000 1) 1000 = Inr (sample_sold r)"
  by (simp add: stage_sale_def take_stock_def sample_sale_def Let_def consume_intents_def update_where_def sale_audit_def
      add_order_def add_event_def add_audit_def sample_sold_def sale_rows_def)
    (simp add: sample_pos_shop_def sample_shop_def)

lemma sample_sold_ok: "shop_ok (sample_sold r)"
  by (simp add: shop_ok_def sample_sold_def Let_def unique_index_def stock_index_def sale_allocations_def sample_sale_def
      allocation_ok_def sale_allocation_def open_till_key_def order_key_def order_number_key_def)
    (simp add: sample_pos_shop_def sample_shop_def commit_loyalty_def unique_index_def sample_till_def)

lemma sample_pos_checkout:
  obtains r where "create_pos_order sample_pos_shop sample_pos_shop sample_owner sample_checkout 88 89 1000 =
      Inr (sample_sold r, sale_order (sample_sale r) sample_owner sample_checkout 1000 1)"
    "line_total_cents (rp_breakdown r) = 29000"
proof -
  obtain r where r: "resolve_pos_items sample_catalog 10 (pc_items sample_checkout) = Inr [r]"
    "line_total_cents (rp_breakdown r) = 29000" by (rule sample_resolved)
  have t: "get_open_till sample_pos_shop 10 = Inr sample_till"
    by (simp add: get_open_till_def is_open_till_def sample_till_def)
  have g: "check_request sample_pos_business sample_checkout = Inr ()"
    by (simp add: check_request_def payment_method_enabled_def)
  have n: "next_order_number (sample_pos_shop\<lparr>sh_loyalty := sh_loyalty sample_pos_shop\<rparr>) 10 =
      Inr (sample_pos_shop\<lparr>sh_businesses := [sample_pos_business\<lparr>bu_order_number_sequence := 1\<rparr>]\<rparr>,
           sample_pos_business\<lparr>bu_order_number_sequence := 1\<rparr>)"
    by (simp add: next_order_number_def Let_def update_where_def business_of_def)
  have "finish_sale sample_pos_shop sample_owner sample_checkout 1000 (sh_loyalty sample_pos_shop) (sample_sale r) =
      Inr (sample_sold r, sale_order (sample_sale r) sample_owner sample_checkout 1000 1)"
    using n by (simp add: finish_sale_def Let_def sample_staged commit_or_replay_def commit_shop_ok sample_sold_ok)
      (simp add: sample_sale_def)
  then have "create_pos_order sample_pos_shop sample_pos_shop sample_owner sample_checkout 88 89 1000 =
      Inr (sample_sold r, sale_order (sample_sale r) sample_owner sample_checkout 1000 1)"
    by (simp add: create_pos_order_def Let_def require_pos_enabled_def dict_get_def order_by_key_def t g business_of_def
        sample_priced [OF r])
  with r(2) show thesis by (rule that [rotated])
qed



end
