(* ===== verification/PosLinks.thy ===== *)
theory PosLinks imports PosPayments PosLaws begin

text \<open>
  The life of a payment link: pending, then paid, failed, expired or cancelled, and a
  paid one is used up by one sale.  The steps are the requests to the link endpoints, the
  confirmations of the providers and the checkouts.
\<close>

subsection \<open>The life cycle\<close>

inductive intent_next :: "intent_status \<Rightarrow> intent_status \<Rightarrow> bool" where
  "intent_next I_PENDING I_PAID"
| "intent_next I_PENDING I_FAILED"
| "intent_next I_PENDING I_EXPIRED"
| "intent_next I_PENDING I_CANCELLED"
| "intent_next I_PAID I_CONSUMED"

inductive_simps intent_next_from: "intent_next s t"

definition advances :: "payment_link_intent \<Rightarrow> payment_link_intent \<Rightarrow> bool" where
  "advances i i' = (in_id i' = in_id i \<and> in_amount_cents i' = in_amount_cents i \<and> in_business_id i' = in_business_id i \<and>
     (i' = i \<or> intent_next (in_status i) (in_status i')))"

lemma advances_refl [simp]: "advances i i" by (simp add: advances_def)

text \<open>Every allocation of a link is the amount of an intent that its order used up.\<close>

definition backed :: "shop_db \<Rightarrow> payment_allocation \<Rightarrow> bool" where
  "backed db a = (\<forall>iid. pa_payment_link_intent_id a = Some iid \<longrightarrow>
     (\<exists>i \<in> set (sh_intents db). in_id i = iid \<and> in_status i = I_CONSUMED \<and> in_order_id i = Some (pa_order_id a) \<and>
        in_amount_cents i = pa_amount_cents a))"

definition link_inv :: "shop_db \<Rightarrow> bool" where
  "link_inv db = (distinct (map in_id (sh_intents db)) \<and> (\<forall>a \<in> set (sh_allocations db). backed db a))"

text \<open>The intents of a table advance, and new ones are appended.\<close>

definition table_advances :: "payment_link_intent list \<Rightarrow> payment_link_intent list \<Rightarrow> bool" where
  "table_advances is is' = (\<exists>js ks. is' = js @ ks \<and> list_all2 advances is js)"

lemma table_advances_refl [simp]: "table_advances is is"
  unfolding table_advances_def by (intro exI [of _ "is"] exI [of _ "[]"]) (simp add: list_all2_refl)

lemma table_advances_in:
  assumes "table_advances is is'" "i \<in> set is"
  obtains i' where "i' \<in> set is'" "advances i i'"
proof -
  from assms(1) obtain js ks where j: "is' = js @ ks" "list_all2 advances is js" by (auto simp: table_advances_def)
  from assms(2) obtain k where "k < length is" "is ! k = i" by (auto simp: in_set_conv_nth)
  with j have "js ! k \<in> set is'" "advances i (js ! k)" by (auto simp: list_all2_conv_all_nth)
  then show thesis by (rule that)
qed

lemma table_advances_update:
  assumes "\<And>i. i \<in> set is \<Longrightarrow> P i \<Longrightarrow> advances i (f i)"
  shows "table_advances is (update_where P f is)"
  unfolding table_advances_def update_where_def
  by (intro exI [of _ "map (\<lambda>r. if P r then f r else r) is"] exI [of _ "[]"]) (use assms in \<open>auto simp: list_all2_conv_all_nth\<close>)

lemma advanced_ids: "list_all2 advances is js \<Longrightarrow> map in_id js = map in_id is"
  by (induction rule: list_all2_induct) (simp_all add: advances_def)

text \<open>A step keeps the invariant when the used-up intents stay and the new allocations are backed.\<close>

lemma link_inv_step:
  assumes inv: "link_inv db" and adv: "table_advances (sh_intents db) (sh_intents db')" and d: "distinct (map in_id (sh_intents db'))"
    and al: "\<And>a. a \<in> set (sh_allocations db') \<Longrightarrow> a \<in> set (sh_allocations db) \<or> backed db' a"
  shows "link_inv db'"
proof -
  have "backed db' a" if "a \<in> set (sh_allocations db)" for a
    unfolding backed_def
  proof (intro allI impI)
    fix iid assume "pa_payment_link_intent_id a = Some iid"
    with inv that obtain i where i: "i \<in> set (sh_intents db)" "in_id i = iid" "in_status i = I_CONSUMED"
      "in_order_id i = Some (pa_order_id a)" "in_amount_cents i = pa_amount_cents a" by (auto simp: link_inv_def backed_def)
    from table_advances_in [OF adv i(1)] obtain i' where i': "i' \<in> set (sh_intents db')" "advances i i'" by blast
    then have "i' = i" using i(3) by (auto simp: advances_def intent_next_from)
    with i i' show "\<exists>i \<in> set (sh_intents db'). in_id i = iid \<and> in_status i = I_CONSUMED \<and> in_order_id i = Some (pa_order_id a) \<and>
        in_amount_cents i = pa_amount_cents a" by blast
  qed
  with al d show ?thesis unfolding link_inv_def by blast
qed

subsection \<open>The steps\<close>

inductive link_step :: "shop_db \<Rightarrow> shop_db \<Rightarrow> bool" where
  requested: "create_pos_payment_intent link db user n phone iid now = Inr (db', i) \<Longrightarrow>
    iid \<notin> in_id ` set (sh_intents db) \<Longrightarrow> link_step db db'"
| read: "get_pos_payment_intent db db user iid now = Inr db' \<Longrightarrow> link_step db db'"
| resent: "resend_pos_payment_intent allowed db user iid now = Inr db' \<Longrightarrow> link_step db db'"
| cancelled: "cancel_pos_payment_intent db user iid now = Inr db' \<Longrightarrow> link_step db db'"
| confirmed: "link_step db (mark_intent_paid db ref b pref a cur now)"
| checked_out: "create_pos_order seen db user body oid cid now = Inr (db', o1) \<Longrightarrow> link_step db db'"

lemma load_intent: "load_pos_payment_intent db b iid = Inr i \<Longrightarrow> i \<in> set (sh_intents db) \<and> in_id i = iid \<and> in_business_id i = b"
proof -
  assume "load_pos_payment_intent db b iid = Inr i"
  then have f: "scalar_one_or_none (filter (\<lambda>i. in_id i = iid \<and> in_business_id i = b) (sh_intents db)) = Inr (Some i)"
    by (auto simp: load_pos_payment_intent_def and_then_eq_Inr or_raise_eq_Inr)
  from scalar_one_or_none_filter [OF f] show ?thesis by simp
qed

text \<open>Changing the status of one pending intent.\<close>

lemma change_pending:
  assumes inv: "link_inv db" and i: "load_pos_payment_intent db b iid = Inr i" "in_status i = I_PENDING"
    and f: "\<And>j. in_id (f j) = in_id j \<and> in_amount_cents (f j) = in_amount_cents j \<and> in_business_id (f j) = in_business_id j \<and>
      in_status (f j) \<in> {I_PAID, I_FAILED, I_EXPIRED, I_CANCELLED}"
  shows "table_advances (sh_intents db) (sh_intents (change_intent iid f db)) \<and> link_inv (change_intent iid f db)"
proof -
  note l = load_intent [OF i(1)]
  have eq: "j = i" if "j \<in> set (sh_intents db)" "in_id j = iid" for j
    using distinct_id_eq [of in_id "sh_intents db" j i] inv l that by (simp add: link_inv_def)
  have adv: "table_advances (sh_intents db) (sh_intents (change_intent iid f db))"
    unfolding change_intent_def
  proof (simp, rule table_advances_update)
    fix j assume "j \<in> set (sh_intents db)" "in_id j = iid"
    then have "j = i" by (rule eq)
    with i(2) f [of i] show "advances j (f j)" by (auto simp: advances_def intent_next_from)
  qed
  moreover have "map in_id (sh_intents (change_intent iid f db)) = map in_id (sh_intents db)"
    using f by (simp add: change_intent_def map_update_where)
  ultimately show ?thesis using link_inv_step [OF inv adv] inv by (simp add: link_inv_def change_intent_def)
qed

lemma sale_link_allocation:
  assumes "a \<in> set (sale_allocations s user body now)" "pa_payment_link_intent_id a = Some iid"
  obtains p i ps where "pc_payments body = Some ps" "p \<in> set ps" "link_payment p" "i \<in> set (sl_intents s)" "in_id i = iid"
    "Some iid = pp_payment_intent_id p" "pa_amount_cents a = pp_amount_cents p" "pa_order_id a = sl_order_id s"
proof (cases "pc_payments body")
  case None
  with assms show thesis by (auto simp: sale_allocations_def Let_def sale_allocation_def split: if_splits)
next
  case (Some ps)
  with assms(1) obtain p where p: "p \<in> set ps" "a = split_allocation s user now p" by (auto simp: sale_allocations_def)
  with assms(2) have l: "pp_payment_method p = M_PAY_BY_LINK"
    by (auto simp: split_allocation_def Let_def sale_allocation_def split: payment_method.splits option.splits)
  with assms(2) p obtain i where i: "find (\<lambda>i. Some (in_id i) = pp_payment_intent_id p) (sl_intents s) = Some i" "in_id i = iid"
    by (auto simp: split_allocation_def Let_def sale_allocation_def split: option.splits)
  from find_SomeD [OF i(1)] i(2) p l Some that [of ps p i] show thesis by (simp add: link_payment_def)
qed

lemma list_all2_in1: "list_all2 P xs ys \<Longrightarrow> x \<in> set xs \<Longrightarrow> \<exists>y \<in> set ys. P x y"
  by (induction rule: list_all2_induct) auto

lemma list_all2_in2: "list_all2 P xs ys \<Longrightarrow> y \<in> set ys \<Longrightarrow> \<exists>x \<in> set xs. P x y"
  by (induction rule: list_all2_induct) auto

lemma checkout_links:
  assumes inv: "link_inv db" and c: "create_pos_order seen db user body oid cid now = Inr (db', o1)"
  shows "table_advances (sh_intents db) (sh_intents db') \<and> link_inv db'"
  using c
proof (cases rule: create_pos_order_cases)
  case replayed
  with inv show ?thesis by simp
next
  case (fresh s staged)
  then obtain db1 where p: "price_sale db user body (sl_till s) (sl_business s) oid cid = Inr (Inr (sh_loyalty db1, s))"
    and d1: "sh_intents db1 = sh_intents db" "sh_allocations db1 = sh_allocations db"
    and w: "stage_writes db1 s user body o1 now staged" and so: "sl_order_id s = oid"
    and d': "db' = (if sl_customer_id s \<noteq> None
       then staged\<lparr>sh_loyalty := award_loyalty_points_if_enabled (sh_loyalty staged) (au_business_id user) o1 now\<rparr> else staged)"
    by (rule fresh_sale_writes)
  let ?use = "\<lambda>i. i\<lparr>in_status := I_CONSUMED, in_order_id := Some oid, in_consumed_at := Some now\<rparr>"
  have dist: "distinct (map in_id (sh_intents db))" using inv by (simp add: link_inv_def)
  have it: "sh_intents db' = update_where (\<lambda>i. in_id i \<in> set (map in_id (sl_intents s))) ?use (sh_intents db)"
    and al: "sh_allocations db' = sh_allocations db @ sale_allocations s user body now"
    using w d1 so by (simp_all add: d' stage_writes_def consume_intents_def)
  have cp: "check_payments db (au_business_id user) body (sl_total_cents s) = Inr (Inr (sl_intents s, sl_change_due_cents s))"
    using p by (rule price_sale_shape)
  have col: "list_all2 (\<lambda>p i. i \<in> set (sh_intents db) \<and> Some (in_id i) = pp_payment_intent_id p \<and>
       in_status i = I_PAID \<and> in_amount_cents i = pp_amount_cents p) (filter link_payment (dict_get [] (pc_payments body))) (sl_intents s)"
  proof (cases "pc_payments body")
    case None
    with cp have "sl_intents s = []" by (auto simp: check_payments_def Let_def and_then_eq_Inr split: if_splits)
    with None show ?thesis by (simp add: dict_get_def)
  next
    case (Some ps)
    with cp have "collect_intents db (au_business_id user) (pc_idempotency_key body) ps = Inr (Inr (sl_intents s))"
      by (auto simp: check_payments_def and_then_eq_Inr case_sum_eq_Inr)
    from collect_intents_fresh [OF this] Some show ?thesis by (auto simp: dict_get_def elim: list_all2_mono)
  qed
  have paid: "i \<in> set (sh_intents db) \<and> in_status i = I_PAID" if "i \<in> set (sl_intents s)" for i
    using list_all2_in2 [OF col that] by blast
  have eq: "j = i" if "j \<in> set (sh_intents db)" "i \<in> set (sl_intents s)" "in_id j = in_id i" for i j
    using distinct_id_eq [OF dist that(1) _ that(3)] paid [OF that(2)] by simp
  have adv: "table_advances (sh_intents db) (sh_intents db')"
    unfolding it
  proof (rule table_advances_update)
    fix j assume j: "j \<in> set (sh_intents db)" "in_id j \<in> set (map in_id (sl_intents s))"
    then obtain i where "i \<in> set (sl_intents s)" "in_id j = in_id i" by auto
    with eq j(1) paid have "in_status j = I_PAID" by metis
    then show "advances j (?use j)" by (simp add: advances_def intent_next_from)
  qed
  have "map in_id (sh_intents db') = map in_id (sh_intents db)" by (simp add: it map_update_where)
  then have dist': "distinct (map in_id (sh_intents db'))" using dist by simp
  have "backed db' a" if a: "a \<in> set (sale_allocations s user body now)" for a
    unfolding backed_def
  proof (intro allI impI)
    fix iid assume "pa_payment_link_intent_id a = Some iid"
    with a obtain p i ps where ps: "pc_payments body = Some ps" "p \<in> set ps" "link_payment p"
      and i: "i \<in> set (sl_intents s)" "in_id i = iid" "Some iid = pp_payment_intent_id p"
      and am: "pa_amount_cents a = pp_amount_cents p" "pa_order_id a = sl_order_id s" by (rule sale_link_allocation)
    from ps have "p \<in> set (filter link_payment (dict_get [] (pc_payments body)))" by (simp add: dict_get_def)
    from list_all2_in1 [OF col this] obtain j where j: "j \<in> set (sl_intents s)" "Some (in_id j) = pp_payment_intent_id p"
      "in_amount_cents j = pp_amount_cents p" by blast
    have "i \<in> set (sh_intents db)" using paid [OF i(1)] by simp
    moreover have "in_id i = in_id j" using trans [OF i(3) j(2) [symmetric]] i(2) by simp
    ultimately have "i = j" by (rule eq [OF _ j(1)])
    moreover have "?use i \<in> set (sh_intents db')" using paid [OF i(1)] i(1) by (force simp: it set_update_where)
    ultimately show "\<exists>i \<in> set (sh_intents db'). in_id i = iid \<and> in_status i = I_CONSUMED \<and> in_order_id i = Some (pa_order_id a) \<and>
        in_amount_cents i = pa_amount_cents a"
      using i j am so by (intro bexI [of _ "?use i"]) simp_all
  qed
  then have "link_inv db'" using link_inv_step [OF inv adv dist'] by (auto simp: al)
  with adv show ?thesis ..
qed

lemma link_inv_same:
  assumes "link_inv db" "sh_intents db' = sh_intents db" "sh_allocations db' = sh_allocations db"
  shows "table_advances (sh_intents db) (sh_intents db') \<and> link_inv db'"
  using assms by (simp add: link_inv_def backed_def)

lemma step_links: "link_step db db' \<Longrightarrow> link_inv db \<Longrightarrow> table_advances (sh_intents db) (sh_intents db') \<and> link_inv db'"
proof (induction rule: link_step.induct)
  case (requested link db user n phone iid now db' i)
  then obtain till_id p where i: "in_id i = iid" and d: "db' = db\<lparr>sh_intents := sh_intents db @ [i]\<rparr>"
    by (auto simp: create_pos_payment_intent_def Let_def and_then_eq_Inr commit_shop_eq new_intent_def)
  have adv: "table_advances (sh_intents db) (sh_intents db')"
    unfolding table_advances_def d by (intro exI [of _ "sh_intents db"] exI [of _ "[i]"]) (simp add: list_all2_refl)
  from link_inv_step [OF requested.prems adv] adv requested show ?case by (simp add: link_inv_def d i)
next
  case (read db user iid now db')
  then obtain i where i: "load_pos_payment_intent db (au_business_id user) iid = Inr i"
    and d: "db' = (if is_stale now i then change_intent iid expire_intent db else db)"
    by (auto simp: get_pos_payment_intent_def and_then_eq_Inr commit_shop_eq split: if_splits)
  show ?case
  proof (cases "is_stale now i")
    case True
    with d change_pending [OF read.prems i, of expire_intent] show ?thesis by (simp add: is_stale_def expire_intent_def)
  next
    case False
    with d link_inv_same [OF read.prems] show ?thesis by simp
  qed
next
  case (resent allowed db user iid now db')
  then obtain i where i: "load_pos_payment_intent db (au_business_id user) iid = Inr i"
    and d: "db' = (if is_stale now i then change_intent iid expire_intent db else db)"
    by (auto simp: resend_pos_payment_intent_def and_then_eq_Inr commit_shop_eq split: if_splits)
  show ?case
  proof (cases "is_stale now i")
    case True
    with d change_pending [OF resent.prems i, of expire_intent] show ?thesis by (simp add: is_stale_def expire_intent_def)
  next
    case False
    with d link_inv_same [OF resent.prems] show ?thesis by simp
  qed
next
  case (cancelled db user iid now db')
  then obtain i f where i: "load_pos_payment_intent db (au_business_id user) iid = Inr i" "in_status i = I_PENDING"
    and d: "db' = change_intent iid f db" and f: "f = expire_intent \<or> f = (\<lambda>i. i\<lparr>in_status := I_CANCELLED, in_cancelled_at := Some now\<rparr>)"
    by (auto simp: cancel_pos_payment_intent_def and_then_eq_Inr commit_shop_eq is_stale_def split: if_splits)
  from f show ?case unfolding d by (intro change_pending [OF cancelled.prems i]) (auto simp: expire_intent_def)
next
  case (confirmed db ref b pref a cur now)
  have keep: "table_advances (sh_intents db) (sh_intents (or_keep db (commit_shop db1))) \<and> link_inv (or_keep db (commit_shop db1))"
    if "table_advances (sh_intents db) (sh_intents db1) \<and> link_inv db1" for db1
    using that confirmed.prems by (simp add: or_keep_commit)
  show ?case
  proof (cases "mark_intent_paid db ref b pref a cur now = db")
    case True
    with confirmed.prems show ?thesis by simp
  next
    case False
    then obtain iid i f where i: "load_pos_payment_intent db b iid = Inr i" "in_status i = I_PENDING"
      and m: "mark_intent_paid db ref b pref a cur now = or_keep db (commit_shop (change_intent iid f db))"
      and f: "f = expire_intent \<or> f = (\<lambda>i. i\<lparr>in_status := I_PAID, in_provider_reference := pref, in_paid_at := Some now\<rparr>)"
      by (auto simp: mark_intent_paid_def split: option.splits sum.splits if_splits)
    from f have "table_advances (sh_intents db) (sh_intents (change_intent iid f db)) \<and> link_inv (change_intent iid f db)"
      by (intro change_pending [OF confirmed.prems i]) (auto simp: expire_intent_def)
    from keep [OF this] show ?thesis by (simp add: m)
  qed
next
  case (checked_out seen db user body oid cid now db' o1)
  then show ?case using checkout_links by blast
qed


text \<open>A pending link of R286 is paid a minute before it expires.\<close>

definition sample_intent :: payment_link_intent where
  "sample_intent = \<lparr>in_id = 77, in_business_id = 10, in_till_session_id = Some 60, in_created_by_user_id = Some 20,
     in_amount_cents = 28600, in_currency = ''ZAR'', in_provider = ''YOCO'', in_status = I_PENDING, in_provider_reference = None,
     in_payment_link_url = Some ''url'', in_customer_phone = None, in_order_id = None, in_created_at = 0, in_expires_at = 900,
     in_paid_at = None, in_consumed_at = None, in_cancelled_at = None\<rparr>"

definition sample_link_shop :: shop_db where
  "sample_link_shop = sample_pos_shop\<lparr>sh_intents := [sample_intent]\<rparr>"


text \<open>
  Evidence: the till reads an intent without a lock.  If it was pending and overdue when it
  was read and a provider's confirmation commits before the status is written, the money is
  confirmed and the link is expired.
\<close>

lemma stale_read_expires_a_paid_link:
  "\<exists>seen db db'. get_pos_payment_intent seen db sample_owner 77 900 = Inr db' \<and>
     map in_status (sh_intents db) = [I_PAID] \<and> map in_status (sh_intents db') = [I_EXPIRED]"
proof -
  let ?paid = "sample_intent\<lparr>in_status := I_PAID, in_paid_at := Some 899\<rparr>"
  let ?db = "sample_pos_shop\<lparr>sh_intents := [?paid]\<rparr>"
  have ok: "shop_ok (change_intent 77 expire_intent ?db)"
    by (simp add: shop_ok_def change_intent_def update_where_def sample_intent_def intent_ok_def expire_intent_def unique_index_def
        open_till_key_def List.map_filter_simps)
      (simp add: sample_pos_shop_def sample_shop_def commit_loyalty_def sample_till_def stock_index_def unique_index_def)
  have "load_pos_payment_intent sample_link_shop 10 77 = Inr sample_intent"
    by (simp add: load_pos_payment_intent_def sample_link_shop_def sample_intent_def)
  moreover have "require_pos_enabled sample_link_shop 10 = Inr ()"
    by (simp add: require_pos_enabled_def sample_link_shop_def dict_get_def)
  ultimately have g: "get_pos_payment_intent sample_link_shop ?db sample_owner 77 900 = Inr (change_intent 77 expire_intent ?db)"
    by (simp add: get_pos_payment_intent_def is_stale_def commit_shop_ok ok) (simp add: sample_intent_def)
  have e: "map in_status (sh_intents (change_intent 77 expire_intent ?db)) = [I_EXPIRED]"
    by (simp add: change_intent_def update_where_def sample_intent_def expire_intent_def)
  have p: "map in_status (sh_intents ?db) = [I_PAID]" by simp
  show ?thesis by (rule exI, rule exI, rule exI, rule conjI [OF g conjI [OF p e]])
qed

end
