(* ===== verification/PosReversal.thy ===== *)
theory PosReversal imports PosPayments begin

text \<open>
  The reversals of till sales and the cash-up (\<^verbatim>\<open>routes_pos.py\<close>, \<^verbatim>\<open>pos/till.py\<close>): a
  refund, a void, the confirmation that a provider returned the money of a payment link,
  and opening and closing the till.  Orders and till sessions are read with a row
  lock, so a handler works on the present database.
\<close>

subsection \<open>Loading what is reversed\<close>

definition load_pos_order_for_reversal :: "shop_db \<Rightarrow> uuid \<Rightarrow> uuid \<Rightarrow> order result" where
  "load_pos_order_for_reversal db business oid =
     and_then (order_of db business oid) (\<lambda>o1.
     and_then (raise_if (or_source o1 \<noteq> POS) (AppError ''NOT_A_POS_ORDER'' 422)) (\<lambda>_.
     and_then (raise_if (or_payment_status o1 \<noteq> PS_PAID) (AppError ''ORDER_NOT_PAID'' 422)) (\<lambda>_. Inr o1)))"

definition allocations_of :: "shop_db \<Rightarrow> uuid \<Rightarrow> payment_allocation list" where
  "allocations_of db oid = filter (\<lambda>a. pa_order_id a = oid) (sh_allocations db)"

definition cash_allocated :: "shop_db \<Rightarrow> uuid \<Rightarrow> int" where
  "cash_allocated db oid = sum_list (map pa_amount_cents (filter (\<lambda>a. pa_payment_method a = M_CASH) (allocations_of db oid)))"

definition non_cash_allocated :: "shop_db \<Rightarrow> uuid \<Rightarrow> int" where
  "non_cash_allocated db oid = sum_list (map pa_amount_cents (filter (\<lambda>a. pa_payment_method a \<noteq> M_CASH) (allocations_of db oid)))"

definition compute_cash_portion :: "shop_db \<Rightarrow> order \<Rightarrow> int \<Rightarrow> int" where
  "compute_cash_portion db o1 requested_cents =
     (if or_payment_method o1 = Some ''CASH'' then requested_cents
      else if or_payment_method o1 = Some ''SPLIT'' then min (cash_allocated db (or_id o1)) requested_cents
      else 0)"

definition has_cash :: "shop_db \<Rightarrow> order \<Rightarrow> bool" where
  "has_cash db o1 = (or_payment_method o1 = Some ''CASH'' \<or>
     or_payment_method o1 = Some ''SPLIT'' \<and> list_ex (\<lambda>a. pa_payment_method a = M_CASH) (allocations_of db (or_id o1)))"

definition require_open_till_for_cash_reversal :: "shop_db \<Rightarrow> uuid \<Rightarrow> order \<Rightarrow> unit result" where
  "require_open_till_for_cash_reversal db business o1 =
     (if \<not> has_cash db o1 then Inr ()
      else and_then (scalar_one_or_none (filter (is_open_till business) (sh_tills db))) (\<lambda>till.
           raise_if (till = None) (AppError ''TILL_NOT_OPEN'' 409)))"

definition flag_provider_refund :: "shop_db \<Rightarrow> order \<Rightarrow> int \<Rightarrow> int \<Rightarrow> shop_db" where
  "flag_provider_refund db o1 amount_cents cash_refund_cents =
     (if amount_cents - cash_refund_cents \<le> 0 then db
      else db\<lparr>sh_allocations := update_where
        (\<lambda>a. pa_order_id a = or_id o1 \<and> pa_payment_method a = M_PAY_BY_LINK \<and> pa_provider_refund_status a = None)
        (\<lambda>a. a\<lparr>pa_provider_refund_status := Some PENDING_MANUAL\<rparr>) (sh_allocations db)\<rparr>)"

text \<open>The stock of the order goes back if the business keeps stock.\<close>

definition return_stock :: "shop_db \<Rightarrow> auth_user \<Rightarrow> uuid \<Rightarrow> string \<Rightarrow> instant \<Rightarrow> shop_db result" where
  "return_stock db user oid notes now =
     and_then (scalar_one_or_none (filter (\<lambda>b. bu_id b = au_business_id user) (sh_businesses db))) (\<lambda>row.
       case row of None \<Rightarrow> Inr db
       | Some b \<Rightarrow>
           if \<not> bu_inventory_enabled b then Inr db
           else and_then (reverse_sale_consumption (sh_stock db) (au_business_id user) oid (Some (au_user_id user)) (Some notes) now)
                  (\<lambda>(stock, _). Inr (db\<lparr>sh_stock := stock\<rparr>)))"

definition return_points :: "shop_db \<Rightarrow> auth_user \<Rightarrow> order \<Rightarrow> shop_db result" where
  "return_points db user o1 =
     (if or_loyalty_reward_id o1 = None then Inr db
      else and_then (reverse_redemption (sh_loyalty db) (au_business_id user) (or_id o1)) (\<lambda>(ldb, _).
             Inr (db\<lparr>sh_loyalty := ldb\<rparr>)))"

subsection \<open>Refund\<close>

record pos_refund_request =
  pr_amount_cents :: "int option"
  pr_reason :: "string option"
  pr_restore_stock :: bool
  pr_restore_loyalty_points :: bool
  pr_cash_refund_cents :: "int option"

definition valid_pos_refund :: "pos_refund_request \<Rightarrow> bool" where
  "valid_pos_refund body = ((case pr_amount_cents body of None \<Rightarrow> True | Some a \<Rightarrow> 1 \<le> a) \<and>
     (case pr_cash_refund_cents body of None \<Rightarrow> True | Some c \<Rightarrow> 0 \<le> c))"

text \<open>How much of the refund is cash: stated by the manager only where it is ambiguous.\<close>

definition refund_cash :: "shop_db \<Rightarrow> order \<Rightarrow> pos_refund_request \<Rightarrow> int \<Rightarrow> int result" where
  "refund_cash db o1 body amount_cents =
     (if amount_cents = or_total_cents o1 then Inr (compute_cash_portion db o1 amount_cents)
      else if or_payment_method o1 = Some ''SPLIT''
      then let cash = cash_allocated db (or_id o1)
           in if cash > 0 \<and> non_cash_allocated db (or_id o1) > 0
              then and_then (or_raise (pr_cash_refund_cents body) (AppError ''CASH_REFUND_PORTION_REQUIRED'' 422)) (\<lambda>c.
                   and_then (raise_if (c > amount_cents \<or> c > cash) (AppError ''CASH_REFUND_PORTION_INVALID'' 422)) (\<lambda>_. Inr c))
              else Inr (min cash amount_cents)
      else Inr (compute_cash_portion db o1 amount_cents))"

definition refunded_order :: "order \<Rightarrow> pos_refund_request \<Rightarrow> int \<Rightarrow> int \<Rightarrow> instant \<Rightarrow> order" where
  "refunded_order o1 body amount_cents cash_refund_cents now =
     o1\<lparr>or_payment_status := (if amount_cents = or_total_cents o1 then PS_REFUNDED else PS_PARTIALLY_REFUNDED),
        or_refund_amount_cents := Some amount_cents, or_refund_cash_cents := Some cash_refund_cents,
        or_refund_reference := pr_reason body, or_refunded_at := Some now\<rparr>"

definition text_of :: "string option \<Rightarrow> string" where
  "text_of s = (case s of None \<Rightarrow> ''None'' | Some t \<Rightarrow> t)"

definition refund_pos_order ::
  "shop_db \<Rightarrow> auth_user \<Rightarrow> uuid \<Rightarrow> pos_refund_request \<Rightarrow> instant \<Rightarrow> (shop_db \<times> order) result" where
  "refund_pos_order db user oid body now =
     (let business = au_business_id user
      in and_then (require_pos_enabled db business) (\<lambda>_.
         and_then (load_pos_order_for_reversal db business oid) (\<lambda>o1.
         and_then (require_open_till_for_cash_reversal db business o1) (\<lambda>_.
         let amount_cents = refund_amount (pr_amount_cents body) (or_total_cents o1)
         in and_then (raise_if (amount_cents > or_total_cents o1) (AppError ''REFUND_EXCEEDS_TOTAL'' 422)) (\<lambda>_.
            and_then (refund_cash db o1 body amount_cents) (\<lambda>cash_refund_cents.
            let o2 = refunded_order o1 body amount_cents cash_refund_cents now;
                db = flag_provider_refund (write_order o2 db) o2 amount_cents cash_refund_cents
            in and_then (if pr_restore_stock body
                         then return_stock db user oid (''Refund with stock returned: '' @ text_of (pr_reason body)) now
                         else Inr db) (\<lambda>db.
               and_then (if amount_cents = or_total_cents o1 \<and> pr_restore_loyalty_points body then return_points db user o2
                         else Inr db) (\<lambda>db.
               and_then (commit_shop (add_audit business (Some (au_user_id user)) ''order.pos.refunded'' oid db)) (\<lambda>db.
                 Inr (db, o2))))))))))"

subsection \<open>Void\<close>

definition voided_order :: "order \<Rightarrow> auth_user \<Rightarrow> string \<Rightarrow> int \<Rightarrow> instant \<Rightarrow> order" where
  "voided_order o1 user reason cash_refund_cents now =
     o1\<lparr>or_payment_status := PS_VOIDED, or_refund_amount_cents := Some (or_total_cents o1),
        or_refund_cash_cents := Some cash_refund_cents, or_refund_reference := Some reason, or_refunded_at := Some now,
        or_status := CANCELLED, or_cancelled_reason := Some reason, or_cancelled_by_user_id := Some (au_user_id user)\<rparr>"

definition void_pos_order :: "shop_db \<Rightarrow> auth_user \<Rightarrow> uuid \<Rightarrow> string \<Rightarrow> instant \<Rightarrow> (shop_db \<times> order) result" where
  "void_pos_order db user oid reason now =
     (let business = au_business_id user
      in and_then (require_pos_enabled db business) (\<lambda>_.
         and_then (load_pos_order_for_reversal db business oid) (\<lambda>o1.
         and_then (require_open_till_for_cash_reversal db business o1) (\<lambda>_.
         let cash_refund_cents = compute_cash_portion db o1 (or_total_cents o1);
             o2 = voided_order o1 user reason cash_refund_cents now;
             db = flag_provider_refund (write_order o2 db) o2 (or_total_cents o1) cash_refund_cents
         in and_then (return_stock db user oid (''Void: '' @ reason) now) (\<lambda>db.
            and_then (return_points db user o2) (\<lambda>db.
            and_then (commit_shop (add_audit business (Some (au_user_id user)) ''order.pos.voided'' oid db)) (\<lambda>db.
              Inr (db, o2))))))))"

subsection \<open>The provider's refund\<close>

definition awaits_provider_refund :: "uuid \<Rightarrow> payment_allocation \<Rightarrow> bool" where
  "awaits_provider_refund oid a = (pa_order_id a = oid \<and> pa_payment_method a = M_PAY_BY_LINK \<and>
     pa_provider_refund_status a = Some PENDING_MANUAL)"

definition confirm_pos_order_provider_refund :: "shop_db \<Rightarrow> auth_user \<Rightarrow> uuid \<Rightarrow> instant \<Rightarrow> (shop_db \<times> order) result" where
  "confirm_pos_order_provider_refund db user oid now =
     (let business = au_business_id user
      in and_then (require_pos_enabled db business) (\<lambda>_.
         and_then (order_of db business oid) (\<lambda>o1.
         and_then (raise_if (\<not> list_ex (awaits_provider_refund oid) (sh_allocations db))
                     (AppError ''NO_PENDING_PROVIDER_REFUND'' 422)) (\<lambda>_.
         let db = db\<lparr>sh_allocations := update_where (awaits_provider_refund oid)
                (\<lambda>a. a\<lparr>pa_provider_refund_status := Some CONFIRMED, pa_provider_refund_confirmed_at := Some now,
                       pa_provider_refund_confirmed_by_user_id := Some (au_user_id user)\<rparr>) (sh_allocations db)\<rparr>
         in and_then (commit_shop (add_audit business (Some (au_user_id user)) ''order.pos.provider_refund_confirmed'' oid db)) (\<lambda>db.
              Inr (db, o1))))))"

subsection \<open>Cash-up\<close>

text \<open>\<^verbatim>\<open>pos/till.py\<close>\<close>

definition compute_expected_cash_cents :: "int \<Rightarrow> int \<Rightarrow> int \<Rightarrow> int" where
  "compute_expected_cash_cents opening_float_cents cash_sales_cents cash_refunds_cents =
     opening_float_cents + cash_sales_cents - cash_refunds_cents"

definition compute_variance_cents :: "int \<Rightarrow> int \<Rightarrow> int" where
  "compute_variance_cents expected_cash_cents counted_cash_cents = counted_cash_cents - expected_cash_cents"

definition new_till :: "auth_user \<Rightarrow> uuid \<Rightarrow> int \<Rightarrow> instant \<Rightarrow> till_session" where
  "new_till user new_id opening_float_cents now =
     \<lparr>ts_id = new_id, ts_business_id = au_business_id user, ts_opened_by_user_id = au_user_id user, ts_closed_by_user_id = None,
      ts_approved_by_user_id = None, ts_opening_float_cents = opening_float_cents, ts_expected_cash_cents = None,
      ts_counted_cash_cents = None, ts_variance_cents = None, ts_status = TILL_OPEN, ts_opened_at = now, ts_closed_at = None\<rparr>"

text \<open>The check for an open session reads \<open>seen\<close>; the unique index decides at the commit.\<close>

definition open_till :: "shop_db \<Rightarrow> shop_db \<Rightarrow> auth_user \<Rightarrow> int \<Rightarrow> uuid \<Rightarrow> instant \<Rightarrow> (shop_db \<times> till_session) result" where
  "open_till seen db user opening_float_cents new_id now =
     (let business = au_business_id user
      in and_then (require_pos_enabled seen business) (\<lambda>_.
         and_then (scalar_one_or_none (filter (is_open_till business) (sh_tills seen))) (\<lambda>existing.
         and_then (raise_if (existing \<noteq> None) (AppError ''TILL_ALREADY_OPEN'' 409)) (\<lambda>_.
         let session = new_till user new_id opening_float_cents now
         in case commit_shop (db\<lparr>sh_tills := sh_tills db @ [session]\<rparr>) of
              Inr db' \<Rightarrow> Inr (db', session)
            | Inl e \<Rightarrow> if e = IntegrityError ''uq_till_sessions_one_open_per_business''
                       then Inl (AppError ''TILL_ALREADY_OPEN'' 409) else Inl e))))"

text \<open>Cash taken in a session: its cash allocations, and cash orders from before allocations existed.\<close>

definition allocation_cash_cents :: "shop_db \<Rightarrow> uuid \<Rightarrow> int" where
  "allocation_cash_cents db session_id = sum_list (map pa_amount_cents
     (filter (\<lambda>a. pa_till_session_id a = Some session_id \<and> pa_payment_method a = M_CASH) (sh_allocations db)))"

definition is_legacy_cash :: "shop_db \<Rightarrow> uuid \<Rightarrow> order \<Rightarrow> bool" where
  "is_legacy_cash db session_id r = (or_till_session_id r = Some session_id \<and> or_payment_method r = Some ''CASH'' \<and>
     or_payment_status r \<in> {PS_PAID, PS_REFUNDED, PS_PARTIALLY_REFUNDED, PS_VOIDED} \<and> allocations_of db (or_id r) = [])"

definition legacy_cash_cents :: "shop_db \<Rightarrow> uuid \<Rightarrow> int" where
  "legacy_cash_cents db session_id = sum_list (map or_total_cents (filter (is_legacy_cash db session_id) (sh_orders db)))"

definition refunded_since :: "uuid \<Rightarrow> instant \<Rightarrow> order \<Rightarrow> bool" where
  "refunded_since business opened_at r = (or_business_id r = business \<and>
     or_payment_status r \<in> {PS_REFUNDED, PS_PARTIALLY_REFUNDED, PS_VOIDED} \<and> or_refund_cash_cents r \<noteq> None \<and>
     (case or_refunded_at r of None \<Rightarrow> False | Some t \<Rightarrow> opened_at \<le> t))"

definition cash_refunds_cents :: "shop_db \<Rightarrow> uuid \<Rightarrow> instant \<Rightarrow> int" where
  "cash_refunds_cents db business opened_at = sum_list (map (\<lambda>r. dict_get 0 (or_refund_cash_cents r))
     (filter (refunded_since business opened_at) (sh_orders db)))"

definition session_expected :: "shop_db \<Rightarrow> uuid \<Rightarrow> till_session \<Rightarrow> int" where
  "session_expected db business s = compute_expected_cash_cents (ts_opening_float_cents s)
     (allocation_cash_cents db (ts_id s) + legacy_cash_cents db (ts_id s)) (cash_refunds_cents db business (ts_opened_at s))"

definition closed_session :: "till_session \<Rightarrow> auth_user \<Rightarrow> int \<Rightarrow> int \<Rightarrow> instant \<Rightarrow> till_session" where
  "closed_session s user expected counted_cash_cents now =
     s\<lparr>ts_status := TILL_CLOSED, ts_closed_by_user_id := Some (au_user_id user), ts_approved_by_user_id := Some (au_user_id user),
       ts_closed_at := Some now, ts_expected_cash_cents := Some expected, ts_counted_cash_cents := Some counted_cash_cents,
       ts_variance_cents := Some (compute_variance_cents expected counted_cash_cents)\<rparr>"

definition close_till :: "shop_db \<Rightarrow> auth_user \<Rightarrow> uuid \<Rightarrow> int \<Rightarrow> instant \<Rightarrow> (shop_db \<times> till_session) result" where
  "close_till db user session_id counted_cash_cents now =
     (let business = au_business_id user
      in and_then (require_pos_enabled db business) (\<lambda>_.
         and_then (scalar_one_or_none (filter (\<lambda>s. ts_id s = session_id \<and> ts_business_id s = business) (sh_tills db))) (\<lambda>row.
         and_then (or_raise row (not_found_error ''TillSession'')) (\<lambda>s.
         and_then (raise_if (ts_status s \<noteq> TILL_OPEN) (AppError ''TILL_ALREADY_CLOSED'' 422)) (\<lambda>_.
         let s2 = closed_session s user (session_expected db business s) counted_cash_cents now;
             db = db\<lparr>sh_tills := update_where (\<lambda>r. ts_id r = session_id) (\<lambda>_. s2) (sh_tills db)\<rparr>
         in and_then (commit_shop (add_audit business (Some (au_user_id user)) ''pos.till.closed'' session_id db)) (\<lambda>db.
              Inr (db, s2)))))))"

end
