(* ===== verification/PosTill.thy ===== *)
theory PosTill imports PosReversal PosLaws begin

text \<open>
  The cash-up of the till refines a cash drawer.  The drawer is either closed or holds an
  amount; it is opened with a float, cash is taken and handed back, and it is counted.  The
  code keeps no drawer: it recomputes the expected cash from allocations, orders and
  refunds.  The refinement shows that, as long as requests go through the till endpoints,
  the recomputed figure is what the drawer holds.
\<close>

subsection \<open>The drawer\<close>

datatype cash_event = Opened int | Taken int | HandedBack int | Counted int

inductive drawer_step :: "int option \<Rightarrow> cash_event \<Rightarrow> int option \<Rightarrow> bool" where
  opened: "drawer_step None (Opened n) (Some n)"
| taken: "drawer_step (Some n) (Taken c) (Some (n + c))"
| handed_back: "drawer_step (Some n) (HandedBack c) (Some (n - c))"
| nothing: "drawer_step d (HandedBack 0) d"
| counted: "drawer_step (Some n) (Counted n) None"

fun drawer_run :: "int option \<Rightarrow> cash_event list \<Rightarrow> int option \<Rightarrow> bool" where
  "drawer_run d [] d' = (d' = d)"
| "drawer_run d (e # es) d' = (\<exists>d1. drawer_step d e d1 \<and> drawer_run d1 es d')"

inductive_cases drawer_stepE: "drawer_step d e d'"

lemma drawer_run_append: "drawer_run d es d1 \<Longrightarrow> drawer_run d1 es' d' \<Longrightarrow> drawer_run d (es @ es') d'"
  by (induction es arbitrary: d) auto

text \<open>The cash of a run: what was put in less what was handed back.\<close>

fun cash_flow :: "cash_event list \<Rightarrow> int" where
  "cash_flow [] = 0"
| "cash_flow (Opened n # es) = n + cash_flow es"
| "cash_flow (Taken n # es) = n + cash_flow es"
| "cash_flow (HandedBack n # es) = cash_flow es - n"
| "cash_flow (Counted n # es) = cash_flow es - n"

lemma drawer_run_balance: "drawer_run d es d' \<Longrightarrow> dict_get 0 d' = dict_get 0 d + cash_flow es"
proof (induction es arbitrary: d)
  case (Cons e es)
  then obtain d1 where s: "drawer_step d e d1" and r: "dict_get 0 d' = dict_get 0 d1 + cash_flow es" by auto
  from s r show ?case by (elim drawer_stepE) (auto simp: dict_get_def)
qed simp

subsection \<open>The amount the code would expect\<close>

definition drawer :: "shop_db \<Rightarrow> uuid \<Rightarrow> int option" where
  "drawer db b = (case filter (is_open_till b) (sh_tills db) of [s] \<Rightarrow> Some (session_expected db b s) | _ \<Rightarrow> None)"

definition till_inv :: "instant \<Rightarrow> shop_db \<Rightarrow> bool" where
  "till_inv t db = (shop_ok db \<and> distinct (map or_id (sh_orders db)) \<and> distinct (map ts_id (sh_tills db)) \<and>
     (\<forall>a \<in> set (sh_allocations db). pa_order_id a \<in> or_id ` set (sh_orders db)) \<and>
     (\<forall>a \<in> set (sh_allocations db). set_option (pa_till_session_id a) \<subseteq> ts_id ` set (sh_tills db)) \<and>
     (\<forall>r \<in> set (sh_orders db). set_option (or_till_session_id r) \<subseteq> ts_id ` set (sh_tills db)) \<and>
     (\<forall>r \<in> set (sh_orders db). 0 \<le> or_total_cents r) \<and>
     (\<forall>s \<in> set (sh_tills db). ts_opened_at s \<le> t) \<and>
     (\<forall>r \<in> set (sh_orders db). \<forall>u \<in> set_option (or_refunded_at r). u \<le> t))"

text \<open>What the expectation reads of an allocation.\<close>

definition alloc_view :: "payment_allocation \<Rightarrow> uuid \<times> uuid option \<times> payment_method \<times> int" where
  "alloc_view a = (pa_order_id a, pa_till_session_id a, pa_payment_method a, pa_amount_cents a)"

lemma allocation_cash_view:
  "allocation_cash_cents db sid =
     sum_list (map (\<lambda>(x, s, m, n). if s = Some sid \<and> m = M_CASH then n else 0) (map alloc_view (sh_allocations db)))"
  unfolding allocation_cash_cents_def sum_list_map_filter_if
  by (simp add: alloc_view_def comp_def split: prod.split)

lemma no_allocations_view: "allocations_of db oid = [] \<longleftrightarrow> oid \<notin> fst ` set (map alloc_view (sh_allocations db))"
  by (auto simp: allocations_of_def alloc_view_def filter_empty_conv image_iff)

lemma expected_view:
  assumes "map alloc_view (sh_allocations db') = map alloc_view (sh_allocations db)" and "sh_orders db' = sh_orders db"
  shows "session_expected db' b s = session_expected db b s"
proof -
  have "is_legacy_cash db' (ts_id s) = is_legacy_cash db (ts_id s)"
    by (rule ext) (simp add: is_legacy_cash_def no_allocations_view assms)
  then show ?thesis
    by (simp add: session_expected_def allocation_cash_view legacy_cash_cents_def cash_refunds_cents_def assms)
qed

lemma drawer_view:
  assumes "map alloc_view (sh_allocations db') = map alloc_view (sh_allocations db)" and "sh_orders db' = sh_orders db"
    and "sh_tills db' = sh_tills db"
  shows "drawer db' b = drawer db b"
  by (simp add: drawer_def expected_view [OF assms(1,2)] assms(3) split: list.split)

lemma open_till_unique:
  assumes "shop_ok db"
  shows "filter (is_open_till b) (sh_tills db) = [] \<or> (\<exists>s. filter (is_open_till b) (sh_tills db) = [s])"
  by (rule unique_index_filter_le_1 [of open_till_key _ _ b])
    (use assms in \<open>auto simp: shop_ok_def open_till_key_def is_open_till_def\<close>)

lemma get_open_till_drawer:
  assumes "shop_ok db" "get_open_till db b = Inr s"
  shows "filter (is_open_till b) (sh_tills db) = [s]"
  using open_till_unique [OF assms(1), of b] assms(2) by (auto simp: get_open_till_def)

text \<open>Replacing one row of a table changes a sum by the difference of its terms.\<close>

lemma sum_update_row:
  fixes f :: "'r \<Rightarrow> int"
  assumes "distinct (map g rows)" "r1 \<in> set rows" "g r2 = g r1"
  shows "sum_list (map f (update_where (\<lambda>r. g r = g r2) (\<lambda>_. r2) rows)) = sum_list (map f rows) - f r1 + f r2"
  using assms(1,2)
proof (induction rows)
  case (Cons x rows)
  show ?case
  proof (cases "x = r1")
    case True
    with Cons.prems(1) have "\<forall>y \<in> set rows. g y \<noteq> g r2" using assms(3) by (metis distinct.simps(2) image_eqI list.map(2) list.set_map)
    then have "update_where (\<lambda>r. g r = g r2) (\<lambda>_. r2) rows = rows" by (auto simp: update_where_def intro: map_idI)
    with True assms(3) show ?thesis by (simp add: update_where_def)
  next
    case False
    with Cons.prems have r1: "r1 \<in> set rows" and n: "g x \<noteq> g r1" by auto
    have "sum_list (map f (update_where (\<lambda>r. g r = g r2) (\<lambda>_. r2) rows)) = sum_list (map f rows) - f r1 + f r2"
      by (rule Cons.IH) (use Cons.prems r1 in simp_all)
    with n assms(3) show ?thesis by (simp add: update_where_def)
  qed
qed simp

subsection \<open>What a reversal changes\<close>

lemma flag_simps [simp]:
  "sh_orders (flag_provider_refund db o1 a c) = sh_orders db" "sh_tills (flag_provider_refund db o1 a c) = sh_tills db"
  "sh_businesses (flag_provider_refund db o1 a c) = sh_businesses db" "sh_stock (flag_provider_refund db o1 a c) = sh_stock db"
  "sh_loyalty (flag_provider_refund db o1 a c) = sh_loyalty db"
  "map alloc_view (sh_allocations (flag_provider_refund db o1 a c)) = map alloc_view (sh_allocations db)"
  by (simp_all add: flag_provider_refund_def map_update_where alloc_view_def)

lemma write_order_simps [simp]:
  "sh_tills (write_order o1 db) = sh_tills db" "sh_allocations (write_order o1 db) = sh_allocations db"
  "sh_intents (write_order o1 db) = sh_intents db"
  by (simp_all add: write_order_def)

lemma add_audit_simps [simp]:
  "sh_tills (add_audit b u a t db) = sh_tills db" "sh_allocations (add_audit b u a t db) = sh_allocations db"
  "sh_intents (add_audit b u a t db) = sh_intents db" "sh_businesses (add_audit b u a t db) = sh_businesses db"
  by (simp_all add: add_audit_def)

lemma return_stock_shape:
  assumes "return_stock db user oid n now = Inr db'"
  shows "sh_orders db' = sh_orders db \<and> sh_tills db' = sh_tills db \<and> sh_allocations db' = sh_allocations db \<and>
    sh_loyalty db' = sh_loyalty db \<and>
    (sh_stock db' = sh_stock db \<and> (\<forall>b \<in> set (sh_businesses db). bu_id b = au_business_id user \<longrightarrow> \<not> bu_inventory_enabled b) \<or>
     (\<exists>k. reverse_sale_consumption (sh_stock db) (au_business_id user) oid (Some (au_user_id user)) (Some n) now = Inr (sh_stock db', k)))"
proof -
  from assms obtain row where r: "scalar_one_or_none (filter (\<lambda>b. bu_id b = au_business_id user) (sh_businesses db)) = Inr row"
    by (auto simp: return_stock_def and_then_eq_Inr)
  show ?thesis
  proof (cases row)
    case None
    with r have "filter (\<lambda>b. bu_id b = au_business_id user) (sh_businesses db) = []" by (simp add: scalar_one_or_none_None)
    with assms r None show ?thesis by (auto simp: return_stock_def filter_empty_conv)
  next
    case (Some b)
    with r have "filter (\<lambda>b. bu_id b = au_business_id user) (sh_businesses db) = [b]" by (simp add: scalar_one_or_none_Some)
    then have "set (filter (\<lambda>b. bu_id b = au_business_id user) (sh_businesses db)) = {b}" by simp
    then have "\<forall>x \<in> set (sh_businesses db). bu_id x = au_business_id user \<longrightarrow> x = b" unfolding set_filter by blast
    with assms r Some show ?thesis by (auto simp: return_stock_def and_then_eq_Inr split: if_splits)
  qed
qed

lemma return_points_shape:
  assumes "return_points db user o1 = Inr db'"
  shows "sh_orders db' = sh_orders db \<and> sh_tills db' = sh_tills db \<and> sh_allocations db' = sh_allocations db \<and>
    sh_stock db' = sh_stock db \<and>
    (if or_loyalty_reward_id o1 = None then sh_loyalty db' = sh_loyalty db
     else \<exists>k. reverse_redemption (sh_loyalty db) (au_business_id user) (or_id o1) = Inr (sh_loyalty db', k))"
  using assms by (auto simp: return_points_def and_then_eq_Inr split: if_splits)

text \<open>A reversal of a paid sale: the row it leaves and the cash it hands back.\<close>

definition reverses :: "shop_db \<Rightarrow> auth_user \<Rightarrow> uuid \<Rightarrow> instant \<Rightarrow> order \<Rightarrow> order \<Rightarrow> int \<Rightarrow> shop_db \<Rightarrow> bool" where
  "reverses db user oid now o1 o2 c db' = (order_of db (au_business_id user) oid = Inr o1 \<and> or_payment_status o1 = PS_PAID \<and>
     or_source o1 = POS \<and> require_open_till_for_cash_reversal db (au_business_id user) o1 = Inr () \<and> or_id o2 = oid \<and>
     or_business_id o2 = au_business_id user \<and> or_payment_status o2 \<in> {PS_REFUNDED, PS_PARTIALLY_REFUNDED, PS_VOIDED} \<and>
     or_refund_cash_cents o2 = Some c \<and> or_refunded_at o2 = Some now \<and> or_total_cents o2 = or_total_cents o1 \<and>
     or_till_session_id o2 = or_till_session_id o1 \<and> or_payment_method o2 = or_payment_method o1 \<and>
     (c \<noteq> 0 \<longrightarrow> has_cash db o1) \<and> sh_orders db' = sh_orders (write_order o2 db) \<and> sh_tills db' = sh_tills db \<and>
     map alloc_view (sh_allocations db') = map alloc_view (sh_allocations db) \<and> shop_ok db')"

lemma no_cash_no_portion:
  assumes "\<not> has_cash db o1"
  shows "or_payment_method o1 = Some ''SPLIT'' \<Longrightarrow> cash_allocated db (or_id o1) = 0"
    and "compute_cash_portion db o1 n \<noteq> 0 \<Longrightarrow> n < 0"
proof -
  show z: "cash_allocated db (or_id o1) = 0" if "or_payment_method o1 = Some ''SPLIT''"
  proof -
    from assms that have "filter (\<lambda>a. pa_payment_method a = M_CASH) (allocations_of db (or_id o1)) = []"
      by (auto simp: has_cash_def list_ex_iff filter_empty_conv)
    then show ?thesis by (simp add: cash_allocated_def)
  qed
  show "compute_cash_portion db o1 n \<noteq> 0 \<Longrightarrow> n < 0"
    using assms z by (auto simp: compute_cash_portion_def has_cash_def split: if_splits)
qed

lemma load_for_reversal:
  "load_pos_order_for_reversal db b oid = Inr o1 \<longleftrightarrow>
   order_of db b oid = Inr o1 \<and> or_source o1 = POS \<and> or_payment_status o1 = PS_PAID"
  by (auto simp: load_pos_order_for_reversal_def and_then_eq_Inr)

lemma refund_cash_has_cash:
  assumes "refund_cash db o1 body n = Inr c" and "0 \<le> n" and "c \<noteq> 0"
  shows "has_cash db o1"
proof (rule ccontr)
  assume h: "\<not> has_cash db o1"
  note z = no_cash_no_portion [OF h]
  have "c = 0" using assms(1,2) z(1) z(2) [of n]
    by (auto simp: refund_cash_def Let_def and_then_eq_Inr split: if_splits)
  with assms(3) show False by simp
qed

lemma refund_reverses:
  assumes r: "refund_pos_order db user oid body now = Inr (db', o2)" and v: "valid_pos_refund body"
    and t: "\<And>o1. order_of db (au_business_id user) oid = Inr o1 \<Longrightarrow> 0 \<le> or_total_cents o1"
  obtains o1 c where "reverses db user oid now o1 o2 c db'"
proof -
  let ?b = "au_business_id user"
  let ?amt = "\<lambda>o1. refund_amount (pr_amount_cents body) (or_total_cents o1)"
  from r obtain o1 c db1 db2 where o1: "load_pos_order_for_reversal db ?b oid = Inr o1"
    and till: "require_open_till_for_cash_reversal db ?b o1 = Inr ()"
    and c: "refund_cash db o1 body (?amt o1) = Inr c" and o2: "o2 = refunded_order o1 body (?amt o1) c now"
    and s: "(if pr_restore_stock body
       then return_stock (flag_provider_refund (write_order o2 db) o2 (?amt o1) c) user oid (''Refund with stock returned: '' @ text_of (pr_reason body)) now
       else Inr (flag_provider_refund (write_order o2 db) o2 (?amt o1) c)) = Inr db1"
    and p: "(if ?amt o1 = or_total_cents o1 \<and> pr_restore_loyalty_points body then return_points db1 user o2 else Inr db1) = Inr db2"
    and k: "commit_shop (add_audit ?b (Some (au_user_id user)) ''order.pos.refunded'' oid db2) = Inr db'"
    unfolding refund_pos_order_def Let_def and_then_eq_Inr by auto
  have st: "sh_orders db1 = sh_orders (write_order o2 db) \<and> sh_tills db1 = sh_tills db \<and>
      map alloc_view (sh_allocations db1) = map alloc_view (sh_allocations db)"
    using s by (cases "pr_restore_stock body") (auto dest: return_stock_shape)
  have st2: "sh_orders db2 = sh_orders db1 \<and> sh_tills db2 = sh_tills db1 \<and> sh_allocations db2 = sh_allocations db1"
    using p by (cases "?amt o1 = or_total_cents o1 \<and> pr_restore_loyalty_points body") (auto dest: return_points_shape)
  note ld = o1 [unfolded load_for_reversal]
  have amt: "0 \<le> ?amt o1" using v t ld by (auto simp: refund_amount_def valid_pos_refund_def split: option.splits)
  have hc: "c \<noteq> 0 \<longrightarrow> has_cash db o1" using refund_cash_has_cash [OF c amt] by blast
  show thesis
    by (rule that [of o1 c]) (use ld till hc st st2 k o2 order_of_in [of db ?b oid o1] in
      \<open>auto simp: reverses_def refunded_order_def commit_shop_eq\<close>)
qed

lemma void_reverses:
  assumes r: "void_pos_order db user oid reason now = Inr (db', o2)"
    and t: "\<And>o1. order_of db (au_business_id user) oid = Inr o1 \<Longrightarrow> 0 \<le> or_total_cents o1"
  obtains o1 where "reverses db user oid now o1 o2 (compute_cash_portion db o1 (or_total_cents o1)) db'"
proof -
  let ?b = "au_business_id user"
  let ?c = "\<lambda>o1. compute_cash_portion db o1 (or_total_cents o1)"
  from r obtain o1 db1 db2 where o1: "load_pos_order_for_reversal db ?b oid = Inr o1"
    and till: "require_open_till_for_cash_reversal db ?b o1 = Inr ()"
    and o2: "o2 = voided_order o1 user reason (?c o1) now"
    and s: "return_stock (flag_provider_refund (write_order o2 db) o2 (or_total_cents o1) (?c o1)) user oid (''Void: '' @ reason) now = Inr db1"
    and p: "return_points db1 user o2 = Inr db2"
    and k: "commit_shop (add_audit ?b (Some (au_user_id user)) ''order.pos.voided'' oid db2) = Inr db'"
    unfolding void_pos_order_def Let_def and_then_eq_Inr by auto
  note ld = o1 [unfolded load_for_reversal]
  have hc: "?c o1 \<noteq> 0 \<longrightarrow> has_cash db o1" using no_cash_no_portion(2) [of db o1 "or_total_cents o1"] t ld by fastforce
  show thesis
    by (rule that [of o1]) (use ld till hc return_stock_shape [OF s] return_points_shape [OF p] k o2 order_of_in [of db ?b oid o1] in
      \<open>auto simp: reverses_def voided_order_def commit_shop_eq\<close>)
qed

subsection \<open>The steps\<close>

text \<open>
  The requests of one business to the till endpoints, one after the other, each at a later
  instant, with the cash event it stands for.  Fresh identifiers are fresh.
\<close>

inductive till_step :: "uuid \<Rightarrow> instant \<times> shop_db \<Rightarrow> cash_event list \<Rightarrow> instant \<times> shop_db \<Rightarrow> bool" for b where
  till_opened: "open_till db db user n sid now = Inr (db', s) \<Longrightarrow> au_business_id user = b \<Longrightarrow> t < now \<Longrightarrow>
    sid \<notin> ts_id ` set (sh_tills db) \<Longrightarrow> till_step b (t, db) [Opened n] (now, db')"
| sold: "create_pos_order db db user body oid cid now = Inr (db', o1) \<Longrightarrow> au_business_id user = b \<Longrightarrow> t < now \<Longrightarrow>
    or_id o1 = oid \<Longrightarrow> oid \<notin> or_id ` set (sh_orders db) \<Longrightarrow> 0 \<le> or_total_cents o1 \<Longrightarrow>
    till_step b (t, db) [Taken (cash_allocated db' oid)] (now, db')"
| refunded: "refund_pos_order db user oid body now = Inr (db', o2) \<Longrightarrow> au_business_id user = b \<Longrightarrow> t < now \<Longrightarrow>
    valid_pos_refund body \<Longrightarrow> till_step b (t, db) [HandedBack (dict_get 0 (or_refund_cash_cents o2))] (now, db')"
| voided: "void_pos_order db user oid reason now = Inr (db', o2) \<Longrightarrow> au_business_id user = b \<Longrightarrow> t < now \<Longrightarrow>
    till_step b (t, db) [HandedBack (dict_get 0 (or_refund_cash_cents o2))] (now, db')"
| till_closed: "close_till db user sid n now = Inr (db', s) \<Longrightarrow> au_business_id user = b \<Longrightarrow> t < now \<Longrightarrow>
    till_step b (t, db) [Counted (dict_get 0 (ts_expected_cash_cents s))] (now, db')"
| link_requested: "create_pos_payment_intent link db user n phone iid now = Inr (db', i) \<Longrightarrow> au_business_id user = b \<Longrightarrow>
    t < now \<Longrightarrow> till_step b (t, db) [] (now, db')"
| link_cancelled: "cancel_pos_payment_intent db user iid now = Inr db' \<Longrightarrow> au_business_id user = b \<Longrightarrow> t < now \<Longrightarrow>
    till_step b (t, db) [] (now, db')"
| link_paid: "t < now \<Longrightarrow> till_step b (t, db) [] (now, mark_intent_paid db ref b pref a cur now)"
| provider_refund: "confirm_pos_order_provider_refund db user oid now = Inr (db', o1) \<Longrightarrow> au_business_id user = b \<Longrightarrow>
    t < now \<Longrightarrow> till_step b (t, db) [] (now, db')"

inductive till_run :: "uuid \<Rightarrow> instant \<times> shop_db \<Rightarrow> cash_event list \<Rightarrow> instant \<times> shop_db \<Rightarrow> bool" for b where
  finished: "till_run b x [] x"
| more: "till_step b x es y \<Longrightarrow> till_run b y es' z \<Longrightarrow> till_run b x (es @ es') z"

lemma alloc_view_in:
  assumes "map alloc_view (sh_allocations db') = map alloc_view (sh_allocations db)" "a \<in> set (sh_allocations db')"
  obtains a0 where "a0 \<in> set (sh_allocations db)" "pa_order_id a = pa_order_id a0" "pa_till_session_id a = pa_till_session_id a0"
proof -
  have "alloc_view ` set (sh_allocations db') = alloc_view ` set (sh_allocations db)" using assms(1) by (metis set_map)
  moreover have "alloc_view a \<in> alloc_view ` set (sh_allocations db')" using assms(2) by simp
  ultimately obtain a0 where "a0 \<in> set (sh_allocations db)" "alloc_view a = alloc_view a0" by auto
  then show thesis by (intro that [of a0]) (simp_all add: alloc_view_def)
qed

text \<open>The invariant survives new orders rows with the same ids, as long as they refer to what exists.\<close>

lemma till_inv_view:
  assumes inv: "till_inv t db" and v: "map alloc_view (sh_allocations db') = map alloc_view (sh_allocations db)"
    and ids: "map or_id (sh_orders db') = map or_id (sh_orders db)"
    and rows: "\<And>r. r \<in> set (sh_orders db') \<Longrightarrow> set_option (or_till_session_id r) \<subseteq> ts_id ` set (sh_tills db) \<and>
      0 \<le> or_total_cents r \<and> (\<forall>u \<in> set_option (or_refunded_at r). u \<le> t')"
    and ti: "map (\<lambda>s. (ts_id s, ts_opened_at s)) (sh_tills db') = map (\<lambda>s. (ts_id s, ts_opened_at s)) (sh_tills db)"
    and ok: "shop_ok db'" and t: "t \<le> t'"
  shows "till_inv t' db'"
proof -
  note i = inv [unfolded till_inv_def]
  have idset: "or_id ` set (sh_orders db') = or_id ` set (sh_orders db)" using ids by (metis set_map)
  have tids: "map ts_id (sh_tills db') = map ts_id (sh_tills db)" "map ts_opened_at (sh_tills db') = map ts_opened_at (sh_tills db)"
    using arg_cong [OF ti, of "map fst"] arg_cong [OF ti, of "map snd"] by (simp_all add: comp_def)
  have tset: "ts_id ` set (sh_tills db') = ts_id ` set (sh_tills db)"
    "ts_opened_at ` set (sh_tills db') = ts_opened_at ` set (sh_tills db)" using tids by (metis set_map)+
  show ?thesis unfolding till_inv_def idset tset(1) ids tids(1)
  proof (intro conjI)
    show "\<forall>a \<in> set (sh_allocations db'). pa_order_id a \<in> or_id ` set (sh_orders db)"
      using i alloc_view_in [OF v] by metis
    show "\<forall>a \<in> set (sh_allocations db'). set_option (pa_till_session_id a) \<subseteq> ts_id ` set (sh_tills db)"
      using i alloc_view_in [OF v] by metis
    have "\<forall>x \<in> ts_opened_at ` set (sh_tills db'). x \<le> t'" unfolding tset(2) using i t by fastforce
    then show "\<forall>s \<in> set (sh_tills db'). ts_opened_at s \<le> t'" by simp
  qed (use i ok rows in simp_all)
qed

lemma inv_orders: "till_inv t db \<Longrightarrow> t \<le> t' \<Longrightarrow> r \<in> set (sh_orders db) \<Longrightarrow>
    set_option (or_till_session_id r) \<subseteq> ts_id ` set (sh_tills db) \<and> 0 \<le> or_total_cents r \<and> (\<forall>u \<in> set_option (or_refunded_at r). u \<le> t')"
  unfolding till_inv_def by (meson order.trans)

lemma unchanged_step:
  assumes "till_inv t db" and "map alloc_view (sh_allocations db') = map alloc_view (sh_allocations db)"
    and "sh_orders db' = sh_orders db" and "sh_tills db' = sh_tills db" and "shop_ok db'" and "t < now"
  shows "till_inv now db' \<and> drawer_run (drawer db b) [] (drawer db' b)"
  using till_inv_view [OF assms(1,2), of now] inv_orders [OF assms(1), of now] drawer_view [OF assms(2-4)] assms(3-6) by simp

lemma change_intent_simps [simp]:
  "sh_orders (change_intent i f db) = sh_orders db" "sh_tills (change_intent i f db) = sh_tills db"
  "sh_allocations (change_intent i f db) = sh_allocations db"
  by (simp_all add: change_intent_def)

lemma mark_intent_paid_shape:
  assumes "shop_ok db"
  shows "sh_orders (mark_intent_paid db r b p a c now) = sh_orders db \<and> sh_tills (mark_intent_paid db r b p a c now) = sh_tills db \<and>
    sh_allocations (mark_intent_paid db r b p a c now) = sh_allocations db \<and> shop_ok (mark_intent_paid db r b p a c now)"
proof -
  have k: "sh_orders (or_keep db (commit_shop (change_intent i f db))) = sh_orders db \<and>
      sh_tills (or_keep db (commit_shop (change_intent i f db))) = sh_tills db \<and>
      sh_allocations (or_keep db (commit_shop (change_intent i f db))) = sh_allocations db \<and>
      shop_ok (or_keep db (commit_shop (change_intent i f db)))" for i f
    using assms by (simp add: or_keep_commit)
  show ?thesis using assms k
    by (simp add: mark_intent_paid_def split: option.split sum.split)
qed

lemma opened_step:
  assumes inv: "till_inv t db" and o: "open_till db db user n sid now = Inr (db', s)" and b: "au_business_id user = b"
    and now: "t < now" and new: "sid \<notin> ts_id ` set (sh_tills db)"
  shows "till_inv now db' \<and> drawer_run (drawer db b) [Opened n] (drawer db' b)"
proof -
  from o b have s: "s = new_till user sid n now" and none: "filter (is_open_till b) (sh_tills db) = []"
    and d: "db' = db\<lparr>sh_tills := sh_tills db @ [s]\<rparr>" and ok: "shop_ok db'"
    by (auto simp: open_till_def Let_def and_then_eq_Inr scalar_one_or_none_None commit_shop_eq split: sum.splits if_splits)
  have open1: "filter (is_open_till b) (sh_tills db') = [s]" using none b by (simp add: d s is_open_till_def new_till_def)
  have id: "ts_id s = sid" "ts_opened_at s = now" "ts_opening_float_cents s = n" by (simp_all add: s new_till_def)
  have "allocation_cash_cents db' sid = 0"
  proof -
    have "filter (\<lambda>a. pa_till_session_id a = Some sid \<and> pa_payment_method a = M_CASH) (sh_allocations db) = []"
      using inv new by (fastforce simp: till_inv_def filter_empty_conv)
    then show ?thesis by (simp add: allocation_cash_cents_def d)
  qed
  moreover have "legacy_cash_cents db' sid = 0"
  proof -
    have "filter (is_legacy_cash db' sid) (sh_orders db) = []"
      using inv new by (fastforce simp: till_inv_def filter_empty_conv is_legacy_cash_def)
    then show ?thesis by (simp add: legacy_cash_cents_def d)
  qed
  moreover have "cash_refunds_cents db' b now = 0"
  proof -
    have "filter (refunded_since b now) (sh_orders db) = []"
      using inv now by (fastforce simp: till_inv_def filter_empty_conv refunded_since_def split: option.splits)
    then show ?thesis by (simp add: cash_refunds_cents_def d)
  qed
  ultimately have "drawer db' b = Some n"
    by (simp add: drawer_def open1 session_expected_def id compute_expected_cash_cents_def)
  moreover have "drawer db b = None" by (simp add: drawer_def none)
  moreover have "till_inv now db'" using inv new ok now id by (fastforce simp: till_inv_def d)
  ultimately show ?thesis by (simp add: drawer_step.opened)
qed

lemma latest_session_in: "latest_session s ss \<in> set (s # ss)"
  by (induction ss arbitrary: s) (auto split: if_splits)

lemma get_open_till_in:
  "get_open_till db b = Inr s \<Longrightarrow> s \<in> set (sh_tills db) \<and> is_open_till b s"
proof -
  assume "get_open_till db b = Inr s"
  then obtain x xs where f: "filter (is_open_till b) (sh_tills db) = x # xs" and s: "s = latest_session x xs"
    by (auto simp: get_open_till_def split: list.splits)
  from latest_session_in [of x xs] have "s \<in> set (filter (is_open_till b) (sh_tills db))" unfolding f s .
  then show ?thesis by simp
qed

lemma sale_legacy_zero:
  assumes "0 \<le> sl_total_cents s"
  shows "order_payment_method body = Some ''CASH'' \<Longrightarrow> sale_allocations s user body now = [] \<Longrightarrow> sl_total_cents s = 0"
  using assms by (auto simp: order_payment_method_def sale_allocations_def Let_def split: option.splits if_splits)

lemma award_commits:
  assumes "commit_loyalty db = Inr db"
  shows "commit_loyalty (award_loyalty_points_if_enabled db b o1 now) = Inr (award_loyalty_points_if_enabled db b o1 now)"
proof -
  have "award_loyalty_points_if_enabled db b o1 now = db \<or>
      (\<exists>db1. commit_loyalty db1 = Inr (award_loyalty_points_if_enabled db b o1 now))"
    by (auto simp: award_loyalty_points_if_enabled_def and_then_eq_Inr split: option.splits sum.splits if_splits)
  with assms show ?thesis by (metis commit_loyalty_same)
qed

lemma sold_step:
  assumes inv: "till_inv t db" and c: "create_pos_order db db user body oid cid now = Inr (db', o1)"
    and b: "au_business_id user = b" and now: "t < now" and id: "or_id o1 = oid" and new: "oid \<notin> or_id ` set (sh_orders db)"
    and tot: "0 \<le> or_total_cents o1"
  shows "till_inv now db' \<and> drawer_run (drawer db b) [Taken (cash_allocated db' oid)] (drawer db' b)"
proof -
  obtain s staged where f: "fresh_sale db user body oid cid now s staged db' o1" using c id new by (auto elim: new_sale)
  obtain db1 n where till: "get_open_till db (au_business_id user) = Inr (sl_till s)"
    and d1: "sh_orders db1 = sh_orders db" "sh_allocations db1 = sh_allocations db" "sh_tills db1 = sh_tills db"
    and o1: "o1 = sale_order s user body now n" and w: "stage_writes db1 s user body o1 now staged" and ok: "shop_ok staged"
    and so: "sl_order_id s = oid"
    and d': "db' = (if sl_customer_id s \<noteq> None
       then staged\<lparr>sh_loyalty := award_loyalty_points_if_enabled (sh_loyalty staged) (au_business_id user) o1 now\<rparr> else staged)"
    using f by (rule fresh_sale_writes)
  let ?new = "sale_allocations s user body now" and ?till = "sl_till s"
  have ok0: "shop_ok db" using inv by (simp add: till_inv_def)
  have open1: "filter (is_open_till b) (sh_tills db) = [?till]" using get_open_till_drawer [OF ok0] till b by simp
  have os: "sh_orders db' = sh_orders db @ [o1]" and al: "sh_allocations db' = sh_allocations db @ ?new" and ti: "sh_tills db' = sh_tills db"
    using w d1 by (simp_all add: d' stage_writes_def)
  have mine: "pa_order_id a = oid \<and> pa_till_session_id a = Some (ts_id ?till)" if "a \<in> set ?new" for a
    using sale_allocations_of [OF that] so by simp
  have old: "pa_order_id a \<noteq> oid" if "a \<in> set (sh_allocations db)" for a
    using inv new that by (auto simp: till_inv_def)
  let ?cash = "sum_list (map pa_amount_cents (filter (\<lambda>a. pa_payment_method a = M_CASH) ?new))"
  have ca: "cash_allocated db' oid = ?cash"
  proof -
    have "filter (\<lambda>a. pa_order_id a = oid) (sh_allocations db) = []" using old by (auto simp: filter_empty_conv)
    moreover have "filter (\<lambda>a. pa_order_id a = oid) ?new = ?new" using mine by (intro filter_True) auto
    ultimately show ?thesis by (simp add: cash_allocated_def allocations_of_def al)
  qed
  have "allocation_cash_cents db' (ts_id ?till) = allocation_cash_cents db (ts_id ?till) + ?cash"
  proof -
    have "filter (\<lambda>a. pa_till_session_id a = Some (ts_id ?till) \<and> pa_payment_method a = M_CASH) ?new =
        filter (\<lambda>a. pa_payment_method a = M_CASH) ?new" using mine by (intro filter_cong) auto
    then show ?thesis by (simp add: allocation_cash_cents_def al)
  qed
  moreover have "legacy_cash_cents db' (ts_id ?till) = legacy_cash_cents db (ts_id ?till)"
  proof -
    have same: "is_legacy_cash db' (ts_id ?till) r = is_legacy_cash db (ts_id ?till) r" if "r \<in> set (sh_orders db)" for r
    proof -
      from that new have "or_id r \<noteq> oid" by auto
      then have "filter (\<lambda>a. pa_order_id a = or_id r) ?new = []" using mine by (fastforce simp: filter_empty_conv)
      then show ?thesis by (simp add: is_legacy_cash_def allocations_of_def al)
    qed
    have zero: "is_legacy_cash db' (ts_id ?till) o1 \<Longrightarrow> or_total_cents o1 = 0"
    proof -
      assume l: "is_legacy_cash db' (ts_id ?till) o1"
      then have "allocations_of db' oid = []" "order_payment_method body = Some ''CASH''" by (simp_all add: is_legacy_cash_def o1 so)
      moreover have "allocations_of db' oid = ?new"
        using mine old by (simp add: allocations_of_def al filter_empty_conv filter_id_conv)
      ultimately show ?thesis using sale_legacy_zero [of s body user now] tot by (simp add: o1)
    qed
    have "filter (is_legacy_cash db' (ts_id ?till)) (sh_orders db) = filter (is_legacy_cash db (ts_id ?till)) (sh_orders db)"
      using same by (intro filter_cong) auto
    then show ?thesis using zero by (auto simp: legacy_cash_cents_def os)
  qed
  moreover have "cash_refunds_cents db' b (ts_opened_at ?till) = cash_refunds_cents db b (ts_opened_at ?till)"
    by (simp add: cash_refunds_cents_def os refunded_since_def o1)
  ultimately have e: "session_expected db' b ?till = session_expected db b ?till + cash_allocated db' oid"
    by (simp add: session_expected_def compute_expected_cash_cents_def ca)
  have "drawer db b = Some (session_expected db b ?till)" "drawer db' b = Some (session_expected db' b ?till)"
    by (simp_all add: drawer_def open1 ti)
  then have run: "drawer_run (drawer db b) [Taken (cash_allocated db' oid)] (drawer db' b)" by (simp add: e drawer_step.taken)
  have ok': "shop_ok db'"
    using ok award_commits [of "sh_loyalty staged" "au_business_id user" o1 now] by (simp add: d' shop_ok_def)
  have tin: "ts_id ?till \<in> ts_id ` set (sh_tills db)" using get_open_till_in [OF till] by simp
  have "till_inv now db'"
    unfolding till_inv_def os al ti
  proof (intro conjI)
    show "\<forall>a \<in> set (sh_allocations db @ ?new). pa_order_id a \<in> or_id ` set (sh_orders db @ [o1])"
      using inv mine id by (auto simp: till_inv_def)
    show "\<forall>a \<in> set (sh_allocations db @ ?new). set_option (pa_till_session_id a) \<subseteq> ts_id ` set (sh_tills db)"
      using inv mine by (auto simp: till_inv_def intro!: tin)
    show "\<forall>r \<in> set (sh_orders db @ [o1]). set_option (or_till_session_id r) \<subseteq> ts_id ` set (sh_tills db)"
      using inv by (auto simp: till_inv_def o1 intro!: tin)
    show "\<forall>x \<in> set (sh_tills db). ts_opened_at x \<le> now" using inv now by (force simp: till_inv_def)
    show "\<forall>r \<in> set (sh_orders db @ [o1]). \<forall>u \<in> set_option (or_refunded_at r). u \<le> now" using inv now by (force simp: till_inv_def o1)
    show "\<forall>r \<in> set (sh_orders db @ [o1]). 0 \<le> or_total_cents r" using inv tot by (auto simp: till_inv_def)
  qed (use ok' inv new id in \<open>auto simp: till_inv_def\<close>)
  with run show ?thesis by blast
qed

text \<open>A reversal takes its cash out of the open drawer; without cash no drawer is needed.\<close>

lemma reversed_rows:
  assumes inv: "till_inv t db" and r: "reverses db user oid now o1 o2 c db'"
  shows "o1 \<in> set (sh_orders db)" and "or_id o2 = or_id o1"
    and "legacy_cash_cents db' sid = legacy_cash_cents db sid"
    and "opened \<le> now \<Longrightarrow> cash_refunds_cents db' (au_business_id user) opened = cash_refunds_cents db (au_business_id user) opened + c"
proof -
  note d = r [unfolded reverses_def]
  show o1: "o1 \<in> set (sh_orders db)" and id: "or_id o2 = or_id o1" using order_of_in [of db "au_business_id user" oid o1] d by auto
  have dist: "distinct (map or_id (sh_orders db))" using inv by (simp add: till_inv_def)
  have os: "sh_orders db' = update_where (\<lambda>r. or_id r = or_id o2) (\<lambda>_. o2) (sh_orders db)" using d by simp
  have v: "is_legacy_cash db' sid = is_legacy_cash db sid"
    by (rule ext) (use d in \<open>simp add: is_legacy_cash_def no_allocations_view\<close>)
  have "is_legacy_cash db sid o2 = is_legacy_cash db sid o1" using d id by (auto simp: is_legacy_cash_def)
  then show "legacy_cash_cents db' sid = legacy_cash_cents db sid"
    using sum_update_row [OF dist o1 id, of "\<lambda>r. if is_legacy_cash db sid r then or_total_cents r else 0"] d
    by (simp add: legacy_cash_cents_def sum_list_map_filter_if v os)
  show "cash_refunds_cents db' (au_business_id user) opened = cash_refunds_cents db (au_business_id user) opened + c" if "opened \<le> now"
  proof -
    have "\<not> refunded_since (au_business_id user) opened o1" using d by (simp add: refunded_since_def)
    moreover have "refunded_since (au_business_id user) opened o2" using d that by (simp add: refunded_since_def)
    ultimately show ?thesis
      using sum_update_row [OF dist o1 id, of "\<lambda>r. if refunded_since (au_business_id user) opened r then dict_get 0 (or_refund_cash_cents r) else 0"] d
      by (simp add: cash_refunds_cents_def sum_list_map_filter_if os) (simp add: dict_get_def)
  qed
qed

lemma reversed_step:
  assumes inv: "till_inv t db" and r: "reverses db user oid now o1 o2 c db'" and b: "au_business_id user = b" and now: "t < now"
  shows "till_inv now db' \<and> drawer_run (drawer db b) [HandedBack (dict_get 0 (or_refund_cash_cents o2))] (drawer db' b)"
proof -
  note d = r [unfolded reverses_def] and rows = reversed_rows [OF inv r]
  have c: "dict_get 0 (or_refund_cash_cents o2) = c" using d by (simp add: dict_get_def)
  have ti: "sh_tills db' = sh_tills db" and al: "map alloc_view (sh_allocations db') = map alloc_view (sh_allocations db)" using d by simp_all
  have ok: "shop_ok db" using inv by (simp add: till_inv_def)
  have run: "drawer_run (drawer db b) [HandedBack c] (drawer db' b)"
  proof (cases "filter (is_open_till b) (sh_tills db)")
    case Nil
    have "c = 0"
    proof (rule ccontr)
      assume "c \<noteq> 0"
      with d have "has_cash db o1" by simp
      with d b Nil show False by (simp add: require_open_till_for_cash_reversal_def)
    qed
    with Nil show ?thesis by (simp add: drawer_def ti drawer_step.nothing)
  next
    case (Cons s ss)
    with open_till_unique [OF ok, of b] have o: "filter (is_open_till b) (sh_tills db) = [s]" by auto
    then have "s \<in> set (sh_tills db)" using filter_is_subset [of "is_open_till b" "sh_tills db"] by simp
    then have "ts_opened_at s \<le> now" using inv now by (force simp: till_inv_def)
    then have "session_expected db' b s = session_expected db b s - c"
      using rows(3) [of "ts_id s"] rows(4) [of "ts_opened_at s"] b
      by (simp add: session_expected_def compute_expected_cash_cents_def allocation_cash_view al)
    then show ?thesis using o by (simp add: drawer_def ti drawer_step.handed_back)
  qed
  have "till_inv now db'"
  proof (rule till_inv_view [OF inv al])
    show "map or_id (sh_orders db') = map or_id (sh_orders db)" using d rows(2) by (simp add: map_update_where)
    fix r assume "r \<in> set (sh_orders db')"
    then have "r = o2 \<or> r \<in> set (sh_orders db)" using d by (auto simp: set_update_where)
    then show "set_option (or_till_session_id r) \<subseteq> ts_id ` set (sh_tills db) \<and> 0 \<le> or_total_cents r \<and>
        (\<forall>u \<in> set_option (or_refunded_at r). u \<le> now)"
    proof
      assume "r = o2"
      with inv_orders [OF inv _ rows(1), of now] d now show ?thesis by simp
    next
      assume "r \<in> set (sh_orders db)"
      with inv_orders [OF inv, of now] now show ?thesis by simp
    qed
  qed (use d now in simp_all)
  with run c show ?thesis by simp
qed

lemma closed_step:
  assumes inv: "till_inv t db" and k: "close_till db user sid n now = Inr (db', s2)" and b: "au_business_id user = b" and now: "t < now"
  shows "till_inv now db' \<and> drawer_run (drawer db b) [Counted (dict_get 0 (ts_expected_cash_cents s2))] (drawer db' b)"
proof -
  from k b obtain s where f: "scalar_one_or_none (filter (\<lambda>s. ts_id s = sid \<and> ts_business_id s = b) (sh_tills db)) = Inr (Some s)"
    and o: "ts_status s = TILL_OPEN" and s2: "s2 = closed_session s user (session_expected db b s) n now"
    and d: "db' = add_audit b (Some (au_user_id user)) ''pos.till.closed'' sid
      (db\<lparr>sh_tills := update_where (\<lambda>r. ts_id r = sid) (\<lambda>_. s2) (sh_tills db)\<rparr>)" and ok: "shop_ok db'"
    by (auto simp: close_till_def Let_def and_then_eq_Inr or_raise_eq_Inr commit_shop_eq)
  from scalar_one_or_none_filter [OF f] have s: "ts_id s = sid" "ts_business_id s = b" "s \<in> set (sh_tills db)" by simp_all
  have i2: "ts_id s2 = sid" "ts_opened_at s2 = ts_opened_at s" "ts_status s2 = TILL_CLOSED"
    "ts_expected_cash_cents s2 = Some (session_expected db b s)" by (simp_all add: s2 closed_session_def s)
  have ok0: "shop_ok db" and dist: "distinct (map ts_id (sh_tills db))" using inv by (simp_all add: till_inv_def)
  have mem: "s \<in> set (filter (is_open_till b) (sh_tills db))" using s o by (simp add: is_open_till_def)
  from open_till_unique [OF ok0, of b] have o1: "filter (is_open_till b) (sh_tills db) = [s]"
  proof
    assume "filter (is_open_till b) (sh_tills db) = []"
    with mem show ?thesis by (simp only: list.set empty_iff)
  next
    assume "\<exists>x. filter (is_open_till b) (sh_tills db) = [x]"
    then obtain x where x: "filter (is_open_till b) (sh_tills db) = [x]" by blast
    with mem have "s = x" by (simp only: list.set empty_iff insert_iff simp_thms)
    with x show ?thesis by simp
  qed
  have eq: "r = s" if "r \<in> set (sh_tills db)" "ts_id r = sid" for r using distinct_id_eq [OF dist that(1) s(3)] that(2) s(1) by simp
  have none: "filter (is_open_till b) (sh_tills db') = []"
  proof -
    have "\<not> is_open_till b r" if "r \<in> set (sh_tills db')" for r
    proof -
      from that obtain r0 where r0: "r0 \<in> set (sh_tills db)" "r = (if ts_id r0 = sid then s2 else r0)"
        by (auto simp: d set_update_where)
      show ?thesis
      proof (cases "ts_id r0 = sid")
        case True
        with r0 i2 show ?thesis by (simp add: is_open_till_def)
      next
        case False
        with r0 have "r = r0" by simp
        moreover have "\<not> is_open_till b r0"
        proof
          assume "is_open_till b r0"
          with r0(1) have "r0 \<in> set (filter (is_open_till b) (sh_tills db))" by simp
          with o1 False s(1) show False by simp
        qed
        ultimately show ?thesis by simp
      qed
    qed
    then show ?thesis by (simp add: filter_empty_conv)
  qed
  have "drawer_run (drawer db b) [Counted (session_expected db b s)] (drawer db' b)"
    by (simp add: drawer_def o1 none drawer_step.counted)
  moreover have "till_inv now db'"
  proof (rule till_inv_view [OF inv])
    show "map (\<lambda>s. (ts_id s, ts_opened_at s)) (sh_tills db') = map (\<lambda>s. (ts_id s, ts_opened_at s)) (sh_tills db)"
      using eq i2 by (auto simp: d update_where_def)
  qed (use inv_orders [OF inv, of now] ok now in \<open>simp_all add: d\<close>)
  ultimately show ?thesis by (simp add: i2 dict_get_def)
qed

lemma step_refines: "till_step b x es y \<Longrightarrow> till_inv (fst x) (snd x) \<Longrightarrow>
    till_inv (fst y) (snd y) \<and> drawer_run (drawer (snd x) b) es (drawer (snd y) b)"
proof (induction rule: till_step.induct)
  case (till_opened db user n sid now db' s t)
  then show ?case using opened_step by simp
next
  case (sold db user body oid cid now db' o1 t)
  then show ?case using sold_step by simp
next
  case (refunded db user oid body now db' o2 t)
  have "0 \<le> or_total_cents o1" if "order_of db (au_business_id user) oid = Inr o1" for o1
    using order_of_in [OF that] refunded.prems by (simp add: till_inv_def)
  then obtain o1 c where r: "reverses db user oid now o1 o2 c db'" using refund_reverses [OF refunded(1,4)] by blast
  from refunded.prems have "till_inv t db" by simp
  from reversed_step [OF this r refunded(2,3)] show ?case by simp
next
  case (voided db user oid reason now db' o2 t)
  have "0 \<le> or_total_cents o1" if "order_of db (au_business_id user) oid = Inr o1" for o1
    using order_of_in [OF that] voided.prems by (simp add: till_inv_def)
  then obtain o1 c where r: "reverses db user oid now o1 o2 c db'" using void_reverses [OF voided(1)] by blast
  from voided.prems have "till_inv t db" by simp
  from reversed_step [OF this r voided(2,3)] show ?case by simp
next
  case (till_closed db user sid n now db' s t)
  then show ?case using closed_step by simp
next
  case (link_requested link db user n phone iid now db' i t)
  then obtain x where "db' = db\<lparr>sh_intents := x\<rparr>" "shop_ok db'"
    by (auto simp: create_pos_payment_intent_def Let_def and_then_eq_Inr commit_shop_eq)
  with link_requested unchanged_step [of t db db' now b] show ?case by simp
next
  case (link_cancelled db user iid now db' t)
  then obtain f where "db' = change_intent iid f db" "shop_ok db'"
    by (auto simp: cancel_pos_payment_intent_def and_then_eq_Inr commit_shop_eq split: if_splits)
  with link_cancelled unchanged_step [of t db db' now b] show ?case by simp
next
  case (link_paid t now db ref pref a cur)
  then have "shop_ok db" by (simp add: till_inv_def)
  from mark_intent_paid_shape [OF this] link_paid show ?case
    using unchanged_step [of t db "mark_intent_paid db ref b pref a cur now" now b] by simp
next
  case (provider_refund db user oid now db' o1 t)
  then obtain P f where d: "db' = add_audit (au_business_id user) (Some (au_user_id user)) ''order.pos.provider_refund_confirmed'' oid
      (db\<lparr>sh_allocations := update_where P (\<lambda>a. a\<lparr>pa_provider_refund_status := Some CONFIRMED, pa_provider_refund_confirmed_at := Some now,
                       pa_provider_refund_confirmed_by_user_id := Some f\<rparr>) (sh_allocations db)\<rparr>)" "shop_ok db'"
    by (auto simp: confirm_pos_order_provider_refund_def Let_def and_then_eq_Inr commit_shop_eq)
  then have "map alloc_view (sh_allocations db') = map alloc_view (sh_allocations db)" by (simp add: map_update_where alloc_view_def)
  with d provider_refund unchanged_step [of t db db' now b] show ?case by simp
qed

text \<open>
  C10: The cash-up refines a cash drawer: whatever sales, refunds, voids, payment links,
  openings and closings a business runs through the till endpoints, the cash the code
  recomputes from allocations, orders and refunds is what a drawer holds into which the
  same cash was put and from which the same cash was handed back; the expectation
  recorded at a close is the content of that drawer.
\<close>

theorem till_refines_drawer:
  assumes "till_run b (t, db) es (t', db')" and "till_inv t db"
  shows "till_inv t' db' \<and> drawer_run (drawer db b) es (drawer db' b) \<and>
    dict_get 0 (drawer db' b) = dict_get 0 (drawer db b) + cash_flow es"
proof -
  have "till_inv (fst y) (snd y) \<and> drawer_run (drawer (snd x) b) es (drawer (snd y) b)"
    if "till_run b x es y" "till_inv (fst x) (snd x)" for x y
    using that
  proof (induction rule: till_run.induct)
    case (more x es y es' z)
    from step_refines [OF more.hyps(1) more.prems] more.IH drawer_run_append show ?case by blast
  qed simp
  from this [OF assms(1)] assms(2) have r: "till_inv t' db'" "drawer_run (drawer db b) es (drawer db' b)" by simp_all
  with drawer_run_balance [OF r(2)] show ?thesis by simp
qed

text \<open>A float of R500, a sale of R286 and a count.\<close>

lemma till_refines_drawer_witness:
  "\<exists>db1 db2 s. create_pos_order sample_pos_shop sample_pos_shop sample_owner sample_checkout 88 89 1000 = Inr db1 \<and>
     close_till (fst db1) sample_owner 60 78000 2000 = Inr (db2, s) \<and> ts_expected_cash_cents s = Some 78600 \<and>
     ts_variance_cents s = Some (- 600) \<and> drawer_run (Some 50000) [Taken 28600, Counted 78600] (drawer db2 10)"
proof -
  obtain r where c: "create_pos_order sample_pos_shop sample_pos_shop sample_owner sample_checkout 88 89 1000 =
      Inr (sample_sold r, sale_order (sample_sale r) sample_owner sample_checkout 1000 1)" by (rule sample_pos_checkout)
  let ?o1 = "sale_order (sample_sale r) sample_owner sample_checkout 1000 1"
  let ?db1 = "sample_sold r"
  have al: "sh_allocations ?db1 = sale_allocations (sample_sale r) sample_owner sample_checkout 1000" "sh_orders ?db1 = [?o1]"
    "sh_tills ?db1 = [sample_till]" "sh_businesses ?db1 = [sample_pos_business\<lparr>bu_order_number_sequence := 1\<rparr>]"
    by (simp_all add: sample_sold_def Let_def)
  have one: "sale_allocations (sample_sale r) sample_owner sample_checkout 1000 =
      [(sale_allocation (sample_sale r) sample_owner 1000 M_CASH 28600)\<lparr>pa_cash_tendered_cents := Some 30000,
         pa_change_due_cents := Some 1400, pa_payment_reference := pc_payment_reference sample_checkout\<rparr>]"
    by (simp add: sale_allocations_def sample_sale_def)
  have till: "ts_id sample_till = 60" "ts_status sample_till = TILL_OPEN" "ts_business_id sample_till = 10"
    "ts_opening_float_cents sample_till = 50000" "ts_opened_at sample_till = 5" by (simp_all add: sample_till_def)
  have st: "ts_id (sl_till (sample_sale r)) = 60" "sl_order_id (sample_sale r) = 88" "sl_total_cents (sample_sale r) = 28600"
    by (simp_all add: sample_sale_def till)
  have e: "session_expected ?db1 10 sample_till = 78600"
    by (simp add: session_expected_def compute_expected_cash_cents_def allocation_cash_cents_def legacy_cash_cents_def
        is_legacy_cash_def allocations_of_def cash_refunds_cents_def refunded_since_def al one till st)
  let ?s = "closed_session sample_till sample_owner 78600 78000 2000"
  have ok: "shop_ok (?db1\<lparr>sh_tills := [?s]\<rparr>)"
    using sample_sold_ok [of r] by (simp add: shop_ok_def unique_index_def open_till_key_def closed_session_def)
  have k: "close_till ?db1 sample_owner 60 78000 2000 =
      Inr (add_audit 10 (Some (au_user_id sample_owner)) ''pos.till.closed'' 60 (?db1\<lparr>sh_tills := [?s]\<rparr>), ?s)"
    by (simp add: close_till_def Let_def require_pos_enabled_def al dict_get_def till e update_where_def commit_shop_ok ok)
  have inv: "till_inv 10 sample_pos_shop"
    by (simp add: till_inv_def till shop_ok_def unique_index_def open_till_key_def)
      (simp add: sample_pos_shop_def sample_shop_def commit_loyalty_def unique_index_def stock_index_def)
  have ca: "cash_allocated ?db1 88 = 28600" by (simp add: cash_allocated_def allocations_of_def al one st)
  have sell: "till_step 10 (10, sample_pos_shop) [Taken (cash_allocated ?db1 88)] (1000, ?db1)"
    by (rule till_step.sold [OF c]) (simp_all add: st)
  have count: "till_step 10 (1000, ?db1) [Counted (dict_get 0 (ts_expected_cash_cents ?s))]
      (2000, add_audit 10 (Some (au_user_id sample_owner)) ''pos.till.closed'' 60 (?db1\<lparr>sh_tills := [?s]\<rparr>))"
    by (rule till_step.till_closed [OF k]) simp_all
  note run = till_refines_drawer [OF till_run.more [OF sell till_run.more [OF count till_run.finished]] inv]
  have "drawer sample_pos_shop 10 = Some 50000"
    by (simp add: drawer_def is_open_till_def till session_expected_def compute_expected_cash_cents_def allocation_cash_cents_def
        legacy_cash_cents_def cash_refunds_cents_def)
  with run ca have "drawer_run (Some 50000) [Taken 28600, Counted 78600]
      (drawer (add_audit 10 (Some (au_user_id sample_owner)) ''pos.till.closed'' 60 (?db1\<lparr>sh_tills := [?s]\<rparr>)) 10)"
    by (simp add: closed_session_def dict_get_def)
  with c k show ?thesis by (auto simp: closed_session_def compute_variance_cents_def)
qed

end
