(* ===== verification/PosRefunds.thy ===== *)
theory PosRefunds imports PosTill begin

text \<open>
  What a refund or a void of a till sale promises: it happens once, it returns no more
  money than was taken, and a void undoes what the sale did to the stock and to the
  points.  And what a later confirmation of a provider still does to a reversed order.
\<close>

lemma return_stock_businesses: "return_stock db user oid n now = Inr db' \<Longrightarrow> sh_businesses db' = sh_businesses db"
  by (auto simp: return_stock_def and_then_eq_Inr split: option.splits if_splits)

lemma return_points_businesses: "return_points db user o1 = Inr db' \<Longrightarrow> sh_businesses db' = sh_businesses db"
  by (auto simp: return_points_def and_then_eq_Inr split: if_splits)

lemma write_order_businesses [simp]: "sh_businesses (write_order o1 db) = sh_businesses db"
  by (simp add: write_order_def)

lemma cash_allocated_bounds:
  assumes "shop_ok db"
  shows "0 \<le> cash_allocated db oid"
proof -
  have "0 < pa_amount_cents a" if "a \<in> set (sh_allocations db)" for a
    using assms that by (auto simp: shop_ok_def list_all_iff allocation_ok_def)
  then show ?thesis
    unfolding cash_allocated_def allocations_of_def by (intro sum_list_nonneg) (force simp: less_imp_le)
qed

lemma compute_cash_portion_bounds:
  assumes "shop_ok db" "0 \<le> n"
  shows "0 \<le> compute_cash_portion db o1 n \<and> compute_cash_portion db o1 n \<le> n"
  using cash_allocated_bounds [OF assms(1), of "or_id o1"] assms(2) by (simp add: compute_cash_portion_def)

lemma refund_cash_bounds:
  assumes "shop_ok db" "valid_pos_refund body" "0 \<le> n" "refund_cash db o1 body n = Inr c"
  shows "0 \<le> c \<and> c \<le> n"
  using assms cash_allocated_bounds [OF assms(1), of "or_id o1"] compute_cash_portion_bounds [OF assms(1,3), of o1]
  by (auto simp: refund_cash_def Let_def and_then_eq_Inr or_raise_eq_Inr valid_pos_refund_def split: if_splits)

lemma stock_returned_only_if_kept:
  assumes "return_stock db user oid n now = Inr db'"
    and "\<not> (\<exists>b \<in> set (sh_businesses db). bu_id b = au_business_id user \<and> bu_inventory_enabled b)"
  shows "sh_stock db' = sh_stock db"
proof -
  from assms(1) obtain row where r: "scalar_one_or_none (filter (\<lambda>b. bu_id b = au_business_id user) (sh_businesses db)) = Inr row"
    by (auto simp: return_stock_def and_then_eq_Inr)
  show ?thesis
  proof (cases row)
    case None
    with assms(1) r show ?thesis by (simp add: return_stock_def)
  next
    case (Some b)
    with scalar_one_or_none_filter [of "\<lambda>b. bu_id b = au_business_id user" "sh_businesses db" b] r
    have "b \<in> set (sh_businesses db)" "bu_id b = au_business_id user" by simp_all
    then have "\<not> bu_inventory_enabled b" using assms(2) by blast
    with assms(1) r Some show ?thesis by (simp add: return_stock_def)
  qed
qed

text \<open>The order after a reversal, its recorded amounts, and the unchanged settings.\<close>

definition reversed_as :: "shop_db \<Rightarrow> uuid \<Rightarrow> uuid \<Rightarrow> order \<Rightarrow> order \<Rightarrow> shop_db \<Rightarrow> bool" where
  "reversed_as db b oid o1 o2 db' = (order_of db b oid = Inr o1 \<and> or_source o1 = POS \<and> or_payment_status o1 = PS_PAID \<and>
     or_source o2 = POS \<and> or_id o2 = oid \<and> or_business_id o2 = b \<and> or_total_cents o2 = or_total_cents o1 \<and>
     or_payment_status o2 \<in> {PS_REFUNDED, PS_PARTIALLY_REFUNDED, PS_VOIDED} \<and>
     sh_orders db' = sh_orders (write_order o2 db) \<and> sh_businesses db' = sh_businesses db \<and>
     require_pos_enabled db b = Inr () \<and>
     (\<exists>a c. or_refund_amount_cents o2 = Some a \<and> or_refund_cash_cents o2 = Some c \<and> 0 \<le> c \<and> c \<le> a \<and> a \<le> or_total_cents o1))"

lemma refund_reversed:
  assumes r: "refund_pos_order db user oid body now = Inr (db', o2)" and v: "valid_pos_refund body" and ok: "shop_ok db"
    and t: "\<And>o1. order_of db (au_business_id user) oid = Inr o1 \<Longrightarrow> 0 \<le> or_total_cents o1"
  obtains o1 where "reversed_as db (au_business_id user) oid o1 o2 db'"
proof -
  let ?b = "au_business_id user"
  let ?amt = "\<lambda>o1. refund_amount (pr_amount_cents body) (or_total_cents o1)"
  from r obtain o1 c db1 db2 where pe: "require_pos_enabled db ?b = Inr ()" and o1: "load_pos_order_for_reversal db ?b oid = Inr o1"
    and le: "\<not> ?amt o1 > or_total_cents o1"
    and c: "refund_cash db o1 body (?amt o1) = Inr c" and o2: "o2 = refunded_order o1 body (?amt o1) c now"
    and s: "(if pr_restore_stock body
       then return_stock (flag_provider_refund (write_order o2 db) o2 (?amt o1) c) user oid (''Refund with stock returned: '' @ text_of (pr_reason body)) now
       else Inr (flag_provider_refund (write_order o2 db) o2 (?amt o1) c)) = Inr db1"
    and p: "(if ?amt o1 = or_total_cents o1 \<and> pr_restore_loyalty_points body then return_points db1 user o2 else Inr db1) = Inr db2"
    and k: "commit_shop (add_audit ?b (Some (au_user_id user)) ''order.pos.refunded'' oid db2) = Inr db'"
    unfolding refund_pos_order_def Let_def and_then_eq_Inr by auto
  have st: "sh_orders db1 = sh_orders (write_order o2 db) \<and> sh_businesses db1 = sh_businesses db"
    using s by (cases "pr_restore_stock body") (auto dest: return_stock_shape return_stock_businesses)
  have st2: "sh_orders db2 = sh_orders db1 \<and> sh_businesses db2 = sh_businesses db1"
    using p by (cases "?amt o1 = or_total_cents o1 \<and> pr_restore_loyalty_points body") (auto dest: return_points_shape return_points_businesses)
  note ld = o1 [unfolded load_for_reversal]
  have amt: "0 \<le> ?amt o1" using v t ld by (auto simp: refund_amount_def valid_pos_refund_def split: option.splits)
  note cb = refund_cash_bounds [OF ok v amt c]
  show thesis
    by (rule that [of o1]) (use ld st st2 k o2 le cb pe order_of_in [of db ?b oid o1] in
      \<open>auto simp: reversed_as_def refunded_order_def commit_shop_eq\<close>)
qed

lemma void_shape:
  assumes r: "void_pos_order db user oid reason now = Inr (db', o2)"
  obtains o1 c db1 db2 where "require_pos_enabled db (au_business_id user) = Inr ()"
    "load_pos_order_for_reversal db (au_business_id user) oid = Inr o1"
    "c = compute_cash_portion db o1 (or_total_cents o1)" "o2 = voided_order o1 user reason c now"
    "return_stock (flag_provider_refund (write_order o2 db) o2 (or_total_cents o1) c) user oid (''Void: '' @ reason) now = Inr db1"
    "return_points db1 user o2 = Inr db2"
    "db' = add_audit (au_business_id user) (Some (au_user_id user)) ''order.pos.voided'' oid db2" "shop_ok db'"
  using r unfolding void_pos_order_def Let_def and_then_eq_Inr commit_shop_eq by auto

lemma void_reversed:
  assumes r: "void_pos_order db user oid reason now = Inr (db', o2)" and ok: "shop_ok db"
    and t: "\<And>o1. order_of db (au_business_id user) oid = Inr o1 \<Longrightarrow> 0 \<le> or_total_cents o1"
  obtains o1 where "reversed_as db (au_business_id user) oid o1 o2 db'"
proof -
  let ?b = "au_business_id user"
  from r obtain o1 c db1 db2 where pe: "require_pos_enabled db ?b = Inr ()" and o1: "load_pos_order_for_reversal db ?b oid = Inr o1"
    and c: "c = compute_cash_portion db o1 (or_total_cents o1)" and o2: "o2 = voided_order o1 user reason c now"
    and s: "return_stock (flag_provider_refund (write_order o2 db) o2 (or_total_cents o1) c) user oid (''Void: '' @ reason) now = Inr db1"
    and p: "return_points db1 user o2 = Inr db2" and k: "db' = add_audit ?b (Some (au_user_id user)) ''order.pos.voided'' oid db2"
    by (rule void_shape)
  note ld = o1 [unfolded load_for_reversal]
  have cb: "0 \<le> c \<and> c \<le> or_total_cents o1" unfolding c using t ld by (intro compute_cash_portion_bounds [OF ok]) simp
  show thesis
    by (rule that [of o1]) (use ld cb pe o2 k return_stock_shape [OF s] return_points_shape [OF p] return_stock_businesses [OF s]
        return_points_businesses [OF p] order_of_in [of db ?b oid o1] in
      \<open>auto simp: reversed_as_def voided_order_def\<close>)
qed

text \<open>
  C3: A sale is reversed once: after a successful refund or void, every further
  refund and every further void of the order, by whichever manager and at whatever time, is
  refused as not paid and changes nothing, also after a partial refund; and what was recorded as returned is not negative, at
  most the total, and its cash portion at most the refund.
\<close>

theorem reversal_happens_once:
  assumes "refund_pos_order db user oid body now = Inr (db', o2) \<and> valid_pos_refund body \<or>
      void_pos_order db user oid reason now = Inr (db', o2)"
    and ok: "shop_ok db" and d: "distinct (map or_id (sh_orders db))"
    and t: "\<forall>r \<in> set (sh_orders db). 0 \<le> or_total_cents r" and u: "au_business_id user2 = au_business_id user"
  shows "refund_pos_order db' user2 oid body2 now2 = Inl (AppError ''ORDER_NOT_PAID'' 422) \<and>
    void_pos_order db' user2 oid reason2 now2 = Inl (AppError ''ORDER_NOT_PAID'' 422) \<and>
    (\<exists>a c. or_refund_amount_cents o2 = Some a \<and> or_refund_cash_cents o2 = Some c \<and> 0 \<le> c \<and> c \<le> a \<and> a \<le> or_total_cents o2)"
proof -
  have t': "0 \<le> or_total_cents o1" if "order_of db (au_business_id user) oid = Inr o1" for o1
    using order_of_in [OF that] t by simp
  from assms(1) obtain o1 where r: "reversed_as db (au_business_id user) oid o1 o2 db'"
    by (elim disjE conjE) (use refund_reversed [OF _ _ ok t'] void_reversed [OF _ ok t'] in blast)+
  then have o2: "or_id o2 = oid" "or_business_id o2 = au_business_id user" and os: "sh_orders db' = sh_orders (write_order o2 db)"
    and o1: "order_of db (au_business_id user) oid = Inr o1" by (simp_all add: reversed_as_def)
  from order_of_written(1) [OF d o1 o2 os] r u
  have "load_pos_order_for_reversal db' (au_business_id user2) oid = Inl (AppError ''ORDER_NOT_PAID'' 422)"
    by (auto simp: load_pos_order_for_reversal_def reversed_as_def)
  moreover have "require_pos_enabled db' (au_business_id user2) = Inr ()"
    using r u by (simp add: reversed_as_def require_pos_enabled_def)
  ultimately show ?thesis using r by (simp add: refund_pos_order_def void_pos_order_def reversed_as_def)
qed

text \<open>
  C5: A void undoes the sale: the order ends voided and cancelled with its whole total
  recorded as returned, its ingredients net to zero in the ledger if the business keeps
  stock and the stock is untouched otherwise, and if the sale redeemed a reward the points
  that were spent go back to the customer who spent them and to nobody else.
\<close>

theorem void_undoes_sale:
  assumes v: "void_pos_order db user oid reason now = Inr (db', o2)" and l: "ledger_ok (sd_movements (sh_stock db))"
  shows "or_payment_status o2 = PS_VOIDED \<and> or_status o2 = CANCELLED \<and> or_refund_amount_cents o2 = Some (or_total_cents o2) \<and>
    ledger_ok (sd_movements (sh_stock db')) \<and>
    (if \<exists>b \<in> set (sh_businesses db). bu_id b = au_business_id user \<and> bu_inventory_enabled b
     then order_net (sd_movements (sh_stock db')) (au_business_id user) oid i = 0 else sh_stock db' = sh_stock db) \<and>
    (\<forall>t. or_loyalty_reward_id o2 \<noteq> None \<longrightarrow> redemptions (sh_loyalty db) (au_business_id user) oid = [t] \<longrightarrow>
       reversals (sh_loyalty db) (au_business_id user) oid = [] \<longrightarrow>
       points_of (ld_txns (sh_loyalty db')) c = points_of (ld_txns (sh_loyalty db)) c
         + (if c = lt_customer_id t then - lt_points_delta t else 0))"
proof -
  let ?b = "au_business_id user"
  from v obtain o1 k db1 db2 where o1: "load_pos_order_for_reversal db ?b oid = Inr o1"
    and o2: "o2 = voided_order o1 user reason k now"
    and s: "return_stock (flag_provider_refund (write_order o2 db) o2 (or_total_cents o1) k) user oid (''Void: '' @ reason) now = Inr db1"
    and p: "return_points db1 user o2 = Inr db2" and d: "db' = add_audit ?b (Some (au_user_id user)) ''order.pos.voided'' oid db2"
    by (rule void_shape)
  have id: "or_id o2 = oid" using o1 order_of_in [of db ?b oid o1] by (simp add: load_for_reversal o2 voided_order_def)
  have w: "sh_stock (write_order o2 db) = sh_stock db" "sh_loyalty (write_order o2 db) = sh_loyalty db" by (simp_all add: write_order_def)
  have st: "sh_stock db' = sh_stock db1" using return_points_shape [OF p] by (simp add: d add_audit_def)
  have stock: "ledger_ok (sd_movements (sh_stock db1)) \<and>
      (if \<exists>b \<in> set (sh_businesses db). bu_id b = ?b \<and> bu_inventory_enabled b
       then order_net (sd_movements (sh_stock db1)) ?b oid i = 0 else sh_stock db1 = sh_stock db)"
  proof (cases "\<exists>b \<in> set (sh_businesses db). bu_id b = ?b \<and> bu_inventory_enabled b")
    case True
    with return_stock_shape [OF s] w obtain n where r: "reverse_sale_consumption (sh_stock db) ?b oid (Some (au_user_id user))
        (Some (''Void: '' @ reason)) now = Inr (sh_stock db1, n)" by auto
    from True reverse_ledger_ok(1) [OF r l] order_net_zero [OF reverse_ledger_ok [OF r l]] show ?thesis by simp
  next
    case False
    then have "sh_stock db1 = sh_stock db" using stock_returned_only_if_kept [OF s] w by simp
    with False l show ?thesis by (simp only: if_False)
  qed
  have points: "points_of (ld_txns (sh_loyalty db')) c = points_of (ld_txns (sh_loyalty db)) c
         + (if c = lt_customer_id t then - lt_points_delta t else 0)"
    if "or_loyalty_reward_id o2 \<noteq> None" "redemptions (sh_loyalty db) ?b oid = [t]" "reversals (sh_loyalty db) ?b oid = []" for t
  proof -
    from return_points_shape [OF p] return_stock_shape [OF s] that w id obtain n where
      "reverse_redemption (sh_loyalty db) ?b oid = Inr (sh_loyalty db2, n)" by auto
    from reversed_points [OF this that(2,3)] show ?thesis by (simp add: d add_audit_def)
  qed
  show ?thesis using stock points by (simp add: st o2 voided_order_def)
qed

text \<open>A card sale that took 300 grams of flour.\<close>

definition sample_sold_order :: order where
  "sample_sold_order = (new_order 88 10 ''BO-000001'')\<lparr>or_source := POS, or_payment_status := PS_PAID,
     or_payment_method := Some ''CARD'', or_total_cents := 28600\<rparr>"

definition sample_flour_sold :: stock_movement where
  "sample_flour_sold = \<lparr>sm_business_id = 10, sm_ingredient_id = 7, sm_quantity_milli = - 300000, sm_movement_type = SALE_CONSUMPTION,
     sm_source_type = Some SRC_ORDER, sm_source_id = Some 88, sm_unit_cost_micro_cents = 0, sm_value_cents = 0,
     sm_created_by_user_id = None, sm_idempotency_key = Some (sale_idempotency_key 88 7), sm_notes = None,
     sm_occurred_at = 0, sm_created_at = 0\<rparr>"

definition sample_void_shop :: shop_db where
  "sample_void_shop = sample_pos_shop\<lparr>sh_businesses := [sample_pos_business\<lparr>bu_inventory_enabled := True\<rparr>],
     sh_orders := [sample_sold_order], sh_stock := sample_stock_db\<lparr>sd_movements := [sample_flour_sold]\<rparr>\<rparr>"

lemma sample_flour_ledger_ok: "ledger_ok [sample_flour_sold]"
  using unique_index_snoc [of movement_key "[]" sample_flour_sold]
  by (auto simp: ledger_ok_def stock_index_def row_ok_def is_consumption_def is_reversal_def of_order_def
      sample_flour_sold_def key_simps)

lemma sample_void_shop_ok: "shop_ok sample_void_shop"
  using sample_flour_ledger_ok
  by (simp add: ledger_ok_def sample_void_shop_def shop_ok_def unique_index_one)
    (simp add: sample_pos_shop_def sample_shop_def commit_loyalty_def unique_index_def)

lemma flag_nothing: "sh_allocations db = [] \<Longrightarrow> flag_provider_refund db o1 a c = db"
  by (cases db) (simp add: flag_provider_refund_def update_where_def)

lemma sample_void:
  obtains db' o2 where "void_pos_order sample_void_shop sample_owner 88 ''wrong table'' 100 = Inr (db', o2)"
    "or_total_cents o2 = 28600" "sh_orders sample_void_shop = [sample_sold_order]"
proof -
  let ?user = "Some (au_user_id sample_owner)"
  have v: "value_cents 300000 0 = Inr 0"
    using dec_mul_div_int_exact [of 300000 0 "10 ^ 9"] by (simp add: value_cents_def milli_def half_up_signed_def half_up_def)
  have c: "is_consumption 10 88 sample_flour_sold" "\<not> is_reversal 10 88 sample_flour_sold"
    by (simp_all add: is_consumption_def is_reversal_def of_order_def sample_flour_sold_def)
  obtain m n where r: "reverse_sale_consumption (sample_stock_db\<lparr>sd_movements := [sample_flour_sold]\<rparr>) 10 88 ?user
      (Some ''Void: wrong table'') 100 = Inr (sample_stock_db\<lparr>sd_movements := [sample_flour_sold, m]\<rparr>, n)"
    and k: "movement_key m = Some (10, reversal_idempotency_key 88 7)"
    using c v by (simp add: reverse_sale_consumption_def build_movement_def add_movements_def movement_key_def)
      (simp add: sample_flour_sold_def v)
  let ?o2 = "voided_order sample_sold_order sample_owner ''wrong table'' 0 100"
  let ?db = "write_order ?o2 sample_void_shop"
  have rs: "return_stock ?db sample_owner 88 ''Void: wrong table'' 100 =
      Inr (?db\<lparr>sh_stock := sample_stock_db\<lparr>sd_movements := [sample_flour_sold, m]\<rparr>\<rparr>)"
    using r by (simp add: return_stock_def) (simp add: sample_void_shop_def write_order_def)
  have "unique_index movement_key [sample_flour_sold, m]"
    using k by (simp add: unique_index_def movement_key_def sample_flour_sold_def List.map_filter_simps key_simps)
  then have k: "shop_ok (?db\<lparr>sh_stock := sample_stock_db\<lparr>sd_movements := [sample_flour_sold, m]\<rparr>\<rparr>)"
    using sample_void_shop_ok shop_ok_write_order [of sample_void_shop ?o2]
    by (simp add: shop_ok_def stock_index_def write_order_def sample_void_shop_def order_key_def order_number_key_def voided_order_def)
  have pe: "require_pos_enabled sample_void_shop 10 = Inr ()" by (simp add: require_pos_enabled_def sample_void_shop_def dict_get_def)
  have ld: "load_pos_order_for_reversal sample_void_shop 10 88 = Inr sample_sold_order"
    by (simp add: load_pos_order_for_reversal_def order_of_def sample_void_shop_def sample_sold_order_def new_order_def)
  have c: "has_cash sample_void_shop sample_sold_order = False" "compute_cash_portion sample_void_shop sample_sold_order n = 0" for n
    by (simp_all add: has_cash_def compute_cash_portion_def sample_sold_order_def)
  have fl: "flag_provider_refund ?db ?o2 n 0 = ?db" for n
    by (rule flag_nothing) (simp add: sample_void_shop_def)
  have o2: "return_points X sample_owner ?o2 = Inr X" "or_total_cents ?o2 = 28600" for X
    by (simp_all add: return_points_def voided_order_def sample_sold_order_def new_order_def)
  show thesis
    by (rule that [of "add_audit 10 ?user ''order.pos.voided'' 88
        (?db\<lparr>sh_stock := sample_stock_db\<lparr>sd_movements := [sample_flour_sold, m]\<rparr>\<rparr>)" ?o2])
      (simp_all add: void_pos_order_def Let_def pe ld c fl rs o2 require_open_till_for_cash_reversal_def commit_shop_ok k,
       simp_all add: sample_void_shop_def)
qed

lemma void_undoes_sale_witness:
  "\<exists>db' o2. void_pos_order sample_void_shop sample_owner 88 ''wrong table'' 100 = Inr (db', o2) \<and>
     order_net (sd_movements (sh_stock sample_void_shop)) 10 88 7 = - 300000 \<and>
     order_net (sd_movements (sh_stock db')) 10 88 7 = 0 \<and> or_refund_amount_cents o2 = Some 28600"
proof -
  obtain db' o2 where v: "void_pos_order sample_void_shop sample_owner 88 ''wrong table'' 100 = Inr (db', o2)" "or_total_cents o2 = 28600"
    by (rule sample_void)
  have l: "ledger_ok (sd_movements (sh_stock sample_void_shop))" by (simp add: sample_void_shop_def sample_flour_ledger_ok)
  have "\<exists>b \<in> set (sh_businesses sample_void_shop). bu_id b = 10 \<and> bu_inventory_enabled b" by (simp add: sample_void_shop_def)
  with void_undoes_sale [OF v(1) l, of 7] v
  show ?thesis by (simp add: order_net_def sample_void_shop_def sample_flour_sold_def of_order_def is_consumption_def)
qed

lemma reversal_happens_once_witness:
  "\<exists>db' o2. void_pos_order sample_void_shop sample_owner 88 ''wrong table'' 100 = Inr (db', o2) \<and>
     refund_pos_order db' sample_owner 88 \<lparr>pr_amount_cents = Some 1, pr_reason = None, pr_restore_stock = False,
       pr_restore_loyalty_points = False, pr_cash_refund_cents = None\<rparr> 200 = Inl (AppError ''ORDER_NOT_PAID'' 422)"
proof -
  obtain db' o2 where v: "void_pos_order sample_void_shop sample_owner 88 ''wrong table'' 100 = Inr (db', o2)"
    and o: "sh_orders sample_void_shop = [sample_sold_order]" by (rule sample_void)
  from reversal_happens_once [OF disjI2 [OF v] sample_void_shop_ok, of sample_owner] v o show ?thesis by (auto simp: sample_sold_order_def)
qed

subsection \<open>Evidence: a later confirmation\<close>

text \<open>
  A refunded or voided order is not paid, so a repeated confirmation of its provider for
  the same amount marks it paid again.
\<close>

lemma reversed_order_marked_paid_again:
  assumes o1: "order_of db b oid = Inr o1" and d: "distinct (map or_id (sh_orders db))" and ok: "shop_ok db"
    and st: "or_payment_status o1 \<in> {PS_REFUNDED, PS_VOIDED}"
  shows "\<exists>o2. order_of (mark_order_paid db (uuid_str oid) b ref (Some (or_total_cents o1)) None now) b oid = Inr o2 \<and>
    or_payment_status o2 = PS_PAID"
proof -
  let ?o2 = "o1\<lparr>or_payment_status := PS_PAID, or_paid_at := Some now,
     or_payment_reference := (if truthy ref \<and> \<not> truthy (or_payment_reference o1) then ref else or_payment_reference o1)\<rparr>"
  have id: "or_id o1 = oid" "or_business_id o1 = b" using order_of_in [OF o1] by simp_all
  have eq: "r = o1" if "r \<in> set (sh_orders db)" "or_id r = oid" for r
    using distinct_id_eq [OF d that(1), of o1] order_of_in [OF o1] that(2) by simp
  have "shop_ok (write_order ?o2 db)"
    using ok by (rule shop_ok_write_order) (use eq id in \<open>auto simp: order_key_def order_number_key_def\<close>)
  then have "sh_orders (mark_order_paid db (uuid_str oid) b ref (Some (or_total_cents o1)) None now) = sh_orders (write_order ?o2 db)"
    using o1 st by (auto simp: mark_order_paid_def amount_currency_ok_def Let_def commit_shop_ok truthy_def)
  from order_of_written(1) [OF d o1 _ _ this] id show ?thesis by simp
qed

end
