(* ===== verification/OrderLive.thy ===== *)
theory OrderLive imports PosRefunds begin

text \<open>
  An order never gets stuck: from every status that is not final the requests of the
  dashboard, with one confirmation by the provider if the order must be paid online, lead
  to a completed order.
\<close>

inductive order_request :: "auth_user \<Rightarrow> uuid \<Rightarrow> shop_db \<Rightarrow> shop_db \<Rightarrow> bool" for user oid where
  moved: "update_order_status db user oid status reason minutes now = Inr (db', o2) \<Longrightarrow> order_request user oid db db'"
| paid: "order_request user oid db (mark_order_paid db (uuid_str oid) (au_business_id user) reference amount currency now)"

text \<open>The order in the database, with what the status handler looks at.\<close>

definition at_status :: "auth_user \<Rightarrow> uuid \<Rightarrow> order_status \<Rightarrow> bool \<Rightarrow> shop_db \<Rightarrow> bool" where
  "at_status user oid s payable db = (shop_ok db \<and> distinct (map or_id (sh_orders db)) \<and>
     (\<exists>o1. order_of db (au_business_id user) oid = Inr o1 \<and> or_status o1 = s \<and>
        (payable \<longrightarrow> \<not> or_payment_required o1 \<or> or_payment_status o1 = PS_PAID)))"

lemma shop_ok_rewrite:
  assumes ok: "shop_ok db" and d: "distinct (map or_id (sh_orders db))" and o1: "order_of db b oid = Inr o1"
    and k: "or_id o2 = or_id o1" "order_key o2 = order_key o1" "order_number_key o2 = order_number_key o1"
  shows "shop_ok (write_order o2 db)"
  using ok
proof (rule shop_ok_write_order)
  fix r assume "r \<in> set (sh_orders db)" "or_id r = or_id o2"
  with distinct_id_eq [OF d this(1), of o1] order_of_in [OF o1] k show "order_key o2 = order_key r \<and> order_number_key o2 = order_number_key r"
    by simp
qed

lemma shop_ok_loyalty: "shop_ok db \<Longrightarrow> commit_loyalty l = Inr l \<Longrightarrow> shop_ok (db\<lparr>sh_loyalty := l\<rparr>)"
  by (simp add: shop_ok_def)

lemma advance:
  assumes a: "at_status user oid s p db" and f: "may_follow s t" "t \<noteq> CANCELLED" and g: "t = IN_PROGRESS \<longrightarrow> p"
  shows "\<exists>db'. order_request user oid db db' \<and> at_status user oid t (p \<and> t \<noteq> ACCEPTED) db'"
proof -
  let ?b = "au_business_id user"
  from a obtain o1 where ok: "shop_ok db" and d: "distinct (map or_id (sh_orders db))" and o1: "order_of db ?b oid = Inr o1"
    and s: "or_status o1 = s" and pay: "p \<longrightarrow> \<not> or_payment_required o1 \<or> or_payment_status o1 = PS_PAID" by (auto simp: at_status_def)
  note i = order_of_in [OF o1]
  let ?o2 = "stamp_milestone t None None (au_user_id user) 0 (o1\<lparr>or_status := t\<rparr>)"
  let ?o3 = "if t = ACCEPTED \<and> or_payment_required ?o2 then ?o2\<lparr>or_payment_status := PS_PENDING\<rparr> else ?o2"
  have o3: "or_id ?o3 = oid" "or_business_id ?o3 = ?b" "or_status ?o3 = t" "or_payment_required ?o3 = or_payment_required o1"
      "t \<noteq> ACCEPTED \<Longrightarrow> or_payment_status ?o3 = or_payment_status o1"
      "order_key ?o3 = order_key o1" "order_number_key ?o3 = order_number_key o1"
    using i by (simp_all add: stamp_milestone_def order_key_def order_number_key_def)
  let ?e = "\<lparr>oe_order_id = oid, oe_business_id = ?b, oe_old_status = Some s, oe_new_status = t, oe_changed_by_user_id = Some (au_user_id user)\<rparr>"
  let ?db' = "add_event ?e (write_order ?o3 db)"
  have ok': "shop_ok (write_order ?o3 db)" using shop_ok_rewrite [OF ok d o1] o3 i by simp
  have pr: "or_payment_required ?o2 = or_payment_required o1" by (simp add: stamp_milestone_def)
  have "t \<in> set (order_status_transitions s)" using f by (simp add: may_follow_def)
  moreover have "t = IN_PROGRESS \<Longrightarrow> or_payment_required o1 \<Longrightarrow> or_payment_status o1 = PS_PAID" using g pay by blast
  moreover have "order_status_of (order_status_value t) = Inr t" by (simp add: order_status_of_eq_Inr)
  ultimately have "update_order_status db user oid (order_status_value t) None None 0 = Inr (?db', ?o3)"
    using o1 s f(2) ok' i pr
    by (cases "t = IN_PROGRESS"; cases "or_payment_required o1") (simp_all add: update_order_status_def Let_def commit_shop_ok)
  then have "order_request user oid db ?db'" by (rule order_request.moved)
  moreover have "at_status user oid t (p \<and> t \<noteq> ACCEPTED) ?db'"
    using order_of_written [OF d o1 o3(1,2), of ?db'] ok' o3 pay by (auto simp: at_status_def)
  ultimately show ?thesis by blast
qed

lemma pay:
  assumes a: "at_status user oid s p db"
  shows "\<exists>db'. order_request user oid db db' \<and> at_status user oid s True db'"
proof -
  let ?b = "au_business_id user"
  from a obtain o1 where ok: "shop_ok db" and d: "distinct (map or_id (sh_orders db))" and o1: "order_of db ?b oid = Inr o1"
    and s: "or_status o1 = s" by (auto simp: at_status_def)
  note i = order_of_in [OF o1]
  let ?m = "mark_order_paid db (uuid_str oid) ?b None None None 0"
  let ?o2 = "o1\<lparr>or_payment_status := PS_PAID, or_paid_at := Some 0, or_payment_reference := or_payment_reference o1\<rparr>"
  have "at_status user oid s True ?m"
  proof (cases "or_payment_status o1 = PS_PAID")
    case True
    with o1 a s ok d show ?thesis by (simp add: mark_order_paid_def at_status_def)
  next
    case False
    have ok': "shop_ok (write_order ?o2 db)" using shop_ok_rewrite [OF ok d o1] by (simp add: order_key_def order_number_key_def)
    let ?e = "\<lparr>oe_order_id = or_id o1, oe_business_id = or_business_id o1, oe_old_status = Some (or_status o1),
                       oe_new_status = or_status o1, oe_changed_by_user_id = None\<rparr>"
    let ?db1 = "add_event ?e (write_order ?o2 db)"
    have m: "?m = ?db1\<lparr>sh_loyalty := award_loyalty_points_if_enabled (sh_loyalty ?db1) ?b ?o2 0\<rparr>"
      using o1 False ok' by (simp add: mark_order_paid_def amount_currency_ok_def Let_def commit_shop_ok truthy_def)
    have ok1: "shop_ok ?db1" using ok' by simp
    then have "commit_loyalty (sh_loyalty ?db1) = Inr (sh_loyalty ?db1)" by (simp add: shop_ok_def)
    then have "shop_ok ?m" unfolding m by (intro shop_ok_loyalty [OF ok1] award_commits)
    moreover have "sh_orders ?m = sh_orders (write_order ?o2 db)" by (simp add: m)
    ultimately show ?thesis using order_of_written [OF d o1, of ?o2 ?m] i s by (auto simp: at_status_def)
  qed
  then show ?thesis using order_request.paid by blast
qed

lemma to_in_progress:
  assumes "at_status user oid s p db" "may_follow\<^sup>+\<^sup>+ s IN_PROGRESS"
  shows "\<exists>db'. (order_request user oid)\<^sup>*\<^sup>* db db' \<and> at_status user oid IN_PROGRESS True db'"
proof -
  note step = advance [of user oid] and more = converse_rtranclp_into_rtranclp [of "order_request user oid"]
  have from_accepted: "\<exists>db'. (order_request user oid)\<^sup>*\<^sup>* db1 db' \<and> at_status user oid IN_PROGRESS True db'"
    if a: "at_status user oid ACCEPTED q db1" for q db1
  proof -
    from pay [OF a] obtain db2 where 2: "order_request user oid db1 db2" "at_status user oid ACCEPTED True db2" by blast
    from step [OF 2(2), of IN_PROGRESS] obtain db3 where "order_request user oid db2 db3" "at_status user oid IN_PROGRESS True db3"
      by (auto simp: may_follow_def)
    with 2(1) show ?thesis by (meson more r_into_rtranclp)
  qed
  have from_new: "\<exists>db'. (order_request user oid)\<^sup>*\<^sup>* db1 db' \<and> at_status user oid IN_PROGRESS True db'"
    if a: "at_status user oid NEW q db1" for q db1
    using step [OF a, of ACCEPTED] from_accepted more unfolding may_follow_def by simp metis
  have from_fee_sent: "\<exists>db'. (order_request user oid)\<^sup>*\<^sup>* db1 db' \<and> at_status user oid IN_PROGRESS True db'"
    if a: "at_status user oid FEE_SENT q db1" for q db1
    using step [OF a, of NEW] from_new more unfolding may_follow_def by simp metis
  have from_pending: "\<exists>db'. (order_request user oid)\<^sup>*\<^sup>* db1 db' \<and> at_status user oid IN_PROGRESS True db'"
    if a: "at_status user oid PENDING_DELIVERY_FEE q db1" for q db1
    using step [OF a, of FEE_SENT] from_fee_sent more unfolding may_follow_def by simp metis
  have "s \<in> {PENDING_DELIVERY_FEE, FEE_SENT, NEW, ACCEPTED}"
    using assms(2) reaches_preparation [of s] by (simp add: pre_preparation_statuses_def)
  with assms(1) from_accepted from_new from_fee_sent from_pending show ?thesis by auto
qed

text \<open>
  C23: An open order can always be served: from every status that is not final there is a
  run of status requests and provider confirmations, all of them accepted, after which the
  order is completed; and an order that must be paid online is paid by then.
\<close>

theorem open_order_can_be_served:
  assumes "shop_ok db" and "distinct (map or_id (sh_orders db))" and "order_of db (au_business_id user) oid = Inr o1"
    and open_status: "order_status_transitions (or_status o1) \<noteq> []"
  shows "\<exists>db' o2. (order_request user oid)\<^sup>*\<^sup>* db db' \<and> order_of db' (au_business_id user) oid = Inr o2 \<and>
    or_status o2 = COMPLETED \<and> (or_payment_required o2 \<longrightarrow> or_payment_status o2 = PS_PAID)"
proof -
  let ?R = "order_request user oid"
  have a: "at_status user oid (or_status o1) False db" using assms by (simp add: at_status_def)
  have served: "\<exists>db'. ?R\<^sup>*\<^sup>* db1 db' \<and> at_status user oid COMPLETED True db'" if "at_status user oid READY True db1" for db1
    using advance [OF that, of COMPLETED] by (auto simp: may_follow_def)
  have cooked: "\<exists>db'. ?R\<^sup>*\<^sup>* db1 db' \<and> at_status user oid COMPLETED True db'" if "at_status user oid IN_PROGRESS True db1" for db1
  proof -
    from advance [OF that, of READY] obtain db2 where "?R db1 db2" "at_status user oid READY True db2" by (auto simp: may_follow_def)
    with served show ?thesis by (meson converse_rtranclp_into_rtranclp)
  qed
  from pay [OF a] obtain db1 where p: "?R db db1" "at_status user oid (or_status o1) True db1" by blast
  have "\<exists>db'. ?R\<^sup>*\<^sup>* db db' \<and> at_status user oid COMPLETED True db'"
  proof (cases "or_status o1 \<in> {IN_PROGRESS, READY}")
    case True
    with p(2) served [of db1] cooked [of db1] obtain db' where "?R\<^sup>*\<^sup>* db1 db'" "at_status user oid COMPLETED True db'" by auto
    with p(1) show ?thesis by (meson converse_rtranclp_into_rtranclp)
  next
    case False
    with open_status have "may_follow\<^sup>+\<^sup>+ (or_status o1) IN_PROGRESS"
      by (cases "or_status o1") (simp_all add: reaches_preparation pre_preparation_statuses_def)
    from to_in_progress [OF a this] obtain db2 where 2: "?R\<^sup>*\<^sup>* db db2" "at_status user oid IN_PROGRESS True db2" by blast
    from cooked [OF 2(2)] obtain db' where "?R\<^sup>*\<^sup>* db2 db'" "at_status user oid COMPLETED True db'" by blast
    with 2(1) show ?thesis by (meson rtranclp_trans)
  qed
  then show ?thesis by (auto simp: at_status_def)
qed

text \<open>An order that a customer must pay online before it is prepared.\<close>

lemma open_order_can_be_served_witness:
  "\<exists>db' o2. (order_request sample_owner 77)\<^sup>*\<^sup>* sample_shop_created db' \<and> order_of db' 10 77 = Inr o2 \<and> or_status o2 = COMPLETED"
proof -
  have "order_of sample_shop_created (au_business_id sample_owner) 77 = Inr sample_order" "or_status sample_order = NEW"
    "distinct (map or_id (sh_orders sample_shop_created))"
    by (simp_all add: order_of_def sample_shop_defs)
  with open_order_can_be_served [OF sample_shop_ok, of sample_owner 77 sample_order] show ?thesis
    by (auto simp: sample_owner_def)
qed

end
