(* ===== verification/LineSpecs.thy ===== *)
theory LineSpecs imports StockLaws PosCheckout begin

text \<open>
  The ingredients of a sale are looked up from what the pricing layer wrote into its
  snapshots (\<^verbatim>\<open>ledger.py\<close>, \<open>build_line_specs\<close>).  Here: reading the snapshots back gives the
  selections of the request.
\<close>

subsection \<open>Options\<close>

lemma enter_option_entry:
  "map_of (enter_option (option_entry so) acc) =
     (if so_group_id so \<noteq> [] \<and> so_option_id so \<noteq> [] then (map_of acc)(so_group_id so \<mapsto> so_option_id so) else map_of acc)"
  by (simp add: option_entry_def truthy_def update_conv')

text \<open>When all the entries of a group agree, the group is mapped to what they say.\<close>

lemma entered_options:
  assumes "\<And>so. so \<in> set opts \<Longrightarrow> so_group_id so = g \<Longrightarrow> so_option_id so = c"
  shows "map_of (fold enter_option (map option_entry opts) acc) g =
    (if g \<noteq> [] \<and> c \<noteq> [] \<and> g \<in> so_group_id ` set opts then Some c else map_of acc g)"
  using assms
proof (induction opts arbitrary: acc)
  case (Cons so opts)
  have "map_of (fold enter_option (map option_entry (so # opts)) acc) g =
      (if g \<noteq> [] \<and> c \<noteq> [] \<and> g \<in> so_group_id ` set opts then Some c else map_of (enter_option (option_entry so) acc) g)"
    using Cons.IH [of "enter_option (option_entry so) acc"] Cons.prems by simp
  also have "map_of (enter_option (option_entry so) acc) g =
      (if so_group_id so = g \<and> g \<noteq> [] \<and> c \<noteq> [] then Some c else map_of acc g)"
    unfolding enter_option_entry using Cons.prems [of so] by auto
  finally show ?case by auto
qed simp

lemma resolved_options_iff:
  assumes "resolve_selected_options m sel = Inr opts"
  shows "so \<in> set opts \<longleftrightarrow> (\<exists>g \<in> set (option_groups_of m). resolve_group sel g = Inr (Some so))"
proof -
  from assms obtain rs where rs: "map_result (resolve_group sel) (option_groups_of m) = Inr rs"
    and o: "opts = List.map_filter id rs" by (auto simp: resolve_selected_options_def and_then_eq_Inr)
  have "so \<in> set opts \<longleftrightarrow> Some so \<in> set rs" by (auto simp: o set_map_filter_iff)
  also have "\<dots> \<longleftrightarrow> (\<exists>g \<in> set (option_groups_of m). resolve_group sel g = Inr (Some so))"
    using map_result_set [OF rs] map_result_all [OF rs] by fastforce
  finally show ?thesis .
qed

lemma group_resolved:
  assumes "resolve_group sel g = Inr r" "dict_get True (og_is_enabled g)" "map_of sel (og_id g) = Some c" "c \<noteq> []"
  shows "\<exists>so. r = Some so \<and> so_group_id so = og_id g \<and> so_option_id so = c"
  using assms by (auto simp: resolve_group_def chosen_option_def split: option.splits if_splits dest!: find_SomeD)

lemma options_read_back:
  assumes r: "resolve_selected_options m sel = Inr opts"
  shows "map_of (selected_option_ids (map option_entry opts)) g =
    (if g \<noteq> [] \<and> (\<exists>grp \<in> set (option_groups_of m). og_id grp = g \<and> dict_get True (og_is_enabled grp))
     then (case map_of sel g of None \<Rightarrow> None | Some c \<Rightarrow> if c = [] then None else Some c) else None)"
proof -
  let ?c = "dict_get [] (map_of sel g)"
  have v: "so_option_id so = ?c" if "so \<in> set opts" "so_group_id so = g" for so
    using that resolved_options_iff [OF r] resolve_group_option by (fastforce simp: dict_get_def)
  have all: "\<exists>x. resolve_group sel grp = Inr x" if "grp \<in> set (option_groups_of m)" for grp
  proof -
    from r obtain rs where "map_result (resolve_group sel) (option_groups_of m) = Inr rs"
      by (auto simp: resolve_selected_options_def and_then_eq_Inr)
    from map_result_all [OF this that] show ?thesis by auto
  qed
  have "g \<in> so_group_id ` set opts \<longleftrightarrow>
      (\<exists>grp \<in> set (option_groups_of m). og_id grp = g \<and> dict_get True (og_is_enabled grp))" if "?c \<noteq> []"
  proof
    assume "g \<in> so_group_id ` set opts"
    then show "\<exists>grp \<in> set (option_groups_of m). og_id grp = g \<and> dict_get True (og_is_enabled grp)"
      using resolved_options_iff [OF r] resolve_group_option by fastforce
  next
    assume "\<exists>grp \<in> set (option_groups_of m). og_id grp = g \<and> dict_get True (og_is_enabled grp)"
    then obtain grp x where g: "grp \<in> set (option_groups_of m)" "og_id grp = g" "dict_get True (og_is_enabled grp)"
      "resolve_group sel grp = Inr x" using all by blast
    from that have "map_of sel (og_id grp) = Some ?c" by (auto simp: dict_get_def g(2) split: option.splits)
    from group_resolved [OF g(4,3) this that] g show "g \<in> so_group_id ` set opts"
      using resolved_options_iff [OF r] by force
  qed
  then show ?thesis
    using entered_options [of opts g ?c "[]"] v by (auto simp: selected_option_ids_def dict_get_def split: option.splits)
qed

subsection \<open>Add-ons and removals\<close>

lemma truthy_Some: "truthy (Some s) \<longleftrightarrow> s \<noteq> []"
  by (simp add: truthy_def)

lemma truthy_None: "\<not> truthy None"
  by (simp add: truthy_def)

lemma add_on_selections_simps [simp]:
  "add_on_selections [] = []"
  "add_on_selections (add_on_entry a # es) = (case (if sa_add_on_id a = [] then None else uuid_of_str (sa_add_on_id a)) of
     None \<Rightarrow> add_on_selections es
   | Some u \<Rightarrow> \<lparr>as_add_on_id = u, as_quantity = or_one (Some (sa_quantity a))\<rparr> # add_on_selections es)"
  by (auto simp: add_on_selections_def List.map_filter_simps add_on_entry_def truthy_Some truthy_None split: option.splits)

lemma add_ons_read_back:
  assumes "resolve_add_ons cat b m sels = Inr as" and "\<And>s. s \<in> set sels \<Longrightarrow> 1 \<le> ps_quantity s"
  shows "map as_add_on_id (add_on_selections (map add_on_entry as)) = map ps_add_on_id sels \<and>
    map as_quantity (add_on_selections (map add_on_entry as)) = map sa_quantity as"
proof -
  have "list_all2 (\<lambda>s a. resolve_add_on cat b s = Inr a) sels as"
    using assms(1) by (auto simp: resolve_add_ons_def and_then_eq_Inr map_result_eq_Inr split: if_splits)
  then show ?thesis using assms(2)
  proof (induction rule: list_all2_induct)
    case Nil
    then show ?case by simp
  next
    case (Cons s sels a as)
    from resolve_add_on_sound [OF Cons.hyps(1)] have "sa_add_on_id a = uuid_str (ps_add_on_id s)" "ps_quantity s \<le> sa_quantity a"
      by (auto simp: add_on_available_def)
    moreover from this(2) have "sa_quantity a \<noteq> 0" using Cons.prems [of s] by simp
    moreover have "uuid_str (ps_add_on_id s) \<noteq> []" using uuid_str_length [of "ps_add_on_id s"] by (metis list.size(3) zero_neq_numeral)
    ultimately show ?case
      using Cons.IH Cons.prems by (simp add: or_one_def)
  qed
qed

lemma removed_ref_ids_simps [simp]:
  "removed_ref_ids [] = []"
  "removed_ref_ids (removed_entry r # es) = (if ri_id r \<noteq> [] then ri_id r # removed_ref_ids es else removed_ref_ids es)"
  by (simp_all add: removed_ref_ids_def List.map_filter_simps removed_entry_def truthy_Some)

lemma removals_read_back:
  assumes "resolve_removed_ingredients m ids = Inr rs"
  shows "removed_ref_ids (map removed_entry rs) = filter (\<lambda>i. i \<noteq> []) ids"
proof (cases "ids = []")
  case True
  with assms show ?thesis by (simp add: resolve_removed_ingredients_def)
next
  case False
  with assms have "list_all2 (\<lambda>i r. ri_id r = i) ids rs"
    by (auto simp: resolve_removed_ingredients_def Let_def map_result_eq_Inr elim!: list_all2_mono split: option.splits if_splits)
  then show ?thesis
    by (induction rule: list_all2_induct) simp_all
qed

lemma resolved_item_parts:
  assumes "resolve_pos_item cat b i = Inr r"
  obtains m where "m \<in> set (cat_menu_items cat)" "mi_id m = pi_menu_item_id i" "rp_menu_item_id r = mi_id m"
    "resolve_selected_options m (pi_selected_option_ids i) = Inr (rp_selected_options_snapshot r)"
    "resolve_add_ons cat b m (pi_add_on_selections i) = Inr (rp_add_ons_snapshot r)"
    "resolve_removed_ingredients m (pi_removed_ingredient_ids i) = Inr (rp_removed_ingredients_snapshot r)"
    "quantity (rp_breakdown r) = pi_quantity i"
proof -
  from assms obtain m opts addons rem where m: "find (menu_item_visible b (pi_menu_item_id i)) (cat_menu_items cat) = Some m"
    and o: "resolve_selected_options m (pi_selected_option_ids i) = Inr opts"
    and a: "resolve_add_ons cat b m (pi_add_on_selections i) = Inr addons"
    and d: "resolve_removed_ingredients m (pi_removed_ingredient_ids i) = Inr rem"
    and r: "r = \<lparr>rp_menu_item_id = mi_id m, rp_name = mi_name m,
            rp_breakdown = calculate_line_item (mi_price_cents m) (map TypedOption opts) (map TypedAddOn addons) (pi_quantity i),
            rp_selected_options_snapshot = opts, rp_add_ons_snapshot = addons, rp_removed_ingredients_snapshot = rem,
            rp_special_instructions = pi_special_instructions i, rp_requires_preparation = mi_requires_preparation m\<rparr>"
    unfolding resolve_pos_item_def and_then_eq_Inr or_raise_eq_Inr raise_if_eq_Inr by auto
  from find_SomeD [OF m] that [of m] o a d show thesis
    by (simp add: r menu_item_visible_def calculate_line_item_def Let_def)
qed

text \<open>
  C29: The snapshots of a resolved line read back to the request: the stock layer sees the
  menu item and the quantity that were asked for, every add-on in order with the quantity
  that was priced, the removed ingredients, and for each enabled option group of the item
  exactly the option that was chosen in it.
\<close>

theorem snapshots_read_back:
  assumes r: "resolve_pos_items cat b items = Inr rs" and k: "k < length items" and v: "list_all valid_pos_item items"
  shows "\<exists>m \<in> set (cat_menu_items cat). let i = items ! k; s = build_line_specs rs ! k in
    mi_id m = pi_menu_item_id i \<and> li_menu_item_id s = pi_menu_item_id i \<and> li_quantity s = pi_quantity i \<and>
    map as_add_on_id (li_add_on_selections s) = map ps_add_on_id (pi_add_on_selections i) \<and>
    map as_quantity (li_add_on_selections s) = map sa_quantity (rp_add_ons_snapshot (rs ! k)) \<and>
    li_removed_ref_ids s = filter (\<lambda>x. x \<noteq> []) (pi_removed_ingredient_ids i) \<and>
    (\<forall>g. map_of (li_selected_option_ids s) g =
      (if g \<noteq> [] \<and> (\<exists>grp \<in> set (option_groups_of m). og_id grp = g \<and> dict_get True (og_is_enabled grp))
       then (case map_of (pi_selected_option_ids i) g of None \<Rightarrow> None | Some c \<Rightarrow> if c = [] then None else Some c) else None))"
proof -
  let ?i = "items ! k"
  obtain m where m: "m \<in> set (cat_menu_items cat)" "mi_id m = pi_menu_item_id ?i" and s: "rp_menu_item_id (rs ! k) = mi_id m"
      "quantity (rp_breakdown (rs ! k)) = pi_quantity ?i"
    and o: "resolve_selected_options m (pi_selected_option_ids ?i) = Inr (rp_selected_options_snapshot (rs ! k))"
    and a: "resolve_add_ons cat b m (pi_add_on_selections ?i) = Inr (rp_add_ons_snapshot (rs ! k))"
    and d: "resolve_removed_ingredients m (pi_removed_ingredient_ids ?i) = Inr (rp_removed_ingredients_snapshot (rs ! k))"
    using resolved_item_parts [OF resolve_pos_items_nth(2) [OF r k]] by metis
  have q: "1 \<le> ps_quantity x" if "x \<in> set (pi_add_on_selections ?i)" for x
  proof -
    from v k have "valid_pos_item ?i" by (simp add: list_all_length)
    with that show ?thesis by (simp add: valid_pos_item_def list_all_iff)
  qed
  have "k < length rs" using resolve_pos_items_nth(1) [OF r] k by simp
  with m s options_read_back [OF o] add_ons_read_back [OF a q] removals_read_back [OF d]
  show ?thesis by (intro bexI [OF _ m(1)]) (simp add: build_line_specs_def Let_def)
qed

lemma snapshots_read_back_witness:
  "\<exists>rs. resolve_pos_items sample_catalog 10 [sample_pos_input [(''size'', ''l'')] [\<lparr>ps_add_on_id = 5, ps_quantity = 2\<rparr>]] = Inr rs \<and>
     map as_add_on_id (li_add_on_selections (build_line_specs rs ! 0)) = [5] \<and>
     map_of (li_selected_option_ids (build_line_specs rs ! 0)) ''size'' = Some ''l''"
proof -
  let ?items = "[sample_pos_input [(''size'', ''l'')] [\<lparr>ps_add_on_id = 5, ps_quantity = 2\<rparr>]]"
  obtain rs where r: "resolve_pos_items sample_catalog 10 ?items = Inr rs"
    by (simp add: resolve_defs sample_catalog_defs)
  have "list_all valid_pos_item ?items" by (simp add: valid_pos_item_def sample_pos_input_def)
  with snapshots_read_back [OF r, of 0] r show ?thesis
    by (auto simp: Let_def sample_catalog_defs option_groups_of_def dict_get_def)
qed

end
