(* ===== verification/Cart.thy ===== *)
theory Cart imports StockLedger begin

text \<open>
  \<^verbatim>\<open>backend/app/bot/state_machine.py\<close>: the conversation session of a chat customer and
  the cart in its context.  The context is a JSON dictionary; a cart entry is a dictionary
  whose later keys old entries lack, so those are optional.  The code changes the entries
  of the list in place and then stores it; no operation raises in between, so each
  is a function from the old session to the new one.
\<close>

subsection \<open>Sessions and their context\<close>

datatype conversation_state =
    CS_IDLE | CS_GREETING | CS_BROWSING_MENU | CS_BUILDING_CART | CS_CHOOSING_OPTIONS | CS_CHOOSING_ORDER_MODE
  | CS_CONFIRMING_ORDER | CS_COLLECTING_DETAILS | CS_WAITING_DELIVERY_FEE_APPROVAL | CS_COLLECTING_PAYMENT
  | CS_ORDER_PLACED | CS_HANDOFF

record cart_item =
  ci_menu_item_id :: string
  ci_name :: string
  ci_price_cents :: int
  ci_base_price_cents :: "int option"
  ci_selected_options :: "option_dict list option"
  ci_add_ons :: "add_on_dict list option"
  ci_option_adjustment_cents :: "int option"
  ci_add_on_total_cents :: "int option"
  ci_unit_price_cents :: "int option"
  ci_quantity :: int
  ci_line_total_cents :: int
  ci_options :: "(string \<times> string) list option"
  ci_special_instructions :: "string option"

datatype context_value = CartValue "cart_item list" | TextValue string | NumberValue int | BoolValue bool

type_synonym chat_context = "string \<rightharpoonup> context_value"

record conversation_session =
  cs_business_id :: uuid
  cs_customer_id :: uuid
  cs_state :: conversation_state
  cs_context_json :: "chat_context option"
  cs_last_activity_at :: instant
  cs_expires_at :: "instant option"

definition session_timeout :: int where
  "session_timeout = 60 * 60000000"

definition context_of :: "conversation_session \<Rightarrow> chat_context" where
  "context_of s = (case cs_context_json s of None \<Rightarrow> Map.empty | Some ctx \<Rightarrow> ctx)"

definition set_context :: "conversation_session \<Rightarrow> string \<Rightarrow> context_value \<Rightarrow> conversation_session" where
  "set_context s key v = s\<lparr>cs_context_json := Some ((context_of s)(key \<mapsto> v))\<rparr>"

definition get_context :: "conversation_session \<Rightarrow> string \<Rightarrow> context_value option" where
  "get_context s key = context_of s key"

definition transition_state :: "conversation_session \<Rightarrow> conversation_state \<Rightarrow> conversation_session \<times> conversation_state" where
  "transition_state s new_state = (s\<lparr>cs_state := new_state\<rparr>, cs_state s)"

text \<open>
  One row per customer of a business: the insert does nothing when the row exists, and the
  row is then read with a lock.  A session past its expiry starts afresh.
\<close>

definition new_session :: "uuid \<Rightarrow> uuid \<Rightarrow> instant \<Rightarrow> conversation_session" where
  "new_session business customer now =
     \<lparr>cs_business_id = business, cs_customer_id = customer, cs_state = CS_IDLE, cs_context_json = Some Map.empty,
      cs_last_activity_at = now, cs_expires_at = Some (now + session_timeout)\<rparr>"

definition session_key :: "conversation_session \<Rightarrow> (uuid \<times> uuid) option" where
  "session_key s = Some (cs_business_id s, cs_customer_id s)"

definition touch_session :: "instant \<Rightarrow> conversation_session \<Rightarrow> conversation_session" where
  "touch_session now s =
     (let s = (case cs_expires_at s of
                 Some e \<Rightarrow> if e < now then s\<lparr>cs_state := CS_IDLE, cs_context_json := Some Map.empty\<rparr> else s
               | None \<Rightarrow> s)
      in s\<lparr>cs_last_activity_at := now, cs_expires_at := Some (now + session_timeout)\<rparr>)"

definition get_or_create_session ::
  "conversation_session list \<Rightarrow> uuid \<Rightarrow> uuid \<Rightarrow> instant \<Rightarrow> conversation_session list \<times> conversation_session option" where
  "get_or_create_session rows business customer now =
     (let mine = (\<lambda>s. session_key s = Some (business, customer));
          rows = (if list_ex mine rows then rows else rows @ [new_session business customer now]);
          rows = update_where mine (touch_session now) rows
      in (rows, find mine rows))"

subsection \<open>The cart\<close>

definition get_cart :: "conversation_session \<Rightarrow> cart_item list" where
  "get_cart s = (case context_of s ''cart'' of Some (CartValue c) \<Rightarrow> c | _ \<Rightarrow> [])"

definition set_cart :: "conversation_session \<Rightarrow> cart_item list \<Rightarrow> conversation_session" where
  "set_cart s cart = set_context s ''cart'' (CartValue cart)"

definition price_item :: "int \<Rightarrow> option_dict list \<Rightarrow> add_on_dict list \<Rightarrow> int \<Rightarrow> line_item_breakdown" where
  "price_item base opts addons qty = calculate_line_item base (map PlainOption opts) (map PlainAddOn addons) qty"

definition options_of_item :: "cart_item \<Rightarrow> option_dict list" where
  "options_of_item i = dict_get [] (ci_selected_options i)"

definition add_ons_of_item :: "cart_item \<Rightarrow> add_on_dict list" where
  "add_ons_of_item i = dict_get [] (ci_add_ons i)"

text \<open>The first entry that satisfies \<open>p\<close> is changed; whether there was one.\<close>

fun change_first :: "('a \<Rightarrow> bool) \<Rightarrow> ('a \<Rightarrow> 'a) \<Rightarrow> 'a list \<Rightarrow> 'a list" where
  "change_first p f [] = []"
| "change_first p f (x # xs) = (if p x then f x # xs else x # change_first p f xs)"

record cart_addition =
  ca_menu_item_id :: string
  ca_name :: string
  ca_price_cents :: int
  ca_quantity :: int
  ca_selected_options :: "option_dict list"
  ca_add_ons :: "add_on_dict list"
  ca_options :: "(string \<times> string) list option"
  ca_special_instructions :: "string option"

definition same_line :: "cart_addition \<Rightarrow> cart_item \<Rightarrow> bool" where
  "same_line a i = (ci_menu_item_id i = ca_menu_item_id a \<and> options_of_item i = ca_selected_options a \<and>
     add_ons_of_item i = ca_add_ons a \<and> ci_special_instructions i = ca_special_instructions a)"

definition set_quantity :: "int \<Rightarrow> cart_item \<Rightarrow> cart_item" where
  "set_quantity q i = i\<lparr>ci_quantity := q, ci_line_total_cents := ci_price_cents i * q\<rparr>"

definition new_cart_item :: "cart_addition \<Rightarrow> cart_item" where
  "new_cart_item a =
     (let b = price_item (ca_price_cents a) (ca_selected_options a) (ca_add_ons a) (ca_quantity a)
      in \<lparr>ci_menu_item_id = ca_menu_item_id a, ci_name = ca_name a, ci_price_cents = unit_price_cents b,
          ci_base_price_cents = Some (ca_price_cents a), ci_selected_options = Some (ca_selected_options a),
          ci_add_ons = Some (ca_add_ons a), ci_option_adjustment_cents = Some (option_adjustment_cents b),
          ci_add_on_total_cents = Some (add_on_total_cents b), ci_unit_price_cents = Some (unit_price_cents b),
          ci_quantity = ca_quantity a, ci_line_total_cents = line_total_cents b, ci_options = ca_options a,
          ci_special_instructions = ca_special_instructions a\<rparr>)"

definition add_to_cart :: "conversation_session \<Rightarrow> cart_addition \<Rightarrow> conversation_session" where
  "add_to_cart s a =
     (let cart = get_cart s
      in if list_ex (same_line a) cart
         then set_cart s (change_first (same_line a) (\<lambda>i. set_quantity (ci_quantity i + ca_quantity a) i) cart)
         else set_cart s (cart @ [new_cart_item a]))"

text \<open>Which of the entries with a matching name is meant, by the customer's own words.\<close>

definition plain_words :: "string set" where
  "plain_words = {''plain'', ''normal'', ''original'', ''regular'', ''without''}"

definition instructions_of :: "cart_item \<Rightarrow> string" where
  "instructions_of i = dict_get [] (ci_special_instructions i)"

definition hinted :: "string \<Rightarrow> cart_item \<Rightarrow> bool" where
  "hinted hint i = (if \<exists>w \<in> set (split_words hint). w \<in> plain_words then instructions_of i = []
     else (let instr = lower (instructions_of i) in instr \<noteq> [] \<and> (\<exists>w \<in> set (split_words instr). contains w hint)))"

definition choose_entry :: "(nat \<times> cart_item) list \<Rightarrow> string option \<Rightarrow> nat option" where
  "choose_entry candidates qualifier_hint =
     (case candidates of [] \<Rightarrow> None
      | c # cs \<Rightarrow> Some (fst (if cs \<noteq> [] \<and> truthy qualifier_hint
          then dict_get c (find (\<lambda>(_, i). hinted (lower (the qualifier_hint)) i) candidates) else c)))"

definition remove_from_cart ::
  "conversation_session \<Rightarrow> string \<Rightarrow> int option \<Rightarrow> string option \<Rightarrow> conversation_session \<times> bool" where
  "remove_from_cart s item_name qty qualifier_hint =
     (let cart = get_cart s;
          name = strip (lower item_name)
      in case choose_entry (filter (\<lambda>(_, i). contains name (lower (ci_name i))) (enumerate 0 cart)) qualifier_hint of
           None \<Rightarrow> (s, False)
         | Some k \<Rightarrow>
             (case qty of
                Some q \<Rightarrow> if ci_quantity (cart ! k) > q
                  then (set_cart s (cart[k := set_quantity (ci_quantity (cart ! k) - q) (cart ! k)]), True)
                  else (set_cart s (take k cart @ drop (Suc k) cart), True)
              | None \<Rightarrow> (set_cart s (take k cart @ drop (Suc k) cart), True)))"

subsection \<open>Instructions\<close>

text \<open>The names match when either contains the other.\<close>

definition names_match :: "string \<Rightarrow> cart_item \<Rightarrow> bool" where
  "names_match item_name i = (let name = strip (lower item_name); other = lower (ci_name i)
     in contains name other \<or> contains other name)"

definition merge_instructions :: "string \<Rightarrow> cart_item \<Rightarrow> cart_item" where
  "merge_instructions new i =
     i\<lparr>ci_special_instructions := Some (if instructions_of i \<noteq> [] then instructions_of i @ '', '' @ new else new)\<rparr>"

definition update_cart_item_instructions ::
  "conversation_session \<Rightarrow> string \<Rightarrow> string \<Rightarrow> conversation_session \<times> bool" where
  "update_cart_item_instructions s item_name special_instructions =
     (let cart = get_cart s
      in if list_ex (names_match item_name) cart
         then (set_cart s (change_first (names_match item_name) (merge_instructions special_instructions) cart), True)
         else (s, False))"

text \<open>The clauses between commas that do not mention the word; none left is no instruction.\<close>

definition without_clauses :: "string \<Rightarrow> string \<Rightarrow> string option" where
  "without_clauses word existing =
     (let clauses = filter (\<lambda>c. \<not> contains word (lower c)) (map strip (split_on CHR '','' existing))
      in if clauses = [] then None else Some (join '', '' clauses))"

definition remove_modifier_from_instructions ::
  "conversation_session \<Rightarrow> string \<Rightarrow> string \<Rightarrow> conversation_session \<times> bool" where
  "remove_modifier_from_instructions s item_name modifier_word =
     (let cart = get_cart s
      in case find (names_match item_name) cart of
           None \<Rightarrow> (s, False)
         | Some i \<Rightarrow>
             (let existing = instructions_of i;
                  new = without_clauses (strip (lower modifier_word)) existing
              in if existing = [] \<or> new = Some existing then (s, False)
                 else (set_cart s (change_first (names_match item_name) (\<lambda>i. i\<lparr>ci_special_instructions := new\<rparr>) cart), True)))"

subsection \<open>Paid add-ons\<close>

text \<open>
  Repricing: the base price is \<open>item.get("base_price_cents") or item["price_cents"]\<close>, so a
  stored zero falls back to the current price.
\<close>

definition reprice_base :: "cart_item \<Rightarrow> int" where
  "reprice_base i = (if ci_base_price_cents i \<in> {None, Some 0} then ci_price_cents i else the (ci_base_price_cents i))"

definition reprice_add_ons :: "add_on_dict list \<Rightarrow> cart_item \<Rightarrow> cart_item" where
  "reprice_add_ons addons i =
     (let b = price_item (reprice_base i) (options_of_item i) addons (ci_quantity i)
      in i\<lparr>ci_add_ons := Some addons, ci_price_cents := unit_price_cents b, ci_unit_price_cents := Some (unit_price_cents b),
           ci_add_on_total_cents := Some (add_on_total_cents b), ci_line_total_cents := line_total_cents b\<rparr>)"

definition remove_addon_from_cart_item ::
  "conversation_session \<Rightarrow> string \<Rightarrow> string \<Rightarrow> conversation_session \<times> bool" where
  "remove_addon_from_cart_item s item_name addon_name =
     (let cart = get_cart s;
          keep = (\<lambda>a. \<not> contains (strip (lower addon_name)) (lower (ad_name a)))
      in case find (names_match item_name) cart of
           None \<Rightarrow> (s, False)
         | Some i \<Rightarrow>
             if length (filter keep (add_ons_of_item i)) = length (add_ons_of_item i) then (s, False)
             else (set_cart s (change_first (names_match item_name)
                     (\<lambda>i. reprice_add_ons (filter keep (add_ons_of_item i)) i) cart), True))"

definition add_addon_to_cart_item ::
  "conversation_session \<Rightarrow> string \<Rightarrow> add_on_dict \<Rightarrow> conversation_session \<times> bool" where
  "add_addon_to_cart_item s item_name addon =
     (let cart = get_cart s
      in case find (names_match item_name) cart of
           None \<Rightarrow> (s, False)
         | Some i \<Rightarrow>
             if list_ex (\<lambda>a. lower (ad_name a) = lower (ad_name addon)) (add_ons_of_item i) then (s, True)
             else (set_cart s (change_first (names_match item_name)
                     (\<lambda>i. reprice_add_ons (add_ons_of_item i @ [addon]) i) cart), True))"

subsection \<open>Clearing and totals\<close>

definition order_keys :: "string set" where
  "order_keys = {''confirmed_cart'', ''order_mode'', ''pending_order_id'', ''delivery_fee_cents'', ''delivery_fee_status'',
     ''payment_method'', ''pending_options'', ''proposed_items'', ''recommended_items'', ''superseded_order_id'',
     ''order_notes_asked'', ''order_notes''}"

definition clear_cart :: "conversation_session \<Rightarrow> conversation_session" where
  "clear_cart s = s\<lparr>cs_context_json := Some (\<lambda>k. if k \<in> order_keys then None
     else ((context_of s)(''cart'' \<mapsto> CartValue [])) k)\<rparr>"

definition cart_total_cents :: "conversation_session \<Rightarrow> int" where
  "cart_total_cents s = sum_list (map ci_line_total_cents (get_cart s))"

end
