(* ===== verification/CartLaws.thy ===== *)
theory CartLaws imports Cart begin

text \<open>
  What the chat cart promises: every entry is priced by the engine and its line total is
  its price times its quantity, along every run of cart operations; adding is additive; the
  context keeps its types; there is one session per customer.
\<close>

subsection \<open>Sessions\<close>

lemma get_set_cart [simp]: "get_cart (set_cart s c) = c"
  by (simp add: get_cart_def set_cart_def set_context_def context_of_def)

lemma set_cart_twice [simp]: "set_cart (set_cart s c) c' = set_cart s c'"
  by (simp add: set_cart_def set_context_def context_of_def)

lemma cart_total_set_cart [simp]: "cart_total_cents (set_cart s c) = sum_list (map ci_line_total_cents c)"
  by (simp add: cart_total_cents_def)

lemma context_of_set_context [simp]: "context_of (set_context s k v) = (context_of s)(k \<mapsto> v)"
  by (simp add: set_context_def context_of_def)

lemma context_of_set_cart [simp]: "context_of (set_cart s c) = (context_of s)(''cart'' \<mapsto> CartValue c)"
  by (simp add: set_cart_def)

lemma get_cart_clear [simp]: "get_cart (clear_cart s) = []"
  by (simp add: clear_cart_def get_cart_def context_of_def order_keys_def)

subsection \<open>Changing the first match\<close>

lemma change_first_none [simp]: "\<not> list_ex p xs \<Longrightarrow> change_first p f xs = xs"
  by (induction xs) auto

lemma change_first_split:
  "list_ex p xs \<Longrightarrow> \<exists>ys x zs. xs = ys @ x # zs \<and> p x \<and> find p xs = Some x \<and> (\<forall>f. change_first p f xs = ys @ f x # zs)"
proof (induction xs)
  case (Cons a xs)
  show ?case
  proof (cases "p a")
    case True
    then show ?thesis by (intro exI [of _ "[]"] exI [of _ a] exI [of _ xs]) simp
  next
    case False
    with Cons.prems Cons.IH obtain ys x zs where "xs = ys @ x # zs" "p x" "find p xs = Some x" "\<forall>f. change_first p f xs = ys @ f x # zs"
      by auto
    with False show ?thesis by (intro exI [of _ "a # ys"] exI [of _ x] exI [of _ zs]) simp
  qed
qed simp

lemma change_first_in: "x \<in> set (change_first p f xs) \<Longrightarrow> x \<in> set xs \<or> (\<exists>y \<in> set xs. p y \<and> x = f y)"
  by (induction xs) (auto split: if_splits)

lemma change_first_twice:
  "(\<And>x. p x \<Longrightarrow> p (f x)) \<Longrightarrow> change_first p g (change_first p f xs) = change_first p (\<lambda>x. g (f x)) xs"
  by (induction xs) auto

lemma list_ex_change_first: "(\<And>x. p x \<Longrightarrow> p (f x)) \<Longrightarrow> list_ex p (change_first p f xs) = list_ex p xs"
  by (induction xs) auto

lemma find_list_ex: "find p xs = Some x \<Longrightarrow> list_ex p xs"
  by (auto simp: find_Some_iff list_ex_iff)

subsection \<open>Priced entries\<close>

definition priced_entry :: "cart_item \<Rightarrow> bool" where
  "priced_entry i = (1 \<le> ci_quantity i \<and> ci_line_total_cents i = ci_price_cents i * ci_quantity i \<and>
     (\<exists>b. ci_base_price_cents i = Some b \<and> b \<noteq> 0 \<and>
        ci_price_cents i = calculate_unit_price b (map PlainOption (options_of_item i)) (map PlainAddOn (add_ons_of_item i))) \<and>
     ci_unit_price_cents i = Some (ci_price_cents i) \<and>
     ci_option_adjustment_cents i = Some (sum_list (map (option_delta \<circ> PlainOption) (options_of_item i))) \<and>
     ci_add_on_total_cents i = Some (sum_list (map (add_on_cost \<circ> PlainAddOn) (add_ons_of_item i))))"

definition cart_inv :: "conversation_session \<Rightarrow> bool" where
  "cart_inv s = list_all priced_entry (get_cart s)"

lemma cart_inv_set [simp]: "cart_inv (set_cart s c) = list_all priced_entry c"
  by (simp add: cart_inv_def)

lemma priced_set_quantity: "priced_entry i \<Longrightarrow> 1 \<le> q \<Longrightarrow> priced_entry (set_quantity q i)"
  by (simp add: priced_entry_def set_quantity_def options_of_item_def add_ons_of_item_def)

lemma new_item_simps:
  "ci_line_total_cents (new_cart_item a) = calculate_unit_price (ca_price_cents a) (map PlainOption (ca_selected_options a))
     (map PlainAddOn (ca_add_ons a)) * ca_quantity a"
  "ci_price_cents (new_cart_item a) = calculate_unit_price (ca_price_cents a) (map PlainOption (ca_selected_options a))
     (map PlainAddOn (ca_add_ons a))"
  "ci_quantity (new_cart_item a) = ca_quantity a" "ci_base_price_cents (new_cart_item a) = Some (ca_price_cents a)"
  "options_of_item (new_cart_item a) = ca_selected_options a" "add_ons_of_item (new_cart_item a) = ca_add_ons a"
  "ci_unit_price_cents (new_cart_item a) = Some (ci_price_cents (new_cart_item a))"
  "ci_option_adjustment_cents (new_cart_item a) = Some (sum_list (map (option_delta \<circ> PlainOption) (ca_selected_options a)))"
  "ci_add_on_total_cents (new_cart_item a) = Some (sum_list (map (add_on_cost \<circ> PlainAddOn) (ca_add_ons a)))"
  by (simp_all add: new_cart_item_def Let_def price_item_def calculate_line_item_def calculate_unit_price_def options_of_item_def
      add_ons_of_item_def dict_get_def comp_def)

lemma priced_new_item: "1 \<le> ca_quantity a \<Longrightarrow> ca_price_cents a \<noteq> 0 \<Longrightarrow> priced_entry (new_cart_item a)"
  by (simp add: priced_entry_def new_item_simps)

lemma priced_reprice: "priced_entry i \<Longrightarrow> priced_entry (reprice_add_ons addons i)"
  by (auto simp: priced_entry_def reprice_add_ons_def Let_def reprice_base_def price_item_def calculate_line_item_def
      calculate_unit_price_def options_of_item_def add_ons_of_item_def dict_get_def comp_def)

lemma priced_instructions [simp]: "priced_entry (i\<lparr>ci_special_instructions := x\<rparr>) = priced_entry i"
  by (simp add: priced_entry_def options_of_item_def add_ons_of_item_def)

lemma priced_change_first:
  assumes "list_all priced_entry c" "\<And>i. priced_entry i \<Longrightarrow> priced_entry (f i)"
  shows "list_all priced_entry (change_first p f c)"
  using assms change_first_in [of _ p f c] by (fastforce simp: list_all_iff)

lemma choose_entry_in:
  assumes "choose_entry cs h = Some k"
  shows "k \<in> fst ` set cs"
proof (cases cs)
  case Nil
  with assms show ?thesis by (simp add: choose_entry_def)
next
  case (Cons c cs')
  define x where "x = dict_get c (find (\<lambda>(_, i). hinted (lower (the h)) i) cs)"
  have "x \<in> set cs"
  proof (cases "find (\<lambda>(_, i). hinted (lower (the h)) i) cs")
    case None
    then show ?thesis by (simp add: x_def dict_get_def Cons)
  next
    case (Some y)
    with find_SomeD [OF Some] show ?thesis by (simp add: x_def dict_get_def)
  qed
  moreover from assms have "k = fst x \<or> k = fst c" by (auto simp: choose_entry_def Cons x_def split: if_splits)
  ultimately show ?thesis using Cons by auto
qed

subsection \<open>The operations of a conversation\<close>

inductive cart_step :: "conversation_session \<Rightarrow> conversation_session \<Rightarrow> bool" where
  added: "1 \<le> ca_quantity a \<Longrightarrow> ca_price_cents a \<noteq> 0 \<Longrightarrow> cart_step s (add_to_cart s a)"
| removed: "cart_step s (fst (remove_from_cart s n q h))"
| noted: "cart_step s (fst (update_cart_item_instructions s n t))"
| unnoted: "cart_step s (fst (remove_modifier_from_instructions s n w))"
| add_on_removed: "cart_step s (fst (remove_addon_from_cart_item s n a))"
| add_on_added: "cart_step s (fst (add_addon_to_cart_item s n d))"
| cleared: "cart_step s (clear_cart s)"
| noted_context: "k \<noteq> ''cart'' \<Longrightarrow> cart_step s (set_context s k v)"
| touched: "cart_step s (touch_session now s)"
| moved: "cart_step s (fst (transition_state s st))"

lemma remove_from_cart_cases:
  obtains "fst (remove_from_cart s n q h) = s"
  | k r where "k < length (get_cart s)" "q = Some r" "r < ci_quantity (get_cart s ! k)"
      "fst (remove_from_cart s n q h) = set_cart s ((get_cart s)[k := set_quantity (ci_quantity (get_cart s ! k) - r) (get_cart s ! k)])"
  | k where "k < length (get_cart s)" "fst (remove_from_cart s n q h) = set_cart s (take k (get_cart s) @ drop (Suc k) (get_cart s))"
proof -
  let ?cs = "filter (\<lambda>(_, i). contains (strip (lower n)) (lower (ci_name i))) (enumerate 0 (get_cart s))"
  show thesis
  proof (cases "choose_entry ?cs h")
    case None
    then show thesis by (intro that(1)) (simp add: remove_from_cart_def Let_def)
  next
    case (Some k)
    from choose_entry_in [OF Some] have k: "k < length (get_cart s)" by (auto simp: in_set_enumerate_eq)
    show thesis
    proof (cases "\<exists>r. q = Some r \<and> r < ci_quantity (get_cart s ! k)")
      case True
      then obtain r where "q = Some r" "r < ci_quantity (get_cart s ! k)" by blast
      with Some k show thesis by (intro that(2) [of k r]) (simp_all add: remove_from_cart_def Let_def)
    next
      case False
      with Some k show thesis by (intro that(3) [of k]) (auto simp: remove_from_cart_def Let_def split: option.splits)
    qed
  qed
qed

lemma remove_keeps_priced: "cart_inv s \<Longrightarrow> cart_inv (fst (remove_from_cart s n q h))"
proof (cases rule: remove_from_cart_cases [of s n q h])
  case (2 k r)
  moreover assume "cart_inv s"
  ultimately have "priced_entry (get_cart s ! k)" by (simp add: cart_inv_def list_all_length)
  then have "priced_entry (set_quantity (ci_quantity (get_cart s ! k) - r) (get_cart s ! k))"
    using 2 by (intro priced_set_quantity) simp_all
  with \<open>cart_inv s\<close> 2 show ?thesis by (auto simp: cart_inv_def list_all_iff dest: set_update_subset_insert [THEN subsetD])
next
  case (3 k)
  moreover assume "cart_inv s"
  ultimately show ?thesis by (auto simp: cart_inv_def list_all_iff dest: in_set_takeD in_set_dropD)
qed simp

lemma cart_step_inv: "cart_step s s' \<Longrightarrow> cart_inv s \<Longrightarrow> cart_inv s'"
proof (induction rule: cart_step.induct)
  case (added a s)
  have "priced_entry (set_quantity (ci_quantity i + ca_quantity a) i)" if "priced_entry i" for i
    using that added.hyps by (intro priced_set_quantity) (auto simp: priced_entry_def)
  with added show ?case
    by (auto simp: add_to_cart_def Let_def priced_new_item cart_inv_def [of s] intro!: priced_change_first)
next
  case (removed s n q h)
  then show ?case by (rule remove_keeps_priced)
next
  case (noted s n t)
  then show ?case
    by (auto simp: update_cart_item_instructions_def Let_def merge_instructions_def cart_inv_def [of s] intro!: priced_change_first)
next
  case (unnoted s n w)
  then show ?case
    by (auto simp: remove_modifier_from_instructions_def Let_def cart_inv_def [of s] intro!: priced_change_first split: option.splits)
next
  case (add_on_removed s n a)
  then show ?case
    by (auto simp: remove_addon_from_cart_item_def Let_def cart_inv_def [of s] intro!: priced_change_first priced_reprice split: option.splits)
next
  case (add_on_added s n d)
  then show ?case
    by (auto simp: add_addon_to_cart_item_def Let_def cart_inv_def [of s] intro!: priced_change_first priced_reprice split: option.splits)
next
  case (cleared s)
  then show ?case by (simp add: cart_inv_def)
next
  case (noted_context k s v)
  then show ?case by (simp add: cart_inv_def get_cart_def)
next
  case (touched s now)
  then show ?case
    by (auto simp: cart_inv_def get_cart_def context_of_def touch_session_def Let_def split: option.splits if_splits)
next
  case (moved s st)
  then show ?case by (simp add: cart_inv_def get_cart_def context_of_def transition_state_def)
qed

text \<open>
  C22: The cart of a chat stays priced: along every run of the cart operations in which
  items are added with a positive quantity and a price other than zero, each entry's unit
  price is the engine's price of its base price with exactly the options and add-ons it now
  has, its line total is that price times its quantity, which stays positive, and the total
  of the cart is the sum of these and never negative.
\<close>

theorem cart_stays_priced:
  assumes "cart_step\<^sup>*\<^sup>* s s'" and "cart_inv s"
  shows "(\<forall>i \<in> set (get_cart s'). 1 \<le> ci_quantity i \<and> ci_line_total_cents i = ci_price_cents i * ci_quantity i \<and>
      (\<exists>b. ci_base_price_cents i = Some b \<and>
         ci_price_cents i = calculate_unit_price b (map PlainOption (options_of_item i)) (map PlainAddOn (add_ons_of_item i)))) \<and>
    cart_total_cents s' = sum_list (map (\<lambda>i. ci_price_cents i * ci_quantity i) (get_cart s')) \<and> 0 \<le> cart_total_cents s'"
proof -
  from assms have inv: "list_all priced_entry (get_cart s')"
    by (induction rule: rtranclp_induct) (auto simp: cart_inv_def dest: cart_step_inv [unfolded cart_inv_def])
  then have t: "cart_total_cents s' = sum_list (map (\<lambda>i. ci_price_cents i * ci_quantity i) (get_cart s'))"
    by (auto simp: cart_total_cents_def priced_entry_def list_all_iff intro!: arg_cong [of _ _ sum_list])
  have "0 \<le> ci_price_cents i * ci_quantity i" if "i \<in> set (get_cart s')" for i
    using inv that by (auto simp: list_all_iff priced_entry_def calculate_unit_price_nonneg intro!: mult_nonneg_nonneg)
  then have "0 \<le> sum_list (map (\<lambda>i. ci_price_cents i * ci_quantity i) (get_cart s'))" by (auto intro!: sum_list_nonneg)
  with t inv show ?thesis by (auto simp: list_all_iff priced_entry_def)
qed

subsection \<open>Adding\<close>

lemma same_line_quantity [simp]:
  "same_line (a\<lparr>ca_quantity := q\<rparr>) i = same_line a i" "same_line a (set_quantity q i) = same_line a i"
  "same_line a (new_cart_item (a\<lparr>ca_quantity := q\<rparr>))"
  by (simp_all add: same_line_def set_quantity_def options_of_item_def add_ons_of_item_def new_cart_item_def Let_def dict_get_def)

lemma set_quantity_twice: "set_quantity q (set_quantity r i) = set_quantity q i" "ci_quantity (set_quantity r i) = r"
  by (simp_all add: set_quantity_def)

lemma set_quantity_new: "set_quantity q (new_cart_item (a\<lparr>ca_quantity := m\<rparr>)) = new_cart_item (a\<lparr>ca_quantity := q\<rparr>)"
  by (simp add: set_quantity_def new_cart_item_def Let_def price_item_def calculate_line_item_def)

lemma same_line_eta: "same_line (a\<lparr>ca_quantity := q\<rparr>) = same_line a"
  by (rule ext) simp

lemma change_first_snoc: "\<not> list_ex p xs \<Longrightarrow> p x \<Longrightarrow> change_first p f (xs @ [x]) = xs @ [f x]"
  by (induction xs) auto

text \<open>
  Adding is additive: adding a number of a configured item and then more of the same
  gives the cart that adding them at once gives, whether or not the item was there before;
  and one addition raises the total of the cart by its quantity times the unit price of
  its entry, which for a new entry is the engine's price.
\<close>

theorem additions_accumulate:
  assumes inv: "cart_inv s"
  shows "add_to_cart (add_to_cart s (a\<lparr>ca_quantity := m\<rparr>)) (a\<lparr>ca_quantity := n\<rparr>) = add_to_cart s (a\<lparr>ca_quantity := m + n\<rparr>) \<and>
    cart_total_cents (add_to_cart s (a\<lparr>ca_quantity := n\<rparr>)) = cart_total_cents s + n *
      (case find (same_line a) (get_cart s) of Some i \<Rightarrow> ci_price_cents i
       | None \<Rightarrow> calculate_unit_price (ca_price_cents a) (map PlainOption (ca_selected_options a)) (map PlainAddOn (ca_add_ons a)))"
proof (cases "list_ex (same_line a) (get_cart s)")
  case True
  have f: "change_first (same_line a) (\<lambda>i. set_quantity (ci_quantity i + n) i)
      (change_first (same_line a) (\<lambda>i. set_quantity (ci_quantity i + m) i) (get_cart s)) =
      change_first (same_line a) (\<lambda>i. set_quantity (ci_quantity i + (m + n)) i) (get_cart s)"
    by (subst change_first_twice) (simp_all add: set_quantity_twice add.assoc)
  from change_first_split [OF True] obtain ys x zs where c: "get_cart s = ys @ x # zs" "find (same_line a) (get_cart s) = Some x"
    "\<forall>f. change_first (same_line a) f (get_cart s) = ys @ f x # zs" by blast
  from inv c(1) have x: "ci_line_total_cents x = ci_price_cents x * ci_quantity x" by (simp add: cart_inv_def priced_entry_def)
  have "list_ex (same_line a) (change_first (same_line a) (\<lambda>i. set_quantity (ci_quantity i + m) i) (get_cart s))"
    using True by (simp add: list_ex_change_first)
  with True f c x show ?thesis
    by (simp add: add_to_cart_def Let_def same_line_eta cart_total_cents_def [of s] set_quantity_def algebra_simps)
next
  case False
  then have "find (same_line a) (get_cart s) = None" by (auto simp: find_None_iff list_ex_iff)
  with False show ?thesis
    by (simp add: add_to_cart_def Let_def same_line_eta change_first_snoc set_quantity_new new_item_simps cart_total_cents_def [of s])
qed

subsection \<open>Samples and evidence\<close>

definition sample_session :: conversation_session where
  "sample_session = new_session 10 5 0"

definition sample_addition :: cart_addition where
  "sample_addition = \<lparr>ca_menu_item_id = ''m1'', ca_name = ''Burger'', ca_price_cents = 8500, ca_quantity = 2, ca_selected_options = [],
     ca_add_ons = [\<lparr>ad_add_on_id = Some ''a1'', ad_name = ''Extra cheese'', ad_price_cents = Some 1500, ad_quantity = None\<rparr>],
     ca_options = None, ca_special_instructions = None\<rparr>"

lemma sample_session_inv: "cart_inv sample_session"
  by (simp add: cart_inv_def sample_session_def new_session_def get_cart_def context_of_def)

lemma cart_stays_priced_witness:
  "cart_total_cents (add_to_cart sample_session sample_addition) = 20000 \<and>
   list_all (\<lambda>i. ci_line_total_cents i = ci_price_cents i * ci_quantity i) (get_cart (add_to_cart sample_session sample_addition))"
proof -
  have "cart_step sample_session (add_to_cart sample_session sample_addition)"
    by (rule cart_step.added) (simp_all add: sample_addition_def)
  from cart_stays_priced [OF r_into_rtranclp [where r = cart_step, OF this] sample_session_inv]
  show ?thesis
    by (auto simp: add_to_cart_def sample_session_def new_session_def get_cart_def context_of_def sample_addition_def new_cart_item_def
        price_item_def calculate_line_item_def dict_get_def set_cart_def set_context_def)
qed

lemma additions_accumulate_witness:
  "cart_total_cents (add_to_cart (add_to_cart sample_session (sample_addition\<lparr>ca_quantity := 2\<rparr>)) (sample_addition\<lparr>ca_quantity := 1\<rparr>)) = 30000"
proof -
  have "find (same_line sample_addition) (get_cart sample_session) = None"
    by (simp add: sample_session_def new_session_def get_cart_def context_of_def)
  with additions_accumulate [OF sample_session_inv, where a = sample_addition and m = 2 and n = 1]
    additions_accumulate [OF sample_session_inv, where a = sample_addition and m = 0 and n = 3]
  show ?thesis
    by (simp add: cart_total_cents_def [of sample_session])
      (simp add: sample_session_def new_session_def get_cart_def context_of_def sample_addition_def calculate_unit_price_def dict_get_def)
qed

text \<open>
  A free item with a paid add-on: its base price of zero is taken for missing, so removing the
  add-on keeps its price, and adding another stacks on top of it.
\<close>

lemma free_item_keeps_add_on_price:
  "\<exists>s. map ci_price_cents (get_cart (add_to_cart s (sample_addition\<lparr>ca_price_cents := 0\<rparr>))) = [1500] \<and>
     map (\<lambda>i. (ci_add_ons i, ci_price_cents i))
       (get_cart (fst (remove_addon_from_cart_item (add_to_cart s (sample_addition\<lparr>ca_price_cents := 0\<rparr>)) ''burger'' ''cheese''))) = [(Some [], 1500)]"
proof -
  have l: "lower ''burger'' = ''burger''" "lower ''cheese'' = ''cheese''" "strip ''burger'' = ''burger''" "strip ''cheese'' = ''cheese''"
    "lower ''Burger'' = ''burger''" "lower ''Extra cheese'' = ''extra cheese''" by code_simp+
  have c: "contains ''burger'' ''burger''" "contains ''cheese'' ''extra cheese''" by code_simp+
  show ?thesis
    by (rule exI [of _ sample_session])
      (simp add: add_to_cart_def sample_session_def new_session_def get_cart_def context_of_def sample_addition_def new_cart_item_def
        price_item_def calculate_line_item_def dict_get_def set_cart_def set_context_def remove_addon_from_cart_item_def
        names_match_def l c Let_def add_ons_of_item_def reprice_add_ons_def reprice_base_def options_of_item_def)
qed

end
