(* ===== verification/ChatOrders.thy ===== *)
theory ChatOrders imports CartLaws OrderLaws begin

text \<open>
  \<^verbatim>\<open>backend/app/bot/order_creator.py\<close>: the order a confirmed chat cart becomes.  The rows
  are flushed inside the transaction of the message; the flush checks the constraints.  The
  live cart is used, the confirmed copy only when the live one is empty.
\<close>

definition text_in :: "chat_context \<Rightarrow> string \<Rightarrow> string option" where
  "text_in ctx k = (case ctx k of Some (TextValue t) \<Rightarrow> Some t | _ \<Rightarrow> None)"

definition number_in :: "chat_context \<Rightarrow> string \<Rightarrow> int \<Rightarrow> int" where
  "number_in ctx k d = (case ctx k of Some (NumberValue n) \<Rightarrow> n | _ \<Rightarrow> d)"

definition chat_order_mode :: "chat_context \<Rightarrow> order_mode" where
  "chat_order_mode ctx = (case text_in ctx ''order_mode'' of
     Some t \<Rightarrow> if t = ''DELIVERY'' then DELIVERY else if t = ''DINE_IN'' then DINE_IN else PICKUP | None \<Rightarrow> PICKUP)"

definition confirmed_cart :: "chat_context \<Rightarrow> cart_item list option" where
  "confirmed_cart ctx = (case ctx ''confirmed_cart'' of Some (CartValue c) \<Rightarrow> Some c | _ \<Rightarrow> None)"

text \<open>
  \<open>live_cart or confirmed_cart\<close>; the log line before the check sums over it, so with neither it
  is iterating over None that raises.
\<close>

definition cart_to_order :: "conversation_session \<Rightarrow> cart_item list result" where
  "cart_to_order s =
     (if get_cart s \<noteq> [] then Inr (get_cart s)
      else case confirmed_cart (context_of s) of
          None \<Rightarrow> Inl TypeError
        | Some [] \<Rightarrow> Inl ValueError
        | Some c \<Rightarrow> Inr c)"

definition chat_order_item :: "uuid \<Rightarrow> uuid \<Rightarrow> cart_item \<Rightarrow> order_item" where
  "chat_order_item oid business i =
     \<lparr>oi_order_id = oid, oi_business_id = business,
      oi_menu_item_id = (if ci_menu_item_id i = [] then None else uuid_of_str (ci_menu_item_id i)),
      oi_name_snapshot = ci_name i, oi_base_price_cents = dict_get (ci_price_cents i) (ci_base_price_cents i),
      oi_option_adjustment_cents = dict_get 0 (ci_option_adjustment_cents i),
      oi_add_on_total_cents = dict_get 0 (ci_add_on_total_cents i),
      oi_unit_price_cents = dict_get (ci_price_cents i) (ci_unit_price_cents i), oi_quantity = ci_quantity i,
      oi_line_total_cents = ci_line_total_cents i, oi_options_snapshot = ci_options i,
      oi_selected_options_snapshot = or_none (map PlainOption (options_of_item i)),
      oi_add_ons_snapshot = or_none (map PlainAddOn (add_ons_of_item i)), oi_removed_ingredients_snapshot = None,
      oi_special_instructions = ci_special_instructions i, oi_is_ad_hoc_price = False\<rparr>"

definition chat_order ::
  "business \<Rightarrow> customer \<Rightarrow> chat_context \<Rightarrow> order_status \<Rightarrow> int \<Rightarrow> uuid \<Rightarrow> instant \<Rightarrow> order" where
  "chat_order b customer ctx initial_status subtotal new_id now =
     (let fee = number_in ctx ''delivery_fee_cents'' 0
      in (new_order new_id (bu_id b) (format_order_number (bu_order_number_sequence b)))
       \<lparr>or_customer_id := Some (cu_id customer), or_status := initial_status,
        or_payment_required := bu_online_payment_required b,
        or_payment_status := (if bu_online_payment_required b then PS_UNPAID else PS_PENDING),
        or_order_mode := chat_order_mode ctx, or_source := WHATSAPP, or_subtotal_cents := subtotal,
        or_delivery_fee_cents := fee, or_total_cents := subtotal + fee, or_currency := bu_currency b,
        or_customer_name := (if truthy (text_in ctx ''customer_name'') then text_in ctx ''customer_name'' else cu_display_name customer),
        or_phone_number := (if truthy (text_in ctx ''phone_number'') then text_in ctx ''phone_number'' else cu_phone_number customer),
        or_delivery_address := text_in ctx ''delivery_address'',
        or_special_instructions := (if truthy (text_in ctx ''order_notes'') then text_in ctx ''order_notes'' else None),
        or_confirmed_at := Some now\<rparr>)"

text \<open>What the stock layer reads of a cart entry.\<close>

definition bot_line :: "cart_item \<Rightarrow> bot_cart_item" where
  "bot_line i = \<lparr>bc_menu_item_id = Some (ci_menu_item_id i), bc_quantity = Some (ci_quantity i),
     bc_selected_options = map (\<lambda>d. Entry \<lparr>on_group_id = od_group_id d, on_option_id = od_option_id d\<rparr>) (options_of_item i),
     bc_add_ons = map (\<lambda>d. Entry \<lparr>an_add_on_id = ad_add_on_id d, an_id = None, an_quantity = ad_quantity d\<rparr>) (add_ons_of_item i)\<rparr>"

definition take_chat_stock :: "shop_db \<Rightarrow> business \<Rightarrow> uuid \<Rightarrow> cart_item list \<Rightarrow> instant \<Rightarrow> shop_db result" where
  "take_chat_stock db b oid cart now =
     (if \<not> bu_inventory_enabled b then Inr db
      else and_then (post_sale_consumption (sh_stock db) (bu_id b) oid (build_line_specs_from_bot_cart (map bot_line cart))
                       None (Some now) SALE_CONSUMPTION now) (\<lambda>(stock, consumption).
        let db = db\<lparr>sh_stock := stock\<rparr>
        in Inr (if cr_menu_items_without_recipe consumption = [] then db
                else add_audit (bu_id b) None ''inventory.sale.missing_recipe'' oid db)))"

definition create_order_from_cart ::
  "shop_db \<Rightarrow> uuid \<Rightarrow> customer \<Rightarrow> conversation_session \<Rightarrow> order_status \<Rightarrow> uuid \<Rightarrow> instant \<Rightarrow> (shop_db \<times> order) result" where
  "create_order_from_cart db business customer session initial_status new_id now =
     and_then (cart_to_order session) (\<lambda>cart.
     and_then (next_order_number db business) (\<lambda>(db, b).
       let o1 = chat_order b customer (context_of session) initial_status (sum_list (map ci_line_total_cents cart)) new_id now;
           db = add_order o1 (db\<lparr>sh_items := sh_items db @ map (chat_order_item new_id business) cart\<rparr>)
       in and_then (take_chat_stock db b new_id cart now) (\<lambda>db.
          and_then (commit_shop (add_event \<lparr>oe_order_id = new_id, oe_business_id = business, oe_old_status = None,
                      oe_new_status = initial_status, oe_changed_by_user_id = None\<rparr> db)) (\<lambda>db. Inr (db, o1)))))"

subsection \<open>The money of a chat order\<close>

lemma take_chat_stock_shape:
  assumes "take_chat_stock db b oid cart now = Inr db'"
  shows "sh_orders db' = sh_orders db \<and> sh_items db' = sh_items db \<and> sh_events db' = sh_events db \<and>
    (if bu_inventory_enabled b
     then \<exists>res. post_sale_consumption (sh_stock db) (bu_id b) oid (build_line_specs_from_bot_cart (map bot_line cart))
            None (Some now) SALE_CONSUMPTION now = Inr (sh_stock db', res)
     else sh_stock db' = sh_stock db)"
  using assms by (auto simp: take_chat_stock_def Let_def and_then_eq_Inr add_audit_def split: if_splits)

lemma create_chat_order_shape:
  assumes "create_order_from_cart db business customer s st new_id now = Inr (db', o1)"
  obtains cart b0 b db2 where "cart_to_order s = Inr cart" "b0 \<in> set (sh_businesses db)" "bu_id b0 = business"
    "b = b0\<lparr>bu_order_number_sequence := bu_order_number_sequence b0 + 1\<rparr>"
    "o1 = chat_order b customer (context_of s) st (sum_list (map ci_line_total_cents cart)) new_id now"
    "sh_items db' = sh_items db @ map (chat_order_item new_id business) cart" "sh_orders db' = sh_orders db @ [o1]"
    "sh_events db' = sh_events db @ [\<lparr>oe_order_id = new_id, oe_business_id = business, oe_old_status = None,
        oe_new_status = st, oe_changed_by_user_id = None\<rparr>]" "shop_ok db'"
    "if bu_inventory_enabled b then \<exists>res. post_sale_consumption (sh_stock db) business new_id
        (build_line_specs_from_bot_cart (map bot_line cart)) None (Some now) SALE_CONSUMPTION now = Inr (sh_stock db', res)
     else sh_stock db' = sh_stock db"
proof -
  let ?e = "\<lparr>oe_order_id = new_id, oe_business_id = business, oe_old_status = None, oe_new_status = st, oe_changed_by_user_id = None\<rparr>"
  from assms obtain cart db1 b db2 where c: "cart_to_order s = Inr cart" and n: "next_order_number db business = Inr (db1, b)"
    and o1: "o1 = chat_order b customer (context_of s) st (sum_list (map ci_line_total_cents cart)) new_id now"
    and t: "take_chat_stock (add_order o1 (db1\<lparr>sh_items := sh_items db1 @ map (chat_order_item new_id business) cart\<rparr>)) b new_id cart now = Inr db2"
    and k: "db' = add_event ?e db2" "shop_ok (add_event ?e db2)"
    by (auto simp: create_order_from_cart_def Let_def and_then_eq_Inr commit_shop_eq)
  from next_number_shape [OF n] obtain b0 where b0: "b0 \<in> set (sh_businesses db)" "bu_id b0 = business"
    "b = b0\<lparr>bu_order_number_sequence := bu_order_number_sequence b0 + 1\<rparr>"
    and d1: "sh_items db1 = sh_items db" "sh_orders db1 = sh_orders db" "sh_events db1 = sh_events db" "sh_stock db1 = sh_stock db" by auto
  have "bu_id b = business" using b0 by simp
  have "sh_stock (add_order o1 (db1\<lparr>sh_items := sh_items db1 @ map (chat_order_item new_id business) cart\<rparr>)) = sh_stock db"
    by (simp add: add_order_def d1)
  with take_chat_stock_shape [OF t, unfolded this \<open>bu_id b = business\<close>] d1 k c b0 o1 show thesis
    by (intro that [OF c b0 o1]) (simp_all add: add_event_def add_order_def)
qed

text \<open>
  C21: A chat order charges what the cart said: its subtotal is the total of the live cart,
  its total adds only the fee staff put into the conversation and no tax, its rows are the
  cart entries in order with a coherent breakdown whose line totals add up to the subtotal;
  it waits for payment exactly when the business requires payment online, its first event
  records its status, and the stock posted for it is that of the cart's specifications.
\<close>

theorem chat_order_money:
  assumes c: "create_order_from_cart db business customer s st new_id now = Inr (db', o1)"
    and inv: "cart_inv s" and live: "get_cart s \<noteq> []"
  shows "or_subtotal_cents o1 = cart_total_cents s \<and>
    or_total_cents o1 = cart_total_cents s + number_in (context_of s) ''delivery_fee_cents'' 0 \<and> or_tax_cents o1 = 0 \<and>
    (\<exists>rows. sh_items db' = sh_items db @ rows \<and> map oi_name_snapshot rows = map ci_name (get_cart s) \<and>
       sum_list (map oi_line_total_cents rows) = or_subtotal_cents o1 \<and>
       (\<forall>r \<in> set rows. oi_order_id r = new_id \<and> oi_line_total_cents r = oi_unit_price_cents r * oi_quantity r \<and>
          oi_unit_price_cents r = max 0 (oi_base_price_cents r + oi_option_adjustment_cents r + oi_add_on_total_cents r))) \<and>
    (\<exists>b \<in> set (sh_businesses db). bu_id b = business \<and> or_payment_required o1 = bu_online_payment_required b \<and>
       (or_payment_status o1 = PS_UNPAID \<longleftrightarrow> bu_online_payment_required b) \<and>
       (if bu_inventory_enabled b then \<exists>res. post_sale_consumption (sh_stock db) business new_id
          (build_line_specs_from_bot_cart (map bot_line (get_cart s))) None (Some now) SALE_CONSUMPTION now = Inr (sh_stock db', res)
        else sh_stock db' = sh_stock db)) \<and>
    sh_orders db' = sh_orders db @ [o1] \<and> last (sh_events db') = \<lparr>oe_order_id = new_id, oe_business_id = business,
       oe_old_status = None, oe_new_status = or_status o1, oe_changed_by_user_id = None\<rparr>"
proof -
  from c obtain cart b0 b where k: "cart_to_order s = Inr cart" and b0: "b0 \<in> set (sh_businesses db)" "bu_id b0 = business"
    and b: "b = b0\<lparr>bu_order_number_sequence := bu_order_number_sequence b0 + 1\<rparr>"
    and o1: "o1 = chat_order b customer (context_of s) st (sum_list (map ci_line_total_cents cart)) new_id now"
    and r: "sh_items db' = sh_items db @ map (chat_order_item new_id business) cart" "sh_orders db' = sh_orders db @ [o1]"
      "sh_events db' = sh_events db @ [\<lparr>oe_order_id = new_id, oe_business_id = business, oe_old_status = None,
        oe_new_status = st, oe_changed_by_user_id = None\<rparr>]"
    and stock: "if bu_inventory_enabled b then \<exists>res. post_sale_consumption (sh_stock db) business new_id
        (build_line_specs_from_bot_cart (map bot_line cart)) None (Some now) SALE_CONSUMPTION now = Inr (sh_stock db', res)
     else sh_stock db' = sh_stock db"
    by (rule create_chat_order_shape) blast
  have cart: "cart = get_cart s" using k live by (simp add: cart_to_order_def)
  let ?rows = "map (chat_order_item new_id business) cart"
  have row: "oi_line_total_cents x = oi_unit_price_cents x * oi_quantity x \<and>
      oi_unit_price_cents x = max 0 (oi_base_price_cents x + oi_option_adjustment_cents x + oi_add_on_total_cents x)" if "x \<in> set ?rows" for x
    using that inv
    by (auto simp: cart cart_inv_def list_all_iff priced_entry_def chat_order_item_def dict_get_def calculate_unit_price_def comp_def)
  have sum: "map oi_line_total_cents ?rows = map ci_line_total_cents cart" "map oi_name_snapshot ?rows = map ci_name cart"
    by (simp_all add: chat_order_item_def)
  have o: "or_subtotal_cents o1 = cart_total_cents s" "or_tax_cents o1 = 0" "or_status o1 = st"
    "or_total_cents o1 = cart_total_cents s + number_in (context_of s) ''delivery_fee_cents'' 0"
    "or_payment_required o1 = bu_online_payment_required b0" "or_payment_status o1 = PS_UNPAID \<longleftrightarrow> bu_online_payment_required b0"
    by (simp_all add: o1 chat_order_def Let_def new_order_def cart_total_cents_def cart b)
  have oid: "oi_order_id x = new_id" if "x \<in> set ?rows" for x using that by (auto simp: chat_order_item_def)
  have rows: "\<exists>rows. sh_items db' = sh_items db @ rows \<and> map oi_name_snapshot rows = map ci_name (get_cart s) \<and>
       sum_list (map oi_line_total_cents rows) = or_subtotal_cents o1 \<and>
       (\<forall>r \<in> set rows. oi_order_id r = new_id \<and> oi_line_total_cents r = oi_unit_price_cents r * oi_quantity r \<and>
          oi_unit_price_cents r = max 0 (oi_base_price_cents r + oi_option_adjustment_cents r + oi_add_on_total_cents r))"
  proof (intro exI conjI)
    show "sh_items db' = sh_items db @ ?rows" by (rule r(1))
    show "map oi_name_snapshot ?rows = map ci_name (get_cart s)" using sum(2) by (simp only: cart)
    show "sum_list (map oi_line_total_cents ?rows) = or_subtotal_cents o1" unfolding sum(1) o(1) by (simp add: cart cart_total_cents_def)
    show "\<forall>r \<in> set ?rows. oi_order_id r = new_id \<and> oi_line_total_cents r = oi_unit_price_cents r * oi_quantity r \<and>
          oi_unit_price_cents r = max 0 (oi_base_price_cents r + oi_option_adjustment_cents r + oi_add_on_total_cents r)"
      using row oid by blast
  qed
  have biz: "\<exists>b \<in> set (sh_businesses db). bu_id b = business \<and> or_payment_required o1 = bu_online_payment_required b \<and>
       (or_payment_status o1 = PS_UNPAID \<longleftrightarrow> bu_online_payment_required b) \<and>
       (if bu_inventory_enabled b then \<exists>res. post_sale_consumption (sh_stock db) business new_id
          (build_line_specs_from_bot_cart (map bot_line (get_cart s))) None (Some now) SALE_CONSUMPTION now = Inr (sh_stock db', res)
        else sh_stock db' = sh_stock db)"
    using b0 o stock [unfolded cart b] by (intro bexI [OF _ b0(1)]) (simp add: b)
  show ?thesis by (intro conjI, fact o(1), fact o(4), fact o(2), fact rows, fact biz, fact r(2), simp add: r(3) o(3))
qed

definition sample_chat :: conversation_session where
  "sample_chat = set_context (add_to_cart sample_session sample_addition) ''delivery_fee_cents'' (NumberValue 2500)"

definition sample_chat_shop :: shop_db where
  "sample_chat_shop = sample_shop\<lparr>sh_businesses := [sample_business\<lparr>bu_vat_registered := True, bu_vat_inclusive_pricing := False,
     bu_inventory_enabled := False\<rparr>]\<rparr>"

lemma sample_chat_cart: "get_cart sample_chat = [new_cart_item sample_addition]"
  by (simp add: sample_chat_def get_cart_def set_context_def context_of_def add_to_cart_def sample_session_def new_session_def
      set_cart_def)

lemma sample_chat_order:
  obtains db' o1 where "create_order_from_cart sample_chat_shop 10 (sample_customer 0) sample_chat NEW 77 50 = Inr (db', o1)"
proof -
  let ?b = "sample_business\<lparr>bu_vat_registered := True, bu_vat_inclusive_pricing := False, bu_inventory_enabled := False,
     bu_order_number_sequence := 1\<rparr>"
  let ?db1 = "sample_chat_shop\<lparr>sh_businesses := [?b]\<rparr>"
  have k: "cart_to_order sample_chat = Inr [new_cart_item sample_addition]" by (simp add: cart_to_order_def sample_chat_cart)
  have n: "next_order_number sample_chat_shop 10 = Inr (?db1, ?b)"
    by (simp add: next_order_number_def business_of_def sample_chat_shop_def sample_business_def Let_def update_where_def)
  have ok: "shop_ok (add_order o2 (?db1\<lparr>sh_items := is\<rparr>))" for o2 "is"
    by (simp add: shop_ok_def add_order_def sample_chat_shop_def sample_shop_def)
      (simp add: unique_index_one commit_loyalty_def stock_index_def)
  have st: "take_chat_stock db ?b oid cart now = Inr db" for db oid cart now by (simp add: take_chat_stock_def)
  show thesis
    by (rule that) (simp add: create_order_from_cart_def k n st commit_shop_ok ok Let_def)
qed

text \<open>Two burgers for a business whose prices exclude VAT: the chat order has no tax.\<close>

lemma chat_order_money_witness:
  "\<exists>db' o1. create_order_from_cart sample_chat_shop 10 (sample_customer 0) sample_chat NEW 77 50 = Inr (db', o1) \<and>
     or_subtotal_cents o1 = 20000 \<and> or_total_cents o1 = 22500 \<and> or_tax_cents o1 = 0"
proof -
  obtain db' o1 where c: "create_order_from_cart sample_chat_shop 10 (sample_customer 0) sample_chat NEW 77 50 = Inr (db', o1)"
    by (rule sample_chat_order)
  have "cart_inv sample_chat" by (simp add: cart_inv_def sample_chat_cart priced_new_item sample_addition_def)
  moreover have "cart_total_cents sample_chat = 20000"
    by (simp add: cart_total_cents_def sample_chat_cart new_item_simps)
      (simp add: sample_addition_def calculate_unit_price_def dict_get_def)
  moreover have "number_in (context_of sample_chat) ''delivery_fee_cents'' 0 = 2500" by (simp add: number_in_def sample_chat_def)
  ultimately show ?thesis using chat_order_money [OF c] c by (auto simp: sample_chat_cart)
qed

text \<open>Evidence: without a cart and without a confirmed copy it is not the promised error that is raised.\<close>

lemma empty_cart_raises_type_error:
  "create_order_from_cart db business customer sample_session st new_id now = Inl TypeError"
  by (simp add: create_order_from_cart_def cart_to_order_def get_cart_def confirmed_cart_def sample_session_def new_session_def context_of_def)

end
