(* ===== verification/Receipts.thy ===== *)
theory Receipts imports Shop Units begin

text \<open>
  \<^verbatim>\<open>backend/app/receipts/document.py\<close>: the printable document of an order, from the
  snapshots of its rows and the receipt settings of its business.  The two renderings of the
  creation instant (ISO text, and text in the zone of the business) are parameters: they are
  the standard library's.
\<close>

definition columns_for :: "int \<Rightarrow> int" where
  "columns_for paper_width_mm = (if paper_width_mm = 58 then 32 else 48)"

text \<open>The value is a hundredth of an integer, so two decimals show it exactly.\<close>

definition format_money :: "int \<Rightarrow> string \<Rightarrow> string" where
  "format_money cents currency =
     (if cents < 0 then ''-'' else []) @ (if currency = ''ZAR'' then ''R'' else []) @ dec_format_f (Dec \<bar>cents\<bar> (- 2))"

subsection \<open>The document\<close>

record receipt_modifier =
  rm_label :: string
  rm_amount_cents :: "int option"
  rm_amount_display :: "string option"

record receipt_line =
  rl_quantity :: int
  rl_name :: string
  rl_unit_amount_cents :: int
  rl_unit_amount_display :: string
  rl_amount_cents :: int
  rl_amount_display :: string
  rl_modifiers :: "receipt_modifier list"
  rl_note :: "string option"

record receipt_totals =
  rt_subtotal_cents :: int
  rt_subtotal_display :: string
  rt_discount_cents :: int
  rt_discount_display :: "string option"
  rt_discount_reason :: "string option"
  rt_loyalty_discount_cents :: int
  rt_loyalty_discount_display :: "string option"
  rt_loyalty_reward_name :: "string option"
  rt_loyalty_points_redeemed :: int
  rt_delivery_fee_cents :: int
  rt_delivery_fee_display :: "string option"
  rt_vat_cents :: int
  rt_vat_display :: "string option"
  rt_vat_rate_basis_points :: "int option"
  rt_vat_inclusive :: "bool option"
  rt_total_cents :: int
  rt_total_display :: string

record receipt_allocation =
  ra_method :: string
  ra_amount_cents :: int
  ra_amount_display :: string
  ra_cash_tendered_cents :: "int option"
  ra_cash_tendered_display :: "string option"
  ra_change_due_cents :: "int option"
  ra_change_due_display :: "string option"
  ra_reference :: "string option"
  ra_provider :: "string option"

record receipt_payment =
  rp_method :: "string option"
  rp_status :: "payment_status option"
  rp_cash_tendered_cents :: "int option"
  rp_cash_tendered_display :: "string option"
  rp_change_due_cents :: "int option"
  rp_change_due_display :: "string option"
  rp_reference :: "string option"
  rp_refund_amount_cents :: "int option"
  rp_refund_amount_display :: "string option"
  rp_allocations :: "receipt_allocation list option"

record receipt_header =
  rh_trading_name :: string
  rh_franchise_name :: "string option"
  rh_branch_name :: "string option"
  rh_address :: "string option"
  rh_phone :: "string option"
  rh_vat_number :: "string option"
  rh_registration_number :: "string option"
  rh_logo_url :: "string option"
  rh_extra_lines :: "string list"

record receipt_meta =
  re_order_number :: string
  re_issued_at :: "string option"
  re_issued_at_local :: "string option"
  re_cashier_name :: "string option"
  re_order_type :: "string option"
  re_table_number :: "string option"
  re_customer_name :: "string option"
  re_reprint_count :: int
  re_last_reprinted_at :: "string option"

record receipt_footer =
  rf_message :: "string option"
  rf_qr_data :: "string option"
  rf_show_vat_invoice_label :: bool

record receipt_document =
  rd_kitchen :: bool
  rd_paper_width_mm :: int
  rd_columns :: int
  rd_currency :: string
  rd_copies :: int
  rd_header :: receipt_header
  rd_meta :: receipt_meta
  rd_lines :: "receipt_line list"
  rd_totals :: receipt_totals
  rd_payment :: receipt_payment
  rd_footer :: receipt_footer
  rd_banner :: "string option"

text \<open>\<open>receipt_config_json\<close> and the columns of the business that a receipt shows.\<close>

record receipt_settings =
  rs_trading_name :: "string option"
  rs_franchise_name :: "string option"
  rs_branch_name :: "string option"
  rs_config_address :: "string option"
  rs_config_phone :: "string option"
  rs_registration_number :: "string option"
  rs_logo_url :: "string option"
  rs_header_lines :: "string list"
  rs_footer_message :: "string option"
  rs_qr_data :: "string option"
  rs_brand_display_name :: "string option"
  rs_name :: string
  rs_address :: "string option"
  rs_phone :: "string option"
  rs_vat_number :: "string option"
  rs_receipt_paper_width_mm :: "int option"
  rs_receipt_copies :: "int option"

text \<open>\<open>a or b\<close> of optional texts, and of optional numbers.\<close>

definition text_or :: "string option \<Rightarrow> string option \<Rightarrow> string option" where
  "text_or a b = (if truthy a then a else b)"

definition number_or :: "int option \<Rightarrow> int \<Rightarrow> int" where
  "number_or a d = (case a of None \<Rightarrow> d | Some n \<Rightarrow> if n = 0 then d else n)"

fun order_type_label :: "order_mode \<Rightarrow> string" where
  "order_type_label DINE_IN = ''Dine In''"
| "order_type_label PICKUP = ''Takeaway''"
| "order_type_label DELIVERY = ''Delivery''"

text \<open>The provider of a payment link is folded into the label.\<close>

definition allocation_method_label :: "payment_method \<Rightarrow> string option \<Rightarrow> string" where
  "allocation_method_label m provider = (case m of
     M_PAY_BY_LINK \<Rightarrow> (let p = upper (dict_get [] provider)
       in if p = ''YOCO'' then ''Pay by Link (Yoco)'' else if p = ''PAYFAST'' then ''Pay by Link (PayFast)'' else ''Pay by Link'')
   | M_CASH \<Rightarrow> ''Cash'' | M_CARD \<Rightarrow> ''Card'' | M_OTHER \<Rightarrow> ''Other'')"

text \<open>The live rate is printed only when it still explains the stored tax.\<close>

definition vat_rate_display :: "order \<Rightarrow> business \<Rightarrow> (int option \<times> bool option) result" where
  "vat_rate_display o1 b =
     (if or_tax_cents o1 \<le> 0 \<or> bu_vat_rate_basis_points b \<le> 0 then Inr (None, None)
      else let net = or_subtotal_cents o1 - or_discount_cents o1 - or_loyalty_discount_cents o1 + or_delivery_fee_cents o1
           in and_then (calculate_vat_cents net (bu_vat_rate_basis_points b) (bu_vat_inclusive_pricing b)) (\<lambda>expected.
              Inr (if expected \<noteq> or_tax_cents o1 then (None, None)
                   else (Some (bu_vat_rate_basis_points b), Some (bu_vat_inclusive_pricing b)))))"

subsection \<open>Lines\<close>

fun option_name_of :: "option_arg \<Rightarrow> string option" where
  "option_name_of (TypedOption so) = Some (so_option_name so)"
| "option_name_of (PlainOption d) = od_option_name d"

fun add_on_name_of :: "add_on_arg \<Rightarrow> string" where
  "add_on_name_of (TypedAddOn a) = sa_name a"
| "add_on_name_of (PlainAddOn d) = ad_name d"

fun add_on_quantity_of :: "add_on_arg \<Rightarrow> int" where
  "add_on_quantity_of (TypedAddOn a) = number_or (Some (sa_quantity a)) 1"
| "add_on_quantity_of (PlainAddOn d) = number_or (ad_quantity d) 1"

fun add_on_price_of :: "add_on_arg \<Rightarrow> int" where
  "add_on_price_of (TypedAddOn a) = sa_price_cents a"
| "add_on_price_of (PlainAddOn d) = dict_get 0 (ad_price_cents d)"

definition int_str :: "int \<Rightarrow> string" where
  "int_str n = (if n < 0 then ''-'' @ nat_str (nat (- n)) else nat_str (nat n))"

definition option_modifier :: "string \<Rightarrow> option_arg \<Rightarrow> receipt_modifier option" where
  "option_modifier currency oo =
     (if \<not> truthy (option_name_of oo) then None
      else let delta = option_delta oo
           in Some \<lparr>rm_label = the (option_name_of oo), rm_amount_cents = (if delta \<noteq> 0 then Some delta else None),
                    rm_amount_display = (if delta \<noteq> 0 then Some (format_money delta currency) else None)\<rparr>)"

definition add_on_modifier :: "string \<Rightarrow> add_on_arg \<Rightarrow> receipt_modifier option" where
  "add_on_modifier currency a =
     (if add_on_name_of a = [] then None
      else let qty = add_on_quantity_of a; total = add_on_price_of a * qty
           in Some \<lparr>rm_label = ''+ '' @ add_on_name_of a @ (if qty > 1 then '' x'' @ int_str qty else []),
                    rm_amount_cents = (if total \<noteq> 0 then Some total else None),
                    rm_amount_display = (if total \<noteq> 0 then Some (format_money total currency) else None)\<rparr>)"

definition removed_modifier :: "removable_ingredient \<Rightarrow> receipt_modifier option" where
  "removed_modifier r = (if ri_name r = [] then None
     else Some \<lparr>rm_label = ''No '' @ ri_name r, rm_amount_cents = None, rm_amount_display = None\<rparr>)"

definition item_modifiers :: "string \<Rightarrow> order_item \<Rightarrow> receipt_modifier list" where
  "item_modifiers currency i =
     List.map_filter (option_modifier currency) (dict_get [] (oi_selected_options_snapshot i)) @
     List.map_filter (add_on_modifier currency) (dict_get [] (oi_add_ons_snapshot i)) @
     List.map_filter removed_modifier (dict_get [] (oi_removed_ingredients_snapshot i))"

text \<open>A kitchen slip shows no prices.\<close>

definition item_line :: "bool \<Rightarrow> string \<Rightarrow> order_item \<Rightarrow> receipt_line" where
  "item_line kitchen currency i =
     (let unit_amount = (if kitchen then 0 else oi_unit_price_cents i); amount = (if kitchen then 0 else oi_line_total_cents i)
      in \<lparr>rl_quantity = number_or (Some (oi_quantity i)) 1, rl_name = oi_name_snapshot i, rl_unit_amount_cents = unit_amount,
          rl_unit_amount_display = (if kitchen then [] else format_money unit_amount currency),
          rl_amount_cents = amount, rl_amount_display = (if kitchen then [] else format_money amount currency),
          rl_modifiers = item_modifiers currency i, rl_note = oi_special_instructions i\<rparr>)"

subsection \<open>Totals and payment\<close>

definition shown_if :: "bool \<Rightarrow> string \<Rightarrow> string option" where
  "shown_if c t = (if c then Some t else None)"

definition order_totals :: "string \<Rightarrow> order \<Rightarrow> int option \<times> bool option \<Rightarrow> receipt_totals" where
  "order_totals currency o1 rate =
     (let money = (\<lambda>c. format_money c currency)
      in \<lparr>rt_subtotal_cents = or_subtotal_cents o1, rt_subtotal_display = money (or_subtotal_cents o1),
          rt_discount_cents = or_discount_cents o1,
          rt_discount_display = shown_if (or_discount_cents o1 \<noteq> 0) (''-'' @ money (or_discount_cents o1)),
          rt_discount_reason = or_discount_reason o1, rt_loyalty_discount_cents = or_loyalty_discount_cents o1,
          rt_loyalty_discount_display = shown_if (or_loyalty_discount_cents o1 \<noteq> 0) (''-'' @ money (or_loyalty_discount_cents o1)),
          rt_loyalty_reward_name = or_loyalty_reward_name o1, rt_loyalty_points_redeemed = or_loyalty_points_redeemed o1,
          rt_delivery_fee_cents = or_delivery_fee_cents o1,
          rt_delivery_fee_display = shown_if (or_delivery_fee_cents o1 \<noteq> 0) (money (or_delivery_fee_cents o1)),
          rt_vat_cents = or_tax_cents o1, rt_vat_display = shown_if (or_tax_cents o1 \<noteq> 0) (money (or_tax_cents o1)),
          rt_vat_rate_basis_points = fst rate, rt_vat_inclusive = snd rate,
          rt_total_cents = or_total_cents o1, rt_total_display = money (or_total_cents o1)\<rparr>)"

definition allocation_entry :: "string \<Rightarrow> payment_allocation \<Rightarrow> receipt_allocation" where
  "allocation_entry currency a =
     (let money = (\<lambda>c. format_money c currency)
      in \<lparr>ra_method = allocation_method_label (pa_payment_method a) (pa_provider a), ra_amount_cents = pa_amount_cents a,
          ra_amount_display = money (pa_amount_cents a), ra_cash_tendered_cents = pa_cash_tendered_cents a,
          ra_cash_tendered_display = map_option money (pa_cash_tendered_cents a), ra_change_due_cents = pa_change_due_cents a,
          ra_change_due_display = map_option money (pa_change_due_cents a), ra_reference = pa_payment_reference a,
          ra_provider = pa_provider a\<rparr>)"

definition order_payment :: "string \<Rightarrow> order \<Rightarrow> payment_allocation list \<Rightarrow> receipt_payment" where
  "order_payment currency o1 allocations =
     (let money = (\<lambda>c. format_money c currency)
      in \<lparr>rp_method = or_payment_method o1, rp_status = Some (or_payment_status o1),
          rp_cash_tendered_cents = or_cash_tendered_cents o1, rp_cash_tendered_display = map_option money (or_cash_tendered_cents o1),
          rp_change_due_cents = or_change_due_cents o1, rp_change_due_display = map_option money (or_change_due_cents o1),
          rp_reference = or_payment_reference o1, rp_refund_amount_cents = or_refund_amount_cents o1,
          rp_refund_amount_display = (if or_refund_amount_cents o1 \<in> {None, Some 0} then None else map_option money (or_refund_amount_cents o1)),
          rp_allocations = (if or_payment_method o1 = Some ''SPLIT'' then Some (map (allocation_entry currency) allocations) else None)\<rparr>)"

definition empty_payment :: receipt_payment where
  "empty_payment = \<lparr>rp_method = None, rp_status = None, rp_cash_tendered_cents = None, rp_cash_tendered_display = None,
     rp_change_due_cents = None, rp_change_due_display = None, rp_reference = None, rp_refund_amount_cents = None,
     rp_refund_amount_display = None, rp_allocations = None\<rparr>"

text \<open>A voided or refunded sale, and any reprint, is visibly marked.\<close>

definition order_banner :: "order \<Rightarrow> bool \<Rightarrow> string option" where
  "order_banner o1 is_reprint =
     (if or_payment_status o1 = PS_VOIDED then Some ''SALE VOIDED''
      else if or_payment_status o1 \<in> {PS_REFUNDED, PS_PARTIALLY_REFUNDED} then Some ''REFUNDED''
      else if is_reprint then Some ''REPRINT'' else None)"

definition receipt_header_of :: "business \<Rightarrow> receipt_settings \<Rightarrow> string option \<Rightarrow> receipt_header" where
  "receipt_header_of b c brand_logo_url =
     \<lparr>rh_trading_name = dict_get [] (text_or (rs_trading_name c) (text_or (rs_brand_display_name c) (Some (rs_name c)))),
      rh_franchise_name = rs_franchise_name c, rh_branch_name = rs_branch_name c,
      rh_address = text_or (rs_config_address c) (rs_address c), rh_phone = text_or (rs_config_phone c) (rs_phone c),
      rh_vat_number = (if bu_vat_registered b then rs_vat_number c else None),
      rh_registration_number = rs_registration_number c, rh_logo_url = text_or (rs_logo_url c) brand_logo_url,
      rh_extra_lines = rs_header_lines c\<rparr>"

record print_request =
  pq_kitchen :: bool
  pq_cashier_name :: "string option"
  pq_is_reprint :: bool
  pq_reprint_count :: int
  pq_last_reprinted_at :: "string option"
  pq_brand_logo_url :: "string option"
  pq_issued_at :: "string option"
  pq_issued_at_local :: "string option"

definition receipt_meta_of :: "order \<Rightarrow> print_request \<Rightarrow> receipt_meta" where
  "receipt_meta_of o1 q = \<lparr>re_order_number = or_order_number o1, re_issued_at = pq_issued_at q,
     re_issued_at_local = pq_issued_at_local q, re_cashier_name = pq_cashier_name q,
     re_order_type = Some (order_type_label (or_order_mode o1)), re_table_number = or_table_number o1,
     re_customer_name = or_customer_name o1, re_reprint_count = pq_reprint_count q,
     re_last_reprinted_at = pq_last_reprinted_at q\<rparr>"

definition build_receipt_document ::
  "order \<Rightarrow> business \<Rightarrow> receipt_settings \<Rightarrow> order_item list \<Rightarrow> payment_allocation list \<Rightarrow> print_request \<Rightarrow> receipt_document result" where
  "build_receipt_document o1 b c items allocations q =
     (let currency = (if or_currency o1 = [] then bu_currency b else or_currency o1);
          width = number_or (rs_receipt_paper_width_mm c) 80; kitchen = pq_kitchen q
      in and_then (vat_rate_display o1 b) (\<lambda>rate.
         Inr \<lparr>rd_kitchen = kitchen, rd_paper_width_mm = width, rd_columns = columns_for width, rd_currency = currency,
              rd_copies = number_or (rs_receipt_copies c) 1, rd_header = receipt_header_of b c (pq_brand_logo_url q),
              rd_meta = receipt_meta_of o1 q, rd_lines = map (item_line kitchen currency) items,
              rd_totals = order_totals currency o1 rate,
              rd_payment = (if kitchen then empty_payment else order_payment currency o1 allocations),
              rd_footer = (if kitchen then \<lparr>rf_message = None, rf_qr_data = None, rf_show_vat_invoice_label = False\<rparr>
                           else \<lparr>rf_message = rs_footer_message c, rf_qr_data = rs_qr_data c,
                                 rf_show_vat_invoice_label = bu_vat_registered b\<rparr>),
              rd_banner = order_banner o1 (pq_is_reprint q)\<rparr>))"

end
