(* ===== verification/Escpos.thy ===== *)
theory Escpos imports Receipts begin

text \<open>
  \<^verbatim>\<open>backend/app/receipts/escpos.py\<close>: the text layout of a receipt and its bytes for a
  thermal printer.  A byte is an \<open>8 word\<close>; the code page of a printer is the byte it prints
  for a character (\<open>errors="replace"\<close>: a question mark where it has none).
\<close>

unbundle bit_operations_syntax

type_synonym byte = "8 word"

subsection \<open>Text helpers\<close>

text \<open>\<open>s[:n]\<close>, \<open>" " * n\<close>, \<open>s.rstrip()\<close>, \<open>s.center(n)\<close> and \<open>s.casefold()\<close>.\<close>

definition take_upto :: "int \<Rightarrow> string \<Rightarrow> string" where
  "take_upto n s = (if n < 0 then take (length s - nat (- n)) s else take (nat n) s)"

definition spaces :: "int \<Rightarrow> string" where "spaces n = replicate (nat n) CHR '' ''"

definition rstrip :: "string \<Rightarrow> string" where "rstrip s = rev (dropWhile is_space (rev s))"

definition center_in :: "int \<Rightarrow> string \<Rightarrow> string" where
  "center_in width s = (let pad = width - int (length s); left = pad div 2 + (pad AND width AND 1)
     in if pad \<le> 0 then s else spaces left @ s @ spaces (pad - left))"

text \<open>
  The micro sign folds to a character above 255 that no other character here folds to, so
  leaving it alone keeps every comparison of folded texts.
\<close>

definition casefold :: "string \<Rightarrow> string" where
  "casefold s = concat (map (\<lambda>c. if ord_of c = 223 then ''ss'' else [lower_char c]) s)"

definition two_column :: "string \<Rightarrow> string \<Rightarrow> int \<Rightarrow> string" where
  "two_column left right columns =
     (let separator = (if left = [] then 0 else 1);
          available = max 0 (columns - int (length right) - separator);
          left = take_upto available left;
          gap = max 0 (columns - int (length left) - int (length right))
      in left @ spaces gap @ right)"

definition centre :: "string \<Rightarrow> int \<Rightarrow> string" where
  "centre text columns = rstrip (center_in columns (take_upto columns text))"

definition divider :: "int \<Rightarrow> char \<Rightarrow> string" where
  "divider columns c = replicate (nat columns) c"

text \<open>
  The loop that hard-splits a long word, with the lines so far, the line under way and the rest
  of the word: \<open>None\<close> is a loop that does not end.
\<close>

partial_function (option) hard_split ::
  "string \<Rightarrow> int \<Rightarrow> string list \<Rightarrow> string \<Rightarrow> string \<Rightarrow> (string list \<times> string \<times> string) option" where
  "hard_split margin usable out current word =
     (if int (length word) > usable
      then hard_split margin usable
             ((if current = [] then out else out @ [margin @ current]) @ [margin @ take_upto usable word])
             [] (drop (nat usable) word)
      else Some (out, current, word))"

fun wrap_words :: "string \<Rightarrow> int \<Rightarrow> string list \<Rightarrow> string \<Rightarrow> string list \<Rightarrow> string list option" where
  "wrap_words margin usable out current [] = Some (if current = [] then out else out @ [margin @ current])"
| "wrap_words margin usable out current (w # ws) =
     (case hard_split margin usable out current w of
        None \<Rightarrow> None
      | Some (out, current, w) \<Rightarrow>
          if current = [] then wrap_words margin usable out w ws
          else if int (length current) + 1 + int (length w) \<le> usable then wrap_words margin usable out (current @ '' '' @ w) ws
          else wrap_words margin usable (out @ [margin @ current]) w ws)"

definition wrap :: "string \<Rightarrow> int \<Rightarrow> int \<Rightarrow> string list option" where
  "wrap text columns indent =
     (if text = [] then Some []
      else wrap_words (spaces indent) (max 1 (columns - indent)) [] [] (split_words text))"

text \<open>The lines of a wrap that returned; that it always does is \<open>wrap_returns\<close> below.\<close>

definition wrapped :: "string \<Rightarrow> int \<Rightarrow> int \<Rightarrow> string list" where
  "wrapped text columns indent = dict_get [] (wrap text columns indent)"

subsection \<open>The slip as text\<close>

text \<open>A line that is printed when a text is present (and not empty).\<close>

definition when_text :: "string option \<Rightarrow> (string \<Rightarrow> string list) \<Rightarrow> string list" where
  "when_text t f = (if truthy t then f (the t) else [])"

definition when_amount :: "int option \<Rightarrow> (int \<Rightarrow> string list) \<Rightarrow> string list" where
  "when_amount a f = (case a of None \<Rightarrow> [] | Some n \<Rightarrow> f n)"

definition shows_franchise :: "receipt_header \<Rightarrow> bool" where
  "shows_franchise h = (truthy (rh_franchise_name h) \<and>
     casefold (strip (the (rh_franchise_name h))) \<noteq> casefold (strip (rh_trading_name h)))"

definition header_lines :: "receipt_header \<Rightarrow> int \<Rightarrow> string list" where
  "header_lines h cols =
     (if shows_franchise h then [centre (the (rh_franchise_name h)) cols] else []) @
     [centre (rh_trading_name h) cols] @
     when_text (rh_branch_name h) (\<lambda>t. [centre t cols]) @
     when_text (rh_address h) (\<lambda>t. map (\<lambda>l. centre (strip l) cols) (wrapped t cols 0)) @
     when_text (rh_phone h) (\<lambda>t. [centre (''Tel: '' @ t) cols]) @
     when_text (rh_vat_number h) (\<lambda>t. [centre (''VAT No: '' @ t) cols]) @
     when_text (rh_registration_number h) (\<lambda>t. [centre (''Reg No: '' @ t) cols]) @
     map (\<lambda>t. centre t cols) (rh_extra_lines h)"

definition title_lines :: "receipt_document \<Rightarrow> int \<Rightarrow> string list" where
  "title_lines d cols =
     (if rd_kitchen d then [[], centre ''*** KITCHEN ***'' cols]
      else if rf_show_vat_invoice_label (rd_footer d) then [[], centre ''TAX INVOICE'' cols] else []) @
     when_text (rd_banner d) (\<lambda>t. [[], centre (''*** '' @ t @ '' ***'') cols])"

definition meta_lines :: "receipt_meta \<Rightarrow> int \<Rightarrow> string list" where
  "meta_lines m cols =
     [centre (''Order '' @ re_order_number m) cols] @
     when_text (re_issued_at m) (\<lambda>t. [centre (take 16 (map (\<lambda>c. if c = CHR ''T'' then CHR '' '' else c) t)) cols]) @
     when_text (re_order_type m) (\<lambda>t. [two_column ''Type'' t cols]) @
     when_text (re_table_number m) (\<lambda>t. [two_column ''Table'' t cols]) @
     when_text (re_cashier_name m) (\<lambda>t. [two_column ''Cashier'' t cols]) @
     when_text (re_customer_name m) (\<lambda>t. [two_column ''Customer'' t cols])"

definition modifier_lines :: "bool \<Rightarrow> string \<Rightarrow> int \<Rightarrow> receipt_modifier \<Rightarrow> string list" where
  "modifier_lines kitchen currency cols m =
     (case rm_amount_cents m of
        Some n \<Rightarrow> if n \<noteq> 0 \<and> \<not> kitchen then [two_column (''  '' @ rm_label m) (format_money n currency) cols]
                  else wrapped (rm_label m) cols 2
      | None \<Rightarrow> wrapped (rm_label m) cols 2)"

definition item_lines :: "bool \<Rightarrow> string \<Rightarrow> int \<Rightarrow> receipt_line \<Rightarrow> string list" where
  "item_lines kitchen currency cols l =
     (let label = int_str (rl_quantity l) @ '' x '' @ rl_name l; amount = format_money (rl_amount_cents l) currency
      in (if kitchen then wrapped label cols 0
          else if int (length label) + int (length amount) + 1 \<le> cols then [two_column label amount cols]
          else wrapped label cols 0 @ [two_column [] amount cols]) @
         concat (map (modifier_lines kitchen currency cols) (rl_modifiers l)) @
         when_text (rl_note l) (\<lambda>t. wrapped (''** '' @ t) cols 2))"

definition vat_label :: "receipt_totals \<Rightarrow> string" where
  "vat_label t = (case rt_vat_rate_basis_points t of
     None \<Rightarrow> ''VAT''
   | Some bp \<Rightarrow> if bp = 0 then ''VAT''
               else ''VAT @ '' @ dec_format_f (Dec bp (- 2)) @ ''%'' @ (if rt_vat_inclusive t = Some True then '' (incl)'' else []))"

definition totals_lines :: "receipt_totals \<Rightarrow> string \<Rightarrow> int \<Rightarrow> string list" where
  "totals_lines t currency cols =
     (let money = (\<lambda>c. format_money c currency)
      in [two_column ''Subtotal'' (money (rt_subtotal_cents t)) cols] @
         (if rt_discount_cents t = 0 then []
          else [two_column ''Discount'' (''-'' @ money (rt_discount_cents t)) cols] @
               when_text (rt_discount_reason t) (\<lambda>r. wrapped (''  ('' @ r @ '')'') cols 0)) @
         (if rt_loyalty_discount_cents t = 0 then []
          else [two_column ''Loyalty reward'' (''-'' @ money (rt_loyalty_discount_cents t)) cols] @
               when_text (rt_loyalty_reward_name t) (\<lambda>r. wrapped (''  ('' @ r @ '')'') cols 0)) @
         (if rt_delivery_fee_cents t = 0 then [] else [two_column ''Delivery'' (money (rt_delivery_fee_cents t)) cols]) @
         (if rt_vat_cents t = 0 then [] else [two_column (vat_label t) (money (rt_vat_cents t)) cols]) @
         [divider cols CHR ''-'', two_column ''TOTAL'' (money (rt_total_cents t)) cols, divider cols CHR ''=''])"

definition allocation_lines :: "int \<Rightarrow> receipt_allocation \<Rightarrow> string list" where
  "allocation_lines cols a =
     [two_column (ra_method a) (ra_amount_display a) cols] @
     when_text (ra_cash_tendered_display a) (\<lambda>t. [two_column ''  Cash tendered'' t cols]) @
     when_text (ra_change_due_display a) (\<lambda>t. [two_column ''  Change'' t cols])"

definition payment_lines :: "receipt_payment \<Rightarrow> string \<Rightarrow> int \<Rightarrow> string list" where
  "payment_lines p currency cols =
     (let money = (\<lambda>c. format_money c currency)
      in (if rp_allocations p \<notin> {None, Some []} then concat (map (allocation_lines cols) (the (rp_allocations p)))
          else when_text (rp_method p) (\<lambda>t. [two_column ''Paid by'' t cols]) @
               when_amount (rp_cash_tendered_cents p) (\<lambda>n. [two_column ''Cash'' (money n) cols]) @
               when_amount (rp_change_due_cents p) (\<lambda>n. [two_column ''Change'' (money n) cols])) @
         when_amount (rp_refund_amount_cents p) (\<lambda>n. if n = 0 then [] else [two_column ''Refunded'' (money n) cols]))"

definition footer_lines :: "receipt_footer \<Rightarrow> int \<Rightarrow> string list" where
  "footer_lines f cols =
     when_text (rf_message f) (\<lambda>t. [] # map (\<lambda>l. centre (strip l) cols) (wrapped t cols 0))"

definition slip_lines :: "receipt_document \<Rightarrow> string list" where
  "slip_lines d =
     (let cols = rd_columns d
      in header_lines (rd_header d) cols @ title_lines d cols @ [divider cols CHR ''=''] @
         meta_lines (rd_meta d) cols @ [divider cols CHR ''-''] @
         concat (map (item_lines (rd_kitchen d) (rd_currency d) cols) (rd_lines d)) @
         (if rd_kitchen d then [divider cols CHR ''='']
          else [divider cols CHR ''-''] @ totals_lines (rd_totals d) (rd_currency d) cols @
               payment_lines (rd_payment d) (rd_currency d) cols @ footer_lines (rd_footer d) cols))"

definition newline :: char where "newline = char_of (10::nat)"

definition render_text :: "receipt_document \<Rightarrow> string" where
  "render_text d = join [newline] (slip_lines d)"

subsection \<open>The slip as bytes\<close>

abbreviation ESC :: byte where "ESC \<equiv> 27"
abbreviation GS :: byte where "GS \<equiv> 29"

definition INIT :: "byte list" where "INIT = [ESC, 64]"
definition ALIGN_LEFT :: "byte list" where "ALIGN_LEFT = [ESC, 97, 0]"
definition ALIGN_CENTER :: "byte list" where "ALIGN_CENTER = [ESC, 97, 1]"
definition BOLD_ON :: "byte list" where "BOLD_ON = [ESC, 69, 1]"
definition BOLD_OFF :: "byte list" where "BOLD_OFF = [ESC, 69, 0]"
definition DOUBLE_HEIGHT_ON :: "byte list" where "DOUBLE_HEIGHT_ON = [GS, 33, 1]"
definition SIZE_NORMAL :: "byte list" where "SIZE_NORMAL = [GS, 33, 0]"
definition LF :: "byte list" where "LF = [10]"
definition CUT :: "byte list" where "CUT = [GS, 86, 66, 3]"
definition DRAWER_KICK :: "byte list" where "DRAWER_KICK = [ESC, 112, 0, 50, 250]"

record printer_capabilities =
  pc_supports_cut :: bool
  pc_supports_drawer :: bool
  pc_supports_qr :: bool
  pc_supports_bold :: bool
  pc_supports_double_height :: bool
  pc_codepage :: "char \<Rightarrow> byte"
  pc_feed_lines_before_cut :: int

text \<open>Code page 437 of the standard library, for the characters 160 to 255.\<close>

definition cp437_upper :: "byte list" where
  "cp437_upper =
     [255, 173, 155, 156, 63, 157, 63, 63, 63, 63, 166, 174, 170, 63, 63, 63,
      248, 241, 253, 63, 63, 230, 63, 250, 63, 63, 167, 175, 172, 171, 63, 168,
      63, 63, 63, 63, 142, 143, 146, 128, 63, 144, 63, 63, 63, 63, 63, 63,
      63, 165, 63, 63, 63, 63, 153, 63, 63, 63, 63, 63, 154, 63, 63, 225,
      133, 160, 131, 63, 132, 134, 145, 135, 138, 130, 136, 137, 141, 161, 140, 139,
      63, 164, 149, 162, 147, 63, 148, 246, 63, 151, 163, 150, 129, 63, 63, 152]"

definition cp437 :: "char \<Rightarrow> byte" where
  "cp437 c = (let n = ord_of c in if n < 128 then word_of_nat n else if n < 160 then 63 else cp437_upper ! (n - 160))"

definition default_capabilities :: printer_capabilities where
  "default_capabilities = \<lparr>pc_supports_cut = True, pc_supports_drawer = True, pc_supports_qr = True,
     pc_supports_bold = True, pc_supports_double_height = True, pc_codepage = cp437, pc_feed_lines_before_cut = 4\<rparr>"

definition encode :: "string \<Rightarrow> printer_capabilities \<Rightarrow> byte list" where
  "encode text caps = map (pc_codepage caps) text"

text \<open>UTF-8 of the characters below 256.\<close>

definition utf8 :: "string \<Rightarrow> byte list" where
  "utf8 s = concat (map (\<lambda>c. let n = ord_of c in if n < 128 then [word_of_nat n]
                             else [192 OR word_of_nat (n div 64), 128 OR word_of_nat (n mod 64)]) s)"

definition qr_command :: "string \<Rightarrow> printer_capabilities \<Rightarrow> byte list" where
  "qr_command data caps =
     (if data = [] \<or> \<not> pc_supports_qr caps then []
      else let payload = utf8 data; len = length payload + 3
           in [GS, 40, 107, 4, 0, 49, 65, 50, 0] @ [GS, 40, 107, 3, 0, 49, 67, 6] @ [GS, 40, 107, 3, 0, 49, 69, 49] @
              [GS, 40, 107, word_of_nat len, word_of_nat (len div 256), 49, 80, 48] @ payload @
              [GS, 40, 107, 3, 0, 49, 81, 48])"

definition line_bytes :: "printer_capabilities \<Rightarrow> nat \<Rightarrow> string \<Rightarrow> byte list" where
  "line_bytes caps index line =
     (let stripped = strip line;
          is_order_number = starts_with ''Order '' stripped \<and> index < 12;
          is_total = starts_with ''TOTAL'' line;
          is_banner = starts_with ''***'' stripped \<and> ends_with ''***'' stripped
      in if is_order_number \<or> is_banner
         then ALIGN_CENTER @ (if pc_supports_double_height caps then DOUBLE_HEIGHT_ON else []) @
              (if pc_supports_bold caps then BOLD_ON else []) @ encode stripped caps @ LF @
              (if pc_supports_bold caps then BOLD_OFF else []) @ SIZE_NORMAL @ ALIGN_LEFT
         else if is_total \<and> pc_supports_bold caps then BOLD_ON @ encode line caps @ LF @ BOLD_OFF
         else encode line caps @ LF)"

definition render_escpos :: "receipt_document \<Rightarrow> printer_capabilities \<Rightarrow> bool \<Rightarrow> byte list" where
  "render_escpos d caps open_drawer =
     (let lines = split_on newline (render_text d)
      in INIT @ concat (map (\<lambda>(index, line). line_bytes caps index line) (enumerate 0 lines)) @
         (if truthy (rf_qr_data (rd_footer d)) \<and> pc_supports_qr caps
          then ALIGN_CENTER @ qr_command (the (rf_qr_data (rd_footer d))) caps @ LF @ ALIGN_LEFT else []) @
         concat (replicate (nat (pc_feed_lines_before_cut caps)) LF) @
         (if open_drawer \<and> pc_supports_drawer caps then DRAWER_KICK else []) @
         (if pc_supports_cut caps then CUT else []))"

end
