(* ===== verification/EscposLaws.thy ===== *)
theory EscposLaws imports Escpos begin

text \<open>
  The word wrap of the slips returns for every text and width, loses nothing but spaces and
  keeps its lines within the width; the two-column lines are as wide as the paper unless the
  right-hand text alone is wider.
\<close>

subsection \<open>Words of a text\<close>

definition letters :: "string \<Rightarrow> string" where "letters s = filter (\<lambda>c. \<not> is_space c) s"

definition is_word :: "string \<Rightarrow> bool" where "is_word w = (w \<noteq> [] \<and> list_all (\<lambda>c. \<not> is_space c) w)"

lemma letters_append [simp]: "letters (s @ t) = letters s @ letters t"
  by (simp add: letters_def)

lemma letters_space [simp]: "letters (CHR '' '' # s) = letters s"
  by (simp add: letters_def is_space_def)

lemma letters_Nil [simp]: "letters [] = []" by (simp add: letters_def)

lemma letters_word: "is_word w \<Longrightarrow> letters w = w"
  by (simp add: letters_def is_word_def list_all_iff filter_id_conv)

lemma space_is_space [simp]: "is_space CHR '' ''" by (simp add: is_space_def)

lemma letters_spaces [simp]: "letters (spaces n) = []"
  by (simp add: letters_def spaces_def)

lemma words_aux_append:
  "is_space c \<Longrightarrow> words_aux acc (s @ c # t) = words_aux acc s @ words_aux [] t"
  by (induction acc s rule: words_aux.induct) auto

lemma words_aux_word:
  "list_all (\<lambda>c. \<not> is_space c) w \<Longrightarrow> words_aux acc w = (if acc = [] \<and> w = [] then [] else [rev acc @ w])"
  by (induction w arbitrary: acc) auto

lemma words_aux_words: "list_all (\<lambda>c. \<not> is_space c) acc \<Longrightarrow> list_all is_word (words_aux acc s)"
proof (induction s arbitrary: acc)
  case Nil
  then show ?case by (simp add: is_word_def)
next
  case (Cons c s)
  then show ?case using Cons.IH [of "[]"] Cons.IH [of "c # acc"] by (simp add: is_word_def)
qed

lemma words_aux_letters: "letters (concat (words_aux acc s)) = letters (rev acc) @ letters s"
  by (induction acc s rule: words_aux.induct) (auto simp: letters_def)

lemma split_words_of_word [simp]: "is_word w \<Longrightarrow> split_words w = [w]"
  by (simp add: split_words_def words_aux_word is_word_def)

lemma split_words_join: "split_words (s @ '' '' @ t) = split_words s @ split_words t"
  by (simp add: split_words_def words_aux_append)

lemma split_words_spaces [simp]: "split_words (spaces n @ s) = split_words s"
proof -
  have "words_aux [] (replicate k CHR '' '' @ s) = words_aux [] s" for k
    by (induction k) auto
  then show ?thesis by (simp add: split_words_def spaces_def)
qed

lemma split_words_are_words: "w \<in> set (split_words s) \<Longrightarrow> is_word w"
  using words_aux_words [of "[]" s] by (simp add: split_words_def list_all_iff)

lemma split_words_Nil [simp]: "split_words [] = []" by (simp add: split_words_def)

lemma letters_split_words: "concat (split_words s) = letters s"
proof -
  have "map letters (split_words s) = split_words s"
    by (rule map_idI) (simp add: letters_word split_words_are_words)
  moreover have "letters (concat ws) = concat (map letters ws)" for ws
    by (induction ws) simp_all
  moreover have "letters (concat (split_words s)) = letters s"
    unfolding split_words_def by (simp add: words_aux_letters)
  ultimately show ?thesis by metis
qed

subsection \<open>Word wrap\<close>

text \<open>The hard split of one word, by the length of what is left of it.\<close>

lemma take_upto_nonneg: "0 \<le> n \<Longrightarrow> take_upto n s = take (nat n) s"
  by (simp add: take_upto_def)

lemma hard_split_short: "int (length word) \<le> usable \<Longrightarrow> hard_split margin usable out current word = Some (out, current, word)"
  by (simp add: hard_split.simps)

lemma hard_split_returns:
  assumes "1 \<le> usable" "int (length current) \<le> usable" "letters margin = []" "is_word word"
  shows "\<exists>more current' word'. hard_split margin usable out current word = Some (out @ more, current', word') \<and>
     letters (concat more) @ letters current' @ word' = letters current @ word \<and>
     (\<forall>l \<in> set more. int (length l) \<le> int (length margin) + usable) \<and>
     int (length current') \<le> usable \<and> int (length word') \<le> usable \<and> is_word word'"
  using assms
proof (induction "length word" arbitrary: out current word rule: less_induct)
  case less
  show ?case
  proof (cases "int (length word) \<le> usable")
    case True
    with less.prems show ?thesis by (auto simp: hard_split_short)
  next
    case False
    define rest where "rest = drop (nat usable) word"
    define flushed where "flushed = (if current = [] then [] else [margin @ current]) @ [margin @ take (nat usable) word]"
    have rest: "length rest < length word" "is_word rest"
      using False less.prems by (auto simp: rest_def is_word_def list_all_iff dest: in_set_dropD)
    have step: "hard_split margin usable out current word = hard_split margin usable (out @ flushed) [] rest"
      using False less.prems by (subst hard_split.simps) (simp add: flushed_def rest_def take_upto_nonneg)
    have "letters (take (nat usable) word) = take (nat usable) word"
      using less.prems(4) by (auto simp: letters_def is_word_def list_all_iff filter_id_conv dest: in_set_takeD)
    then have same: "letters (concat flushed) @ rest = letters current @ word"
      using less.prems(3) by (simp add: flushed_def rest_def)
    have fits: "\<forall>l \<in> set flushed. int (length l) \<le> int (length margin) + usable"
      using less.prems False by (auto simp: flushed_def)
    obtain more c w where IH: "hard_split margin usable (out @ flushed) [] rest = Some ((out @ flushed) @ more, c, w)"
      "letters (concat more) @ letters c @ w = letters [] @ rest" "\<forall>l \<in> set more. int (length l) \<le> int (length margin) + usable"
      "int (length c) \<le> usable" "int (length w) \<le> usable" "is_word w"
      using less.hyps [OF rest(1), of "[]" "out @ flushed"] less.prems rest(2) by (auto simp: Ball_def)
    show ?thesis
      using IH same fits step by (intro exI [of _ "flushed @ more"] exI [of _ c] exI [of _ w]) auto
  qed
qed

lemma wrap_words_returns:
  assumes "1 \<le> usable" "int (length current) \<le> usable" "list_all is_word ws" "margin = spaces n"
  shows "\<exists>ls. wrap_words margin usable out current ws = Some (out @ ls) \<and>
     letters (concat ls) = letters current @ concat ws \<and>
     (\<forall>l \<in> set ls. int (length l) \<le> int (length margin) + usable) \<and>
     ((\<forall>w \<in> set ws. int (length w) \<le> usable) \<longrightarrow> concat (map split_words ls) = split_words current @ ws)"
  using assms
proof (induction ws arbitrary: out current)
  case Nil
  then show ?case by auto
next
  case (Cons w ws)
  obtain more c r where split: "hard_split margin usable out current w = Some (out @ more, c, r)"
      "letters (concat more) @ letters c @ r = letters current @ w"
      "\<forall>l \<in> set more. int (length l) \<le> int (length margin) + usable"
      "int (length c) \<le> usable" "int (length r) \<le> usable" "is_word r"
    using hard_split_returns [of usable current margin w out] Cons.prems by auto
  have short: "more = [] \<and> c = current \<and> r = w" if "int (length w) \<le> usable"
    using that split(1) by (simp add: hard_split_short)
  define next_out where "next_out = (if c = [] \<or> int (length c) + 1 + int (length r) \<le> usable then more else more @ [margin @ c])"
  define next_line where "next_line = (if c = [] then r else if int (length c) + 1 + int (length r) \<le> usable then c @ '' '' @ r else r)"
  have step: "wrap_words margin usable out current (w # ws) = wrap_words margin usable (out @ next_out) next_line ws"
    using split(1) by (simp add: next_out_def next_line_def)
  have line: "int (length next_line) \<le> usable"
    using split(5) by (simp add: next_line_def)
  have same: "letters (concat next_out) @ letters next_line = letters current @ w"
    using split(2) split(6) Cons.prems(4) by (auto simp: next_out_def next_line_def letters_word)
  have fits: "\<forall>l \<in> set next_out. int (length l) \<le> int (length margin) + usable"
    using split(3,4) by (auto simp: next_out_def)
  have whole: "concat (map split_words next_out) @ split_words next_line = split_words current @ [w]"
    if "int (length w) \<le> usable"
    using short [OF that] split(6) Cons.prems(4) split_words_join [of c w]
    by (auto simp: next_out_def next_line_def split_words_Nil)
  obtain ls where "wrap_words margin usable (out @ next_out) next_line ws = Some ((out @ next_out) @ ls)"
      "letters (concat ls) = letters next_line @ concat ws"
      "\<forall>l \<in> set ls. int (length l) \<le> int (length margin) + usable"
      "(\<forall>w \<in> set ws. int (length w) \<le> usable) \<longrightarrow> concat (map split_words ls) = split_words next_line @ ws"
    using Cons.IH [of next_line "out @ next_out"] Cons.prems line by auto
  then show ?case
    using step same fits whole by (intro exI [of _ "next_out @ ls"]) auto
qed

lemma wrap_total:
  "\<exists>ls. wrap s columns indent = Some ls \<and> letters (concat ls) = letters s \<and>
     (\<forall>l \<in> set ls. int (length l) \<le> max 0 indent + max 1 (columns - indent)) \<and>
     ((\<forall>w \<in> set (split_words s). int (length w) \<le> max 1 (columns - indent)) \<longrightarrow>
        concat (map split_words ls) = split_words s)"
proof (cases "s = []")
  case True
  then show ?thesis by (simp add: wrap_def split_words_def)
next
  case False
  have words: "list_all is_word (split_words s)"
    using split_words_are_words [of _ s] by (auto simp: list_all_iff)
  have margin: "int (length (spaces indent)) = max 0 indent"
    by (simp add: spaces_def)
  show ?thesis
    using wrap_words_returns [OF _ _ words refl, of "max 1 (columns - indent)" "[]" indent "[]"] False
    by (simp add: wrap_def letters_split_words margin)
qed

text \<open>
  C28: The word wrap of a receipt returns for every text, every width and every indent (its loop
  over the pieces of a long word ends because a piece is never empty), loses nothing but spaces,
  keeps every line within the width, and splits no word that fits on a line.
\<close>

theorem wrap_returns:
  "\<exists>ls. wrap s columns indent = Some ls \<and> letters (concat ls) = letters s \<and>
     (\<forall>l \<in> set ls. int (length l) \<le> max 0 indent + max 1 (columns - indent)) \<and>
     ((\<forall>w \<in> set (split_words s). int (length w) \<le> max 1 (columns - indent)) \<longrightarrow>
        concat (map split_words ls) = split_words s)"
  by (rule wrap_total)

lemma wrap_returns_witness:
  "\<exists>ls. wrap ''one twoo three'' 6 1 = Some ls \<and> concat (map split_words ls) = [''one'', ''twoo'', ''three'']"
proof -
  have "split_words ''one twoo three'' = [''one'', ''twoo'', ''three'']" by code_simp
  then show ?thesis using wrap_returns [of "''one twoo three''" 6 1] by auto
qed

subsection \<open>Widths\<close>

definition fits :: "int \<Rightarrow> string \<Rightarrow> bool" where "fits columns s = (int (length s) \<le> columns)"

lemma fits_Nil [simp]: "fits n [] \<longleftrightarrow> 0 \<le> n" by (simp add: fits_def)

lemma two_column_length: "int (length (two_column left right columns)) = max columns (int (length right))"
  by (auto simp: two_column_def take_upto_def spaces_def Let_def)

lemma two_column_fits: "fits columns right \<Longrightarrow> fits columns (two_column left right columns)"
  by (simp add: fits_def two_column_length)

text \<open>A right-hand text that is wider than the paper overflows its line.\<close>

lemma two_column_overflows: "length (two_column ''Customer'' (replicate 40 CHR ''x'') 32) = 40"
  using two_column_length [of "''Customer''" "replicate 40 CHR ''x''" 32] by simp

lemma centre_fits:
  assumes "0 \<le> columns"
  shows "fits columns (centre s columns)"
proof -
  have "length (rstrip t) \<le> length t" for t
    by (simp add: rstrip_def) (metis length_dropWhile_le length_rev)
  moreover have "int (length (center_in columns t)) \<le> columns" if "int (length t) \<le> columns" for t
  proof -
    define pad where "pad = columns - int (length t)"
    define l where "l = pad div 2 + (pad AND columns AND 1)"
    have "pad AND columns AND 1 = 0 \<or> pad AND columns AND 1 = pad mod 2"
      by (cases "columns mod 2 = 0") (auto simp: and_one_eq mod2_eq_if)
    then have "0 \<le> l" "l \<le> pad" if "0 < pad"
      using that by (auto simp: l_def)
    then show ?thesis using that by (auto simp: center_in_def spaces_def Let_def pad_def [symmetric] l_def [symmetric]) (simp add: pad_def)
  qed
  moreover have "int (length (take_upto columns s)) \<le> columns"
    using assms by (simp add: take_upto_def)
  ultimately show ?thesis
    unfolding fits_def centre_def by (meson of_nat_le_iff order_trans)
qed

lemma wrapped_fits: "0 \<le> indent \<Longrightarrow> indent < columns \<Longrightarrow> list_all (fits columns) (wrapped s columns indent)"
  using wrap_total [of s columns indent] by (auto simp: wrapped_def dict_get_def list_all_iff fits_def)

lemma nat_str_length: "n < 10 ^ Suc k \<Longrightarrow> length (nat_str n) \<le> Suc k"
proof (induction k arbitrary: n)
  case 0
  then show ?case by (simp add: nat_str.simps)
next
  case (Suc k)
  have "n div 10 < 10 ^ Suc k" using Suc.prems by (simp add: div_less_iff_less_mult)
  then show ?case using Suc.IH [of "n div 10"] by (subst nat_str.simps) simp
qed

definition in_range :: "int \<Rightarrow> bool" where "in_range n = (\<bar>n\<bar> < 10 ^ 20)"

lemma format_money_length:
  assumes "in_range n" shows "length (format_money n currency) \<le> 23"
proof -
  have "nat \<bar>n\<bar> div 100 < 10 ^ Suc 17"
    using assms by (simp add: in_range_def div_less_iff_less_mult nat_less_iff)
  then have "length (nat_str (nat \<bar>n\<bar> div 100)) \<le> 18" using nat_str_length by fastforce
  then show ?thesis by (auto simp: format_money_def dec_format_f_def split: if_splits)
qed

lemma money_fits:
  "in_range n \<Longrightarrow> 32 \<le> columns \<Longrightarrow> fits columns (format_money n currency)"
  "in_range n \<Longrightarrow> 32 \<le> columns \<Longrightarrow> fits columns (CHR ''-'' # format_money n currency)"
  using format_money_length [of n currency] by (simp_all add: fits_def)

subsection \<open>The lines of a slip\<close>

text \<open>The texts that stand on the right of a line, and the amounts, of the rows a receipt prints.\<close>

definition short_texts :: "int \<Rightarrow> order \<Rightarrow> print_request \<Rightarrow> bool" where
  "short_texts columns o1 q =
     list_all (fits columns) (map (dict_get [])
       [or_table_number o1, or_customer_name o1, or_payment_method o1, pq_cashier_name q])"

definition order_in_range :: "order \<Rightarrow> bool" where
  "order_in_range o1 =
     list_all in_range [or_subtotal_cents o1, or_discount_cents o1, or_loyalty_discount_cents o1, or_delivery_fee_cents o1,
       or_tax_cents o1, or_total_cents o1, dict_get 0 (or_cash_tendered_cents o1), dict_get 0 (or_change_due_cents o1),
       dict_get 0 (or_refund_amount_cents o1)]"

definition item_in_range :: "order_item \<Rightarrow> bool" where
  "item_in_range i = (in_range (oi_line_total_cents i) \<and>
     list_all (in_range \<circ> option_delta) (dict_get [] (oi_selected_options_snapshot i)) \<and>
     list_all (in_range \<circ> (\<lambda>a. add_on_price_of a * add_on_quantity_of a)) (dict_get [] (oi_add_ons_snapshot i)))"

definition allocation_in_range :: "payment_allocation \<Rightarrow> bool" where
  "allocation_in_range a =
     list_all in_range [pa_amount_cents a, dict_get 0 (pa_cash_tendered_cents a), dict_get 0 (pa_change_due_cents a)]"

named_theorems fit_simps

lemma fit_when_text [fit_simps]:
  "list_all P (when_text t f) \<longleftrightarrow> (truthy t \<longrightarrow> list_all P (f (the t)))"
  by (simp add: when_text_def)

lemma fit_when_amount [fit_simps]:
  "list_all P (when_amount a f) \<longleftrightarrow> (\<forall>n. a = Some n \<longrightarrow> list_all P (f n))"
  by (cases a) (simp_all add: when_amount_def)

lemma fit_concat [fit_simps]: "list_all P (concat (map f xs)) \<longleftrightarrow> list_all (\<lambda>x. list_all P (f x)) xs"
  by (auto simp: list_all_iff)

lemma fit_map [fit_simps]: "list_all P (map f xs) \<longleftrightarrow> list_all (\<lambda>x. P (f x)) xs"
  by (simp add: list_all_iff)

lemma divider_fits [fit_simps]: "0 \<le> columns \<Longrightarrow> fits columns (divider columns c)"
  by (simp add: fits_def divider_def)

lemma list_all_True [fit_simps]: "list_all (\<lambda>x. True) xs"
  by (simp add: list_all_iff)

lemma truthy_get: "truthy t \<Longrightarrow> the t = dict_get [] t"
  by (cases t) (simp_all add: truthy_def dict_get_def)

lemmas [fit_simps] = centre_fits two_column_fits wrapped_fits money_fits

lemma header_lines_fit: "32 \<le> columns \<Longrightarrow> list_all (fits columns) (header_lines h columns)"
  by (simp add: header_lines_def fit_simps)

lemma title_lines_fit: "32 \<le> columns \<Longrightarrow> list_all (fits columns) (title_lines d columns)"
  by (simp add: title_lines_def fit_simps)

lemma footer_lines_fit: "32 \<le> columns \<Longrightarrow> list_all (fits columns) (footer_lines f columns)"
  by (simp add: footer_lines_def fit_simps)

lemma order_type_fits: "32 \<le> columns \<Longrightarrow> fits columns (order_type_label m)"
  by (cases m) (simp_all add: fits_def)

lemma meta_lines_fit:
  assumes "32 \<le> columns" "short_texts columns o1 q"
  shows "list_all (fits columns) (meta_lines (receipt_meta_of o1 q) columns)"
  using assms by (simp add: meta_lines_def receipt_meta_of_def fit_simps order_type_fits truthy_get short_texts_def)

lemma modifier_lines_fit:
  assumes "32 \<le> columns" "in_range (dict_get 0 (rm_amount_cents m))"
  shows "list_all (fits columns) (modifier_lines kitchen currency columns m)"
  using assms by (cases "rm_amount_cents m") (simp_all add: modifier_lines_def fit_simps dict_get_def)

lemma item_modifiers_in_range:
  assumes "item_in_range i" "m \<in> set (item_modifiers currency i)"
  shows "in_range (dict_get 0 (rm_amount_cents m))"
  using assms
  by (auto simp: item_modifiers_def set_map_filter_iff item_in_range_def list_all_iff option_modifier_def
        add_on_modifier_def removed_modifier_def Let_def dict_get_def in_range_def split: if_splits)

lemma item_lines_fit:
  assumes "32 \<le> columns" "item_in_range i"
  shows "list_all (fits columns) (item_lines kitchen currency columns (item_line kitchen currency i))"
proof -
  have "in_range (rl_amount_cents (item_line kitchen currency i))"
    using assms(2) by (simp add: item_line_def item_in_range_def Let_def) (simp add: in_range_def)
  moreover have "list_all (\<lambda>m. list_all (fits columns) (modifier_lines kitchen currency columns m))
      (rl_modifiers (item_line kitchen currency i))"
  proof -
    have "\<forall>m \<in> set (item_modifiers currency i). list_all (fits columns) (modifier_lines kitchen currency columns m)"
      by (intro ballI modifier_lines_fit [OF assms(1)] item_modifiers_in_range [OF assms(2)])
    then show ?thesis by (simp add: item_line_def Let_def list_all_iff)
  qed
  ultimately show ?thesis
    using assms(1) by (cases kitchen) (simp_all add: item_lines_def Let_def fit_simps)
qed

lemma totals_lines_fit:
  assumes "32 \<le> columns" "order_in_range o1"
  shows "list_all (fits columns) (totals_lines (order_totals currency o1 rate) currency columns)"
  using assms by (simp add: totals_lines_def order_totals_def Let_def fit_simps order_in_range_def)

lemma allocation_lines_fit:
  assumes "32 \<le> columns" "allocation_in_range a"
  shows "list_all (fits columns) (allocation_lines columns (allocation_entry currency a))"
  using assms
  by (cases "pa_cash_tendered_cents a"; cases "pa_change_due_cents a")
     (simp_all add: allocation_lines_def allocation_entry_def Let_def fit_simps allocation_in_range_def dict_get_def truthy_def)

lemma payment_lines_fit:
  assumes "32 \<le> columns" "order_in_range o1" "list_all allocation_in_range allocations"
    and "fits columns (dict_get [] (or_payment_method o1))"
  shows "list_all (fits columns) (payment_lines (order_payment currency o1 allocations) currency columns)"
proof -
  have "list_all (\<lambda>a. list_all (fits columns) (allocation_lines columns (allocation_entry currency a))) allocations"
    using assms(3) allocation_lines_fit [OF assms(1)] by (rule list.pred_mono_strong)
  then show ?thesis
    using assms(1,2,4)
    by (auto simp: payment_lines_def order_payment_def Let_def fit_simps order_in_range_def truthy_get dict_get_def)
qed

lemma slip_lines_in_width:
  assumes "build_receipt_document o1 b c items allocations q = Inr d" "short_texts (rd_columns d) o1 q"
    and "order_in_range o1" "list_all item_in_range items" "list_all allocation_in_range allocations"
  shows "32 \<le> rd_columns d" "list_all (fits (rd_columns d)) (slip_lines d)"
proof -
  show cols: "32 \<le> rd_columns d"
    using assms(1) by (auto simp: build_receipt_document_def Let_def result_simps columns_for_def)
  have items: "list_all (\<lambda>i. list_all (fits (rd_columns d)) (item_lines kitchen currency (rd_columns d) (item_line kitchen currency i))) items"
    for kitchen currency using assms(4) item_lines_fit [OF cols] by (rule list.pred_mono_strong)
  have "fits (rd_columns d) (dict_get [] (or_payment_method o1))"
    using assms(2) by (simp add: short_texts_def)
  note fit = header_lines_fit [OF cols] title_lines_fit [OF cols] footer_lines_fit [OF cols] meta_lines_fit [OF cols assms(2)]
    totals_lines_fit [OF cols assms(3)] payment_lines_fit [OF cols assms(3,5) this] items
  obtain rate where "rd_header d = receipt_header_of b c (pq_brand_logo_url q)" "rd_meta d = receipt_meta_of o1 q"
      "rd_lines d = map (item_line (rd_kitchen d) (rd_currency d)) items" "rd_totals d = order_totals (rd_currency d) o1 rate"
      "rd_kitchen d \<or> rd_payment d = order_payment (rd_currency d) o1 allocations"
    using assms(1) by (auto simp: build_receipt_document_def Let_def result_simps)
  then show "list_all (fits (rd_columns d)) (slip_lines d)"
    using fit cols by (auto simp: slip_lines_def Let_def fit_simps)
qed

lemma split_on_ne [simp]: "split_on sep s \<noteq> []"
  by (induction s) (auto split: list.splits)

lemma split_on_append: "split_on sep (s @ sep # t) = split_on sep s @ split_on sep t"
  by (induction s) (auto split: list.splits)

lemma split_on_short: "w \<in> set (split_on sep s) \<Longrightarrow> length w \<le> length s"
  by (induction s arbitrary: w) (fastforce split: if_splits list.splits)+

lemma split_join_fits:
  assumes "list_all (fits n) ls" "0 \<le> n"
  shows "list_all (fits n) (split_on sep (join [sep] ls))"
  using assms
proof (induction "[sep]" ls rule: join.induct)
  case 1
  then show ?case by simp
next
  case (2 w)
  then show ?case using split_on_short [of _ sep w] by (fastforce simp: list_all_iff fits_def)
next
  case (3 w v ws)
  then show ?case
    using split_on_short [of _ sep w] split_on_append [of sep w "join [sep] (v # ws)"]
    by (fastforce simp: list_all_iff fits_def)
qed

text \<open>
  Every line of a slip fits the paper: of the text of a receipt document that was built from
  an order, its rows and its payments, no line is longer than the number of columns of the paper,
  whatever the names, notes and settings, as long as the texts on the right of a line (table,
  cashier, customer, method) are not wider than the paper themselves and every amount is below
  ten to the power of twenty cents (the columns are 32 bits wide).
\<close>

theorem slip_lines_fit:
  assumes "build_receipt_document o1 b c items allocations q = Inr d" "short_texts (rd_columns d) o1 q"
    and "order_in_range o1" "list_all item_in_range items" "list_all allocation_in_range allocations"
  shows "\<forall>l \<in> set (split_on newline (render_text d)). int (length l) \<le> rd_columns d"
  using split_join_fits [OF slip_lines_in_width(2) [OF assms], of newline] slip_lines_in_width(1) [OF assms]
  by (simp add: render_text_def list_all_iff fits_def)

text \<open>A slip of 58 mm with a name of 60 letters, an option and an add-on taken twice.\<close>

definition slip_business :: business where
  "slip_business = \<lparr>bu_id = 10, bu_currency = ''ZAR'', bu_order_number_sequence = 0, bu_delivery_fee_cents = 0,
     bu_vat_registered = False, bu_vat_rate_basis_points = 0, bu_vat_inclusive_pricing = True,
     bu_inventory_enabled = False, bu_loyalty_enabled = False, bu_pos_enabled = True, bu_payment_provider = None,
     bu_pos_cash_enabled = True, bu_pos_card_enabled = True, bu_pos_payfast_enabled = False,
     bu_pos_yoco_enabled = False, bu_pos_ikhoka_enabled = False, bu_pos_direct_eft_enabled = False,
     bu_pos_other_payment_enabled = False, bu_pos_table_number_required = False,
     bu_max_staff_discount_cents = None, bu_online_payment_required = False,
     bu_is_active = True, bu_delivery_reconciliation_enabled = True, bu_delivery_platforms_enabled = True,
     bu_uber_eats_enabled = True, bu_mrd_enabled = False,
     bu_wastage_approval_threshold_cents = 10000\<rparr>"

definition slip_settings :: receipt_settings where
  "slip_settings = \<lparr>rs_trading_name = None, rs_franchise_name = None, rs_branch_name = None, rs_config_address = None,
     rs_config_phone = None, rs_registration_number = None, rs_logo_url = None, rs_header_lines = [],
     rs_footer_message = Some ''Thank you'', rs_qr_data = None, rs_brand_display_name = None, rs_name = ''Ciao'',
     rs_address = None, rs_phone = None, rs_vat_number = None, rs_receipt_paper_width_mm = Some 58,
     rs_receipt_copies = None\<rparr>"

definition slip_request :: print_request where
  "slip_request = \<lparr>pq_kitchen = False, pq_cashier_name = Some ''Ann'', pq_is_reprint = False, pq_reprint_count = 0,
     pq_last_reprinted_at = None, pq_brand_logo_url = None, pq_issued_at = None, pq_issued_at_local = None\<rparr>"

definition slip_item :: order_item where
  "slip_item = \<lparr>oi_order_id = 1, oi_business_id = 10, oi_menu_item_id = None, oi_name_snapshot = replicate 60 CHR ''m'',
     oi_base_price_cents = 10000, oi_option_adjustment_cents = 500, oi_add_on_total_cents = 2000, oi_unit_price_cents = 12500,
     oi_quantity = 2, oi_line_total_cents = 25000, oi_options_snapshot = None,
     oi_selected_options_snapshot = Some [PlainOption \<lparr>od_group_id = None, od_group_name = None, od_option_id = None,
       od_option_name = Some ''Large'', od_price_delta_cents = Some 500\<rparr>],
     oi_add_ons_snapshot = Some [PlainAddOn \<lparr>ad_add_on_id = None, ad_name = ''Cheese'', ad_price_cents = Some 1000, ad_quantity = Some 2\<rparr>],
     oi_removed_ingredients_snapshot = None, oi_special_instructions = Some ''well done'', oi_is_ad_hoc_price = False\<rparr>"

definition slip_order :: order where
  "slip_order = (new_order 1 10 ''#7'')\<lparr>or_subtotal_cents := 25000, or_total_cents := 25000, or_payment_method := Some ''CASH'',
     or_cash_tendered_cents := Some 30000, or_change_due_cents := Some 5000\<rparr>"

lemma slip_lines_fit_witness:
  "\<exists>d. build_receipt_document slip_order slip_business slip_settings [slip_item] [] slip_request = Inr d \<and> rd_columns d = 32 \<and>
     list_all (\<lambda>l. int (length l) \<le> 32) (split_on newline (render_text d))"
proof -
  have "vat_rate_display slip_order slip_business = Inr (None, None)"
    by (simp add: vat_rate_display_def slip_order_def new_order_def)
  then obtain d where d: "build_receipt_document slip_order slip_business slip_settings [slip_item] [] slip_request = Inr d"
    by (simp add: build_receipt_document_def Let_def)
  then have c: "rd_columns d = 32"
    by (auto simp: build_receipt_document_def Let_def result_simps slip_settings_def number_or_def columns_for_def)
  have "\<forall>l \<in> set (split_on newline (render_text d)). int (length l) \<le> rd_columns d"
    by (rule slip_lines_fit [OF d])
      (simp_all add: c short_texts_def order_in_range_def item_in_range_def slip_order_def slip_item_def slip_request_def
        new_order_def dict_get_def fits_def in_range_def number_or_def)
  with d c show ?thesis by (auto simp: list_all_iff)
qed

end
