(* ===== verification/ReceiptLaws.thy ===== *)
theory ReceiptLaws imports EscposLaws PosLaws begin

text \<open>
  What the receipt of a sale says: the checkout of the till and the receipt document built from
  the rows it wrote, together.
\<close>

definition printed_amounts :: "receipt_document \<Rightarrow> int" where
  "printed_amounts d = sum_list (map rl_amount_cents (rd_lines d))"

lemma receipt_document_parts:
  assumes "build_receipt_document o1 b c items allocations q = Inr d" "\<not> pq_kitchen q"
  obtains rate where "vat_rate_display o1 b = Inr rate" "rd_totals d = order_totals (rd_currency d) o1 rate"
    "rd_lines d = map (item_line False (rd_currency d)) items" "rd_payment d = order_payment (rd_currency d) o1 allocations"
    "rd_banner d = order_banner o1 (pq_is_reprint q)"
  using assms by (auto simp: build_receipt_document_def Let_def result_simps)

lemma vat_rate_display_exact:
  assumes "(or_subtotal_cents o1 - or_discount_cents o1 - or_loyalty_discount_cents o1 + or_delivery_fee_cents o1) *
     bu_vat_rate_basis_points b < 10 ^ 27"
  shows "vat_rate_display o1 b = Inr (if 0 < or_tax_cents o1 \<and> 0 < bu_vat_rate_basis_points b \<and>
      or_tax_cents o1 = vat_amount (or_subtotal_cents o1 - or_discount_cents o1 - or_loyalty_discount_cents o1 + or_delivery_fee_cents o1)
        (bu_vat_rate_basis_points b) (bu_vat_inclusive_pricing b)
      then (Some (bu_vat_rate_basis_points b), Some (bu_vat_inclusive_pricing b)) else (None, None))"
  using calculate_vat_exact [OF assms, of "bu_vat_inclusive_pricing b"] by (auto simp: vat_rate_display_def Let_def)

lemma receipt_builds: "vat_rate_display o1 b = Inr rate \<Longrightarrow> \<exists>d. build_receipt_document o1 b c items allocations q = Inr d"
  by (simp add: build_receipt_document_def Let_def)

lemma filter_none: "k \<notin> f ` set xs \<Longrightarrow> filter (\<lambda>x. f x = k) xs = []"
  by (auto simp: filter_empty_conv)

lemma printed_amounts_rows:
  "rd_lines d = map (item_line False currency) items \<Longrightarrow> printed_amounts d = sum_list (map oi_line_total_cents items)"
  by (simp add: printed_amounts_def comp_def item_line_def Let_def)

lemma printed_allocations:
  assumes "rd_payment d = order_payment currency o1 allocations" "rp_allocations (rd_payment d) = Some as"
  shows "sum_list (map ra_amount_cents as) = sum_list (map pa_amount_cents allocations)"
  using assms by (auto simp: order_payment_def Let_def allocation_entry_def comp_def split: if_splits)

text \<open>
  C30: The receipt of a sale states the sale.  After a checkout the receipt built from the rows
  it wrote always exists; its line amounts add up to the subtotal it prints, the printed
  subtotal less the printed discounts plus the printed fee (and the printed tax where prices
  exclude it) is the printed total, the payments it lists add up to that total, the tax rate is
  printed exactly when there is tax, and only a reprint carries a banner.
\<close>

theorem receipt_states_the_sale:
  assumes c: "create_pos_order seen db user body oid cid now = Inr (db', o1)" and id: "or_id o1 = oid"
    and new: "oid \<notin> or_id ` (set (sh_orders seen) \<union> set (sh_orders db))"
      "oid \<notin> oi_order_id ` set (sh_items db)" "oid \<notin> pa_order_id ` set (sh_allocations db)"
    and fee: "\<And>biz. biz \<in> set (sh_businesses db) \<Longrightarrow> 0 \<le> bu_delivery_fee_cents biz"
    and net: "net = or_subtotal_cents o1 - or_discount_cents o1 - or_loyalty_discount_cents o1 + or_delivery_fee_cents o1"
    and small: "\<And>biz. biz \<in> set (sh_businesses db) \<Longrightarrow> net * bu_vat_rate_basis_points biz < 10 ^ 27"
    and q: "\<not> pq_kitchen q"
  shows "\<exists>biz \<in> set (sh_businesses db). \<exists>d. bu_id biz = au_business_id user \<and>
     build_receipt_document o1 biz settings (filter (\<lambda>i. oi_order_id i = oid) (sh_items db'))
       (filter (\<lambda>a. pa_order_id a = oid) (sh_allocations db')) q = Inr d \<and>
     printed_amounts d = rt_subtotal_cents (rd_totals d) \<and>
     rt_total_cents (rd_totals d) = rt_subtotal_cents (rd_totals d) - rt_discount_cents (rd_totals d) -
       rt_loyalty_discount_cents (rd_totals d) + rt_delivery_fee_cents (rd_totals d) +
       (if bu_vat_inclusive_pricing biz then 0 else rt_vat_cents (rd_totals d)) \<and>
     (\<forall>as. rp_allocations (rd_payment d) = Some as \<longrightarrow> sum_list (map ra_amount_cents as) = rt_total_cents (rd_totals d)) \<and>
     rt_vat_rate_basis_points (rd_totals d) = (if 0 < rt_vat_cents (rd_totals d) then Some (bu_vat_rate_basis_points biz) else None) \<and>
     rd_banner d = (if pq_is_reprint q then Some ''REPRINT'' else None)"
proof -
  obtain biz allocs rows where biz: "biz \<in> set (sh_businesses db)" "bu_id biz = au_business_id user"
    and al: "sh_allocations db' = sh_allocations db @ allocs" "\<forall>a \<in> set allocs. pa_order_id a = oid"
      "sum_list (map pa_amount_cents allocs) = or_total_cents o1"
    and rows: "sh_items db' = sh_items db @ rows" "or_subtotal_cents o1 = sum_list (map oi_line_total_cents rows)"
      "\<forall>i \<in> set rows. oi_order_id i = oid"
    and tax: "or_tax_cents o1 = (if bu_vat_registered biz then vat_amount net (bu_vat_rate_basis_points biz) (bu_vat_inclusive_pricing biz) else 0)"
      "or_total_cents o1 = (if bu_vat_registered biz \<and> \<not> bu_vat_inclusive_pricing biz then net + or_tax_cents o1 else net)"
    and paid: "or_payment_status o1 = PS_PAID"
    using sale_money [OF c id new(1) fee net small] by blast
  let ?items = "filter (\<lambda>i. oi_order_id i = oid) (sh_items db')" and ?allocs = "filter (\<lambda>a. pa_order_id a = oid) (sh_allocations db')"
  have sel: "?items = rows" "?allocs = allocs"
    using rows(1,3) al(1,2) filter_none [OF new(2)] filter_none [OF new(3)] by simp_all
  have rate: "vat_rate_display o1 biz = Inr (if 0 < or_tax_cents o1
      then (Some (bu_vat_rate_basis_points biz), Some (bu_vat_inclusive_pricing biz)) else (None, None))"
    using vat_rate_display_exact [of o1 biz] small [OF biz(1)] tax(1) by (simp add: net [symmetric]) (auto simp: vat_amount_def)
  obtain d where d: "build_receipt_document o1 biz settings ?items ?allocs q = Inr d" using receipt_builds [OF rate] by blast
  have parts: "rd_totals d = order_totals (rd_currency d) o1 (if 0 < or_tax_cents o1
        then (Some (bu_vat_rate_basis_points biz), Some (bu_vat_inclusive_pricing biz)) else (None, None))"
    "rd_lines d = map (item_line False (rd_currency d)) rows" "rd_payment d = order_payment (rd_currency d) o1 allocs"
    "rd_banner d = order_banner o1 (pq_is_reprint q)"
    by (rule receipt_document_parts [OF d q], use rate sel in simp)+
  have t: "rt_subtotal_cents (rd_totals d) = or_subtotal_cents o1" "rt_discount_cents (rd_totals d) = or_discount_cents o1"
    "rt_loyalty_discount_cents (rd_totals d) = or_loyalty_discount_cents o1" "rt_vat_cents (rd_totals d) = or_tax_cents o1"
    "rt_delivery_fee_cents (rd_totals d) = or_delivery_fee_cents o1" "rt_total_cents (rd_totals d) = or_total_cents o1"
    "rt_vat_rate_basis_points (rd_totals d) = (if 0 < or_tax_cents o1 then Some (bu_vat_rate_basis_points biz) else None)"
    by (simp_all add: parts(1) order_totals_def Let_def)
  have untaxed: "or_tax_cents o1 = 0" if "\<not> bu_vat_registered biz" using tax(1) that by simp
  show ?thesis
  proof (rule bexI [OF exI [of _ d] biz(1)], intro conjI allI impI)
    show "printed_amounts d = rt_subtotal_cents (rd_totals d)"
      using printed_amounts_rows [OF parts(2)] rows(2) t(1) by simp
    show "rd_banner d = (if pq_is_reprint q then Some ''REPRINT'' else None)"
      using parts(4) paid by (simp add: order_banner_def)
    show "sum_list (map ra_amount_cents as) = rt_total_cents (rd_totals d)" if "rp_allocations (rd_payment d) = Some as" for as
      using printed_allocations [OF parts(3) that] al(3) t(6) by simp
  qed (use biz d tax(2) untaxed net t in auto)
qed

lemma receipt_states_the_sale_witness:
  "\<exists>db' o1 d. create_pos_order sample_pos_shop sample_pos_shop sample_owner sample_checkout 88 89 1000 = Inr (db', o1) \<and>
     build_receipt_document o1 sample_pos_business slip_settings (sh_items db') (sh_allocations db') slip_request = Inr d \<and>
     printed_amounts d = rt_subtotal_cents (rd_totals d)"
proof -
  obtain r where c: "create_pos_order sample_pos_shop sample_pos_shop sample_owner sample_checkout 88 89 1000 =
      Inr (sample_sold r, sale_order (sample_sale r) sample_owner sample_checkout 1000 1)" by (rule sample_pos_checkout)
  have all: "filter (\<lambda>i. oi_order_id i = 88) (sh_items (sample_sold r)) = sh_items (sample_sold r)"
    "filter (\<lambda>a. pa_order_id a = 88) (sh_allocations (sample_sold r)) = sh_allocations (sample_sold r)"
    using sale_rows_of [of _ "sample_sale r" sample_owner] sale_allocations_of [of _ "sample_sale r" sample_owner sample_checkout 1000]
    by (auto simp: sample_sold_def Let_def filter_id_conv sample_sale_def)
  let ?o1 = "sale_order (sample_sale r) sample_owner sample_checkout 1000 1"
  have rate: "bu_vat_rate_basis_points sample_pos_business = 1500"
    by (simp add: sample_pos_business_def sample_business_def)
  have "\<exists>biz \<in> set (sh_businesses sample_pos_shop). \<exists>d. build_receipt_document ?o1 biz slip_settings
      (filter (\<lambda>i. oi_order_id i = 88) (sh_items (sample_sold r))) (filter (\<lambda>a. pa_order_id a = 88) (sh_allocations (sample_sold r)))
      slip_request = Inr d \<and> printed_amounts d = rt_subtotal_cents (rd_totals d)"
    using receipt_states_the_sale [OF c _ _ _ _ _ refl, of slip_request slip_settings]
    by (auto simp: sample_sale_def loyalty_discount_def slip_request_def rate)
  then show ?thesis using c by (simp add: all)
qed

end
