(* ===== verification/ExternalReports.thy ===== *)
theory ExternalReports imports PyDecimalText Consumption Pricing begin

text \<open>
  \<^verbatim>\<open>backend/app/external_orders/adapters.py\<close>: the rows of a delivery platform's report
  become orders.  A row is what the file reader returns, the headings in the order of the file
  with their cells.  \<open>datetime.strptime\<close> and \<open>datetime.fromisoformat\<close> are parameters;
  everything the code does around them is modelled.
\<close>

subsection \<open>Canonical orders\<close>

record external_line =
  xl_external_item_text :: string
  xl_quantity :: int
  xl_modifiers :: "string list"
  xl_size_text :: "string option"
  xl_gross_cents :: "int option"
  xl_source_row :: nat

record external_order =
  xo_external_order_id :: string
  xo_placed_at :: instant
  xo_lines :: "external_line list"
  xo_status :: "string option"
  xo_gross_cents :: "int option"

datatype row_problem = MissingOrderId | MissingItem string | BadQuantity string | NoDate string

record adapter_result =
  ar_orders :: "external_order list"
  ar_issues :: "(nat \<times> row_problem) list"
  ar_detected_columns :: "string list"
  ar_resolved_mapping :: "(string \<times> string) list"
  ar_missing_required :: "string list"

subsection \<open>Columns\<close>

definition column_aliases :: "(string \<times> string list) list" where
  "column_aliases =
     [(''external_order_id'', [''order id'', ''orderid'', ''order number'', ''order no'', ''order num'', ''order'',
         ''order reference'', ''reference'', ''ref'', ''receipt id'', ''transaction id'', ''uber order id'',
         ''mr d order id'', ''order code'']),
      (''order_datetime'', [''order datetime'', ''date time'', ''datetime'', ''timestamp'', ''ordered at'', ''placed at'',
         ''created at'', ''order placed'']),
      (''order_date'', [''order date'', ''date'', ''day'', ''business date'', ''sale date'']),
      (''order_time'', [''order time'', ''time'', ''time placed'']),
      (''item'', [''item'', ''item name'', ''product'', ''product name'', ''menu item'', ''dish'', ''description'',
         ''item description'', ''line item'']),
      (''quantity'', [''quantity'', ''qty'', ''count'', ''units'', ''item quantity'', ''no of items'']),
      (''size'', [''size'', ''variant'', ''portion size'', ''item size'']),
      (''modifiers'', [''modifier'', ''modifiers'', ''options'', ''option'', ''add ons'', ''addons'', ''add-ons'', ''extras'',
         ''customisations'', ''customizations'', ''toppings'', ''item options'', ''modifier list'']),
      (''price'', [''price'', ''gross'', ''total'', ''amount'', ''item total'', ''line total'', ''gross sales'', ''item price'',
         ''sale amount'', ''order total'']),
      (''status'', [''status'', ''order status'', ''state'', ''order state''])]"

definition required_fields :: "string list" where
  "required_fields = [''external_order_id'', ''item'', ''quantity'']"

definition cancelled_status_hints :: "string list" where
  "cancelled_status_hints = [''cancel'', ''refund'', ''reject'', ''fail'', ''void'', ''declin'', ''unfulfil'', ''unfulfill'']"

definition heading_char :: "char \<Rightarrow> bool" where
  "heading_char c = (is_ascii_digit c \<or> (97 \<le> ord_of c \<and> ord_of c \<le> 122) \<or> c = CHR '' '')"

definition normalise_heading :: "string \<Rightarrow> string" where
  "normalise_heading h = join '' '' (split_words (filter heading_char
     (map (\<lambda>c. if c \<in> {CHR ''_'', CHR ''-'', CHR ''/''} then CHR '' '' else c) (lower (strip h)))))"

text \<open>
  One pass over the fields: each takes the first heading that is not taken and is
  \<open>good\<close> for its aliases.
\<close>

definition claim_columns ::
  "(string list \<Rightarrow> string \<Rightarrow> bool) \<Rightarrow> string list \<Rightarrow> (string \<times> string list) list \<Rightarrow> (string \<times> string) list \<Rightarrow> (string \<times> string) list" where
  "claim_columns good headings specs resolved =
     fold (\<lambda>(field, aliases) resolved.
       if map_of resolved field \<noteq> None then resolved
       else case find (\<lambda>h. h \<notin> snd ` set resolved \<and> good aliases (normalise_heading h)) headings of
              None \<Rightarrow> resolved | Some h \<Rightarrow> resolved @ [(field, h)]) specs resolved"

definition detect_columns :: "string list \<Rightarrow> (string \<times> string) list" where
  "detect_columns headings =
     (let hs = filter (\<lambda>h. h \<noteq> []) headings;
          exact = claim_columns (\<lambda>aliases norm. norm \<in> set aliases) hs column_aliases []
      in claim_columns (\<lambda>aliases norm. norm \<noteq> [] \<and> (\<exists>a \<in> set aliases. starts_with a norm \<or> contains a norm)) hs column_aliases exact)"

subsection \<open>Values\<close>

definition datetime_formats :: "string list" where
  "datetime_formats =
     [''%Y-%m-%d %H:%M:%S'', ''%Y-%m-%d %H:%M'', ''%Y-%m-%dT%H:%M:%S'', ''%Y-%m-%dT%H:%M'', ''%Y/%m/%d %H:%M:%S'',
      ''%Y/%m/%d %H:%M'', ''%d/%m/%Y %H:%M:%S'', ''%d/%m/%Y %H:%M'', ''%m/%d/%Y %H:%M:%S'', ''%m/%d/%Y %H:%M'',
      ''%d-%m-%Y %H:%M:%S'', ''%d-%m-%Y %H:%M'', ''%d %b %Y %H:%M'', ''%d %B %Y %H:%M'', ''%Y-%m-%d'', ''%Y/%m/%d'',
      ''%d/%m/%Y'', ''%d-%m-%Y'', ''%d %b %Y'', ''%d %B %Y'']"

text \<open>\<open>\d:\d\<close> somewhere in the text.\<close>

fun has_clock_time :: "string \<Rightarrow> bool" where
  "has_clock_time (a # b # c # s) = ((is_ascii_digit a \<and> b = CHR '':'' \<and> is_ascii_digit c) \<or> has_clock_time (b # c # s))"
| "has_clock_time s = False"

text \<open>A trailing \<open>[+-]\d{2}:?\d{2}\<close> and the space before it.\<close>

definition is_offset :: "string \<Rightarrow> bool" where
  "is_offset s = (s \<noteq> [] \<and> hd s \<in> {CHR ''+'', CHR ''-''} \<and>
     ((length s = 5 \<and> list_all is_ascii_digit (tl s)) \<or>
      (length s = 6 \<and> s ! 3 = CHR '':'' \<and> list_all is_ascii_digit [s ! 1, s ! 2, s ! 4, s ! 5])))"

definition last_chars :: "nat \<Rightarrow> string \<Rightarrow> string" where "last_chars n s = drop (length s - n) s"

definition without_offset :: "string \<Rightarrow> string" where
  "without_offset s = strip (if is_offset (last_chars 6 s) then take (length s - 6) s
     else if is_offset (last_chars 5 s) then take (length s - 5) s else s)"

definition datetime_text :: "string option \<Rightarrow> string option \<Rightarrow> string" where
  "datetime_text date_text time_text =
     (let raw = strip (dict_get [] date_text);
          clock = strip (dict_get [] time_text);
          raw = (if clock \<noteq> [] \<and> \<not> has_clock_time raw then raw @ '' '' @ clock else raw)
      in without_offset (strip (filter (\<lambda>c. c \<noteq> CHR ''Z'') raw)))"

definition parse_datetime ::
  "(string \<Rightarrow> string \<Rightarrow> instant option) \<Rightarrow> (string \<Rightarrow> instant option) \<Rightarrow> string option \<Rightarrow> string option \<Rightarrow> instant option" where
  "parse_datetime strptime fromisoformat date_text time_text =
     (if strip (dict_get [] date_text) = [] then None
      else let raw = datetime_text date_text time_text
           in case List.map_filter (\<lambda>fmt. strptime raw fmt) datetime_formats of
                t # _ \<Rightarrow> Some t | [] \<Rightarrow> fromisoformat raw)"

definition money_char :: "char \<Rightarrow> bool" where
  "money_char c = (is_ascii_digit c \<or> c \<in> {CHR '','', CHR ''.'', CHR ''-''})"

definition decimal_comma :: "string \<Rightarrow> string" where
  "decimal_comma raw =
     (if CHR '','' \<in> set raw \<and> CHR ''.'' \<in> set raw then filter (\<lambda>c. c \<noteq> CHR '','') raw
      else if length (filter (\<lambda>c. c = CHR '','') raw) = 1 \<and> length (last (split_on CHR '','' raw)) \<in> {1, 2}
      then map (\<lambda>c. if c = CHR '','' then CHR ''.'' else c) raw
      else filter (\<lambda>c. c \<noteq> CHR '','') raw)"

text \<open>\<open>quantize(Decimal("1"))\<close> with the default rounding, half to even.\<close>

definition quantize_even :: "dec \<Rightarrow> int option" where
  "quantize_even x = (case x of Dec c e \<Rightarrow>
     (let r = (if 0 \<le> e then c * 10 ^ nat e else sgn c * half_even \<bar>c\<bar> (10 ^ nat (- e)))
      in if 10 ^ prec \<le> \<bar>r\<bar> then None else Some r))"

definition parse_money_cents :: "string option \<Rightarrow> int option" where
  "parse_money_cents text =
     (let raw = filter money_char (strip (dict_get [] text))
      in if raw \<in> {[], ''-'', ''.'', '',''} then None
         else case decimal_of_string (decimal_comma raw) of
             FiniteText d \<Rightarrow> quantize_even (dec_mul d (Dec 100 0))
           | _ \<Rightarrow> None)"

definition whole_number :: "dec \<Rightarrow> int option" where
  "whole_number d = (case d of Dec c e \<Rightarrow>
     if 0 \<le> e then Some (c * 10 ^ nat e)
     else if c mod 10 ^ nat (- e) = 0 then Some (c div 10 ^ nat (- e)) else None)"

definition parse_quantity :: "string option \<Rightarrow> int option" where
  "parse_quantity text =
     (let raw = strip (dict_get [] text); digits = filter (\<lambda>c. is_ascii_digit c \<or> c = CHR ''.'' \<or> c = CHR ''-'') raw
      in if raw = [] then Some 1
         else case decimal_of_string (if digits = [] then ''0'' else digits) of
             FiniteText d \<Rightarrow> (case whole_number d of None \<Rightarrow> None | Some n \<Rightarrow> if n \<le> 0 then None else Some n)
           | _ \<Rightarrow> None)"

text \<open>A comma inside parentheses does not separate: a closing one comes before any opening one.\<close>

fun closes_ahead :: "string \<Rightarrow> bool" where
  "closes_ahead [] = False"
| "closes_ahead (c # s) = (if c = CHR '')'' then True else if c = CHR ''('' then False else closes_ahead s)"

fun split_cell :: "string \<Rightarrow> string \<Rightarrow> string list" where
  "split_cell acc [] = [rev acc]"
| "split_cell acc (c # s) =
     (if c \<in> {CHR '';'', CHR ''|'', char_of (10::nat)} \<or> (c = CHR '','' \<and> \<not> closes_ahead s)
      then rev acc # split_cell [] s else split_cell (c # acc) s)"

definition split_modifiers :: "string option \<Rightarrow> string list" where
  "split_modifiers text = filter (\<lambda>p. p \<noteq> []) (map strip (split_cell [] (strip (dict_get [] text))))"

definition looks_cancelled :: "string option \<Rightarrow> bool" where
  "looks_cancelled status =
     (status \<noteq> None \<and> (\<exists>hint \<in> set cancelled_status_hints. contains hint (lower (the status))))"

subsection \<open>Rows to orders\<close>

type_synonym report_row = "(string \<times> string option) list"

definition cell :: "(string \<times> string) list \<Rightarrow> report_row \<Rightarrow> string \<Rightarrow> string option" where
  "cell resolved row field = (case map_of resolved field of None \<Rightarrow> None
     | Some heading \<Rightarrow> (case map_of row heading of None \<Rightarrow> None | Some v \<Rightarrow> v))"

definition headings_of :: "report_row list \<Rightarrow> string list" where
  "headings_of rows = fold (\<lambda>h hs. if h \<noteq> [] \<and> h \<notin> set hs then hs @ [h] else hs) (concat (map (map fst) (take 10 rows))) []"

text \<open>The manager's corrections: an empty heading takes the field away.\<close>

definition apply_override :: "(string \<times> string) list \<Rightarrow> (string \<times> string) list \<Rightarrow> (string \<times> string) list" where
  "apply_override override resolved =
     fold (\<lambda>(field, heading) r. if heading \<noteq> [] then (field, heading) # filter (\<lambda>p. fst p \<noteq> field) r
                                else filter (\<lambda>p. fst p \<noteq> field) r) override resolved"

definition row_line :: "(string \<times> string) list \<Rightarrow> nat \<Rightarrow> report_row \<Rightarrow> string \<Rightarrow> int \<Rightarrow> external_line" where
  "row_line resolved index row item_text qty =
     \<lparr>xl_external_item_text = item_text, xl_quantity = qty, xl_modifiers = split_modifiers (cell resolved row ''modifiers''),
      xl_size_text = (let s = strip (dict_get [] (cell resolved row ''size'')) in if s = [] then None else Some s),
      xl_gross_cents = parse_money_cents (cell resolved row ''price''), xl_source_row = index\<rparr>"

text \<open>A further line of an order: its status if none was known, the earliest instant, the sum.\<close>

definition extend_order :: "external_line \<Rightarrow> instant option \<Rightarrow> string option \<Rightarrow> external_order \<Rightarrow> external_order" where
  "extend_order line placed_at status x =
     x\<lparr>xo_lines := xo_lines x @ [line],
       xo_status := (if xo_status x = None \<and> truthy status then status else xo_status x),
       xo_placed_at := (case placed_at of Some t \<Rightarrow> if t < xo_placed_at x then t else xo_placed_at x | None \<Rightarrow> xo_placed_at x),
       xo_gross_cents := (case xl_gross_cents line of None \<Rightarrow> xo_gross_cents x
                          | Some g \<Rightarrow> Some (dict_get 0 (xo_gross_cents x) + g))\<rparr>"

definition text_cell :: "string option \<Rightarrow> string" where "text_cell v = strip (dict_get [] v)"

fun adapt_row ::
  "(string option \<Rightarrow> string option \<Rightarrow> instant option) \<Rightarrow> (string \<times> string) list \<Rightarrow> nat \<times> report_row \<Rightarrow>
   external_order list \<times> (nat \<times> row_problem) list \<Rightarrow> external_order list \<times> (nat \<times> row_problem) list" where
  "adapt_row parse resolved (index, row) (grouped, issues) =
     (let order_id = text_cell (cell resolved row ''external_order_id''); item_text = text_cell (cell resolved row ''item'');
          date = (if truthy (cell resolved row ''order_datetime'') then cell resolved row ''order_datetime'' else cell resolved row ''order_date'');
          placed_at = parse date (cell resolved row ''order_time'');
          known = find (\<lambda>x. xo_external_order_id x = order_id) grouped;
          status = (if truthy (cell resolved row ''status'') then Some (text_cell (cell resolved row ''status'')) else None)
      in if order_id = [] \<and> item_text = [] then (grouped, issues)
         else if order_id = [] then (grouped, issues @ [(index, MissingOrderId)])
         else if item_text = [] then (grouped, issues @ [(index, MissingItem order_id)])
         else case parse_quantity (cell resolved row ''quantity'') of
             None \<Rightarrow> (grouped, issues @ [(index, BadQuantity order_id)])
           | Some qty \<Rightarrow>
               (let line = row_line resolved index row item_text qty
                in case (known, placed_at) of
                     (None, None) \<Rightarrow> (grouped, issues @ [(index, NoDate order_id)])
                   | (None, Some t) \<Rightarrow>
                       (grouped @ [\<lparr>xo_external_order_id = order_id, xo_placed_at = t, xo_lines = [line], xo_status = status,
                                    xo_gross_cents = xl_gross_cents line\<rparr>], issues)
                   | (Some x, _) \<Rightarrow>
                       (map (\<lambda>y. if xo_external_order_id y = order_id then extend_order line placed_at status y else y) grouped, issues)))"

definition adapt_rows ::
  "(string option \<Rightarrow> string option \<Rightarrow> instant option) \<Rightarrow> report_row list \<Rightarrow> (string \<times> string) list \<Rightarrow> adapter_result" where
  "adapt_rows parse rows override =
     (if rows = [] then \<lparr>ar_orders = [], ar_issues = [], ar_detected_columns = [], ar_resolved_mapping = [], ar_missing_required = []\<rparr>
      else let headings = headings_of rows; resolved = apply_override override (detect_columns headings);
               missing = filter (\<lambda>f. map_of resolved f = None) required_fields;
               (orders, issues) = (if missing \<noteq> [] then ([], []) else fold (adapt_row parse resolved) (enumerate 2 rows) ([], []))
           in \<lparr>ar_orders = orders, ar_issues = issues, ar_detected_columns = headings, ar_resolved_mapping = resolved,
               ar_missing_required = missing\<rparr>)"

definition order_id_prefix :: "string \<Rightarrow> string" where
  "order_id_prefix platform = (if platform = ''UBER_EATS'' then ''UE'' else if platform = ''MR_D'' then ''MRD'' else ''EXT'')"

end
