(* ===== verification/ReportLaws.thy ===== *)
theory ReportLaws imports ExternalReports "HOL-Library.Multiset" begin

text \<open>
  What a parsed report holds: the rows of the file are accounted for one by one, and the orders
  are grouped by their id with lines that were really sold.
\<close>

subsection \<open>A well-formed grouping\<close>

definition sale_line :: "external_line \<Rightarrow> bool" where
  "sale_line l = (0 < xl_quantity l \<and> xl_external_item_text l \<noteq> [])"

text \<open>The total of an order: what its lines say, unknown only when no line says anything.\<close>

definition reported_gross :: "external_line list \<Rightarrow> int option" where
  "reported_gross ls = (if list_all (\<lambda>l. xl_gross_cents l = None) ls then None
                        else Some (sum_list (map (\<lambda>l. dict_get 0 (xl_gross_cents l)) ls)))"

definition grouped_order :: "external_order \<Rightarrow> bool" where
  "grouped_order x = (xo_external_order_id x \<noteq> [] \<and> xo_lines x \<noteq> [] \<and> list_all sale_line (xo_lines x) \<and>
                      xo_gross_cents x = reported_gross (xo_lines x))"

definition grouped_ok :: "external_order list \<Rightarrow> bool" where
  "grouped_ok xs = (distinct (map xo_external_order_id xs) \<and> list_all grouped_order xs)"

definition line_rows :: "external_order list \<Rightarrow> nat multiset" where
  "line_rows xs = \<Sum>\<^sub># (image_mset (\<lambda>x. mset (map xl_source_row (xo_lines x))) (mset xs))"

definition blank_row :: "(string \<times> string) list \<Rightarrow> report_row \<Rightarrow> bool" where
  "blank_row resolved row = (text_cell (cell resolved row ''external_order_id'') = [] \<and> text_cell (cell resolved row ''item'') = [])"

lemma reported_gross_snoc: "reported_gross (ls @ [l]) =
   (case xl_gross_cents l of None \<Rightarrow> reported_gross ls | Some g \<Rightarrow> Some (dict_get 0 (reported_gross ls) + g))"
proof -
  have "sum_list (map (\<lambda>l. dict_get 0 (xl_gross_cents l)) ls) = 0" if "list_all (\<lambda>l. xl_gross_cents l = None) ls"
    using that by (induction ls) (auto simp: dict_get_def)
  then show ?thesis by (auto simp: reported_gross_def dict_get_def split: option.splits)
qed

lemma parse_quantity_positive: "parse_quantity t = Some q \<Longrightarrow> 0 < q"
  by (auto simp: parse_quantity_def Let_def split: if_splits option.splits decimal_text.splits)

lemma line_rows_extend:
  assumes "distinct (map xo_external_order_id xs)" "y \<in> set xs"
  shows "line_rows (map (\<lambda>x. if xo_external_order_id x = xo_external_order_id y then extend_order l t s x else x) xs)
         = add_mset (xl_source_row l) (line_rows xs)"
  using assms
proof (induction xs)
  case (Cons x xs)
  have other: "map (\<lambda>x. if xo_external_order_id x = xo_external_order_id y then extend_order l t s x else x) xs = xs"
    if "y = x" using Cons.prems(1) that by (intro map_idI) (metis distinct.simps(2) image_eqI list.simps(9) set_map)
  show ?case
  proof (cases "y = x")
    case True
    then show ?thesis using other by (simp add: line_rows_def extend_order_def)
  next
    case False
    then have "y \<in> set xs" using Cons.prems by auto
    moreover have "xo_external_order_id x \<noteq> xo_external_order_id y" using Cons.prems \<open>y \<in> set xs\<close> by auto
    ultimately show ?thesis using Cons by (simp add: line_rows_def)
  qed
qed simp

lemma extend_keeps_grouped: "grouped_order x \<Longrightarrow> sale_line l \<Longrightarrow> grouped_order (extend_order l t s x)"
  by (auto simp: grouped_order_def extend_order_def reported_gross_snoc split: option.splits)

lemma extend_id [simp]: "xo_external_order_id (extend_order l t s x) = xo_external_order_id x"
  by (simp add: extend_order_def)

lemma extend_all_ok:
  assumes "grouped_ok xs" "sale_line l"
  shows "grouped_ok (map (\<lambda>x. if xo_external_order_id x = i then extend_order l t s x else x) xs)"
proof -
  have ids: "map xo_external_order_id (map (\<lambda>x. if xo_external_order_id x = i then extend_order l t s x else x) xs)
        = map xo_external_order_id xs" by (simp add: if_distrib cong: map_cong)
  have "list_all grouped_order (map (\<lambda>x. if xo_external_order_id x = i then extend_order l t s x else x) xs)"
    using assms extend_keeps_grouped by (auto simp: grouped_ok_def list_all_iff)
  then show ?thesis using assms(1) ids by (simp only: grouped_ok_def)
qed

subsection \<open>One row\<close>

definition rows_of :: "external_order list \<times> (nat \<times> row_problem) list \<Rightarrow> nat multiset" where
  "rows_of s = line_rows (fst s) + mset (map fst (snd s))"

lemma adapt_row_step:
  assumes ok: "grouped_ok xs"
  shows "grouped_ok (fst (adapt_row parse resolved (i, row) (xs, iss)))
       \<and> rows_of (adapt_row parse resolved (i, row) (xs, iss))
         = (if blank_row resolved row then rows_of (xs, iss) else add_mset i (rows_of (xs, iss)))"
proof -
  let ?id = "text_cell (cell resolved row ''external_order_id'')" let ?item = "text_cell (cell resolved row ''item'')"
  show ?thesis
  proof (cases "?id = [] \<or> ?item = [] \<or> parse_quantity (cell resolved row ''quantity'') = None")
    case True
    then show ?thesis using ok by (auto simp: blank_row_def rows_of_def Let_def)
  next
    case False
    then obtain q where q: "parse_quantity (cell resolved row ''quantity'') = Some q" and n: "?id \<noteq> []" "?item \<noteq> []" by auto
    have nb: "\<not> blank_row resolved row" using n by (simp add: blank_row_def)
    let ?l = "row_line resolved i row ?item q"
    have l: "sale_line ?l" "xl_source_row ?l = i"
      using n parse_quantity_positive[OF q] by (simp_all add: sale_line_def row_line_def)
    let ?date = "if truthy (cell resolved row ''order_datetime'') then cell resolved row ''order_datetime'' else cell resolved row ''order_date''"
    let ?t = "parse ?date (cell resolved row ''order_time'')"
    show ?thesis
    proof (cases "find (\<lambda>x. xo_external_order_id x = ?id) xs")
      case None
      then have new: "?id \<notin> xo_external_order_id ` set xs" by (auto simp: find_None_iff)
      show ?thesis using ok None q n nb l new
        by (cases ?t) (auto simp: Let_def grouped_ok_def grouped_order_def reported_gross_def dict_get_def rows_of_def line_rows_def)
    next
      case (Some y)
      then have y: "y \<in> set xs" "xo_external_order_id y = ?id" by (auto simp: find_Some_iff)
      have "distinct (map xo_external_order_id xs)" using ok by (simp add: grouped_ok_def)
      note e = line_rows_extend[OF this y(1), of ?l ?t, unfolded y(2)] and k = extend_all_ok[OF ok l(1)]
      show ?thesis using Some q n nb l(2) e k by (cases ?t) (simp_all add: Let_def rows_of_def)
    qed
  qed
qed

lemma adapt_rows_fold:
  "grouped_ok (fst s) \<Longrightarrow>
   grouped_ok (fst (fold (adapt_row parse resolved) rs s))
 \<and> rows_of (fold (adapt_row parse resolved) rs s)
   = rows_of s + mset (map fst (filter (\<lambda>r. \<not> blank_row resolved (snd r)) rs))"
proof (induction rs arbitrary: s)
  case (Cons r rs)
  obtain i row xs iss where r: "r = (i, row)" and s: "s = (xs, iss)" by (cases r, cases s)
  have "grouped_ok xs" using Cons.prems s by simp
  note step = adapt_row_step[OF this, of parse resolved i row iss]
  have "grouped_ok (fst (adapt_row parse resolved r s))" using step r s by simp
  from Cons.IH[OF this] show ?case using step r s by (simp del: adapt_row.simps)
qed simp

subsection \<open>The file\<close>

text \<open>
  C26: when the required columns are found, every row of the file that is not blank is exactly one
  line of one order or exactly one reported problem, whatever the dates parse to; the orders have
  distinct ids, at least one line each, only lines of a named item in a positive whole quantity, and
  the total their lines report.  When a column is missing nothing is imported.
\<close>
theorem report_accounts_for_every_row:
  "let res = adapt_rows parse rows override in
     grouped_ok (ar_orders res) \<and>
     rows_of (ar_orders res, ar_issues res) =
       (if ar_missing_required res = []
        then mset (map fst (filter (\<lambda>r. \<not> blank_row (ar_resolved_mapping res) (snd r)) (enumerate 2 rows))) else {#})"
proof -
  have e: "grouped_ok []" "rows_of ([], []) = {#}" by (simp_all add: grouped_ok_def rows_of_def line_rows_def)
  show ?thesis
  proof (cases "rows = []")
    case True
    then show ?thesis using e by (simp add: adapt_rows_def)
  next
    case False
    let ?r = "apply_override override (detect_columns (headings_of rows))"
    have "grouped_ok (fst (([], []) :: external_order list \<times> (nat \<times> row_problem) list))" using e by simp
    note f = adapt_rows_fold[OF this, of parse ?r "enumerate 2 rows"]
    show ?thesis using f e False by (auto simp: adapt_rows_def Let_def split: prod.splits)
  qed
qed

text \<open>
  A day-first date with dashes and no time loses its year to the removal of a time zone offset, so
  the last but two of the formats can never match.
\<close>
lemma dashed_date_loses_its_year: "datetime_text (Some ''05-10-2026'') None = ''05-10''"
  by code_simp

end
