(* ===== verification/ExternalOrders.thy ===== *)
theory ExternalOrders imports ExternalReports Shop Stocktake begin

text \<open>
  \<^verbatim>\<open>backend/app/external_orders/service.py\<close> and the handlers of
  \<^verbatim>\<open>backend/app/api/v1/routes_external_orders.py\<close> that change state: a platform's report is
  resolved against the menu of the business and the saved mappings, and what is importable
  becomes orders whose stock is posted like that of any sale.  The file is the list of rows
  its reader returns; the ids of the new rows are parameters.  The quotient
  \<open>int(gross / quantity)\<close> is the truncated one, which the float division gives for the amounts a
  32-bit column holds.
\<close>

definition external_platform_of :: "string \<Rightarrow> external_platform option" where
  "external_platform_of p = map_of [(''UBER_EATS'', UBER_EATS_PLATFORM), (''MR_D'', MR_D_PLATFORM),
     (''GENERIC'', GENERIC_PLATFORM)] p"

datatype mapping_kind = ITEM_MAPPING | MODIFIER_MAPPING | MODIFIER_GROUP_MAPPING | CATEGORY_MAPPING

datatype mapping_status = MS_MAPPED | MS_UNMAPPED | MS_CHANGED | MS_INVALID | MS_IGNORED

record product_mapping =
  pm_id :: uuid
  pm_business_id :: uuid
  pm_platform :: string
  pm_kind :: mapping_kind
  pm_external_text :: string
  pm_external_key :: string
  pm_menu_item_id :: "uuid option"
  pm_option_id :: "string option"
  pm_menu_add_on_id :: "uuid option"
  pm_removable_ref_id :: "string option"
  pm_is_ignored :: bool
  pm_created_by_user_id :: "uuid option"
  pm_external_id :: "string option"
  pm_status :: mapping_status
  pm_last_seen_at :: "instant option"

datatype import_status = IB_PREVIEW | IB_COMPLETED | IB_BLOCKED | IB_FAILED

record import_batch =
  ib_id :: uuid
  ib_business_id :: uuid
  ib_platform :: string
  ib_status :: import_status
  ib_filename :: "string option"
  ib_uploaded_by_user_id :: "uuid option"
  ib_uploaded_at :: instant
  ib_period_start_at :: "instant option"
  ib_period_end_at :: "instant option"
  ib_total_rows :: nat
  ib_accepted_rows :: nat
  ib_duplicate_orders :: nat
  ib_rejected_rows :: nat
  ib_orders_imported :: nat
  ib_movements_created :: nat
  ib_gross_sales_cents :: int

record market_db =
  md_shop :: shop_db
  md_sessions :: "stocktake_session list"
  md_mappings :: "product_mapping list"
  md_batches :: "import_batch list"

text \<open>The unique index that keeps a report from being imported twice, on top of those of the shop.\<close>

definition external_key :: "order \<Rightarrow> (uuid \<times> order_source \<times> string) option" where
  "external_key o1 = map_option (\<lambda>x. (or_business_id o1, or_source o1, x)) (or_external_order_id o1)"

definition mapping_key :: "product_mapping \<Rightarrow> (uuid \<times> string \<times> mapping_kind \<times> string) option" where
  "mapping_key m = Some (pm_business_id m, pm_platform m, pm_kind m, pm_external_key m)"

definition mapping_external_key :: "product_mapping \<Rightarrow> (uuid \<times> string \<times> mapping_kind \<times> string) option" where
  "mapping_external_key m = map_option (\<lambda>x. (pm_business_id m, pm_platform m, pm_kind m, x)) (pm_external_id m)"

definition commit_market :: "market_db \<Rightarrow> market_db result" where
  "commit_market db =
     and_then (raise_if (\<not> unique_index external_key (sh_orders (md_shop db))) (IntegrityError ''uq_orders_business_source_external_id'')) (\<lambda>_.
     and_then (raise_if (\<not> unique_index mapping_key (md_mappings db)) (IntegrityError ''uq_external_product_mappings_business_platform_kind_key'')) (\<lambda>_.
     and_then (raise_if (\<not> unique_index mapping_external_key (md_mappings db)) (IntegrityError ''uq_external_product_mappings_business_platform_kind_external_id'')) (\<lambda>_.
     and_then (commit_shop (md_shop db)) (\<lambda>_. Inr db))))"

definition market_ok :: "market_db \<Rightarrow> bool" where
  "market_ok db = (unique_index external_key (sh_orders (md_shop db)) \<and> unique_index mapping_key (md_mappings db) \<and>
     unique_index mapping_external_key (md_mappings db) \<and> shop_ok (md_shop db))"

lemma commit_market_eq: "commit_market db = Inr db' \<longleftrightarrow> db' = db \<and> market_ok db"
  by (auto simp: commit_market_def market_ok_def and_then_eq_Inr commit_shop_eq)

subsection \<open>Resolution\<close>

definition normalise_key :: "string \<Rightarrow> string" where
  "normalise_key s = join '' '' (split_words (lower (strip s)))"

record resolved_line =
  rv_external_item_text :: string
  rv_quantity :: int
  rv_menu_item_id :: "uuid option"
  rv_menu_item_name :: "string option"
  rv_option_id :: "string option"
  rv_option_name :: "string option"
  rv_add_on_ids :: "uuid list"
  rv_removed_ref_ids :: "string list"
  rv_unresolved_modifiers :: "string list"
  rv_gross_cents :: "int option"
  rv_is_ignored :: bool

definition is_resolved :: "resolved_line \<Rightarrow> bool" where
  "is_resolved l = (rv_is_ignored l \<or> rv_menu_item_id l \<noteq> None)"

record resolved_order =
  ro_external_order_id :: string
  ro_placed_at :: instant
  ro_status :: "string option"
  ro_gross_cents :: "int option"
  ro_lines :: "resolved_line list"
  ro_is_duplicate :: bool
  ro_is_cancelled :: bool
  ro_in_closed_period :: bool

definition unresolved_items :: "resolved_order \<Rightarrow> string list" where
  "unresolved_items x = map rv_external_item_text (filter (\<lambda>l. \<not> is_resolved l) (ro_lines x))"

definition unresolved_modifiers :: "resolved_order \<Rightarrow> string list" where
  "unresolved_modifiers x = concat (map rv_unresolved_modifiers (ro_lines x))"

definition blocks_import :: "resolved_order \<Rightarrow> bool" where
  "blocks_import x = (unresolved_items x \<noteq> [] \<or> unresolved_modifiers x \<noteq> [])"

record resolution_summary =
  rz_orders :: "resolved_order list"
  rz_closed_period_cutoff :: "instant option"

definition importable :: "resolution_summary \<Rightarrow> resolved_order list" where
  "importable z = filter (\<lambda>x. \<not> ro_is_duplicate x \<and> \<not> ro_is_cancelled x \<and> \<not> blocks_import x) (rz_orders z)"

definition duplicates :: "resolution_summary \<Rightarrow> resolved_order list" where
  "duplicates z = filter ro_is_duplicate (rz_orders z)"

definition cancelled :: "resolution_summary \<Rightarrow> resolved_order list" where
  "cancelled z = filter (\<lambda>x. ro_is_cancelled x \<and> \<not> ro_is_duplicate x) (rz_orders z)"

definition blocked :: "resolution_summary \<Rightarrow> resolved_order list" where
  "blocked z = filter (\<lambda>x. \<not> ro_is_duplicate x \<and> blocks_import x) (rz_orders z)"

definition closed_period_orders :: "resolution_summary \<Rightarrow> resolved_order list" where
  "closed_period_orders z = filter ro_in_closed_period (importable z)"

definition first_seen :: "string list \<Rightarrow> string list" where
  "first_seen names = fold (\<lambda>name seen. if name \<in> set seen then seen else seen @ [name]) names []"

definition unresolved_item_names :: "resolution_summary \<Rightarrow> string list" where
  "unresolved_item_names z = first_seen (concat (map unresolved_items (rz_orders z)))"

definition unresolved_modifier_names :: "resolution_summary \<Rightarrow> string list" where
  "unresolved_modifier_names z = first_seen (concat (map unresolved_modifiers (rz_orders z)))"

text \<open>A dictionary built by a comprehension: the last entry of a key stays.\<close>

definition dict_of :: "('a \<Rightarrow> 'k) \<Rightarrow> 'a list \<Rightarrow> 'k \<Rightarrow> 'a option" where
  "dict_of key xs = map_of (rev (map (\<lambda>x. (key x, x)) xs))"

definition load_mappings :: "product_mapping list \<Rightarrow> uuid \<Rightarrow> string \<Rightarrow> mapping_kind \<times> string \<Rightarrow> product_mapping option" where
  "load_mappings rows business platform =
     dict_of (\<lambda>m. (pm_kind m, pm_external_key m)) (filter (\<lambda>m. pm_business_id m = business \<and> pm_platform m = platform) rows)"

text \<open>\<open>ORDER BY cutoff_at DESC LIMIT 1\<close> over the approved counts.\<close>

definition last_approved_cutoff :: "stocktake_session list \<Rightarrow> uuid \<Rightarrow> instant option" where
  "last_approved_cutoff sessions business =
     (case rev (sort_key ss_cutoff_at (filter (\<lambda>s. ss_business_id s = business \<and> ss_status s = SK_APPROVED) sessions)) of
        [] \<Rightarrow> None | s # _ \<Rightarrow> Some (ss_cutoff_at s))"

definition named_options :: "menu_item \<Rightarrow> (string \<times> string) list" where
  "named_options m = map (\<lambda>oo. (mo_id oo, mo_name oo))
     (filter (\<lambda>oo. mo_id oo \<noteq> [] \<and> mo_name oo \<noteq> []) (concat (map (\<lambda>g. dict_get [] (og_options g)) (option_groups_of m))))"

definition match_option :: "menu_item \<Rightarrow> string \<Rightarrow> (string \<times> string) option" where
  "match_option m text =
     find (\<lambda>(_, name). normalise_key name \<noteq> [] \<and> contains (normalise_key name) (normalise_key text))
       (sort_key (\<lambda>(_, name). - int (length name)) (named_options m))"

text \<open>The name of an option by its id: the last option that has it.\<close>

definition option_name_of_id :: "menu_item \<Rightarrow> string \<Rightarrow> string option" where
  "option_name_of_id m i = map_option mo_name
     (dict_of mo_id (concat (map (\<lambda>g. dict_get [] (og_options g)) (option_groups_of m))) i)"

record menu_index =
  mx_by_name :: "string \<Rightarrow> menu_item option"
  mx_by_id :: "uuid \<Rightarrow> menu_item option"
  mx_add_on_by_name :: "string \<Rightarrow> menu_add_on option"
  mx_add_on_by_id :: "uuid \<Rightarrow> menu_add_on option"
  mx_mappings :: "mapping_kind \<times> string \<Rightarrow> product_mapping option"

definition menu_index_of :: "market_db \<Rightarrow> uuid \<Rightarrow> string \<Rightarrow> menu_index" where
  "menu_index_of db business platform =
     (let cat = sh_catalog (md_shop db);
          items = filter (\<lambda>m. mi_business_id m = business \<and> \<not> mi_is_deleted m) (cat_menu_items cat);
          add_ons = filter (\<lambda>a. ma_business_id a = business \<and> \<not> ma_is_deleted a) (cat_add_ons cat)
      in \<lparr>mx_by_name = dict_of (\<lambda>m. normalise_key (mi_name m)) items, mx_by_id = dict_of mi_id items,
          mx_add_on_by_name = dict_of (\<lambda>a. normalise_key (ma_name a)) add_ons, mx_add_on_by_id = dict_of ma_id add_ons,
          mx_mappings = load_mappings (md_mappings db) business platform\<rparr>)"

definition known_target :: "(uuid \<Rightarrow> 'a option) \<Rightarrow> uuid option \<Rightarrow> 'a option" where
  "known_target index i = (case i of None \<Rightarrow> None | Some u \<Rightarrow> index u)"

text \<open>The product of a line: the saved mapping, else the item of the same name.\<close>

definition match_item :: "menu_index \<Rightarrow> external_line \<Rightarrow> resolved_line \<Rightarrow> resolved_line" where
  "match_item mx line l =
     (let key = normalise_key (xl_external_item_text line); mapping = mx_mappings mx (ITEM_MAPPING, key);
          on_item = (\<lambda>m. l\<lparr>rv_menu_item_id := Some (mi_id m), rv_menu_item_name := Some (mi_name m)\<rparr>);
          by_name = (case mx_by_name mx key of None \<Rightarrow> l | Some m \<Rightarrow> on_item m)
      in case mapping of
           None \<Rightarrow> by_name
         | Some p \<Rightarrow>
             if pm_is_ignored p then l\<lparr>rv_is_ignored := True\<rparr>
             else case known_target (mx_by_id mx) (pm_menu_item_id p) of
                 None \<Rightarrow> by_name
               | Some m \<Rightarrow>
                   (if truthy (pm_option_id p)
                    then (on_item m)\<lparr>rv_option_id := pm_option_id p,
                       rv_option_name := (case match_option m (the (pm_option_id p)) of
                          Some (_, name) \<Rightarrow> Some name | None \<Rightarrow> option_name_of_id m (the (pm_option_id p)))\<rparr>
                    else on_item m))"

text \<open>The size, which may stand in a column of its own.\<close>

definition match_size :: "menu_index \<Rightarrow> external_line \<Rightarrow> resolved_line \<Rightarrow> resolved_line" where
  "match_size mx line l =
     (case known_target (mx_by_id mx) (rv_menu_item_id l) of
        None \<Rightarrow> l
      | Some m \<Rightarrow>
          if truthy (rv_option_id l) then l
          else case match_option m (if truthy (xl_size_text line) then the (xl_size_text line) else xl_external_item_text line) of
              None \<Rightarrow> l
            | Some (i, name) \<Rightarrow> l\<lparr>rv_option_id := Some i, rv_option_name := Some name\<rparr>)"

text \<open>The pattern \<open>^(no|without|remove|hold(?: the)?)\s+\<close> on a key, whose words stand one space apart.\<close>

definition without_negation :: "string \<Rightarrow> string" where
  "without_negation key =
     (case find (\<lambda>p. starts_with p key) [''no '', ''without '', ''remove '', ''hold the '', ''hold ''] of
        None \<Rightarrow> key | Some p \<Rightarrow> strip (drop (length p) key))"

definition removable_named :: "menu_item \<Rightarrow> string \<Rightarrow> removable_ingredient option" where
  "removable_named m name =
     find (\<lambda>r. normalise_key (ri_name r) = name)
       (case mi_options_json m of None \<Rightarrow> [] | Some j \<Rightarrow> dict_get [] (oj_removable_ingredients j))"

definition resolve_modifier :: "menu_index \<Rightarrow> string \<Rightarrow> resolved_line \<Rightarrow> resolved_line" where
  "resolve_modifier mx modifier l =
     (let key = normalise_key modifier; mapping = mx_mappings mx (MODIFIER_MAPPING, key);
          stripped = without_negation key;
          unmapped = (case mx_add_on_by_name mx key of
              Some a \<Rightarrow> l\<lparr>rv_add_on_ids := rv_add_on_ids l @ [ma_id a]\<rparr>
            | None \<Rightarrow>
                (case (if stripped = key then None else known_target (mx_by_id mx) (rv_menu_item_id l)) of
                   None \<Rightarrow> l\<lparr>rv_unresolved_modifiers := rv_unresolved_modifiers l @ [modifier]\<rparr>
                 | Some m \<Rightarrow>
                     (case removable_named m stripped of
                        None \<Rightarrow> l\<lparr>rv_unresolved_modifiers := rv_unresolved_modifiers l @ [modifier]\<rparr>
                      | Some r \<Rightarrow> if ri_id r = [] then l\<lparr>rv_unresolved_modifiers := rv_unresolved_modifiers l @ [modifier]\<rparr>
                                  else l\<lparr>rv_removed_ref_ids := rv_removed_ref_ids l @ [ri_id r]\<rparr>)))
      in case mapping of
           None \<Rightarrow> unmapped
         | Some p \<Rightarrow>
             if pm_is_ignored p then l
             else if known_target (mx_add_on_by_id mx) (pm_menu_add_on_id p) \<noteq> None
               then l\<lparr>rv_add_on_ids := rv_add_on_ids l @ [the (pm_menu_add_on_id p)]\<rparr>
             else if truthy (pm_removable_ref_id p)
               then l\<lparr>rv_removed_ref_ids := rv_removed_ref_ids l @ [the (pm_removable_ref_id p)]\<rparr>
             else if truthy (pm_option_id p) then l\<lparr>rv_option_id := pm_option_id p\<rparr>
             else unmapped)"

definition resolve_line :: "menu_index \<Rightarrow> external_line \<Rightarrow> resolved_line" where
  "resolve_line mx line =
     fold (resolve_modifier mx) (xl_modifiers line)
       (match_size mx line (match_item mx line
          \<lparr>rv_external_item_text = xl_external_item_text line, rv_quantity = xl_quantity line, rv_menu_item_id = None,
           rv_menu_item_name = None, rv_option_id = None, rv_option_name = None, rv_add_on_ids = [], rv_removed_ref_ids = [],
           rv_unresolved_modifiers = [], rv_gross_cents = xl_gross_cents line, rv_is_ignored = False\<rparr>))"

definition resolve_one :: "market_db \<Rightarrow> uuid \<Rightarrow> string \<Rightarrow> order_source \<Rightarrow> external_order \<Rightarrow> resolved_order" where
  "resolve_one db business platform source x =
     (let cutoff = last_approved_cutoff (md_sessions db) business in
      \<lparr>ro_external_order_id = xo_external_order_id x, ro_placed_at = xo_placed_at x, ro_status = xo_status x,
       ro_gross_cents = xo_gross_cents x, ro_lines = map (resolve_line (menu_index_of db business platform)) (xo_lines x),
       ro_is_duplicate = (\<exists>o1 \<in> set (sh_orders (md_shop db)). or_business_id o1 = business \<and> or_source o1 = source \<and>
                            or_external_order_id o1 = Some (xo_external_order_id x)),
       ro_is_cancelled = looks_cancelled (xo_status x),
       ro_in_closed_period = (case cutoff of None \<Rightarrow> False | Some c \<Rightarrow> xo_placed_at x \<le> c)\<rparr>)"

definition resolve_orders :: "market_db \<Rightarrow> uuid \<Rightarrow> string \<Rightarrow> order_source \<Rightarrow> external_order list \<Rightarrow> resolution_summary" where
  "resolve_orders db business platform source orders =
     \<lparr>rz_orders = map (resolve_one db business platform source) orders,
      rz_closed_period_cutoff = last_approved_cutoff (md_sessions db) business\<rparr>"

subsection \<open>Importing\<close>

record import_outcome =
  io_orders_created :: nat
  io_items_created :: nat
  io_movements_created :: nat
  io_duplicates_skipped :: nat
  io_gross_cents :: int
  io_backdated :: nat
  io_missing_recipe_items :: "string list"

definition kept_line :: "resolved_line \<Rightarrow> bool" where
  "kept_line l = (\<not> rv_is_ignored l \<and> rv_menu_item_id l \<noteq> None)"

definition line_options :: "resolved_line \<Rightarrow> selected_option list" where
  "line_options l = (if truthy (rv_option_id l)
     then [\<lparr>so_group_id = ''size'', so_group_name = ''Size'', so_option_id = the (rv_option_id l),
            so_option_name = (if truthy (rv_option_name l) then the (rv_option_name l) else the (rv_option_id l)),
            so_price_delta_cents = 0\<rparr>] else [])"

definition line_add_ons :: "resolved_line \<Rightarrow> selected_add_on list" where
  "line_add_ons l = map (\<lambda>a. \<lparr>sa_add_on_id = uuid_str a, sa_name = [], sa_price_cents = 0, sa_quantity = 1\<rparr>) (rv_add_on_ids l)"

definition line_removals :: "resolved_line \<Rightarrow> removable_ingredient list" where
  "line_removals l = map (\<lambda>r. \<lparr>ri_id = r, ri_name = []\<rparr>) (rv_removed_ref_ids l)"

text \<open>\<open>int(a / b)\<close>.\<close>

definition truncated_quotient :: "int \<Rightarrow> int \<Rightarrow> int" where
  "truncated_quotient a b = sgn a * sgn b * (\<bar>a\<bar> div \<bar>b\<bar>)"

definition imported_item :: "uuid \<Rightarrow> uuid \<Rightarrow> string \<Rightarrow> resolved_line \<Rightarrow> order_item" where
  "imported_item oid business platform l =
     \<lparr>oi_order_id = oid, oi_business_id = business, oi_menu_item_id = rv_menu_item_id l,
      oi_name_snapshot = (if truthy (rv_menu_item_name l) then the (rv_menu_item_name l) else rv_external_item_text l),
      oi_base_price_cents = 0, oi_option_adjustment_cents = 0, oi_add_on_total_cents = 0,
      oi_unit_price_cents = (if rv_quantity l = 0 then 0 else truncated_quotient (dict_get 0 (rv_gross_cents l)) (rv_quantity l)),
      oi_quantity = rv_quantity l, oi_line_total_cents = dict_get 0 (rv_gross_cents l), oi_options_snapshot = None,
      oi_selected_options_snapshot = or_none (map TypedOption (line_options l)),
      oi_add_ons_snapshot = or_none (map TypedAddOn (line_add_ons l)),
      oi_removed_ingredients_snapshot = or_none (line_removals l),
      oi_special_instructions = Some (platform @ '': '' @ rv_external_item_text l), oi_is_ad_hoc_price = False\<rparr>"

definition import_spec :: "resolved_line \<Rightarrow> line_item_spec" where
  "import_spec l =
     \<lparr>li_menu_item_id = the (rv_menu_item_id l), li_quantity = rv_quantity l,
      li_selected_option_ids = selected_option_ids (map option_entry (line_options l)),
      li_add_on_selections = add_on_selections (map add_on_entry (line_add_ons l)),
      li_removed_ref_ids = removed_ref_ids (map removed_entry (line_removals l))\<rparr>"

text \<open>Stock is dated when the sale happened, and never into a period that is signed off.\<close>

definition in_locked_period :: "instant option \<Rightarrow> resolved_order \<Rightarrow> bool" where
  "in_locked_period cutoff x = (case cutoff of None \<Rightarrow> False | Some c \<Rightarrow> ro_placed_at x \<le> c)"

definition movement_at :: "instant option \<Rightarrow> resolved_order \<Rightarrow> instant" where
  "movement_at cutoff x = (if in_locked_period cutoff x then the cutoff + 1000000 else ro_placed_at x)"

definition import_gross :: "resolved_order \<Rightarrow> int" where "import_gross x = dict_get 0 (ro_gross_cents x)"

definition imported_order ::
  "business \<Rightarrow> string \<Rightarrow> order_source \<Rightarrow> uuid \<Rightarrow> uuid \<Rightarrow> uuid \<Rightarrow> instant \<Rightarrow> resolved_order \<Rightarrow> int \<Rightarrow> order" where
  "imported_order b platform source batch_id user oid now x vat =
     (new_order oid (bu_id b) (take 32 (order_id_prefix platform @ ''-'' @ ro_external_order_id x)))
       \<lparr>or_status := COMPLETED, or_payment_status := PS_PAID, or_payment_required := False,
        or_payment_method := Some ''EXTERNAL_PLATFORM'', or_paid_at := Some (ro_placed_at x), or_source := source,
        or_order_mode := DELIVERY, or_subtotal_cents := import_gross x, or_tax_cents := vat, or_total_cents := import_gross x,
        or_currency := (if bu_currency b = [] then ''ZAR'' else bu_currency b),
        or_external_order_id := Some (ro_external_order_id x), or_external_batch_id := Some batch_id,
        or_external_placed_at := Some (ro_placed_at x), or_external_imported_at := Some now,
        or_external_status := ro_status x, or_created_by_user_id := Some user,
        or_confirmed_at := Some (ro_placed_at x), or_completed_at := Some (ro_placed_at x)\<rparr>"

definition import_vat :: "business \<Rightarrow> resolved_order \<Rightarrow> int result" where
  "import_vat b x = (if bu_vat_registered b then calculate_vat_cents (import_gross x) (bu_vat_rate_basis_points b) True else Inr 0)"

definition missing_names :: "resolved_order \<Rightarrow> uuid list \<Rightarrow> string list" where
  "missing_names x missing = map (\<lambda>i. case find (\<lambda>l. rv_menu_item_id l = Some i) (ro_lines x) of
     None \<Rightarrow> uuid_str i | Some l \<Rightarrow> dict_get [] (rv_menu_item_name l)) missing"

definition note_missing :: "string list \<Rightarrow> string list \<Rightarrow> string list" where
  "note_missing names seen = fold (\<lambda>name seen. if name \<noteq> [] \<and> name \<notin> set seen then seen @ [name] else seen) names seen"

text \<open>One order: its row, its items, its event and its stock.\<close>

definition take_import_stock ::
  "shop_db \<Rightarrow> business \<Rightarrow> uuid \<Rightarrow> uuid \<Rightarrow> resolved_line list \<Rightarrow> instant \<Rightarrow> instant \<Rightarrow> (shop_db \<times> consumption_result option) result" where
  "take_import_stock db b user oid kept at now =
     (if kept = [] \<or> \<not> bu_inventory_enabled b then Inr (db, None)
      else and_then (post_sale_consumption (sh_stock db) (bu_id b) oid (map import_spec kept) (Some user) (Some at) SALE_CONSUMPTION now)
             (\<lambda>(stock, consumption). Inr (db\<lparr>sh_stock := stock\<rparr>, Some consumption)))"

definition import_one ::
  "business \<Rightarrow> string \<Rightarrow> order_source \<Rightarrow> uuid \<Rightarrow> uuid \<Rightarrow> (nat \<Rightarrow> uuid) \<Rightarrow> instant option \<Rightarrow> instant \<Rightarrow> resolved_order \<Rightarrow>
   shop_db \<times> import_outcome \<Rightarrow> (shop_db \<times> import_outcome) result" where
  "import_one b platform source batch_id user new_id cutoff now x s = (case s of (db, out) \<Rightarrow>
     let oid = new_id (io_orders_created out); kept = filter kept_line (ro_lines x)
     in and_then (import_vat b x) (\<lambda>vat.
        let db = add_order (imported_order b platform source batch_id user oid now x vat) db;
            db = db\<lparr>sh_items := sh_items db @ map (imported_item oid (bu_id b) platform) kept\<rparr>;
            db = add_event \<lparr>oe_order_id = oid, oe_business_id = bu_id b, oe_old_status = None, oe_new_status = COMPLETED,
                            oe_changed_by_user_id = Some user\<rparr> db
        in and_then (take_import_stock db b user oid kept (movement_at cutoff x) now) (\<lambda>(db, consumption).
           Inr (db, out\<lparr>io_orders_created := io_orders_created out + 1, io_items_created := io_items_created out + length kept,
                   io_movements_created := io_movements_created out + (case consumption of None \<Rightarrow> 0 | Some r \<Rightarrow> length (cr_lines r)),
                   io_gross_cents := io_gross_cents out + import_gross x,
                   io_backdated := io_backdated out + (if in_locked_period cutoff x then 1 else 0),
                   io_missing_recipe_items := (case consumption of None \<Rightarrow> io_missing_recipe_items out
                      | Some r \<Rightarrow> note_missing (missing_names x (cr_menu_items_without_recipe r)) (io_missing_recipe_items out))\<rparr>))))"

fun import_all ::
  "(resolved_order \<Rightarrow> shop_db \<times> import_outcome \<Rightarrow> (shop_db \<times> import_outcome) result) \<Rightarrow> resolved_order list \<Rightarrow>
   shop_db \<times> import_outcome \<Rightarrow> (shop_db \<times> import_outcome) result" where
  "import_all step [] s = Inr s"
| "import_all step (x # xs) s = and_then (step x s) (import_all step xs)"

definition candidates :: "resolution_summary \<Rightarrow> bool \<Rightarrow> bool \<Rightarrow> resolved_order list" where
  "candidates z include_cancelled acknowledge =
     filter (\<lambda>x. \<not> ro_in_closed_period x \<or> acknowledge)
       (importable z @ (if include_cancelled then filter (\<lambda>x. \<not> blocks_import x) (cancelled z) else []))"

definition import_resolved_orders ::
  "shop_db \<Rightarrow> business \<Rightarrow> string \<Rightarrow> order_source \<Rightarrow> uuid \<Rightarrow> resolution_summary \<Rightarrow> uuid \<Rightarrow> bool \<Rightarrow> bool \<Rightarrow> (nat \<Rightarrow> uuid) \<Rightarrow> instant \<Rightarrow>
   (shop_db \<times> import_outcome) result" where
  "import_resolved_orders db b platform source batch_id z user include_cancelled acknowledge new_id now =
     import_all (import_one b platform source batch_id user new_id (rz_closed_period_cutoff z) now)
       (candidates z include_cancelled acknowledge)
       (db, \<lparr>io_orders_created = 0, io_items_created = 0, io_movements_created = 0, io_duplicates_skipped = length (duplicates z),
             io_gross_cents = 0, io_backdated = 0, io_missing_recipe_items = []\<rparr>)"

subsection \<open>The handlers\<close>

definition require_reconciliation :: "market_db \<Rightarrow> uuid \<Rightarrow> business result" where
  "require_reconciliation db business =
     and_then (business_of (md_shop db) business) (\<lambda>b.
     and_then (raise_if (\<not> bu_delivery_reconciliation_enabled b) (AppError ''DELIVERY_RECONCILIATION_NOT_ENABLED'' 409)) (\<lambda>_. Inr b))"

text \<open>What both the preview and the import read first.\<close>

definition read_report ::
  "market_db \<Rightarrow> (string option \<Rightarrow> string option \<Rightarrow> instant option) \<Rightarrow> uuid \<Rightarrow> string \<Rightarrow> report_row list \<Rightarrow> (string \<times> string) list \<Rightarrow>
   (business \<times> order_source \<times> adapter_result) result" where
  "read_report db parse business platform rows override =
     and_then (or_raise (external_platform_of platform) (AppError ''UNKNOWN_PLATFORM'' 422)) (\<lambda>p.
     and_then (require_reconciliation db business) (\<lambda>b. Inr (b, platform_to_order_source p, adapt_rows parse rows override)))"

definition can_import :: "resolution_summary \<Rightarrow> bool" where
  "can_import z = (blocked z = [] \<and> importable z \<noteq> [])"

text \<open>The preview writes nothing: what it shows, and whether the file can be imported.\<close>

definition preview_external_orders ::
  "market_db \<Rightarrow> (string option \<Rightarrow> string option \<Rightarrow> instant option) \<Rightarrow> uuid \<Rightarrow> string \<Rightarrow> report_row list \<Rightarrow> (string \<times> string) list \<Rightarrow>
   (adapter_result \<times> resolution_summary option \<times> bool) result" where
  "preview_external_orders db parse business platform rows override =
     and_then (read_report db parse business platform rows override) (\<lambda>(b, source, adapted).
       if ar_missing_required adapted \<noteq> [] then Inr (adapted, None, False)
       else let z = resolve_orders db business platform source (ar_orders adapted) in Inr (adapted, Some z, can_import z))"

definition new_batch ::
  "uuid \<Rightarrow> uuid \<Rightarrow> uuid \<Rightarrow> string \<Rightarrow> string \<Rightarrow> nat \<Rightarrow> adapter_result \<Rightarrow> resolution_summary \<Rightarrow> instant \<Rightarrow> import_batch" where
  "new_batch batch_id business user platform filename row_count adapted z now =
     (let placed = map ro_placed_at (rz_orders z) in
      \<lparr>ib_id = batch_id, ib_business_id = business, ib_platform = platform, ib_status = IB_PREVIEW,
       ib_filename = (if take 255 filename = [] then None else Some (take 255 filename)), ib_uploaded_by_user_id = Some user, ib_uploaded_at = now,
       ib_period_start_at = (if placed = [] then None else Some (Min (set placed))),
       ib_period_end_at = (if placed = [] then None else Some (Max (set placed))), ib_total_rows = row_count,
       ib_accepted_rows = sum_list (map (\<lambda>x. length (ro_lines x)) (importable z)), ib_duplicate_orders = length (duplicates z),
       ib_rejected_rows = length (ar_issues adapted), ib_orders_imported = 0, ib_movements_created = 0, ib_gross_sales_cents = 0\<rparr>)"

definition commit_external_orders ::
  "market_db \<Rightarrow> (string option \<Rightarrow> string option \<Rightarrow> instant option) \<Rightarrow> uuid \<Rightarrow> uuid \<Rightarrow> string \<Rightarrow> string \<Rightarrow> report_row list \<Rightarrow>
   (string \<times> string) list \<Rightarrow> bool \<Rightarrow> bool \<Rightarrow> uuid \<Rightarrow> (nat \<Rightarrow> uuid) \<Rightarrow> instant \<Rightarrow> (market_db \<times> import_outcome) result" where
  "commit_external_orders db parse business user platform filename rows override include_cancelled acknowledge batch_id new_id now =
     and_then (read_report db parse business platform rows override) (\<lambda>(b, source, adapted).
     and_then (raise_if (ar_missing_required adapted \<noteq> []) (AppError ''MISSING_COLUMNS'' 422)) (\<lambda>_.
     let z = resolve_orders db business platform source (ar_orders adapted)
     in and_then (raise_if (blocked z \<noteq> []) (AppError ''UNRESOLVED_ITEMS'' 422)) (\<lambda>_.
        and_then (raise_if (closed_period_orders z \<noteq> [] \<and> \<not> acknowledge) (AppError ''CLOSED_STOCKTAKE_PERIOD'' 409)) (\<lambda>_.
        and_then (import_resolved_orders (md_shop db) b platform source batch_id z user include_cancelled acknowledge new_id now) (\<lambda>(shop, out).
        let batch = (new_batch batch_id business user platform filename (length rows) adapted z now)\<lparr>ib_status := IB_COMPLETED,
                       ib_orders_imported := io_orders_created out, ib_movements_created := io_movements_created out,
                       ib_gross_sales_cents := io_gross_cents out\<rparr>
        in and_then (commit_market (db\<lparr>md_shop := add_audit business (Some user) ''external_orders.imported'' batch_id shop,
                                       md_batches := md_batches db @ [batch]\<rparr>)) (\<lambda>db. Inr (db, out)))))))"

record mapping_request =
  mq_platform :: string
  mq_kind :: mapping_kind
  mq_external_text :: string
  mq_menu_item_id :: "uuid option"
  mq_option_id :: "string option"
  mq_menu_add_on_id :: "uuid option"
  mq_removable_ref_id :: "string option"
  mq_is_ignored :: bool

definition mapping_target_missing :: "mapping_request \<Rightarrow> bool" where
  "mapping_target_missing q = (\<not> mq_is_ignored q \<and>
     ((mq_kind q = ITEM_MAPPING \<and> mq_menu_item_id q = None) \<or>
      (mq_kind q = MODIFIER_MAPPING \<and> mq_menu_add_on_id q = None \<and> \<not> truthy (mq_removable_ref_id q) \<and> \<not> truthy (mq_option_id q))))"

definition own_targets :: "market_db \<Rightarrow> uuid \<Rightarrow> uuid option \<Rightarrow> uuid option \<Rightarrow> unit result" where
  "own_targets db business item add_on =
     and_then (raise_if (item \<noteq> None \<and> \<not> (\<exists>m \<in> set (cat_menu_items (sh_catalog (md_shop db))). Some (mi_id m) = item \<and> mi_business_id m = business))
                (not_found_error ''Menu item'')) (\<lambda>_.
       raise_if (add_on \<noteq> None \<and> \<not> (\<exists>a \<in> set (cat_add_ons (sh_catalog (md_shop db))). Some (ma_id a) = add_on \<and> ma_business_id a = business))
                (not_found_error ''Add-on''))"

definition upsert_mapping :: "market_db \<Rightarrow> uuid \<Rightarrow> uuid \<Rightarrow> mapping_request \<Rightarrow> uuid \<Rightarrow> (market_db \<times> uuid) result" where
  "upsert_mapping db business user q new_id =
     and_then (require_reconciliation db business) (\<lambda>_.
     and_then (raise_if (mapping_target_missing q) (AppError ''MAPPING_TARGET_REQUIRED'' 422)) (\<lambda>_.
     and_then (own_targets db business (mq_menu_item_id q) (mq_menu_add_on_id q)) (\<lambda>_.
     let key = normalise_key (mq_external_text q);
         same = (\<lambda>m. pm_business_id m = business \<and> pm_platform m = mq_platform q \<and> pm_kind m = mq_kind q \<and> pm_external_key m = key);
         fill = (\<lambda>m. m\<lparr>pm_external_text := mq_external_text q, pm_menu_item_id := mq_menu_item_id q, pm_option_id := mq_option_id q,
                        pm_menu_add_on_id := mq_menu_add_on_id q, pm_removable_ref_id := mq_removable_ref_id q,
                        pm_is_ignored := mq_is_ignored q\<rparr>);
         new_row = fill \<lparr>pm_id = new_id, pm_business_id = business, pm_platform = mq_platform q, pm_kind = mq_kind q,
                     pm_external_text = mq_external_text q, pm_external_key = key, pm_menu_item_id = None, pm_option_id = None,
                     pm_menu_add_on_id = None, pm_removable_ref_id = None, pm_is_ignored = False,
                     pm_created_by_user_id = Some user, pm_external_id = None,
                     pm_status = MS_MAPPED, pm_last_seen_at = None\<rparr>
     in and_then (scalar_one_or_none (filter same (md_mappings db))) (\<lambda>found.
        let rows = (case found of None \<Rightarrow> md_mappings db @ [new_row] | Some _ \<Rightarrow> update_where same fill (md_mappings db))
        in and_then (commit_market (db\<lparr>md_mappings := rows\<rparr>)) (\<lambda>db.
           Inr (db, case found of None \<Rightarrow> new_id | Some m \<Rightarrow> pm_id m))))))"

definition delete_mapping :: "market_db \<Rightarrow> uuid \<Rightarrow> uuid \<Rightarrow> market_db result" where
  "delete_mapping db business mid =
     and_then (require_reconciliation db business) (\<lambda>_.
     let this = (\<lambda>m. pm_id m = mid \<and> pm_business_id m = business)
     in and_then (scalar_one_or_none (filter this (md_mappings db))) (\<lambda>row.
        and_then (or_raise row (not_found_error ''Mapping'')) (\<lambda>_.
          Inr (db\<lparr>md_mappings := filter (\<lambda>m. \<not> this m) (md_mappings db)\<rparr>))))"

end
