(* ===== verification/ExternalLaws.thy ===== *)
theory ExternalLaws imports ExternalOrders StocktakeLaws OrderLaws
begin

text \<open>
  What an import of a platform's report guarantees: the orders it writes are the report's, it
  happens once, and a signed-off count stays as it was signed.
\<close>

subsection \<open>What an import adds\<close>

lemma commit_market_ok: "market_ok db \<Longrightarrow> commit_market db = Inr db"
  by (simp add: commit_market_eq)

definition stock_of :: "shop_db \<Rightarrow> stock_movement list" where "stock_of db = sd_movements (sh_stock db)"

text \<open>Every movement of a posting is the tenant's, dated as asked and of the order.\<close>

lemma post_sale_dated:
  assumes "post_sale_consumption db b x specs u (Some at) t now = Inr (db', res)"
  shows "\<exists>ms. sd_movements db' = sd_movements db @ ms \<and>
    (\<forall>m \<in> set ms. sm_business_id m = b \<and> sm_occurred_at m = at \<and> sm_source_id m = Some x)"
proof -
  have row: "sm_business_id m = b \<and> sm_occurred_at m = at \<and> sm_source_id m = Some x"
    if "sale_movement b x u (Some at) t now costs line = Inr m" for costs line m
    using that by (cases line) (auto simp: sale_movement_def build_movement_def and_then_eq_Inr)
  obtain ir ar where "load_recipe_specs (sd_recipes db) b (map li_menu_item_id specs)
      (concat (map (\<lambda>spec. map as_add_on_id (li_add_on_selections spec)) specs)) = (ir, ar)" by fastforce
  with assms obtain costs ms where "db' = db \<or> (map_result (sale_movement b x u (Some at) t now costs) (cr_lines res) = Inr ms \<and> db' = add_movements ms db)"
    by (auto simp: post_sale_consumption_def Let_def and_then_eq_Inr split: if_splits)
  then show ?thesis
  proof
    assume m: "map_result (sale_movement b x u (Some at) t now costs) (cr_lines res) = Inr ms \<and> db' = add_movements ms db"
    have "sm_business_id m = b \<and> sm_occurred_at m = at \<and> sm_source_id m = Some x" if "m \<in> set ms" for m
      using map_result_set [of _ "cr_lines res" ms] m that row by blast
    with m show ?thesis by auto
  qed auto
qed

lemma take_import_stock_shape:
  assumes "take_import_stock db b user oid kept at now = Inr (db', r)"
  shows "\<exists>ms. stock_of db' = stock_of db @ ms \<and> (\<forall>m \<in> set ms. sm_business_id m = bu_id b \<and> sm_occurred_at m = at \<and> sm_source_id m = Some oid)"
    and "sh_orders db' = sh_orders db" "sh_items db' = sh_items db" "sh_events db' = sh_events db" "sh_catalog db' = sh_catalog db"
    "sh_businesses db' = sh_businesses db"
proof -
  show "\<exists>ms. stock_of db' = stock_of db @ ms \<and> (\<forall>m \<in> set ms. sm_business_id m = bu_id b \<and> sm_occurred_at m = at \<and> sm_source_id m = Some oid)"
  proof (cases "kept = [] \<or> \<not> bu_inventory_enabled b")
    case True
    then show ?thesis using assms by (auto simp: take_import_stock_def)
  next
    case False
    with assms obtain stock res where
      p: "post_sale_consumption (sh_stock db) (bu_id b) oid (map import_spec kept) (Some user) (Some at) SALE_CONSUMPTION now = Inr (stock, res)"
      and db': "db' = db\<lparr>sh_stock := stock\<rparr>"
      by (auto simp: take_import_stock_def and_then_eq_Inr)
    from post_sale_dated [OF p] db' show ?thesis by (simp add: stock_of_def)
  qed
qed (use assms in \<open>auto simp: take_import_stock_def and_then_eq_Inr split: if_splits\<close>)

text \<open>What the rows of one order are, and what the rows of a whole import are.\<close>

definition order_written ::
  "business \<Rightarrow> string \<Rightarrow> order_source \<Rightarrow> uuid \<Rightarrow> uuid \<Rightarrow> instant \<Rightarrow> resolved_order \<Rightarrow> order \<Rightarrow> bool" where
  "order_written b platform source batch_id user now x o1 =
     (\<exists>oid vat. import_vat b x = Inr vat \<and> o1 = imported_order b platform source batch_id user oid now x vat)"

definition written_items :: "uuid \<Rightarrow> string \<Rightarrow> resolved_order list \<Rightarrow> order list \<Rightarrow> order_item list" where
  "written_items business platform xs os =
     concat (map2 (\<lambda>x o1. map (imported_item (or_id o1) business platform) (filter kept_line (ro_lines x))) xs os)"

definition import_adds ::
  "business \<Rightarrow> string \<Rightarrow> order_source \<Rightarrow> uuid \<Rightarrow> uuid \<Rightarrow> instant option \<Rightarrow> instant \<Rightarrow> resolved_order list \<Rightarrow>
   shop_db \<times> import_outcome \<Rightarrow> shop_db \<times> import_outcome \<Rightarrow> bool" where
  "import_adds b platform source batch_id user cutoff now xs s s' =
     (\<exists>os ms. sh_orders (fst s') = sh_orders (fst s) @ os \<and>
        list_all2 (order_written b platform source batch_id user now) xs os \<and>
        sh_items (fst s') = sh_items (fst s) @ written_items (bu_id b) platform xs os \<and>
        stock_of (fst s') = stock_of (fst s) @ ms \<and>
        (\<forall>m \<in> set ms. sm_business_id m = bu_id b \<and> (\<exists>x \<in> set xs. sm_occurred_at m = movement_at cutoff x)) \<and>
        sh_catalog (fst s') = sh_catalog (fst s) \<and> sh_businesses (fst s') = sh_businesses (fst s) \<and>
        io_orders_created (snd s') = io_orders_created (snd s) + length xs \<and>
        io_gross_cents (snd s') = io_gross_cents (snd s) + sum_list (map import_gross xs) \<and>
        io_items_created (snd s') = io_items_created (snd s) + length (written_items (bu_id b) platform xs os) \<and>
        (xs = [] \<longrightarrow> s' = s))"

lemma imported_order_simps [simp]:
  "or_id (imported_order b platform source batch_id user oid now x vat) = oid"
  "or_business_id (imported_order b platform source batch_id user oid now x vat) = bu_id b"
  "or_source (imported_order b platform source batch_id user oid now x vat) = source"
  "or_external_order_id (imported_order b platform source batch_id user oid now x vat) = Some (ro_external_order_id x)"
  "or_external_placed_at (imported_order b platform source batch_id user oid now x vat) = Some (ro_placed_at x)"
  "or_subtotal_cents (imported_order b platform source batch_id user oid now x vat) = import_gross x"
  "or_total_cents (imported_order b platform source batch_id user oid now x vat) = import_gross x"
  "or_tax_cents (imported_order b platform source batch_id user oid now x vat) = vat"
  "or_status (imported_order b platform source batch_id user oid now x vat) = COMPLETED"
  "or_payment_status (imported_order b platform source batch_id user oid now x vat) = PS_PAID"
  "or_till_session_id (imported_order b platform source batch_id user oid now x vat) = None"
  by (simp_all add: imported_order_def new_order_def)

lemma import_one_adds:
  assumes "import_one b platform source batch_id user new_id cutoff now x s = Inr s'"
  shows "import_adds b platform source batch_id user cutoff now [x] s s'"
proof -
  obtain db out where s: "s = (db, out)" by (cases s)
  define oid where "oid = new_id (io_orders_created out)"
  define kept where "kept = filter kept_line (ro_lines x)"
  from assms s obtain vat db2 r where vat: "import_vat b x = Inr vat"
    and t: "take_import_stock (add_event \<lparr>oe_order_id = oid, oe_business_id = bu_id b, oe_old_status = None,
        oe_new_status = COMPLETED, oe_changed_by_user_id = Some user\<rparr>
        ((add_order (imported_order b platform source batch_id user oid now x vat) db)
          \<lparr>sh_items := sh_items (add_order (imported_order b platform source batch_id user oid now x vat) db) @ map (imported_item oid (bu_id b) platform) kept\<rparr>))
        b user oid kept (movement_at cutoff x) now = Inr (db2, r)"
    and s': "fst s' = db2" "io_orders_created (snd s') = io_orders_created out + 1" "io_gross_cents (snd s') = io_gross_cents out + import_gross x"
      "io_items_created (snd s') = io_items_created out + length kept"
    by (auto simp: import_one_def Let_def and_then_eq_Inr oid_def kept_def)
  note sh = take_import_stock_shape [OF t]
  let ?o = "imported_order b platform source batch_id user oid now x vat"
  have "order_written b platform source batch_id user now x ?o" using vat by (auto simp: order_written_def)
  then show ?thesis using sh s' s
    by (auto simp: import_adds_def add_order_def add_event_def written_items_def stock_of_def kept_def intro!: exI [of _ "[?o]"])
qed

lemma import_adds_trans:
  assumes "import_adds b platform source batch_id user cutoff now [x] s s1"
    and "import_adds b platform source batch_id user cutoff now xs s1 s'"
  shows "import_adds b platform source batch_id user cutoff now (x # xs) s s'"
proof -
  from assms(1) obtain os ms where 1: "sh_orders (fst s1) = sh_orders (fst s) @ os"
    "list_all2 (order_written b platform source batch_id user now) [x] os"
    "sh_items (fst s1) = sh_items (fst s) @ written_items (bu_id b) platform [x] os" "stock_of (fst s1) = stock_of (fst s) @ ms"
    "\<forall>m \<in> set ms. sm_business_id m = bu_id b \<and> sm_occurred_at m = movement_at cutoff x"
    "sh_catalog (fst s1) = sh_catalog (fst s)" "sh_businesses (fst s1) = sh_businesses (fst s)"
    "io_orders_created (snd s1) = io_orders_created (snd s) + 1" "io_gross_cents (snd s1) = io_gross_cents (snd s) + import_gross x"
    "io_items_created (snd s1) = io_items_created (snd s) + length (written_items (bu_id b) platform [x] os)"
    by (auto simp: import_adds_def)
  from assms(2) obtain os' ms' where 2: "sh_orders (fst s') = sh_orders (fst s1) @ os'"
    "list_all2 (order_written b platform source batch_id user now) xs os'"
    "sh_items (fst s') = sh_items (fst s1) @ written_items (bu_id b) platform xs os'" "stock_of (fst s') = stock_of (fst s1) @ ms'"
    "\<forall>m \<in> set ms'. sm_business_id m = bu_id b \<and> (\<exists>x \<in> set xs. sm_occurred_at m = movement_at cutoff x)"
    "sh_catalog (fst s') = sh_catalog (fst s1)" "sh_businesses (fst s') = sh_businesses (fst s1)"
    "io_orders_created (snd s') = io_orders_created (snd s1) + length xs" "io_gross_cents (snd s') = io_gross_cents (snd s1) + sum_list (map import_gross xs)"
    "io_items_created (snd s') = io_items_created (snd s1) + length (written_items (bu_id b) platform xs os')"
    by (auto simp: import_adds_def)
  from 1(2) obtain o1 where o1: "os = [o1]" by (auto simp: list_all2_Cons1)
  show ?thesis unfolding import_adds_def
    by (intro exI [of _ "os @ os'"] exI [of _ "ms @ ms'"]) (use 1 2 o1 in \<open>auto simp: written_items_def\<close>)
qed

lemma import_all_adds:
  "import_all (import_one b platform source batch_id user new_id cutoff now) xs s = Inr s' \<Longrightarrow>
   import_adds b platform source batch_id user cutoff now xs s s'"
proof (induction xs arbitrary: s)
  case Nil
  then show ?case by (auto simp: import_adds_def written_items_def)
next
  case (Cons x xs)
  then obtain s1 where "import_one b platform source batch_id user new_id cutoff now x s = Inr s1"
    "import_all (import_one b platform source batch_id user new_id cutoff now) xs s1 = Inr s'"
    by (auto simp: and_then_eq_Inr)
  then show ?case using import_adds_trans [OF import_one_adds Cons.IH] by blast
qed

subsection \<open>The import handler\<close>

lemma read_report_eq: "read_report db parse business platform rows override = Inr (b, source, adapted) \<longleftrightarrow>
   (\<exists>p. external_platform_of platform = Some p \<and> source = platform_to_order_source p) \<and>
   business_of (md_shop db) business = Inr b \<and> bu_delivery_reconciliation_enabled b \<and> adapted = adapt_rows parse rows override"
  by (auto simp: read_report_def require_reconciliation_def and_then_eq_Inr or_raise_eq_Inr)

lemma commit_external_shape:
  assumes "commit_external_orders db parse business user platform filename rows override ic ack batch_id new_id now = Inr (db', out)"
  obtains b source adapted z shop out0 batch where
    "read_report db parse business platform rows override = Inr (b, source, adapted)" "ar_missing_required adapted = []"
    "z = resolve_orders db business platform source (ar_orders adapted)" "blocked z = []" "ack \<or> closed_period_orders z = []"
    "import_adds b platform source batch_id user (rz_closed_period_cutoff z) now (candidates z ic ack) (md_shop db, out0) (shop, out)"
    "io_orders_created out0 = 0" "io_gross_cents out0 = 0" "io_items_created out0 = 0"
    "db' = db\<lparr>md_shop := add_audit business (Some user) ''external_orders.imported'' batch_id shop, md_batches := md_batches db @ [batch]\<rparr>"
    "market_ok db'"
  using assms unfolding commit_external_orders_def
  by (fastforce simp: Let_def and_then_eq_Inr commit_market_eq import_resolved_orders_def dest: import_all_adds)

subsection \<open>A sample report\<close>

definition sample_report :: "report_row list" where
  "sample_report = [[(''Order ID'', Some ''A-1''), (''Item'', Some ''Large  Pizza''), (''Qty'', Some ''2''),
     (''Options'', Some ''cheese''), (''Date'', Some ''05/10/2026''), (''Total'', Some ''R230.00'')]]"

definition sample_mapping :: product_mapping where
  "sample_mapping = \<lparr>pm_id = 300, pm_business_id = 10, pm_platform = ''UBER_EATS'', pm_kind = ITEM_MAPPING,
     pm_external_text = ''Large Pizza'', pm_external_key = ''large pizza'', pm_menu_item_id = Some 1, pm_option_id = None,
     pm_menu_add_on_id = None, pm_removable_ref_id = None, pm_is_ignored = False, pm_created_by_user_id = Some 1, pm_external_id = None,
     pm_status = MS_MAPPED, pm_last_seen_at = None\<rparr>"

definition sample_market :: market_db where
  "sample_market = \<lparr>md_shop = sample_shop\<lparr>sh_businesses := [sample_business\<lparr>bu_delivery_reconciliation_enabled := True,
       bu_vat_registered := False, bu_inventory_enabled := True\<rparr>], sh_stock := sample_stock_db\<rparr>,
     md_sessions = [sample_session SK_APPROVED], md_mappings = [sample_mapping], md_batches = []\<rparr>"

definition sample_dates :: "string option \<Rightarrow> string option \<Rightarrow> instant option" where "sample_dates _ _ = Some 5"

definition sample_import :: "market_db \<Rightarrow> bool \<Rightarrow> (market_db \<times> import_outcome) result" where
  "sample_import db acknowledge =
     commit_external_orders db sample_dates 10 1 ''UBER_EATS'' ''f.csv'' sample_report [] False acknowledge 500 (\<lambda>n. 600 + of_nat n) 9"

definition sample_resolved_line :: resolved_line where
  "sample_resolved_line = \<lparr>rv_external_item_text = ''Large  Pizza'', rv_quantity = 2, rv_menu_item_id = Some 1,
     rv_menu_item_name = Some ''Pizza'', rv_option_id = Some ''l'', rv_option_name = Some ''Large'', rv_add_on_ids = [5],
     rv_removed_ref_ids = [], rv_unresolved_modifiers = [], rv_gross_cents = Some 23000, rv_is_ignored = False\<rparr>"

definition sample_resolved_order :: resolved_order where
  "sample_resolved_order = \<lparr>ro_external_order_id = ''A-1'', ro_placed_at = 5, ro_status = None, ro_gross_cents = Some 23000,
     ro_lines = [sample_resolved_line], ro_is_duplicate = False, ro_is_cancelled = False, ro_in_closed_period = True\<rparr>"

definition sample_resolved :: resolution_summary where
  "sample_resolved = \<lparr>rz_orders = [sample_resolved_order], rz_closed_period_cutoff = Some 100\<rparr>"

lemma sample_adapted: "adapt_rows sample_dates sample_report [] =
  \<lparr>ar_orders = [\<lparr>xo_external_order_id = ''A-1'', xo_placed_at = 5, xo_lines = [\<lparr>xl_external_item_text = ''Large  Pizza'',
     xl_quantity = 2, xl_modifiers = [''cheese''], xl_size_text = None, xl_gross_cents = Some 23000, xl_source_row = 2\<rparr>],
     xo_status = None, xo_gross_cents = Some 23000\<rparr>], ar_issues = [],
   ar_detected_columns = [''Order ID'', ''Item'', ''Qty'', ''Options'', ''Date'', ''Total''],
   ar_resolved_mapping = [(''external_order_id'', ''Order ID''), (''order_date'', ''Date''), (''item'', ''Item''),
     (''quantity'', ''Qty''), (''modifiers'', ''Options''), (''price'', ''Total'')], ar_missing_required = []\<rparr>"
  by code_simp

lemma sample_resolution:
  "resolve_orders sample_market 10 ''UBER_EATS'' UBER_EATS (ar_orders (adapt_rows sample_dates sample_report [])) = sample_resolved"
  unfolding sample_adapted by code_simp

lemma line_add_ons_read: "add_on_selections (map add_on_entry (line_add_ons l)) = map (\<lambda>a. \<lparr>as_add_on_id = a, as_quantity = 1\<rparr>) (rv_add_on_ids l)"
proof -
  have "uuid_str a \<noteq> []" for a using uuid_str_length [of a] by (metis list.size(3) zero_neq_numeral)
  then have "truthy (Some (uuid_str a))" for a by (simp add: truthy_def)
  then show ?thesis by (simp add: line_add_ons_def add_on_selections_def add_on_entry_def or_one_def comp_def List.map_filter_def)
qed

lemma sample_spec: "import_spec sample_resolved_line = \<lparr>li_menu_item_id = 1, li_quantity = 2, li_selected_option_ids = [(''size'', ''l'')],
     li_add_on_selections = [\<lparr>as_add_on_id = 5, as_quantity = 1\<rparr>], li_removed_ref_ids = []\<rparr>"
  by (simp add: import_spec_def line_add_ons_read sample_resolved_line_def line_options_def line_removals_def
      selected_option_ids_def option_entry_def removed_ref_ids_def truthy_def)

lemma sample_import_stock:
  "\<exists>m. post_sale_consumption sample_stock_db 10 600 [import_spec sample_resolved_line] (Some 1) (Some 1000100) SALE_CONSUMPTION 9
     = Inr (sample_stock_db\<lparr>sd_movements := [m]\<rparr>, \<lparr>cr_lines = [(7, 300000)], cr_menu_items_without_recipe = []\<rparr>) \<and>
     sm_quantity_milli m = - 300000 \<and> sm_business_id m = 10"
proof -
  have r: "resolve_order [import_spec sample_resolved_line] [1 \<mapsto> \<lparr>rs_lines = [\<lparr>rl_ingredient_id = 7, rl_quantity_milli = 150000,
        rl_option_id = None, rl_removable_ref_id = None\<rparr>], rs_yield_qty = 1\<rparr>] Map.empty
      = Inr \<lparr>cr_lines = [(7, 300000)], cr_menu_items_without_recipe = []\<rparr>"
    by (simp add: sample_spec resolve_order_def resolve_line_item_def line_applies_def truthy_def scale_exact
        half_up_signed_one bump_def merge_consumption_def)
  have v: "value_cents (- 300000) 0 = Inr 0"
    using dec_mul_div_int_exact [of "- 300000" 0 "10 ^ 9"]
    by (simp add: value_cents_def milli_def half_up_signed_def half_up_def)
  have l: "load_recipe_specs (sd_recipes sample_stock_db) 10 [1] [5] =
      ([1 \<mapsto> \<lparr>rs_lines = [\<lparr>rl_ingredient_id = 7, rl_quantity_milli = 150000,
        rl_option_id = None, rl_removable_ref_id = None\<rparr>], rs_yield_qty = 1\<rparr>], Map.empty)"
    by (simp add: load_recipe_specs_def sample_stock_db_def recipe_matches_def recipe_spec_of_def)
  show ?thesis
    using r l by (simp add: post_sale_consumption_def sample_spec sale_movement_def build_movement_def v
        dict_get_def ingredient_costs_def add_movements_def) (simp add: sample_stock_db_def v)
qed

lemma sample_import_done:
  "\<exists>db out. sample_import sample_market True = Inr (db, out) \<and> map or_total_cents (sh_orders (md_shop db)) = [23000] \<and>
     map sm_quantity_milli (stock_of (md_shop db)) = [- 300000] \<and> io_orders_created out = 1"
proof -
  obtain m where m: "post_sale_consumption sample_stock_db 10 600 [import_spec sample_resolved_line] (Some 1) (Some 1000100) SALE_CONSUMPTION 9
     = Inr (sample_stock_db\<lparr>sd_movements := [m]\<rparr>, \<lparr>cr_lines = [(7, 300000)], cr_menu_items_without_recipe = []\<rparr>)"
    "sm_quantity_milli m = - 300000" using sample_import_stock by blast
  have b: "business_of (md_shop sample_market) 10 = Inr (sample_business\<lparr>bu_delivery_reconciliation_enabled := True,
       bu_vat_registered := False, bu_inventory_enabled := True\<rparr>)"
    by (simp add: business_of_def sample_market_def sample_business_def)
  have k: "kept_line sample_resolved_line"
    by (simp add: kept_line_def sample_resolved_line_def)
  have "\<not> blocks_import sample_resolved_order"
    by (simp add: blocks_import_def unresolved_items_def unresolved_modifiers_def sample_resolved_order_def sample_resolved_line_def is_resolved_def)
  then have z: "blocked sample_resolved = []" "candidates sample_resolved False True = [sample_resolved_order]" "duplicates sample_resolved = []"
    "rz_closed_period_cutoff sample_resolved = Some 100"
    by (simp_all add: blocked_def sample_resolved_def candidates_def importable_def duplicates_def sample_resolved_order_def)
  have c: "ar_missing_required (adapt_rows sample_dates sample_report []) = []" by (simp add: sample_adapted)
  have o1: "ro_lines sample_resolved_order = [sample_resolved_line]" "ro_placed_at sample_resolved_order = 5" "import_gross sample_resolved_order = 23000"
    by (simp_all add: sample_resolved_order_def import_gross_def dict_get_def)
  have mk: "sh_stock (md_shop sample_market) = sample_stock_db" "sh_orders (md_shop sample_market) = []" "md_mappings sample_market = [sample_mapping]"
    "sh_tills (md_shop sample_market) = []" "sh_intents (md_shop sample_market) = []" "sh_allocations (md_shop sample_market) = []"
    "sh_loyalty (md_shop sample_market) = \<lparr>ld_programs = [], ld_rewards = [], ld_customers = [], ld_txns = [], ld_audit = []\<rparr>"
    by (simp_all add: sample_market_def sample_shop_def)
  let ?b = "sample_business\<lparr>bu_delivery_reconciliation_enabled := True, bu_vat_registered := False, bu_inventory_enabled := True\<rparr>"
  have bb: "bu_id sample_business = 10" by (simp add: sample_business_def)
  have "\<exists>shop out. import_resolved_orders (md_shop sample_market) ?b ''UBER_EATS'' UBER_EATS 500 sample_resolved 1 False True (\<lambda>n. 600 + of_nat n) 9
        = Inr (shop, out) \<and> map or_total_cents (sh_orders shop) = [23000] \<and> map sm_quantity_milli (stock_of shop) = [- 300000]
      \<and> io_orders_created out = 1 \<and> shop_ok shop \<and> unique_index external_key (sh_orders shop)"
    using m
    by (simp add: import_resolved_orders_def z import_one_def import_vat_def Let_def take_import_stock_def k o1 movement_at_def
        in_locked_period_def add_order_def add_event_def mk bb stock_of_def shop_ok_def unique_index_one commit_loyalty_def
        stock_index_def)
  then obtain shop out where s: "import_resolved_orders (md_shop sample_market) ?b ''UBER_EATS'' UBER_EATS 500 sample_resolved 1 False True (\<lambda>n. 600 + of_nat n) 9
        = Inr (shop, out)" "map or_total_cents (sh_orders shop) = [23000]" "map sm_quantity_milli (stock_of shop) = [- 300000]"
      "io_orders_created out = 1" "shop_ok shop" "unique_index external_key (sh_orders shop)" by (elim exE conjE) (rule that)
  have ok: "market_ok (sample_market\<lparr>md_shop := add_audit 10 (Some 1) ''external_orders.imported'' 500 shop, md_batches := bs\<rparr>)" for bs
    using s by (simp add: market_ok_def mk unique_index_one)
  show ?thesis
    using s by (simp add: sample_import_def commit_external_orders_def read_report_def require_reconciliation_def b external_platform_of_def c
        sample_resolution Let_def z commit_market_ok [OF ok] stock_of_def)
qed

subsection \<open>An import happens once\<close>

lemma dict_get_cutoff: "last_approved_cutoff sessions business = Some c \<Longrightarrow>
   (\<exists>s \<in> set sessions. ss_business_id s = business \<and> ss_status s = SK_APPROVED \<and> ss_cutoff_at s = c) \<and>
   (\<forall>s \<in> set sessions. ss_business_id s = business \<longrightarrow> ss_status s = SK_APPROVED \<longrightarrow> ss_cutoff_at s \<le> c)"
proof -
  let ?xs = "sort_key ss_cutoff_at (filter (\<lambda>s. ss_business_id s = business \<and> ss_status s = SK_APPROVED) sessions)"
  assume "last_approved_cutoff sessions business = Some c"
  then obtain s rest where r: "rev ?xs = s # rest" and c: "c = ss_cutoff_at s"
    by (auto simp: last_approved_cutoff_def split: list.splits)
  then have xs: "?xs = rev rest @ [s]" by (metis rev.simps(2) rev_rev_ident)
  have "sorted (map ss_cutoff_at ?xs)" by simp
  then have "\<forall>x \<in> set ?xs. ss_cutoff_at x \<le> c" unfolding xs by (auto simp: sorted_append c)
  moreover have "s \<in> set ?xs" unfolding xs by simp
  ultimately show ?thesis using c by auto
qed

lemma no_cutoff: "last_approved_cutoff sessions business = None \<Longrightarrow> s \<in> set sessions \<Longrightarrow> ss_business_id s = business \<Longrightarrow> ss_status s \<noteq> SK_APPROVED"
proof
  let ?f = "filter (\<lambda>s. ss_business_id s = business \<and> ss_status s = SK_APPROVED) sessions"
  assume "last_approved_cutoff sessions business = None" "s \<in> set sessions" "ss_business_id s = business" "ss_status s = SK_APPROVED"
  then have "rev (sort_key ss_cutoff_at ?f) = []" "s \<in> set ?f" by (auto simp: last_approved_cutoff_def split: list.splits)
  moreover have "set (rev (sort_key ss_cutoff_at ?f)) = set ?f" by simp
  ultimately show False by (metis empty_iff list.set(1))
qed

text \<open>The resolution depends on the orders in the database only for what is a duplicate.\<close>

lemma resolve_one_again:
  assumes "sh_catalog (md_shop db') = sh_catalog (md_shop db)" "md_sessions db' = md_sessions db" "md_mappings db' = md_mappings db"
  shows "resolve_one db' business platform source x = (resolve_one db business platform source x)\<lparr>ro_is_duplicate :=
     (\<exists>o1 \<in> set (sh_orders (md_shop db')). or_business_id o1 = business \<and> or_source o1 = source \<and> or_external_order_id o1 = Some (xo_external_order_id x))\<rparr>"
  using assms by (simp add: resolve_one_def menu_index_of_def Let_def)

lemma blocks_duplicate [simp]: "blocks_import (r\<lparr>ro_is_duplicate := d\<rparr>) = blocks_import r"
  by (simp add: blocks_import_def unresolved_items_def unresolved_modifiers_def)

lemma resolve_one_simps [simp]: "ro_external_order_id (resolve_one db business platform source x) = xo_external_order_id x"
  by (simp add: resolve_one_def)

text \<open>After an import every order it took in is a duplicate, so nothing of the same report is left to import or to refuse.\<close>

lemma report_resolved_again:
  assumes os: "list_all2 (order_written b platform source batch_id user now) (candidates (resolve_orders db business platform source xs) ic ack) os"
    and bid: "bu_id b = business"
    and keep: "sh_catalog (md_shop db1) = sh_catalog (md_shop db)" "md_sessions db1 = md_sessions db" "md_mappings db1 = md_mappings db"
      "sh_orders (md_shop db1) = sh_orders (md_shop db) @ os"
    and ok: "blocked (resolve_orders db business platform source xs) = []" "ack \<or> closed_period_orders (resolve_orders db business platform source xs) = []"
  shows "blocked (resolve_orders db1 business platform source xs) = []" "importable (resolve_orders db1 business platform source xs) = []"
    "candidates (resolve_orders db1 business platform source xs) ic ack = []"
proof -
  let ?r = "resolve_one db business platform source"
  let ?z = "resolve_orders db business platform source xs" and ?z1 = "resolve_orders db1 business platform source xs"
  define dup where "dup x = (\<exists>o1 \<in> set (sh_orders (md_shop db1)). or_business_id o1 = business \<and> or_source o1 = source \<and>
      or_external_order_id o1 = Some (xo_external_order_id x))" for x :: external_order
  have z1: "rz_orders ?z1 = map (\<lambda>x. (?r x)\<lparr>ro_is_duplicate := dup x\<rparr>) xs"
    by (simp add: resolve_orders_def resolve_one_again [OF keep(1-3)] dup_def)
  have zo: "rz_orders ?z = map ?r xs" by (simp add: resolve_orders_def)
  have was: "dup x" if "ro_is_duplicate (?r x)" for x
    using that keep(4) by (auto simp: dup_def resolve_one_def)
  have taken: "dup x" if "x \<in> set xs" "?r x \<in> set (candidates ?z ic ack)" for x
  proof -
    from os that(2) have "\<exists>o1 \<in> set os. order_written b platform source batch_id user now (?r x) o1"
      by (induction rule: list_all2_induct) auto
    then obtain o1 where "o1 \<in> set os" "order_written b platform source batch_id user now (?r x) o1" by blast
    then have "or_business_id o1 = business" "or_source o1 = source" "or_external_order_id o1 = Some (xo_external_order_id x)"
      by (auto simp: order_written_def bid)
    with \<open>o1 \<in> set os\<close> keep(4) show ?thesis by (auto simp: dup_def)
  qed
  show "blocked ?z1 = []" using ok(1) was by (auto simp: blocked_def filter_empty_conv z1 zo)
  have False if x: "x \<in> set xs" "\<not> dup x" "\<not> ro_is_cancelled (?r x)" "\<not> blocks_import (?r x)" for x
  proof -
    have i: "?r x \<in> set (importable ?z)" using x was by (auto simp: importable_def zo)
    then have "\<not> ro_in_closed_period (?r x) \<or> ack" using ok(2) by (auto simp: closed_period_orders_def filter_empty_conv)
    with i taken x show False by (auto simp: candidates_def)
  qed
  then show imp: "importable ?z1 = []" by (auto simp: importable_def filter_empty_conv z1)
  have "dup x \<or> \<not> ro_is_cancelled (?r x) \<or> blocks_import (?r x) \<or> \<not> ic \<or> (ro_in_closed_period (?r x) \<and> \<not> ack)" if "x \<in> set xs" for x
    using that was [of x] taken [of x] by (auto simp: candidates_def cancelled_def zo)
  then have "\<forall>x \<in> set xs. dup x \<or> \<not> ro_is_cancelled (?r x) \<or> blocks_import (?r x) \<or> \<not> ic \<or> (ro_in_closed_period (?r x) \<and> \<not> ack)"
    by blast
  then show "candidates ?z1 ic ack = []" by (auto simp: candidates_def imp cancelled_def filter_empty_conv z1)
qed

text \<open>
  C27: importing the same file a second time, by anyone and at any later moment, succeeds and adds no
  order, no item, no event and no stock movement: everything it would take is a duplicate, also
  where the first import left orders out.
\<close>
theorem import_happens_once:
  assumes first: "commit_external_orders db parse business user platform filename rows override ic ack batch_id new_id now = Inr (db1, out1)"
  shows "\<exists>db2 out2. commit_external_orders db1 parse business user' platform filename' rows override ic ack batch_id' new_id' now' = Inr (db2, out2) \<and>
    io_orders_created out2 = 0 \<and> io_gross_cents out2 = 0 \<and> sh_orders (md_shop db2) = sh_orders (md_shop db1) \<and>
    sh_items (md_shop db2) = sh_items (md_shop db1) \<and> sh_events (md_shop db2) = sh_events (md_shop db1) \<and>
    sh_stock (md_shop db2) = sh_stock (md_shop db1) \<and> sh_businesses (md_shop db2) = sh_businesses (md_shop db1)"
proof -
  from first obtain b source adapted z shop out0 batch where r: "read_report db parse business platform rows override = Inr (b, source, adapted)"
    and miss: "ar_missing_required adapted = []" and z: "z = resolve_orders db business platform source (ar_orders adapted)"
    and ok: "blocked z = []" "ack \<or> closed_period_orders z = []"
    and adds: "import_adds b platform source batch_id user (rz_closed_period_cutoff z) now (candidates z ic ack) (md_shop db, out0) (shop, out1)"
    and db1: "db1 = db\<lparr>md_shop := add_audit business (Some user) ''external_orders.imported'' batch_id shop, md_batches := md_batches db @ [batch]\<rparr>"
    and mok: "market_ok db1"
    by (rule commit_external_shape)
  have bid: "bu_id b = business" using r by (auto simp: read_report_eq dest: business_of_in)
  from adds obtain os where os: "sh_orders shop = sh_orders (md_shop db) @ os"
      "list_all2 (order_written b platform source batch_id user now) (candidates z ic ack) os"
    and same: "sh_catalog shop = sh_catalog (md_shop db)" "sh_businesses shop = sh_businesses (md_shop db)"
    by (auto simp: import_adds_def)
  have keep: "sh_catalog (md_shop db1) = sh_catalog (md_shop db)" "md_sessions db1 = md_sessions db" "md_mappings db1 = md_mappings db"
    "sh_orders (md_shop db1) = sh_orders (md_shop db) @ os" "sh_businesses (md_shop db1) = sh_businesses (md_shop db)"
    using os same by (simp_all add: db1 add_audit_def)
  have r1: "read_report db1 parse business platform rows override = Inr (b, source, adapted)"
    using r keep(5) by (simp add: read_report_eq business_of_def)
  note z1 = report_resolved_again [OF os(2) [unfolded z] bid keep(1-4) ok [unfolded z]]
  have "market_ok (db1\<lparr>md_shop := add_audit business (Some user') ''external_orders.imported'' batch_id' (md_shop db1), md_batches := bs\<rparr>)" for bs
    using mok by (simp add: market_ok_def)
  note c = commit_market_ok [OF this]
  show ?thesis
    using r1 miss z1
    by (simp add: commit_external_orders_def Let_def closed_period_orders_def import_resolved_orders_def c)
       (simp add: add_audit_def)
qed

theorem import_happens_once_witness:
  "\<exists>db1 out1 db2 out2. sample_import sample_market True = Inr (db1, out1) \<and> io_orders_created out1 = 1 \<and>
     sample_import db1 True = Inr (db2, out2) \<and> io_orders_created out2 = 0 \<and> map or_total_cents (sh_orders (md_shop db2)) = [23000]"
proof -
  obtain db1 out1 where 1: "sample_import sample_market True = Inr (db1, out1)" "map or_total_cents (sh_orders (md_shop db1)) = [23000]"
    "io_orders_created out1 = 1" using sample_import_done by (elim exE conjE) (rule that)
  from import_happens_once [OF 1(1) [unfolded sample_import_def], of 1 "''f.csv''" 500 "\<lambda>n. 600 + of_nat n" 9] 1 show ?thesis
    unfolding sample_import_def by (metis (no_types, lifting))
qed

subsection \<open>Signed-off counts\<close>

lemma movement_after_cutoff: "rz_closed_period_cutoff z = Some c \<Longrightarrow> c < movement_at (rz_closed_period_cutoff z) x"
  by (simp add: movement_at_def in_locked_period_def)

text \<open>
  C8: an import leaves every signed-off count as it was: for every approved stocktake of the business,
  the stock on hand at its cut-off and the movement totals of its period are the same before and
  after, whatever the dates in the file, and the stock of the imported orders is the business's own.
\<close>
theorem import_keeps_signed_off_counts:
  assumes "commit_external_orders db parse business user platform filename rows override ic ack batch_id new_id now = Inr (db', out)"
    and "s \<in> set (md_sessions db)" "ss_status s = SK_APPROVED"
  shows "stock_on_hand (stock_of (md_shop db')) (ss_business_id s) (Some (ss_cutoff_at s)) ids i
       = stock_on_hand (stock_of (md_shop db)) (ss_business_id s) (Some (ss_cutoff_at s)) ids i
     \<and> movement_totals_by_type (stock_of (md_shop db')) (ss_business_id s) (ss_period_start_at s) (Some (ss_cutoff_at s)) ids (i, t)
       = movement_totals_by_type (stock_of (md_shop db)) (ss_business_id s) (ss_period_start_at s) (Some (ss_cutoff_at s)) ids (i, t)
     \<and> md_sessions db' = md_sessions db"
proof -
  from assms(1) obtain b source adapted z shop out0 batch where r: "read_report db parse business platform rows override = Inr (b, source, adapted)"
    and z: "z = resolve_orders db business platform source (ar_orders adapted)"
    and adds: "import_adds b platform source batch_id user (rz_closed_period_cutoff z) now (candidates z ic ack) (md_shop db, out0) (shop, out)"
    and db': "db' = db\<lparr>md_shop := add_audit business (Some user) ''external_orders.imported'' batch_id shop, md_batches := md_batches db @ [batch]\<rparr>"
    by (rule commit_external_shape)
  have bid: "bu_id b = business" using r by (auto simp: read_report_eq dest: business_of_in)
  from adds have "\<exists>ms. stock_of shop = stock_of (md_shop db) @ ms \<and>
    (\<forall>m \<in> set ms. sm_business_id m = business \<and> (\<exists>x. sm_occurred_at m = movement_at (rz_closed_period_cutoff z) x))"
    unfolding import_adds_def bid by fastforce
  then obtain ms where ms: "stock_of shop = stock_of (md_shop db) @ ms"
    "\<forall>m \<in> set ms. sm_business_id m = business \<and> (\<exists>x. sm_occurred_at m = movement_at (rz_closed_period_cutoff z) x)" by blast
  have new: "\<not> (sm_business_id m = ss_business_id s \<and> sm_occurred_at m \<le> ss_cutoff_at s)" if "m \<in> set ms" for m
  proof
    assume m: "sm_business_id m = ss_business_id s \<and> sm_occurred_at m \<le> ss_cutoff_at s"
    then have sb: "ss_business_id s = business" using ms(2) that by auto
    have "rz_closed_period_cutoff z \<noteq> None"
      using assms(2,3) sb no_cutoff by (auto simp: z resolve_orders_def)
    then obtain c where c: "rz_closed_period_cutoff z = Some c" by auto
    then have "ss_cutoff_at s \<le> c" using dict_get_cutoff [of "md_sessions db" business c] assms(2,3) sb by (simp add: z resolve_orders_def)
    moreover have "c < sm_occurred_at m" using ms(2) that movement_after_cutoff [OF c] by force
    ultimately show False using m by simp
  qed
  have st: "stock_of (md_shop db') = stock_of (md_shop db) @ ms" using ms(1) by (simp add: db' add_audit_def stock_of_def)
  have e: "filter (\<lambda>m. in_scope (ss_business_id s) ids m \<and> sm_occurred_at m \<le> ss_cutoff_at s \<and> sm_ingredient_id m = i) ms = []"
    "filter (\<lambda>m. in_scope (ss_business_id s) ids m \<and> (\<forall>u \<in> set_option (ss_period_start_at s). u < sm_occurred_at m) \<and>
        sm_occurred_at m \<le> ss_cutoff_at s \<and> sm_ingredient_id m = i \<and> sm_movement_type m = t) ms = []"
    using new by (auto simp: filter_empty_conv in_scope_def)
  show ?thesis unfolding st using e
    by (simp add: stock_on_hand_def movement_totals_by_type_def Let_def db')
qed

theorem import_keeps_signed_off_counts_witness:
  "\<exists>db out. sample_import sample_market True = Inr (db, out) \<and>
     map sm_quantity_milli (stock_of (md_shop db)) = [- 300000] \<and>
     stock_on_hand (stock_of (md_shop db)) 10 (Some 100) [] 7 = None"
proof -
  obtain db out where 1: "sample_import sample_market True = Inr (db, out)" "map sm_quantity_milli (stock_of (md_shop db)) = [- 300000]"
    using sample_import_done by (elim exE conjE) (rule that)
  have s: "sample_session SK_APPROVED \<in> set (md_sessions sample_market)" "ss_status (sample_session SK_APPROVED) = SK_APPROVED"
    "ss_business_id (sample_session SK_APPROVED) = 10" "ss_cutoff_at (sample_session SK_APPROVED) = 100"
    by (simp_all add: sample_market_def sample_session_def)
  have "stock_on_hand (stock_of (md_shop sample_market)) 10 (Some 100) [] 7 = None"
    by (simp add: stock_of_def sample_market_def sample_stock_db_def stock_on_hand_def)
  with import_keeps_signed_off_counts [OF 1(1) [unfolded sample_import_def] s(1,2), of "[]" 7] s(3,4) 1 show ?thesis
    by (intro exI [of _ db] exI [of _ out]) simp
qed

subsection \<open>The orders of a report\<close>

lemma import_vat_exact: "import_vat b x = Inr vat \<Longrightarrow> import_gross x * bu_vat_rate_basis_points b < 10 ^ 27 \<Longrightarrow>
   vat = (if bu_vat_registered b then vat_amount (import_gross x) (bu_vat_rate_basis_points b) True else 0)"
  by (auto simp: import_vat_def calculate_vat_exact split: if_splits)

lemma import_vat_inside: "import_vat b x = Inr vat \<Longrightarrow> import_gross x * bu_vat_rate_basis_points b < 10 ^ 27 \<Longrightarrow> 0 \<le> import_gross x \<Longrightarrow>
   0 \<le> vat \<and> vat \<le> import_gross x"
  using vat_amount_bounds(1) vat_amount_bounds(2) [of "import_gross x"] by (auto dest!: import_vat_exact)

definition tax_inside :: "business \<Rightarrow> order \<Rightarrow> bool" where
  "tax_inside b o1 = (0 \<le> or_total_cents o1 \<and> or_total_cents o1 * bu_vat_rate_basis_points b < 10 ^ 27 \<longrightarrow>
     or_tax_cents o1 = (if bu_vat_registered b then vat_amount (or_total_cents o1) (bu_vat_rate_basis_points b) True else 0) \<and>
     0 \<le> or_tax_cents o1 \<and> or_tax_cents o1 \<le> or_total_cents o1)"

lemma imported_tax: "import_vat b x = Inr vat \<Longrightarrow> tax_inside b (imported_order b platform source batch_id user oid now x vat)"
  using import_vat_exact [of b x vat] import_vat_inside [of b x vat] by (auto simp: tax_inside_def)

text \<open>
  C38: an import writes one order per candidate of the report, in order: completed and paid without a
  till, under the platform's own id and at the platform's own instant, its total the gross the report
  states and its tax part of that total; the counts and the gross the caller is told are those of the
  orders written, and the items belong to them.
\<close>
theorem import_states_the_report:
  assumes "commit_external_orders db parse business user platform filename rows override ic ack batch_id new_id now = Inr (db', out)"
  shows "\<exists>os z. sh_orders (md_shop db') = sh_orders (md_shop db) @ os \<and>
     (\<exists>p. external_platform_of platform = Some p \<and>
        z = resolve_orders db business platform (platform_to_order_source p) (ar_orders (adapt_rows parse rows override)) \<and>
        (\<forall>o1 \<in> set os. or_business_id o1 = business \<and> or_source o1 = platform_to_order_source p \<and>
           or_status o1 = COMPLETED \<and> or_payment_status o1 = PS_PAID \<and> or_till_session_id o1 = None)) \<and>
     map or_external_order_id os = map (Some \<circ> ro_external_order_id) (candidates z ic ack) \<and>
     map or_external_placed_at os = map (Some \<circ> ro_placed_at) (candidates z ic ack) \<and>
     map or_total_cents os = map import_gross (candidates z ic ack) \<and>
     (\<exists>b \<in> set (sh_businesses (md_shop db)). bu_id b = business \<and>
        list_all (tax_inside b) os) \<and>
     io_orders_created out = length os \<and> io_gross_cents out = sum_list (map or_total_cents os) \<and>
     sh_items (md_shop db') = sh_items (md_shop db) @ written_items business platform (candidates z ic ack) os \<and>
     candidates z False ack = importable z"
proof -
  from assms obtain b source adapted z shop out0 batch where r: "read_report db parse business platform rows override = Inr (b, source, adapted)"
    and z: "z = resolve_orders db business platform source (ar_orders adapted)" and open_period: "ack \<or> closed_period_orders z = []"
    and adds: "import_adds b platform source batch_id user (rz_closed_period_cutoff z) now (candidates z ic ack) (md_shop db, out0) (shop, out)"
    and out0: "io_orders_created out0 = 0" "io_gross_cents out0 = 0"
    and db': "db' = db\<lparr>md_shop := add_audit business (Some user) ''external_orders.imported'' batch_id shop, md_batches := md_batches db @ [batch]\<rparr>"
    by (rule commit_external_shape)
  have bid: "bu_id b = business" "b \<in> set (sh_businesses (md_shop db))" using r by (auto simp: read_report_eq dest: business_of_in)
  from r obtain p where p: "external_platform_of platform = Some p" "source = platform_to_order_source p" "adapted = adapt_rows parse rows override"
    by (auto simp: read_report_eq)
  from adds have "\<exists>os. sh_orders shop = sh_orders (md_shop db) @ os \<and>
      list_all2 (order_written b platform source batch_id user now) (candidates z ic ack) os \<and>
      sh_items shop = sh_items (md_shop db) @ written_items business platform (candidates z ic ack) os"
    unfolding import_adds_def bid by fastforce
  then obtain os where os: "sh_orders shop = sh_orders (md_shop db) @ os"
      "list_all2 (order_written b platform source batch_id user now) (candidates z ic ack) os"
      "sh_items shop = sh_items (md_shop db) @ written_items business platform (candidates z ic ack) os" by blast
  have n: "io_orders_created out = length (candidates z ic ack)" "io_gross_cents out = sum_list (map import_gross (candidates z ic ack))"
    using adds out0 by (auto simp: import_adds_def)
  have each: "map or_external_order_id os = map (Some \<circ> ro_external_order_id) (candidates z ic ack)"
    "map or_external_placed_at os = map (Some \<circ> ro_placed_at) (candidates z ic ack)"
    "map or_total_cents os = map import_gross (candidates z ic ack)"
    "\<forall>o1 \<in> set os. or_business_id o1 = business \<and> or_source o1 = source \<and> or_status o1 = COMPLETED \<and> or_payment_status o1 = PS_PAID \<and>
        or_till_session_id o1 = None"
    "list_all (tax_inside b) os"
    using os(2) by (induction rule: list_all2_induct) (auto simp: order_written_def bid intro: imported_tax)
  have "candidates z False ack = importable z"
    using open_period by (auto simp: candidates_def closed_period_orders_def filter_empty_conv filter_id_conv)
  moreover have "length os = length (candidates z ic ack)" using os(2) by (simp add: list_all2_lengthD)
  moreover have "sh_orders (md_shop db') = sh_orders (md_shop db) @ os" "sh_items (md_shop db') = sh_items (md_shop db) @ written_items business platform (candidates z ic ack) os"
    using os by (simp_all add: db' add_audit_def)
  moreover have "z = resolve_orders db business platform (platform_to_order_source p) (ar_orders (adapt_rows parse rows override))"
    by (simp add: z p)
  ultimately show ?thesis using p(1,2) each n bid
    by (intro exI [of _ os] exI [of _ z] conjI bexI [of _ b] exI [of _ p]) simp_all
qed

theorem import_states_the_report_witness:
  "\<exists>db out os. sample_import sample_market True = Inr (db, out) \<and> sh_orders (md_shop db) = sh_orders (md_shop sample_market) @ os \<and>
     io_orders_created out = length os \<and> io_gross_cents out = sum_list (map or_total_cents os)"
proof -
  obtain db out where 1: "sample_import sample_market True = Inr (db, out)" using sample_import_done by (elim exE conjE) (rule that)
  from import_states_the_report [OF 1 [unfolded sample_import_def]] 1 show ?thesis by blast
qed

subsection \<open>Where the import is weaker than it reads\<close>

text \<open>
  An order placed before the signed-off count is refused unless acknowledged, but a cancelled one the
  manager asked for is dropped without a word.
\<close>
lemma cancelled_order_dropped_in_silence:
  fixes x c
  defines "z \<equiv> \<lparr>rz_orders = [x\<lparr>ro_is_cancelled := True, ro_is_duplicate := False, ro_in_closed_period := True, ro_lines := []\<rparr>],
     rz_closed_period_cutoff = Some c\<rparr>"
  shows "closed_period_orders z = []" "blocked z = []" "candidates z True False = []" "candidates z True True = rz_orders z"
  by (simp_all add: z_def closed_period_orders_def importable_def blocked_def blocks_import_def unresolved_items_def
      unresolved_modifiers_def candidates_def cancelled_def)

text \<open>The number of an order is cut to 32 characters, so long ids of the platform can collide.\<close>

lemma order_numbers_collide:
  "take 29 (ro_external_order_id x) = take 29 (ro_external_order_id y) \<Longrightarrow>
   or_order_number (imported_order b ''UBER_EATS'' src bid user i now x v) = or_order_number (imported_order b ''UBER_EATS'' src bid user j now y w)"
  by (simp add: imported_order_def new_order_def order_id_prefix_def)

text \<open>
  The name of a mapped option is looked for in its id: here an id that contains the name of another
  size of the same item.
\<close>
lemma mapped_option_misnamed:
  "match_option (sample_menu_item\<lparr>mi_options_json := Some \<lparr>oj_option_groups = Some [\<lparr>og_id = ''size'', og_name = ''Size'', og_is_enabled = None,
     og_required = None, og_options = Some [\<lparr>mo_id = ''large'', mo_name = ''Family'', mo_is_enabled = None, mo_price_delta_cents = None\<rparr>,
       \<lparr>mo_id = ''m'', mo_name = ''Large'', mo_is_enabled = None, mo_price_delta_cents = None\<rparr>]\<rparr>], oj_removable_ingredients = None\<rparr>\<rparr>) ''large''
   = Some (''m'', ''Large'')"
  by code_simp

end
