(* ===== verification/DeliveryOrders.thy ===== *)
theory DeliveryOrders imports ExternalOrders begin

text \<open>
  The live marketplace orders: the rows of \<^verbatim>\<open>shared/models/delivery.py\<close>, the entitlements of
  \<^verbatim>\<open>backend/app/delivery/entitlements.py\<close> and the worker's half of the order flow in
  \<^verbatim>\<open>backend/app/delivery/order_service.py\<close>.  What the provider answers to a call is a
  parameter of the job that makes it; a job returns the database it leaves, the calls it made,
  which a rollback does not take back, and how it ended.  The alerts of the staff app are not
  modelled.
\<close>

subsection \<open>Canonical orders\<close>

record canonical_modifier =
  cm_external_id :: "string option"
  cm_title :: string
  cm_quantity :: int
  cm_price_cents :: "int option"

record canonical_line =
  cl_external_item_id :: "string option"
  cl_title :: string
  cl_quantity :: int
  cl_unit_price_cents :: "int option"
  cl_modifiers :: "canonical_modifier list"
  cl_special_instructions :: "string option"

record canonical_order =
  cn_external_order_id :: string
  cn_external_store_id :: string
  cn_lines :: "canonical_line list"
  cn_display_id :: "string option"
  cn_provider_status_raw :: "string option"
  cn_order_type :: "string option"
  cn_placed_at :: "instant option"
  cn_currency :: string
  cn_subtotal_cents :: "int option"
  cn_tax_cents :: "int option"
  cn_fee_cents :: "int option"
  cn_total_cents :: "int option"
  cn_special_instructions :: "string option"
  cn_customer_first_name :: "string option"
  cn_customer_phone :: "string option"
  cn_fulfillment_issues :: "string list"
  cn_provider_metadata :: "(string \<times> string) list"

definition item_count :: "canonical_order \<Rightarrow> int" where
  "item_count c = sum_list (map cl_quantity (cn_lines c))"

record order_snapshot =
  os_display_id :: "string option"
  os_order_type :: "string option"
  os_item_count :: int
  os_subtotal_cents :: "int option"
  os_tax_cents :: "int option"
  os_fee_cents :: "int option"
  os_total_cents :: "int option"
  os_fulfillment_issues :: "string list"
  os_provider_metadata :: "(string \<times> string) list"

definition build_snapshot :: "canonical_order \<Rightarrow> order_snapshot" where
  "build_snapshot c = \<lparr>os_display_id = cn_display_id c, os_order_type = cn_order_type c, os_item_count = item_count c,
     os_subtotal_cents = cn_subtotal_cents c, os_tax_cents = cn_tax_cents c, os_fee_cents = cn_fee_cents c,
     os_total_cents = cn_total_cents c, os_fulfillment_issues = cn_fulfillment_issues c,
     os_provider_metadata = cn_provider_metadata c\<rparr>"

subsection \<open>Rows\<close>

datatype delivery_status =
    DS_RECEIVED | DS_FETCHING | DS_NEEDS_MAPPING | DS_READY_TO_ACCEPT | DS_ACCEPTED | DS_DENIED
  | DS_FULFILLED | DS_CANCELLED | DS_FAILED | DS_UNKNOWN

datatype connection_status =
    CS_NOT_CONNECTED | CS_SANDBOX | CS_AWAITING_APPROVAL | CS_CONNECTED | CS_ATTENTION_REQUIRED | CS_DISABLED

record delivery_connection =
  dc_id :: uuid
  dc_business_id :: uuid
  dc_provider :: string
  dc_external_store_id :: "string option"
  dc_status :: connection_status
  dc_environment :: string
  dc_auto_accept_enabled :: bool
  dc_disconnected_at :: "instant option"
  dc_error_reason :: "string option"

record webhook_event =
  we_id :: uuid
  we_provider :: string
  we_event_id :: string
  we_external_store_id :: "string option"
  we_business_id :: "uuid option"
  we_event_type :: "string option"
  we_environment :: "string option"
  we_signature_valid :: bool
  we_error_category :: "string option"
  we_received_at :: instant

record delivery_order =
  dl_id :: uuid
  dl_business_id :: uuid
  dl_provider :: string
  dl_delivery_connection_id :: "uuid option"
  dl_external_order_id :: string
  dl_external_store_id :: string
  dl_raw_event_id :: "uuid option"
  dl_status :: delivery_status
  dl_order_id :: "uuid option"
  dl_accept_deadline_at :: "instant option"
  dl_accepted_at :: "instant option"
  dl_denied_at :: "instant option"
  dl_cancelled_at :: "instant option"
  dl_deny_reason_code :: "string option"
  dl_deny_reason_text :: "string option"
  dl_gross_cents :: "int option"
  dl_fee_cents :: "int option"
  dl_currency :: string
  dl_placed_at :: "instant option"
  dl_fetched_order_snapshot :: "order_snapshot option"
  dl_unresolved_items :: "string list option"
  dl_failure_reason :: "string option"

record delivery_db =
  dv_market :: market_db
  dv_connections :: "delivery_connection list"
  dv_events :: "webhook_event list"
  dv_orders :: "delivery_order list"

definition delivery_key :: "delivery_order \<Rightarrow> (uuid \<times> string \<times> string) option" where
  "delivery_key r = Some (dl_business_id r, dl_provider r, dl_external_order_id r)"

definition event_key :: "webhook_event \<Rightarrow> (string \<times> string) option" where
  "event_key e = Some (we_provider e, we_event_id e)"

definition connection_key :: "delivery_connection \<Rightarrow> (uuid \<times> string) option" where
  "connection_key c = Some (dc_business_id c, dc_provider c)"

definition store_key :: "delivery_connection \<Rightarrow> (string \<times> string) option" where
  "store_key c = map_option (Pair (dc_provider c)) (dc_external_store_id c)"

definition delivery_index :: "delivery_db \<Rightarrow> bool" where
  "delivery_index db = (unique_index delivery_key (dv_orders db) \<and> unique_index dl_order_id (dv_orders db) \<and>
     unique_index event_key (dv_events db) \<and> unique_index connection_key (dv_connections db) \<and>
     unique_index store_key (dv_connections db))"

definition delivery_ok :: "delivery_db \<Rightarrow> bool" where
  "delivery_ok db = (delivery_index db \<and> market_ok (dv_market db))"

definition commit_delivery :: "delivery_db \<Rightarrow> delivery_db result" where
  "commit_delivery db =
     and_then (raise_if (\<not> delivery_index db) (IntegrityError ''uq_delivery'')) (\<lambda>_.
     and_then (commit_market (dv_market db)) (\<lambda>_. Inr db))"

lemma commit_delivery_eq: "commit_delivery db = Inr db' \<longleftrightarrow> db' = db \<and> delivery_ok db"
  by (auto simp: commit_delivery_def delivery_ok_def and_then_eq_Inr commit_market_eq)

definition write_delivery :: "delivery_order \<Rightarrow> delivery_db \<Rightarrow> delivery_db" where
  "write_delivery r db = db\<lparr>dv_orders := update_where (\<lambda>x. dl_id x = dl_id r) (\<lambda>_. r) (dv_orders db)\<rparr>"

subsection \<open>Entitlements\<close>

definition provider_entitlement_column :: "string \<Rightarrow> (business \<Rightarrow> bool) option" where
  "provider_entitlement_column p = map_of [(''UBER_EATS'', bu_uber_eats_enabled), (''MR_D'', bu_mrd_enabled)] p"

definition is_provider_entitled :: "business option \<Rightarrow> string \<Rightarrow> bool" where
  "is_provider_entitled b provider =
     (case b of None \<Rightarrow> False
      | Some b \<Rightarrow> bu_delivery_platforms_enabled b \<and>
          (case provider_entitlement_column provider of None \<Rightarrow> False | Some column \<Rightarrow> column b))"

definition is_connection_live :: "delivery_connection option \<Rightarrow> bool" where
  "is_connection_live c = (case c of None \<Rightarrow> False | Some c \<Rightarrow> dc_status c = CS_CONNECTED)"

subsection \<open>Calls to the provider\<close>

datatype 'a answer = Answered 'a | TimedOut | Refused string | Crashed

datatype provider_call =
    FetchOrder string
  | AcceptOrder string uuid
  | DenyOrder string string string

datatype job_end = Finished | WillRetry | Swallowed

record job =
  jb_db :: delivery_db
  jb_calls :: "provider_call list"
  jb_end :: job_end

text \<open>
  The deny call: a refusal, a timeout and a disabled adapter are logged and the row is denied all the
  same; any other exception leaves the job.
\<close>

definition denied_row :: "delivery_order \<Rightarrow> string \<Rightarrow> string \<Rightarrow> instant \<Rightarrow> delivery_order" where
  "denied_row r code explanation now =
     r\<lparr>dl_status := DS_DENIED, dl_denied_at := Some now, dl_deny_reason_code := Some code, dl_deny_reason_text := Some explanation\<rparr>"

definition issue_deny :: "unit answer \<Rightarrow> delivery_order \<Rightarrow> string \<Rightarrow> string \<Rightarrow> instant \<Rightarrow> delivery_order option \<times> provider_call list" where
  "issue_deny deny r code explanation now =
     (if deny = Crashed then None else Some (denied_row r code explanation now), [DenyOrder (dl_external_order_id r) code explanation])"

subsection \<open>Resolution\<close>

record resolved_delivery_line =
  rd_canonical :: canonical_line
  rd_menu_item_id :: "uuid option"
  rd_menu_item_name :: "string option"
  rd_add_on_ids :: "uuid list"
  rd_unresolved :: "string list"
  rd_is_ignored :: bool

definition delivery_line_resolved :: "resolved_delivery_line \<Rightarrow> bool" where
  "delivery_line_resolved l = (rd_is_ignored l \<or> rd_menu_item_id l \<noteq> None)"

definition resolution_blocks :: "resolved_delivery_line list \<Rightarrow> bool" where
  "resolution_blocks ls = (\<exists>l \<in> set ls. \<not> delivery_line_resolved l \<or> rd_unresolved l \<noteq> [])"

definition unresolved_names :: "resolved_delivery_line list \<Rightarrow> string list" where
  "unresolved_names ls = concat (map (\<lambda>l. (if delivery_line_resolved l then [] else [cl_title (rd_canonical l)]) @ rd_unresolved l) ls)"

definition live_mappings :: "product_mapping list \<Rightarrow> uuid \<Rightarrow> string \<Rightarrow> mapping_kind \<Rightarrow> string option \<Rightarrow> product_mapping option" where
  "live_mappings rows business provider kind i =
     (if \<not> truthy i then None
      else dict_of pm_external_id (filter (\<lambda>m. pm_business_id m = business \<and> pm_platform m = provider \<and>
             pm_external_id m \<noteq> None \<and> pm_kind m = kind) rows) i)"

record delivery_index_maps =
  dx_item_mapping :: "string option \<Rightarrow> product_mapping option"
  dx_modifier_mapping :: "string option \<Rightarrow> product_mapping option"
  dx_item_by_id :: "uuid \<Rightarrow> menu_item option"
  dx_item_by_name :: "string \<Rightarrow> menu_item option"
  dx_add_on_by_id :: "uuid \<Rightarrow> menu_add_on option"
  dx_add_on_by_name :: "string \<Rightarrow> menu_add_on option"

definition delivery_maps :: "market_db \<Rightarrow> uuid \<Rightarrow> string \<Rightarrow> delivery_index_maps" where
  "delivery_maps db business provider =
     (let cat = sh_catalog (md_shop db);
          items = filter (\<lambda>m. mi_business_id m = business \<and> \<not> mi_is_deleted m) (cat_menu_items cat);
          add_ons = filter (\<lambda>a. ma_business_id a = business \<and> \<not> ma_is_deleted a) (cat_add_ons cat)
      in \<lparr>dx_item_mapping = live_mappings (md_mappings db) business provider ITEM_MAPPING,
          dx_modifier_mapping = live_mappings (md_mappings db) business provider MODIFIER_MAPPING,
          dx_item_by_id = dict_of mi_id items, dx_item_by_name = dict_of (\<lambda>m. normalise_key (mi_name m)) items,
          dx_add_on_by_id = dict_of ma_id add_ons, dx_add_on_by_name = dict_of (\<lambda>a. normalise_key (ma_name a)) add_ons\<rparr>)"

definition resolve_delivery_modifier :: "delivery_index_maps \<Rightarrow> canonical_modifier \<Rightarrow> resolved_delivery_line \<Rightarrow> resolved_delivery_line" where
  "resolve_delivery_modifier dx m l =
     (let by_name = (case dx_add_on_by_name dx (normalise_key (cm_title m)) of
            Some a \<Rightarrow> l\<lparr>rd_add_on_ids := rd_add_on_ids l @ [ma_id a]\<rparr>
          | None \<Rightarrow> l\<lparr>rd_unresolved := rd_unresolved l @ [cm_title m]\<rparr>)
      in case dx_modifier_mapping dx (cm_external_id m) of
           None \<Rightarrow> by_name
         | Some p \<Rightarrow> if pm_is_ignored p then l
                     else if known_target (dx_add_on_by_id dx) (pm_menu_add_on_id p) \<noteq> None
                       then l\<lparr>rd_add_on_ids := rd_add_on_ids l @ [the (pm_menu_add_on_id p)]\<rparr>
                     else by_name)"

definition match_delivery_item :: "delivery_index_maps \<Rightarrow> canonical_line \<Rightarrow> resolved_delivery_line" where
  "match_delivery_item dx line =
     (let l = \<lparr>rd_canonical = line, rd_menu_item_id = None, rd_menu_item_name = None, rd_add_on_ids = [], rd_unresolved = [], rd_is_ignored = False\<rparr>;
          on_item = (\<lambda>m. l\<lparr>rd_menu_item_id := Some (mi_id m), rd_menu_item_name := Some (mi_name m)\<rparr>);
          by_name = (case dx_item_by_name dx (normalise_key (cl_title line)) of None \<Rightarrow> l | Some m \<Rightarrow> on_item m)
      in case dx_item_mapping dx (cl_external_item_id line) of
           None \<Rightarrow> by_name
         | Some p \<Rightarrow> if pm_is_ignored p then l\<lparr>rd_is_ignored := True\<rparr>
                     else case known_target (dx_item_by_id dx) (pm_menu_item_id p) of None \<Rightarrow> by_name | Some m \<Rightarrow> on_item m)"

definition resolve_delivery_lines :: "market_db \<Rightarrow> uuid \<Rightarrow> string \<Rightarrow> canonical_order \<Rightarrow> resolved_delivery_line list" where
  "resolve_delivery_lines db business provider c =
     (let dx = delivery_maps db business provider
      in map (\<lambda>line. fold (resolve_delivery_modifier dx) (cl_modifiers line) (match_delivery_item dx line)) (cn_lines c))"

subsection \<open>The sale\<close>

definition delivery_source :: "string \<Rightarrow> order_source" where
  "delivery_source provider = (case external_platform_of provider of None \<Rightarrow> OTHER_EXTERNAL | Some p \<Rightarrow> platform_to_order_source p)"

definition kept_delivery_line :: "resolved_delivery_line \<Rightarrow> bool" where
  "kept_delivery_line l = (\<not> rd_is_ignored l \<and> rd_menu_item_id l \<noteq> None)"

definition delivery_add_ons :: "resolved_delivery_line \<Rightarrow> selected_add_on list" where
  "delivery_add_ons l = map (\<lambda>a. \<lparr>sa_add_on_id = uuid_str a, sa_name = [], sa_price_cents = 0, sa_quantity = 1\<rparr>) (rd_add_on_ids l)"

definition delivery_item :: "uuid \<Rightarrow> uuid \<Rightarrow> string \<Rightarrow> resolved_delivery_line \<Rightarrow> order_item" where
  "delivery_item oid business provider l =
     (let line = rd_canonical l; price = dict_get 0 (cl_unit_price_cents line) in
      \<lparr>oi_order_id = oid, oi_business_id = business, oi_menu_item_id = rd_menu_item_id l,
       oi_name_snapshot = (if truthy (rd_menu_item_name l) then the (rd_menu_item_name l) else cl_title line),
       oi_base_price_cents = 0, oi_option_adjustment_cents = 0, oi_add_on_total_cents = 0, oi_unit_price_cents = price,
       oi_quantity = cl_quantity line, oi_line_total_cents = price * cl_quantity line, oi_options_snapshot = None,
       oi_selected_options_snapshot = None, oi_add_ons_snapshot = or_none (map TypedAddOn (delivery_add_ons l)),
       oi_removed_ingredients_snapshot = None, oi_special_instructions = Some (provider @ '': '' @ cl_title line),
       oi_is_ad_hoc_price = False\<rparr>)"

definition delivery_spec :: "resolved_delivery_line \<Rightarrow> line_item_spec" where
  "delivery_spec l =
     \<lparr>li_menu_item_id = the (rd_menu_item_id l), li_quantity = cl_quantity (rd_canonical l), li_selected_option_ids = selected_option_ids [],
      li_add_on_selections = add_on_selections (map add_on_entry (delivery_add_ons l)), li_removed_ref_ids = removed_ref_ids []\<rparr>"

definition delivery_vat :: "business \<Rightarrow> int \<Rightarrow> int result" where
  "delivery_vat b gross = (if bu_vat_registered b then calculate_vat_cents gross (bu_vat_rate_basis_points b) True else Inr 0)"

definition delivery_sale :: "business \<Rightarrow> string \<Rightarrow> canonical_order \<Rightarrow> uuid \<Rightarrow> instant \<Rightarrow> int \<Rightarrow> order" where
  "delivery_sale b provider c oid now vat =
     (let gross = dict_get 0 (cn_total_cents c); placed = (case cn_placed_at c of None \<Rightarrow> now | Some t \<Rightarrow> t) in
      (new_order oid (bu_id b) (take 32 (order_id_prefix provider @ ''-'' @ cn_external_order_id c)))
       \<lparr>or_status := ACCEPTED, or_payment_status := PS_PAID, or_payment_required := False,
        or_payment_method := Some ''EXTERNAL_PLATFORM'', or_paid_at := Some placed, or_source := delivery_source provider,
        or_order_mode := DELIVERY, or_subtotal_cents := gross, or_tax_cents := vat, or_total_cents := gross,
        or_currency := (if cn_currency c \<noteq> [] then cn_currency c else if bu_currency b \<noteq> [] then bu_currency b else ''ZAR''),
        or_customer_name := cn_customer_first_name c, or_phone_number := cn_customer_phone c,
        or_special_instructions := cn_special_instructions c, or_external_order_id := Some (cn_external_order_id c),
        or_external_placed_at := cn_placed_at c, or_external_imported_at := Some now, or_external_status := cn_provider_status_raw c,
        or_confirmed_at := Some placed, or_accepted_at := Some now\<rparr>)"

definition take_delivery_stock ::
  "shop_db \<Rightarrow> business \<Rightarrow> uuid \<Rightarrow> resolved_delivery_line list \<Rightarrow> instant \<Rightarrow> instant \<Rightarrow> shop_db result" where
  "take_delivery_stock db b oid kept at now =
     (if kept = [] \<or> \<not> bu_inventory_enabled b then Inr db
      else and_then (post_sale_consumption (sh_stock db) (bu_id b) oid (map delivery_spec kept) None (Some at) SALE_CONSUMPTION now)
             (\<lambda>(stock, consumption). Inr (db\<lparr>sh_stock := stock\<rparr>)))"

definition create_order_from_canonical ::
  "shop_db \<Rightarrow> business \<Rightarrow> string \<Rightarrow> canonical_order \<Rightarrow> resolved_delivery_line list \<Rightarrow> uuid \<Rightarrow> instant \<Rightarrow> (shop_db \<times> order) result" where
  "create_order_from_canonical db b provider c ls oid now =
     and_then (delivery_vat b (dict_get 0 (cn_total_cents c))) (\<lambda>vat.
     let o1 = delivery_sale b provider c oid now vat; kept = filter kept_delivery_line ls;
         db = add_order o1 db;
         db = db\<lparr>sh_items := sh_items db @ map (delivery_item oid (bu_id b) provider) kept\<rparr>;
         db = add_event \<lparr>oe_order_id = oid, oe_business_id = bu_id b, oe_old_status = None, oe_new_status = ACCEPTED,
                         oe_changed_by_user_id = None\<rparr> db
     in and_then (take_delivery_stock db b oid kept (case cn_placed_at c of None \<Rightarrow> now | Some t \<Rightarrow> t) now) (\<lambda>db. Inr (db, o1)))"

subsection \<open>The jobs\<close>

definition cancel_event_types :: "string list" where
  "cancel_event_types = [''orders.cancel'', ''orders.failure'']"

definition misconfig_deny_code :: string where "misconfig_deny_code = ''STORE_CLOSED''"

definition load_locked_row :: "delivery_db \<Rightarrow> uuid \<Rightarrow> string \<Rightarrow> string \<Rightarrow> delivery_order option result" where
  "load_locked_row db business provider external_order_id =
     scalar_one_or_none (filter (\<lambda>r. dl_business_id r = business \<and> dl_provider r = provider \<and>
       dl_external_order_id r = external_order_id) (dv_orders db))"

definition find_misconfiguration ::
  "delivery_connection option \<Rightarrow> business option \<Rightarrow> webhook_event option \<Rightarrow> string \<Rightarrow> string option" where
  "find_misconfiguration c b e provider =
     (case c of
        None \<Rightarrow> Some ''CONNECTION_MISSING''
      | Some conn \<Rightarrow>
          if (case e of None \<Rightarrow> False | Some ev \<Rightarrow> truthy (we_environment ev) \<and> we_environment ev \<noteq> Some (dc_environment conn))
          then Some ''ENV_MISMATCH''
          else if (case b of None \<Rightarrow> True | Some bu \<Rightarrow> \<not> bu_is_active bu) then Some ''TENANT_INACTIVE''
          else if \<not> is_provider_entitled b provider then Some ''ENTITLEMENT_OFF''
          else if \<not> is_connection_live c then Some ''CONNECTION_NOT_LIVE''
          else None)"

definition connection_of :: "delivery_db \<Rightarrow> delivery_order \<Rightarrow> delivery_connection option" where
  "connection_of db r = (case dl_delivery_connection_id r of None \<Rightarrow> None | Some i \<Rightarrow> find (\<lambda>c. dc_id c = i) (dv_connections db))"

definition event_of :: "delivery_db \<Rightarrow> delivery_order \<Rightarrow> webhook_event option" where
  "event_of db r = (case dl_raw_event_id r of None \<Rightarrow> None | Some i \<Rightarrow> find (\<lambda>e. we_id e = i) (dv_events db))"

definition row_business :: "delivery_db \<Rightarrow> uuid \<Rightarrow> business option" where
  "row_business db business = find (\<lambda>b. bu_id b = business) (sh_businesses (md_shop (dv_market db)))"

text \<open>The end of a job: a commit that fails is an exception of the job, which is rolled back and logged.\<close>

definition commit_job :: "delivery_db \<Rightarrow> delivery_db \<Rightarrow> provider_call list \<Rightarrow> job_end \<Rightarrow> job" where
  "commit_job old db calls how =
     (case commit_delivery db of Inl _ \<Rightarrow> \<lparr>jb_db = old, jb_calls = calls, jb_end = Swallowed\<rparr>
      | Inr db \<Rightarrow> \<lparr>jb_db = db, jb_calls = calls, jb_end = how\<rparr>)"

definition nothing_done :: "delivery_db \<Rightarrow> job" where
  "nothing_done db = \<lparr>jb_db = db, jb_calls = [], jb_end = Finished\<rparr>"

text \<open>Deny and commit, as every gate that refuses an order does.\<close>

definition deny_and_commit ::
  "delivery_db \<Rightarrow> unit answer \<Rightarrow> provider_call list \<Rightarrow> delivery_order \<Rightarrow> string \<Rightarrow> string \<Rightarrow> instant \<Rightarrow> job" where
  "deny_and_commit db deny calls r code explanation now =
     (case issue_deny deny r code explanation now of
        (None, sent) \<Rightarrow> \<lparr>jb_db = db, jb_calls = calls @ sent, jb_end = Swallowed\<rparr>
      | (Some r, sent) \<Rightarrow> commit_job db (write_delivery r db) (calls @ sent) Finished)"

definition cancel_sale :: "shop_db \<Rightarrow> uuid \<Rightarrow> string \<Rightarrow> string \<Rightarrow> uuid \<Rightarrow> shop_db" where
  "cancel_sale db business provider external_order_id oid =
     (case find (\<lambda>o1. or_id o1 = oid) (sh_orders db) of
        None \<Rightarrow> db
      | Some o1 \<Rightarrow>
          if or_status o1 = CANCELLED then db
          else add_event \<lparr>oe_order_id = oid, oe_business_id = business, oe_old_status = Some (or_status o1),
                          oe_new_status = CANCELLED, oe_changed_by_user_id = None\<rparr>
                 (write_order (o1\<lparr>or_status := CANCELLED,
                    or_cancelled_reason := Some (''Cancelled by '' @ provider @ '' ('' @ external_order_id @ '')'')\<rparr>) db))"

definition handle_cancellation :: "delivery_db \<Rightarrow> string \<Rightarrow> uuid \<Rightarrow> string \<Rightarrow> instant \<Rightarrow> job" where
  "handle_cancellation db provider business external_order_id now =
     (case load_locked_row db business provider external_order_id of
        Inl _ \<Rightarrow> \<lparr>jb_db = db, jb_calls = [], jb_end = Swallowed\<rparr>
      | Inr None \<Rightarrow> nothing_done db
      | Inr (Some r) \<Rightarrow>
          if dl_status r \<in> {DS_CANCELLED, DS_DENIED, DS_FAILED} then nothing_done db
          else let db' = write_delivery (r\<lparr>dl_status := DS_CANCELLED, dl_cancelled_at := Some now\<rparr>) db;
                   db' = (case dl_order_id r of None \<Rightarrow> db'
                          | Some oid \<Rightarrow> db'\<lparr>dv_market := (dv_market db')\<lparr>md_shop :=
                              cancel_sale (md_shop (dv_market db')) business provider external_order_id oid\<rparr>\<rparr>)
               in commit_job db db' [] Finished)"

text \<open>What is kept of a fetched order on its row.  In the texts an em dash is written with two hyphens.\<close>

definition fetched_row :: "delivery_order \<Rightarrow> canonical_order \<Rightarrow> delivery_order" where
  "fetched_row r c = r\<lparr>dl_placed_at := cn_placed_at c, dl_gross_cents := cn_total_cents c, dl_fee_cents := cn_fee_cents c,
     dl_currency := (if cn_currency c \<noteq> [] then cn_currency c else dl_currency r), dl_fetched_order_snapshot := Some (build_snapshot c)\<rparr>"

definition cents_text :: "int option \<Rightarrow> string" where
  "cents_text t = (case t of None \<Rightarrow> ''None'' | Some n \<Rightarrow> (if n < 0 then ''-'' @ nat_str (nat (- n)) else nat_str (nat n)))"

text \<open>Accepting an order: the sale is written first, and stands if the provider cannot be told.\<close>

definition accept_fetched ::
  "delivery_db \<Rightarrow> unit answer \<Rightarrow> provider_call list \<Rightarrow> delivery_order \<Rightarrow> business \<Rightarrow> string \<Rightarrow> canonical_order \<Rightarrow>
   resolved_delivery_line list \<Rightarrow> uuid \<Rightarrow> instant \<Rightarrow> job" where
  "accept_fetched db accept calls r b provider c ls new_id now =
     (case and_then (create_order_from_canonical (md_shop (dv_market db)) b provider c ls new_id now) (\<lambda>(shop, o1).
             commit_delivery (write_delivery (r\<lparr>dl_order_id := Some (or_id o1)\<rparr>) (db\<lparr>dv_market := (dv_market db)\<lparr>md_shop := shop\<rparr>\<rparr>))) of
        Inl _ \<Rightarrow> \<lparr>jb_db = db, jb_calls = calls, jb_end = Swallowed\<rparr>
      | Inr flushed \<Rightarrow>
          (let calls = calls @ [AcceptOrder (dl_external_order_id r) new_id]; r = r\<lparr>dl_order_id := Some new_id\<rparr>
           in case accept of
                Answered _ \<Rightarrow> commit_job db (write_delivery (r\<lparr>dl_status := DS_ACCEPTED, dl_accepted_at := Some now\<rparr>) flushed) calls Finished
              | Crashed \<Rightarrow> \<lparr>jb_db = db, jb_calls = calls, jb_end = Swallowed\<rparr>
              | _ \<Rightarrow> commit_job db (write_delivery (r\<lparr>dl_failure_reason :=
                       Some ''accept_pos_order call failed after the sale was created locally''\<rparr>) flushed) calls Finished))"

definition handle_fetched ::
  "delivery_db \<Rightarrow> unit answer \<Rightarrow> unit answer \<Rightarrow> delivery_order \<Rightarrow> delivery_connection \<Rightarrow> business \<Rightarrow> string \<Rightarrow> canonical_order \<Rightarrow>
   bool \<Rightarrow> uuid \<Rightarrow> instant \<Rightarrow> job" where
  "handle_fetched db deny accept r conn b provider c force_accept new_id now =
     (let r = fetched_row (r\<lparr>dl_status := DS_FETCHING\<rparr>) c; calls = [FetchOrder (dl_external_order_id r)];
          ls = resolve_delivery_lines (dv_market db) (dl_business_id r) provider c
      in if (case cn_total_cents c of None \<Rightarrow> True | Some t \<Rightarrow> t \<le> 0)
         then deny_and_commit db deny calls (r\<lparr>dl_failure_reason := Some (''Order total could not be priced (total_cents='' @
                cents_text (cn_total_cents c) @ '') -- refusing to book a sale the platform cannot price.'')\<rparr>) ''PRICING''
                ''NextGen could not determine this order's total from the provider response.'' now
         else if resolution_blocks ls
         then commit_job db (write_delivery (r\<lparr>dl_status := DS_NEEDS_MAPPING, dl_unresolved_items := Some (unresolved_names ls)\<rparr>) db) calls Finished
         else if \<not> force_accept \<and> \<not> dc_auto_accept_enabled conn
         then commit_job db (write_delivery (r\<lparr>dl_status := DS_READY_TO_ACCEPT\<rparr>) db) calls Finished
         else accept_fetched db accept calls r b provider c ls new_id now)"

definition handle_order ::
  "delivery_db \<Rightarrow> canonical_order answer \<Rightarrow> unit answer \<Rightarrow> unit answer \<Rightarrow> string \<Rightarrow> uuid \<Rightarrow> string \<Rightarrow> string option \<Rightarrow> bool \<Rightarrow>
   uuid \<Rightarrow> instant \<Rightarrow> job" where
  "handle_order db fetch deny accept provider business external_order_id event_type force_accept new_id now =
     (if event_type \<in> Some ` set cancel_event_types then handle_cancellation db provider business external_order_id now
      else case load_locked_row db business provider external_order_id of
          Inl _ \<Rightarrow> \<lparr>jb_db = db, jb_calls = [], jb_end = Swallowed\<rparr>
        | Inr None \<Rightarrow> nothing_done db
        | Inr (Some r) \<Rightarrow>
            if dl_status r \<noteq> DS_RECEIVED then nothing_done db
            else case find_misconfiguration (connection_of db r) (row_business db business) (event_of db r) provider of
                Some misconfig \<Rightarrow>
                  deny_and_commit db deny [] (r\<lparr>dl_status := DS_FAILED, dl_failure_reason := Some misconfig\<rparr>) misconfig_deny_code
                    (''NextGen configuration issue: '' @ misconfig) now
              | None \<Rightarrow>
                  (case (connection_of db r, row_business db business) of
                     (Some conn, Some b) \<Rightarrow>
                       (let called = [FetchOrder external_order_id] in
                        case fetch of
                          TimedOut \<Rightarrow> commit_job db (write_delivery (r\<lparr>dl_status := DS_RECEIVED\<rparr>) db) called WillRetry
                        | Refused e \<Rightarrow> deny_and_commit db deny called (r\<lparr>dl_status := DS_FETCHING, dl_failure_reason := Some (''fetch_order failed: '' @ e)\<rparr>)
                            ''POS_NOT_READY'' (''NextGen could not fetch this order's details: '' @ e) now
                        | Crashed \<Rightarrow> \<lparr>jb_db = db, jb_calls = called, jb_end = Swallowed\<rparr>
                        | Answered c \<Rightarrow> handle_fetched db deny accept r conn b provider c force_accept new_id now)
                   | _ \<Rightarrow> \<lparr>jb_db = db, jb_calls = [], jb_end = Swallowed\<rparr>))"

end
