(* ===== verification/DeliveryFlow.thy ===== *)
theory DeliveryFlow imports DeliveryOrders begin

text \<open>
  The request half of the marketplace orders: \<^verbatim>\<open>backend/app/delivery/registry.py\<close>,
  \<^verbatim>\<open>tenant_resolver.py\<close> and \<^verbatim>\<open>intake.py\<close>, the deadline watchdog of \<^verbatim>\<open>order_service.py\<close>
  and the handlers of \<^verbatim>\<open>backend/app/api/v1/routes_delivery.py\<close> that change state.  Whether
  the signature verifies, what the adapter parses and whether the queue takes a job are parameters.
\<close>

subsection \<open>Registry and tenant\<close>

definition webhook_enabled_providers :: "string list" where "webhook_enabled_providers = [''UBER_EATS'']"

definition registered_providers :: "string list" where "registered_providers = [''UBER_EATS'', ''MR_D'']"

definition has_provider :: "string \<Rightarrow> bool" where
  "has_provider p = (p \<noteq> [] \<and> upper p \<in> set registered_providers)"

definition is_webhook_enabled :: "string \<Rightarrow> bool" where
  "is_webhook_enabled p = (p \<noteq> [] \<and> upper p \<in> set webhook_enabled_providers)"

definition resolve_delivery_connection :: "delivery_db \<Rightarrow> string \<Rightarrow> string option \<Rightarrow> delivery_connection option result" where
  "resolve_delivery_connection db provider store =
     (if provider = [] \<or> \<not> truthy store then Inr None
      else scalar_one_or_none (filter (\<lambda>c. dc_provider c = provider \<and> dc_external_store_id c = store) (dv_connections db)))"

subsection \<open>The webhook\<close>

record webhook_envelope =
  en_event_id :: string
  en_event_type :: "string option"
  en_external_store_id :: "string option"
  en_external_order_id :: "string option"

record gate_result =
  gr_accepted :: bool
  gr_http_status :: nat
  gr_error_category :: "string option"
  gr_business_id :: "uuid option"
  gr_delivery_connection_id :: "uuid option"
  gr_detail :: "string option"

definition gate :: "bool \<Rightarrow> string option \<Rightarrow> gate_result" where
  "gate accepted category = \<lparr>gr_accepted = accepted, gr_http_status = 200, gr_error_category = category,
     gr_business_id = None, gr_delivery_connection_id = None, gr_detail = None\<rparr>"

datatype queued_job =
    OrderJob string uuid string "string option" bool
  | CancellationJob string uuid string

text \<open>\<open>INSERT ... ON CONFLICT (provider, event_id) DO NOTHING\<close>: the row, and whether it was inserted.\<close>

definition insert_event :: "webhook_event \<Rightarrow> delivery_db \<Rightarrow> delivery_db \<times> bool" where
  "insert_event e db =
     (if \<exists>x \<in> set (dv_events db). we_provider x = we_provider e \<and> we_event_id x = we_event_id e then (db, False)
      else (db\<lparr>dv_events := dv_events db @ [e]\<rparr>, True))"

definition write_event :: "webhook_event \<Rightarrow> delivery_db \<Rightarrow> delivery_db" where
  "write_event e db = db\<lparr>dv_events := update_where (\<lambda>x. we_id x = we_id e) (\<lambda>_. e) (dv_events db)\<rparr>"

definition new_delivery_order :: "uuid \<Rightarrow> uuid \<Rightarrow> string \<Rightarrow> uuid \<Rightarrow> string \<Rightarrow> string option \<Rightarrow> uuid \<Rightarrow> instant \<Rightarrow> delivery_order" where
  "new_delivery_order new_id business provider conn external_order_id store event deadline =
     \<lparr>dl_id = new_id, dl_business_id = business, dl_provider = provider, dl_delivery_connection_id = Some conn,
      dl_external_order_id = external_order_id, dl_external_store_id = dict_get [] store, dl_raw_event_id = Some event,
      dl_status = DS_RECEIVED, dl_order_id = None, dl_accept_deadline_at = Some deadline, dl_accepted_at = None,
      dl_denied_at = None, dl_cancelled_at = None, dl_deny_reason_code = None, dl_deny_reason_text = None,
      dl_gross_cents = None, dl_fee_cents = None, dl_currency = ''ZAR'', dl_placed_at = None,
      dl_fetched_order_snapshot = None, dl_unresolved_items = None, dl_failure_reason = None\<rparr>"

text \<open>\<open>INSERT ... ON CONFLICT (business_id, provider, external_order_id) DO NOTHING\<close>.\<close>

definition insert_delivery_order :: "delivery_order \<Rightarrow> delivery_db \<Rightarrow> delivery_db" where
  "insert_delivery_order r db =
     (if delivery_key r \<in> delivery_key ` set (dv_orders db) then db else db\<lparr>dv_orders := dv_orders db @ [r]\<rparr>)"

record webhook_request =
  wr_provider :: string
  wr_signature_valid :: bool
  wr_envelope :: "webhook_envelope option"
  wr_environment :: "string option"

record webhook_settings =
  st_webhook_enabled :: bool
  st_accept_deadline_seconds :: int

definition event_row :: "webhook_request \<Rightarrow> uuid \<Rightarrow> string \<Rightarrow> bool \<Rightarrow> string \<Rightarrow> instant \<Rightarrow> webhook_event" where
  "event_row q new_id event_id valid category now =
     \<lparr>we_id = new_id, we_provider = wr_provider q, we_event_id = event_id,
      we_external_store_id = Option.bind (wr_envelope q) en_external_store_id, we_business_id = None,
      we_event_type = Option.bind (wr_envelope q) en_event_type, we_environment = wr_environment q,
      we_signature_valid = valid, we_error_category = Some category, we_received_at = now\<rparr>"

definition job_of :: "string \<Rightarrow> uuid \<Rightarrow> string \<Rightarrow> string option \<Rightarrow> queued_job" where
  "job_of provider business external_order_id event_type =
     (if event_type \<in> Some ` set cancel_event_types then CancellationJob provider business external_order_id
      else OrderJob provider business external_order_id event_type False)"

text \<open>
  The fast plane.  A failed flush or commit cannot come from the rows inserted here, which give way to
  any row in their place; \<open>enqueued\<close> tells whether the queue took the job, and when it did not
  nothing is kept, so that the provider may deliver again.  The three identities and the random text are fresh.
\<close>

definition ingest_delivery_webhook ::
  "delivery_db \<Rightarrow> webhook_settings \<Rightarrow> webhook_request \<Rightarrow> bool \<Rightarrow> uuid \<Rightarrow> uuid \<Rightarrow> string \<Rightarrow> instant \<Rightarrow>
   (delivery_db \<times> gate_result \<times> queued_job option) result" where
  "ingest_delivery_webhook db st q enqueued event_id_new order_id_new random now =
     (let provider = wr_provider q in
      if \<not> is_webhook_enabled provider \<or> \<not> st_webhook_enabled st then Inr (db, gate False (Some ''UNSUPPORTED_PROVIDER''), None)
      else if \<not> wr_signature_valid q
      then Inr (fst (insert_event (event_row q event_id_new (''unverified:'' @ random) False ''BAD_SIGNATURE'' now) db),
                gate False (Some ''BAD_SIGNATURE''), None)
      else case wr_envelope q of
          None \<Rightarrow> Inr (fst (insert_event (event_row q event_id_new random True ''UNPARSEABLE_PAYLOAD'' now) db),
                       gate False (Some ''UNPARSEABLE_PAYLOAD''), None)
        | Some env \<Rightarrow>
            if en_event_id env = []
            then Inr (fst (insert_event (event_row (q\<lparr>wr_envelope := None\<rparr>) event_id_new random True ''UNPARSEABLE_PAYLOAD'' now) db),
                      gate False (Some ''UNPARSEABLE_PAYLOAD''), None)
            else
            let e = event_row q event_id_new (en_event_id env) True ''PENDING'' now; (db1, inserted) = insert_event e db
            in if \<not> inserted then Inr (db, (gate True None)\<lparr>gr_detail := Some ''duplicate_event''\<rparr>, None)
               else and_then (resolve_delivery_connection db1 provider (en_external_store_id env)) (\<lambda>conn.
                 case conn of
                   None \<Rightarrow> Inr (write_event (e\<lparr>we_error_category := Some ''UNKNOWN_STORE''\<rparr>) db1, gate True (Some ''UNKNOWN_STORE''), None)
                 | Some c \<Rightarrow>
                     (let db2 = write_event (e\<lparr>we_business_id := Some (dc_business_id c), we_error_category := Some ''OK''\<rparr>) db1;
                          ok = (gate True (Some ''OK''))\<lparr>gr_business_id := Some (dc_business_id c), gr_delivery_connection_id := Some (dc_id c)\<rparr>
                      in if \<not> truthy (en_external_order_id env) then Inr (db2, ok, None)
                         else let oid = the (en_external_order_id env);
                                  db3 = insert_delivery_order (new_delivery_order order_id_new (dc_business_id c) provider (dc_id c) oid
                                          (en_external_store_id env) event_id_new (now + 1000000 * st_accept_deadline_seconds st)) db2
                              in if enqueued then Inr (db3, ok, Some (job_of provider (dc_business_id c) oid (en_event_type env)))
                                 else Inr (db, (gate False (Some ''ENQUEUE_FAILED''))\<lparr>gr_http_status := 503, gr_business_id := Some (dc_business_id c)\<rparr>, None)))
     )"

subsection \<open>The watchdog\<close>

definition open_order_statuses :: "delivery_status list" where
  "open_order_statuses = [DS_RECEIVED, DS_FETCHING, DS_NEEDS_MAPPING, DS_READY_TO_ACCEPT]"

definition watchdog_batch_limit :: nat where "watchdog_batch_limit = 100"

definition watchdog_deny_reason_code :: string where "watchdog_deny_reason_code = ''OTHER''"

definition watchdog_deny_explanation :: string where
  "watchdog_deny_explanation = ''Accept/deny deadline missed -- auto-denied by the accept-deadline watchdog.''"

definition overdue :: "instant \<Rightarrow> int \<Rightarrow> delivery_order \<Rightarrow> bool" where
  "overdue now grace r = (dl_status r \<in> set open_order_statuses \<and>
     (case dl_accept_deadline_at r of None \<Rightarrow> False | Some t \<Rightarrow> t \<le> now - 1000000 * grace))"

text \<open>\<open>ORDER BY accept_deadline_at LIMIT 100 FOR UPDATE SKIP LOCKED\<close>: rows another transaction holds are passed over.\<close>

definition watchdog_rows :: "delivery_db \<Rightarrow> (delivery_order \<Rightarrow> bool) \<Rightarrow> instant \<Rightarrow> int \<Rightarrow> delivery_order list" where
  "watchdog_rows db locked now grace =
     take watchdog_batch_limit (sort_key (\<lambda>r. the (dl_accept_deadline_at r))
       (filter (\<lambda>r. overdue now grace r \<and> \<not> locked r) (dv_orders db)))"

text \<open>
  The rows are denied and committed first; the calls to the provider come after, so that what they
  answer changes nothing.
\<close>

definition accept_deadline_watchdog :: "delivery_db \<Rightarrow> (delivery_order \<Rightarrow> bool) \<Rightarrow> instant \<Rightarrow> int \<Rightarrow> job" where
  "accept_deadline_watchdog db locked now grace =
     (let due = watchdog_rows db locked now grace;
          deny = (\<lambda>r. denied_row r watchdog_deny_reason_code watchdog_deny_explanation now)
      in if due = [] then nothing_done db
         else case commit_delivery (fold (\<lambda>r. write_delivery (deny r)) due db) of
             Inl _ \<Rightarrow> \<lparr>jb_db = db, jb_calls = [], jb_end = Swallowed\<rparr>
           | Inr db' \<Rightarrow> \<lparr>jb_db = db',
               jb_calls = map (\<lambda>r. DenyOrder (dl_external_order_id r) watchdog_deny_reason_code watchdog_deny_explanation)
                            (filter (\<lambda>r. has_provider (dl_provider r)) due),
               jb_end = Finished\<rparr>)"

subsection \<open>Handlers of the dashboard\<close>

definition deny_reason_codes :: "string list" where
  "deny_reason_codes = [''STORE_CLOSED'', ''POS_NOT_READY'', ''POS_OFFLINE'', ''ITEM_AVAILABILITY'', ''MISSING_ITEM'',
     ''MISSING_INFO'', ''PRICING'', ''CAPACITY'', ''ADDRESS'', ''SPECIAL_INSTRUCTIONS'', ''OTHER'']"

definition delivery_shop :: "delivery_db \<Rightarrow> shop_db" where "delivery_shop db = md_shop (dv_market db)"

definition with_shop :: "(shop_db \<Rightarrow> shop_db) \<Rightarrow> delivery_db \<Rightarrow> delivery_db" where
  "with_shop f db = db\<lparr>dv_market := (dv_market db)\<lparr>md_shop := f (md_shop (dv_market db))\<rparr>\<rparr>"

definition require_delivery_module :: "delivery_db \<Rightarrow> uuid \<Rightarrow> business result" where
  "require_delivery_module db business =
     and_then (business_of (delivery_shop db) business) (\<lambda>b.
     and_then (raise_if (\<not> bu_delivery_platforms_enabled b) (AppError ''DELIVERY_NOT_ENABLED'' 409)) (\<lambda>_. Inr b))"

definition load_connection :: "delivery_db \<Rightarrow> uuid \<Rightarrow> string \<Rightarrow> delivery_connection result" where
  "load_connection db business provider =
     and_then (scalar_one_or_none (filter (\<lambda>c. dc_business_id c = business \<and> dc_provider c = provider) (dv_connections db)))
       (\<lambda>row. or_raise row (not_found_error ''Delivery connection''))"

definition write_connection :: "delivery_connection \<Rightarrow> delivery_db \<Rightarrow> delivery_db" where
  "write_connection c db = db\<lparr>dv_connections := update_where (\<lambda>x. dc_id x = dc_id c) (\<lambda>_. c) (dv_connections db)\<rparr>"

text \<open>What the three connection handlers share: guard, load, change, audit, commit.\<close>

definition change_connection ::
  "delivery_db \<Rightarrow> auth_user \<Rightarrow> string \<Rightarrow> (delivery_connection \<Rightarrow> delivery_connection result) \<Rightarrow> string \<Rightarrow> delivery_db result" where
  "change_connection db user provider change action =
     and_then (require_delivery_module db (au_business_id user)) (\<lambda>_.
     and_then (load_connection db (au_business_id user) provider) (\<lambda>c.
     and_then (change c) (\<lambda>c'.
       commit_delivery (with_shop (add_audit (au_business_id user) (Some (au_user_id user)) action (dc_id c)) (write_connection c' db)))))"

definition disable_connection :: "delivery_db \<Rightarrow> auth_user \<Rightarrow> string \<Rightarrow> instant \<Rightarrow> delivery_db result" where
  "disable_connection db user provider now =
     change_connection db user provider (\<lambda>c.
       and_then (raise_if (dc_status c \<in> {CS_NOT_CONNECTED, CS_DISABLED}) (AppError ''DELIVERY_CONNECTION_ALREADY_INACTIVE'' 409)) (\<lambda>_.
         Inr (c\<lparr>dc_status := CS_DISABLED, dc_disconnected_at := Some now\<rparr>))) ''delivery.connection.disabled''"

definition reenabled_text :: string where
  "reenabled_text = ''Re-enabled by business -- awaiting confirmation this connection is still live and approved before it can process real orders.''"

definition enable_connection :: "delivery_db \<Rightarrow> auth_user \<Rightarrow> string \<Rightarrow> delivery_db result" where
  "enable_connection db user provider =
     change_connection db user provider (\<lambda>c.
       and_then (raise_if (dc_status c \<noteq> CS_DISABLED) (AppError ''DELIVERY_CONNECTION_NOT_DISABLED'' 409)) (\<lambda>_.
         Inr (c\<lparr>dc_status := CS_ATTENTION_REQUIRED, dc_disconnected_at := None, dc_error_reason := Some reenabled_text\<rparr>)))
       ''delivery.connection.enable_requested''"

definition set_auto_accept :: "delivery_db \<Rightarrow> auth_user \<Rightarrow> string \<Rightarrow> bool \<Rightarrow> delivery_db result" where
  "set_auto_accept db user provider enabled =
     change_connection db user provider (\<lambda>c. Inr (c\<lparr>dc_auto_accept_enabled := enabled\<rparr>)) ''delivery.connection.auto_accept_changed''"

definition load_delivery_order :: "delivery_db \<Rightarrow> uuid \<Rightarrow> uuid \<Rightarrow> delivery_order result" where
  "load_delivery_order db business oid =
     and_then (scalar_one_or_none (filter (\<lambda>r. dl_id r = oid \<and> dl_business_id r = business) (dv_orders db)))
       (\<lambda>row. or_raise row (not_found_error ''Delivery order''))"

text \<open>
  The staff accept resets the row, commits, and only then hands the job to the queue: the first component
  is the database as it stands whatever the second says.
\<close>

definition accept_order ::
  "delivery_db \<Rightarrow> auth_user \<Rightarrow> uuid \<Rightarrow> bool \<Rightarrow> bool \<Rightarrow> delivery_db \<times> queued_job result" where
  "accept_order db user oid pool_available enqueued =
     (case and_then (require_delivery_module db (au_business_id user)) (\<lambda>_.
           and_then (load_delivery_order db (au_business_id user) oid) (\<lambda>r.
           and_then (raise_if (dl_status r \<notin> {DS_NEEDS_MAPPING, DS_READY_TO_ACCEPT}) (AppError ''DELIVERY_ORDER_NOT_ACCEPTABLE'' 409)) (\<lambda>_.
           and_then (raise_if (\<not> pool_available) (AppError ''DELIVERY_WORKER_UNAVAILABLE'' 503)) (\<lambda>_.
           and_then (commit_delivery (with_shop (add_audit (au_business_id user) (Some (au_user_id user)) ''delivery.order.manual_accept_requested'' (dl_id r))
                       (write_delivery (r\<lparr>dl_status := DS_RECEIVED\<rparr>) db))) (\<lambda>db'. Inr (db', r)))))) of
        Inl e \<Rightarrow> (db, Inl e)
      | Inr (db', r) \<Rightarrow>
          (db', if enqueued then Inr (OrderJob (dl_provider r) (dl_business_id r) (dl_external_order_id r) None (dl_status r = DS_READY_TO_ACCEPT))
                else Inl (AppError ''DELIVERY_WORKER_UNAVAILABLE'' 503)))"

record deny_request =
  dq_reason_code :: string
  dq_notes :: "string option"

definition staff_deny_text :: string where "staff_deny_text = ''Denied by staff via the NextGen dashboard.''"

definition deny_order :: "delivery_db \<Rightarrow> unit answer \<Rightarrow> auth_user \<Rightarrow> uuid \<Rightarrow> deny_request \<Rightarrow> instant \<Rightarrow> (delivery_db \<times> provider_call list) result" where
  "deny_order db deny user oid body now =
     and_then (require_delivery_module db (au_business_id user)) (\<lambda>_.
     and_then (load_delivery_order db (au_business_id user) oid) (\<lambda>r.
     and_then (raise_if (dl_status r \<notin> set open_order_statuses) (AppError ''DELIVERY_ORDER_NOT_DENIABLE'' 409)) (\<lambda>_.
     case issue_deny deny r (dq_reason_code body) (if truthy (dq_notes body) then the (dq_notes body) else staff_deny_text) now of
       (None, _) \<Rightarrow> Inl (AppError ''INTERNAL_SERVER_ERROR'' 500)
     | (Some r', calls) \<Rightarrow>
         and_then (commit_delivery (with_shop (add_audit (au_business_id user) (Some (au_user_id user)) ''delivery.order.manual_deny'' (dl_id r))
                    (write_delivery r' db))) (\<lambda>db'. Inr (db', calls)))))"

record live_mapping_request =
  lq_platform :: string
  lq_kind :: mapping_kind
  lq_external_id :: string
  lq_external_text :: string
  lq_menu_item_id :: "uuid option"
  lq_option_id :: "string option"
  lq_menu_add_on_id :: "uuid option"
  lq_removable_ref_id :: "string option"
  lq_is_ignored :: bool

definition live_target_missing :: "live_mapping_request \<Rightarrow> bool" where
  "live_target_missing q = (\<not> lq_is_ignored q \<and>
     ((lq_kind q = ITEM_MAPPING \<and> lq_menu_item_id q = None) \<or>
      (lq_kind q = MODIFIER_MAPPING \<and> lq_menu_add_on_id q = None \<and> \<not> truthy (lq_removable_ref_id q) \<and> \<not> truthy (lq_option_id q))))"

definition as_duplicate :: "'a result \<Rightarrow> 'a result" where
  "as_duplicate r = (case r of Inl (IntegrityError _) \<Rightarrow> Inl (duplicate_error ''mapping'') | _ \<Rightarrow> r)"

definition upsert_menu_mapping :: "delivery_db \<Rightarrow> auth_user \<Rightarrow> live_mapping_request \<Rightarrow> uuid \<Rightarrow> instant \<Rightarrow> delivery_db result" where
  "upsert_menu_mapping db user q new_id now =
     (let business = au_business_id user; rows = md_mappings (dv_market db);
          same = (\<lambda>m. pm_business_id m = business \<and> pm_platform m = lq_platform q \<and> pm_kind m = lq_kind q \<and> pm_external_id m = Some (lq_external_id q));
          fill = (\<lambda>m. m\<lparr>pm_external_text := lq_external_text q, pm_external_key := normalise_key (lq_external_text q),
             pm_menu_item_id := lq_menu_item_id q, pm_option_id := lq_option_id q, pm_menu_add_on_id := lq_menu_add_on_id q,
             pm_removable_ref_id := lq_removable_ref_id q, pm_is_ignored := lq_is_ignored q,
             pm_status := (if lq_is_ignored q then MS_IGNORED else MS_MAPPED), pm_last_seen_at := Some now\<rparr>);
          new_row = fill \<lparr>pm_id = new_id, pm_business_id = business, pm_platform = lq_platform q, pm_kind = lq_kind q,
             pm_external_text = [], pm_external_key = [], pm_menu_item_id = None, pm_option_id = None, pm_menu_add_on_id = None,
             pm_removable_ref_id = None, pm_is_ignored = False, pm_created_by_user_id = Some (au_user_id user),
             pm_external_id = Some (lq_external_id q), pm_status = MS_MAPPED, pm_last_seen_at = None\<rparr>
      in and_then (require_delivery_module db business) (\<lambda>_.
         and_then (raise_if (live_target_missing q) (AppError ''MAPPING_TARGET_REQUIRED'' 422)) (\<lambda>_.
         and_then (own_targets (dv_market db) business (lq_menu_item_id q) (lq_menu_add_on_id q)) (\<lambda>_.
         and_then (scalar_one_or_none (filter same rows)) (\<lambda>found.
           as_duplicate (commit_delivery (db\<lparr>dv_market := (dv_market db)\<lparr>md_mappings :=
             (case found of None \<Rightarrow> rows @ [new_row] | Some _ \<Rightarrow> update_where same fill rows)\<rparr>\<rparr>)))))))"

end
