(* ===== verification/DeliveryLaws.thy ===== *)
theory DeliveryLaws imports DeliveryFlow ExternalLaws begin

text \<open>
  What the live marketplace orders guarantee: the statuses of a row move along one relation whatever
  the order of webhooks, jobs, staff and watchdog, a sale needs every gate, a webhook is taken once,
  and the watchdog drains what is overdue.
\<close>

subsection \<open>Rows and their changes\<close>

fun delivery_next :: "delivery_status \<Rightarrow> delivery_status list" where
  "delivery_next DS_RECEIVED = [DS_FETCHING, DS_NEEDS_MAPPING, DS_READY_TO_ACCEPT, DS_ACCEPTED, DS_DENIED, DS_CANCELLED]"
| "delivery_next DS_FETCHING = [DS_DENIED, DS_CANCELLED]"
| "delivery_next DS_NEEDS_MAPPING = [DS_RECEIVED, DS_DENIED, DS_CANCELLED]"
| "delivery_next DS_READY_TO_ACCEPT = [DS_RECEIVED, DS_DENIED, DS_CANCELLED]"
| "delivery_next DS_ACCEPTED = [DS_CANCELLED]"
| "delivery_next DS_FULFILLED = [DS_CANCELLED]"
| "delivery_next DS_UNKNOWN = [DS_CANCELLED]"
| "delivery_next DS_DENIED = []"
| "delivery_next DS_CANCELLED = []"
| "delivery_next DS_FAILED = []"

definition moves :: "delivery_status \<Rightarrow> delivery_status \<Rightarrow> bool" where "moves s t = (t \<in> set (delivery_next s))"

text \<open>A row holds no sale before it is accepted, and holds one once it is.\<close>

definition row_typed :: "delivery_order \<Rightarrow> bool" where
  "row_typed r = ((dl_status r \<in> {DS_RECEIVED, DS_NEEDS_MAPPING, DS_READY_TO_ACCEPT} \<longrightarrow> dl_order_id r = None) \<and>
     (dl_status r = DS_ACCEPTED \<longrightarrow> dl_order_id r \<noteq> None))"

definition row_change :: "delivery_order \<Rightarrow> delivery_order \<Rightarrow> bool" where
  "row_change r r' = (dl_id r' = dl_id r \<and> delivery_key r' = delivery_key r \<and> dl_accept_deadline_at r' = dl_accept_deadline_at r \<and>
     (r' = r \<or> moves (dl_status r) (dl_status r')) \<and>
     (dl_order_id r' = dl_order_id r \<or> (dl_order_id r = None \<and> dl_status r = DS_RECEIVED)) \<and> (row_typed r \<longrightarrow> row_typed r'))"

definition replace_row :: "delivery_order \<Rightarrow> delivery_order list \<Rightarrow> delivery_order list" where
  "replace_row r rows = update_where (\<lambda>x. dl_id x = dl_id r) (\<lambda>_. r) rows"

text \<open>The abstract machine: a new row is received, or one row changes.\<close>

inductive rows_step :: "delivery_order list \<Rightarrow> delivery_order list \<Rightarrow> bool" where
  Received: "dl_status r = DS_RECEIVED \<Longrightarrow> dl_order_id r = None \<Longrightarrow> dl_id r \<notin> dl_id ` set rows \<Longrightarrow>
     delivery_key r \<notin> delivery_key ` set rows \<Longrightarrow> rows_step rows (rows @ [r])"
| Changed: "r \<in> set rows \<Longrightarrow> row_change r r' \<Longrightarrow> rows_step rows (replace_row r' rows)"

definition rows_inv :: "delivery_order list \<Rightarrow> bool" where
  "rows_inv rows = (distinct (map dl_id rows) \<and> unique_index delivery_key rows \<and> list_all row_typed rows)"

lemma replace_row_set: "distinct (map dl_id rows) \<Longrightarrow> r \<in> set rows \<Longrightarrow> dl_id r' = dl_id r \<Longrightarrow>
   set (replace_row r' rows) = insert r' (set rows - {r})"
  by (auto simp: replace_row_def set_update_where inj_on_def distinct_map)

lemma replace_row_ids: "map dl_id (replace_row r' rows) = map dl_id rows"
  by (auto simp: replace_row_def map_update_where)

lemma replace_row_keys:
  assumes "distinct (map dl_id rows)" "r \<in> set rows" "row_change r r'"
  shows "map delivery_key (replace_row r' rows) = map delivery_key rows"
proof -
  have "delivery_key x = delivery_key r'" if "x \<in> set rows" "dl_id x = dl_id r'" for x
    using that assms by (auto simp: row_change_def distinct_map inj_on_def)
  then show ?thesis by (auto simp: replace_row_def update_where_def)
qed

lemma unique_index_by_map: "map key xs = map key ys \<Longrightarrow> unique_index key xs = unique_index key ys"
proof -
  have "List.map_filter key zs = List.map_filter id (map key zs)" for zs by (induction zs) (auto split: option.splits)
  then show "map key xs = map key ys \<Longrightarrow> unique_index key xs = unique_index key ys" by (simp add: unique_index_def)
qed

lemma rows_step_inv:
  assumes "rows_step rows rows'" "rows_inv rows"
  shows "rows_inv rows'"
  using assms
proof (cases rule: rows_step.cases)
  case (Received r)
  then show ?thesis using assms(2) by (auto simp: rows_inv_def unique_index_snoc row_typed_def delivery_key_def image_iff)
next
  case (Changed r r')
  have d: "distinct (map dl_id rows)" using assms(2) by (simp add: rows_inv_def)
  have "list_all row_typed rows'"
    using Changed assms(2) replace_row_set[OF d Changed(2)] by (auto simp: rows_inv_def list_all_iff row_change_def)
  moreover have "unique_index delivery_key rows' = unique_index delivery_key rows"
    using replace_row_keys[OF d Changed(2,3)] Changed(1) unique_index_by_map by blast
  ultimately show ?thesis using assms(2) Changed(1) by (simp add: rows_inv_def replace_row_ids)
qed

subsection \<open>The operations on the rows\<close>

definition touches :: "delivery_order list \<Rightarrow> delivery_order list \<Rightarrow> bool" where
  "touches rows rows' = (rows' = rows \<or> (\<exists>r \<in> set rows. \<exists>r'. row_change r r' \<and> rows' = replace_row r' rows))"

lemma touches_steps: "touches rows rows' \<Longrightarrow> rows_step\<^sup>*\<^sup>* rows rows'"
  unfolding touches_def by (auto intro: rows_step.Changed)

lemma write_delivery_orders [simp]: "dv_orders (write_delivery r db) = replace_row r (dv_orders db)"
  by (simp add: write_delivery_def replace_row_def)

lemma replace_row_twice: "dl_id r' = dl_id r \<Longrightarrow> replace_row r' (replace_row r rows) = replace_row r' rows"
  by (auto simp: replace_row_def update_where_def)

lemma commit_job_cases: "jb_db (commit_job old db calls how) = (if delivery_ok db then db else old)"
  by (simp add: commit_job_def commit_delivery_eq split: sum.split)
     (metis commit_delivery_eq obj_sumE sum.distinct(1))

lemma touch_commit:
  assumes "r \<in> set (dv_orders old)" "row_change r r'" "dv_orders db = replace_row r' (dv_orders old)"
  shows "touches (dv_orders old) (dv_orders (jb_db (commit_job old db calls how)))"
  using assms by (auto simp: commit_job_cases touches_def)

lemma load_locked_row_in: "load_locked_row db business provider i = Inr (Some r) \<Longrightarrow>
   r \<in> set (dv_orders db) \<and> dl_business_id r = business \<and> dl_provider r = provider \<and> dl_external_order_id r = i"
  unfolding load_locked_row_def by (drule scalar_one_or_none_filter) auto

lemmas row_simps = row_change_def moves_def row_typed_def delivery_key_def denied_row_def fetched_row_def

lemma touch_deny:
  assumes "r \<in> set (dv_orders db)" "dl_status r \<in> {DS_RECEIVED, DS_FETCHING, DS_NEEDS_MAPPING, DS_READY_TO_ACCEPT}"
    and "dl_id r1 = dl_id r" "delivery_key r1 = delivery_key r" "dl_accept_deadline_at r1 = dl_accept_deadline_at r" "dl_order_id r1 = dl_order_id r"
  shows "touches (dv_orders db) (dv_orders (jb_db (deny_and_commit db deny calls r1 code explanation now)))"
proof (cases "deny = Crashed")
  case True
  then show ?thesis by (simp add: deny_and_commit_def issue_deny_def touches_def)
next
  case False
  have "row_change r (denied_row r1 code explanation now)" using assms by (auto simp: row_simps)
  from touch_commit[OF assms(1) this] False show ?thesis by (simp add: deny_and_commit_def issue_deny_def)
qed

lemma cancellation_touches:
  "touches (dv_orders db) (dv_orders (jb_db (handle_cancellation db provider business i now)))"
proof (cases "load_locked_row db business provider i")
  case (Inr x)
  show ?thesis
  proof (cases x)
    case None
    then show ?thesis using Inr by (simp add: handle_cancellation_def nothing_done_def touches_def)
  next
    case (Some r)
    note r = load_locked_row_in[OF Inr[unfolded Some]]
    let ?r = "r\<lparr>dl_status := DS_CANCELLED, dl_cancelled_at := Some now\<rparr>"
    show ?thesis
    proof (cases "dl_status r \<in> {DS_CANCELLED, DS_DENIED, DS_FAILED}")
      case True
      then show ?thesis using Inr Some by (simp add: handle_cancellation_def nothing_done_def touches_def)
    next
      case False
      then have "row_change r ?r" by (cases "dl_status r") (auto simp: row_simps)
      with r touch_commit False Inr Some show ?thesis
        by (auto simp: handle_cancellation_def Let_def split: option.splits)
    qed
  qed
qed (simp add: handle_cancellation_def touches_def)

lemma create_order_from_canonical_id: "create_order_from_canonical shop b provider c ls new_id now = Inr (shop', o1) \<Longrightarrow> or_id o1 = new_id"
  by (auto simp: create_order_from_canonical_def and_then_eq_Inr Let_def delivery_sale_def new_order_def)

lemma accept_fetched_touches:
  assumes "r \<in> set (dv_orders db)" "dl_status r = DS_RECEIVED" "row_typed r"
    and r1: "dl_id r1 = dl_id r" "delivery_key r1 = delivery_key r" "dl_accept_deadline_at r1 = dl_accept_deadline_at r"
      "dl_order_id r1 = dl_order_id r" "dl_status r1 = DS_FETCHING"
  shows "touches (dv_orders db) (dv_orders (jb_db (accept_fetched db accept calls r1 b provider c ls new_id now)))"
proof -
  let ?flushed = "and_then (create_order_from_canonical (md_shop (dv_market db)) b provider c ls new_id now) (\<lambda>(shop, o1).
       commit_delivery (write_delivery (r1\<lparr>dl_order_id := Some (or_id o1)\<rparr>) (db\<lparr>dv_market := (dv_market db)\<lparr>md_shop := shop\<rparr>\<rparr>)))"
  show ?thesis
  proof (cases ?flushed)
    case (Inl e)
    then show ?thesis by (simp add: accept_fetched_def touches_def)
  next
    case (Inr flushed)
    then have f: "dv_orders flushed = replace_row (r1\<lparr>dl_order_id := Some new_id\<rparr>) (dv_orders db)"
      by (auto simp: and_then_eq_Inr commit_delivery_eq create_order_from_canonical_id split: prod.splits)
    have rows: "replace_row r2 (dv_orders flushed) = replace_row r2 (dv_orders db)" if "dl_id r2 = dl_id r" for r2
      using that r1(1) by (simp add: f replace_row_twice)
    have "row_change r (r1\<lparr>dl_order_id := Some new_id, dl_status := DS_ACCEPTED, dl_accepted_at := Some now\<rparr>)"
      "row_change r (r1\<lparr>dl_order_id := Some new_id, dl_failure_reason := f\<rparr>)" for f
      using assms by (auto simp: row_simps)
    note t = touch_commit[OF assms(1) this(1)] touch_commit[OF assms(1) this(2)]
    show ?thesis
      using Inr t rows r1(1)
      by (cases accept) (simp_all add: accept_fetched_def Let_def touches_def [of _ "dv_orders db"])
  qed
qed

lemma touches_if: "touches rows (dv_orders (jb_db x)) \<Longrightarrow> touches rows (dv_orders (jb_db y)) \<Longrightarrow>
   touches rows (dv_orders (jb_db (if b then x else y)))"
  by simp

lemma handle_fetched_touches:
  assumes "r \<in> set (dv_orders db)" "dl_status r = DS_RECEIVED" "row_typed r"
  shows "touches (dv_orders db) (dv_orders (jb_db (handle_fetched db deny accept r conn b provider c force new_id now)))"
proof -
  let ?r = "fetched_row (r\<lparr>dl_status := DS_FETCHING\<rparr>) c"
  have "row_change r (?r\<lparr>dl_status := DS_NEEDS_MAPPING, dl_unresolved_items := u\<rparr>)" "row_change r (?r\<lparr>dl_status := DS_READY_TO_ACCEPT\<rparr>)" for u
    using assms by (auto simp: row_simps)
  note t = touch_commit[OF assms(1) this(1)] touch_commit[OF assms(1) this(2)]
  have d: "touches (dv_orders db) (dv_orders (jb_db (deny_and_commit db deny calls (?r\<lparr>dl_failure_reason := f\<rparr>) code explanation now)))"
    for calls f code explanation using assms by (intro touch_deny) (auto simp: row_simps)
  have a: "touches (dv_orders db) (dv_orders (jb_db (accept_fetched db accept calls ?r b provider c ls new_id now)))" for calls ls
    using assms by (intro accept_fetched_touches) (auto simp: row_simps)
  show ?thesis unfolding handle_fetched_def Let_def by (intro touches_if d a t) simp_all
qed

lemma handle_order_touches:
  assumes "list_all row_typed (dv_orders db)"
  shows "touches (dv_orders db) (dv_orders (jb_db (handle_order db fetch deny accept provider business i event_type force new_id now)))"
proof (cases "event_type \<in> Some ` set cancel_event_types")
  case True
  then show ?thesis by (simp add: handle_order_def cancellation_touches)
next
  case event: False
  show ?thesis
  proof (cases "\<exists>r. load_locked_row db business provider i = Inr (Some r) \<and> dl_status r = DS_RECEIVED")
    case False
    with event show ?thesis
      by (auto simp: handle_order_def nothing_done_def touches_def split: sum.splits option.splits)
  next
    case True
    then obtain r where r: "load_locked_row db business provider i = Inr (Some r)" "dl_status r = DS_RECEIVED" by blast
    then have "r \<in> set (dv_orders db)" using load_locked_row_in by blast
    with assms have row: "r \<in> set (dv_orders db)" "row_typed r" by (auto simp: list_all_iff)
    have d: "touches (dv_orders db) (dv_orders (jb_db (deny_and_commit db deny calls (r\<lparr>dl_status := s, dl_failure_reason := f\<rparr>) code explanation now)))"
      for calls s f code explanation using row r by (intro touch_deny) (auto simp: row_simps)
    have "row_change r (r\<lparr>dl_status := DS_RECEIVED\<rparr>)" using r by (simp add: row_change_def delivery_key_def row_typed_def)
    note t = touch_commit[OF row(1) this]
    have keep: "touches (dv_orders db) (dv_orders db)" by (simp add: touches_def)
    show ?thesis using event r d t keep handle_fetched_touches[OF row(1) r(2) row(2)]
      by (simp add: handle_order_def Let_def split: option.split answer.split)
  qed
qed

subsection \<open>Watchdog, staff and webhook\<close>

lemma open_statuses [simp]: "dl_status r \<in> set open_order_statuses \<longleftrightarrow> dl_status r \<in> {DS_RECEIVED, DS_FETCHING, DS_NEEDS_MAPPING, DS_READY_TO_ACCEPT}"
  by (simp add: open_order_statuses_def)

lemma watchdog_rows_sound:
  assumes "r \<in> set (watchdog_rows db locked now grace)"
  shows "r \<in> set (dv_orders db)" "overdue now grace r"
  using in_set_takeD[OF assms[unfolded watchdog_rows_def]] by auto

lemma watchdog_rows_distinct: "distinct (map dl_id (dv_orders db)) \<Longrightarrow> distinct (map dl_id (watchdog_rows db locked now grace))"
  by (auto simp: watchdog_rows_def distinct_map intro!: inj_on_subset[of dl_id "set (dv_orders db)"] dest: in_set_takeD)

lemma fold_write_orders:
  "dv_orders (fold (\<lambda>r. write_delivery (f r)) rs db) = fold (\<lambda>r. replace_row (f r)) rs (dv_orders db)"
  by (induction rs arbitrary: db) simp_all

lemma fold_rows_steps:
  assumes "distinct (map dl_id rows)" "distinct (map dl_id rs)" "set rs \<subseteq> set rows" "\<forall>r \<in> set rs. row_change r (f r)"
  shows "rows_step\<^sup>*\<^sup>* rows (fold (\<lambda>r. replace_row (f r)) rs rows)"
  using assms
proof (induction rs arbitrary: rows)
  case (Cons r rs)
  let ?rows = "replace_row (f r) rows"
  have id: "dl_id (f r) = dl_id r" using Cons.prems(4) by (simp add: row_change_def)
  have s: "rows_step rows ?rows" using Cons.prems by (auto intro: rows_step.Changed)
  have "set ?rows = insert (f r) (set rows - {r})" using Cons.prems(1,3) id by (intro replace_row_set) auto
  moreover have "r \<notin> set rs" using Cons.prems(2) by auto
  ultimately have "set rs \<subseteq> set ?rows" using Cons.prems(3) by auto
  then have "rows_step\<^sup>*\<^sup>* ?rows (fold (\<lambda>r. replace_row (f r)) rs ?rows)"
    using Cons.prems by (intro Cons.IH) (auto simp: replace_row_ids)
  with s show ?case by (simp add: converse_rtranclp_into_rtranclp)
qed simp

lemma watchdog_steps:
  assumes "distinct (map dl_id (dv_orders db))"
  shows "rows_step\<^sup>*\<^sup>* (dv_orders db) (dv_orders (jb_db (accept_deadline_watchdog db locked now grace)))"
proof -
  let ?due = "watchdog_rows db locked now grace" and ?deny = "\<lambda>r. denied_row r watchdog_deny_reason_code watchdog_deny_explanation now"
  have "rows_step\<^sup>*\<^sup>* (dv_orders db) (fold (\<lambda>r. replace_row (?deny r)) ?due (dv_orders db))"
    proof (intro fold_rows_steps assms watchdog_rows_distinct ballI subsetI, goal_cases)
    case (2 r)
    from watchdog_rows_sound(2)[OF 2] show ?case by (auto simp: overdue_def row_simps)
  qed (rule watchdog_rows_sound)
  then show ?thesis
    by (auto simp: accept_deadline_watchdog_def Let_def nothing_done_def commit_delivery_eq fold_write_orders split: sum.split)
qed

lemma load_delivery_order_in: "load_delivery_order db business oid = Inr r \<Longrightarrow> r \<in> set (dv_orders db) \<and> dl_id r = oid \<and> dl_business_id r = business"
  unfolding load_delivery_order_def and_then_eq_Inr or_raise_eq_Inr by (elim exE conjE, simp) (drule scalar_one_or_none_filter, auto)

lemma with_shop_orders [simp]: "dv_orders (with_shop f db) = dv_orders db"
  by (simp add: with_shop_def)

lemma commit_delivery_ok: "delivery_ok db \<Longrightarrow> commit_delivery db = Inr db"
  by (simp add: commit_delivery_eq)

lemma accept_order_touches:
  assumes "list_all row_typed (dv_orders db)"
  shows "touches (dv_orders db) (dv_orders (fst (accept_order db user oid pool enqueued)))"
proof (cases "fst (accept_order db user oid pool enqueued) = db")
  case False
  then obtain r where r: "load_delivery_order db (au_business_id user) oid = Inr r" "dl_status r \<in> {DS_NEEDS_MAPPING, DS_READY_TO_ACCEPT}"
    "dv_orders (fst (accept_order db user oid pool enqueued)) = replace_row (r\<lparr>dl_status := DS_RECEIVED\<rparr>) (dv_orders db)"
    by (auto simp: accept_order_def and_then_eq_Inr commit_delivery_eq commit_delivery_ok split: sum.splits)
  note i = load_delivery_order_in[OF r(1)]
  with assms have "row_typed r" by (auto simp: list_all_iff)
  with r(2) have "row_change r (r\<lparr>dl_status := DS_RECEIVED\<rparr>)" by (auto simp: row_simps)
  with i r(3) show ?thesis by (auto simp: touches_def)
qed (simp add: touches_def)

lemma deny_order_touches:
  assumes "deny_order db deny user oid body now = Inr (db', calls)"
  shows "touches (dv_orders db) (dv_orders db')"
proof -
  obtain r code why where r: "load_delivery_order db (au_business_id user) oid = Inr r" "dl_status r \<in> set open_order_statuses"
    "dv_orders db' = replace_row (denied_row r code why now) (dv_orders db)"
    using assms by (auto simp: deny_order_def and_then_eq_Inr commit_delivery_eq issue_deny_def split: if_splits)
  then have "row_change r (denied_row r code why now)" by (auto simp: row_simps)
  with load_delivery_order_in[OF r(1)] r(3) show ?thesis by (auto simp: touches_def)
qed

lemma event_orders [simp]: "dv_orders (fst (insert_event e db)) = dv_orders db" "dv_orders (write_event e db) = dv_orders db"
  by (auto simp: insert_event_def write_event_def)

lemma insert_delivery_order_steps:
  assumes "dl_status r = DS_RECEIVED" "dl_order_id r = None" "dl_id r \<notin> dl_id ` set (dv_orders db)"
  shows "rows_step\<^sup>*\<^sup>* (dv_orders db) (dv_orders (insert_delivery_order r db))"
  using rows_step.Received[OF assms] by (auto simp: insert_delivery_order_def)

lemma webhook_steps:
  assumes "ingest_delivery_webhook db st q enqueued event_id order_id random now = Inr (db', g, queued)" "order_id \<notin> dl_id ` set (dv_orders db)"
  shows "rows_step\<^sup>*\<^sup>* (dv_orders db) (dv_orders db')"
proof -
  have "rows_step\<^sup>*\<^sup>* (dv_orders db) (dv_orders (insert_delivery_order (new_delivery_order order_id b p c i s e d) (write_event e1 (fst (insert_event e2 db)))))"
    for b p c i s e d e1 e2
    using insert_delivery_order_steps[of "new_delivery_order order_id b p c i s e d" "write_event e1 (fst (insert_event e2 db))"] assms(2)
    by (simp add: new_delivery_order_def)
  then show ?thesis using assms(1)
    by (auto simp: ingest_delivery_webhook_def Let_def and_then_eq_Inr case_prod_beta split: if_splits option.splits)
qed

subsection \<open>Runs\<close>

text \<open>
  Any interleaving of webhooks, jobs, watchdog and staff; the rest of the program leaves the rows of
  the marketplaces alone.
\<close>

inductive delivery_step :: "delivery_db \<Rightarrow> delivery_db \<Rightarrow> bool" where
  Webhook: "ingest_delivery_webhook db st q enqueued event_id order_id random now = Inr (db', g, queued) \<Longrightarrow>
     order_id \<notin> dl_id ` set (dv_orders db) \<Longrightarrow> delivery_step db db'"
| OrderRun: "delivery_step db (jb_db (handle_order db fetch deny accept provider business i event_type force new_id now))"
| CancelRun: "delivery_step db (jb_db (handle_cancellation db provider business i now))"
| Watchdog: "delivery_step db (jb_db (accept_deadline_watchdog db locked now grace))"
| StaffAccept: "delivery_step db (fst (accept_order db user oid pool enqueued))"
| StaffDeny: "deny_order db deny user oid body now = Inr (db', calls) \<Longrightarrow> delivery_step db db'"
| Elsewhere: "dv_orders db' = dv_orders db \<Longrightarrow> delivery_step db db'"

lemma delivery_refines_rows: "delivery_step db db' \<Longrightarrow> rows_inv (dv_orders db) \<Longrightarrow> rows_step\<^sup>*\<^sup>* (dv_orders db) (dv_orders db')"
  by (induction rule: delivery_step.induct)
     (auto simp: rows_inv_def webhook_steps watchdog_steps touches_steps handle_order_touches cancellation_touches accept_order_touches deny_order_touches)

lemma rows_steps_inv: "rows_step\<^sup>*\<^sup>* rows rows' \<Longrightarrow> rows_inv rows \<Longrightarrow> rows_inv rows'"
  by (induction rule: rtranclp_induct) (auto intro: rows_step_inv)

lemma delivery_run_rows: "delivery_step\<^sup>*\<^sup>* db db' \<Longrightarrow> rows_inv (dv_orders db) \<Longrightarrow> rows_step\<^sup>*\<^sup>* (dv_orders db) (dv_orders db')"
proof (induction rule: rtranclp_induct)
  case (step db1 db2)
  then show ?case using delivery_refines_rows[OF step.hyps(2)] rows_steps_inv by (meson rtranclp_trans)
qed simp

lemma rows_step_follow:
  assumes "rows_step rows rows'" "rows_inv rows" "r \<in> set rows"
  shows "\<exists>r' \<in> set rows'. row_change r r'"
  using assms(1)
proof (cases rule: rows_step.cases)
  case (Received x)
  then show ?thesis using assms(3) by (auto simp: row_change_def)
next
  case (Changed x x')
  have "set rows' = insert x' (set rows - {x})"
    unfolding Changed(1) using Changed assms(2) by (intro replace_row_set) (simp_all add: rows_inv_def row_change_def)
  then show ?thesis using Changed assms(3) by (cases "x = r") (auto simp: row_change_def)
qed

lemma rows_steps_follow: "rows_step\<^sup>*\<^sup>* rows rows' \<Longrightarrow> rows_inv rows \<Longrightarrow> r \<in> set rows \<Longrightarrow> \<exists>r' \<in> set rows'. row_change\<^sup>*\<^sup>* r r'"
proof (induction rule: rtranclp_induct)
  case (step rows1 rows2)
  then show ?case using rows_step_follow[OF step.hyps(2)] rows_steps_inv by (meson rtranclp.rtrancl_into_rtrancl)
qed auto

lemma row_path_facts:
  assumes "row_change\<^sup>*\<^sup>* r r'"
  shows "dl_id r' = dl_id r \<and> delivery_key r' = delivery_key r \<and> moves\<^sup>*\<^sup>* (dl_status r) (dl_status r') \<and>
     (\<forall>oid. dl_order_id r = Some oid \<longrightarrow> dl_order_id r' = Some oid)"
  using assms by (induction rule: rtranclp_induct) (auto simp: row_change_def)

lemma row_path_final: "row_change\<^sup>*\<^sup>* r r' \<Longrightarrow> dl_status r \<in> {DS_DENIED, DS_CANCELLED} \<Longrightarrow> r' = r"
  by (induction rule: rtranclp_induct) (auto simp: row_change_def moves_def)

text \<open>
  C11: Whatever the order in which webhooks are delivered, jobs run, staff act and the watchdog ticks,
  the identities and the (business, provider, order) keys of the marketplace rows stay unique, a row
  holds a sale once it is accepted and none while it waits, and every row is still there afterwards:
  under its identity and key, in a status the transition relation reaches from the old one, with
  the sale it had, and unchanged if it was denied or cancelled.
\<close>

theorem delivery_status_machine:
  assumes "delivery_step\<^sup>*\<^sup>* db db'" "rows_inv (dv_orders db)"
  shows "rows_inv (dv_orders db') \<and> (\<forall>r \<in> set (dv_orders db). \<exists>r' \<in> set (dv_orders db').
     dl_id r' = dl_id r \<and> delivery_key r' = delivery_key r \<and> moves\<^sup>*\<^sup>* (dl_status r) (dl_status r') \<and>
     (\<forall>oid. dl_order_id r = Some oid \<longrightarrow> dl_order_id r' = Some oid) \<and>
     (dl_status r \<in> {DS_DENIED, DS_CANCELLED} \<longrightarrow> r' = r))"
proof -
  note steps = delivery_run_rows[OF assms]
  then show ?thesis
    using rows_steps_inv[OF steps assms(2)] rows_steps_follow[OF steps assms(2)] row_path_facts row_path_final by meson
qed

subsection \<open>What a sale needs\<close>

definition gates_open :: "delivery_db \<Rightarrow> delivery_order \<Rightarrow> delivery_connection \<Rightarrow> business \<Rightarrow> string \<Rightarrow> canonical_order \<Rightarrow> bool \<Rightarrow> bool" where
  "gates_open db r conn b provider c force =
     (dl_status r = DS_RECEIVED \<and> dc_status conn = CS_CONNECTED \<and> bu_is_active b \<and> is_provider_entitled (Some b) provider \<and>
      (\<forall>e env. event_of db r = Some e \<longrightarrow> we_environment e = Some env \<longrightarrow> env \<noteq> [] \<longrightarrow> env = dc_environment conn) \<and>
      (\<exists>gross. cn_total_cents c = Some gross \<and> 0 < gross) \<and>
      \<not> resolution_blocks (resolve_delivery_lines (dv_market db) (dl_business_id r) provider c) \<and> (force \<or> dc_auto_accept_enabled conn))"

text \<open>The one sale a job may add.\<close>

definition sale_booked :: "delivery_db \<Rightarrow> delivery_db \<Rightarrow> delivery_order \<Rightarrow> business \<Rightarrow> canonical_order \<Rightarrow> uuid \<Rightarrow> bool" where
  "sale_booked db db' r b c new_id =
     (\<exists>o1. sh_orders (delivery_shop db') = sh_orders (delivery_shop db) @ [o1] \<and> or_id o1 = new_id \<and> or_business_id o1 = bu_id b \<and>
        Some (or_total_cents o1) = cn_total_cents c \<and> or_subtotal_cents o1 = or_total_cents o1 \<and> or_payment_status o1 = PS_PAID \<and>
        tax_inside b o1 \<and> (\<exists>r' \<in> set (dv_orders db'). dl_id r' = dl_id r \<and> dl_order_id r' = Some new_id))"

lemma write_delivery_market [simp]: "dv_market (write_delivery r db) = dv_market db"
  by (simp add: write_delivery_def)

lemma commit_job_market: "dv_market db' = dv_market db \<Longrightarrow> dv_market (jb_db (commit_job db db' calls how)) = dv_market db"
  by (simp add: commit_job_cases)

lemma deny_and_commit_market [simp]: "dv_market (jb_db (deny_and_commit db deny calls r code explanation now)) = dv_market db"
  by (simp add: deny_and_commit_def issue_deny_def commit_job_market)

lemma delivery_tax: "delivery_vat b (dict_get 0 (cn_total_cents c)) = Inr vat \<Longrightarrow> tax_inside b (delivery_sale b provider c oid now vat)"
  using vat_amount_bounds by (auto simp: tax_inside_def delivery_sale_def new_order_def delivery_vat_def Let_def calculate_vat_exact split: if_splits)

lemma take_delivery_stock_orders: "take_delivery_stock db b oid kept at now = Inr db' \<Longrightarrow> sh_orders db' = sh_orders db"
  by (auto simp: take_delivery_stock_def and_then_eq_Inr split: if_splits)

lemma create_order_from_canonical_sale:
  assumes "create_order_from_canonical shop b provider c ls oid now = Inr (shop', o1)" "cn_total_cents c = Some gross"
  shows "sh_orders shop' = sh_orders shop @ [o1] \<and> or_id o1 = oid \<and> or_business_id o1 = bu_id b \<and> or_total_cents o1 = gross \<and>
     or_subtotal_cents o1 = gross \<and> or_payment_status o1 = PS_PAID \<and> tax_inside b o1"
  using assms delivery_tax[of b c]
  by (auto simp: create_order_from_canonical_def and_then_eq_Inr Let_def add_order_def add_event_def dest!: take_delivery_stock_orders)
     (auto simp: delivery_sale_def new_order_def Let_def dict_get_def)

definition with_sale :: "delivery_db \<Rightarrow> shop_db \<Rightarrow> delivery_db" where
  "with_sale db shop = db\<lparr>dv_market := (dv_market db)\<lparr>md_shop := shop\<rparr>\<rparr>"

lemma with_sale_fields [simp]: "dv_orders (with_sale db shop) = dv_orders db" "delivery_shop (with_sale db shop) = shop"
  "delivery_shop (write_delivery r db) = delivery_shop db"
  by (simp_all add: with_sale_def delivery_shop_def)

lemma accept_fetched_cases:
  fixes db calls r1 b c ls new_id now accept provider
  defines "j \<equiv> accept_fetched db accept calls r1 b provider c ls new_id now"
  shows "jb_db j = db \<or> (\<exists>shop o1 r' r''. create_order_from_canonical (md_shop (dv_market db)) b provider c ls new_id now = Inr (shop, o1) \<and>
     dl_id r' = dl_id r1 \<and> dl_id r'' = dl_id r1 \<and> dl_order_id r' = Some new_id \<and> jb_db j = write_delivery r' (write_delivery r'' (with_sale db shop)))"
proof (cases "create_order_from_canonical (md_shop (dv_market db)) b provider c ls new_id now")
  case (Inl e)
  then show ?thesis by (simp add: j_def accept_fetched_def)
next
  case (Inr p)
  then obtain shop o1 where p: "create_order_from_canonical (md_shop (dv_market db)) b provider c ls new_id now = Inr (shop, o1)"
    by (cases p) auto
  let ?flushed = "write_delivery (r1\<lparr>dl_order_id := Some (or_id o1)\<rparr>) (with_sale db shop)"
  show ?thesis
  proof (cases "commit_delivery ?flushed")
    case (Inl e)
    with p show ?thesis by (simp add: j_def accept_fetched_def with_sale_def)
  next
    case (Inr flushed)
    then have f: "flushed = ?flushed" by (simp add: commit_delivery_eq)
    have "jb_db j \<in> insert db {write_delivery (r1\<lparr>dl_order_id := Some new_id, dl_status := DS_ACCEPTED, dl_accepted_at := Some now\<rparr>) ?flushed,
        write_delivery (r1\<lparr>dl_order_id := Some new_id, dl_failure_reason := Some ''accept_pos_order call failed after the sale was created locally''\<rparr>) ?flushed}"
      using p Inr[unfolded f] by (cases accept) (simp_all add: j_def accept_fetched_def with_sale_def commit_job_cases Let_def)
    moreover have "\<exists>shop o1 r' r''. create_order_from_canonical (md_shop (dv_market db)) b provider c ls new_id now = Inr (shop, o1) \<and>
        dl_id r' = dl_id r1 \<and> dl_id r'' = dl_id r1 \<and> dl_order_id r' = Some new_id \<and> write_delivery y ?flushed = write_delivery r' (write_delivery r'' (with_sale db shop))"
      if "dl_id y = dl_id r1" "dl_order_id y = Some new_id" for y
      using p that by (intro exI[of _ shop] exI[of _ o1] exI[of _ y] exI[of _ "r1\<lparr>dl_order_id := Some (or_id o1)\<rparr>"]) simp
    ultimately show ?thesis by auto
  qed
qed

lemma accept_fetched_books:
  fixes db calls r1 b c ls new_id now accept provider
  defines "j \<equiv> accept_fetched db accept calls r1 b provider c ls new_id now"
  assumes "r \<in> set (dv_orders db)" "dl_id r1 = dl_id r" "cn_total_cents c = Some gross" "jb_db j \<noteq> db"
  shows "sale_booked db (jb_db j) r b c new_id"
proof -
  obtain shop o1 r' r'' where d: "create_order_from_canonical (md_shop (dv_market db)) b provider c ls new_id now = Inr (shop, o1)"
    "dl_id r' = dl_id r1" "dl_id r'' = dl_id r1" "dl_order_id r' = Some new_id" "jb_db j = write_delivery r' (write_delivery r'' (with_sale db shop))"
    using accept_fetched_cases[of db accept calls r1 b provider c ls new_id now] assms(5) unfolding j_def by blast
  have "r' \<in> set (dv_orders (jb_db j))"
    using assms(2,3) d(2,3) by (auto simp: d(5) replace_row_twice) (auto simp: replace_row_def set_update_where)
  then show ?thesis
    using create_order_from_canonical_sale[OF d(1) assms(4)] d(2,4) assms(3,4)
    by (auto simp: sale_booked_def d(5) delivery_shop_def[of db])
qed

lemma find_misconfiguration_none: "find_misconfiguration (Some conn) (Some b) e provider = None \<Longrightarrow>
   dc_status conn = CS_CONNECTED \<and> bu_is_active b \<and> is_provider_entitled (Some b) provider \<and>
   (\<forall>ev env. e = Some ev \<longrightarrow> we_environment ev = Some env \<longrightarrow> env \<noteq> [] \<longrightarrow> env = dc_environment conn)"
  by (auto simp: find_misconfiguration_def is_connection_live_def truthy_def split: if_splits option.splits)

lemma handle_fetched_books:
  fixes db deny accept r conn b provider c force new_id now
  defines "j \<equiv> handle_fetched db deny accept r conn b provider c force new_id now"
  assumes "r \<in> set (dv_orders db)" "dv_market (jb_db j) \<noteq> dv_market db"
  shows "(\<exists>gross. cn_total_cents c = Some gross \<and> 0 < gross) \<and> (force \<or> dc_auto_accept_enabled conn) \<and>
     \<not> resolution_blocks (resolve_delivery_lines (dv_market db) (dl_business_id r) provider c) \<and> sale_booked db (jb_db j) r b c new_id"
proof -
  let ?r = "fetched_row (r\<lparr>dl_status := DS_FETCHING\<rparr>) c" and ?ls = "resolve_delivery_lines (dv_market db) (dl_business_id r) provider c"
  have m: "dl_id ?r = dl_id r" "dl_business_id ?r = dl_business_id r" by (simp_all add: fetched_row_def)
  have j: "\<exists>gross. cn_total_cents c = Some gross \<and> 0 < gross" "force \<or> dc_auto_accept_enabled conn" "\<not> resolution_blocks ?ls"
    "j = accept_fetched db accept [FetchOrder (dl_external_order_id ?r)] ?r b provider c ?ls new_id now"
    using assms(3) unfolding j_def handle_fetched_def Let_def
    by (auto simp: m commit_job_market not_le split: if_splits option.splits)
  then obtain gross where gross: "cn_total_cents c = Some gross" by blast
  have "jb_db j \<noteq> db" using assms(3) by auto
  with accept_fetched_books[OF assms(2) m(1) gross] have "sale_booked db (jb_db j) r b c new_id" unfolding j(4) by blast
  with j show ?thesis by blast
qed

text \<open>
  C4: A job that is no cancellation adds a sale only if the row was waiting and every gate is open:
  the connection live and of the environment of the event, the business active and entitled to the
  platform, a positive total, every line and modifier resolved, and staff or the connection's own
  setting accepting; and then it adds exactly one, paid, with the total the platform states and the tax
  inside it, linked from the row.  Everything else it leaves of the shop and its mappings as it was.
\<close>

theorem delivery_sale_needs_every_gate:
  fixes db fetch deny accept provider business i event_type force new_id now
  defines "db' \<equiv> jb_db (handle_order db fetch deny accept provider business i event_type force new_id now)"
  assumes "event_type \<notin> Some ` set cancel_event_types"
  shows "dv_market db' = dv_market db \<or>
     (\<exists>r conn b c. load_locked_row db business provider i = Inr (Some r) \<and> connection_of db r = Some conn \<and>
        row_business db business = Some b \<and> fetch = Answered c \<and> gates_open db r conn b provider c force \<and>
        sale_booked db db' r b c new_id)"
proof (cases "dv_market db' = dv_market db")
  case False
  then obtain r conn b c where r: "load_locked_row db business provider i = Inr (Some r)" "dl_status r = DS_RECEIVED"
    "connection_of db r = Some conn" "row_business db business = Some b" "find_misconfiguration (Some conn) (Some b) (event_of db r) provider = None"
    "fetch = Answered c" "db' = jb_db (handle_fetched db deny accept r conn b provider c force new_id now)"
    using assms(2) unfolding db'_def
    by (auto simp: handle_order_def nothing_done_def commit_job_market Let_def split: sum.splits option.splits if_splits answer.splits)
  from handle_fetched_books[of r db deny accept conn b provider c force new_id now] load_locked_row_in[OF r(1)] False r(7)
    find_misconfiguration_none[OF r(5)] r
  show ?thesis by (intro disjI2 exI[of _ r] exI[of _ conn] exI[of _ b] exI[of _ c]) (simp add: gates_open_def)
qed simp

subsection \<open>The watchdog drains\<close>

lemma filter_le_takeWhile: "sorted (map f xs) \<Longrightarrow> filter (\<lambda>x. f x \<le> (b::int)) xs = takeWhile (\<lambda>x. f x \<le> b) xs"
  by (induction xs) (force simp: filter_empty_conv takeWhile_eq_Nil_iff neq_Nil_conv)+

lemma takeWhile_take: "takeWhile P (take n xs) = take n (takeWhile P xs)"
  by (induction xs arbitrary: n) (auto simp: take_Cons split: nat.splits)

lemma sorted_take_map: "sorted (map f xs) \<Longrightarrow> sorted (map f (take n xs))"
  by (simp add: take_map[symmetric] sorted_wrt_take)

lemma filter_le_take: "sorted (map f xs) \<Longrightarrow> filter (\<lambda>x. f x \<le> (b::int)) (take n xs) = take n (filter (\<lambda>x. f x \<le> b) xs)"
  by (simp only: filter_le_takeWhile sorted_take_map takeWhile_take)

text \<open>A later tick takes the rows that were due before first.\<close>

lemma watchdog_rows_oldest:
  assumes "now \<le> t"
  shows "filter (overdue now grace) (watchdog_rows db (\<lambda>_. False) t grace) =
     take watchdog_batch_limit (sort_key (\<lambda>r. the (dl_accept_deadline_at r)) (filter (overdue now grace) (dv_orders db)))"
proof -
  let ?d = "\<lambda>r. the (dl_accept_deadline_at r)" and ?b = "now - 1000000 * grace"
  let ?xs = "sort_key ?d (filter (overdue t grace) (dv_orders db))"
  have eq: "overdue now grace r = (?d r \<le> ?b)" if "overdue t grace r" for r using that by (auto simp: overdue_def split: option.splits)
  let ?n = watchdog_batch_limit
  have "filter (overdue now grace) (take ?n ?xs) = filter (\<lambda>r. ?d r \<le> ?b) (take ?n ?xs)"
  proof (rule filter_cong[OF refl])
    fix r assume "r \<in> set (take ?n ?xs)"
    then have "r \<in> set ?xs" by (rule in_set_takeD)
    then show "overdue now grace r = (?d r \<le> ?b)" by (intro eq) simp
  qed
  also have "\<dots> = take ?n (filter (\<lambda>r. ?d r \<le> ?b) ?xs)" by (simp add: filter_le_take)
  also have "filter (\<lambda>r. ?d r \<le> ?b) ?xs = sort_key ?d (filter (\<lambda>r. overdue t grace r \<and> ?d r \<le> ?b) (dv_orders db))"
    by (simp add: filter_sort)
  also have "filter (\<lambda>r. overdue t grace r \<and> ?d r \<le> ?b) (dv_orders db) = filter (overdue now grace) (dv_orders db)"
    using assms eq by (intro filter_cong refl) (auto simp: overdue_def split: option.splits)
  finally show ?thesis by (simp add: watchdog_rows_def)
qed

lemma fold_replace_map:
  assumes "distinct (map dl_id rows)" "distinct (map dl_id rs)" "set rs \<subseteq> set rows" "\<And>r. dl_id (f r) = dl_id r"
  shows "fold (\<lambda>r. replace_row (f r)) rs rows = map (\<lambda>x. if x \<in> set rs then f x else x) rows"
  using assms(2,3)
proof (induction rs rule: rev_induct)
  case (snoc r rs)
  then have IH: "fold (\<lambda>r. replace_row (f r)) rs rows = map (\<lambda>x. if x \<in> set rs then f x else x) rows" by simp
  have "dl_id x = dl_id r \<longleftrightarrow> x = r" if "x \<in> set rows" for x
    using that snoc.prems assms(1) by (auto simp: distinct_map inj_on_def)
  then show ?case by (simp only: fold_append IH o_apply fold_simps) (auto simp: replace_row_def update_where_def assms(4))
qed simp

lemma delivery_ok_rows:
  assumes "map delivery_key rows = map delivery_key (dv_orders db)" "map dl_order_id rows = map dl_order_id (dv_orders db)"
  shows "delivery_ok (db\<lparr>dv_orders := rows\<rparr>) = delivery_ok db"
  using unique_index_by_map[OF assms(1)] unique_index_by_map[OF assms(2)] by (simp add: delivery_ok_def delivery_index_def)

lemma fold_write_delivery: "fold (\<lambda>r. write_delivery (f r)) rs db = db\<lparr>dv_orders := fold (\<lambda>r. replace_row (f r)) rs (dv_orders db)\<rparr>"
  by (induction rs arbitrary: db) (simp_all add: write_delivery_def replace_row_def)

definition watchdog_denial :: "instant \<Rightarrow> delivery_order \<Rightarrow> delivery_order" where
  "watchdog_denial now r = denied_row r watchdog_deny_reason_code watchdog_deny_explanation now"

lemma watchdog_denial_fields [simp]: "dl_id (watchdog_denial now r) = dl_id r" "delivery_key (watchdog_denial now r) = delivery_key r"
  "dl_order_id (watchdog_denial now r) = dl_order_id r" "\<not> overdue t grace (watchdog_denial now r)" "dl_status (watchdog_denial now r) = DS_DENIED"
  by (simp_all add: watchdog_denial_def denied_row_def delivery_key_def overdue_def open_order_statuses_def)

lemma watchdog_tick:
  assumes "distinct (map dl_id (dv_orders db))" "delivery_ok db"
  shows "jb_db (accept_deadline_watchdog db locked now grace) =
     db\<lparr>dv_orders := map (\<lambda>r. if r \<in> set (watchdog_rows db locked now grace) then watchdog_denial now r else r) (dv_orders db)\<rparr>" (is "_ = ?db")
proof -
  have "fold (\<lambda>r. write_delivery (watchdog_denial now r)) (watchdog_rows db locked now grace) db = ?db"
    using watchdog_rows_sound(1) by (auto simp: fold_write_delivery intro!: arg_cong[of _ _ "\<lambda>rows. db\<lparr>dv_orders := rows\<rparr>"] fold_replace_map assms(1) watchdog_rows_distinct)
  moreover have "delivery_ok ?db" using assms(2) by (subst delivery_ok_rows) auto
  ultimately show ?thesis
    by (auto simp: accept_deadline_watchdog_def Let_def nothing_done_def watchdog_denial_def[symmetric] commit_delivery_ok)
qed

definition watchdog_ticks :: "int \<Rightarrow> instant list \<Rightarrow> delivery_db \<Rightarrow> delivery_db" where
  "watchdog_ticks grace = fold (\<lambda>now db. jb_db (accept_deadline_watchdog db (\<lambda>_. False) now grace))"

definition overdue_rows :: "instant \<Rightarrow> int \<Rightarrow> delivery_db \<Rightarrow> delivery_order list" where
  "overdue_rows now grace db = filter (overdue now grace) (dv_orders db)"

definition rows_identified :: "delivery_db \<Rightarrow> bool" where
  "rows_identified db = (distinct (map dl_id (dv_orders db)) \<and> delivery_ok db)"

lemma tick_identified:
  assumes "rows_identified db"
  shows "rows_identified (jb_db (accept_deadline_watchdog db locked now grace))" (is "rows_identified ?db")
proof -
  have "map dl_id (dv_orders ?db) = map dl_id (dv_orders db)" "delivery_ok ?db = delivery_ok db"
    using assms by (simp_all add: rows_identified_def watchdog_tick) (subst delivery_ok_rows, simp_all)
  with assms show ?thesis by (simp only: rows_identified_def)
qed

lemma tick_drains:
  assumes "rows_identified db" "now \<le> t"
  shows "length (overdue_rows now grace (jb_db (accept_deadline_watchdog db (\<lambda>_. False) t grace))) = length (overdue_rows now grace db) - watchdog_batch_limit"
proof -
  let ?due = "watchdog_rows db (\<lambda>_. False) t grace" and ?rows = "dv_orders db"
  have d: "distinct ?rows" "distinct ?due" using assms(1) watchdog_rows_distinct by (auto simp: rows_identified_def distinct_map)
  have "overdue_rows now grace (jb_db (accept_deadline_watchdog db (\<lambda>_. False) t grace)) = filter (\<lambda>r. overdue now grace r \<and> r \<notin> set ?due) ?rows"
    using assms(1) by (simp add: overdue_rows_def rows_identified_def watchdog_tick filter_map o_def) (rule trans[OF map_idI filter_cong], auto)
  then have "length (overdue_rows now grace (jb_db (accept_deadline_watchdog db (\<lambda>_. False) t grace))) = card ({r \<in> set ?rows. overdue now grace r} - {r \<in> set ?due. overdue now grace r})"
    using d by (auto simp: distinct_card[symmetric] intro!: arg_cong[of _ _ card])
  also have "\<dots> = card {r \<in> set ?rows. overdue now grace r} - card {r \<in> set ?due. overdue now grace r}"
    using watchdog_rows_sound(1) by (intro card_Diff_subset) auto
  also have "card {r \<in> set ?due. overdue now grace r} = length (filter (overdue now grace) ?due)"
    using d by (simp add: distinct_card[symmetric])
  also have "\<dots> = min watchdog_batch_limit (length (overdue_rows now grace db))"
    by (simp add: watchdog_rows_oldest[OF assms(2)] overdue_rows_def)
  also have "card {r \<in> set ?rows. overdue now grace r} = length (overdue_rows now grace db)"
    using d by (simp add: overdue_rows_def distinct_card[symmetric])
  finally show ?thesis by simp
qed

text \<open>
  C40: The watchdog takes at most a hundred rows per tick, those due longest first, so that it starves
  none: after as many ticks as hundreds of rows were due, however late they come, and whatever else
  falls due meanwhile, none of those rows is still open past its deadline.
\<close>

theorem watchdog_drains:
  assumes "rows_identified db" "\<forall>t \<in> set ticks. now \<le> t"
    and "length (overdue_rows now grace db) \<le> watchdog_batch_limit * length ticks"
  shows "overdue_rows now grace (watchdog_ticks grace ticks db) = []"
  using assms
proof (induction ticks arbitrary: db)
  case (Cons t ticks)
  then show ?case by (simp add: watchdog_ticks_def tick_identified tick_drains)
qed (simp add: watchdog_ticks_def)

subsection \<open>A webhook is taken once\<close>

fun job_target :: "queued_job \<Rightarrow> string \<times> uuid \<times> string" where
  "job_target (OrderJob provider business i event_type force) = (provider, business, i)"
| "job_target (CancellationJob provider business i) = (provider, business, i)"

lemma job_target_of [simp]: "job_target (job_of provider business i event_type) = (provider, business, i)"
  by (simp add: job_of_def)

definition event_taken :: "string \<Rightarrow> string \<Rightarrow> delivery_db \<Rightarrow> bool" where
  "event_taken provider i db = (\<exists>e \<in> set (dv_events db). we_provider e = provider \<and> we_event_id e = i)"

lemma insert_event_fields [simp]: "dv_market (fst (insert_event e db)) = dv_market db" "dv_connections (fst (insert_event e db)) = dv_connections db"
  "dv_market (write_event e db) = dv_market db" "dv_connections (write_event e db) = dv_connections db"
  "dv_market (insert_delivery_order r db) = dv_market db" "dv_events (insert_delivery_order r db) = dv_events db"
  "dv_connections (insert_delivery_order r db) = dv_connections db"
  by (auto simp: insert_event_def write_event_def insert_delivery_order_def)

lemma insert_event_taken: "event_taken (we_provider e) (we_event_id e) (fst (insert_event e db))"
  by (auto simp: event_taken_def insert_event_def)

lemma resolve_delivery_connection_in: "resolve_delivery_connection db provider store = Inr (Some c) \<Longrightarrow>
   c \<in> set (dv_connections db) \<and> dc_provider c = provider \<and> dc_external_store_id c = store \<and> store \<noteq> None"
  unfolding resolve_delivery_connection_def by (auto simp: truthy_def split: if_splits option.splits dest!: scalar_one_or_none_filter)

lemma insert_delivery_order_has: "delivery_key r \<in> delivery_key ` set (dv_orders (insert_delivery_order r db))"
  by (auto simp: insert_delivery_order_def)

lemma new_delivery_order_key [simp]: "delivery_key (new_delivery_order n b p c i store event deadline) = Some (b, p, i)"
  by (simp add: delivery_key_def new_delivery_order_def)

lemma webhook_queues:
  assumes "ingest_delivery_webhook db st q enqueued event_id order_id random now = Inr (db', g, Some j)"
  shows "enqueued \<and> wr_signature_valid q \<and> (\<exists>c \<in> set (dv_connections db). \<exists>i store.
     job_target j = (dc_provider c, dc_business_id c, i) \<and> dc_provider c = wr_provider q \<and>
     dc_external_store_id c = Some store \<and> Option.bind (wr_envelope q) en_external_store_id = Some store \<and>
     Some (dc_business_id c, dc_provider c, i) \<in> delivery_key ` set (dv_orders db'))"
proof -
  obtain env where env: "wr_envelope q = Some env" "en_event_id env \<noteq> []" "enqueued" "wr_signature_valid q"
    using assms by (auto simp: ingest_delivery_webhook_def Let_def and_then_eq_Inr case_prod_beta split: if_splits option.splits)
  let ?e = "event_row q event_id (en_event_id env) True ''PENDING'' now"
  let ?db1 = "fst (insert_event ?e db)" and ?store = "en_external_store_id env"
  obtain c i where c: "resolve_delivery_connection ?db1 (wr_provider q) ?store = Inr (Some c)"
    "j = job_of (wr_provider q) (dc_business_id c) i (en_event_type env)"
    "db' = insert_delivery_order (new_delivery_order order_id (dc_business_id c) (wr_provider q) (dc_id c) i ?store event_id
       (now + 1000000 * st_accept_deadline_seconds st)) (write_event (?e\<lparr>we_business_id := Some (dc_business_id c), we_error_category := Some ''OK''\<rparr>) ?db1)"
    using assms env by (auto simp: ingest_delivery_webhook_def Let_def and_then_eq_Inr case_prod_beta split: if_splits option.splits)
  from resolve_delivery_connection_in[OF c(1)]
  have r: "c \<in> set (dv_connections db)" "dc_provider c = wr_provider q" "dc_external_store_id c = ?store" "?store \<noteq> None" by simp_all
  have "Some (dc_business_id c, dc_provider c, i) \<in> delivery_key ` set (dv_orders db')"
    using insert_delivery_order_has[of "new_delivery_order order_id (dc_business_id c) (wr_provider q) (dc_id c) i ?store event_id
       (now + 1000000 * st_accept_deadline_seconds st)"] r(2)
    unfolding c(3) by simp
  then show ?thesis using env r c(2) by (auto intro!: bexI[of _ c] simp del: image_iff)
qed

lemma webhook_repeats:
  assumes "ingest_delivery_webhook db st q enqueued event_id order_id random now = Inr (db', g, queued)"
    and "wr_envelope q = Some env" "wr_signature_valid q" "en_event_id env \<noteq> []" "event_taken (wr_provider q) (en_event_id env) db"
  shows "db' = db \<and> queued = None"
  using assms by (auto simp: ingest_delivery_webhook_def Let_def insert_event_def event_row_def event_taken_def split: if_splits)

lemma webhook_frame:
  assumes "ingest_delivery_webhook db st q enqueued event_id order_id random now = Inr (db', g, queued)"
  shows "dv_market db' = dv_market db" "dv_connections db' = dv_connections db" "gr_http_status g = 503 \<Longrightarrow> db' = db"
  using assms by (auto simp: ingest_delivery_webhook_def Let_def and_then_eq_Inr case_prod_beta gate_def split: if_splits option.splits)

text \<open>
  C39: A webhook queues a job only when its signature verified and the queue took it, for the business
  that owns the connection of its provider and store and no other, with the row of the order in
  place; it touches neither the shop nor the connections, and leaves no trace at all when the queue
  refused, so that the provider's next delivery is as good as the first.  A redelivery of an event
  that was taken, whatever it says otherwise, changes nothing and queues nothing.
\<close>

theorem webhook_is_taken_once:
  assumes "ingest_delivery_webhook db st q enqueued event_id order_id random now = Inr (db', g, queued)"
  shows "dv_market db' = dv_market db \<and> dv_connections db' = dv_connections db \<and> (gr_http_status g = 503 \<longrightarrow> db' = db) \<and>
     (\<forall>j. queued = Some j \<longrightarrow> enqueued \<and> wr_signature_valid q \<and> (\<exists>c \<in> set (dv_connections db). \<exists>i store.
        job_target j = (dc_provider c, dc_business_id c, i) \<and> dc_provider c = wr_provider q \<and>
        dc_external_store_id c = Some store \<and> Option.bind (wr_envelope q) en_external_store_id = Some store \<and>
        Some (dc_business_id c, dc_provider c, i) \<in> delivery_key ` set (dv_orders db') )) \<and>
     (\<forall>env. wr_envelope q = Some env \<longrightarrow> wr_signature_valid q \<longrightarrow> event_taken (wr_provider q) (en_event_id env) db \<longrightarrow> en_event_id env \<noteq> [] \<longrightarrow>
        db' = db \<and> queued = None)"
  using webhook_frame[OF assms] webhook_queues[of db st q enqueued event_id order_id random now db' g] webhook_repeats[OF assms] assms by blast

subsection \<open>A sample shop on a marketplace\<close>

definition sample_connection :: delivery_connection where
  "sample_connection = \<lparr>dc_id = 900, dc_business_id = 10, dc_provider = ''UBER_EATS'', dc_external_store_id = Some ''S'',
     dc_status = CS_CONNECTED, dc_environment = ''live'', dc_auto_accept_enabled = False, dc_disconnected_at = None, dc_error_reason = None\<rparr>"

definition sample_delivery_db :: "delivery_order list \<Rightarrow> delivery_db" where
  "sample_delivery_db rows =
     \<lparr>dv_market = \<lparr>md_shop = sample_shop\<lparr>sh_businesses := [sample_business\<lparr>bu_vat_registered := False, bu_inventory_enabled := False\<rparr>]\<rparr>,
        md_sessions = [], md_mappings = [], md_batches = []\<rparr>,
      dv_connections = [sample_connection], dv_events = [], dv_orders = rows\<rparr>"

definition sample_canonical :: "canonical_modifier list \<Rightarrow> canonical_order" where
  "sample_canonical modifiers = \<lparr>cn_external_order_id = ''A-1'', cn_external_store_id = ''S'',
     cn_lines = [\<lparr>cl_external_item_id = Some ''X1'', cl_title = ''  PIZZA '', cl_quantity = 2, cl_unit_price_cents = Some 11500,
       cl_modifiers = modifiers, cl_special_instructions = None\<rparr>],
     cn_display_id = None, cn_provider_status_raw = None, cn_order_type = None, cn_placed_at = Some 5, cn_currency = ''ZAR'',
     cn_subtotal_cents = None, cn_tax_cents = None, cn_fee_cents = None, cn_total_cents = Some 23000, cn_special_instructions = None,
     cn_customer_first_name = None, cn_customer_phone = None, cn_fulfillment_issues = [], cn_provider_metadata = []\<rparr>"

definition sample_row :: "delivery_status \<Rightarrow> delivery_order" where
  "sample_row s = (new_delivery_order 800 10 ''UBER_EATS'' 900 ''A-1'' (Some ''S'') 700 1000)\<lparr>dl_status := s\<rparr>"

definition sample_job :: "unit answer \<Rightarrow> job" where
  "sample_job accept = handle_order (sample_delivery_db [sample_row DS_RECEIVED]) (Answered (sample_canonical [])) (Answered ()) accept
     ''UBER_EATS'' 10 ''A-1'' None True 600 9"

definition sample_webhook :: "string \<Rightarrow> webhook_request" where
  "sample_webhook provider = \<lparr>wr_provider = provider, wr_signature_valid = True,
     wr_envelope = Some \<lparr>en_event_id = ''E1'', en_event_type = Some ''orders.notification'', en_external_store_id = Some ''S'', en_external_order_id = Some ''A-1''\<rparr>,
     wr_environment = Some ''live''\<rparr>"

definition sample_settings :: webhook_settings where
  "sample_settings = \<lparr>st_webhook_enabled = True, st_accept_deadline_seconds = 690\<rparr>"

lemma sample_rows: "rows_inv (dv_orders (sample_delivery_db [sample_row DS_RECEIVED]))"
  "distinct (map dl_id (dv_orders (sample_delivery_db [sample_row DS_RECEIVED])))"
  by (simp_all add: rows_inv_def unique_index_def sample_delivery_db_def sample_row_def new_delivery_order_def row_typed_def delivery_key_def)

definition sample_market_sold :: "order list \<Rightarrow> order_item list \<Rightarrow> order_event list \<Rightarrow> market_db" where
  "sample_market_sold os its es = (dv_market (sample_delivery_db []))\<lparr>md_shop := (delivery_shop (sample_delivery_db []))\<lparr>sh_orders := os, sh_items := its, sh_events := es\<rparr>\<rparr>"

lemma unique_index_short: "unique_index key []" "unique_index key [x]"
  by (simp_all add: unique_index_def split: option.splits)

lemma sample_ok: "delivery_ok \<lparr>dv_market = sample_market_sold os its es, dv_connections = [sample_connection], dv_events = [], dv_orders = rows\<rparr>"
  if "length os \<le> 1" "length rows \<le> 1"
  using that by (cases os; cases rows)
    (simp_all add: delivery_ok_def delivery_index_def market_ok_def sample_market_sold_def delivery_shop_def sample_delivery_db_def sample_shop_def
      shop_ok_def stock_index_def commit_loyalty_def unique_index_short)

lemma sample_identified: "rows_identified (sample_delivery_db [sample_row DS_RECEIVED])"
  using sample_rows(2) sample_ok[of "[]" "[sample_row DS_RECEIVED]" "[]" "[]"]
  by (simp add: rows_identified_def sample_market_sold_def sample_delivery_db_def delivery_shop_def sample_shop_def)

lemma sample_lines: "resolve_delivery_lines (dv_market (sample_delivery_db rows)) 10 ''UBER_EATS'' (sample_canonical []) =
   [\<lparr>rd_canonical = hd (cn_lines (sample_canonical [])), rd_menu_item_id = Some 1, rd_menu_item_name = Some ''Pizza'', rd_add_on_ids = [],
     rd_unresolved = [], rd_is_ignored = False\<rparr>]"
  by code_simp

lemma sample_gates: "connection_of (sample_delivery_db rows) (sample_row s) = Some sample_connection" 
   "row_business (sample_delivery_db rows) 10 = Some (sample_business\<lparr>bu_vat_registered := False, bu_inventory_enabled := False\<rparr>)"
  "event_of (sample_delivery_db rows) (sample_row s) = None"
  "find_misconfiguration (Some sample_connection) (Some (sample_business\<lparr>bu_vat_registered := False, bu_inventory_enabled := False\<rparr>)) None ''UBER_EATS'' = None"
  "load_locked_row (sample_delivery_db [sample_row s]) 10 ''UBER_EATS'' ''A-1'' = Inr (Some (sample_row s))"
  by code_simp+

lemma sample_delivery_sale: "\<exists>o1 its es. create_order_from_canonical (md_shop (dv_market (sample_delivery_db rows))) (sample_business\<lparr>bu_vat_registered := False, bu_inventory_enabled := False\<rparr>)
    ''UBER_EATS'' (sample_canonical []) ls 600 9 = Inr (md_shop (sample_market_sold [o1] its es), o1) \<and> or_id o1 = 600 \<and> or_total_cents o1 = 23000 \<and> or_status o1 = ACCEPTED"
  by (simp add: create_order_from_canonical_def delivery_vat_def take_delivery_stock_def Let_def add_order_def add_event_def sample_market_sold_def delivery_shop_def
     sample_delivery_db_def sample_shop_def delivery_sale_def new_order_def sample_canonical_def dict_get_def)

definition sample_sold_db :: "order list \<Rightarrow> order_item list \<Rightarrow> order_event list \<Rightarrow> delivery_order \<Rightarrow> delivery_db" where
  "sample_sold_db os its es r = \<lparr>dv_market = sample_market_sold os its es, dv_connections = [sample_connection], dv_events = [], dv_orders = [r]\<rparr>"

lemma sample_sold: "dl_id r = dl_id r0 \<Longrightarrow> write_delivery r ((sample_delivery_db [r0])\<lparr>dv_market := (dv_market (sample_delivery_db [r0]))\<lparr>md_shop := md_shop (sample_market_sold os its es)\<rparr>\<rparr>) =
   sample_sold_db os its es r"
  by (simp add: write_delivery_def update_where_def sample_sold_db_def sample_delivery_db_def sample_market_sold_def)

lemma sample_sold_again: "dl_id r = dl_id r0 \<Longrightarrow> write_delivery r (sample_sold_db os its es r0) = sample_sold_db os its es r"
  by (simp add: write_delivery_def update_where_def sample_sold_db_def)

lemma sample_sold_commits: "commit_delivery (sample_sold_db [o1] its es r) = Inr (sample_sold_db [o1] its es r)"
  by (simp add: commit_delivery_eq sample_sold_db_def sample_ok)

lemma sample_job_done:
  "accept \<noteq> Crashed \<Longrightarrow> \<exists>o1 its es r. jb_db (sample_job accept) = sample_sold_db [o1] its es r \<and>
     or_id o1 = 600 \<and> or_total_cents o1 = 23000 \<and> or_status o1 = ACCEPTED \<and> dl_order_id r = Some 600 \<and> dl_id r = 800 \<and>
     dl_accept_deadline_at r = Some 1000 \<and> dl_provider r = ''UBER_EATS'' \<and> dl_external_order_id r = ''A-1'' \<and>
     dl_status r = (if accept = Answered () then DS_ACCEPTED else DS_FETCHING)"
proof -
  assume a: "accept \<noteq> Crashed"
  obtain o1 its es where s: "create_order_from_canonical (md_shop (dv_market (sample_delivery_db [sample_row DS_RECEIVED]))) (sample_business\<lparr>bu_vat_registered := False, bu_inventory_enabled := False\<rparr>)
    ''UBER_EATS'' (sample_canonical []) (resolve_delivery_lines (dv_market (sample_delivery_db [sample_row DS_RECEIVED])) 10 ''UBER_EATS'' (sample_canonical [])) 600 9 =
      Inr (md_shop (sample_market_sold [o1] its es), o1)" "or_id o1 = 600" "or_total_cents o1 = 23000" "or_status o1 = ACCEPTED"
    using sample_delivery_sale by blast
  have f: "dl_business_id (sample_row s) = 10" "dl_status (sample_row s) = s" "dl_id (sample_row s) = 800" "dl_accept_deadline_at (sample_row s) = Some 1000"
    "dl_provider (sample_row s) = ''UBER_EATS''" "dl_external_order_id (sample_row s) = ''A-1''" for s by (simp_all add: sample_row_def new_delivery_order_def)
  have t: "cn_total_cents (sample_canonical []) = Some 23000" by (simp add: sample_canonical_def)
  show ?thesis using s a
    by (cases accept) (simp_all add: f t sample_job_def handle_order_def sample_gates handle_fetched_def fetched_row_def Let_def accept_fetched_def
      sample_lines resolution_blocks_def delivery_line_resolved_def sample_sold sample_sold_again sample_sold_commits commit_job_def cancel_event_types_def,
      ((intro conjI impI)?, (rule exI)+, rule conjI, rule refl, simp add: f)+)
qed

lemma sample_upper: "upper ''uber_eats'' = ''UBER_EATS''" "upper ''UBER_EATS'' = ''UBER_EATS''" by code_simp+

lemma sample_webhook_taken:
  "\<exists>db' g. ingest_delivery_webhook (sample_delivery_db []) sample_settings (sample_webhook ''UBER_EATS'') True 700 800 ''x'' 9 =
     Inr (db', g, Some (OrderJob ''UBER_EATS'' 10 ''A-1'' (Some ''orders.notification'') False))"
  by (simp add: ingest_delivery_webhook_def is_webhook_enabled_def webhook_enabled_providers_def sample_upper sample_webhook_def sample_settings_def
     sample_delivery_db_def insert_event_def event_row_def resolve_delivery_connection_def truthy_def sample_connection_def scalar_one_or_none_def
     job_of_def cancel_event_types_def Let_def)

theorem delivery_status_machine_witness:
  "\<exists>r' \<in> set (dv_orders (jb_db (sample_job (Answered ())))). dl_id r' = 800 \<and> moves\<^sup>*\<^sup>* DS_RECEIVED (dl_status r')"
proof -
  have "delivery_step\<^sup>*\<^sup>* (sample_delivery_db [sample_row DS_RECEIVED]) (jb_db (sample_job (Answered ())))"
    unfolding sample_job_def by (intro r_into_rtranclp delivery_step.OrderRun)
  from delivery_status_machine[OF this sample_rows(1)] show ?thesis
    by (auto simp: sample_delivery_db_def sample_row_def new_delivery_order_def)
qed

theorem delivery_sale_needs_every_gate_witness:
  "\<exists>r conn b c. connection_of (sample_delivery_db [sample_row DS_RECEIVED]) r = Some conn \<and>
     gates_open (sample_delivery_db [sample_row DS_RECEIVED]) r conn b ''UBER_EATS'' c True \<and>
     sale_booked (sample_delivery_db [sample_row DS_RECEIVED]) (jb_db (sample_job (Answered ()))) r b c 600"
proof -
  have "dv_market (jb_db (sample_job (Answered ()))) \<noteq> dv_market (sample_delivery_db [sample_row DS_RECEIVED])"
    using sample_job_done[of "Answered ()"] by (auto simp: sample_sold_db_def sample_market_sold_def sample_delivery_db_def delivery_shop_def sample_shop_def)
  with delivery_sale_needs_every_gate[of None "sample_delivery_db [sample_row DS_RECEIVED]" "Answered (sample_canonical [])" "Answered ()" "Answered ()"
      "''UBER_EATS''" 10 "''A-1''" True 600 9]
  show ?thesis unfolding sample_job_def by auto
qed

theorem watchdog_drains_witness:
  "overdue_rows 2000 0 (sample_delivery_db [sample_row DS_RECEIVED]) \<noteq> [] \<and>
   overdue_rows 2000 0 (watchdog_ticks 0 [2500] (sample_delivery_db [sample_row DS_RECEIVED])) = []"
proof
  show "overdue_rows 2000 0 (sample_delivery_db [sample_row DS_RECEIVED]) \<noteq> []" by code_simp
  have "length (overdue_rows 2000 0 (sample_delivery_db [sample_row DS_RECEIVED])) \<le> watchdog_batch_limit * length [2500::instant]"
    by code_simp
  then show "overdue_rows 2000 0 (watchdog_ticks 0 [2500] (sample_delivery_db [sample_row DS_RECEIVED])) = []"
    by (intro watchdog_drains sample_identified) simp_all
qed

theorem webhook_is_taken_once_witness:
  "\<exists>db' g. ingest_delivery_webhook (sample_delivery_db []) sample_settings (sample_webhook ''UBER_EATS'') True 700 800 ''x'' 9 =
     Inr (db', g, Some (OrderJob ''UBER_EATS'' 10 ''A-1'' (Some ''orders.notification'') False)) \<and>
     dv_market db' = dv_market (sample_delivery_db []) \<and> Some (10, ''UBER_EATS'', ''A-1'') \<in> delivery_key ` set (dv_orders db')"
proof -
  obtain db' g where w: "ingest_delivery_webhook (sample_delivery_db []) sample_settings (sample_webhook ''UBER_EATS'') True 700 800 ''x'' 9 =
     Inr (db', g, Some (OrderJob ''UBER_EATS'' 10 ''A-1'' (Some ''orders.notification'') False))"
    using sample_webhook_taken by (elim exE) (rule that)
  note once = webhook_is_taken_once[OF w]
  from once have "dv_market db' = dv_market (sample_delivery_db [])" by (rule conjunct1)
  moreover from once[THEN conjunct2, THEN conjunct2, THEN conjunct2, THEN conjunct1, THEN spec, THEN mp, OF refl]
  obtain c :: delivery_connection and i where "job_target (OrderJob ''UBER_EATS'' 10 ''A-1'' (Some ''orders.notification'') False) = (dc_provider c, dc_business_id c, i)"
    "Some (dc_business_id c, dc_provider c, i) \<in> delivery_key ` set (dv_orders db')"
    by (elim conjE bexE exE) (rule that, assumption+)
  then have "Some (10, ''UBER_EATS'', ''A-1'') \<in> delivery_key ` set (dv_orders db')" by (simp only: job_target.simps prod.inject)
  ultimately show ?thesis by (intro exI[of _ db'] exI[of _ g] conjI w)
qed


subsection \<open>What goes wrong\<close>

text \<open>The sale stands, the watchdog tells the platform it was denied, and a cancellation is no longer looked at.\<close>

lemma accept_call_lost:
  fixes db tick
  defines "db \<equiv> jb_db (sample_job TimedOut)" and "tick \<equiv> accept_deadline_watchdog db (\<lambda>_. False) 2000 0"
  shows "jb_calls tick = [DenyOrder ''A-1'' watchdog_deny_reason_code watchdog_deny_explanation]"
    "map or_status (sh_orders (delivery_shop (jb_db tick))) = [ACCEPTED]" "map dl_status (dv_orders (jb_db tick)) = [DS_DENIED]"
proof -
  obtain o1 its es r where s: "db = sample_sold_db [o1] its es r" "or_status o1 = ACCEPTED" "dl_status r = DS_FETCHING" "dl_accept_deadline_at r = Some 1000"
     "dl_provider r = ''UBER_EATS''" "dl_external_order_id r = ''A-1''"
    using sample_job_done[of TimedOut] by (auto simp: db_def)
  have w: "watchdog_rows db (\<lambda>_. False) 2000 0 = [r]"
    using s by (simp add: watchdog_rows_def sample_sold_db_def overdue_def open_order_statuses_def watchdog_batch_limit_def)
  have p: "has_provider ''UBER_EATS''" by code_simp
  have c: "commit_delivery (fold (\<lambda>r. write_delivery (denied_row r code why now)) [r] db) = Inr (sample_sold_db [o1] its es (denied_row r code why now))" for code why now
    by (simp add: s(1) sample_sold_again denied_row_def sample_sold_commits)
  have t: "tick = \<lparr>jb_db = sample_sold_db [o1] its es (denied_row r watchdog_deny_reason_code watchdog_deny_explanation 2000),
     jb_calls = [DenyOrder ''A-1'' watchdog_deny_reason_code watchdog_deny_explanation], jb_end = Finished\<rparr>"
    unfolding tick_def accept_deadline_watchdog_def w Let_def c using s p by simp
  show "jb_calls tick = [DenyOrder ''A-1'' watchdog_deny_reason_code watchdog_deny_explanation]"
    "map or_status (sh_orders (delivery_shop (jb_db tick))) = [ACCEPTED]" "map dl_status (dv_orders (jb_db tick)) = [DS_DENIED]"
    using s(2) by (simp_all add: t sample_sold_db_def delivery_shop_def sample_market_sold_def denied_row_def)
qed

lemma job_before_commit_is_lost:
  "dv_orders db = [] \<Longrightarrow> handle_order db fetch deny accept provider business i event_type force new_id now = nothing_done db"
  by (auto simp: handle_order_def handle_cancellation_def load_locked_row_def scalar_one_or_none_def)

text \<open>A queue that refuses the job leaves the row where staff can no longer accept it.\<close>

lemma staff_accept_lost:
  assumes "accept_order db user oid True False = (db', e)" "db' \<noteq> db" "distinct (map dl_id (dv_orders db))"
  shows "e = Inl (AppError ''DELIVERY_WORKER_UNAVAILABLE'' 503)" "\<exists>r \<in> set (dv_orders db'). dl_id r = oid \<and> dl_status r = DS_RECEIVED"
proof -
  obtain r where r: "load_delivery_order db (au_business_id user) oid = Inr r"
    "dv_orders db' = replace_row (r\<lparr>dl_status := DS_RECEIVED\<rparr>) (dv_orders db)" "e = Inl (AppError ''DELIVERY_WORKER_UNAVAILABLE'' 503)"
    using assms(1,2) by (auto simp: accept_order_def and_then_eq_Inr commit_delivery_eq split: sum.splits)
  from load_delivery_order_in[OF r(1)] assms(3) have "set (dv_orders db') = insert (r\<lparr>dl_status := DS_RECEIVED\<rparr>) (set (dv_orders db) - {r})"
    unfolding r(2) by (intro replace_row_set) auto
  with load_delivery_order_in[OF r(1)] show "\<exists>r \<in> set (dv_orders db'). dl_id r = oid \<and> dl_status r = DS_RECEIVED" by auto
  show "e = Inl (AppError ''DELIVERY_WORKER_UNAVAILABLE'' 503)" by (rule r(3))
qed

text \<open>A mapping of a modifier to anything but an add-on is stored and then not looked at, and how many of it were ordered is not read.\<close>

lemma removal_mapping_unread:
  "dx_modifier_mapping dx (cm_external_id m) = Some p \<Longrightarrow> \<not> pm_is_ignored p \<Longrightarrow> pm_menu_add_on_id p = None \<Longrightarrow>
   dx_add_on_by_name dx (normalise_key (cm_title m)) = None \<Longrightarrow> rd_unresolved (resolve_delivery_modifier dx m l) = rd_unresolved l @ [cm_title m]"
  by (simp add: resolve_delivery_modifier_def known_target_def Let_def)

lemma modifier_quantity_unread: "resolve_delivery_modifier dx (m\<lparr>cm_quantity := n\<rparr>) l = resolve_delivery_modifier dx m l"
  by (simp add: resolve_delivery_modifier_def Let_def split: option.split)

lemma lower_case_provider_dropped: "\<exists>db' g. ingest_delivery_webhook (sample_delivery_db []) sample_settings (sample_webhook ''uber_eats'') True 700 800 ''x'' 9 =
     Inr (db', gate True (Some ''UNKNOWN_STORE''), None)" 
  by (simp add: ingest_delivery_webhook_def is_webhook_enabled_def webhook_enabled_providers_def sample_upper sample_webhook_def sample_settings_def
     sample_delivery_db_def insert_event_def event_row_def resolve_delivery_connection_def truthy_def sample_connection_def scalar_one_or_none_def
     job_of_def cancel_event_types_def Let_def)

end
