(* ===== verification/Spec2Isabelle.thy ===== *)
theory Spec2Isabelle imports InventoryHistory StocktakeLaws PosLinks OrderLive LineSpecs PosRefunds ChatOrders ReceiptLaws ReportLaws ExternalLaws DeliveryLaws begin

text \<open>
  A model of the backend of a restaurant platform: dishes are priced from a catalogue and sold over a
  dashboard, a till, a chat and the marketplaces; every sale takes ingredients out of a stock ledger,
  earns and spends loyalty points, and is paid, refunded, printed and counted.  The theories follow the
  Python files under \<^verbatim>\<open>src/backend/app\<close> and \<^verbatim>\<open>src/shared\<close>; a definition carries the
  name of the function, class or table it translates, with a prefix where a record needs one.

  Conventions.  A request is a function from the tables, the request and what the environment supplies
  (fresh identities, the clock, the answers of providers) to an error or the new tables; an error leaves
  the tables as they were, which is the rollback of the session.  A table is the list of its rows in
  insertion order, \<open>select\<close> is \<open>filter\<close>, and the unique indexes and check constraints are predicates a
  commit has to satisfy.  Python integers are \<open>int\<close>, identities are 128-bit words, instants are
  microseconds, money is in cents, quantities are in thousandths of the canonical unit; decimals are the
  28-digit arithmetic of the \<open>decimal\<close> module.  Two requests run one after the other; where the code
  reads without a lock the earlier tables are a parameter of their own.

  The library.
    \<^item> \<open>Prelude\<close>, \<open>PyDecimal\<close>, \<open>PyDecimalText\<close>, \<open>PyString\<close>: sequencing of steps that may raise, tables and
      their indexes, decimal arithmetic (the locale \<open>nearest_division\<close> and its interpretation \<open>hu\<close>), the
      string methods the code uses.  \<open>Ledger\<close>: the locale of an append-only ledger, interpreted for the
      stock (\<open>StockLedger\<close>) and for the points (\<open>LoyaltyLaws\<close>).  \<open>OrderStatus\<close>: the locale of a status
      machine, interpreted for orders and for stocktakes.
    \<^item> \<open>Pricing\<close>, \<open>PosPricing\<close>, \<open>Errors\<close> (\<^verbatim>\<open>shared/pricing/engine.py\<close>, \<^verbatim>\<open>pos/pricing.py\<close>,
      \<^verbatim>\<open>core/errors.py\<close>): lines are priced from the catalogue, VAT is the exact half-up rounding.
    \<^item> \<open>Units\<close>, \<open>Variance\<close>, \<open>Consumption\<close>, \<open>StockLedger\<close>, \<open>StockLaws\<close>, \<open>LineSpecs\<close>, \<open>Stocktake\<close>,
      \<open>StocktakeLaws\<close> (\<^verbatim>\<open>inventory/*.py\<close>, \<^verbatim>\<open>routes_stocktake.py\<close>): unit conversion rounds
      once; the consumption of an order is the sum over its recipes; a sale deducts once and a reversal puts
      back what is still out, once; a signed-off count makes the books equal the count.
    \<^item> \<open>Inventory\<close>, \<open>InventoryLaws\<close>, \<open>InventoryHistory\<close> (\<^verbatim>\<open>routes_inventory.py\<close>,
      \<^verbatim>\<open>routes_wastage.py\<close>): ingredients, suppliers, deliveries, opening stock, adjustments and losses;
      a delivery is written once and its total, lines and movements agree; over every interleaving of the
      handlers (\<open>inventory_history\<close>) each loss and each opening balance stays explained by its movements.
    \<^item> \<open>Recipes\<close>, \<open>RecipeLaws\<close> (\<^verbatim>\<open>routes_recipes.py\<close>): the quoted food cost is the booked one; an edit
      keeps one active recipe and the ledger as it was.
    \<^item> \<open>PyFloat\<close>, \<open>SheetImport\<close>, \<open>StockImport\<close>, \<open>ImportLaws\<close> (\<^verbatim>\<open>routes_import.py\<close>): the menu,
      ingredient and recipe sheets, with the binary floating point a price goes through; prices arrive to the
      cent and sizes are sold at the price listed.
    \<^item> \<open>OrderModel\<close>, \<open>Shop\<close>, \<open>Orders\<close>, \<open>OrderLaws\<close>, \<open>OrderMoney\<close>, \<open>OrderLive\<close> (\<^verbatim>\<open>routes_orders.py\<close>):
      the rows, the handlers, the trail of events that explains a status, the money of an order, refunds
      within its total, and that an open order can always be completed.
    \<^item> \<open>Phone\<close>, \<open>Loyalty\<close>, \<open>LoyaltyLaws\<close> (\<^verbatim>\<open>utils/phone.py\<close>, \<^verbatim>\<open>loyalty/engine.py\<close>,
      \<^verbatim>\<open>routes_loyalty.py\<close>): every balance is explained by its ledger rows.
    \<^item> \<open>PosCheckout\<close>, \<open>PosPayments\<close>, \<open>PosReversal\<close>, \<open>PosLaws\<close>, \<open>PosLinks\<close>, \<open>PosTill\<close>, \<open>PosRefunds\<close>
      (\<^verbatim>\<open>routes_pos.py\<close>, \<^verbatim>\<open>routes_payments.py\<close>): a checkout adds up and is replayed, not
      repeated; a payment link pays one sale; the recomputed cash of a session refines a drawer; a
      reversal happens once.
    \<^item> \<open>Cart\<close>, \<open>CartLaws\<close>, \<open>ChatOrders\<close> (\<^verbatim>\<open>bot/state_machine.py\<close>, \<^verbatim>\<open>bot/order_creator.py\<close>):
      the cart of a chat stays priced, and its order charges it.
    \<^item> \<open>Receipts\<close>, \<open>Escpos\<close>, \<open>EscposLaws\<close>, \<open>ReceiptLaws\<close> (\<^verbatim>\<open>receipts/document.py\<close>,
      \<^verbatim>\<open>receipts/escpos.py\<close>): the receipt states the sale; the word wrap returns and fits.
    \<^item> \<open>ExternalReports\<close>, \<open>ReportLaws\<close>, \<open>ExternalOrders\<close>, \<open>ExternalLaws\<close> (\<^verbatim>\<open>external_orders/*.py\<close>,
      \<^verbatim>\<open>routes_external_orders.py\<close>): reports of the marketplaces are read row by row, imported
      once, and never change a signed-off count.
    \<^item> \<open>DeliveryOrders\<close>, \<open>DeliveryFlow\<close>, \<open>DeliveryLaws\<close> (\<^verbatim>\<open>delivery/*.py\<close>,
      \<^verbatim>\<open>routes_delivery.py\<close>): live marketplace orders, from the signed webhook over the jobs to the
      watchdog, as a step relation that refines the abstract machine \<open>rows_step\<close>.

  Bounds and fuel.  The splitting of a word wider than the paper (\<open>hard_split\<close>) is a \<open>partial_function\<close>
  whose return is proved; every other loop is structural.  The theorems on VAT need \<open>amount * rate < 10 ^ 27\<close>,
  below which the 28 digits of \<open>decimal\<close> are exact.  The watchdog takes 100 rows per tick.

  What goes wrong.  Several lemmas are counterexamples to what a comment, a document or the surrounding
  code promises, e.g. \<open>accept_call_lost\<close>, \<open>order_numbers_collide\<close>, \<open>stale_read_expires_a_paid_link\<close>.

  Not modelled.  The framework (routing, authentication dependencies, request validation beyond the
  constraints the handlers rely on, sessions of the database driver), notifications and realtime events,
  listings and exports, which only read.  The language understanding of the chat
  (\<^verbatim>\<open>bot/pipeline.py\<close>, \<^verbatim>\<open>intent_router.py\<close>, \<^verbatim>\<open>llm/*\<close>) rests on regular expressions and
  on a language model.  The clients of payment providers, of WhatsApp and of the marketplaces speak to
  services whose code is not here; what they answer is a parameter.  The administration of tenants
  (\<^verbatim>\<open>admin_api\<close>), billing, onboarding and the settings endpoints write rows the model reads but no
  component here depends on how they got there.
\<close>

end
